(* ===== verification/Effects.thy ===== *)
theory Effects
  imports Main "HOL-Library.Sublist"
begin

text \<open>
  The development's prelude: the effect of a Go method on the daemon's state, and the generic
  lemmas about lists of rows the components share.

  A method of the code that reads or writes shared state and can fail is an action: a function
  from the state to a result (\<open>Inl\<close> an error, \<open>Inr\<close> a value) and the next state. A Go
  \<open>if err != nil { return err }\<close> is \<open>bind_act\<close>, a \<open>for range\<close> loop that returns at the
  first error is \<open>for_each\<close>. A panic travels the same way an error does.
\<close>

named_theorems act_simps \<open>unfolding equations of the action combinators\<close>
named_theorems moves_rules \<open>rules that lift a preorder on states to whole actions\<close>

subsection \<open>Actions\<close>

type_synonym ('s, 'e, 'a) act = "'s \<Rightarrow> ('e + 'a) \<times> 's"

definition return_act :: "'a \<Rightarrow> ('s, 'e, 'a) act" where
  "return_act a s = (Inr a, s)"

definition fail_act :: "'e \<Rightarrow> ('s, 'e, 'a) act" where
  "fail_act e s = (Inl e, s)"

definition read_act :: "('s \<Rightarrow> 'a) \<Rightarrow> ('s, 'e, 'a) act" where
  "read_act f s = (Inr (f s), s)"

definition modify_act :: "('s \<Rightarrow> 's) \<Rightarrow> ('s, 'e, unit) act" where
  "modify_act f s = (Inr (), f s)"

definition bind_act :: "('s, 'e, 'a) act \<Rightarrow> ('a \<Rightarrow> ('s, 'e, 'b) act) \<Rightarrow> ('s, 'e, 'b) act" where
  "bind_act m k s = (case m s of (Inl e, s') \<Rightarrow> (Inl e, s') | (Inr a, s') \<Rightarrow> k a s')"

definition catch_act :: "('s, 'e, 'a) act \<Rightarrow> ('e \<Rightarrow> ('s, 'e, 'a) act) \<Rightarrow> ('s, 'e, 'a) act" where
  "catch_act m h s = (case m s of (Inl e, s') \<Rightarrow> h e s' | (Inr a, s') \<Rightarrow> (Inr a, s'))"

text \<open>The loops of the code: \<open>for_each\<close> runs a body per element, \<open>collect\<close> also keeps each result.\<close>

fun for_each :: "'a list \<Rightarrow> ('a \<Rightarrow> ('s, 'e, unit) act) \<Rightarrow> ('s, 'e, unit) act" where
  "for_each [] f = return_act ()"
| "for_each (x # xs) f = bind_act (f x) (\<lambda>_. for_each xs f)"

fun collect :: "'a list \<Rightarrow> ('a \<Rightarrow> ('s, 'e, 'b) act) \<Rightarrow> ('s, 'e, 'b list) act" where
  "collect [] f = return_act []"
| "collect (x # xs) f = bind_act (f x) (\<lambda>y. bind_act (collect xs f) (\<lambda>ys. return_act (y # ys)))"

lemmas act_defs = return_act_def fail_act_def read_act_def modify_act_def bind_act_def

declare act_defs [act_simps]

lemma bind_act_InrE:
  assumes "bind_act m k s = (Inr b, s'')"
  obtains a s' where "m s = (Inr a, s')" and "k a s' = (Inr b, s'')"
  using assms by (auto simp: bind_act_def split: prod.splits sum.splits)

lemma bind_act_InlE:
  assumes "bind_act m k s = (Inl e, s'')"
  obtains (first) "m s = (Inl e, s'')"
    | (second) a s' where "m s = (Inr a, s')" and "k a s' = (Inl e, s'')"
  using assms by (auto simp: bind_act_def split: prod.splits sum.splits)

lemma bind_act_Inr [simp]: "m s = (Inr a, s') \<Longrightarrow> bind_act m k s = k a s'"
  by (simp add: bind_act_def)

lemma bind_act_Inl [simp]: "m s = (Inl e, s') \<Longrightarrow> bind_act m k s = (Inl e, s')"
  by (simp add: bind_act_def)

text \<open>A loop that collects the answers of a read-only body.\<close>

lemma collect_reads:
  assumes "collect xs f s = (Inr ys, s')" and "I s"
    and body: "\<And>x s a s'. I s \<Longrightarrow> f x s = (Inr a, s') \<Longrightarrow> I s' \<and> P x a"
  shows "I s' \<and> list_all2 P xs ys"
  using assms(1,2)
proof (induction xs arbitrary: s ys)
  case (Cons x xs)
  from Cons.prems(1) obtain a s1 as where "f x s = (Inr a, s1)" "collect xs f s1 = (Inr as, s')" "ys = a # as"
    by (auto elim!: bind_act_InrE simp: return_act_def)
  with body Cons.prems(2) Cons.IH show ?case by blast
qed (auto simp: return_act_def)

lemma return_act_Inr [simp]: "return_act a s = (Inr b, s') \<longleftrightarrow> a = b \<and> s' = s"
  by (auto simp: return_act_def)

lemma fail_act_not_Inr [simp]: "fail_act e s \<noteq> (Inr b, s')"
  by (simp add: fail_act_def)

subsection \<open>Actions that move along a preorder\<close>

text \<open>
  \<open>moves R m\<close>: whatever the action does, result or error, it takes the state along \<open>R\<close>. With
  \<open>R s s' = (P s \<longrightarrow> P s')\<close> this is preservation of an invariant; with a relation between the two
  states it is a frame property or a transition discipline. The rules only need \<open>R\<close> to be a
  preorder, so they are proved once, in a locale, and each discipline interprets it.
\<close>

definition moves :: "('s \<Rightarrow> 's \<Rightarrow> bool) \<Rightarrow> ('s, 'e, 'a) act \<Rightarrow> bool" where
  "moves R m \<longleftrightarrow> (\<forall>s. R s (snd (m s)))"

lemma movesI: "(\<And>s. R s (snd (m s))) \<Longrightarrow> moves R m"
  by (simp add: moves_def)

lemma movesD: "moves R m \<Longrightarrow> R s (snd (m s))"
  by (simp add: moves_def)

lemma moves_resultD: "moves R m \<Longrightarrow> m s = (r, s') \<Longrightarrow> R s s'"
  by (metis movesD snd_conv)

locale state_preorder =
  fixes R :: "'s \<Rightarrow> 's \<Rightarrow> bool"
  assumes refl_R: "R s s"
    and trans_R: "R s t \<Longrightarrow> R t u \<Longrightarrow> R s u"
begin

lemma moves_return [moves_rules]: "moves R (return_act a)"
  by (simp add: moves_def return_act_def refl_R)

lemma moves_fail [moves_rules]: "moves R (fail_act e)"
  by (simp add: moves_def fail_act_def refl_R)

lemma moves_read [moves_rules]: "moves R (read_act f)"
  by (simp add: moves_def read_act_def refl_R)

lemma moves_modify: "(\<And>s. R s (f s)) \<Longrightarrow> moves R (modify_act f)"
  by (simp add: moves_def modify_act_def)

lemma moves_bind [moves_rules]:
  assumes m: "moves R m" and k: "\<And>a. moves R (k a)"
  shows "moves R (bind_act m k)"
proof (rule movesI)
  fix s
  obtain r s' where ms: "m s = (r, s')" by (cases "m s")
  with m have "R s s'" by (rule moves_resultD)
  moreover have "R s' (snd (k a s'))" for a using k by (rule movesD)
  ultimately show "R s (snd (bind_act m k s))"
    using ms by (cases r) (auto simp: bind_act_def intro: trans_R)
qed

lemma moves_catch [moves_rules]:
  assumes m: "moves R m" and h: "\<And>e. moves R (h e)"
  shows "moves R (catch_act m h)"
proof (rule movesI)
  fix s
  obtain r s' where ms: "m s = (r, s')" by (cases "m s")
  with m have "R s s'" by (rule moves_resultD)
  moreover have "R s' (snd (h e s'))" for e using h by (rule movesD)
  ultimately show "R s (snd (catch_act m h s))"
    using ms by (cases r) (auto simp: catch_act_def intro: trans_R)
qed

lemma moves_option [moves_rules]:
  "moves R n \<Longrightarrow> (\<And>x. moves R (f x)) \<Longrightarrow> moves R (case v of None \<Rightarrow> n | Some x \<Rightarrow> f x)"
  by (cases v) auto

lemma moves_if [moves_rules]: "moves R m \<Longrightarrow> moves R n \<Longrightarrow> moves R (if b then m else n)"
  by simp

lemma moves_sum [moves_rules]:
  "(\<And>e. moves R (f e)) \<Longrightarrow> (\<And>x. moves R (g x)) \<Longrightarrow> moves R (case v of Inl e \<Rightarrow> f e | Inr x \<Rightarrow> g x)"
  by (cases v) auto

lemma moves_let [moves_rules]: "(\<And>x. moves R (f x)) \<Longrightarrow> moves R (let x = v in f x)"
  by (simp add: Let_def)

lemma moves_for_each_in: "(\<And>x. x \<in> set xs \<Longrightarrow> moves R (f x)) \<Longrightarrow> moves R (for_each xs f)"
  by (induction xs) (auto intro!: moves_return moves_bind)

lemma moves_for_each [moves_rules]: "(\<And>x. moves R (f x)) \<Longrightarrow> moves R (for_each xs f)"
  by (induction xs) (auto intro!: moves_rules)

lemma moves_collect [moves_rules]: "(\<And>x. moves R (f x)) \<Longrightarrow> moves R (collect xs f)"
  by (induction xs) (auto intro!: moves_rules)

end

text \<open>Keeping an invariant is the instance most proofs use.\<close>

definition keeps :: "('s \<Rightarrow> bool) \<Rightarrow> 's \<Rightarrow> 's \<Rightarrow> bool" where
  "keeps P s s' \<longleftrightarrow> (P s \<longrightarrow> P s')"

interpretation keeping: state_preorder "keeps P"
  by unfold_locales (auto simp: keeps_def)

lemma moves_keepsD: "moves (keeps P) m \<Longrightarrow> P s \<Longrightarrow> m s = (r, s') \<Longrightarrow> P s'"
  by (drule moves_resultD) (auto simp: keeps_def)

text \<open>Two states that agree on a projection: the frame property of a read-only action.\<close>

definition same_under :: "('s \<Rightarrow> 'x) \<Rightarrow> 's \<Rightarrow> 's \<Rightarrow> bool" where
  "same_under f s s' \<longleftrightarrow> f s' = f s"

interpretation framing: state_preorder "same_under f"
  by unfold_locales (auto simp: same_under_def)

lemma moves_sameD: "moves (same_under f) m \<Longrightarrow> m s = (r, s') \<Longrightarrow> f s' = f s"
  by (drule moves_resultD) (auto simp: same_under_def)

subsection \<open>Lists of rows\<close>

text \<open>The three shapes of SQL statement the stores issue, over a table as a list of rows.\<close>

definition update_where :: "('r \<Rightarrow> bool) \<Rightarrow> ('r \<Rightarrow> 'r) \<Rightarrow> 'r list \<Rightarrow> 'r list" where
  "update_where p f rows = map (\<lambda>r. if p r then f r else r) rows"

definition delete_where :: "('r \<Rightarrow> bool) \<Rightarrow> 'r list \<Rightarrow> 'r list" where
  "delete_where p rows = filter (\<lambda>r. \<not> p r) rows"

definition count_where :: "('r \<Rightarrow> bool) \<Rightarrow> 'r list \<Rightarrow> int" where
  "count_where p rows = int (length (filter p rows))"

lemma set_update_where:
  "r \<in> set (update_where p f rows) \<longleftrightarrow>
     (\<exists>r0 \<in> set rows. r = (if p r0 then f r0 else r0))"
  by (auto simp: update_where_def)

lemma set_delete_where [simp]: "set (delete_where p rows) = {r \<in> set rows. \<not> p r}"
  by (auto simp: delete_where_def)

lemma map_update_where:
  "(\<And>r. g (f r) = g r) \<Longrightarrow> map g (update_where p f rows) = map g rows"
  by (simp add: update_where_def)

lemma update_where_nomatch: "(\<And>r. r \<in> set rows \<Longrightarrow> \<not> p r) \<Longrightarrow> update_where p f rows = rows"
  by (simp add: update_where_def map_idI)

lemma count_where_pos: "0 < count_where p rows \<longleftrightarrow> (\<exists>r \<in> set rows. p r)"
  by (auto simp: count_where_def length_greater_0_conv filter_empty_conv)

lemma count_where_nonneg [simp]: "0 \<le> count_where p rows"
  by (simp add: count_where_def)

lemma count_where_le: "count_where p rows \<le> int (length rows)"
  by (simp add: count_where_def)

lemma list_all2_eq_map: "list_all2 (\<lambda>x y. y = f x) xs ys \<Longrightarrow> ys = map f xs"
  by (induction rule: list_all2_induct) simp_all

lemma set_tl_subset: "set (tl xs) \<subseteq> set xs"
  by (cases xs) auto

lemma find_Some_iff_hd: "find p xs = (case filter p xs of [] \<Rightarrow> None | x # _ \<Rightarrow> Some x)"
  by (induction xs) auto

lemma find_SomeD: "find p xs = Some x \<Longrightarrow> x \<in> set xs \<and> p x"
  by (induction xs) (auto split: if_splits)

lemma find_NoneD: "find p xs = None \<Longrightarrow> x \<in> set xs \<Longrightarrow> \<not> p x"
  by (induction xs) (auto split: if_splits)

lemma find_distinct:
  assumes "distinct (map k xs)" and "x \<in> set xs"
  shows "find (\<lambda>y. k y = k x) xs = Some x"
  using assms by (induction xs) auto

lemma sorted_map_filter: "sorted_wrt (<) (map k xs) \<Longrightarrow> sorted_wrt (<) (map k (filter p xs))"
  for k :: "'a \<Rightarrow> 'b :: linorder"
  by (induction xs) auto

lemma strict_sorted_distinct: "sorted_wrt (<) (xs :: 'a :: linorder list) \<Longrightarrow> distinct xs"
  by (induction xs) auto

lemma sort_key_sorted: "sorted_wrt (<) (map k xs) \<Longrightarrow> sort_key k xs = xs"
  for k :: "'a \<Rightarrow> 'b :: linorder"
  by (rule sort_key_id_if_sorted) (simp add: strict_sorted_imp_sorted)

subsection \<open>Text order\<close>

text \<open>SQLite's BINARY collation: text compares byte by byte, a proper prefix first.\<close>

fun text_less :: "string \<Rightarrow> string \<Rightarrow> bool" where
  "text_less xs [] = False"
| "text_less [] (y # ys) = True"
| "text_less (x # xs) (y # ys) =
     (if (of_char x :: nat) < of_char y then True
      else if (of_char x :: nat) = of_char y then text_less xs ys else False)"

lemma text_less_irrefl [simp]: "\<not> text_less xs xs"
  by (induction xs) auto

lemma text_less_trans: "text_less xs ys \<Longrightarrow> text_less ys zs \<Longrightarrow> text_less xs zs"
proof (induction xs ys arbitrary: zs rule: text_less.induct)
  case (2 y ys)
  then show ?case by (cases zs) auto
next
  case (3 x xs y ys)
  then show ?case by (cases zs) (auto split: if_splits)
qed auto

lemma text_less_total: "text_less xs ys \<or> xs = ys \<or> text_less ys xs"
  by (induction xs ys rule: text_less.induct) (auto simp: neq_Nil_conv dest: linorder_cases, (metis list.exhaust text_less.simps(2))?)

end
