(* ===== verification/Contracts.thy ===== *)
theory Contracts
  imports Complex_Main Effects
begin

text \<open>
  The shared vocabulary of the daemon: \<open>go/internal/observability/contracts.go\<close> (the enums and
  records every layer exchanges), \<open>errors.go\<close> (the acknowledgement error codes),
  \<open>interactive_pi.go\<close> and the pure helpers of \<open>agent_index_types.go\<close>.

  A pointer field is an \<open>option\<close>. An enum of string constants is a datatype with the source's
  constructor names. A JSON value (\<open>any\<close> after \<open>encoding/json\<close>) is a \<open>jval\<close>. A timestamp,
  which the records carry as ISO text with milliseconds, is its number of milliseconds: the
  text is written by \<open>formatTimestamp\<close> and read back by \<open>time.Parse\<close> with the same layout.
\<close>

subsection \<open>Enums\<close>

datatype AgentStatus =
  AgentStatusBlocked | AgentStatusDone | AgentStatusIdle | AgentStatusUnknown | AgentStatusWorking

datatype AgentEventType =
  AgentEventBlocked | AgentEventDiscarded | AgentEventDone | AgentEventFailed | AgentEventIdle
  | AgentEventStatusChanged | AgentEventToolFailed

datatype AgentEventStatus =
  AgentEventStatusPending | AgentEventStatusDelivered | AgentEventStatusAcked
  | AgentEventStatusInvalidated | AgentEventStatusFailed

datatype AgentOrchestratorChangeReason =
  OrchestratorChangeClaimed | OrchestratorChangeDisconnected | OrchestratorChangeMoved
  | OrchestratorChangeReleased | OrchestratorChangeStartupTimeout

datatype AgentSessionRefKind = SessionRefID | SessionRefPath

fun agent_status_text :: "AgentStatus \<Rightarrow> string" where
  "agent_status_text AgentStatusBlocked = ''blocked''"
| "agent_status_text AgentStatusDone = ''done''"
| "agent_status_text AgentStatusIdle = ''idle''"
| "agent_status_text AgentStatusUnknown = ''unknown''"
| "agent_status_text AgentStatusWorking = ''working''"

text \<open>Anything outside the five known statuses collapses to unknown.\<close>

definition ParseAgentStatus :: "string \<Rightarrow> AgentStatus" where
  "ParseAgentStatus value =
     (if value = ''blocked'' then AgentStatusBlocked
      else if value = ''done'' then AgentStatusDone
      else if value = ''idle'' then AgentStatusIdle
      else if value = ''working'' then AgentStatusWorking
      else AgentStatusUnknown)"

lemma ParseAgentStatus_text [simp]: "ParseAgentStatus (agent_status_text st) = st"
  by (cases st) (simp_all add: ParseAgentStatus_def)

lemma agent_status_text_inj: "agent_status_text s = agent_status_text t \<longleftrightarrow> s = t"
  by (metis ParseAgentStatus_text)

definition PlanWaitingHistory :: string where "PlanWaitingHistory = ''PLAN_WAITING_HISTORY''"
definition PlanStalled :: string where "PlanStalled = ''PLAN_STALLED''"
definition DegradedPlanError :: string where "DegradedPlanError = ''degraded''"

definition StalledPlanErrors :: "string list" where
  "StalledPlanErrors = [PlanWaitingHistory, PlanStalled, DegradedPlanError]"

definition ValidAgentEventTypes :: "AgentEventType list" where
  "ValidAgentEventTypes =
     [AgentEventStatusChanged, AgentEventIdle, AgentEventDone, AgentEventBlocked,
      AgentEventFailed, AgentEventDiscarded]"

subsection \<open>JSON values\<close>

datatype jval =
  JNull | JBool bool | JNum rat | JStr string | JArr "jval list" | JObj "(string \<times> jval) list"

text \<open>\<open>asRecord\<close>: a value that is not an object degrades to the empty object.\<close>

fun asRecord :: "jval \<Rightarrow> (string \<times> jval) list" where
  "asRecord (JObj kvs) = kvs"
| "asRecord _ = []"

fun as_string :: "jval option \<Rightarrow> string option" where
  "as_string (Some (JStr s)) = Some s"
| "as_string _ = None"

fun as_bool :: "jval option \<Rightarrow> bool option" where
  "as_bool (Some (JBool b)) = Some b"
| "as_bool _ = None"

text \<open>\<open>payloadFrom\<close>: an absent or non-string \<open>from\<close> collapses to the empty string.\<close>

definition payloadFrom :: "jval \<Rightarrow> string" where
  "payloadFrom payload =
     (case as_string (map_of (asRecord payload) ''from'') of Some from \<Rightarrow> from | None \<Rightarrow> [])"

subsection \<open>Histories\<close>

record AgentHistoryExcerpt =
  x_Ref :: string
  x_StopReason :: "string option"
  x_Text :: string
  x_Timestamp :: "string option"

record AgentHistoryRef =
  hr_Kind :: string
  hr_Path :: "string option"
  hr_Source :: string
  hr_Value :: string

record CompactToolResult =
  tr_Mode :: string
  tr_OriginalChars :: int
  tr_ReturnedChars :: int
  tr_IsError :: bool
  tr_Ref :: string
  tr_Text :: string
  tr_ToolName :: string

record CompactAgentHistory =
  ch_HistoryRef :: "AgentHistoryRef option"
  ch_LastAssistantMessage :: "AgentHistoryExcerpt option"
  ch_LastToolResult :: "CompactToolResult option"
  ch_LastUserMessage :: "AgentHistoryExcerpt option"
  ch_MessageCount :: int
  ch_Source :: "string option"
  ch_UnreadyReason :: "string option"
  ch_UpdatedAt :: "string option"

text \<open>
  \<open>strings.TrimSpace(s) == ""\<close>: the text is a sequence of white-space characters in UTF-8, the
  six of ASCII and those of Unicode's \<open>White_Space\<close> property.
\<close>

definition ascii_space :: "nat \<Rightarrow> bool" where
  "ascii_space c \<longleftrightarrow> c \<in> {9, 10, 11, 12, 13, 32}"

fun blank_bytes :: "nat list \<Rightarrow> bool" where
  "blank_bytes [] = True"
| "blank_bytes (a # b # c # rest) =
     (if ascii_space a then blank_bytes (b # c # rest)
      else if a = 194 \<and> (b = 133 \<or> b = 160) then blank_bytes (c # rest)
      else if (a = 225 \<and> b = 154 \<and> c = 128) \<or> (a = 226 \<and> b = 128 \<and> 128 \<le> c \<and> c \<le> 138)
        \<or> (a = 226 \<and> b = 128 \<and> (c = 168 \<or> c = 169 \<or> c = 175)) \<or> (a = 226 \<and> b = 129 \<and> c = 159)
        \<or> (a = 227 \<and> b = 128 \<and> c = 128) then blank_bytes rest
      else False)"
| "blank_bytes [a, b] =
     (if ascii_space a then blank_bytes [b] else a = 194 \<and> (b = 133 \<or> b = 160))"
| "blank_bytes [a] = ascii_space a"

definition trims_to_empty :: "string \<Rightarrow> bool" where
  "trims_to_empty s = blank_bytes (map of_char s)"

definition HasNonEmptyAssistantMessage :: "CompactAgentHistory option \<Rightarrow> bool" where
  "HasNonEmptyAssistantMessage compactHistory =
     (case compactHistory of None \<Rightarrow> False
      | Some h \<Rightarrow> (case ch_LastAssistantMessage h of None \<Rightarrow> False
          | Some m \<Rightarrow> \<not> trims_to_empty (x_Text m)))"

definition isTerminalAssistant :: "CompactAgentHistory option \<Rightarrow> bool" where
  "isTerminalAssistant history =
     (case history of None \<Rightarrow> False
      | Some h \<Rightarrow> (case ch_LastAssistantMessage h of None \<Rightarrow> False
          | Some m \<Rightarrow> (case x_StopReason m of None \<Rightarrow> False
              | Some stopReason \<Rightarrow> stopReason = ''stop'' \<or> stopReason = ''length'')))"

text \<open>A last assistant message that ended on \<open>toolUse\<close> is a tool round still in flight.\<close>

definition isInFlightToolUseHistory :: "CompactAgentHistory option \<Rightarrow> bool" where
  "isInFlightToolUseHistory compactHistory =
     (case compactHistory of None \<Rightarrow> False
      | Some h \<Rightarrow> (case ch_LastAssistantMessage h of None \<Rightarrow> False
          | Some m \<Rightarrow> x_StopReason m = Some ''toolUse''))"

lemma toolUse_not_terminal: "isInFlightToolUseHistory h \<Longrightarrow> \<not> isTerminalAssistant h"
  by (auto simp: isInFlightToolUseHistory_def isTerminalAssistant_def split: option.splits)

subsection \<open>Agents, events, scopes\<close>

record AgentSessionRef =
  sr_Agent :: string
  sr_Kind :: AgentSessionRefKind
  sr_Source :: string
  sr_Value :: string

record AgentIndexRecord =
  a_Agent :: "string option"
  a_AgentSession :: "AgentSessionRef option"
  a_AgentStatus :: AgentStatus
  a_Cwd :: "string option"
  a_FirstSeenAt :: int
  a_Focused :: bool
  a_ForegroundCwd :: "string option"
  a_HerdrSessionName :: string
  a_ID :: string
  a_LastSeenAt :: int
  a_Name :: "string option"
  a_PaneID :: string
  a_TerminalTitle :: "string option"
  a_PaneRevision :: "int option"
  a_PaneGeneration :: "string option"
  a_TabID :: "string option"
  a_TerminalID :: "string option"
  a_WorkspaceID :: string

record AgentEventRecord =
  e_AgentID :: "string option"
  e_CompactHistory :: "CompactAgentHistory option"
  e_CreatedAt :: int
  e_HerdrSessionName :: string
  e_ID :: int
  e_PaneID :: "string option"
  e_PaneGeneration :: "string option"
  e_Deliverable :: int
  e_Status :: "AgentEventStatus option"
  e_DeliveryAttempts :: "int option"
  e_LastAttemptAt :: "int option"
  e_NextAttemptAt :: "int option"
  e_LastFailureCode :: "string option"
  e_InvalidatedReason :: "string option"
  e_DeliveredToTerminalID :: "string option"
  e_Payload :: jval
  e_TerminalID :: "string option"
  e_Type :: AgentEventType
  e_WorkspaceID :: "string option"

record AgentScope =
  s_HerdrSessionName :: string
  s_WorkspaceID :: string

record AgentOrchestratorOwner =
  o_PaneID :: string
  o_TerminalID :: string

record AgentOrchestratorState =
  os_Scope :: AgentScope
  os_AckedEventID :: int
  os_Owner :: "AgentOrchestratorOwner option"
  os_UpdatedAt :: int

record AgentQueryScope =
  q_All :: "bool option"
  q_HerdrSessionName :: "string option"
  q_WorkspaceID :: "string option"

subsection \<open>Acknowledgement errors\<close>

datatype OrchestratorAckErrorCode =
  AckNotOwner | AckEventInvalidated | AckEventFailed | AckEventAlreadyAcked | AckEventNotInScope
  | AckEventOutOfOrder | AckOwnerReplaced | AckEventNotFound | AckBusy | AckConnectionLost
  | AckReconciling | AckTimeout

fun OrchestratorAckErrorCodeRetryable :: "OrchestratorAckErrorCode \<Rightarrow> bool" where
  "OrchestratorAckErrorCodeRetryable AckBusy = True"
| "OrchestratorAckErrorCodeRetryable AckConnectionLost = True"
| "OrchestratorAckErrorCodeRetryable AckReconciling = True"
| "OrchestratorAckErrorCodeRetryable AckTimeout = True"
| "OrchestratorAckErrorCodeRetryable _ = False"

definition MsgAckNotOwner :: string where
  "MsgAckNotOwner = ''Only the current orchestrator can acknowledge notifications''"
definition MsgAckInvalidated :: string where
  "MsgAckInvalidated = ''orchestrator event is no longer pending (invalidated)''"
definition MsgAckOutOfOrder :: string where
  "MsgAckOutOfOrder = ''Only the next pending orchestrator event can be acknowledged''"

text \<open>
  Every error value a modelled method returns: a text (\<open>errors.New\<close>, \<open>fmt.Errorf\<close>), a driver
  failure, a constraint violation reported by SQLite, an acknowledgement error with its code and
  message, the \<open>PlanWaitingHistoryError\<close> that sends a plan back to wait, and a run-time panic
  that unwinds through the method.
\<close>

datatype go_error =
  ErrText string | ErrDriver | ErrConstraint | ErrAck OrchestratorAckErrorCode string
  | ErrPlanWaiting | ErrPanic string

definition NewOrchestratorAckError :: "OrchestratorAckErrorCode \<Rightarrow> string \<Rightarrow> go_error" where
  "NewOrchestratorAckError code message = ErrAck code message"

subsection \<open>Interactive pi agents\<close>

fun str_contains :: "string \<Rightarrow> string \<Rightarrow> bool" where
  "str_contains p [] = (p = [])"
| "str_contains p (c # cs) = (prefix p (c # cs) \<or> str_contains p cs)"

fun split_on :: "char \<Rightarrow> string \<Rightarrow> string list" where
  "split_on sep [] = [[]]"
| "split_on sep (c # cs) =
     (if c = sep then [] # split_on sep cs
      else (case split_on sep cs of [] \<Rightarrow> [[c]] | w # ws \<Rightarrow> (c # w) # ws))"

fun join_with :: "string \<Rightarrow> string list \<Rightarrow> string" where
  "join_with sep [] = []"
| "join_with sep [w] = w"
| "join_with sep (w # ws) = w @ sep @ join_with sep ws"

definition lower_hex :: "char \<Rightarrow> bool" where
  "lower_hex c \<longleftrightarrow> (let n = of_char c :: nat in (48 \<le> n \<and> n \<le> 57) \<or> (97 \<le> n \<and> n \<le> 102))"

definition to_lower :: "char \<Rightarrow> char" where
  "to_lower c = (let n = of_char c :: nat in if 65 \<le> n \<and> n \<le> 90 then char_of (n + 32) else c)"

text \<open>\<open>filepath.Clean\<close> on a slash-separated path; the stack of kept elements is in reverse.\<close>

definition clean_step :: "bool \<Rightarrow> string list \<Rightarrow> string \<Rightarrow> string list" where
  "clean_step rooted kept elem =
     (if elem = [] \<or> elem = ''.'' then kept
      else if elem = ''..'' then
        (case kept of [] \<Rightarrow> if rooted then [] else [''..'']
         | kept_last # rest \<Rightarrow> if kept_last = ''..'' then ''..'' # kept else rest)
      else elem # kept)"

definition path_clean :: "string \<Rightarrow> string" where
  "path_clean path =
     (let rooted = (path \<noteq> [] \<and> hd path = CHR ''/'');
          body = join_with ''/'' (rev (foldl (clean_step rooted) [] (split_on (CHR ''/'') path)))
      in if rooted then CHR ''/'' # body else if body = [] then ''.'' else body)"

definition DispatchedPiSessionRoot :: string where
  "DispatchedPiSessionRoot = ''/tmp/herdr-role-sessions/''"

text \<open>
  \<open>IsInteractivePiAgent\<close>. \<open>filepath.EvalSymlinks\<close> reads the file system: it is the argument
  \<open>evalSymlinks\<close>, \<open>None\<close> where it fails.
\<close>

definition IsInteractivePiAgent ::
    "(string \<Rightarrow> string option) \<Rightarrow> AgentIndexRecord option \<Rightarrow> bool" where
  "IsInteractivePiAgent evalSymlinks agent =
     (case agent of None \<Rightarrow> False
      | Some a \<Rightarrow>
        if \<not> (a_Agent a = Some ''pi'' \<or> a_Agent a = Some ''pig'') then False
        else (case a_AgentSession a of None \<Rightarrow> False
          | Some ref \<Rightarrow>
            if sr_Value ref = [] then False
            else let raw = sr_Value ref in
              if str_contains ''..'' raw then False
              else let resolved = (case evalSymlinks raw of Some r \<Rightarrow> r | None \<Rightarrow> path_clean raw)
                in \<not> prefix DispatchedPiSessionRoot resolved))"

end
