(* ===== verification/Database.thy ===== *)
theory Database
  imports Contracts
begin

text \<open>
  The one SQLite database of the daemon: the tables of \<open>go/internal/db/schema.go\<close> the modelled
  stores use, the stored rows as the stores scan them (\<open>agentEventRow\<close>, \<open>statusEventPlanRow\<close>,
  \<open>scopeRow\<close>, \<open>agentRow\<close>), the execution of one statement, and
  \<open>shared/sqlite_transaction.go\<close>'s \<open>RunSqliteTransaction\<close>.

  A JSON column holds the decoded value: every writer goes through \<open>json.Marshal\<close>. Text columns
  holding an enum hold the enum's constructor. A statement consults the fault schedule
  \<open>w_faults\<close>: each entry says whether the next statement sent to the driver fails, and past its
  end no statement fails; a theorem for every \<open>w_faults\<close> is a theorem for every pattern of
  driver failures. \<open>w_wall\<close> is what \<open>time.Now().UnixMilli()\<close> reads.
\<close>

subsection \<open>Rows\<close>

record agentEventRow =
  r_agentID :: "string option"
  r_compactHistory :: "CompactAgentHistory option"
  r_createdAtMs :: int
  r_herdrSessionName :: string
  r_id :: int
  r_idempotencyKey :: "string option"
  r_paneID :: "string option"
  r_paneGeneration :: "string option"
  r_payload :: jval
  r_deliveryAttempts :: int
  r_lastAttemptAtMs :: "int option"
  r_nextAttemptAtMs :: "int option"
  r_lastFailureCode :: "string option"
  r_invalidatedReason :: "string option"
  r_deliveredToTerminalID :: "string option"
  r_status :: AgentEventStatus
  r_deliverable :: int
  r_terminalID :: "string option"
  r_eventType :: AgentEventType
  r_workspaceID :: "string option"

datatype StatusEventPlanStatus =
  StatusPlanPending | StatusPlanRunning | StatusPlanCompleted | StatusPlanCancelled
  | StatusPlanFailed | StatusPlanDiscarded

record statusEventPlanRow =
  p_agentID :: string
  p_attempts :: int
  p_compactHistory :: "CompactAgentHistory option"
  p_createdAtMs :: int
  p_fromStatus :: AgentStatus
  p_herdrEventKey :: "string option"
  p_herdrSessionName :: string
  p_id :: int
  p_lastError :: "string option"
  p_paneGeneration :: "string option"
  p_paneID :: string
  p_status :: StatusEventPlanStatus
  p_toStatus :: AgentStatus
  p_updatedAtMs :: int

record scopeRow =
  c_ackedEventID :: int
  c_createdAt :: int
  c_herdrSessionName :: string
  c_ownerPaneID :: "string option"
  c_ownerTerminalID :: "string option"
  c_updatedAt :: int
  c_workspaceID :: string

record agentRow =
  g_agent :: "string option"
  g_agentSessionHint :: "jval option"
  g_agentSession :: "jval option"
  g_agentStatus :: AgentStatus
  g_cwd :: "string option"
  g_firstSeenAtMs :: int
  g_focused :: int
  g_foregroundCwd :: "string option"
  g_herdrSessionName :: string
  g_id :: string
  g_lastSeenAtMs :: int
  g_name :: "string option"
  g_paneID :: string
  g_paneRevision :: "int option"
  g_paneGeneration :: "string option"
  g_grokHome :: "string option"
  g_tabID :: "string option"
  g_terminalID :: "string option"
  g_workspaceID :: string

record sessionRow =
  h_lastScannedAt :: "int option"
  h_name :: string
  h_running :: int
  h_sessionDir :: string
  h_socketPath :: string
  h_updatedAt :: int

record workspaceRow =
  k_agentStatus :: AgentStatus
  k_focused :: int
  k_herdrSessionName :: string
  k_label :: "string option"
  k_lastSeenAt :: int
  k_workspaceID :: string

record agentContextSnapshotRow =
  n_agentID :: string
  n_compactHistory :: CompactAgentHistory
  n_historyRef :: "AgentHistoryRef option"
  n_paneRevision :: "int option"
  n_sourcePath :: "string option"
  n_sourceMtimeMs :: "int option"
  n_sourceSize :: "int option"
  n_updatedAtMs :: int

record agentHistoryCacheRow =
  y_compactHistory :: CompactAgentHistory
  y_formatterVersion :: string
  y_historyRef :: AgentHistoryRef
  y_id :: int
  y_sourceMtimeMs :: int
  y_sourcePath :: string
  y_sourceSize :: int
  y_updatedAtMs :: int

record tombstoneRow =
  t_closedAt :: int
  t_herdrSessionName :: string
  t_paneGeneration :: "string option"
  t_paneID :: string

text \<open>The tables; an \<open>autoincrement\<close> table carries the last id SQLite handed out.\<close>

record tables =
  agent_events :: "agentEventRow list"
  agent_events_seq :: int
  status_event_plans :: "statusEventPlanRow list"
  status_event_plans_seq :: int
  agent_orchestrator_scopes :: "scopeRow list"
  agents :: "agentRow list"
  herdr_sessions :: "sessionRow list"
  agent_pane_tombstones :: "tombstoneRow list"
  agent_context_snapshots :: "agentContextSnapshotRow list"
  herdr_workspaces :: "workspaceRow list"
  agent_history_cache :: "agentHistoryCacheRow list"
  agent_history_cache_seq :: int
  daemon_meta :: "(string \<times> string) list"

subsection \<open>The state of the daemon\<close>

text \<open>
  \<open>w_open\<close> is the snapshot an open transaction rolls back to. \<open>w_logicalNow\<close> and
  \<open>w_lastPersistedLogicalNow\<close> are the clock fields of \<open>AgentEventStore\<close>: memory of the process,
  which no rollback touches. \<open>w_evalSymlinks\<close> is the file system as \<open>filepath.EvalSymlinks\<close>
  reads it. \<open>w_uuids\<close> is what the system's random source will yield, call by call.
\<close>

record world =
  w_tables :: tables
  w_open :: "tables option"
  w_faults :: "bool list"
  w_wall :: int
  w_logicalNow :: int
  w_lastPersistedLogicalNow :: int
  w_terminalTitles :: "(string \<times> string) list"
  w_evalSymlinks :: "string \<Rightarrow> string option"
  w_uuids :: "nat \<Rightarrow> string"
  w_uuidsDrawn :: nat

type_synonym 'a op = "(world, go_error, 'a) act"

text \<open>What a crash would leave on disk: an open transaction does not count.\<close>

definition committed :: "world \<Rightarrow> tables" where
  "committed w = (case w_open w of None \<Rightarrow> w_tables w | Some t \<Rightarrow> t)"

definition next_fault :: "world \<Rightarrow> bool" where
  "next_fault w = (case w_faults w of [] \<Rightarrow> False | b # _ \<Rightarrow> b)"

definition spend_fault :: "world \<Rightarrow> world" where
  "spend_fault w = w\<lparr>w_faults := tl (w_faults w)\<rparr>"

text \<open>One statement: it fails in the driver, fails on a constraint, or runs.\<close>

definition exec_sql :: "(tables \<Rightarrow> go_error + 'a \<times> tables) \<Rightarrow> 'a op" where
  "exec_sql f w =
     (let w' = spend_fault w in
      if next_fault w then (Inl ErrDriver, w')
      else (case f (w_tables w') of
          Inl e \<Rightarrow> (Inl e, w')
        | Inr (a, t) \<Rightarrow> (Inr a, w'\<lparr>w_tables := t\<rparr>)))"

definition query_sql :: "(tables \<Rightarrow> 'a) \<Rightarrow> 'a op" where
  "query_sql f = exec_sql (\<lambda>t. Inr (f t, t))"

text \<open>An update or delete never violates a constraint here; it returns \<open>RowsAffected\<close>.\<close>

definition change_sql :: "(tables \<Rightarrow> int \<times> tables) \<Rightarrow> int op" where
  "change_sql f = exec_sql (\<lambda>t. Inr (f t))"

definition wall_clock :: "int op" where
  "wall_clock = read_act w_wall"

subsection \<open>Transactions\<close>

definition begin_immediate :: "unit op" where
  "begin_immediate w =
     (let w' = spend_fault w in
      if next_fault w \<or> w_open w \<noteq> None then (Inl ErrDriver, w')
      else (Inr (), w'\<lparr>w_open := Some (w_tables w)\<rparr>))"

definition rollback_tx :: "unit op" where
  "rollback_tx w =
     (let w' = spend_fault w in
      if next_fault w then (Inl ErrDriver, w')
      else (case w_open w of
          None \<Rightarrow> (Inl ErrDriver, w')
        | Some t \<Rightarrow> (Inr (), w'\<lparr>w_tables := t, w_open := None\<rparr>)))"

definition commit_tx :: "unit op" where
  "commit_tx w =
     (let w' = spend_fault w in
      if next_fault w \<or> w_open w = None then (Inl ErrDriver, w')
      else (Inr (), w'\<lparr>w_open := None\<rparr>))"

text \<open>
  \<open>RunSqliteTransaction\<close>: a failing callback is rolled back and its error returned; a failing
  commit is rolled back too; the outcome of the rollback itself is ignored. The recovery of a
  panic is the same path, as the panic is an error of the model.
\<close>

definition RunSqliteTransaction :: "'a op \<Rightarrow> 'a op" where
  "RunSqliteTransaction fn w =
     (case begin_immediate w of
        (Inl e, w1) \<Rightarrow> (Inl e, w1)
      | (Inr _, w1) \<Rightarrow>
        (case fn w1 of
           (Inl e, w2) \<Rightarrow> (Inl e, snd (rollback_tx w2))
         | (Inr a, w2) \<Rightarrow>
           (case commit_tx w2 of
              (Inl e, w3) \<Rightarrow> (Inl e, snd (rollback_tx w3))
            | (Inr _, w3) \<Rightarrow> (Inr a, w3))))"

subsection \<open>Facts about statements\<close>

lemma spend_fault_simps [simp]:
  "w_tables (spend_fault w) = w_tables w" "w_open (spend_fault w) = w_open w"
  "w_wall (spend_fault w) = w_wall w" "w_logicalNow (spend_fault w) = w_logicalNow w"
  "w_lastPersistedLogicalNow (spend_fault w) = w_lastPersistedLogicalNow w"
  "w_evalSymlinks (spend_fault w) = w_evalSymlinks w"
  "w_faults (spend_fault w) = tl (w_faults w)"
  by (simp_all add: spend_fault_def)

lemma no_faults [simp]: "w_faults w = [] \<Longrightarrow> \<not> next_fault w"
  by (simp add: next_fault_def)

lemma spend_no_faults [simp]: "w_faults w = [] \<Longrightarrow> spend_fault w = w"
  by (simp add: spend_fault_def)

lemma exec_sql_Inr:
  "exec_sql f w = (Inr a, w') \<longleftrightarrow>
     \<not> next_fault w \<and> (\<exists>t. f (w_tables w) = Inr (a, t) \<and> w' = (spend_fault w)\<lparr>w_tables := t\<rparr>)"
  by (auto simp: exec_sql_def Let_def split: sum.splits)

lemma change_sql_Inr:
  "change_sql f w = (Inr n, w') \<longleftrightarrow>
     \<not> next_fault w \<and> n = fst (f (w_tables w))
     \<and> w' = (spend_fault w)\<lparr>w_tables := snd (f (w_tables w))\<rparr>"
  by (cases "f (w_tables w)") (auto simp: change_sql_def exec_sql_Inr)

lemma query_sql_Inr:
  "query_sql f w = (Inr a, w') \<longleftrightarrow> \<not> next_fault w \<and> a = f (w_tables w) \<and> w' = spend_fault w"
proof -
  have "(spend_fault w)\<lparr>w_tables := w_tables w\<rparr> = spend_fault w"
    by (simp add: spend_fault_def)
  then show ?thesis by (auto simp: query_sql_def exec_sql_Inr)
qed

text \<open>With no fault left every statement runs.\<close>

lemma change_sql_ok: "w_faults w = [] \<Longrightarrow>
    change_sql f w = (Inr (fst (f (w_tables w))), w\<lparr>w_tables := snd (f (w_tables w))\<rparr>)"
  by (simp add: change_sql_Inr)

lemma query_sql_ok: "w_faults w = [] \<Longrightarrow> query_sql f w = (Inr (f (w_tables w)), w)"
  by (simp add: query_sql_Inr)

lemma wall_clock_eq [simp]: "wall_clock w = (Inr (w_wall w), w)"
  by (simp add: wall_clock_def read_act_def)

text \<open>A successful transaction: the callback ran between the snapshot and the commit.\<close>

lemma tx_InrE:
  assumes "RunSqliteTransaction fn w = (Inr a, w')"
  obtains w2 where "w_open w = None"
    and "fn ((spend_fault w)\<lparr>w_open := Some (w_tables w)\<rparr>) = (Inr a, w2)"
    and "w' = (spend_fault w2)\<lparr>w_open := None\<rparr>" and "\<not> next_fault w"
  using assms
  by (auto simp: RunSqliteTransaction_def begin_immediate_def commit_tx_def Let_def
      split: prod.splits sum.splits if_splits)

lemma tx_ok:
  assumes "w_faults w = []" and "w_open w = None"
    and "fn (w\<lparr>w_open := Some (w_tables w)\<rparr>) = (Inr a, w2)"
    and "w_faults w2 = []" and "w_open w2 \<noteq> None"
  shows "RunSqliteTransaction fn w = (Inr a, w2\<lparr>w_open := None\<rparr>)"
  using assms by (simp add: RunSqliteTransaction_def begin_immediate_def commit_tx_def Let_def)

subsection \<open>Durable transitions\<close>

text \<open>
  \<open>inside Q\<close>: an action that opens no transaction moves the tables along \<open>Q\<close>. \<open>durable Q\<close>: an
  action moves the committed tables along \<open>Q\<close>. The second holds of every modelled operation,
  transactional or not, under every fault schedule, and only asks \<open>Q\<close> of single statements.
\<close>

definition inside :: "(tables \<Rightarrow> tables \<Rightarrow> bool) \<Rightarrow> world \<Rightarrow> world \<Rightarrow> bool" where
  "inside Q w w' \<longleftrightarrow> w_open w' = w_open w \<and> Q (w_tables w) (w_tables w')"

definition durable :: "(tables \<Rightarrow> tables \<Rightarrow> bool) \<Rightarrow> world \<Rightarrow> world \<Rightarrow> bool" where
  "durable Q w w' \<longleftrightarrow> Q (committed w) (committed w')"

lemma tx_error_cases:
  assumes "RunSqliteTransaction fn w = (Inl e, w')"
  obtains (not_begun) "w' = spend_fault w"
    | (callback) e' w2 where "w_open w = None"
      and "fn ((spend_fault w)\<lparr>w_open := Some (w_tables w)\<rparr>) = (Inl e', w2)"
      and "w' = snd (rollback_tx w2)"
    | (commit) a w2 where "w_open w = None"
      and "fn ((spend_fault w)\<lparr>w_open := Some (w_tables w)\<rparr>) = (Inr a, w2)"
      and "w' = snd (rollback_tx (spend_fault w2))"
  using assms
  by (auto simp: RunSqliteTransaction_def begin_immediate_def commit_tx_def Let_def
      split: prod.splits sum.splits if_splits)

lemma committed_spend_fault [simp]: "committed (spend_fault w) = committed w"
  by (simp add: committed_def split: option.splits)

lemma committed_rollback: "w_open w = Some t \<Longrightarrow> committed (snd (rollback_tx w)) = t"
  by (simp add: rollback_tx_def committed_def Let_def)

lemma moves_inside_open:
  "moves (inside Q) m \<Longrightarrow> m w = (r, w') \<Longrightarrow> w_open w' = w_open w \<and> Q (w_tables w) (w_tables w')"
  by (drule moves_resultD) (auto simp: inside_def)

text \<open>An error leaves the committed tables as they were, whatever statement failed.\<close>

lemma tx_error_committed:
  assumes fn: "moves (inside Q) fn" and err: "RunSqliteTransaction fn w = (Inl e, w')"
  shows "committed w' = committed w"
  using err
proof (cases rule: tx_error_cases)
  case not_begun
  then show ?thesis by simp
next
  case (callback e' w2)
  with fn have "w_open w2 = Some (w_tables w)" by (auto dest: moves_inside_open)
  with callback show ?thesis by (simp add: committed_rollback) (simp add: committed_def)
next
  case (commit a w2)
  with fn have "w_open w2 = Some (w_tables w)" by (auto dest: moves_inside_open)
  with commit show ?thesis by (simp add: committed_rollback) (simp add: committed_def)
qed

locale table_discipline =
  fixes Q :: "tables \<Rightarrow> tables \<Rightarrow> bool"
  assumes refl_Q: "Q t t" and trans_Q: "Q t u \<Longrightarrow> Q u v \<Longrightarrow> Q t v"
begin

sublocale ins: state_preorder "inside Q"
  by unfold_locales (auto simp: inside_def intro: refl_Q trans_Q)

sublocale dur: state_preorder "durable Q"
  by unfold_locales (auto simp: durable_def intro: refl_Q trans_Q)

lemma moves_exec:
  assumes "\<And>t a u. f t = Inr (a, u) \<Longrightarrow> Q t u"
  shows "moves (inside Q) (exec_sql f)"
proof (rule movesI)
  fix w
  show "inside Q w (snd (exec_sql f w))"
    using assms [of "w_tables w"]
    by (auto simp: exec_sql_def inside_def Let_def refl_Q split: sum.splits)
qed

lemma moves_query [moves_rules]: "moves (inside Q) (query_sql f)"
  unfolding query_sql_def by (rule moves_exec) (auto intro: refl_Q)

lemma moves_change: "(\<And>t. Q t (snd (f t))) \<Longrightarrow> moves (inside Q) (change_sql f)"
  unfolding change_sql_def by (rule moves_exec) (metis Pair_inject sum.inject(2) prod.collapse)

lemma moves_wall [moves_rules]: "moves (inside Q) wall_clock"
  unfolding wall_clock_def by (rule ins.moves_read)

lemma durable_of_inside [moves_rules]: "moves (inside Q) m \<Longrightarrow> moves (durable Q) m"
  by (auto simp: moves_def inside_def durable_def committed_def refl_Q split: option.splits)

lemma durable_tx [moves_rules]:
  assumes fn: "moves (inside Q) fn"
  shows "moves (durable Q) (RunSqliteTransaction fn)"
proof (rule movesI)
  fix w
  obtain r w' where run: "RunSqliteTransaction fn w = (r, w')" by (cases "RunSqliteTransaction fn w")
  show "durable Q w (snd (RunSqliteTransaction fn w))"
  proof (cases r)
    case (Inl e)
    with run fn have "committed w' = committed w" by (auto intro: tx_error_committed)
    with run show ?thesis by (simp add: durable_def refl_Q)
  next
    case (Inr a)
    with run have "RunSqliteTransaction fn w = (Inr a, w')" by simp
    then obtain w2 where none: "w_open w = None"
      and body: "fn ((spend_fault w)\<lparr>w_open := Some (w_tables w)\<rparr>) = (Inr a, w2)"
      and w': "w' = (spend_fault w2)\<lparr>w_open := None\<rparr>" by (rule tx_InrE)
    from moves_inside_open [OF fn body] have "Q (w_tables w) (w_tables w2)" by simp
    with run none w' show ?thesis by (simp add: durable_def committed_def)
  qed
qed

end

interpretation any: table_discipline "\<lambda>_ _. True"
  by unfold_locales auto

lemma moves_open: "moves (inside Q) m \<Longrightarrow> m w = (r, w') \<Longrightarrow> w_open w' = w_open w"
  by (drule moves_resultD) (auto simp: inside_def)

text \<open>
  Most disciplines only hold of tables that are well formed, and preserve that: \<open>guarded W Q\<close>.
  In such a discipline the continuation of a query may use what a well-formed table returns.
\<close>

definition guarded ::
    "(tables \<Rightarrow> bool) \<Rightarrow> (tables \<Rightarrow> tables \<Rightarrow> bool) \<Rightarrow> tables \<Rightarrow> tables \<Rightarrow> bool" where
  "guarded W Q t t' \<longleftrightarrow> (W t \<longrightarrow> W t' \<and> Q t t')"

lemma guardedI: "(W t \<Longrightarrow> W t' \<and> Q t t') \<Longrightarrow> guarded W Q t t'"
  by (simp add: guarded_def)

locale guarded_discipline = table_discipline Q
  for Q :: "tables \<Rightarrow> tables \<Rightarrow> bool" +
  fixes W :: "tables \<Rightarrow> bool"
begin

sublocale grd: table_discipline "guarded W Q"
  by unfold_locales (auto simp: guarded_def intro: refl_Q trans_Q)

lemma moves_bind_query:
  assumes k: "\<And>t. W t \<Longrightarrow> moves (inside (guarded W Q)) (k (f t))"
    and any: "\<And>x. moves (inside (\<lambda>_ _. True)) (k x)"
  shows "moves (inside (guarded W Q)) (bind_act (query_sql f) k)"
proof (rule movesI)
  fix w
  obtain r w' where run: "query_sql f w = (r, w')" by (cases "query_sql f w")
  have q: "inside (guarded W Q) w w'" using moves_resultD [OF grd.moves_query run] .
  show "inside (guarded W Q) w (snd (bind_act (query_sql f) k w))"
  proof (cases r)
    case (Inl e)
    with run q show ?thesis by simp
  next
    case (Inr a)
    with run have a: "a = f (w_tables w)" and w': "w_tables w' = w_tables w" "w_open w' = w_open w"
      by (auto simp: query_sql_Inr)
    have "inside (guarded W Q) w' (snd (k a w'))" if "W (w_tables w)"
      using movesD [OF k [OF that], of w'] a by simp
    moreover have "w_open (snd (k a w')) = w_open w'" using any movesD by (fastforce simp: inside_def)
    ultimately show ?thesis using run Inr w' by (auto simp: inside_def guarded_def)
  qed
qed

end

text \<open>A transaction leaves no transaction open, unless its rollback fails as well.\<close>

lemma tx_closes:
  assumes fn: "moves (inside Q) fn" and none: "w_open w = None"
    and run: "RunSqliteTransaction fn w = (r, w')" and faults: "True \<notin> set (w_faults w)"
    and keep: "\<And>w r w2. fn w = (r, w2) \<Longrightarrow> set (w_faults w2) \<subseteq> set (w_faults w)"
  shows "w_open w' = None"
proof -
  let ?w1 = "(spend_fault w)\<lparr>w_open := Some (w_tables w)\<rparr>"
  have calm: "\<not> next_fault v" if "set (w_faults v) \<subseteq> set (w_faults w)" for v
    using that faults by (auto simp: next_fault_def split: list.splits)
  have w1: "set (w_faults ?w1) \<subseteq> set (w_faults w)" using set_tl_subset [of "w_faults w"] by auto
  obtain r2 w2 where body: "fn ?w1 = (r2, w2)" by (cases "fn ?w1")
  have "w_open w2 = Some (w_tables w)" using moves_inside_open [OF fn body] by simp
  moreover have f2: "set (w_faults w2) \<subseteq> set (w_faults w)" using keep [OF body] w1 by blast
  moreover have "set (w_faults (spend_fault w2)) \<subseteq> set (w_faults w)"
    using f2 set_tl_subset [of "w_faults w2"] by auto
  ultimately show ?thesis
    using run none body calm [of w] calm [of w2] calm [of "spend_fault w2"]
    by (auto simp: RunSqliteTransaction_def begin_immediate_def commit_tx_def rollback_tx_def Let_def
        split: sum.splits prod.splits)
qed

end
