(* ===== verification/Strconv.thy ===== *)
theory Strconv
  imports Main
begin

text \<open>
  \<open>strconv.FormatInt(v, 10)\<close> and \<open>strconv.ParseInt(s, 10, 64)\<close>, which the event store uses to
  keep its logical clock in \<open>daemon_meta\<close> as decimal text.
\<close>

definition digit_char :: "nat \<Rightarrow> char" where
  "digit_char d = char_of (48 + d)"

definition char_digit :: "char \<Rightarrow> nat option" where
  "char_digit c = (let n = of_char c :: nat in if 48 \<le> n \<and> n \<le> 57 then Some (n - 48) else None)"

fun nat_digits :: "nat \<Rightarrow> string" where
  "nat_digits n = (if n < 10 then [digit_char n] else nat_digits (n div 10) @ [digit_char (n mod 10)])"

declare nat_digits.simps [simp del]

definition FormatInt :: "int \<Rightarrow> string" where
  "FormatInt v = (if v < 0 then CHR ''-'' # nat_digits (nat (- v)) else nat_digits (nat v))"

fun parse_digits :: "nat \<Rightarrow> string \<Rightarrow> nat option" where
  "parse_digits acc [] = Some acc"
| "parse_digits acc (c # cs) =
     (case char_digit c of None \<Rightarrow> None | Some d \<Rightarrow> parse_digits (10 * acc + d) cs)"

definition parse_unsigned :: "string \<Rightarrow> nat option" where
  "parse_unsigned s = (if s = [] then None else parse_digits 0 s)"

text \<open>A sign is optional; a value outside 64 bits is a range error.\<close>

definition ParseInt :: "string \<Rightarrow> int option" where
  "ParseInt s =
     (let (neg, body) = (case s of [] \<Rightarrow> (False, [])
          | c # cs \<Rightarrow> if c = CHR ''-'' then (True, cs) else if c = CHR ''+'' then (False, cs) else (False, s))
      in case parse_unsigned body of None \<Rightarrow> None
         | Some n \<Rightarrow>
           let v = (if neg then - int n else int n)
           in if - (2 ^ 63) \<le> v \<and> v < 2 ^ 63 then Some v else None)"

lemma char_digit_digit_char [simp]: "d < 10 \<Longrightarrow> char_digit (digit_char d) = Some d"
  by (simp add: char_digit_def digit_char_def)

lemma parse_digits_append:
  "parse_digits acc (xs @ ys) =
     (case parse_digits acc xs of None \<Rightarrow> None | Some n \<Rightarrow> parse_digits n ys)"
  by (induction acc xs rule: parse_digits.induct) (auto split: option.splits)

lemma parse_nat_digits: "parse_digits 0 (nat_digits n) = Some n"
proof (induction n rule: nat_digits.induct)
  case (1 n)
  then show ?case
    by (subst nat_digits.simps) (auto simp: parse_digits_append)
qed

lemma nat_digits_head: "\<exists>d ds. nat_digits n = digit_char d # ds \<and> d < 10"
proof (induction n rule: nat_digits.induct)
  case (1 n)
  then show ?case by (cases "n < 10") (fastforce simp: nat_digits.simps [of n])+
qed

lemma digit_char_not_sign: "d < 10 \<Longrightarrow> digit_char d \<noteq> CHR ''-'' \<and> digit_char d \<noteq> CHR ''+''"
proof -
  assume "d < 10"
  then have "char_digit (digit_char d) = Some d" by simp
  then show ?thesis by (auto simp: char_digit_def)
qed

theorem ParseInt_FormatInt: "- (2 ^ 63) \<le> v \<and> v < 2 ^ 63 \<Longrightarrow> ParseInt (FormatInt v) = Some v"
proof -
  assume range: "- (2 ^ 63) \<le> v \<and> v < 2 ^ 63"
  obtain d ds where "nat_digits (nat v) = digit_char d # ds" and "d < 10"
    using nat_digits_head by blast
  moreover have "nat_digits (nat (- v)) \<noteq> []" using nat_digits_head [of "nat (- v)"] by auto
  ultimately show ?thesis
    using range digit_char_not_sign [of d] parse_nat_digits [of "nat v"] parse_nat_digits [of "nat (- v)"]
    by (auto simp: ParseInt_def FormatInt_def parse_unsigned_def Let_def)
qed

end
