(* ===== verification/EventStore.thy ===== *)
theory EventStore
  imports Database Strconv
begin

text \<open>
  \<open>go/internal/db/agent_events.go\<close>: the durable queue of agent events, the delivery predicate
  and the monotonic logical clock. Every method of \<open>AgentEventStore\<close> is one definition of the
  same name; its SQL statements are \<open>change_sql\<close>, \<open>query_sql\<close> and \<open>exec_sql\<close> over the table
  \<open>agent_events\<close>, one per statement of the source and in the same order.
\<close>

subsection \<open>The delivery predicate\<close>

definition RedeliveryFreshnessMs :: int where "RedeliveryFreshnessMs = 300000"
definition LogicalClockPersistIntervalMs :: int where "LogicalClockPersistIntervalMs = 60000"
definition LogicalClockMetaKey :: string where "LogicalClockMetaKey = ''logical_now_ms''"

definition nextAttemptAtAfterNow :: "int \<Rightarrow> AgentEventRecord \<Rightarrow> bool" where
  "nextAttemptAtAfterNow wall event =
     (case e_NextAttemptAt event of None \<Rightarrow> False | Some next \<Rightarrow> wall < next)"

text \<open>An absent event generation matches any agent generation.\<close>

definition samePaneGeneration :: "string option \<Rightarrow> string option \<Rightarrow> bool" where
  "samePaneGeneration agentGeneration eventGeneration =
     (case eventGeneration of None \<Rightarrow> True | Some g \<Rightarrow> agentGeneration = Some g)"

definition is_pi_kind :: "string \<Rightarrow> bool" where
  "is_pi_kind kind \<longleftrightarrow> kind = ''pi'' \<or> kind = ''pig''"

definition idle_or_done :: "AgentEventType \<Rightarrow> bool" where
  "idle_or_done t \<longleftrightarrow> t = AgentEventIdle \<or> t = AgentEventDone"

text \<open>
  \<open>IsDeliverableAgentEvent\<close>. The last conjunct block dereferences \<open>event.PaneID\<close>, so a live agent
  whose event has no pane eventID panics once the two conjuncts before it hold.
\<close>

definition IsDeliverableAgentEvent ::
    "(string \<Rightarrow> string option) \<Rightarrow> int \<Rightarrow> AgentEventRecord \<Rightarrow> AgentIndexRecord option \<Rightarrow> AgentScope
      \<Rightarrow> string \<Rightarrow> go_error + bool" where
  "IsDeliverableAgentEvent evalSymlinks wall event agent scope ownerTerminalID =
     (let failed = (e_Type event = AgentEventFailed \<or> e_Type event = AgentEventDiscarded);
          isRetainedInvalidated =
            (e_Status event = Some AgentEventStatusInvalidated \<and> e_Deliverable event = 1);
          isOrphanOutcome = (e_AgentID event = None \<and> e_Deliverable event = 1
            \<and> idle_or_done (e_Type event));
          statusAllowed = (e_Status event = Some AgentEventStatusPending
            \<or> e_Status event = Some AgentEventStatusDelivered \<or> isRetainedInvalidated)
      in if \<not> statusAllowed then Inr False
         else if e_WorkspaceID event \<noteq> Some (s_WorkspaceID scope)
           \<or> e_HerdrSessionName event \<noteq> s_HerdrSessionName scope
           \<or> e_TerminalID event = None \<or> e_TerminalID event = Some ownerTerminalID
           \<or> e_Type event = AgentEventStatusChanged
           \<or> (e_Type event = AgentEventIdle \<and> payloadFrom (e_Payload event) \<noteq> ''working'')
           \<or> (e_Type event = AgentEventIdle \<and> isInFlightToolUseHistory (e_CompactHistory event))
         then Inr False
         else if e_Status event \<noteq> Some AgentEventStatusDelivered \<and> nextAttemptAtAfterNow wall event
         then Inr False
         else if e_Status event = Some AgentEventStatusDelivered
           \<and> e_DeliveredToTerminalID event \<noteq> Some ownerTerminalID
         then Inr False
         else if failed \<or> isRetainedInvalidated \<or> isOrphanOutcome then
           (let payload = asRecord (e_Payload event);
                agentKind = (case as_string (map_of payload ''agent'') of Some kind \<Rightarrow> kind
                  | None \<Rightarrow> ''pi'')
            in if as_bool (map_of payload ''interactive'') = Some True
                 \<and> e_Type event = AgentEventIdle then Inr False
               else if \<not> is_pi_kind agentKind \<and> idle_or_done (e_Type event)
                 \<and> \<not> HasNonEmptyAssistantMessage (e_CompactHistory event) then Inr False
               else Inr True)
         else (case agent of
             None \<Rightarrow> Inr False
           | Some a \<Rightarrow>
             (let agentKind = (case a_Agent a of Some kind \<Rightarrow> kind | None \<Rightarrow> ''pi'')
              in if IsInteractivePiAgent evalSymlinks agent \<and> e_Type event = AgentEventIdle
                 then Inr False
                 else if \<not> is_pi_kind agentKind \<and> idle_or_done (e_Type event)
                   \<and> \<not> HasNonEmptyAssistantMessage (e_CompactHistory event) then Inr False
                 else (case e_PaneID event of
                     None \<Rightarrow> Inl (ErrPanic ''nil pointer dereference'')
                   | Some pane \<Rightarrow> Inr (a_PaneID a = pane
                       \<and> samePaneGeneration (a_PaneGeneration a) (e_PaneGeneration event)
                       \<and> a_WorkspaceID a = s_WorkspaceID scope)))))"

text \<open>The predicate as the store's method: it reads the clock and the file system.\<close>

definition is_deliverable ::
    "AgentEventRecord \<Rightarrow> AgentIndexRecord option \<Rightarrow> AgentScope \<Rightarrow> string \<Rightarrow> bool op" where
  "is_deliverable event agent scope ownerTerminalID w =
     (IsDeliverableAgentEvent (w_evalSymlinks w) (w_wall w) event agent scope ownerTerminalID, w)"

subsection \<open>Rows and records\<close>

text \<open>\<open>parsePayload\<close>: an explicit null becomes the empty object.\<close>

fun parsePayload :: "jval \<Rightarrow> jval" where
  "parsePayload JNull = JObj []"
| "parsePayload payload = payload"

definition mapAgentEvent :: "agentEventRow \<Rightarrow> AgentEventRecord" where
  "mapAgentEvent row =
     \<lparr>e_AgentID = r_agentID row, e_CompactHistory = r_compactHistory row,
      e_CreatedAt = r_createdAtMs row, e_HerdrSessionName = r_herdrSessionName row,
      e_ID = r_id row, e_PaneID = r_paneID row, e_PaneGeneration = r_paneGeneration row,
      e_Deliverable = r_deliverable row, e_Status = Some (r_status row),
      e_DeliveryAttempts = Some (r_deliveryAttempts row), e_LastAttemptAt = r_lastAttemptAtMs row,
      e_NextAttemptAt = r_nextAttemptAtMs row, e_LastFailureCode = r_lastFailureCode row,
      e_InvalidatedReason = r_invalidatedReason row,
      e_DeliveredToTerminalID = r_deliveredToTerminalID row,
      e_Payload = parsePayload (r_payload row), e_TerminalID = r_terminalID row,
      e_Type = r_eventType row, e_WorkspaceID = r_workspaceID row\<rparr>"

lemma mapAgentEvent_simps [simp]:
  "e_AgentID (mapAgentEvent row) = r_agentID row" "e_ID (mapAgentEvent row) = r_id row"
  "e_CompactHistory (mapAgentEvent row) = r_compactHistory row"
  "e_HerdrSessionName (mapAgentEvent row) = r_herdrSessionName row"
  "e_PaneID (mapAgentEvent row) = r_paneID row"
  "e_PaneGeneration (mapAgentEvent row) = r_paneGeneration row"
  "e_Deliverable (mapAgentEvent row) = r_deliverable row"
  "e_Status (mapAgentEvent row) = Some (r_status row)"
  "e_DeliveryAttempts (mapAgentEvent row) = Some (r_deliveryAttempts row)"
  "e_LastAttemptAt (mapAgentEvent row) = r_lastAttemptAtMs row"
  "e_NextAttemptAt (mapAgentEvent row) = r_nextAttemptAtMs row"
  "e_DeliveredToTerminalID (mapAgentEvent row) = r_deliveredToTerminalID row"
  "e_Payload (mapAgentEvent row) = parsePayload (r_payload row)"
  "e_TerminalID (mapAgentEvent row) = r_terminalID row"
  "e_Type (mapAgentEvent row) = r_eventType row"
  "e_WorkspaceID (mapAgentEvent row) = r_workspaceID row"
  by (simp_all add: mapAgentEvent_def)

text \<open>\<open>json_extract(payload_json, '$.from') = 'working'\<close>\<close>

definition from_working :: "agentEventRow \<Rightarrow> bool" where
  "from_working r \<longleftrightarrow> as_string (map_of (asRecord (r_payload r)) ''from'') = Some ''working''"

text \<open>Statements over the table.\<close>

definition update_events ::
    "(agentEventRow \<Rightarrow> bool) \<Rightarrow> (agentEventRow \<Rightarrow> agentEventRow) \<Rightarrow> tables \<Rightarrow> int \<times> tables" where
  "update_events p f t =
     (count_where p (agent_events t), t\<lparr>agent_events := update_where p f (agent_events t)\<rparr>)"

definition delete_events :: "(agentEventRow \<Rightarrow> bool) \<Rightarrow> tables \<Rightarrow> int \<times> tables" where
  "delete_events p t =
     (count_where p (agent_events t), t\<lparr>agent_events := delete_where p (agent_events t)\<rparr>)"

definition sql_limit :: "int \<Rightarrow> 'a list \<Rightarrow> 'a list" where
  "sql_limit n xs = (if n < 0 then xs else take (nat n) xs)"

definition events_asc :: "(agentEventRow \<Rightarrow> bool) \<Rightarrow> tables \<Rightarrow> agentEventRow list" where
  "events_asc p t = sort_key r_id (filter p (agent_events t))"

definition events_desc :: "(agentEventRow \<Rightarrow> bool) \<Rightarrow> tables \<Rightarrow> agentEventRow list" where
  "events_desc p t = rev (events_asc p t)"

definition latest_event :: "(agentEventRow \<Rightarrow> bool) \<Rightarrow> tables \<Rightarrow> AgentEventRecord option" where
  "latest_event p t =
     (case events_desc p t of [] \<Rightarrow> None | r # _ \<Rightarrow> Some (mapAgentEvent r))"

subsection \<open>The logical clock\<close>

text \<open>\<open>NewAgentEventStore\<close> seeds the clock from \<open>daemon_meta\<close>.\<close>

definition NewAgentEventStore :: "unit op" where
  "NewAgentEventStore =
     bind_act (query_sql (\<lambda>t. map_of (daemon_meta t) LogicalClockMetaKey)) (\<lambda>value.
       case value of
         None \<Rightarrow> modify_act (\<lambda>w. w\<lparr>w_logicalNow := 0, w_lastPersistedLogicalNow := 0\<rparr>)
       | Some text \<Rightarrow>
         (case ParseInt text of
            Some persisted \<Rightarrow>
              if 0 < persisted
              then modify_act (\<lambda>w. w\<lparr>w_logicalNow := persisted, w_lastPersistedLogicalNow := persisted\<rparr>)
              else modify_act (\<lambda>w. w\<lparr>w_logicalNow := 0, w_lastPersistedLogicalNow := 0\<rparr>)
          | None \<Rightarrow> modify_act (\<lambda>w. w\<lparr>w_logicalNow := 0, w_lastPersistedLogicalNow := 0\<rparr>)))"

definition put_meta :: "string \<Rightarrow> string \<Rightarrow> tables \<Rightarrow> int \<times> tables" where
  "put_meta key value t =
     (1, t\<lparr>daemon_meta := (key, value) # filter (\<lambda>(k, _). k \<noteq> key) (daemon_meta t)\<rparr>)"

text \<open>\<open>now\<close>: never moves backwards; the write to \<open>daemon_meta\<close> is throttled.\<close>

definition logical_now :: "int op" where
  "logical_now w =
     (if w_wall w \<le> w_logicalNow w then (Inr (w_logicalNow w), w)
      else let w1 = w\<lparr>w_logicalNow := w_wall w\<rparr> in
        if w_logicalNow w1 - w_lastPersistedLogicalNow w1 < LogicalClockPersistIntervalMs
        then (Inr (w_logicalNow w1), w1)
        else let w2 = w1\<lparr>w_lastPersistedLogicalNow := w_logicalNow w1\<rparr> in
          bind_act (change_sql (put_meta LogicalClockMetaKey (FormatInt (w_logicalNow w2))))
            (\<lambda>_. read_act w_logicalNow) w2)"

subsection \<open>Lookup and append\<close>

definition get_event :: "int \<Rightarrow> AgentEventRecord op" where
  "get_event eventID =
     bind_act (query_sql (\<lambda>t. find (\<lambda>r. r_id r = eventID) (agent_events t))) (\<lambda>row.
       case row of None \<Rightarrow> fail_act (ErrText ''Agent event not found'')
       | Some r \<Rightarrow> return_act (mapAgentEvent r))"

definition has_key :: "string \<Rightarrow> string \<Rightarrow> agentEventRow \<Rightarrow> bool" where
  "has_key herdrSessionName key r \<longleftrightarrow>
     r_herdrSessionName r = herdrSessionName \<and> r_idempotencyKey r = Some key"

definition getByIdempotencyKey :: "string \<Rightarrow> string \<Rightarrow> AgentEventRecord option op" where
  "getByIdempotencyKey herdrSessionName key =
     query_sql (\<lambda>t. map_option mapAgentEvent (find (has_key herdrSessionName key) (agent_events t)))"

record AppendAgentEventInput =
  i_AgentID :: "string option"
  i_CompactHistory :: "CompactAgentHistory option"
  i_HerdrSessionName :: string
  i_IdempotencyKey :: "string option"
  i_PaneID :: "string option"
  i_PaneGeneration :: "string option"
  i_Payload :: jval
  i_TerminalID :: "string option"
  i_Type :: AgentEventType
  i_WorkspaceID :: "string option"

text \<open>An agent whose row is gone is written as an orphan (\<open>agent_id = null\<close>).\<close>

definition resolveAppendAgentID :: "string option \<Rightarrow> string option op" where
  "resolveAppendAgentID agentID =
     (case agentID of None \<Rightarrow> return_act None
      | Some a \<Rightarrow>
        bind_act (query_sql (\<lambda>t. \<exists>g \<in> set (agents t). g_id g = a)) (\<lambda>present.
          return_act (if present then Some a else None)))"

text \<open>
  The insert: the unique index on (session, idempotency key) treats nulls as distinct, and the
  two foreign keys of the table are enforced.
\<close>

definition insert_event :: "agentEventRow \<Rightarrow> tables \<Rightarrow> go_error + int \<times> tables" where
  "insert_event row t =
     (if (\<exists>k. r_idempotencyKey row = Some k
          \<and> (\<exists>r \<in> set (agent_events t). has_key (r_herdrSessionName row) k r))
        \<or> (\<exists>a. r_agentID row = Some a \<and> (\<forall>g \<in> set (agents t). g_id g \<noteq> a))
        \<or> (\<forall>h \<in> set (herdr_sessions t). h_name h \<noteq> r_herdrSessionName row)
      then Inl ErrConstraint
      else let eventID = agent_events_seq t + 1
        in Inr (eventID, t\<lparr>agent_events := agent_events t @ [row\<lparr>r_id := eventID\<rparr>], agent_events_seq := eventID\<rparr>))"

definition appended_row :: "AppendAgentEventInput \<Rightarrow> string option \<Rightarrow> int \<Rightarrow> agentEventRow" where
  "appended_row input agentID now =
     \<lparr>r_agentID = agentID, r_compactHistory = i_CompactHistory input, r_createdAtMs = now,
      r_herdrSessionName = i_HerdrSessionName input, r_id = 0,
      r_idempotencyKey = i_IdempotencyKey input, r_paneID = i_PaneID input,
      r_paneGeneration = i_PaneGeneration input, r_payload = i_Payload input,
      r_deliveryAttempts = 0, r_lastAttemptAtMs = None, r_nextAttemptAtMs = None,
      r_lastFailureCode = None, r_invalidatedReason = None, r_deliveredToTerminalID = None,
      r_status = AgentEventStatusPending, r_deliverable = 1, r_terminalID = i_TerminalID input,
      r_eventType = i_Type input, r_workspaceID = i_WorkspaceID input\<rparr>"

definition lookup_existing :: "string \<Rightarrow> string option \<Rightarrow> AgentEventRecord option op" where
  "lookup_existing herdrSessionName idempotencyKey =
     (case idempotencyKey of None \<Rightarrow> return_act None
      | Some key \<Rightarrow> if key = [] then return_act None else getByIdempotencyKey herdrSessionName key)"

definition Append :: "AppendAgentEventInput \<Rightarrow> AgentEventRecord op" where
  "Append input =
     bind_act (lookup_existing (i_HerdrSessionName input) (i_IdempotencyKey input)) (\<lambda>existing.
       case existing of Some record \<Rightarrow> return_act record
       | None \<Rightarrow>
         bind_act (resolveAppendAgentID (i_AgentID input)) (\<lambda>agentID.
         bind_act logical_now (\<lambda>now.
         bind_act
           (catch_act
             (bind_act (exec_sql (insert_event (appended_row input agentID now)))
               (\<lambda>eventID. return_act (Inr eventID)))
             (\<lambda>err. bind_act (lookup_existing (i_HerdrSessionName input) (i_IdempotencyKey input))
                (\<lambda>existing. case existing of Some record \<Rightarrow> return_act (Inl record)
                  | None \<Rightarrow> fail_act err)))
           (\<lambda>outcome. case outcome of Inl record \<Rightarrow> return_act record
              | Inr eventID \<Rightarrow> get_event eventID))))"

subsection \<open>Pane invalidation\<close>

record InvalidatePaneInput =
  v_AcknowledgeDelivered :: "bool option"
  v_HerdrSessionName :: string
  v_InvalidatedReason :: "string option"
  v_PaneGeneration :: "string option"
  v_PaneID :: string

definition in_pane :: "string \<Rightarrow> string \<Rightarrow> agentEventRow \<Rightarrow> bool" where
  "in_pane herdrSessionName paneID r \<longleftrightarrow>
     r_herdrSessionName r = herdrSessionName \<and> r_paneID r = Some paneID"

definition pending_or_delivered :: "agentEventRow \<Rightarrow> bool" where
  "pending_or_delivered r \<longleftrightarrow>
     r_status r = AgentEventStatusPending \<or> r_status r = AgentEventStatusDelivered"

definition retained_row :: "agentEventRow \<Rightarrow> bool" where
  "retained_row r \<longleftrightarrow> r_status r = AgentEventStatusInvalidated \<and> r_deliverable r = 1"

text \<open>With an explicit generation only that generation, older ones and legacy rows match.\<close>

definition legacyOrMatched :: "string option \<Rightarrow> agentEventRow \<Rightarrow> bool" where
  "legacyOrMatched paneGeneration r =
     (case paneGeneration of None \<Rightarrow> True
      | Some g \<Rightarrow> (case r_paneGeneration r of None \<Rightarrow> True | Some h \<Rightarrow> h = g \<or> text_less h g))"

definition genCondition :: "string option \<Rightarrow> agentEventRow \<Rightarrow> bool" where
  "genCondition paneGeneration r =
     (case paneGeneration of None \<Rightarrow> True | Some g \<Rightarrow> r_paneGeneration r = Some g)"

definition defaultReason :: "InvalidatePaneInput \<Rightarrow> string" where
  "defaultReason input =
     (case v_InvalidatedReason input of Some reason \<Rightarrow> reason
      | None \<Rightarrow> if v_PaneGeneration input = None then ''LEGACY_CLOSE_WITHOUT_GENERATION''
                else ''PANE_CLOSED'')"

definition retained_reason :: string where
  "retained_reason = ''RETAINED_OUTCOME_PANE_CLOSED''"

text \<open>Step 0 (explicit close): delivered rows are settled as implicitly consumed.\<close>

definition close_step0 :: "InvalidatePaneInput \<Rightarrow> tables \<Rightarrow> int \<times> tables" where
  "close_step0 input =
     update_events
       (\<lambda>r. in_pane (v_HerdrSessionName input) (v_PaneID input) r \<and> pending_or_delivered r
          \<and> 1 \<le> r_deliveryAttempts r \<and> legacyOrMatched (v_PaneGeneration input) r)
       (\<lambda>r. r\<lparr>r_status := AgentEventStatusAcked, r_deliverable := 0, r_invalidatedReason := None\<rparr>)"

text \<open>Step 1: every active row of the pane is invalidated.\<close>

definition close_step1 :: "InvalidatePaneInput \<Rightarrow> tables \<Rightarrow> int \<times> tables" where
  "close_step1 input =
     update_events
       (\<lambda>r. in_pane (v_HerdrSessionName input) (v_PaneID input) r
          \<and> r_status r \<noteq> AgentEventStatusAcked \<and> r_status r \<noteq> AgentEventStatusInvalidated
          \<and> r_status r \<noteq> AgentEventStatusFailed \<and> legacyOrMatched (v_PaneGeneration input) r)
       (\<lambda>r. r\<lparr>r_deliverable := 0, r_status := AgentEventStatusInvalidated,
          r_invalidatedReason := Some (defaultReason input)\<rparr>)"

text \<open>Step 2: the completion outcomes worth one delivery attempt are kept deliverable.\<close>

definition close_step2 :: "InvalidatePaneInput \<Rightarrow> int \<Rightarrow> tables \<Rightarrow> int \<times> tables" where
  "close_step2 input now =
     update_events
       (\<lambda>r. in_pane (v_HerdrSessionName input) (v_PaneID input) r
          \<and> r_status r = AgentEventStatusInvalidated \<and> r_deliverable r = 0
          \<and> r_invalidatedReason r = Some (defaultReason input)
          \<and> ((genCondition (v_PaneGeneration input) r
              \<and> ((r_eventType r = AgentEventDone \<and> from_working r)
                 \<or> (r_eventType r = AgentEventIdle \<and> from_working r))
              \<and> now - RedeliveryFreshnessMs \<le> r_createdAtMs r)
             \<or> (r_eventType r = AgentEventFailed \<and> r_deliveryAttempts r = 0)))
       (\<lambda>r. r\<lparr>r_deliverable := 1, r_invalidatedReason := Some retained_reason\<rparr>)"

definition invalidatePaneCore :: "InvalidatePaneInput \<Rightarrow> unit op" where
  "invalidatePaneCore input =
     bind_act logical_now (\<lambda>now.
     bind_act
       (if v_AcknowledgeDelivered input = Some True
        then bind_act (change_sql (close_step0 input)) (\<lambda>affected. return_act (0 < affected))
        else return_act False)
       (\<lambda>consumedByExplicitClose.
     bind_act (change_sql (close_step1 input)) (\<lambda>_.
       if consumedByExplicitClose then return_act ()
       else bind_act (change_sql (close_step2 input now)) (\<lambda>_. return_act ()))))"

definition InvalidatePane :: "InvalidatePaneInput \<Rightarrow> unit op" where
  "InvalidatePane input = RunSqliteTransaction (invalidatePaneCore input)"

definition InvalidatePaneDirect :: "InvalidatePaneInput \<Rightarrow> unit op" where
  "InvalidatePaneDirect input = invalidatePaneCore input"

subsection \<open>Reconciliation and retention\<close>

definition ListReconcileCandidates :: "int \<Rightarrow> int \<Rightarrow> AgentEventRecord list op" where
  "ListReconcileCandidates limit afterID =
     query_sql (\<lambda>t. map mapAgentEvent
       (sql_limit (if limit \<le> 0 then 100 else limit)
         (events_asc (\<lambda>r. afterID < r_id r \<and> pending_or_delivered r) t)))"

definition affected_some :: "int op \<Rightarrow> bool op" where
  "affected_some m = bind_act m (\<lambda>affected. return_act (0 < affected))"

definition MarkRetainedInvalidated :: "int \<Rightarrow> bool op" where
  "MarkRetainedInvalidated eventID =
     affected_some (change_sql (update_events (\<lambda>r. r_id r = eventID \<and> pending_or_delivered r)
       (\<lambda>r. r\<lparr>r_status := AgentEventStatusInvalidated, r_deliverable := 1,
          r_invalidatedReason := Some retained_reason\<rparr>)))"

definition DeleteReconcileCandidate :: "int \<Rightarrow> bool op" where
  "DeleteReconcileCandidate eventID =
     affected_some (change_sql (delete_events (\<lambda>r. r_id r = eventID \<and> pending_or_delivered r)))"

definition DeleteInvalidatedOlderThan :: "int \<Rightarrow> int op" where
  "DeleteInvalidatedOlderThan ageMs =
     bind_act wall_clock (\<lambda>now. change_sql (delete_events
       (\<lambda>r. r_status r = AgentEventStatusInvalidated \<and> r_deliverable r = 0
          \<and> (case r_lastAttemptAtMs r of Some last_at \<Rightarrow> last_at | None \<Rightarrow> r_createdAtMs r)
              < now - ageMs)))"

definition DeleteSettledOlderThan :: "int \<Rightarrow> int op" where
  "DeleteSettledOlderThan ageMs =
     bind_act wall_clock (\<lambda>now. change_sql (delete_events
       (\<lambda>r. (r_status r = AgentEventStatusAcked \<or> r_status r = AgentEventStatusFailed
            \<or> retained_row r) \<and> r_createdAtMs r < now - ageMs)))"

record AckSelfOwnedInput =
  k_HerdrSessionName :: string
  k_PaneID :: string
  k_WorkspaceID :: string

definition AckSelfOwned :: "AckSelfOwnedInput \<Rightarrow> int op" where
  "AckSelfOwned input =
     change_sql (update_events
       (\<lambda>r. in_pane (k_HerdrSessionName input) (k_PaneID input) r
          \<and> r_workspaceID r = Some (k_WorkspaceID input) \<and> pending_or_delivered r)
       (\<lambda>r. r\<lparr>r_status := AgentEventStatusAcked, r_deliverable := 0\<rparr>))"

definition InvalidateByID :: "int \<Rightarrow> string \<Rightarrow> bool op" where
  "InvalidateByID eventID reason =
     affected_some (change_sql (update_events (\<lambda>r. r_id r = eventID \<and> pending_or_delivered r)
       (\<lambda>r. r\<lparr>r_deliverable := 0, r_status := AgentEventStatusInvalidated,
          r_invalidatedReason := Some reason\<rparr>)))"

subsection \<open>Reads of one agent's history\<close>

definition of_agent :: "string \<Rightarrow> string \<Rightarrow> agentEventRow \<Rightarrow> bool" where
  "of_agent agentID herdrSessionName r \<longleftrightarrow>
     r_agentID r = Some agentID \<and> r_herdrSessionName r = herdrSessionName"

definition terminal_type :: "AgentEventType \<Rightarrow> bool" where
  "terminal_type ty \<longleftrightarrow> ty = AgentEventIdle \<or> ty = AgentEventDone \<or> ty = AgentEventBlocked"

definition LatestStatusTransition :: "string \<Rightarrow> string \<Rightarrow> AgentEventRecord option op" where
  "LatestStatusTransition agentID herdrSessionName =
     query_sql (latest_event (\<lambda>r. of_agent agentID herdrSessionName r
       \<and> r_eventType r = AgentEventStatusChanged))"

definition HasTerminalEventAfter :: "string \<Rightarrow> string \<Rightarrow> int \<Rightarrow> bool op" where
  "HasTerminalEventAfter agentID herdrSessionName afterID =
     query_sql (\<lambda>t. \<exists>r \<in> set (agent_events t). of_agent agentID herdrSessionName r
       \<and> afterID < r_id r \<and> terminal_type (r_eventType r)
       \<and> r_status r \<noteq> AgentEventStatusInvalidated)"

definition LatestTerminalEvent :: "string \<Rightarrow> string \<Rightarrow> AgentEventRecord option op" where
  "LatestTerminalEvent agentID herdrSessionName =
     query_sql (latest_event (\<lambda>r. of_agent agentID herdrSessionName r
       \<and> terminal_type (r_eventType r) \<and> r_status r \<noteq> AgentEventStatusInvalidated))"

text \<open>
  \<open>length(trim(coalesce(json_extract(compact_history_json, '$.lastAssistantMessage.text'), ''))) > 0\<close>:
  SQLite's \<open>trim\<close> removes spaces only, and \<open>length\<close> counts up to the first NUL.
\<close>

definition sql_trim :: "string \<Rightarrow> string" where
  "sql_trim s = rev (dropWhile (\<lambda>c. c = CHR '' '') (rev (dropWhile (\<lambda>c. c = CHR '' '') s)))"

definition sql_length_positive :: "string \<Rightarrow> bool" where
  "sql_length_positive s = (case s of [] \<Rightarrow> False | c # _ \<Rightarrow> (of_char c :: nat) \<noteq> 0)"

definition has_assistant_text_sql :: "agentEventRow \<Rightarrow> bool" where
  "has_assistant_text_sql r =
     (case r_compactHistory r of None \<Rightarrow> False
      | Some h \<Rightarrow> (case ch_LastAssistantMessage h of None \<Rightarrow> False
          | Some m \<Rightarrow> sql_length_positive (sql_trim (x_Text m))))"

definition LatestCompletedTurnEvent :: "string \<Rightarrow> string \<Rightarrow> AgentEventRecord option op" where
  "LatestCompletedTurnEvent agentID herdrSessionName =
     query_sql (latest_event (\<lambda>r. of_agent agentID herdrSessionName r
       \<and> (r_eventType r = AgentEventDone \<or> (r_eventType r = AgentEventIdle \<and> from_working r))
       \<and> has_assistant_text_sql r))"

subsection \<open>Discovery and delivery\<close>

record ListAfterInput =
  l_AfterEventID :: "int option"
  l_HerdrSessionName :: "string option"
  l_Limit :: "int option"
  l_OwnerTerminalID :: "string option"
  l_WorkspaceID :: "string option"

text \<open>An optional filter that is absent or empty is no clause at all.\<close>

definition optional_clause :: "string option \<Rightarrow> (string \<Rightarrow> bool) \<Rightarrow> bool" where
  "optional_clause value p = (case value of None \<Rightarrow> True | Some v \<Rightarrow> v = [] \<or> p v)"

definition retry_due :: "int \<Rightarrow> agentEventRow \<Rightarrow> bool" where
  "retry_due now r = (case r_nextAttemptAtMs r of None \<Rightarrow> True | Some next \<Rightarrow> next \<le> now)"

definition attempted_since :: "int \<Rightarrow> agentEventRow \<Rightarrow> bool" where
  "attempted_since since r =
     (case r_lastAttemptAtMs r of None \<Rightarrow> False | Some last_at \<Rightarrow> since \<le> last_at)"

text \<open>The admission clause the three delivery scans share.\<close>

definition scan_admits :: "int \<Rightarrow> string option \<Rightarrow> agentEventRow \<Rightarrow> bool" where
  "scan_admits now ownerTerminalID r \<longleftrightarrow>
     (r_status r = AgentEventStatusPending \<and> retry_due now r)
     \<or> (r_status r = AgentEventStatusDelivered
        \<and> ownerTerminalID \<noteq> None \<and> r_deliveredToTerminalID r = ownerTerminalID
        \<and> attempted_since (now - RedeliveryFreshnessMs) r)
     \<or> (retained_row r \<and> retry_due now r)"

definition ListAfter :: "ListAfterInput \<Rightarrow> AgentEventRecord list op" where
  "ListAfter input =
     (let afterEventID = (case l_AfterEventID input of None \<Rightarrow> 0 | Some eventID \<Rightarrow> eventID);
          limit = (case l_Limit input of None \<Rightarrow> 100 | Some n \<Rightarrow> n)
      in bind_act logical_now (\<lambda>now. query_sql (\<lambda>t. map mapAgentEvent (sql_limit limit
           (events_asc (\<lambda>r. afterEventID < r_id r \<and> scan_admits now (l_OwnerTerminalID input) r
              \<and> optional_clause (l_HerdrSessionName input) (\<lambda>v. r_herdrSessionName r = v)
              \<and> optional_clause (l_WorkspaceID input) (\<lambda>v. r_workspaceID r = Some v)) t)))))"

record NextDeliverableAfterInput =
  n_AfterEventID :: int
  n_GetAgent :: "(string \<Rightarrow> AgentIndexRecord option op) option"
  n_HerdrSessionName :: string
  n_OwnerTerminalID :: string
  n_WorkspaceID :: string

definition orphanTerminalFilter :: "agentEventRow \<Rightarrow> bool" where
  "orphanTerminalFilter r \<longleftrightarrow>
     r_eventType r = AgentEventFailed \<or> r_eventType r = AgentEventDiscarded
     \<or> (r_agentID r = None \<and> r_deliverable r = 1 \<and> idle_or_done (r_eventType r))"

text \<open>\<open>exists (select 1 from agents where ...)\<close>: the event's own agent is still indexed in its pane.\<close>

definition agent_pane_open :: "tables \<Rightarrow> agentEventRow \<Rightarrow> bool" where
  "agent_pane_open t r \<longleftrightarrow>
     (\<exists>g \<in> set (agents t). r_agentID r = Some (g_id g)
        \<and> g_herdrSessionName g = r_herdrSessionName r \<and> r_workspaceID r = Some (g_workspaceID g)
        \<and> r_paneID r = Some (g_paneID g))"

definition deliverable_page ::
    "NextDeliverableAfterInput \<Rightarrow> int \<Rightarrow> int \<Rightarrow> tables \<Rightarrow> agentEventRow list" where
  "deliverable_page input now afterEventID t =
     sql_limit 1000 (events_asc (\<lambda>r. afterEventID < r_id r
       \<and> scan_admits now (Some (n_OwnerTerminalID input)) r
       \<and> r_herdrSessionName r = n_HerdrSessionName input
       \<and> r_workspaceID r = Some (n_WorkspaceID input)
       \<and> r_terminalID r \<noteq> None \<and> r_terminalID r \<noteq> Some (n_OwnerTerminalID input)
       \<and> (r_agentID r \<noteq> None \<or> retained_row r \<or> orphanTerminalFilter r)
       \<and> (n_GetAgent input = None \<longrightarrow>
            retained_row r \<or> orphanTerminalFilter r \<or> agent_pane_open t r)) t)"

fun scan_rows :: "NextDeliverableAfterInput \<Rightarrow> AgentEventRecord list \<Rightarrow> AgentEventRecord option op"
where
  "scan_rows input [] = return_act None"
| "scan_rows input (event # rest) =
     (let retained = (e_Status event = Some AgentEventStatusInvalidated \<and> e_Deliverable event = 1);
          orphanTerminal = (e_Type event = AgentEventFailed \<or> e_Type event = AgentEventDiscarded);
          orphanOutcome = (e_AgentID event = None \<and> e_Deliverable event = 1
            \<and> idle_or_done (e_Type event))
      in if e_AgentID event = None \<and> \<not> retained \<and> \<not> orphanTerminal \<and> \<not> orphanOutcome
         then scan_rows input rest
         else bind_act
           (case e_AgentID event of None \<Rightarrow> return_act None
            | Some agentID \<Rightarrow> (case n_GetAgent input of None \<Rightarrow> return_act None
                | Some getAgent \<Rightarrow> getAgent agentID))
           (\<lambda>liveAgent.
             if \<not> (n_GetAgent input \<noteq> None \<or> e_AgentID event = None) then return_act (Some event)
             else bind_act
               (is_deliverable event liveAgent
                 \<lparr>s_HerdrSessionName = n_HerdrSessionName input, s_WorkspaceID = n_WorkspaceID input\<rparr>
                 (n_OwnerTerminalID input))
               (\<lambda>ok. if ok then return_act (Some event) else scan_rows input rest)))"

text \<open>The scan gives up after the pages its first argument allows.\<close>

fun scan_pages :: "nat \<Rightarrow> NextDeliverableAfterInput \<Rightarrow> int \<Rightarrow> AgentEventRecord option op" where
  "scan_pages 0 input afterEventID = return_act None"
| "scan_pages (Suc pages) input afterEventID =
     bind_act logical_now (\<lambda>now.
     bind_act (query_sql (\<lambda>t. map mapAgentEvent (deliverable_page input now afterEventID t))) (\<lambda>rows.
       if rows = [] then return_act None
       else bind_act (scan_rows input rows) (\<lambda>found.
         case found of Some event \<Rightarrow> return_act (Some event)
         | None \<Rightarrow> scan_pages pages input (e_ID (last rows)))))"

definition NextDeliverableAfter :: "NextDeliverableAfterInput \<Rightarrow> AgentEventRecord option op" where
  "NextDeliverableAfter input = scan_pages 50 input (n_AfterEventID input)"

text \<open>\<open>ReservePending\<close>: the matching rows are marked delivered for the owner terminal.\<close>

definition reserve_row :: "int \<Rightarrow> string \<Rightarrow> AgentEventRecord \<Rightarrow> unit op" where
  "reserve_row now terminalID row =
     (let attempts = (case e_DeliveryAttempts row of None \<Rightarrow> 0 | Some n \<Rightarrow> n)
      in bind_act (change_sql (update_events
           (\<lambda>r. r_id r = e_ID row \<and> (r_status r = AgentEventStatusPending \<or> retained_row r))
           (\<lambda>r. r\<lparr>r_status := AgentEventStatusDelivered, r_deliverable := 1,
              r_deliveryAttempts := attempts + 1, r_lastAttemptAtMs := Some now,
              r_deliveredToTerminalID := Some terminalID\<rparr>))) (\<lambda>_. return_act ()))"

definition reservePendingCore ::
    "string \<Rightarrow> int \<Rightarrow> int list \<Rightarrow> AgentEventRecord list op" where
  "reservePendingCore terminalID limit ids =
     bind_act logical_now (\<lambda>now.
     bind_act (query_sql (\<lambda>t. map mapAgentEvent (sql_limit (if limit \<le> 0 then 100 else limit)
       (events_asc (\<lambda>r. scan_admits now (Some terminalID) r
          \<and> (ids = [] \<or> r_id r \<in> set ids)) t)))) (\<lambda>rows.
     bind_act (for_each rows (reserve_row now terminalID)) (\<lambda>_.
     collect rows (\<lambda>row. get_event (e_ID row)))))"

definition ReservePending :: "string \<Rightarrow> int \<Rightarrow> int list \<Rightarrow> AgentEventRecord list op" where
  "ReservePending terminalID limit ids =
     RunSqliteTransaction (reservePendingCore terminalID limit ids)"

subsection \<open>Reclaiming and acknowledging\<close>

definition scope_of_terminal :: "tables \<Rightarrow> agentEventRow \<Rightarrow> bool" where
  "scope_of_terminal t r \<longleftrightarrow>
     (\<exists>c \<in> set (agent_orchestrator_scopes t). c_herdrSessionName c = r_herdrSessionName r
        \<and> c_ownerTerminalID c \<noteq> None \<and> c_ownerTerminalID c = r_deliveredToTerminalID r)"

definition reclaimWhere :: "tables \<Rightarrow> agentEventRow \<Rightarrow> bool" where
  "reclaimWhere t r \<longleftrightarrow>
     r_status r = AgentEventStatusDelivered \<and> agent_pane_open t r \<and> \<not> scope_of_terminal t r"

text \<open>Branch (b): the agent's pane is closed, so a timed-out delivery is invalidated.\<close>

definition reclaim_closed :: "int \<Rightarrow> tables \<Rightarrow> int \<times> tables" where
  "reclaim_closed cutoff t =
     update_events
       (\<lambda>r. r_status r = AgentEventStatusDelivered \<and> 1 \<le> r_deliveryAttempts r
          \<and> (case r_lastAttemptAtMs r of None \<Rightarrow> False | Some last_at \<Rightarrow> last_at < cutoff)
          \<and> \<not> agent_pane_open t r)
       (\<lambda>r. r\<lparr>r_deliverable := 0, r_status := AgentEventStatusInvalidated,
          r_invalidatedReason := Some ''PANE_CLOSED_RECLAIM''\<rparr>) t"

text \<open>Branch (c): the pane is open but the delivery terminal holds no scope any more.\<close>

definition reclaim_ownerless :: "tables \<Rightarrow> int \<times> tables" where
  "reclaim_ownerless t =
     update_events (reclaimWhere t)
       (\<lambda>r. r\<lparr>r_status := (if 10 \<le> r_deliveryAttempts r then AgentEventStatusFailed
                          else AgentEventStatusPending),
          r_deliverable := (if 10 \<le> r_deliveryAttempts r then 0 else 1),
          r_lastFailureCode := (if 10 \<le> r_deliveryAttempts r
            then Some ''DELIVERY_ATTEMPTS_EXCEEDED'' else r_lastFailureCode r),
          r_deliveredToTerminalID := None, r_nextAttemptAtMs := None\<rparr>) t"

definition reclaimDeliveredCore :: "int \<Rightarrow> int op" where
  "reclaimDeliveredCore timeoutMs =
     bind_act logical_now (\<lambda>now.
     bind_act (change_sql (reclaim_closed (now - timeoutMs))) (\<lambda>invalidated.
     bind_act (query_sql (\<lambda>t. filter (\<lambda>r. reclaimWhere t r \<and> 10 \<le> r_deliveryAttempts r)
       (agent_events t))) (\<lambda>exceeded.
     bind_act (change_sql reclaim_ownerless) (\<lambda>reclaimedCount.
       return_act (invalidated + reclaimedCount)))))"

definition ReclaimDelivered :: "int \<Rightarrow> int op" where
  "ReclaimDelivered timeoutMs = RunSqliteTransaction (reclaimDeliveredCore timeoutMs)"

definition ackable_row :: "agentEventRow \<Rightarrow> bool" where
  "ackable_row r \<longleftrightarrow> pending_or_delivered r \<or> retained_row r"

definition ack_row :: "agentEventRow \<Rightarrow> agentEventRow" where
  "ack_row r = r\<lparr>r_status := AgentEventStatusAcked, r_deliverable := 0\<rparr>"

definition in_scope :: "AgentScope \<Rightarrow> agentEventRow \<Rightarrow> bool" where
  "in_scope scope r \<longleftrightarrow>
     r_herdrSessionName r = s_HerdrSessionName scope \<and> r_workspaceID r = Some (s_WorkspaceID scope)"

text \<open>With a scope the whole cursor up to the id is acked, without it the single row is.\<close>

definition MarkAcked :: "int \<Rightarrow> AgentScope option \<Rightarrow> unit op" where
  "MarkAcked eventID scope =
     bind_act (change_sql (update_events
       (case scope of
          Some sc \<Rightarrow> (\<lambda>r. in_scope sc r \<and> r_id r \<le> eventID \<and> ackable_row r)
        | None \<Rightarrow> (\<lambda>r. r_id r = eventID \<and> ackable_row r)) ack_row)) (\<lambda>_. return_act ())"

definition max_id :: "agentEventRow list \<Rightarrow> int" where
  "max_id rows = (case rows of [] \<Rightarrow> 0 | r # rs \<Rightarrow> foldl max (r_id r) (map r_id rs))"

definition LatestEventID :: "AgentQueryScope \<Rightarrow> int op" where
  "LatestEventID scope =
     query_sql (\<lambda>t. max_id (filter
       (\<lambda>r. optional_clause (q_HerdrSessionName scope) (\<lambda>v. r_herdrSessionName r = v)
          \<and> optional_clause (q_WorkspaceID scope) (\<lambda>v. r_workspaceID r = Some v))
       (agent_events t)))"

subsection \<open>Reads behind the status-plan service\<close>

definition in_pane_incarnation ::
    "string \<Rightarrow> string \<Rightarrow> string option \<Rightarrow> int \<Rightarrow> agentEventRow \<Rightarrow> bool" where
  "in_pane_incarnation herdrSessionName paneID paneGeneration createdBeforeMs r \<longleftrightarrow>
     in_pane herdrSessionName paneID r \<and> r_createdAtMs r \<le> createdBeforeMs
     \<and> r_paneGeneration r = paneGeneration"

record LatestPaneEventScopeRow =
  ls_HerdrSessionName :: string
  ls_PaneGeneration :: "string option"
  ls_PaneID :: "string option"
  ls_TerminalID :: "string option"
  ls_WorkspaceID :: "string option"

definition LatestPaneEventScope ::
    "string \<Rightarrow> string \<Rightarrow> string option \<Rightarrow> int \<Rightarrow> LatestPaneEventScopeRow option op" where
  "LatestPaneEventScope herdrSessionName paneID paneGeneration createdBeforeMs =
     query_sql (\<lambda>t.
       case events_desc (in_pane_incarnation herdrSessionName paneID paneGeneration createdBeforeMs) t of
         [] \<Rightarrow> None
       | r # _ \<Rightarrow> Some \<lparr>ls_HerdrSessionName = r_herdrSessionName r,
           ls_PaneGeneration = r_paneGeneration r, ls_PaneID = r_paneID r,
           ls_TerminalID = r_terminalID r, ls_WorkspaceID = r_workspaceID r\<rparr>)"

definition EventIDByIdempotencyKey :: "string \<Rightarrow> int option op" where
  "EventIDByIdempotencyKey idempotencyKey =
     query_sql (\<lambda>t. map_option r_id
       (find (\<lambda>r. r_idempotencyKey r = Some idempotencyKey) (agent_events t)))"

definition PaneEventTail ::
    "string \<Rightarrow> string \<Rightarrow> string option \<Rightarrow> int \<Rightarrow> int \<Rightarrow> (CompactAgentHistory option \<times> int) list op" where
  "PaneEventTail herdrSessionName paneID paneGeneration createdBeforeMs limit =
     query_sql (\<lambda>t. map (\<lambda>r. (r_compactHistory r, r_deliveryAttempts r))
       (sql_limit (if limit \<le> 0 then 20 else limit)
         (events_desc (in_pane_incarnation herdrSessionName paneID paneGeneration createdBeforeMs) t)))"

text \<open>
  \<open>agentKindFromPayloadJSON\<close> asserts the payload to be an object without the two-value form of
  the assertion, so a payload that parses to anything else panics.
\<close>

fun agentKindFromPayloadJSON :: "jval \<Rightarrow> go_error + string option" where
  "agentKindFromPayloadJSON (JObj kvs) = Inr (as_string (map_of kvs ''agent''))"
| "agentKindFromPayloadJSON _ = Inl (ErrPanic ''interface conversion'')"

definition settled_to_owner :: "agentEventRow \<Rightarrow> bool" where
  "settled_to_owner r \<longleftrightarrow>
     r_status r = AgentEventStatusDelivered \<or> r_status r = AgentEventStatusAcked"

definition STALE_DUPLICATE_GUARD_SCAN_LIMIT :: int where "STALE_DUPLICATE_GUARD_SCAN_LIMIT = 500"

definition of_sum :: "go_error + 'a \<Rightarrow> 'a op" where
  "of_sum v = (case v of Inl e \<Rightarrow> fail_act e | Inr a \<Rightarrow> return_act a)"

definition PaneDeliveredTerminalBodies ::
    "string \<Rightarrow> string \<Rightarrow> string option \<Rightarrow> int \<Rightarrow> int
      \<Rightarrow> (string option \<times> CompactAgentHistory option) list op" where
  "PaneDeliveredTerminalBodies herdrSessionName paneID paneGeneration createdBeforeMs limit =
     bind_act (query_sql (\<lambda>t.
       sql_limit (if limit \<le> 0 then STALE_DUPLICATE_GUARD_SCAN_LIMIT else limit)
         (events_desc (\<lambda>r. in_pane_incarnation herdrSessionName paneID paneGeneration createdBeforeMs r
            \<and> terminal_type (r_eventType r) \<and> settled_to_owner r) t))) (\<lambda>rows.
     collect rows (\<lambda>r. bind_act (of_sum (agentKindFromPayloadJSON (r_payload r)))
       (\<lambda>kind. return_act (kind, r_compactHistory r))))"

definition PlanOutcomeEventExists :: "string \<Rightarrow> string \<Rightarrow> bool op" where
  "PlanOutcomeEventExists herdrSessionName idempotencyKey =
     query_sql (\<lambda>t. \<exists>r \<in> set (agent_events t). has_key herdrSessionName idempotencyKey r)"

definition DeliveredTerminalHistories ::
    "string \<Rightarrow> string \<Rightarrow> int \<Rightarrow> CompactAgentHistory option list op" where
  "DeliveredTerminalHistories agentID herdrSessionName limit =
     query_sql (\<lambda>t. map r_compactHistory
       (sql_limit (if limit \<le> 0 then STALE_DUPLICATE_GUARD_SCAN_LIMIT else limit)
         (events_desc (\<lambda>r. of_agent agentID herdrSessionName r
            \<and> (r_eventType r = AgentEventDone \<or> r_eventType r = AgentEventBlocked
               \<or> (r_eventType r = AgentEventIdle \<and> from_working r))
            \<and> settled_to_owner r) t)))"

end
