(* ===== verification/Samples.thy ===== *)
theory Samples
  imports EventStore
begin

text \<open>
  Concrete states the witnesses evaluate on: a database with one Herdr session \<open>s\<close>, a worker
  agent \<open>ag\<close> in pane \<open>p\<close> and terminal \<open>w\<close> of workspace \<open>ws\<close>, and the scope of that
  workspace owned by the terminal \<open>o\<close>.
\<close>

definition sample_agent :: agentRow where
  "sample_agent =
     \<lparr>g_agent = Some ''pi'', g_agentSessionHint = None, g_agentSession = None,
      g_agentStatus = AgentStatusWorking, g_cwd = None, g_firstSeenAtMs = 1, g_focused = 0,
      g_foregroundCwd = None, g_herdrSessionName = ''s'', g_id = ''ag'', g_lastSeenAtMs = 1,
      g_name = None, g_paneID = ''p'', g_paneRevision = None, g_paneGeneration = None,
      g_grokHome = None, g_tabID = None, g_terminalID = Some ''w'', g_workspaceID = ''ws''\<rparr>"

definition sample_input :: AppendAgentEventInput where
  "sample_input =
     \<lparr>i_AgentID = Some ''ag'', i_CompactHistory = None, i_HerdrSessionName = ''s'',
      i_IdempotencyKey = Some ''k'', i_PaneID = Some ''p'', i_PaneGeneration = None,
      i_Payload = JObj [(''from'', JStr ''working'')], i_TerminalID = Some ''w'',
      i_Type = AgentEventDone, i_WorkspaceID = Some ''ws''\<rparr>"

definition sample_row :: agentEventRow where
  "sample_row = (appended_row sample_input (Some ''ag'') 10)\<lparr>r_id := 1\<rparr>"

definition sample_row2 :: agentEventRow where
  "sample_row2 = (appended_row (sample_input\<lparr>i_IdempotencyKey := None\<rparr>) (Some ''ag'') 10)\<lparr>r_id := 2\<rparr>"

definition sample_acked :: agentEventRow where
  "sample_acked = sample_row\<lparr>r_status := AgentEventStatusAcked, r_deliverable := 0,
      r_deliveryAttempts := 1, r_deliveredToTerminalID := Some ''o''\<rparr>"

definition sample_delivered :: agentEventRow where
  "sample_delivered = sample_row\<lparr>r_status := AgentEventStatusDelivered, r_deliveryAttempts := 1,
      r_lastAttemptAtMs := Some 7, r_deliveredToTerminalID := Some ''o''\<rparr>"

definition sample_scope :: scopeRow where
  "sample_scope =
     \<lparr>c_ackedEventID = 0, c_createdAt = 1, c_herdrSessionName = ''s'', c_ownerPaneID = Some ''po'',
      c_ownerTerminalID = Some ''o'', c_updatedAt = 1, c_workspaceID = ''ws''\<rparr>"

definition sample_tables :: "agentEventRow list \<Rightarrow> tables" where
  "sample_tables rows =
     \<lparr>agent_events = rows, agent_events_seq = int (length rows), status_event_plans = [],
      status_event_plans_seq = 0, agent_orchestrator_scopes = [sample_scope],
      agents = [sample_agent],
      herdr_sessions = [\<lparr>h_lastScannedAt = Some 1, h_name = ''s'', h_running = 1, h_sessionDir = ''d'',
        h_socketPath = ''k'', h_updatedAt = 1\<rparr>],
      agent_pane_tombstones = [], agent_context_snapshots = [], herdr_workspaces = [],
      agent_history_cache = [], agent_history_cache_seq = 0, daemon_meta = []\<rparr>"

text \<open>No transaction is open and no fault is scheduled; the clock stands at 10 milliseconds.\<close>

definition sample_world :: "agentEventRow list \<Rightarrow> world" where
  "sample_world rows =
     \<lparr>w_tables = sample_tables rows, w_open = None, w_faults = [], w_wall = 10, w_logicalNow = 10,
      w_lastPersistedLogicalNow = 10, w_terminalTitles = [], w_evalSymlinks = (\<lambda>_. None),
      w_uuids = (\<lambda>n. replicate n (CHR ''u'')), w_uuidsDrawn = 0\<rparr>"

lemmas sample_defs = sample_agent_def sample_input_def sample_row_def sample_row2_def
  sample_acked_def sample_delivered_def sample_scope_def sample_tables_def sample_world_def

lemma sample_world_simps [simp]:
  "w_tables (sample_world rows) = sample_tables rows" "w_open (sample_world rows) = None"
  "w_faults (sample_world rows) = []" "w_wall (sample_world rows) = 10"
  "w_logicalNow (sample_world rows) = 10" "committed (sample_world rows) = sample_tables rows"
  by (simp_all add: sample_world_def committed_def)

end
