(* ===== verification/EventLifecycle.thy ===== *)
theory EventLifecycle
  imports Samples
begin

text \<open>
  What the event store keeps. \<open>events_ok\<close> is the well-formedness of the \<open>agent_events\<close> table
  (ids handed out in order, keys unique, each row consistent with its status), \<open>row_step\<close> is what
  a statement may do to one row. The locale \<open>event_discipline\<close> is the contract of a relation on
  tables that every statement of the store respects; inside it each operation of the store is
  shown to move along the relation, under every schedule of driver failures. The interpretations
  give the life cycle of the rows (\<open>events_evolve\<close>) and the frame (\<open>others_kept\<close>).
\<close>

subsection \<open>Well-formed rows and tables\<close>

definition settled :: "agentEventRow \<Rightarrow> bool" where
  "settled r \<longleftrightarrow> r_status r = AgentEventStatusAcked \<or> r_status r = AgentEventStatusFailed"

fun status_ok :: "AgentEventStatus \<Rightarrow> agentEventRow \<Rightarrow> bool" where
  "status_ok AgentEventStatusPending r \<longleftrightarrow> r_deliverable r = 1 \<and> r_deliveredToTerminalID r = None"
| "status_ok AgentEventStatusDelivered r \<longleftrightarrow>
     r_deliverable r = 1 \<and> r_deliveredToTerminalID r \<noteq> None \<and> r_lastAttemptAtMs r \<noteq> None
     \<and> 1 \<le> r_deliveryAttempts r"
| "status_ok AgentEventStatusAcked r \<longleftrightarrow> r_deliverable r = 0"
| "status_ok AgentEventStatusInvalidated r \<longleftrightarrow> r_deliverable r \<in> {0, 1}"
| "status_ok AgentEventStatusFailed r \<longleftrightarrow>
     r_deliverable r = 0 \<and> r_deliveredToTerminalID r = None \<and> 10 \<le> r_deliveryAttempts r"

definition row_ok :: "agentEventRow \<Rightarrow> bool" where
  "row_ok r \<longleftrightarrow> status_ok (r_status r) r \<and> 0 \<le> r_deliveryAttempts r \<and> r_nextAttemptAtMs r = None"

definition same_key :: "agentEventRow \<Rightarrow> agentEventRow \<Rightarrow> bool" where
  "same_key r r' \<longleftrightarrow> r_idempotencyKey r \<noteq> None \<and> r_idempotencyKey r' = r_idempotencyKey r
     \<and> r_herdrSessionName r' = r_herdrSessionName r"

definition events_ok :: "tables \<Rightarrow> bool" where
  "events_ok t \<longleftrightarrow> sorted_wrt (<) (map r_id (agent_events t))
     \<and> (\<forall>r \<in> set (agent_events t). 0 < r_id r \<and> r_id r \<le> agent_events_seq t \<and> row_ok r)
     \<and> (\<forall>r \<in> set (agent_events t). \<forall>r' \<in> set (agent_events t). same_key r r' \<longrightarrow> r_id r' = r_id r)
     \<and> 0 \<le> agent_events_seq t"

text \<open>What a statement may change of a row: never what it says happened, nor a settled outcome.\<close>

definition same_facts :: "agentEventRow \<Rightarrow> agentEventRow \<Rightarrow> bool" where
  "same_facts r r' \<longleftrightarrow> r_id r' = r_id r \<and> r_herdrSessionName r' = r_herdrSessionName r
     \<and> r_idempotencyKey r' = r_idempotencyKey r \<and> r_paneID r' = r_paneID r
     \<and> r_paneGeneration r' = r_paneGeneration r \<and> r_payload r' = r_payload r
     \<and> r_compactHistory r' = r_compactHistory r \<and> r_createdAtMs r' = r_createdAtMs r
     \<and> r_terminalID r' = r_terminalID r \<and> r_eventType r' = r_eventType r
     \<and> r_workspaceID r' = r_workspaceID r
     \<and> (r_agentID r' = r_agentID r \<or> r_agentID r' = None)"

definition row_step :: "agentEventRow \<Rightarrow> agentEventRow \<Rightarrow> bool" where
  "row_step r r' \<longleftrightarrow> same_facts r r' \<and> (row_ok r \<longrightarrow> row_ok r')
     \<and> (settled r \<longrightarrow> r' = r\<lparr>r_agentID := r_agentID r'\<rparr>)"

lemma row_step_refl [simp, intro]: "row_step r r"
  by (simp add: row_step_def same_facts_def)

lemma row_step_trans:
  assumes rs: "row_step r s" and st: "row_step s t"
  shows "row_step r t"
proof -
  have facts: "same_facts r t" using rs st by (auto simp: row_step_def same_facts_def)
  have "t = r\<lparr>r_agentID := r_agentID t\<rparr>" if set_r: "settled r"
  proof -
    have s: "s = r\<lparr>r_agentID := r_agentID s\<rparr>" using rs set_r by (simp add: row_step_def)
    have "r_status s = r_status r" by (subst s) simp
    then have "settled s" using set_r by (simp add: settled_def)
    then have "t = s\<lparr>r_agentID := r_agentID t\<rparr>" using st by (simp add: row_step_def)
    also have "\<dots> = r\<lparr>r_agentID := r_agentID t\<rparr>" by (subst s) simp
    finally show ?thesis .
  qed
  with facts rs st show ?thesis by (auto simp: row_step_def)
qed

text \<open>The shape of every status change of the store: a row that is not settled yet.\<close>

lemma row_step_open:
  "\<not> settled r \<Longrightarrow> same_facts r r' \<Longrightarrow> (row_ok r \<Longrightarrow> row_ok r') \<Longrightarrow> row_step r r'"
  by (simp add: row_step_def)

lemmas row_step_simps =
  settled_def same_facts_def row_ok_def pending_or_delivered_def retained_row_def

lemma row_step_id: "row_step r r' \<Longrightarrow> r_id r' = r_id r"
  by (simp add: row_step_def same_facts_def)

lemma row_step_key: "row_step r r' \<Longrightarrow> row_step s s' \<Longrightarrow> same_key r' s' \<longleftrightarrow> same_key r s"
  by (auto simp: row_step_def same_facts_def same_key_def)

lemma row_step_ok: "row_step r r' \<Longrightarrow> row_ok r \<Longrightarrow> row_ok r'"
  by (simp add: row_step_def)

subsection \<open>Statements keep the table well formed\<close>

lemma events_okD:
  assumes "events_ok t"
  shows "sorted_wrt (<) (map r_id (agent_events t))" "distinct (map r_id (agent_events t))"
    and "r \<in> set (agent_events t) \<Longrightarrow> row_ok r"
    and "r \<in> set (agent_events t) \<Longrightarrow> 0 < r_id r"
    and "r \<in> set (agent_events t) \<Longrightarrow> r_id r \<le> agent_events_seq t"
  using assms by (auto simp: events_ok_def intro: strict_sorted_distinct)

lemma events_ok_unique:
  assumes "events_ok t" "r \<in> set (agent_events t)" "r' \<in> set (agent_events t)" "r_id r' = r_id r"
  shows "r' = r"
  using assms events_okD(2) [OF assms(1)] by (meson distinct_map inj_onD)

lemma update_events_eq:
  "snd (update_events p f t) = t\<lparr>agent_events := update_where p f (agent_events t)\<rparr>"
  by (simp add: update_events_def)

lemma events_ok_update:
  assumes ok: "events_ok t" and step: "\<And>r. r \<in> set (agent_events t) \<Longrightarrow> p r \<Longrightarrow> row_step r (f r)"
  shows "events_ok (snd (update_events p f t))"
proof -
  define g where "g = (\<lambda>r. if p r then f r else r)"
  have st: "row_step r (g r)" if "r \<in> set (agent_events t)" for r using step that by (simp add: g_def)
  have ids: "r_id (g r) = r_id r" if "r \<in> set (agent_events t)" for r
    using st [OF that] by (rule row_step_id)
  have rows: "map r_id (map g (agent_events t)) = map r_id (agent_events t)" using ids by simp
  have good: "row_ok (g r)" if "r \<in> set (agent_events t)" for r
    using st [OF that] ok that by (auto simp: events_ok_def intro: row_step_ok)
  have keys: "same_key (g r) (g s) \<longleftrightarrow> same_key r s"
    if "r \<in> set (agent_events t)" "s \<in> set (agent_events t)" for r s
    using row_step_key [OF st st] that by blast
  have "update_where p f (agent_events t) = map g (agent_events t)"
    by (simp add: update_where_def g_def)
  then show ?thesis
    using ok ids rows good keys unfolding events_ok_def update_events_eq by (simp del: map_map)
qed

lemma events_ok_delete:
  assumes "events_ok t"
  shows "events_ok (snd (delete_events p t))"
  using assms unfolding events_ok_def delete_events_def
  by (auto simp: delete_where_def intro: sorted_map_filter)

lemma insert_event_InrD:
  assumes "insert_event row t = Inr (eventID, u)"
  shows "eventID = agent_events_seq t + 1"
    and "u = t\<lparr>agent_events := agent_events t @ [row\<lparr>r_id := eventID\<rparr>], agent_events_seq := eventID\<rparr>"
    and "r \<in> set (agent_events t) \<Longrightarrow> \<not> same_key r row"
  using assms by (auto simp: insert_event_def Let_def same_key_def has_key_def split: if_splits)

lemma row_ok_appended: "row_ok ((appended_row input agentID now)\<lparr>r_id := eventID\<rparr>)"
  by (simp add: appended_row_def row_ok_def)

lemma events_ok_insert:
  assumes ok: "events_ok t" and ins: "insert_event (appended_row input agentID now) t = Inr (eventID, u)"
  shows "events_ok u"
proof -
  define row where "row = (appended_row input agentID now)\<lparr>r_id := eventID\<rparr>"
  note new = insert_event_InrD [OF ins]
  have u: "agent_events u = agent_events t @ [row]" "agent_events_seq u = agent_events_seq t + 1"
    using new(1,2) by (simp_all add: row_def)
  have id: "r_id row = agent_events_seq t + 1" and good: "row_ok row"
    using new(1) row_ok_appended by (simp_all add: row_def)
  have key: "\<not> same_key r row" "\<not> same_key row r" if "r \<in> set (agent_events t)" for r
    using new(3) [OF that] by (auto simp: same_key_def row_def)
  have below: "\<forall>r \<in> set (agent_events t). r_id r < r_id row" using ok id by (auto simp: events_ok_def)
  then have "sorted_wrt (<) (map r_id (agent_events u))"
    using ok unfolding u events_ok_def by (auto simp: sorted_wrt_append)
  moreover have "\<forall>r \<in> set (agent_events u). 0 < r_id r \<and> r_id r \<le> agent_events_seq u \<and> row_ok r"
    using ok id good unfolding u events_ok_def by auto
  moreover have "\<forall>r \<in> set (agent_events u). \<forall>s \<in> set (agent_events u). same_key r s \<longrightarrow> r_id s = r_id r"
    using ok key unfolding u events_ok_def by auto
  ultimately show ?thesis using ok unfolding events_ok_def u(2) by simp
qed

lemma events_ok_meta: "events_ok t \<Longrightarrow> events_ok (snd (put_meta key value t))"
  by (simp add: events_ok_def put_meta_def)

subsection \<open>The discipline of the store's statements\<close>

lemma set_events_asc [simp]: "set (events_asc p t) = {r \<in> set (agent_events t). p r}"
  by (auto simp: events_asc_def)

lemma set_sql_limit: "set (sql_limit n xs) \<subseteq> set xs"
  by (auto simp: sql_limit_def dest: in_set_takeD)

lemma in_sql_limit: "x \<in> set (sql_limit n xs) \<Longrightarrow> x \<in> set xs"
  using set_sql_limit by fast

locale event_discipline = guarded_discipline Q events_ok
  for Q :: "tables \<Rightarrow> tables \<Rightarrow> bool" +
  assumes Q_meta: "events_ok t \<Longrightarrow> Q t (snd (put_meta key value t))"
    and Q_update: "events_ok t \<Longrightarrow> (\<And>r. r \<in> set (agent_events t) \<Longrightarrow> p r \<Longrightarrow> row_step r (f r))
      \<Longrightarrow> Q t (snd (update_events p f t))"
    and Q_delete: "events_ok t \<Longrightarrow> Q t (snd (delete_events p t))"
    and Q_insert: "events_ok t \<Longrightarrow> insert_event (appended_row input agentID now) t = Inr (eventID, u)
      \<Longrightarrow> Q t u"
begin

abbreviation "G \<equiv> guarded events_ok Q"

lemma moves_meta [moves_rules]: "moves (inside G) (change_sql (put_meta key value))"
  by (rule grd.moves_change) (auto intro: guardedI events_ok_meta Q_meta)

lemma moves_update:
  assumes "\<And>t r. events_ok t \<Longrightarrow> r \<in> set (agent_events t) \<Longrightarrow> p t r \<Longrightarrow> row_step r (f r)"
  shows "moves (inside G) (change_sql (\<lambda>t. update_events (p t) f t))"
  by (rule grd.moves_change) (auto intro!: guardedI events_ok_update Q_update assms)

lemma moves_delete [moves_rules]: "moves (inside G) (change_sql (delete_events p))"
  by (rule grd.moves_change) (auto intro: guardedI events_ok_delete Q_delete)

lemma moves_insert [moves_rules]:
  "moves (inside G) (exec_sql (insert_event (appended_row input agentID now)))"
  by (rule grd.moves_exec) (auto intro: guardedI events_ok_insert Q_insert)

lemma moves_clock_field: "(\<And>w. w_tables (f w) = w_tables w \<and> w_open (f w) = w_open w)
    \<Longrightarrow> moves (inside G) (modify_act f)"
  by (rule grd.ins.moves_modify) (simp add: inside_def grd.refl_Q)

lemma moves_logical_now [moves_rules]: "moves (inside G) logical_now"
proof (rule movesI)
  fix w
  have persist: "inside G w (snd (bind_act (change_sql (put_meta k v)) (\<lambda>_. read_act w_logicalNow) w2))"
    if "w_tables w2 = w_tables w" "w_open w2 = w_open w" for k v w2
  proof -
    have "moves (inside G) (bind_act (change_sql (put_meta k v)) (\<lambda>_. read_act w_logicalNow))"
      by (intro moves_rules)
    from movesD [OF this, of w2] that show ?thesis by (simp add: inside_def)
  qed
  have same: "inside G w w2" if "w_tables w2 = w_tables w" "w_open w2 = w_open w" for w2
    using that by (simp add: inside_def grd.refl_Q)
  show "inside G w (snd (logical_now w))"
    unfolding logical_now_def Let_def by (simp add: persist same del: act_simps)
qed

lemma moves_NewAgentEventStore: "moves (inside G) NewAgentEventStore"
  unfolding NewAgentEventStore_def by (intro moves_rules moves_clock_field) simp_all

lemma moves_get_event [moves_rules]: "moves (inside G) (get_event eventID)"
  unfolding get_event_def by (intro moves_rules)

lemma moves_lookup_existing [moves_rules]: "moves (inside G) (lookup_existing session key)"
  unfolding lookup_existing_def getByIdempotencyKey_def by (intro moves_rules)

lemma moves_Append: "moves (inside G) (Append input)"
  unfolding Append_def resolveAppendAgentID_def by (intro moves_rules)

lemma moves_invalidatePaneCore [moves_rules]: "moves (inside G) (invalidatePaneCore input)"
proof -
  have 0: "moves (inside G) (change_sql (close_step0 input))"
    unfolding close_step0_def by (rule moves_update) (auto intro!: row_step_open simp: row_step_simps)
  have 1: "moves (inside G) (change_sql (close_step1 input))"
    unfolding close_step1_def by (rule moves_update) (auto intro!: row_step_open simp: row_step_simps)
  have 2: "moves (inside G) (change_sql (close_step2 input now))" for now
    unfolding close_step2_def by (rule moves_update) (auto intro!: row_step_open simp: row_step_simps)
  show ?thesis unfolding invalidatePaneCore_def by (intro moves_rules 0 1 2)
qed

lemma moves_reserve_row:
  assumes "\<And>n. e_DeliveryAttempts row = Some n \<Longrightarrow> 0 \<le> n"
  shows "moves (inside G) (reserve_row now terminalID row)"
proof -
  have "0 \<le> (case e_DeliveryAttempts row of None \<Rightarrow> 0 | Some n \<Rightarrow> n)"
    using assms by (auto split: option.split)
  then show ?thesis
    unfolding reserve_row_def Let_def
    by (intro moves_rules moves_update) (auto intro!: row_step_open simp: row_step_simps)
qed

lemma moves_reservePendingCore: "moves (inside G) (reservePendingCore terminalID limit ids)"
  unfolding reservePendingCore_def
proof (rule grd.ins.moves_bind [OF moves_logical_now], rule moves_bind_query, goal_cases)
  case (1 now t)
  then show ?case
    by (intro grd.ins.moves_bind grd.ins.moves_collect moves_get_event grd.ins.moves_for_each_in
        moves_reserve_row) (auto simp: row_ok_def dest!: events_okD(3) in_sql_limit)
next
  case (2 now rows)
  show ?case
    unfolding reserve_row_def Let_def get_event_def by (intro moves_rules any.moves_change) simp
qed

lemma moves_reclaimDeliveredCore: "moves (inside G) (reclaimDeliveredCore timeoutMs)"
proof -
  have closed: "moves (inside G) (change_sql (reclaim_closed cutoff))" for cutoff
    unfolding reclaim_closed_def [abs_def]
    by (rule moves_update) (auto intro!: row_step_open simp: row_step_simps)
  have ownerless: "moves (inside G) (change_sql reclaim_ownerless)"
    unfolding reclaim_ownerless_def [abs_def]
    by (rule moves_update) (auto intro!: row_step_open simp: row_step_simps reclaimWhere_def)
  show ?thesis unfolding reclaimDeliveredCore_def by (intro moves_rules closed ownerless)
qed

lemma moves_single_statements:
  "moves (inside G) (MarkRetainedInvalidated eventID)"
  "moves (inside G) (DeleteReconcileCandidate eventID)"
  "moves (inside G) (DeleteInvalidatedOlderThan ageMs)"
  "moves (inside G) (DeleteSettledOlderThan ageMs)"
  "moves (inside G) (AckSelfOwned self)"
  "moves (inside G) (InvalidateByID eventID reason)"
  "moves (inside G) (MarkAcked eventID scope)"
  unfolding MarkRetainedInvalidated_def DeleteReconcileCandidate_def DeleteInvalidatedOlderThan_def
    DeleteSettledOlderThan_def AckSelfOwned_def InvalidateByID_def MarkAcked_def affected_some_def
  by (intro moves_rules moves_update; auto intro!: row_step_open
      simp: row_step_simps ackable_row_def ack_row_def split: option.splits)+

lemma moves_ListAfter: "moves (inside G) (ListAfter input)"
  unfolding ListAfter_def Let_def by (intro moves_rules)

lemma moves_scan_rows:
  assumes "\<And>getAgent a. n_GetAgent input = Some getAgent \<Longrightarrow> moves (inside G) (getAgent a)"
  shows "moves (inside G) (scan_rows input rows)"
proof (induction rows)
  case (Cons event rows)
  have read: "moves (inside G) (is_deliverable event agent scope ownerTerminalID)" for agent scope ownerTerminalID
    by (rule movesI) (simp add: is_deliverable_def inside_def grd.refl_Q)
  have "moves (inside G) (case e_AgentID event of None \<Rightarrow> return_act None
      | Some agentID \<Rightarrow> (case n_GetAgent input of None \<Rightarrow> return_act None
          | Some getAgent \<Rightarrow> getAgent agentID))"
    using assms by (auto intro: moves_rules split: option.splits)
  then show ?case by (auto simp: Let_def intro!: moves_rules read Cons.IH)
qed (simp add: moves_rules)

lemma moves_NextDeliverableAfter:
  assumes "\<And>getAgent a. n_GetAgent input = Some getAgent \<Longrightarrow> moves (inside G) (getAgent a)"
  shows "moves (inside G) (NextDeliverableAfter input)"
proof -
  have "moves (inside G) (scan_pages pages input afterEventID)" for pages afterEventID
    by (induction pages arbitrary: afterEventID) (auto intro!: moves_rules moves_scan_rows assms)
  then show ?thesis by (simp add: NextDeliverableAfter_def)
qed

lemma durable_transactions:
  "moves (durable G) (InvalidatePane input)"
  "moves (durable G) (ReservePending terminalID limit ids)"
  "moves (durable G) (ReclaimDelivered timeoutMs)"
  unfolding InvalidatePane_def ReservePending_def ReclaimDelivered_def
  by (intro moves_rules moves_reservePendingCore moves_reclaimDeliveredCore)+

lemmas moves_operations =
  moves_NewAgentEventStore moves_Append moves_invalidatePaneCore moves_single_statements
  moves_ListAfter

lemmas durable_operations = moves_operations [THEN grd.durable_of_inside] durable_transactions

lemma durable_NextDeliverableAfter:
  assumes "\<And>getAgent a. n_GetAgent input = Some getAgent \<Longrightarrow> moves (inside G) (getAgent a)"
  shows "moves (durable G) (NextDeliverableAfter input)"
  by (intro grd.durable_of_inside moves_NextDeliverableAfter assms)

end

subsection \<open>Two disciplines\<close>

text \<open>A row of the later table is a step of the earlier row of its id, or its id is new.\<close>

definition events_evolve :: "tables \<Rightarrow> tables \<Rightarrow> bool" where
  "events_evolve t t' \<longleftrightarrow> agent_events_seq t \<le> agent_events_seq t'
     \<and> (\<forall>r' \<in> set (agent_events t').
          agent_events_seq t < r_id r' \<or> (\<exists>r \<in> set (agent_events t). row_step r r'))"

text \<open>No operation of the event store touches another store's table.\<close>

definition others_kept :: "tables \<Rightarrow> tables \<Rightarrow> bool" where
  "others_kept t t' \<longleftrightarrow>
     status_event_plans t' = status_event_plans t
     \<and> status_event_plans_seq t' = status_event_plans_seq t
     \<and> agent_orchestrator_scopes t' = agent_orchestrator_scopes t \<and> agents t' = agents t
     \<and> herdr_sessions t' = herdr_sessions t \<and> agent_pane_tombstones t' = agent_pane_tombstones t
     \<and> agent_context_snapshots t' = agent_context_snapshots t
     \<and> herdr_workspaces t' = herdr_workspaces t \<and> agent_history_cache t' = agent_history_cache t
     \<and> agent_history_cache_seq t' = agent_history_cache_seq t"

lemma events_evolve_update:
  "(\<And>r. r \<in> set (agent_events t) \<Longrightarrow> p r \<Longrightarrow> row_step r (f r)) \<Longrightarrow>
    events_evolve t (snd (update_events p f t))"
  by (fastforce simp: events_evolve_def update_events_eq set_update_where)

lemma events_evolve_trans:
  assumes "events_evolve t u" and "events_evolve u v"
  shows "events_evolve t v"
  using assms unfolding events_evolve_def
  by (smt (verit, best) row_step_id row_step_trans)

interpretation life: event_discipline events_evolve
proof
  fix t :: tables and p f
  assume "\<And>r. r \<in> set (agent_events t) \<Longrightarrow> p r \<Longrightarrow> row_step r (f r)"
  then show "events_evolve t (snd (update_events p f t))" by (rule events_evolve_update)
next
  fix t u :: tables and input agentID now eventID
  assume "insert_event (appended_row input agentID now) t = Inr (eventID, u)"
  from insert_event_InrD(1,2) [OF this] show "events_evolve t u"
    by (auto simp: events_evolve_def)
next
  fix t u v :: tables
  assume "events_evolve t u" "events_evolve u v"
  then show "events_evolve t v" by (rule events_evolve_trans)
qed (auto simp: events_evolve_def put_meta_def delete_events_def)

interpretation frame: event_discipline others_kept
proof
  fix t u :: tables and input agentID now eventID
  assume "insert_event (appended_row input agentID now) t = Inr (eventID, u)"
  from insert_event_InrD(2) [OF this] show "others_kept t u" by (simp add: others_kept_def)
qed (auto simp: others_kept_def put_meta_def delete_events_def update_events_eq)

subsection \<open>Runs of the store\<close>

text \<open>
  One step of a running daemon as the event store sees it: an operation with any arguments and
  any outcome, the clock moving on, a change of what the driver will refuse, or a crash and
  restart, which loses the open transaction and the clock fields.
\<close>

definition restart :: "world \<Rightarrow> world" where
  "restart w = w\<lparr>w_tables := committed w, w_open := None, w_logicalNow := 0,
     w_lastPersistedLogicalNow := 0\<rparr>"

definition reads_only :: "(string \<Rightarrow> 'a op) \<Rightarrow> bool" where
  "reads_only f \<longleftrightarrow> (\<forall>x w. w_tables (snd (f x w)) = w_tables w \<and> w_open (snd (f x w)) = w_open w)"

inductive store_step :: "world \<Rightarrow> world \<Rightarrow> bool" where
  open_store: "NewAgentEventStore w = (r, w') \<Longrightarrow> store_step w w'"
| append: "Append input w = (r, w') \<Longrightarrow> store_step w w'"
| invalidate_pane: "InvalidatePane input w = (r, w') \<Longrightarrow> store_step w w'"
| invalidate_direct: "InvalidatePaneDirect input w = (r, w') \<Longrightarrow> store_step w w'"
| mark_retained: "MarkRetainedInvalidated eventID w = (r, w') \<Longrightarrow> store_step w w'"
| delete_candidate: "DeleteReconcileCandidate eventID w = (r, w') \<Longrightarrow> store_step w w'"
| delete_invalidated: "DeleteInvalidatedOlderThan ageMs w = (r, w') \<Longrightarrow> store_step w w'"
| delete_settled: "DeleteSettledOlderThan ageMs w = (r, w') \<Longrightarrow> store_step w w'"
| ack_self_owned: "AckSelfOwned self w = (r, w') \<Longrightarrow> store_step w w'"
| invalidate_id: "InvalidateByID eventID reason w = (r, w') \<Longrightarrow> store_step w w'"
| list_after: "ListAfter list_input w = (r, w') \<Longrightarrow> store_step w w'"
| next_deliverable: "NextDeliverableAfter next_input w = (r, w') \<Longrightarrow>
    (\<And>f. n_GetAgent next_input = Some f \<Longrightarrow> reads_only f) \<Longrightarrow> store_step w w'"
| reserve: "ReservePending terminalID limit ids w = (r, w') \<Longrightarrow> store_step w w'"
| reclaim: "ReclaimDelivered timeoutMs w = (r, w') \<Longrightarrow> store_step w w'"
| mark_acked: "MarkAcked eventID scope w = (r, w') \<Longrightarrow> store_step w w'"
| tick: "store_step w (w\<lparr>w_wall := now\<rparr>)"
| driver: "store_step w (w\<lparr>w_faults := faults\<rparr>)"
| crash: "store_step w (restart w)"

context event_discipline
begin

lemma durable_world: "committed w' = committed w \<Longrightarrow> durable G w w'"
  by (simp add: durable_def grd.refl_Q)

lemma step_durable:
  assumes "store_step w w'"
  shows "durable G w w'"
  using assms
proof cases
  case (next_deliverable next_input r)
  have "moves (inside G) (f a)" if "reads_only f" for f a
    using that by (intro movesI) (simp add: inside_def reads_only_def grd.refl_Q)
  with next_deliverable show ?thesis
    using moves_resultD [OF durable_NextDeliverableAfter] by blast
next
  case (tick now)
  then show ?thesis by (auto intro!: durable_world simp: committed_def split: option.split)
next
  case (driver faults)
  then show ?thesis by (auto intro!: durable_world simp: committed_def split: option.split)
next
  case crash
  then show ?thesis by (auto intro!: durable_world simp: committed_def restart_def split: option.split)
qed (auto simp: InvalidatePaneDirect_def intro: durable_operations [THEN moves_resultD])

lemma run_durable: "store_step\<^sup>*\<^sup>* w w' \<Longrightarrow> durable G w w'"
  by (induction rule: rtranclp_induct) (auto intro: grd.dur.refl_R grd.dur.trans_R step_durable)

lemma run_moves:
  assumes "store_step\<^sup>*\<^sup>* w w'" and "events_ok (committed w)"
  shows "events_ok (committed w')" and "Q (committed w) (committed w')"
  using run_durable [OF assms(1)] assms(2) by (auto simp: durable_def guarded_def)

end

subsection \<open>Properties\<close>

text \<open>
  C1: along every run of the event store (any operations in any order, any driver failures,
  crashes and restarts) the durable \<open>agent_events\<close> table stays well formed: ids strictly
  increasing and never reused, one row per (session, idempotency key), a delivered row names the
  terminal that got it and counts at least one attempt, an acked or failed row is not deliverable,
  a failed row had ten attempts.
\<close>

theorem events_invariant:
  assumes "store_step\<^sup>*\<^sup>* w w'" and "events_ok (committed w)"
  shows "events_ok (committed w') \<and> agent_events_seq (committed w) \<le> agent_events_seq (committed w')"
  using life.run_moves [OF assms] by (simp add: events_evolve_def)

lemma sample_events_ok:
  "events_ok (sample_tables [])" "events_ok (sample_tables [sample_row])"
  "events_ok (sample_tables [sample_acked])" "events_ok (sample_tables [sample_delivered, sample_row2])"
  by (simp_all add: events_ok_def sample_defs appended_row_def row_ok_def same_key_def)

lemma sample_append:
  "snd (Append sample_input (sample_world [])) = sample_world [sample_row]"
  by (simp add: Append_def lookup_existing_def getByIdempotencyKey_def resolveAppendAgentID_def
      logical_now_def exec_sql_def query_sql_def insert_event_def get_event_def catch_act_def
      act_defs next_fault_def spend_fault_def sample_defs appended_row_def has_key_def Let_def)

lemma sample_run: "store_step\<^sup>*\<^sup>* (sample_world []) (sample_world [sample_row])"
  by (rule r_into_rtranclp, rule store_step.append [of sample_input _
        "fst (Append sample_input (sample_world []))"])
    (metis prod.collapse sample_append)

theorem events_invariant_witness:
  "events_ok (committed (sample_world [sample_row]))"
  using events_invariant [OF sample_run] sample_events_ok(1) by simp

text \<open>
  C5: once an event is acked or failed nothing the store does changes its outcome again: as long
  as the row exists it is the same row, apart from the agent reference that the deletion of the
  agent clears. Redelivery and reclaim never touch a settled event.
\<close>

theorem settled_outcomes_final:
  assumes run: "store_step\<^sup>*\<^sup>* w w'" and ok: "events_ok (committed w)"
    and r: "r \<in> set (agent_events (committed w))" "settled r"
    and r': "r' \<in> set (agent_events (committed w'))" "r_id r' = r_id r"
  shows "r' = r\<lparr>r_agentID := r_agentID r'\<rparr>"
proof -
  have "r_id r' \<le> agent_events_seq (committed w)" using events_okD(5) [OF ok r(1)] r'(2) by simp
  then obtain r0 where "r0 \<in> set (agent_events (committed w))" "row_step r0 r'"
    using life.run_moves(2) [OF run ok] r'(1) by (auto simp: events_evolve_def)
  moreover from this have "r0 = r" using events_ok_unique [OF ok r(1)] r'(2) by (auto dest: row_step_id)
  ultimately show ?thesis using r(2) by (simp add: row_step_def)
qed

theorem settled_outcomes_final_witness:
  "settled sample_acked \<and> sample_acked = sample_acked\<lparr>r_agentID := r_agentID sample_acked\<rparr>"
proof -
  have s: "settled sample_acked" by (simp add: settled_def sample_defs)
  have "store_step\<^sup>*\<^sup>* (sample_world [sample_acked]) (sample_world [sample_acked]\<lparr>w_wall := 99\<rparr>)"
    by (rule r_into_rtranclp, rule store_step.tick)
  from settled_outcomes_final [OF this _ _ s, of sample_acked] s sample_events_ok(3) show ?thesis
    by (simp add: committed_def sample_tables_def sample_world_def)
qed

text \<open>
  what an event says happened (its pane, terminal, workspace, type, payload, history, time)
  never changes, and the store's operations touch no other table: along every run each event is
  new or reports the same facts as before, and scopes, agents, plans and tombstones stay.
\<close>

theorem event_facts_immutable:
  assumes run: "store_step\<^sup>*\<^sup>* w w'" and ok: "events_ok (committed w)"
  shows "(\<forall>r' \<in> set (agent_events (committed w')).
            agent_events_seq (committed w) < r_id r'
            \<or> (\<exists>r \<in> set (agent_events (committed w)). same_facts r r'))
         \<and> others_kept (committed w) (committed w')"
  using life.run_moves(2) [OF run ok] frame.run_moves(2) [OF run ok]
  by (auto simp: events_evolve_def row_step_def)

theorem event_facts_immutable_witness:
  "others_kept (sample_tables []) (sample_tables [sample_row])"
  using event_facts_immutable [OF sample_run] sample_events_ok(1) by simp

text \<open>
  C12: closing a pane, reserving and reclaiming are atomic: when one of them returns an error,
  whichever statement failed (the rollback included), the durable tables are as before the call.
\<close>

theorem transactions_atomic:
  assumes "InvalidatePane input w = (Inl e, w') \<or> ReservePending terminalID limit ids w = (Inl e, w')
    \<or> ReclaimDelivered timeoutMs w = (Inl e, w')"
  shows "committed w' = committed w"
  using assms unfolding InvalidatePane_def ReservePending_def ReclaimDelivered_def
  by (auto intro: tx_error_committed life.moves_invalidatePaneCore life.moves_reservePendingCore
      life.moves_reclaimDeliveredCore)

theorem transactions_atomic_witness:
  "committed (snd (ReclaimDelivered 60000 ((sample_world [sample_row])\<lparr>w_faults := [False, False, True]\<rparr>)))
     = sample_tables [sample_row]"
proof -
  let ?w = "(sample_world [sample_row])\<lparr>w_faults := [False, False, True]\<rparr>"
  have "ReclaimDelivered 60000 ?w = (Inl ErrDriver, snd (ReclaimDelivered 60000 ?w))"
    by (simp add: ReclaimDelivered_def RunSqliteTransaction_def begin_immediate_def
        reclaimDeliveredCore_def logical_now_def change_sql_def query_sql_def exec_sql_def act_defs
        rollback_tx_def next_fault_def spend_fault_def Let_def sample_world_def sample_tables_def
        reclaim_closed_def update_events_def)
  from transactions_atomic [of undefined ?w ErrDriver "snd (ReclaimDelivered 60000 ?w)" undefined 0 undefined 60000] this
  show ?thesis by (simp add: committed_def)
qed

end
