(* ===== verification/EventDelivery.thy ===== *)
theory EventDelivery
  imports EventLifecycle
begin

text \<open>
  The functional behaviour of the event store's operations: the delivery predicate, the logical
  clock, append, reservation, pane closing, reclaiming and the paged scan for the next deliverable
  event. Each multi-statement operation is shown equal to a one-pass specification on the rows.
\<close>

subsection \<open>The delivery predicate\<close>

text \<open>
  what the single delivery predicate admits, it admits safely: the event is pending, delivered
  to this very owner, or retained; it lies in the owner's scope, never comes from the owner's own
  terminal, is never a bare status change, and an idle event only reports a turn that ended (it
  left \<open>working\<close> and is not in the middle of a tool round).
\<close>

theorem deliverable_event_safe:
  assumes "IsDeliverableAgentEvent evalSymlinks wall event agent scope ownerTerminalID = Inr True"
  shows "(e_Status event = Some AgentEventStatusPending
           \<or> (e_Status event = Some AgentEventStatusDelivered
               \<and> e_DeliveredToTerminalID event = Some ownerTerminalID)
           \<or> (e_Status event = Some AgentEventStatusInvalidated \<and> e_Deliverable event = 1))
         \<and> e_WorkspaceID event = Some (s_WorkspaceID scope)
         \<and> e_HerdrSessionName event = s_HerdrSessionName scope
         \<and> (\<exists>t. e_TerminalID event = Some t \<and> t \<noteq> ownerTerminalID)
         \<and> e_Type event \<noteq> AgentEventStatusChanged
         \<and> (e_Type event = AgentEventIdle \<longrightarrow>
              payloadFrom (e_Payload event) = ''working''
              \<and> \<not> isInFlightToolUseHistory (e_CompactHistory event))"
  using assms unfolding IsDeliverableAgentEvent_def Let_def
  by (auto split: if_splits)

theorem deliverable_event_safe_witness:
  "e_TerminalID (mapAgentEvent sample_row) \<noteq> Some ''o''"
proof -
  have "IsDeliverableAgentEvent (\<lambda>_. None) 10 (mapAgentEvent (sample_row\<lparr>r_agentID := None\<rparr>)) None
      \<lparr>s_HerdrSessionName = ''s'', s_WorkspaceID = ''ws''\<rparr> ''o'' = Inr True"
    by code_simp
  from deliverable_event_safe [OF this] show ?thesis by auto
qed

text \<open>
  the predicate's only panic is the dereference of a missing pane id: it takes an event without
  a pane, decided against a live agent; an event that names its pane, or that is decided from its
  own metadata (a failure, a retained row, an orphan outcome), never panics.
\<close>

theorem deliverable_panic_only_without_pane:
  assumes "IsDeliverableAgentEvent evalSymlinks wall event agent scope ownerTerminalID = Inl e"
  shows "e = ErrPanic ''nil pointer dereference'' \<and> e_PaneID event = None \<and> agent \<noteq> None
    \<and> e_Type event \<noteq> AgentEventFailed \<and> e_Type event \<noteq> AgentEventDiscarded
    \<and> e_Status event \<noteq> Some AgentEventStatusInvalidated"
proof (cases agent)
  case None
  with assms show ?thesis
    unfolding IsDeliverableAgentEvent_def Let_def by (simp split: if_split_asm)
next
  case (Some a)
  show ?thesis
  proof (cases "e_PaneID event")
    case None
    with assms Some show ?thesis
      unfolding IsDeliverableAgentEvent_def Let_def by (simp split: if_split_asm; clarsimp)
  next
    case (Some pane)
    with assms \<open>agent = Some a\<close> show ?thesis
      unfolding IsDeliverableAgentEvent_def Let_def by (auto split: if_split_asm)
  qed
qed

definition sample_live :: AgentIndexRecord where
  "sample_live =
     \<lparr>a_Agent = Some ''pi'', a_AgentSession = None, a_AgentStatus = AgentStatusIdle, a_Cwd = None,
      a_FirstSeenAt = 1, a_Focused = False, a_ForegroundCwd = None, a_HerdrSessionName = ''s'',
      a_ID = ''ag'', a_LastSeenAt = 1, a_Name = None, a_PaneID = ''p'', a_TerminalTitle = None,
      a_PaneRevision = None, a_PaneGeneration = None, a_TabID = None, a_TerminalID = Some ''w'',
      a_WorkspaceID = ''ws''\<rparr>"

theorem deliverable_panic_only_without_pane_witness:
  "\<exists>e. IsDeliverableAgentEvent (\<lambda>_. None) 10 (mapAgentEvent (sample_row\<lparr>r_paneID := None\<rparr>))
     (Some sample_live) \<lparr>s_HerdrSessionName = ''s'', s_WorkspaceID = ''ws''\<rparr> ''o''
     = Inl e \<and> e = ErrPanic ''nil pointer dereference''"
proof -
  have "IsDeliverableAgentEvent (\<lambda>_. None) 10 (mapAgentEvent (sample_row\<lparr>r_paneID := None\<rparr>))
     (Some sample_live) \<lparr>s_HerdrSessionName = ''s'', s_WorkspaceID = ''ws''\<rparr> ''o''
     = Inl (ErrPanic ''nil pointer dereference'')" by code_simp
  with deliverable_panic_only_without_pane [OF this] show ?thesis by blast
qed

subsection \<open>The logical clock\<close>

lemma logical_now_InrD:
  assumes "logical_now w = (Inr now, w')"
  shows "now = max (w_wall w) (w_logicalNow w)" and "w_logicalNow w' = now"
    and "w_open w' = w_open w" and "w_wall w' = w_wall w" and "w_evalSymlinks w' = w_evalSymlinks w"
    and "w_tables w' = w_tables w \<lparr>daemon_meta := daemon_meta (w_tables w')\<rparr>"
  using assms unfolding logical_now_def Let_def
  by (auto simp: max_def change_sql_Inr read_act_def put_meta_def elim!: bind_act_InrE split: if_splits)

text \<open>With no fault ahead the clock always answers.\<close>

definition ticked :: "world \<Rightarrow> world" where
  "ticked w = snd (logical_now w)"

lemma logical_now_ok:
  assumes "w_faults w = []"
  shows "logical_now w = (Inr (max (w_wall w) (w_logicalNow w)), ticked w)"
    and "w_faults (ticked w) = []"
  using assms unfolding logical_now_def ticked_def Let_def
  by (auto simp: max_def change_sql_ok read_act_def bind_act_def)

text \<open>
  What \<open>now\<close> maintains while no write fails: the persisted value is the seed of the next start,
  and trails the clock by less than the persistence interval.
\<close>

definition clock_ok :: "world \<Rightarrow> bool" where
  "clock_ok w \<longleftrightarrow> w_open w = None \<and> 0 \<le> w_lastPersistedLogicalNow w
     \<and> w_lastPersistedLogicalNow w \<le> w_logicalNow w \<and> w_logicalNow w < 2 ^ 63
     \<and> w_logicalNow w - w_lastPersistedLogicalNow w < LogicalClockPersistIntervalMs
     \<and> map_of (daemon_meta (w_tables w)) LogicalClockMetaKey =
         (if w_lastPersistedLogicalNow w = 0 then None else Some (FormatInt (w_lastPersistedLogicalNow w)))"

lemma clock_ok_now:
  assumes "clock_ok w" and "w_faults w = []" and "w_wall w < 2 ^ 63"
  shows "clock_ok (ticked w)"
  using assms unfolding clock_ok_def ticked_def logical_now_def Let_def
  by (auto simp: change_sql_ok bind_act_def read_act_def put_meta_def LogicalClockPersistIntervalMs_def)

lemma persisted_grows:
  assumes "clock_ok w" and "w_faults w = []"
  shows "w_lastPersistedLogicalNow w \<le> w_lastPersistedLogicalNow (ticked w)"
  using assms unfolding clock_ok_def ticked_def logical_now_def Let_def
  by (auto simp: change_sql_ok bind_act_def read_act_def)

lemma reopen_clock:
  assumes ok: "clock_ok w" and "w_faults w = []"
  shows "NewAgentEventStore ((restart w)\<lparr>w_wall := wall\<rparr>) =
    (Inr (), w\<lparr>w_logicalNow := w_lastPersistedLogicalNow w, w_wall := wall\<rparr>)"
proof -
  have "ParseInt (FormatInt (w_lastPersistedLogicalNow w)) = Some (w_lastPersistedLogicalNow w)"
    using ok by (intro ParseInt_FormatInt) (auto simp: clock_ok_def)
  with assms show ?thesis
    by (cases w) (auto simp: clock_ok_def NewAgentEventStore_def restart_def committed_def query_sql_ok
        bind_act_def modify_act_def)
qed

text \<open>
  C13: while no write fails, the logical clock never runs backwards, not even over a restart of the
  daemon on a machine whose wall clock was set back: the value \<open>now\<close> returns is the greater of the
  wall clock and the clock's last value and is the clock's last value from then on, so the next value of
  the process is no smaller, wherever the wall clock is set; after a crash the reopened store resumes
  from the persisted value, never hands out a smaller one, and is less than a minute behind the last
  value handed out.
\<close>

theorem logical_clock_monotone:
  assumes ok: "clock_ok w" and calm: "w_faults w = []" and small: "w_wall w < 2 ^ 63"
    and now: "logical_now w = (Inr now, w1)"
    and again: "logical_now (w1\<lparr>w_wall := wall1\<rparr>) = (Inr next_now, wn)"
    and reopen: "NewAgentEventStore ((restart w1)\<lparr>w_wall := wall2\<rparr>) = (r, w2)"
    and later: "logical_now w2 = (Inr later, w3)"
  shows "clock_ok w1 \<and> now = max (w_wall w) (w_logicalNow w) \<and> w_logicalNow w1 = now
    \<and> next_now = max wall1 now
    \<and> r = Inr () \<and> later = max wall2 (w_lastPersistedLogicalNow w1)
    \<and> w_lastPersistedLogicalNow w \<le> later \<and> now - LogicalClockPersistIntervalMs < later"
proof -
  have w1: "w1 = ticked w" using now by (simp add: ticked_def)
  have ok1: "clock_ok w1" and calm1: "w_faults w1 = []"
    using clock_ok_now [OF ok calm small] logical_now_ok [OF calm] by (simp_all add: w1)
  have w2: "r = Inr ()" "w_logicalNow w2 = w_lastPersistedLogicalNow w1" "w_wall w2 = wall2"
    using reopen_clock [OF ok1 calm1, of wall2] reopen by auto
  have later_eq: "later = max wall2 (w_lastPersistedLogicalNow w1)"
    using logical_now_InrD(1) [OF later] w2 by simp
  moreover have "now - w_lastPersistedLogicalNow w1 < LogicalClockPersistIntervalMs"
    using ok1 logical_now_InrD(2) [OF now] by (simp add: clock_ok_def)
  moreover have "w_lastPersistedLogicalNow w \<le> w_lastPersistedLogicalNow w1"
    unfolding w1 by (rule persisted_grows [OF ok calm])
  ultimately show ?thesis
    using ok1 w2(1) logical_now_InrD(1,2) [OF now] logical_now_InrD(1) [OF again] by auto
qed

definition first_tick :: world where
  "first_tick = (sample_world [])\<lparr>w_wall := 70000, w_logicalNow := 0, w_lastPersistedLogicalNow := 0\<rparr>"

theorem logical_clock_monotone_witness:
  "clock_ok (ticked first_tick) \<and> fst (logical_now ((ticked first_tick)\<lparr>w_wall := 5\<rparr>)) = Inr 70000"
proof -
  have w: "clock_ok first_tick" "w_faults first_tick = []" "w_wall first_tick < 2 ^ 63"
    by (simp_all add: first_tick_def clock_ok_def sample_world_def sample_tables_def LogicalClockPersistIntervalMs_def)
  note calm = logical_now_ok(2) [OF w(2)]
  have calm5: "w_faults ((ticked first_tick)\<lparr>w_wall := 5\<rparr>) = []"
    and calm3: "w_faults ((ticked first_tick)\<lparr>w_logicalNow := w_lastPersistedLogicalNow (ticked first_tick),
      w_wall := 3\<rparr>) = []" using calm by simp_all
  note clock = logical_clock_monotone [OF w logical_now_ok(1) [OF w(2)] logical_now_ok(1) [OF calm5]
      reopen_clock [OF clock_ok_now [OF w] calm] logical_now_ok(1) [OF calm3]]
  have "max (w_wall first_tick) (w_logicalNow first_tick) = 70000" by (simp add: first_tick_def)
  then show ?thesis using clock logical_now_ok(1) [OF calm5] by simp
qed

subsection \<open>Reservation\<close>

text \<open>The specification: one pass that hands every admitted open row to the terminal.\<close>

definition reserved :: "int \<Rightarrow> string \<Rightarrow> agentEventRow set \<Rightarrow> agentEventRow \<Rightarrow> agentEventRow" where
  "reserved now terminalID sel r =
     (if r \<in> sel \<and> (r_status r = AgentEventStatusPending \<or> retained_row r)
      then r\<lparr>r_status := AgentEventStatusDelivered, r_deliverable := 1,
             r_deliveryAttempts := r_deliveryAttempts r + 1, r_lastAttemptAtMs := Some now,
             r_deliveredToTerminalID := Some terminalID\<rparr>
      else r)"

lemma reserved_id [simp]: "r_id (reserved now terminalID sel r) = r_id r"
  by (simp add: reserved_def)

lemma map_reserved_ids [simp]: "map (r_id \<circ> reserved now terminalID sel) rows = map r_id rows"
  by simp

lemma reserve_row_InrD:
  assumes run: "reserve_row now terminalID (mapAgentEvent r) w = (Inr u, w')"
    and r: "r \<in> set (agent_events (w_tables w))" and ids: "distinct (map r_id (agent_events (w_tables w)))"
  shows "w_tables w' = w_tables w\<lparr>agent_events := map (reserved now terminalID {r}) (agent_events (w_tables w))\<rparr>
    \<and> w_open w' = w_open w"
proof -
  let ?p = "\<lambda>x. r_id x = r_id r \<and> (r_status x = AgentEventStatusPending \<or> retained_row x)"
  let ?f = "\<lambda>x. x\<lparr>r_status := AgentEventStatusDelivered, r_deliverable := 1,
    r_deliveryAttempts := r_deliveryAttempts r + 1, r_lastAttemptAtMs := Some now,
    r_deliveredToTerminalID := Some terminalID\<rparr>"
  have after: "w_tables w' = snd (update_events ?p ?f (w_tables w))" "w_open w' = w_open w"
    using run unfolding reserve_row_def Let_def by (auto elim!: bind_act_InrE simp: change_sql_Inr)
  have only: "r_id x = r_id r \<longleftrightarrow> x = r" if "x \<in> set (agent_events (w_tables w))" for x
    using that r ids by (auto simp: distinct_map inj_on_def)
  have "update_where ?p ?f (agent_events (w_tables w)) =
      map (reserved now terminalID {r}) (agent_events (w_tables w))"
    unfolding update_where_def
  proof (rule map_cong [OF refl])
    fix x assume "x \<in> set (agent_events (w_tables w))"
    then show "(if ?p x then ?f x else x) = reserved now terminalID {r} x"
      unfolding only [OF \<open>x \<in> _\<close>] by (cases "x = r") (simp_all add: reserved_def)
  qed
  with after show ?thesis by (simp add: update_events_eq)
qed

lemma reserve_rows_InrD:
  assumes "for_each (map mapAgentEvent rows) (reserve_row now terminalID) w = (Inr u, w')"
    and "set rows \<subseteq> set (agent_events (w_tables w))"
    and "distinct (map r_id (agent_events (w_tables w)))" and "distinct (map r_id rows)"
  shows "w_tables w' = w_tables w\<lparr>agent_events := map (reserved now terminalID (set rows)) (agent_events (w_tables w))\<rparr>
    \<and> w_open w' = w_open w"
  using assms
proof (induction rows arbitrary: w)
  case Nil
  then show ?case by (simp add: reserved_def)
next
  case (Cons r rows)
  from Cons.prems(1) obtain w1 where
    first: "reserve_row now terminalID (mapAgentEvent r) w = (Inr (), w1)" and
    rest: "for_each (map mapAgentEvent rows) (reserve_row now terminalID) w1 = (Inr u, w')"
    by (auto elim!: bind_act_InrE)
  note one = reserve_row_InrD [OF first]
  have t1: "w_tables w1 = w_tables w\<lparr>agent_events := map (reserved now terminalID {r}) (agent_events (w_tables w))\<rparr>"
    "w_open w1 = w_open w" using one Cons.prems by auto
  have apart: "x \<noteq> r" if "x \<in> set rows" for x using Cons.prems(4) that by auto
  have "x = reserved now terminalID {r} x" if "x \<in> set rows" for x
    using apart [OF that] by (simp add: reserved_def)
  with Cons.prems(2) have "set rows \<subseteq> set (agent_events (w_tables w1))" by (fastforce simp: t1)
  with Cons.IH [OF rest] Cons.prems t1
  have w': "w_tables w' = w_tables w1\<lparr>agent_events := map (reserved now terminalID (set rows)) (agent_events (w_tables w1))\<rparr>"
    "w_open w' = w_open w" by (auto simp: comp_def)
  have "reserved now terminalID (set rows) (reserved now terminalID {r} x)
      = reserved now terminalID (set (r # rows)) x" for x
  proof (cases "x = r")
    case True
    have "reserved now terminalID {r} r \<notin> set rows"
      using Cons.prems(4) reserved_id [of now terminalID "{r}" r] by (auto simp: image_iff)
    then show ?thesis using True by (auto simp: reserved_def)
  qed (simp add: reserved_def)
  with w' t1 show ?case by (simp add: comp_def)
qed

lemma get_event_InrD:
  assumes "get_event eventID w = (Inr e, w')"
  shows "w_tables w' = w_tables w \<and> w_open w' = w_open w \<and>
    (\<exists>r \<in> set (agent_events (w_tables w)). r_id r = eventID \<and> e = mapAgentEvent r)"
  using assms unfolding get_event_def
  by (auto elim!: bind_act_InrE simp: query_sql_Inr dest!: find_SomeD split: option.splits)

definition reservation :: "int \<Rightarrow> string \<Rightarrow> int \<Rightarrow> int list \<Rightarrow> tables \<Rightarrow> agentEventRow list" where
  "reservation now terminalID limit ids t =
     sql_limit (if limit \<le> 0 then 100 else limit)
       (events_asc (\<lambda>r. scan_admits now (Some terminalID) r \<and> (ids = [] \<or> r_id r \<in> set ids)) t)"

lemma distinct_events_asc:
  assumes "distinct (map r_id (agent_events t))"
  shows "distinct (map r_id (sql_limit n (events_asc p t)))"
proof -
  have "distinct (map r_id (events_asc p t))"
    using assms by (simp add: events_asc_def distinct_map inj_on_def)
  then show ?thesis by (simp add: sql_limit_def flip: take_map)
qed

lemma set_reservation: "set (reservation now terminalID limit ids t) \<subseteq> set (agent_events t)"
  unfolding reservation_def using set_sql_limit by fastforce

lemma reservePendingCore_InrD:
  assumes run: "reservePendingCore terminalID limit ids w = (Inr recs, w')"
    and ids: "distinct (map r_id (agent_events (w_tables w)))"
    and now: "now = max (w_wall w) (w_logicalNow w)"
    and sel: "sel = reservation now terminalID limit ids (w_tables w)"
  shows "agent_events (w_tables w') = map (reserved now terminalID (set sel)) (agent_events (w_tables w))
    \<and> recs = map (mapAgentEvent \<circ> reserved now terminalID (set sel)) sel \<and> w_open w' = w_open w"
proof -
  let ?es = "map (reserved now terminalID (set sel)) (agent_events (w_tables w))"
  from run obtain now' w1 rows w2 w3 where
    clock: "logical_now w = (Inr now', w1)" and
    q: "query_sql (\<lambda>t. map mapAgentEvent (reservation now' terminalID limit ids t)) w1 = (Inr rows, w2)" and
    marks: "for_each rows (reserve_row now' terminalID) w2 = (Inr (), w3)" and
    out: "collect rows (\<lambda>row. get_event (e_ID row)) w3 = (Inr recs, w')"
    unfolding reservePendingCore_def reservation_def by (auto elim!: bind_act_InrE)
  note c = logical_now_InrD [OF clock]
  have t1: "agent_events (w_tables w1) = agent_events (w_tables w)" by (subst c(6)) simp
  have now': "now' = now" using c(1) now by simp
  have rows: "rows = map mapAgentEvent sel" "w_tables w2 = w_tables w1" "w_open w2 = w_open w"
    using q c(3) sel t1 now' by (auto simp: query_sql_Inr reservation_def events_asc_def)
  have sub: "set sel \<subseteq> set (agent_events (w_tables w))" unfolding sel by (rule set_reservation)
  have dist: "distinct (map r_id sel)" unfolding sel reservation_def using ids by (rule distinct_events_asc)
  have w3: "agent_events (w_tables w3) = ?es" "w_open w3 = w_open w"
    using reserve_rows_InrD [of sel now terminalID w2 "()" w3] marks rows sub dist ids t1 now' by simp_all
  have ids3: "distinct (map r_id ?es)" using ids by simp
  let ?I = "\<lambda>w. agent_events (w_tables w) = ?es \<and> w_open w = w_open w3"
  have "?I w' \<and> list_all2 (\<lambda>row e. \<exists>r \<in> set ?es. r_id r = e_ID row \<and> e = mapAgentEvent r) rows recs"
    by (rule collect_reads [OF out], simp add: w3) (drule get_event_InrD, metis)
  then have I: "?I w'" and found: "list_all2 (\<lambda>r e. \<exists>x \<in> set ?es. r_id x = r_id r \<and> e = mapAgentEvent x) sel recs"
    by (auto simp: rows list_all2_map1)
  have key: "e = (mapAgentEvent \<circ> reserved now terminalID (set sel)) r"
    if "r \<in> set sel" "x \<in> set ?es" "r_id x = r_id r" "e = mapAgentEvent x" for r x e
  proof -
    have "reserved now terminalID (set sel) r \<in> set ?es" using that(1) sub by auto
    with that ids3 have "x = reserved now terminalID (set sel) r"
      by (metis (no_types, lifting) distinct_map inj_onD reserved_id)
    then show ?thesis using that(4) by simp
  qed
  have "list_all2 (\<lambda>r e. e = (mapAgentEvent \<circ> reserved now terminalID (set sel)) r) sel recs"
    by (rule list.rel_mono_strong [OF found]) (elim bexE conjE, rule key)
  then have "recs = map (mapAgentEvent \<circ> reserved now terminalID (set sel)) sel"
    by (rule list_all2_eq_map)
  with I w3 show ?thesis by simp
qed

text \<open>
  C4: a reservation hands out exactly what it says. When \<open>ReservePending\<close> succeeds, it selected
  the first rows in id order (at most the limit, 100 when none is given) that are admitted for the
  terminal and asked for; each selected row that was pending or retained is now delivered to the
  terminal with one more attempt and the time of this attempt, each selected row already delivered
  to the terminal is returned as it stands, no other row changes, and the records returned are the
  rows as stored afterwards.
\<close>

theorem ReservePending_exact:
  assumes ok: "events_ok (w_tables w)" and run: "ReservePending terminalID limit ids w = (Inr recs, w')"
  shows "let now = max (w_wall w) (w_logicalNow w);
             sel = reservation now terminalID limit ids (w_tables w);
             give = reserved now terminalID (set sel)
         in agent_events (w_tables w') = map give (agent_events (w_tables w))
            \<and> recs = map (mapAgentEvent \<circ> give) sel \<and> w_open w' = None"
proof -
  obtain w2 where body: "reservePendingCore terminalID limit ids
      ((spend_fault w)\<lparr>w_open := Some (w_tables w)\<rparr>) = (Inr recs, w2)"
    and w': "w' = (spend_fault w2)\<lparr>w_open := None\<rparr>"
    using run unfolding ReservePending_def by (rule tx_InrE)
  from reservePendingCore_InrD [OF body _ refl refl] events_okD(2) [OF ok] show ?thesis
    by (simp add: w' Let_def)
qed

theorem ReservePending_exact_witness:
  "agent_events (w_tables (snd (ReservePending ''o'' 0 [1] (sample_world [sample_row])))) =
     [reserved 10 ''o'' {sample_row} sample_row]"
proof -
  let ?w = "sample_world [sample_row]"
  have "w_faults ?w = []" by simp
  have "ReservePending ''o'' 0 [1] ?w =
      (Inr [mapAgentEvent (reserved 10 ''o'' {sample_row} sample_row)],
       snd (ReservePending ''o'' 0 [1] ?w))"
    by (simp add: ReservePending_def RunSqliteTransaction_def begin_immediate_def commit_tx_def
        reservePendingCore_def logical_now_def query_sql_ok change_sql_ok act_defs Let_def sql_limit_def
        events_asc_def scan_admits_def retry_due_def reserve_row_def get_event_def update_events_eq
        update_where_def reserved_def sample_defs appended_row_def)
  from ReservePending_exact [OF _ this] sample_events_ok(2) show ?thesis
    by (simp add: Let_def reservation_def sql_limit_def events_asc_def scan_admits_def retry_due_def
        sample_tables_def sample_row_def appended_row_def)
qed

subsection \<open>Closing a pane\<close>

text \<open>What one row becomes when its pane is closed; \<open>consumed\<close>: the close settled a delivered row.\<close>

definition explicit_close :: "InvalidatePaneInput \<Rightarrow> bool" where
  "explicit_close input \<longleftrightarrow> v_AcknowledgeDelivered input = Some True"

definition active_match :: "InvalidatePaneInput \<Rightarrow> agentEventRow \<Rightarrow> bool" where
  "active_match input r \<longleftrightarrow> in_pane (v_HerdrSessionName input) (v_PaneID input) r
     \<and> pending_or_delivered r \<and> legacyOrMatched (v_PaneGeneration input) r"

definition worth_keeping :: "InvalidatePaneInput \<Rightarrow> int \<Rightarrow> agentEventRow \<Rightarrow> bool" where
  "worth_keeping input now r \<longleftrightarrow>
     genCondition (v_PaneGeneration input) r \<and> (r_eventType r = AgentEventDone \<or> r_eventType r = AgentEventIdle)
       \<and> from_working r \<and> now - RedeliveryFreshnessMs \<le> r_createdAtMs r
     \<or> r_eventType r = AgentEventFailed \<and> r_deliveryAttempts r = 0"

definition close_consumed :: "InvalidatePaneInput \<Rightarrow> agentEventRow list \<Rightarrow> bool" where
  "close_consumed input rows \<longleftrightarrow>
     explicit_close input \<and> (\<exists>r \<in> set rows. active_match input r \<and> 1 \<le> r_deliveryAttempts r)"

definition closed_row :: "InvalidatePaneInput \<Rightarrow> int \<Rightarrow> bool \<Rightarrow> agentEventRow \<Rightarrow> agentEventRow" where
  "closed_row input now consumed r =
     (if active_match input r then
        if explicit_close input \<and> 1 \<le> r_deliveryAttempts r
        then r\<lparr>r_status := AgentEventStatusAcked, r_deliverable := 0, r_invalidatedReason := None\<rparr>
        else if \<not> consumed \<and> worth_keeping input now r
        then r\<lparr>r_status := AgentEventStatusInvalidated, r_deliverable := 1,
               r_invalidatedReason := Some retained_reason\<rparr>
        else r\<lparr>r_status := AgentEventStatusInvalidated, r_deliverable := 0,
               r_invalidatedReason := Some (defaultReason input)\<rparr>
      else if \<not> consumed \<and> in_pane (v_HerdrSessionName input) (v_PaneID input) r
        \<and> r_status r = AgentEventStatusInvalidated \<and> r_deliverable r = 0
        \<and> r_invalidatedReason r = Some (defaultReason input) \<and> worth_keeping input now r
      then r\<lparr>r_deliverable := 1, r_invalidatedReason := Some retained_reason\<rparr>
      else r)"

lemma update_where_map: "update_where p f rows = map (\<lambda>r. if p r then f r else r) rows"
  by (simp add: update_where_def)

lemma keep_fields [simp]:
  "worth_keeping input now (r\<lparr>r_status := st\<rparr>) = worth_keeping input now r"
  "worth_keeping input now (r\<lparr>r_deliverable := d\<rparr>) = worth_keeping input now r"
  "worth_keeping input now (r\<lparr>r_invalidatedReason := reason\<rparr>) = worth_keeping input now r"
  by (cases "v_PaneGeneration input"; simp add: worth_keeping_def genCondition_def from_working_def)+

lemma active_status:
  "st \<noteq> AgentEventStatusAcked \<and> st \<noteq> AgentEventStatusInvalidated \<and> st \<noteq> AgentEventStatusFailed
     \<longleftrightarrow> st = AgentEventStatusPending \<or> st = AgentEventStatusDelivered"
  by (cases st) simp_all

text \<open>The three statements with their conditions named.\<close>

lemma close_step0_eq: "close_step0 input = update_events
    (\<lambda>r. active_match input r \<and> 1 \<le> r_deliveryAttempts r)
    (\<lambda>r. r\<lparr>r_status := AgentEventStatusAcked, r_deliverable := 0, r_invalidatedReason := None\<rparr>)"
  unfolding close_step0_def by (rule arg_cong2 [where f = update_events]) (auto simp: active_match_def)

lemma close_step1_eq: "close_step1 input = update_events (active_match input)
    (\<lambda>r. r\<lparr>r_deliverable := 0, r_status := AgentEventStatusInvalidated,
          r_invalidatedReason := Some (defaultReason input)\<rparr>)"
  unfolding close_step1_def
  by (rule arg_cong2 [where f = update_events])
    (auto simp: active_match_def pending_or_delivered_def fun_eq_iff active_status [symmetric])

lemma close_step2_eq: "close_step2 input now = update_events
    (\<lambda>r. in_pane (v_HerdrSessionName input) (v_PaneID input) r
        \<and> r_status r = AgentEventStatusInvalidated \<and> r_deliverable r = 0
        \<and> r_invalidatedReason r = Some (defaultReason input) \<and> worth_keeping input now r)
    (\<lambda>r. r\<lparr>r_deliverable := 1, r_invalidatedReason := Some retained_reason\<rparr>)"
  unfolding close_step2_def
  by (rule arg_cong2 [where f = update_events]) (auto simp: worth_keeping_def fun_eq_iff)

lemma closed_row_steps:
  assumes "consumed \<Longrightarrow> explicit_close input"
  shows "(let r0 = (if explicit_close input \<and> active_match input r \<and> 1 \<le> r_deliveryAttempts r
             then r\<lparr>r_status := AgentEventStatusAcked, r_deliverable := 0, r_invalidatedReason := None\<rparr> else r);
           r1 = (if active_match input r0 then r0\<lparr>r_deliverable := 0,
             r_status := AgentEventStatusInvalidated, r_invalidatedReason := Some (defaultReason input)\<rparr> else r0)
         in if \<not> consumed \<and> in_pane (v_HerdrSessionName input) (v_PaneID input) r1
        \<and> r_status r1 = AgentEventStatusInvalidated \<and> r_deliverable r1 = 0
        \<and> r_invalidatedReason r1 = Some (defaultReason input) \<and> worth_keeping input now r1
      then r1\<lparr>r_deliverable := 1, r_invalidatedReason := Some retained_reason\<rparr> else r1)
    = closed_row input now consumed r"
proof (cases "active_match input r")
  case False
  then show ?thesis by (simp add: closed_row_def Let_def)
next
  case True
  then have pane: "in_pane (v_HerdrSessionName input) (v_PaneID input) r" by (simp add: active_match_def)
  have acked: "\<not> active_match input (r\<lparr>r_status := AgentEventStatusAcked, r_deliverable := 0, r_invalidatedReason := None\<rparr>)"
    by (simp add: active_match_def pending_or_delivered_def)
  show ?thesis
    using True pane acked by (simp add: closed_row_def Let_def in_pane_def)
qed

lemma invalidatePaneCore_InrD:
  assumes run: "invalidatePaneCore input w = (Inr (), w')"
    and now: "now = max (w_wall w) (w_logicalNow w)"
    and consumed: "consumed = close_consumed input (agent_events (w_tables w))"
  shows "agent_events (w_tables w') = map (closed_row input now consumed) (agent_events (w_tables w))"
proof -
  from run obtain now' w1 c w2 n w3 where
    clock: "logical_now w = (Inr now', w1)" and
    step0: "(if v_AcknowledgeDelivered input = Some True
        then bind_act (change_sql (close_step0 input)) (\<lambda>affected. return_act (0 < affected))
        else return_act False) w1 = (Inr c, w2)" and
    step1: "change_sql (close_step1 input) w2 = (Inr n, w3)" and
    step2: "(if c then return_act () else bind_act (change_sql (close_step2 input now')) (\<lambda>_. return_act ())) w3
        = (Inr (), w')"
    unfolding invalidatePaneCore_def by (auto elim!: bind_act_InrE)
  note k = logical_now_InrD [OF clock]
  have t1: "agent_events (w_tables w1) = agent_events (w_tables w)" by (subst k(6)) simp
  have now': "now' = now" using k(1) now by simp
  have c: "c = consumed"
    using step0 t1 unfolding consumed close_consumed_def explicit_close_def close_step0_eq
    by (auto split: if_splits elim!: bind_act_InrE simp: change_sql_Inr update_events_def count_where_pos)
  have 0: "agent_events (w_tables w2) = map (\<lambda>r. if explicit_close input \<and> active_match input r \<and> 1 \<le> r_deliveryAttempts r
             then r\<lparr>r_status := AgentEventStatusAcked, r_deliverable := 0, r_invalidatedReason := None\<rparr> else r)
      (agent_events (w_tables w))"
    using step0 t1 unfolding explicit_close_def close_step0_eq
    by (auto split: if_split_asm elim!: bind_act_InrE simp: change_sql_Inr update_events_eq update_where_map)
  have 1: "agent_events (w_tables w3) = map (\<lambda>r. if active_match input r then r\<lparr>r_deliverable := 0,
             r_status := AgentEventStatusInvalidated, r_invalidatedReason := Some (defaultReason input)\<rparr> else r)
      (agent_events (w_tables w2))"
    using step1 unfolding close_step1_eq by (simp add: change_sql_Inr update_events_eq update_where_map)
  have 2: "agent_events (w_tables w') = map (\<lambda>r. if \<not> c \<and> in_pane (v_HerdrSessionName input) (v_PaneID input) r
        \<and> r_status r = AgentEventStatusInvalidated \<and> r_deliverable r = 0
        \<and> r_invalidatedReason r = Some (defaultReason input) \<and> worth_keeping input now r
      then r\<lparr>r_deliverable := 1, r_invalidatedReason := Some retained_reason\<rparr> else r)
      (agent_events (w_tables w3))"
    using step2 unfolding close_step2_eq now'
    by (cases c) (auto elim!: bind_act_InrE simp: change_sql_Inr update_events_eq update_where_map)
  have explicit: "consumed \<Longrightarrow> explicit_close input" by (simp add: consumed close_consumed_def)
  show ?thesis
    unfolding 2 1 0 c map_map comp_def
    by (rule map_cong [OF refl], rule closed_row_steps [unfolded Let_def], rule explicit)
qed

lemma legacy_fields [simp]:
  "legacyOrMatched g (r\<lparr>r_status := st\<rparr>) = legacyOrMatched g r"
  "legacyOrMatched g (r\<lparr>r_deliverable := d\<rparr>) = legacyOrMatched g r"
  "legacyOrMatched g (r\<lparr>r_invalidatedReason := reason\<rparr>) = legacyOrMatched g r"
  by (cases g; simp add: legacyOrMatched_def)+

lemma closed_row_inactive: "\<not> active_match input (closed_row input now consumed r)"
  by (auto simp: closed_row_def active_match_def pending_or_delivered_def in_pane_def)

text \<open>
  C7: closing a pane settles it in one atomic step. On success every row becomes exactly what
  \<open>closed_row\<close> says: an active row of the closed incarnation (its generation, an older or a
  legacy one) is acked if the close is explicit and it was ever delivered, kept deliverable if it is
  a fresh turn outcome or a never-delivered failure and the close consumed no delivered row,
  and invalidated otherwise; a dead row of the pane carrying the close's own reason is kept under
  the same rule; every other row stays. Afterwards no active row of the incarnation is left.
\<close>

theorem InvalidatePane_settles_pane:
  assumes run: "InvalidatePane input w = (Inr (), w')"
  shows "let now = max (w_wall w) (w_logicalNow w);
             consumed = close_consumed input (agent_events (w_tables w))
         in agent_events (w_tables w') = map (closed_row input now consumed) (agent_events (w_tables w))
            \<and> (\<forall>r \<in> set (agent_events (w_tables w')). \<not> active_match input r)"
proof -
  obtain w2 where body: "invalidatePaneCore input ((spend_fault w)\<lparr>w_open := Some (w_tables w)\<rparr>) = (Inr (), w2)"
    and w': "w' = (spend_fault w2)\<lparr>w_open := None\<rparr>"
    using run unfolding InvalidatePane_def by (rule tx_InrE)
  from invalidatePaneCore_InrD [OF body refl refl] show ?thesis
    by (auto simp: w' Let_def closed_row_inactive)
qed

definition sample_close :: InvalidatePaneInput where
  "sample_close = \<lparr>v_AcknowledgeDelivered = Some True, v_HerdrSessionName = ''s'',
     v_InvalidatedReason = None, v_PaneGeneration = None, v_PaneID = ''p''\<rparr>"

theorem InvalidatePane_settles_pane_witness:
  "map r_status (agent_events (w_tables (snd (InvalidatePane sample_close
       (sample_world [sample_delivered, sample_row2])))))
     = [AgentEventStatusAcked, AgentEventStatusInvalidated]
   \<and> map r_deliverable (agent_events (w_tables (snd (InvalidatePane sample_close
       (sample_world [sample_delivered, sample_row2]))))) = [0, 0]"
proof -
  let ?w = "sample_world [sample_delivered, sample_row2]"
  have "InvalidatePane sample_close ?w = (Inr (), snd (InvalidatePane sample_close ?w))"
    by (simp add: InvalidatePane_def RunSqliteTransaction_def begin_immediate_def commit_tx_def
        invalidatePaneCore_def logical_now_def change_sql_ok act_defs Let_def sample_world_def
        close_step0_def close_step1_def close_step2_def update_events_def count_where_def)
  from InvalidatePane_settles_pane [OF this] show ?thesis
    by (simp add: Let_def closed_row_def close_consumed_def explicit_close_def active_match_def
        sample_close_def sample_tables_def in_pane_def pending_or_delivered_def legacyOrMatched_def
        sample_delivered_def sample_row_def sample_row2_def appended_row_def sample_input_def)
qed

subsection \<open>Reclaiming deliveries\<close>

definition reclaimed :: "int \<Rightarrow> tables \<Rightarrow> agentEventRow \<Rightarrow> agentEventRow" where
  "reclaimed cutoff t r =
     (if r_status r \<noteq> AgentEventStatusDelivered then r
      else if \<not> agent_pane_open t r then
        if 1 \<le> r_deliveryAttempts r \<and> \<not> attempted_since cutoff r \<and> r_lastAttemptAtMs r \<noteq> None
        then r\<lparr>r_deliverable := 0, r_status := AgentEventStatusInvalidated,
               r_invalidatedReason := Some ''PANE_CLOSED_RECLAIM''\<rparr>
        else r
      else if scope_of_terminal t r then r
      else if 10 \<le> r_deliveryAttempts r
      then r\<lparr>r_status := AgentEventStatusFailed, r_deliverable := 0,
             r_lastFailureCode := Some ''DELIVERY_ATTEMPTS_EXCEEDED'',
             r_deliveredToTerminalID := None, r_nextAttemptAtMs := None\<rparr>
      else r\<lparr>r_status := AgentEventStatusPending, r_deliverable := 1,
             r_deliveredToTerminalID := None, r_nextAttemptAtMs := None\<rparr>)"

lemma count_where_split:
  "(\<And>r. \<not> (p r \<and> q r)) \<Longrightarrow> count_where p rows + count_where q rows = count_where (\<lambda>r. p r \<or> q r) rows"
  unfolding count_where_def by (induction rows) auto

lemma count_where_map: "count_where p (map f rows) = count_where (\<lambda>r. p (f r)) rows"
  unfolding count_where_def by (induction rows) auto

definition timed_out :: "int \<Rightarrow> tables \<Rightarrow> agentEventRow \<Rightarrow> bool" where
  "timed_out cutoff t r \<longleftrightarrow> r_status r = AgentEventStatusDelivered \<and> 1 \<le> r_deliveryAttempts r
     \<and> (case r_lastAttemptAtMs r of None \<Rightarrow> False | Some last_at \<Rightarrow> last_at < cutoff)
     \<and> \<not> agent_pane_open t r"

lemma reclaim_closed_eq: "reclaim_closed cutoff t = update_events (timed_out cutoff t)
    (\<lambda>r. r\<lparr>r_deliverable := 0, r_status := AgentEventStatusInvalidated,
          r_invalidatedReason := Some ''PANE_CLOSED_RECLAIM''\<rparr>) t"
  unfolding reclaim_closed_def
  by (rule arg_cong [where f = "\<lambda>p. update_events p _ t"]) (simp add: timed_out_def fun_eq_iff)

lemma reclaim_scopes_cong:
  assumes "agents u = agents t" and "agent_orchestrator_scopes u = agent_orchestrator_scopes t"
  shows "timed_out cutoff u = timed_out cutoff t" and "reclaimWhere u = reclaimWhere t"
  using assms by (simp_all add: fun_eq_iff timed_out_def reclaimWhere_def agent_pane_open_def scope_of_terminal_def)

lemma timed_out_not_reclaim: "\<not> (timed_out cutoff t r \<and> reclaimWhere t r)"
  by (simp add: timed_out_def reclaimWhere_def)

text \<open>
  C8: reclaiming is exact. On success each row becomes what \<open>reclaimed\<close> says: a delivery whose
  agent's pane is gone is invalidated once its last attempt is older than the timeout; a delivery
  whose pane is open and whose terminal owns no scope of the session goes back to pending, or
  fails after ten attempts; a delivery held by an owner and every other row stay as they are. The
  number returned is the number of rows that changed.
\<close>

theorem ReclaimDelivered_exact:
  assumes run: "ReclaimDelivered timeoutMs w = (Inr n, w')"
  shows "let cutoff = max (w_wall w) (w_logicalNow w) - timeoutMs; t = w_tables w
         in agent_events (w_tables w') = map (reclaimed cutoff t) (agent_events t)
            \<and> n = count_where (\<lambda>r. r_status (reclaimed cutoff t r) \<noteq> r_status r) (agent_events t)"
proof -
  obtain w2 where body: "reclaimDeliveredCore timeoutMs ((spend_fault w)\<lparr>w_open := Some (w_tables w)\<rparr>) = (Inr n, w2)"
    and w': "w' = (spend_fault w2)\<lparr>w_open := None\<rparr>"
    using run unfolding ReclaimDelivered_def by (rule tx_InrE)
  from body obtain now w1 a v1 rows v2 b where
    clock: "logical_now ((spend_fault w)\<lparr>w_open := Some (w_tables w)\<rparr>) = (Inr now, w1)" and
    s1: "change_sql (reclaim_closed (now - timeoutMs)) w1 = (Inr a, v1)" and
    q: "query_sql (\<lambda>t. filter (\<lambda>r. reclaimWhere t r \<and> 10 \<le> r_deliveryAttempts r) (agent_events t)) v1
      = (Inr rows, v2)" and
    s2: "change_sql reclaim_ownerless v2 = (Inr b, w2)" and n: "n = a + b"
    unfolding reclaimDeliveredCore_def by (auto elim!: bind_act_InrE)
  define t where "t = w_tables w"
  define cutoff where "cutoff = now - timeoutMs"
  note k = logical_now_InrD [OF clock]
  have t1: "agent_events (w_tables w1) = agent_events t" "agents (w_tables w1) = agents t"
    "agent_orchestrator_scopes (w_tables w1) = agent_orchestrator_scopes t"
    by (subst k(6), simp add: t_def)+
  let ?f = "\<lambda>r. if timed_out cutoff t r then r\<lparr>r_deliverable := 0,
    r_status := AgentEventStatusInvalidated, r_invalidatedReason := Some ''PANE_CLOSED_RECLAIM''\<rparr> else r"
  have v1: "a = count_where (timed_out cutoff t) (agent_events t)"
    "w_tables v2 = (w_tables w1)\<lparr>agent_events := map ?f (agent_events t)\<rparr>"
    using s1 q t1 reclaim_scopes_cong(1) [OF t1(2,3)]
    by (auto simp: change_sql_Inr query_sql_Inr reclaim_closed_eq update_events_def update_where_map
        cutoff_def)
  have where_cong: "reclaimWhere (w_tables v2) = reclaimWhere t"
    by (rule reclaim_scopes_cong(2)) (simp_all add: v1(2) t1)
  have v2: "agent_events (w_tables v2) = map ?f (agent_events t)" by (simp add: v1(2))
  have after: "reclaimWhere t (?f r) \<longleftrightarrow> reclaimWhere t r" for r
    using timed_out_not_reclaim [of cutoff t r] by (auto simp: reclaimWhere_def)
  have b: "b = count_where (reclaimWhere t) (agent_events t)"
    using s2 after
    by (auto simp: change_sql_Inr reclaim_ownerless_def update_events_def where_cong v2 count_where_map)
  have "reclaimed cutoff t r = (let r1 = ?f r in if reclaimWhere t r1 then
      r1\<lparr>r_status := (if 10 \<le> r_deliveryAttempts r1 then AgentEventStatusFailed else AgentEventStatusPending),
          r_deliverable := (if 10 \<le> r_deliveryAttempts r1 then 0 else 1),
          r_lastFailureCode := (if 10 \<le> r_deliveryAttempts r1
            then Some ''DELIVERY_ATTEMPTS_EXCEEDED'' else r_lastFailureCode r1),
          r_deliveredToTerminalID := None, r_nextAttemptAtMs := None\<rparr> else r1)" for r
    unfolding Let_def after
    by (auto simp: reclaimed_def timed_out_def reclaimWhere_def attempted_since_def split: option.splits)
  then have rows: "agent_events (w_tables w2) = map (reclaimed cutoff t) (agent_events t)"
    using s2 by (simp add: change_sql_Inr reclaim_ownerless_def update_events_eq update_where_map
        where_cong v2 comp_def Let_def)
  have "r_status (reclaimed cutoff t r) \<noteq> r_status r \<longleftrightarrow> timed_out cutoff t r \<or> reclaimWhere t r" for r
    by (auto simp: reclaimed_def timed_out_def reclaimWhere_def attempted_since_def split: option.splits)
  then have "n = count_where (\<lambda>r. r_status (reclaimed cutoff t r) \<noteq> r_status r) (agent_events t)"
    by (simp add: n v1(1) b count_where_split [OF timed_out_not_reclaim])
  moreover have "cutoff = max (w_wall w) (w_logicalNow w) - timeoutMs"
    using k(1) by (simp add: cutoff_def)
  ultimately show ?thesis using rows by (simp add: w' t_def Let_def)
qed

theorem ReclaimDelivered_exact_witness:
  "map r_status (agent_events (w_tables (snd (ReclaimDelivered 60000 ((sample_world [sample_delivered])
       \<lparr>w_tables := (sample_tables [sample_delivered])\<lparr>agent_orchestrator_scopes := []\<rparr>\<rparr>)))))
     = [AgentEventStatusPending]"
proof -
  let ?w = "(sample_world [sample_delivered])
    \<lparr>w_tables := (sample_tables [sample_delivered])\<lparr>agent_orchestrator_scopes := []\<rparr>\<rparr>"
  have "fst (ReclaimDelivered 60000 ?w) = Inr 1"
    by (simp add: ReclaimDelivered_def RunSqliteTransaction_def begin_immediate_def commit_tx_def
        reclaimDeliveredCore_def logical_now_def change_sql_ok query_sql_ok act_defs Let_def
        sample_world_def reclaim_closed_def reclaim_ownerless_def update_events_def count_where_def
        reclaimWhere_def agent_pane_open_def scope_of_terminal_def update_where_def
        sample_tables_def sample_delivered_def sample_row_def appended_row_def sample_input_def sample_agent_def)
  then have "ReclaimDelivered 60000 ?w = (Inr 1, snd (ReclaimDelivered 60000 ?w))" by (metis prod.collapse)
  from ReclaimDelivered_exact [OF this] show ?thesis
    by (simp add: Let_def reclaimed_def agent_pane_open_def scope_of_terminal_def sample_tables_def
        sample_delivered_def sample_row_def appended_row_def sample_input_def sample_agent_def)
qed

end
