(* ===== verification/EventQueue.thy ===== *)
theory EventQueue
  imports EventDelivery
begin

text \<open>
  The two ends of the queue: an event is appended at most once per idempotency key, and the paged
  scan for the next deliverable event finds the first one of the whole table.
\<close>

subsection \<open>Append\<close>

lemma moves_ok:
  assumes "moves (inside (guarded events_ok events_evolve)) m" "m w = (r, w')" "events_ok (w_tables w)"
  shows "events_ok (w_tables w')" and "events_evolve (w_tables w) (w_tables w')"
  using moves_inside_open [OF assms(1,2)] assms(3) by (auto simp: guarded_def)

lemma query_find_InrD:
  "query_sql (\<lambda>t. map_option mapAgentEvent (find p (agent_events t))) w = (Inr (Some e), w')
     \<Longrightarrow> \<exists>r \<in> set (agent_events (w_tables w)). p r \<and> e = mapAgentEvent r \<and> w_tables w' = w_tables w"
  by (auto simp: query_sql_Inr map_option_case dest!: find_SomeD split: option.splits)

lemma lookup_existing_SomeD:
  assumes "lookup_existing session key w = (Inr (Some e), w')"
  shows "\<exists>r k. r \<in> set (agent_events (w_tables w)) \<and> key = Some k \<and> has_key session k r
    \<and> e = mapAgentEvent r \<and> w_tables w' = w_tables w"
  using assms unfolding lookup_existing_def getByIdempotencyKey_def
  by (auto split: option.splits if_splits dest!: query_find_InrD)

lemma lookup_existing_tables:
  "lookup_existing session key w = (Inr x, w') \<Longrightarrow> w_tables w' = w_tables w"
  unfolding lookup_existing_def getByIdempotencyKey_def
  by (auto split: option.splits if_splits simp: query_sql_Inr)

lemma lookup_existing_NoneD:
  assumes "lookup_existing session (Some k) w = (Inr None, w')" and "k \<noteq> []"
  shows "r \<in> set (agent_events (w_tables w)) \<Longrightarrow> \<not> has_key session k r"
  using assms unfolding lookup_existing_def getByIdempotencyKey_def
  by (auto simp: query_sql_Inr dest!: find_NoneD)

lemma insert_sql_InrD:
  assumes "exec_sql (insert_event row) w = (Inr eventID, w')"
  shows "agent_events (w_tables w') = agent_events (w_tables w) @ [row\<lparr>r_id := eventID\<rparr>]"
    and "eventID = agent_events_seq (w_tables w) + 1"
  using assms by (auto simp: exec_sql_Inr dest: insert_event_InrD(1,2))

text \<open>What a successful append returns is a row of the table that carries the key it was given.\<close>

lemma Append_InrD:
  assumes run: "Append input w = (Inr e, w')" and ok: "events_ok (w_tables w)"
  shows "\<exists>r \<in> set (agent_events (w_tables w')). e = mapAgentEvent r
    \<and> r_herdrSessionName r = i_HerdrSessionName input \<and> r_idempotencyKey r = i_IdempotencyKey input"
proof -
  from run obtain found w1 where
    look: "lookup_existing (i_HerdrSessionName input) (i_IdempotencyKey input) w = (Inr found, w1)" and
    rest: "(case found of Some record \<Rightarrow> return_act record
       | None \<Rightarrow>
         bind_act (resolveAppendAgentID (i_AgentID input)) (\<lambda>agentID.
         bind_act logical_now (\<lambda>now.
         bind_act
           (catch_act
             (bind_act (exec_sql (insert_event (appended_row input agentID now)))
               (\<lambda>eventID. return_act (Inr eventID)))
             (\<lambda>err. bind_act (lookup_existing (i_HerdrSessionName input) (i_IdempotencyKey input))
                (\<lambda>existing. case existing of Some record \<Rightarrow> return_act (Inl record)
                  | None \<Rightarrow> fail_act err)))
           (\<lambda>outcome. case outcome of Inl record \<Rightarrow> return_act record
              | Inr eventID \<Rightarrow> get_event eventID)))) w1 = (Inr e, w')"
    unfolding Append_def by (rule bind_act_InrE)
  show ?thesis
  proof (cases found)
    case (Some known)
    with look rest lookup_existing_SomeD show ?thesis by (fastforce simp: has_key_def)
  next
    case None
    with rest obtain agentID w2 now w3 outcome w4 where
      now: "logical_now w2 = (Inr now, w3)" and
      res: "resolveAppendAgentID (i_AgentID input) w1 = (Inr agentID, w2)" and
      ins: "catch_act (bind_act (exec_sql (insert_event (appended_row input agentID now)))
               (\<lambda>eventID. return_act (Inr eventID)))
             (\<lambda>err. bind_act (lookup_existing (i_HerdrSessionName input) (i_IdempotencyKey input))
                (\<lambda>existing. case existing of Some record \<Rightarrow> return_act (Inl record)
                  | None \<Rightarrow> fail_act err)) w3 = (Inr outcome, w4)" and
      out: "(case outcome of Inl record \<Rightarrow> return_act record | Inr eventID \<Rightarrow> get_event eventID) w4 = (Inr e, w')"
      by (auto elim!: bind_act_InrE)
    show ?thesis
    proof (cases outcome)
      case (Inl known)
      then obtain w5 where "lookup_existing (i_HerdrSessionName input) (i_IdempotencyKey input) w5
          = (Inr (Some known), w4)"
        using ins by (auto simp: catch_act_def elim!: bind_act_InrE split: prod.splits sum.splits option.splits)
      with lookup_existing_SomeD out Inl show ?thesis by (fastforce simp: has_key_def)
    next
      case (Inr eventID)
      have step: "exec_sql (insert_event (appended_row input agentID now)) w3 = (Inr eventID, w4)"
        using ins Inr by (auto simp: catch_act_def elim!: bind_act_InrE split: prod.splits sum.splits option.splits)
      have "events_ok (w_tables w2)"
        using res ok lookup_existing_tables [OF look] unfolding resolveAppendAgentID_def
        by (auto simp: query_sql_Inr elim!: bind_act_InrE split: option.splits)
      then have "events_ok (w_tables w3)" using moves_ok(1) [OF life.moves_logical_now now] by blast
      then have ok4: "events_ok (w_tables w4)" using moves_ok(1) [OF life.moves_insert step] by blast
      from out Inr obtain r where r: "r \<in> set (agent_events (w_tables w4))" "r_id r = eventID"
        "e = mapAgentEvent r" "w_tables w' = w_tables w4" by (auto dest!: get_event_InrD)
      note new = insert_sql_InrD [OF step]
      have "r = (appended_row input agentID now)\<lparr>r_id := eventID\<rparr>"
        by (rule events_ok_unique [OF ok4 _ r(1)]) (simp_all add: new(1) r(2))
      with r show ?thesis by (auto simp: appended_row_def)
    qed
  qed
qed

lemma Append_existing:
  assumes run: "Append input w = (Inr e, w')"
    and key: "i_IdempotencyKey input = Some k" "k \<noteq> []"
    and r: "r \<in> set (agent_events (w_tables w))" "has_key (i_HerdrSessionName input) k r"
  shows "\<exists>r \<in> set (agent_events (w_tables w)). has_key (i_HerdrSessionName input) k r
    \<and> e = mapAgentEvent r \<and> w_tables w' = w_tables w"
proof -
  from run obtain found w1 where
    look: "lookup_existing (i_HerdrSessionName input) (i_IdempotencyKey input) w = (Inr found, w1)"
    unfolding Append_def by (auto elim: bind_act_InrE)
  show ?thesis
  proof (cases found)
    case None
    with look key r show ?thesis using lookup_existing_NoneD by fastforce
  next
    case (Some known)
    with look run have "e = known" "w' = w1" by (simp_all add: Append_def)
    with lookup_existing_SomeD look Some key(1) show ?thesis by fastforce
  qed
qed

text \<open>
  C9: an event is appended at most once. After an append with an idempotency key, whatever the
  store does in between (deliveries, closes, retries, restarts), a second append with the same
  session and key that returns returns the very same event and writes nothing, for as long as the
  row has not been deleted by the retention sweep.
\<close>

theorem Append_at_most_once:
  assumes ok: "events_ok (w_tables w)" and first: "Append input w = (Inr e, w1)"
    and key: "i_IdempotencyKey input = Some k" "k \<noteq> []"
    and run: "store_step\<^sup>*\<^sup>* w1 w2" and idle: "w_open w1 = None" "w_open w2 = None"
    and kept: "r2 \<in> set (agent_events (w_tables w2))" "r_id r2 = e_ID e"
    and same: "i_HerdrSessionName again = i_HerdrSessionName input" "i_IdempotencyKey again = Some k"
    and second: "Append again w2 = (Inr e2, w3)"
  shows "e_ID e2 = e_ID e \<and> w_tables w3 = w_tables w2"
proof -
  obtain r1 where r1: "r1 \<in> set (agent_events (w_tables w1))" "e = mapAgentEvent r1"
    "has_key (i_HerdrSessionName input) k r1"
    using Append_InrD [OF first ok] key(1) by (auto simp: has_key_def)
  have ok1: "events_ok (w_tables w1)" using moves_ok(1) [OF life.moves_Append first ok] .
  have ok2: "events_ok (w_tables w2)" and ev: "events_evolve (w_tables w1) (w_tables w2)"
    using life.run_moves [OF run] ok1 idle by (auto simp: committed_def)
  have "r_id r2 \<le> agent_events_seq (w_tables w1)" using events_okD(5) [OF ok1 r1(1)] kept(2) r1(2) by simp
  then obtain r0 where r0: "r0 \<in> set (agent_events (w_tables w1))" "row_step r0 r2"
    using ev kept(1) by (auto simp: events_evolve_def)
  then have "r0 = r1" using events_ok_unique [OF ok1 r1(1)] kept(2) r1(2) by (auto dest: row_step_id)
  with r0 r1(3) have key2: "has_key (i_HerdrSessionName again) k r2"
    by (auto simp: has_key_def row_step_def same_facts_def same)
  from Append_existing [OF second same(2) key(2) kept(1) key2]
  obtain r where r: "r \<in> set (agent_events (w_tables w2))" "has_key (i_HerdrSessionName again) k r"
    "e2 = mapAgentEvent r" "w_tables w3 = w_tables w2" by blast
  have "same_key r2 r" using key2 r(2) by (simp add: same_key_def has_key_def)
  with ok2 kept r(1) have "r_id r = e_ID e" by (auto simp: events_ok_def)
  with r show ?thesis by simp
qed

theorem Append_at_most_once_witness:
  "w_tables (snd (Append sample_input (sample_world [sample_row]))) = sample_tables [sample_row]"
proof -
  have first: "Append sample_input (sample_world []) = (Inr (mapAgentEvent sample_row), sample_world [sample_row])"
    by (simp add: Append_def lookup_existing_def getByIdempotencyKey_def resolveAppendAgentID_def
      logical_now_def exec_sql_def query_sql_def insert_event_def get_event_def catch_act_def
      act_defs next_fault_def spend_fault_def sample_defs appended_row_def has_key_def Let_def)
  have second: "Append sample_input (sample_world [sample_row]) =
      (Inr (mapAgentEvent sample_row), snd (Append sample_input (sample_world [sample_row])))"
    by (simp add: Append_def lookup_existing_def getByIdempotencyKey_def query_sql_ok
      act_defs sample_defs appended_row_def has_key_def)
  have key: "i_IdempotencyKey sample_input = Some ''k''" by (simp add: sample_input_def)
  have "sample_row \<in> set (agent_events (w_tables (sample_world [sample_row])))"
    by (simp add: sample_tables_def)
  from Append_at_most_once [OF _ first key _ rtranclp.rtrancl_refl _ _ this _ refl key second]
    sample_events_ok(1) show ?thesis by simp
qed

subsection \<open>The next deliverable event\<close>

text \<open>The rows the SQL of the scan lets through, whatever page they are on.\<close>

definition candidate :: "NextDeliverableAfterInput \<Rightarrow> int \<Rightarrow> tables \<Rightarrow> agentEventRow \<Rightarrow> bool" where
  "candidate input now t r \<longleftrightarrow>
     scan_admits now (Some (n_OwnerTerminalID input)) r
     \<and> r_herdrSessionName r = n_HerdrSessionName input \<and> r_workspaceID r = Some (n_WorkspaceID input)
     \<and> r_terminalID r \<noteq> None \<and> r_terminalID r \<noteq> Some (n_OwnerTerminalID input)
     \<and> (r_agentID r \<noteq> None \<or> retained_row r \<or> orphanTerminalFilter r)
     \<and> (n_GetAgent input = None \<longrightarrow> retained_row r \<or> orphanTerminalFilter r \<or> agent_pane_open t r)"

definition candidates_after :: "NextDeliverableAfterInput \<Rightarrow> int \<Rightarrow> tables \<Rightarrow> int \<Rightarrow> agentEventRow list" where
  "candidates_after input now t afterEventID =
     filter (\<lambda>r. afterEventID < r_id r \<and> candidate input now t r) (agent_events t)"

text \<open>The verdict on one row, the agent looked up by \<open>agent_of\<close>.\<close>

definition deliverable_to ::
    "NextDeliverableAfterInput \<Rightarrow> world \<Rightarrow> (string \<Rightarrow> AgentIndexRecord option) \<Rightarrow> AgentEventRecord \<Rightarrow> bool" where
  "deliverable_to input w agent_of e \<longleftrightarrow>
     IsDeliverableAgentEvent (w_evalSymlinks w) (w_wall w) e
       (case e_AgentID e of None \<Rightarrow> None | Some a \<Rightarrow> agent_of a)
       \<lparr>s_HerdrSessionName = n_HerdrSessionName input, s_WorkspaceID = n_WorkspaceID input\<rparr>
       (n_OwnerTerminalID input) = Inr True"

lemma IsDeliverable_total:
  assumes "e_PaneID event \<noteq> None"
  shows "\<exists>b. IsDeliverableAgentEvent evalSymlinks wall event agent scope ownerTerminalID = Inr b"
proof (cases "IsDeliverableAgentEvent evalSymlinks wall event agent scope ownerTerminalID")
  case (Inl e)
  from assms obtain pane where "e_PaneID event = Some pane" by blast
  with Inl show ?thesis
    unfolding IsDeliverableAgentEvent_def Let_def
    by (cases agent) (simp_all split: if_split_asm)
qed blast

lemma orphan_not_deliverable:
  assumes "e_AgentID e = None" "e_Status e \<noteq> Some AgentEventStatusInvalidated \<or> e_Deliverable e \<noteq> 1"
    "e_Type e \<noteq> AgentEventFailed" "e_Type e \<noteq> AgentEventDiscarded"
    "e_Deliverable e \<noteq> 1 \<or> \<not> idle_or_done (e_Type e)"
  shows "\<not> deliverable_to input w agent_of e"
  using assms by (auto simp: deliverable_to_def IsDeliverableAgentEvent_def Let_def)

lemma scan_rows_find:
  assumes get: "n_GetAgent input = Some f" and f: "\<And>a. f a w = (Inr (agent_of a), w)"
    and panes: "\<And>e. e \<in> set rows \<Longrightarrow> e_PaneID e \<noteq> None"
  shows "scan_rows input rows w = (Inr (find (deliverable_to input w agent_of) rows), w)"
  using panes
proof (induction rows)
  case (Cons e rows)
  let ?agent = "case e_AgentID e of None \<Rightarrow> None | Some a \<Rightarrow> agent_of a"
  let ?scope = "\<lparr>s_HerdrSessionName = n_HerdrSessionName input, s_WorkspaceID = n_WorkspaceID input\<rparr>"
  have IH: "scan_rows input rows w = (Inr (find (deliverable_to input w agent_of) rows), w)"
    using Cons by simp
  have lookup: "(case e_AgentID e of None \<Rightarrow> return_act None
      | Some agentID \<Rightarrow> (case n_GetAgent input of None \<Rightarrow> return_act None
          | Some getAgent \<Rightarrow> getAgent agentID)) w = (Inr ?agent, w)"
    using get f by (simp add: return_act_def split: option.split)
  obtain b where b: "IsDeliverableAgentEvent (w_evalSymlinks w) (w_wall w) e ?agent ?scope
      (n_OwnerTerminalID input) = Inr b"
    using IsDeliverable_total [OF Cons.prems [of e]] by fastforce
  then have verdict: "deliverable_to input w agent_of e \<longleftrightarrow> b" by (simp add: deliverable_to_def)
  have "bind_act (is_deliverable e ?agent ?scope (n_OwnerTerminalID input))
      (\<lambda>ok. if ok then return_act (Some e) else scan_rows input rows) w
      = (Inr (find (deliverable_to input w agent_of) (e # rows)), w)"
    using b verdict IH by (simp add: bind_act_def is_deliverable_def return_act_def)
  then show ?case
    using lookup IH get orphan_not_deliverable [of e input w agent_of]
    by (auto simp: Let_def return_act_def)
qed (simp add: return_act_def)

lemma drop_sorted:
  fixes k :: "'a \<Rightarrow> int"
  assumes "sorted_wrt (<) (map k xs)" and "xs \<noteq> []" and "0 < m"
  shows "filter (\<lambda>x. k (last (take m xs)) < k x) xs = drop m xs"
  using assms
proof (induction xs arbitrary: m)
  case (Cons x xs)
  show ?case
  proof (cases "m = 1 \<or> xs = []")
    case True
    then show ?thesis using Cons.prems by (cases m) (auto simp: filter_id_conv)
  next
    case False
    with Cons.prems(3) obtain j where j: "m = Suc j" "0 < j" by (cases m) auto
    have "take j xs \<noteq> []" using False j by simp
    then have "last (take j xs) \<in> set xs" by (meson in_set_takeD last_in_set)
    then have "k x < k (last (take j xs))" using Cons.prems(1) by simp
    then show ?thesis using Cons.IH [of j] Cons.prems(1) False j by simp
  qed
qed simp

lemma deliverable_page_eq:
  assumes "sorted_wrt (<) (map r_id (agent_events t))"
  shows "deliverable_page input now afterEventID t = take 1000 (candidates_after input now t afterEventID)"
proof -
  have "deliverable_page input now afterEventID t =
      take 1000 (sort_key r_id (candidates_after input now t afterEventID))"
    unfolding deliverable_page_def candidates_after_def events_asc_def sql_limit_def candidate_def by simp
  then show ?thesis
    using assms by (simp add: candidates_after_def sort_key_sorted sorted_map_filter)
qed

lemma candidates_next_page:
  assumes sorted: "sorted_wrt (<) (map r_id (agent_events t))"
    and some: "candidates_after input now t a \<noteq> []"
  shows "candidates_after input now t (r_id (last (take 1000 (candidates_after input now t a))))
    = drop 1000 (candidates_after input now t a)"
proof -
  let ?L = "candidates_after input now t a"
  let ?n = "r_id (last (take 1000 ?L))"
  have "last (take 1000 ?L) \<in> set ?L"
    using some by (metis in_set_takeD last_in_set take_eq_Nil zero_neq_numeral)
  then have "a < ?n" by (simp add: candidates_after_def)
  then have "candidates_after input now t ?n = filter (\<lambda>r. ?n < r_id r) ?L"
    by (auto simp: candidates_after_def intro!: filter_cong)
  also have "\<dots> = drop 1000 ?L"
    using sorted some by (intro drop_sorted) (simp_all add: candidates_after_def sorted_map_filter)
  finally show ?thesis .
qed

lemma find_append: "find p (xs @ ys) = (case find p xs of None \<Rightarrow> find p ys | Some x \<Rightarrow> Some x)"
  by (induction xs) auto

text \<open>The pages of a world whose clock has caught up with the wall: nothing changes between them.\<close>

lemma scan_pages_find:
  assumes ok: "events_ok (w_tables w)" and calm: "w_faults w = []" and caught_up: "w_wall w \<le> w_logicalNow w"
    and get: "n_GetAgent input = Some f" and f: "\<And>a. f a w = (Inr (agent_of a), w)"
    and panes: "\<forall>r \<in> set (agent_events (w_tables w)). r_paneID r \<noteq> None"
  shows "scan_pages pages input a w = (Inr (find (deliverable_to input w agent_of)
    (map mapAgentEvent (take (1000 * pages) (candidates_after input (w_logicalNow w) (w_tables w) a)))), w)"
proof (induction pages arbitrary: a)
  case (Suc pages)
  define L where "L = candidates_after input (w_logicalNow w) (w_tables w) a"
  let ?rows = "map mapAgentEvent (take 1000 L)"
  note sorted = events_okD(1) [OF ok]
  have clock: "logical_now w = (Inr (w_logicalNow w), w)" using caught_up by (simp add: logical_now_def)
  have page: "query_sql (\<lambda>t. map mapAgentEvent (deliverable_page input (w_logicalNow w) a t)) w = (Inr ?rows, w)"
    using calm by (simp add: query_sql_ok deliverable_page_eq [OF sorted] L_def)
  have in_table: "set L \<subseteq> set (agent_events (w_tables w))" by (auto simp: L_def candidates_after_def)
  have rows: "scan_rows input ?rows w = (Inr (find (deliverable_to input w agent_of) ?rows), w)"
    using panes in_table by (intro scan_rows_find [OF get f]) (auto dest!: in_set_takeD)
  show ?case
  proof (cases "L = []")
    case True
    then show ?thesis using clock page by (simp add: L_def [symmetric] return_act_def)
  next
    case False
    have last: "e_ID (last ?rows) = r_id (last (take 1000 L))" using False by (simp add: last_map)
    have "take (1000 * Suc pages) L = take 1000 L @ take (1000 * pages) (drop 1000 L)"
      by (metis mult_Suc_right take_add)
    moreover have "candidates_after input (w_logicalNow w) (w_tables w) (e_ID (last ?rows)) = drop 1000 L"
      unfolding last unfolding L_def using sorted False by (intro candidates_next_page) (simp_all add: L_def)
    ultimately show ?thesis
      using clock page rows False Suc.IH [of "e_ID (last ?rows)"]
      by (simp add: L_def [symmetric] find_append return_act_def split: option.split)
  qed
qed (simp add: return_act_def)

lemma ticked_simps:
  assumes "w_faults w = []"
  shows "w_logicalNow (ticked w) = max (w_wall w) (w_logicalNow w)" "w_wall (ticked w) = w_wall w"
    "w_evalSymlinks (ticked w) = w_evalSymlinks w" "w_open (ticked w) = w_open w"
    "w_tables (ticked w) = (w_tables w)\<lparr>daemon_meta := daemon_meta (w_tables (ticked w))\<rparr>"
    "w_faults (ticked w) = []"
  using logical_now_InrD [OF logical_now_ok(1) [OF assms]] logical_now_ok(2) [OF assms] by simp_all

lemma candidates_meta:
  "candidates_after input now (t\<lparr>daemon_meta := m\<rparr>) a = candidates_after input now t a"
  by (simp add: candidates_after_def candidate_def agent_pane_open_def)

lemma events_ok_meta_any: "events_ok (t\<lparr>daemon_meta := m\<rparr>) = events_ok t"
  by (simp add: events_ok_def)

lemma scan_pages_ticked:
  assumes "w_faults w = []"
  shows "scan_pages (Suc pages) input a w = scan_pages (Suc pages) input a (ticked w)"
proof -
  have "logical_now (ticked w) = logical_now w"
    using logical_now_ok(1) [OF assms] ticked_simps(1,2) [OF assms] by (simp add: logical_now_def [of "ticked w"])
  then show ?thesis by (simp add: bind_act_def)
qed

text \<open>
  C10: the paged scan finds the first deliverable event. With no driver failure and an agent
  lookup that only reads, \<open>NextDeliverableAfter\<close> returns the lowest-id event past the cursor that
  the SQL admits and the delivery predicate accepts, exactly as one pass over the whole table
  would: no event is skipped or seen twice at a page boundary. The only bound is the 50 pages of
  1000 rows: the search looks at the first 50000 admitted rows.
\<close>

theorem NextDeliverableAfter_first:
  assumes ok: "events_ok (w_tables w)" and calm: "w_faults w = []"
    and get: "n_GetAgent input = Some f"
    and f: "\<And>a w'. agents (w_tables w') = agents (w_tables w) \<Longrightarrow> w_faults w' = []
      \<Longrightarrow> f a w' = (Inr (agent_of a), w')"
    and panes: "\<forall>r \<in> set (agent_events (w_tables w)). r_paneID r \<noteq> None"
  shows "fst (NextDeliverableAfter input w) = Inr (find (deliverable_to input w agent_of)
    (map mapAgentEvent (take 50000 (candidates_after input (max (w_wall w) (w_logicalNow w))
      (w_tables w) (n_AfterEventID input)))))"
proof -
  note tick = ticked_simps [OF calm]
  have t: "agent_events (w_tables (ticked w)) = agent_events (w_tables w)"
    "agents (w_tables (ticked w)) = agents (w_tables w)" by (subst tick(5), simp)+
  have cand: "candidates_after input now (w_tables (ticked w)) a = candidates_after input now (w_tables w) a" for now a
    by (subst tick(5)) (rule candidates_meta)
  have "events_ok (w_tables (ticked w))" using ok by (subst tick(5)) (simp add: events_ok_meta_any)
  from scan_pages_find [OF this tick(6) _ get, of agent_of 50 "n_AfterEventID input"] f panes tick(1,2,6) t
  have "scan_pages 50 input (n_AfterEventID input) (ticked w) = (Inr (find (deliverable_to input (ticked w) agent_of)
    (map mapAgentEvent (take 50000 (candidates_after input (max (w_wall w) (w_logicalNow w))
      (w_tables w) (n_AfterEventID input))))), ticked w)" by (simp add: cand)
  moreover have "scan_pages 50 input (n_AfterEventID input) w = scan_pages 50 input (n_AfterEventID input) (ticked w)"
    using scan_pages_ticked [OF calm, of 49] by (simp add: eval_nat_numeral)
  moreover have "deliverable_to input (ticked w) agent_of = deliverable_to input w agent_of"
    by (simp add: deliverable_to_def fun_eq_iff tick(2,3))
  ultimately show ?thesis by (simp add: NextDeliverableAfter_def)
qed

definition sample_next :: NextDeliverableAfterInput where
  "sample_next = \<lparr>n_AfterEventID = 0, n_GetAgent = Some (\<lambda>a w. (Inr (Some sample_live), w)),
     n_HerdrSessionName = ''s'', n_OwnerTerminalID = ''o'', n_WorkspaceID = ''ws''\<rparr>"

theorem NextDeliverableAfter_first_witness:
  "fst (NextDeliverableAfter sample_next (sample_world [sample_row])) = Inr (Some (mapAgentEvent sample_row))"
proof -
  have "fst (NextDeliverableAfter sample_next (sample_world [sample_row])) =
    Inr (find (deliverable_to sample_next (sample_world [sample_row]) (\<lambda>_. Some sample_live))
      (map mapAgentEvent (take 50000 (candidates_after sample_next 10 (sample_tables [sample_row]) 0))))"
    using NextDeliverableAfter_first [of "sample_world [sample_row]" sample_next
        "\<lambda>a w. (Inr (Some sample_live), w)" "\<lambda>_. Some sample_live"] sample_events_ok(2)
    by (simp add: sample_next_def sample_tables_def sample_row_def appended_row_def sample_input_def)
  moreover have "candidates_after sample_next 10 (sample_tables [sample_row]) 0 = [sample_row]"
    by code_simp
  moreover have "deliverable_to sample_next (sample_world [sample_row]) (\<lambda>_. Some sample_live) (mapAgentEvent sample_row)"
    by code_simp
  ultimately show ?thesis by simp
qed

end
