(* ===== verification/ScopeStore.thy ===== *)
theory ScopeStore
  imports EventStore "HOL-Library.Char_ord" "HOL-Library.List_Lexorder" "HOL-Library.Product_Lexorder"
begin

text \<open>
  \<open>go/internal/db/agent_orchestrator_scopes.go\<close>: who owns the orchestration of a workspace and up
  to which event it has acknowledged. Every method of \<open>AgentOrchestratorScopeStore\<close> is one
  definition; the result maps of Go are records.
\<close>

subsection \<open>Inputs and results\<close>

record ClaimOrchestratorInput =
  ci_Scope :: AgentScope
  ci_AckedEventID :: int
  ci_PaneID :: string
  ci_TerminalID :: string
  ci_OwnerConnected :: "bool option"

record ReleaseIfOwnerInput =
  ri_Scope :: AgentScope
  ri_TerminalID :: string

record ReleaseIfOwnerIdentityInput =
  rid_Scope :: AgentScope
  rid_PaneID :: string
  rid_TerminalID :: string

record ReleaseIfStaleOwnerInput =
  rs_Scope :: AgentScope
  rs_LivePaneIDs :: "string list"
  rs_LiveTerminalIDs :: "string list"

record AckInput =
  ai_Scope :: AgentScope
  ai_EventID :: int
  ai_TerminalID :: string

record MoveOwnerInput =
  mi_From :: AgentScope
  mi_PaneID :: string
  mi_TargetAckedEventID :: int
  mi_TerminalID :: string
  mi_To :: AgentScope

record AgentOrchestratorScopeChange =
  sc_Current :: AgentOrchestratorState
  sc_Previous :: AgentOrchestratorState

record AgentOrchestratorReleaseResult =
  rr_Changed :: bool
  rr_Current :: "AgentOrchestratorState option"
  rr_Previous :: "AgentOrchestratorState option"

subsection \<open>Rows\<close>

definition scope_is :: "AgentScope \<Rightarrow> scopeRow \<Rightarrow> bool" where
  "scope_is scope c \<longleftrightarrow>
     c_herdrSessionName c = s_HerdrSessionName scope \<and> c_workspaceID c = s_WorkspaceID scope"

text \<open>\<open>mapScope\<close>: the owner columns are both set or both absent.\<close>

definition mapScope :: "scopeRow \<Rightarrow> go_error + AgentOrchestratorState" where
  "mapScope row =
     (if (c_ownerPaneID row = None) \<noteq> (c_ownerTerminalID row = None)
      then Inl (ErrText ''Corrupt orchestrator scope owner identity'')
      else Inr \<lparr>os_Scope = \<lparr>s_HerdrSessionName = c_herdrSessionName row, s_WorkspaceID = c_workspaceID row\<rparr>,
                os_AckedEventID = c_ackedEventID row,
                os_Owner = (case (c_ownerPaneID row, c_ownerTerminalID row) of
                    (Some pane, Some terminal) \<Rightarrow> Some \<lparr>o_PaneID = pane, o_TerminalID = terminal\<rparr>
                  | _ \<Rightarrow> None),
                os_UpdatedAt = c_updatedAt row\<rparr>)"

definition update_scopes ::
    "(scopeRow \<Rightarrow> bool) \<Rightarrow> (scopeRow \<Rightarrow> scopeRow) \<Rightarrow> tables \<Rightarrow> int \<times> tables" where
  "update_scopes p f t =
     (count_where p (agent_orchestrator_scopes t),
      t\<lparr>agent_orchestrator_scopes := update_where p f (agent_orchestrator_scopes t)\<rparr>)"

definition insert_scope :: "scopeRow \<Rightarrow> tables \<Rightarrow> go_error + unit \<times> tables" where
  "insert_scope row t =
     (if (\<exists>c \<in> set (agent_orchestrator_scopes t). c_herdrSessionName c = c_herdrSessionName row
           \<and> c_workspaceID c = c_workspaceID row)
        \<or> (\<forall>h \<in> set (herdr_sessions t). h_name h \<noteq> c_herdrSessionName row)
      then Inl ErrConstraint
      else Inr ((), t\<lparr>agent_orchestrator_scopes := agent_orchestrator_scopes t @ [row]\<rparr>))"

definition getRow :: "AgentScope \<Rightarrow> scopeRow option op" where
  "getRow scope = query_sql (\<lambda>t. find (scope_is scope) (agent_orchestrator_scopes t))"

definition scope_Get :: "AgentScope \<Rightarrow> AgentOrchestratorState option op" where
  "scope_Get scope =
     bind_act (getRow scope) (\<lambda>row. case row of
         None \<Rightarrow> return_act None
       | Some r \<Rightarrow> bind_act (of_sum (mapScope r)) (\<lambda>state. return_act (Some state)))"

definition scanScopes :: "(tables \<Rightarrow> scopeRow list) \<Rightarrow> AgentOrchestratorState list op" where
  "scanScopes rows = bind_act (query_sql rows) (\<lambda>rs. collect rs (\<lambda>r. of_sum (mapScope r)))"

definition owned_row :: "scopeRow \<Rightarrow> bool" where
  "owned_row c \<longleftrightarrow> c_ownerTerminalID c \<noteq> None"

definition ListOwned :: "AgentOrchestratorState list op" where
  "ListOwned = scanScopes (\<lambda>t. sort_key (\<lambda>c. (c_herdrSessionName c, c_workspaceID c))
     (filter owned_row (agent_orchestrator_scopes t)))"

definition ListOwnedForSession :: "string \<Rightarrow> AgentOrchestratorState list op" where
  "ListOwnedForSession herdrSessionName =
     scanScopes (\<lambda>t. filter (\<lambda>c. c_herdrSessionName c = herdrSessionName \<and> owned_row c)
       (agent_orchestrator_scopes t))"

definition ListOwnedScopes :: "AgentOrchestratorState list op" where
  "ListOwnedScopes = scanScopes (\<lambda>t. filter owned_row (agent_orchestrator_scopes t))"

definition PurgeReleasedOlderThan :: "int \<Rightarrow> int op" where
  "PurgeReleasedOlderThan ageMs =
     bind_act wall_clock (\<lambda>now. change_sql (\<lambda>t.
       let p = (\<lambda>c. c_ownerTerminalID c = None \<and> c_updatedAt c < now - ageMs)
       in (count_where p (agent_orchestrator_scopes t),
           t\<lparr>agent_orchestrator_scopes := delete_where p (agent_orchestrator_scopes t)\<rparr>)))"

subsection \<open>Ownership\<close>

definition releaseOwners :: "AgentScope \<Rightarrow> unit op" where
  "releaseOwners scope =
     bind_act wall_clock (\<lambda>now.
     bind_act (change_sql (update_scopes (scope_is scope)
       (\<lambda>c. c\<lparr>c_ownerPaneID := None, c_ownerTerminalID := None, c_updatedAt := now\<rparr>))) (\<lambda>_.
     return_act ()))"

definition releaseStaleCore :: "ReleaseIfStaleOwnerInput \<Rightarrow> bool op" where
  "releaseStaleCore input =
     bind_act (getRow (rs_Scope input)) (\<lambda>row. case row of None \<Rightarrow> return_act False
       | Some r \<Rightarrow> (case c_ownerPaneID r of None \<Rightarrow> return_act False
         | Some pane \<Rightarrow> (case c_ownerTerminalID r of None \<Rightarrow> return_act False
           | Some terminal \<Rightarrow>
             if pane \<in> set (rs_LivePaneIDs input) \<and> terminal \<in> set (rs_LiveTerminalIDs input)
             then return_act False
             else bind_act wall_clock (\<lambda>now.
               affected_some (change_sql (update_scopes
                 (\<lambda>c. scope_is (rs_Scope input) c \<and> c_ownerPaneID c = Some pane
                    \<and> c_ownerTerminalID c = Some terminal)
                 (\<lambda>c. c\<lparr>c_ownerPaneID := None, c_ownerTerminalID := None, c_updatedAt := now\<rparr>)))))))"

definition ReleaseIfStaleOwner :: "ReleaseIfStaleOwnerInput \<Rightarrow> bool op" where
  "ReleaseIfStaleOwner input = RunSqliteTransaction (releaseStaleCore input)"

text \<open>
  The body \<open>ReleaseIfOwner\<close> and \<open>ReleaseIfOwnerIdentity\<close> share: a scope that is not owned as the
  caller says is reported as it is, an owned one is released.
\<close>

definition release_owned :: "AgentScope \<Rightarrow> (scopeRow \<Rightarrow> bool) \<Rightarrow> string \<Rightarrow> AgentOrchestratorReleaseResult op"
where
  "release_owned scope owned_by message =
     bind_act (getRow scope) (\<lambda>row. case row of
         None \<Rightarrow> return_act \<lparr>rr_Changed = False, rr_Current = None, rr_Previous = None\<rparr>
       | Some r \<Rightarrow>
         if \<not> owned_by r
         then bind_act (of_sum (mapScope r)) (\<lambda>current.
           return_act \<lparr>rr_Changed = False, rr_Current = Some current, rr_Previous = None\<rparr>)
         else bind_act (of_sum (mapScope r)) (\<lambda>previous.
           bind_act (releaseOwners scope) (\<lambda>_.
           bind_act (scope_Get scope) (\<lambda>current. case current of
               None \<Rightarrow> fail_act (ErrText message)
             | Some cur \<Rightarrow> return_act
                 \<lparr>rr_Changed = True, rr_Current = Some cur, rr_Previous = Some previous\<rparr>))))"

definition ReleaseIfOwner :: "ReleaseIfOwnerInput \<Rightarrow> AgentOrchestratorReleaseResult op" where
  "ReleaseIfOwner input = RunSqliteTransaction
     (release_owned (ri_Scope input) (\<lambda>r. c_ownerTerminalID r = Some (ri_TerminalID input))
       ''Orchestrator scope disappeared during release'')"

definition ReleaseIfOwnerIdentity :: "ReleaseIfOwnerIdentityInput \<Rightarrow> AgentOrchestratorReleaseResult op"
where
  "ReleaseIfOwnerIdentity input = RunSqliteTransaction
     (release_owned (rid_Scope input)
       (\<lambda>r. c_ownerTerminalID r = Some (rid_TerminalID input) \<and> c_ownerPaneID r = Some (rid_PaneID input))
       ''Orchestrator scope disappeared during pane close'')"

text \<open>
  \<open>claim\<close>: a missing scope row is created, an existing one is re-owned; a claim over a scope whose
  other owner is still connected is refused unless replacement is allowed.
\<close>

definition scope_claim :: "ClaimOrchestratorInput \<Rightarrow> bool \<Rightarrow> AgentOrchestratorScopeChange op" where
  "scope_claim input allowOwnerReplacement =
     bind_act (getRow (ci_Scope input)) (\<lambda>row.
     bind_act wall_clock (\<lambda>now. case row of
         None \<Rightarrow>
           bind_act (exec_sql (insert_scope
             \<lparr>c_ackedEventID = ci_AckedEventID input, c_createdAt = now,
              c_herdrSessionName = s_HerdrSessionName (ci_Scope input),
              c_ownerPaneID = Some (ci_PaneID input), c_ownerTerminalID = Some (ci_TerminalID input),
              c_updatedAt = now, c_workspaceID = s_WorkspaceID (ci_Scope input)\<rparr>)) (\<lambda>_.
           bind_act (scope_Get (ci_Scope input)) (\<lambda>current. case current of
               None \<Rightarrow> fail_act (ErrText ''Failed to create orchestrator scope'')
             | Some cur \<Rightarrow> return_act \<lparr>sc_Current = cur, sc_Previous = cur\<lparr>os_Owner := None\<rparr>\<rparr>))
       | Some r \<Rightarrow>
           bind_act (of_sum (mapScope r)) (\<lambda>previous.
             if \<not> allowOwnerReplacement \<and> c_ownerTerminalID r \<noteq> None
               \<and> c_ownerTerminalID r \<noteq> Some (ci_TerminalID input) \<and> ci_OwnerConnected input = Some True
             then fail_act (ErrText ''ORCHESTRATOR_SCOPE_ALREADY_CLAIMED: scope is owned by another terminal'')
             else
               bind_act (change_sql (update_scopes (scope_is (ci_Scope input))
                 (\<lambda>c. c\<lparr>c_ackedEventID := ci_AckedEventID input, c_ownerPaneID := Some (ci_PaneID input),
                     c_ownerTerminalID := Some (ci_TerminalID input), c_updatedAt := now\<rparr>))) (\<lambda>_.
               bind_act (scope_Get (ci_Scope input)) (\<lambda>current. case current of
                   None \<Rightarrow> fail_act (ErrText ''Orchestrator scope disappeared during claim'')
                 | Some cur \<Rightarrow> return_act \<lparr>sc_Current = cur, sc_Previous = previous\<rparr>)))))"

definition Claim :: "ClaimOrchestratorInput \<Rightarrow> AgentOrchestratorScopeChange op" where
  "Claim input = RunSqliteTransaction (scope_claim input False)"

definition moveOwnerCore :: "MoveOwnerInput \<Rightarrow> AgentOrchestratorScopeChange list op" where
  "moveOwnerCore input =
     bind_act (getRow (mi_From input)) (\<lambda>row. case row of
         None \<Rightarrow> fail_act (ErrText ''Only the current orchestrator can move ownership'')
       | Some r \<Rightarrow>
         if c_ownerTerminalID r \<noteq> Some (mi_TerminalID input)
         then fail_act (ErrText ''Only the current orchestrator can move ownership'')
         else
           bind_act (of_sum (mapScope r)) (\<lambda>sourcePrevious.
           bind_act (releaseOwners (mi_From input)) (\<lambda>_.
           bind_act (scope_Get (mi_From input)) (\<lambda>sourceCurrent. case sourceCurrent of
               None \<Rightarrow> fail_act (ErrText ''Orchestrator source disappeared during move'')
             | Some cur \<Rightarrow>
               bind_act (scope_claim
                 \<lparr>ci_Scope = mi_To input, ci_AckedEventID = mi_TargetAckedEventID input,
                  ci_PaneID = mi_PaneID input, ci_TerminalID = mi_TerminalID input,
                  ci_OwnerConnected = None\<rparr> True) (\<lambda>moved.
               return_act [\<lparr>sc_Current = cur, sc_Previous = sourcePrevious\<rparr>, moved])))))"

definition MoveOwner :: "MoveOwnerInput \<Rightarrow> AgentOrchestratorScopeChange list op" where
  "MoveOwner input = RunSqliteTransaction (moveOwnerCore input)"

text \<open>\<open>Ack\<close>: the cursor moves forward to the given event, never back, and only for the owner.\<close>

definition ackCore :: "AckInput \<Rightarrow> AgentOrchestratorState op" where
  "ackCore input =
     bind_act (getRow (ai_Scope input)) (\<lambda>row. case row of
         None \<Rightarrow> fail_act (ErrText ''Only the current orchestrator can acknowledge notifications'')
       | Some r \<Rightarrow>
         if c_ownerTerminalID r \<noteq> Some (ai_TerminalID input)
         then fail_act (ErrText ''Only the current orchestrator can acknowledge notifications'')
         else
           bind_act wall_clock (\<lambda>now.
           bind_act (change_sql (update_scopes (scope_is (ai_Scope input))
             (\<lambda>c. c\<lparr>c_ackedEventID := max (c_ackedEventID c) (ai_EventID input), c_updatedAt := now\<rparr>))) (\<lambda>_.
           bind_act (scope_Get (ai_Scope input)) (\<lambda>state. case state of
               None \<Rightarrow> fail_act (ErrText ''Orchestrator scope disappeared during acknowledgement'')
             | Some current \<Rightarrow> return_act current))))"

definition scope_Ack :: "AckInput \<Rightarrow> AgentOrchestratorState op" where
  "scope_Ack input = RunSqliteTransaction (ackCore input)"

end
