(* ===== verification/ScopeContract.thy ===== *)
theory ScopeContract
  imports ScopeStore Samples
begin

text \<open>
  What the scope store promises: the table of scopes is, to its clients, a finite map from scopes
  to a cursor and an optional owner (\<open>scope_view\<close>). Each operation is a point update of that map,
  or an error that leaves it alone; the two owner columns of a row are always both set or both
  absent, whatever fails.
\<close>

subsection \<open>The abstract view\<close>

type_synonym scope_entry = "int \<times> (string \<times> string) option"

definition row_view :: "scopeRow \<Rightarrow> scope_entry" where
  "row_view c = (c_ackedEventID c,
     case (c_ownerPaneID c, c_ownerTerminalID c) of
       (Some pane, Some terminal) \<Rightarrow> Some (pane, terminal) | _ \<Rightarrow> None)"

definition state_view :: "AgentOrchestratorState \<Rightarrow> scope_entry" where
  "state_view st = (os_AckedEventID st, map_option (\<lambda>ow. (o_PaneID ow, o_TerminalID ow)) (os_Owner st))"

definition scope_view :: "tables \<Rightarrow> AgentScope \<Rightarrow> scope_entry option" where
  "scope_view t scope = map_option row_view (find (scope_is scope) (agent_orchestrator_scopes t))"

definition owned_by :: "tables \<Rightarrow> AgentScope \<Rightarrow> string \<Rightarrow> bool" where
  "owned_by t scope terminal \<longleftrightarrow> (\<exists>n pane. scope_view t scope = Some (n, Some (pane, terminal)))"

definition paired :: "scopeRow \<Rightarrow> bool" where
  "paired c \<longleftrightarrow> (c_ownerPaneID c = None) = (c_ownerTerminalID c = None)"

definition scope_of :: "scopeRow \<Rightarrow> AgentScope" where
  "scope_of c = \<lparr>s_HerdrSessionName = c_herdrSessionName c, s_WorkspaceID = c_workspaceID c\<rparr>"

definition scopes_ok :: "tables \<Rightarrow> bool" where
  "scopes_ok t \<longleftrightarrow> distinct (map scope_of (agent_orchestrator_scopes t))
     \<and> (\<forall>c \<in> set (agent_orchestrator_scopes t). paired c)"

text \<open>The scope store writes one table only.\<close>

definition only_scopes :: "tables \<Rightarrow> tables \<Rightarrow> bool" where
  "only_scopes t t' \<longleftrightarrow> t' = t\<lparr>agent_orchestrator_scopes := agent_orchestrator_scopes t'\<rparr>"

lemma scope_is_iff: "scope_is scope c \<longleftrightarrow> scope_of c = scope"
  by (cases scope) (auto simp: scope_is_def scope_of_def)

lemma mapScope_InrD: "mapScope r = Inr st \<Longrightarrow> state_view st = row_view r \<and> os_Scope st = scope_of r"
  by (auto simp: mapScope_def state_view_def row_view_def scope_of_def split: if_splits option.splits)

lemma mapScope_paired: "paired r \<Longrightarrow> \<exists>st. mapScope r = Inr st"
  by (simp add: mapScope_def paired_def)

subsection \<open>Statements\<close>

lemma only_scopes_trans: "only_scopes t u \<Longrightarrow> only_scopes u v \<Longrightarrow> only_scopes t v"
  unfolding only_scopes_def
  by (metis tables.surjective tables.update_convs(5))

interpretation scp: guarded_discipline only_scopes scopes_ok
proof
  fix t u v :: tables
  assume "only_scopes t u" "only_scopes u v"
  then show "only_scopes t v" by (rule only_scopes_trans)
qed (simp add: only_scopes_def)

abbreviation "scope_moves \<equiv> guarded scopes_ok only_scopes"

lemma moves_update_scopes:
  assumes "\<And>c. paired c \<Longrightarrow> paired (f c)" "\<And>c. scope_of (f c) = scope_of c"
  shows "moves (inside scope_moves) (change_sql (update_scopes p f))"
proof (rule scp.grd.moves_change, rule guardedI)
  fix t
  assume "scopes_ok t"
  moreover have "map scope_of (update_where p f rows) = map scope_of rows" for rows
    using assms(2) by (rule map_update_where)
  ultimately show "scopes_ok (snd (update_scopes p f t)) \<and> only_scopes t (snd (update_scopes p f t))"
    using assms(1) by (auto simp: update_scopes_def scopes_ok_def only_scopes_def set_update_where)
qed

lemma moves_insert_scope: "paired row \<Longrightarrow> moves (inside scope_moves) (exec_sql (insert_scope row))"
  by (rule scp.grd.moves_exec, rule guardedI)
    (auto simp: insert_scope_def scopes_ok_def only_scopes_def scope_of_def split: if_splits; blast)

lemma moves_of_sum [moves_rules]: "moves (inside scope_moves) (of_sum v)"
  by (cases v) (simp_all add: of_sum_def moves_rules)

lemma moves_scope_Get [moves_rules]: "moves (inside scope_moves) (scope_Get scope)"
  unfolding scope_Get_def getRow_def by (intro moves_rules)

lemma moves_scanScopes [moves_rules]: "moves (inside scope_moves) (scanScopes rows)"
  unfolding scanScopes_def by (intro moves_rules)

lemma moves_releaseOwners [moves_rules]: "moves (inside scope_moves) (releaseOwners scope)"
  unfolding releaseOwners_def
  by (intro moves_rules moves_update_scopes) (simp_all add: paired_def scope_of_def)

lemma moves_release_owned: "moves (inside scope_moves) (release_owned scope p message)"
  unfolding release_owned_def getRow_def by (intro moves_rules)

lemma moves_releaseStaleCore: "moves (inside scope_moves) (releaseStaleCore input)"
  unfolding releaseStaleCore_def getRow_def affected_some_def
  by (intro moves_rules moves_update_scopes) (simp_all add: paired_def scope_of_def)

lemma moves_scope_claim [moves_rules]: "moves (inside scope_moves) (scope_claim input allow)"
  unfolding scope_claim_def getRow_def
  by (intro moves_rules moves_update_scopes moves_insert_scope) (simp_all add: paired_def scope_of_def)

lemma moves_moveOwnerCore: "moves (inside scope_moves) (moveOwnerCore input)"
  unfolding moveOwnerCore_def getRow_def by (intro moves_rules)

lemma moves_ackCore: "moves (inside scope_moves) (ackCore input)"
  unfolding ackCore_def getRow_def
  by (intro moves_rules moves_update_scopes) (simp_all add: paired_def scope_of_def)

lemma moves_Purge: "moves (inside scope_moves) (PurgeReleasedOlderThan ageMs)"
  unfolding PurgeReleasedOlderThan_def Let_def
  by (intro moves_rules scp.grd.moves_change guardedI)
    (auto simp: scopes_ok_def only_scopes_def delete_where_def distinct_map inj_on_def)

lemmas scope_transactions =
  moves_releaseStaleCore moves_release_owned moves_scope_claim moves_moveOwnerCore moves_ackCore

subsection \<open>Runs\<close>

inductive scope_step :: "world \<Rightarrow> world \<Rightarrow> bool" where
  claim: "Claim claim_input w = (r, w') \<Longrightarrow> scope_step w w'"
| release: "ReleaseIfOwner release_input w = (r, w') \<Longrightarrow> scope_step w w'"
| release_identity: "ReleaseIfOwnerIdentity identity_input w = (r, w') \<Longrightarrow> scope_step w w'"
| release_stale: "ReleaseIfStaleOwner stale_input w = (r, w') \<Longrightarrow> scope_step w w'"
| move: "MoveOwner move_input w = (r, w') \<Longrightarrow> scope_step w w'"
| ack: "scope_Ack ack_input w = (r, w') \<Longrightarrow> scope_step w w'"
| purge: "PurgeReleasedOlderThan ageMs w = (r, w') \<Longrightarrow> scope_step w w'"
| environment: "w_tables w' = committed w \<and> w_open w' = None \<Longrightarrow> scope_step w w'"

lemma scope_durable:
  "moves (durable scope_moves) (Claim claim_input)"
  "moves (durable scope_moves) (ReleaseIfOwner release_input)"
  "moves (durable scope_moves) (ReleaseIfOwnerIdentity identity_input)"
  "moves (durable scope_moves) (ReleaseIfStaleOwner stale_input)"
  "moves (durable scope_moves) (MoveOwner move_input)"
  "moves (durable scope_moves) (scope_Ack ack_input)"
  "moves (durable scope_moves) (PurgeReleasedOlderThan ageMs)"
  unfolding Claim_def ReleaseIfOwner_def ReleaseIfOwnerIdentity_def ReleaseIfStaleOwner_def
    MoveOwner_def scope_Ack_def
  by (intro scp.grd.durable_tx scope_transactions scp.grd.durable_of_inside moves_Purge)+

lemma scope_step_durable:
  assumes "scope_step w w'"
  shows "durable scope_moves w w'"
  using assms
proof cases
  case environment
  then show ?thesis by (simp add: durable_def committed_def [of w'] scp.grd.refl_Q)
qed (auto intro: scope_durable [THEN moves_resultD])

lemma scope_run_durable: "scope_step\<^sup>*\<^sup>* w w' \<Longrightarrow> durable scope_moves w w'"
  by (induction rule: rtranclp_induct)
    (auto intro: scp.grd.dur.refl_R scp.grd.dur.trans_R scope_step_durable)

text \<open>
  along every run of the scope store, under any driver failures and crashes, each scope has one
  durable row whose pane and terminal owner columns are both set or both absent, and no other table
  is written: ownership never ends up half transferred.
\<close>

theorem scopes_invariant:
  assumes run: "scope_step\<^sup>*\<^sup>* w w'" and ok: "scopes_ok (committed w)"
  shows "scopes_ok (committed w') \<and> only_scopes (committed w) (committed w')"
  using scope_run_durable [OF run] ok by (simp add: durable_def guarded_def)

definition sample_claim :: ClaimOrchestratorInput where
  "sample_claim = \<lparr>ci_Scope = \<lparr>s_HerdrSessionName = ''s'', s_WorkspaceID = ''ws''\<rparr>, ci_AckedEventID = 4,
     ci_PaneID = ''pn'', ci_TerminalID = ''n'', ci_OwnerConnected = Some False\<rparr>"

lemma sample_scopes_ok: "scopes_ok (sample_tables rows)"
  by (simp add: scopes_ok_def sample_tables_def sample_scope_def paired_def)

lemma sample_view [simp]:
  "scope_view (sample_tables rows) (ci_Scope sample_claim) = Some (0, Some (''po'', ''o''))"
  by (simp add: scope_view_def sample_claim_def sample_tables_def sample_scope_def row_view_def scope_is_def)

lemma sample_claim_runs: "fst (Claim sample_claim (sample_world [])) = Inr
    \<lparr>sc_Current = \<lparr>os_Scope = ci_Scope sample_claim, os_AckedEventID = 4,
        os_Owner = Some \<lparr>o_PaneID = ''pn'', o_TerminalID = ''n''\<rparr>, os_UpdatedAt = 10\<rparr>,
     sc_Previous = \<lparr>os_Scope = ci_Scope sample_claim, os_AckedEventID = 0,
        os_Owner = Some \<lparr>o_PaneID = ''po'', o_TerminalID = ''o''\<rparr>, os_UpdatedAt = 1\<rparr>\<rparr>"
  by (simp add: Claim_def RunSqliteTransaction_def begin_immediate_def commit_tx_def scope_claim_def
      getRow_def scope_Get_def query_sql_ok change_sql_ok act_defs of_sum_def mapScope_def
      update_scopes_def update_where_def sample_claim_def sample_tables_def sample_scope_def scope_is_def Let_def)

theorem scopes_invariant_witness:
  "scopes_ok (committed (snd (Claim sample_claim (sample_world []))))"
proof -
  have "scope_step\<^sup>*\<^sup>* (sample_world []) (snd (Claim sample_claim (sample_world [])))"
    by (rule r_into_rtranclp, rule scope_step.claim [OF prod.collapse [symmetric]])
  from scopes_invariant [OF this] show ?thesis by (simp add: sample_scopes_ok)
qed

subsection \<open>Point updates of the view\<close>

lemma find_update_where:
  assumes same: "\<And>c. p (f c) = p c" and apart: "\<And>c. p c \<Longrightarrow> \<not> q c \<Longrightarrow> True"
  shows "find p (update_where p f rows) = map_option f (find p rows)"
  using same by (induction rows) (auto simp: update_where_def)

lemma find_update_other:
  assumes "\<And>c. q c \<Longrightarrow> \<not> p c" and "\<And>c. p c \<Longrightarrow> \<not> q (f c)"
  shows "find q (update_where p f rows) = find q rows"
  using assms by (induction rows) (auto simp: update_where_def)

lemma view_update:
  assumes "\<And>c. scope_of (f c) = scope_of c"
    and "\<And>c. c \<in> set (agent_orchestrator_scopes t) \<Longrightarrow> row_view (f c) = g (row_view c)"
  shows "scope_view (snd (update_scopes (scope_is scope) f t)) =
    (scope_view t)(scope := map_option g (scope_view t scope))"
proof
  fix sc
  have keep: "scope_is x (f c) = scope_is x c" for x c by (simp add: scope_is_iff assms(1))
  show "scope_view (snd (update_scopes (scope_is scope) f t)) sc =
    ((scope_view t)(scope := map_option g (scope_view t scope))) sc"
  proof (cases "sc = scope")
    case True
    have "find (scope_is scope) (update_where (scope_is scope) f rows) =
        map_option f (find (scope_is scope) rows)" for rows
      using keep by (intro find_update_where) auto
    then show ?thesis using True assms(2)
      by (cases "find (scope_is scope) (agent_orchestrator_scopes t)")
        (auto simp: scope_view_def update_scopes_def dest!: find_SomeD)
  next
    case False
    have "find (scope_is sc) (update_where (scope_is scope) f rows) = find (scope_is sc) rows" for rows
      using False keep by (intro find_update_other) (auto simp: scope_is_iff)
    then show ?thesis using False by (simp add: scope_view_def update_scopes_def)
  qed
qed

lemma update_scopes_only: "only_scopes t (snd (update_scopes p f t))"
  by (simp add: only_scopes_def update_scopes_def)

lemma view_insert:
  assumes "insert_scope row t = Inr ((), u)"
  shows "scope_view u = (scope_view t)(scope_of row \<mapsto> row_view row)" and "scope_view t (scope_of row) = None"
proof -
  have fresh: "find (scope_is (scope_of row)) (agent_orchestrator_scopes t) = None"
    using assms by (auto simp: insert_scope_def find_None_iff scope_is_def scope_of_def split: if_splits)
  have u: "agent_orchestrator_scopes u = agent_orchestrator_scopes t @ [row]"
    using assms by (auto simp: insert_scope_def split: if_splits)
  have "find p (xs @ [row]) = (case find p xs of None \<Rightarrow> if p row then Some row else None | Some x \<Rightarrow> Some x)" for p xs
    by (induction xs) auto
  then show "scope_view u = (scope_view t)(scope_of row \<mapsto> row_view row)"
    using fresh by (auto simp: scope_view_def u fun_eq_iff scope_is_iff split: option.split)
  show "scope_view t (scope_of row) = None" using fresh by (simp add: scope_view_def)
qed

lemma getRow_InrD:
  assumes "getRow scope w = (Inr row, w')"
  shows "w_tables w' = w_tables w \<and> scope_view (w_tables w) scope = map_option row_view row
    \<and> (\<forall>r. row = Some r \<longrightarrow> r \<in> set (agent_orchestrator_scopes (w_tables w)) \<and> scope_of r = scope)"
  using assms by (auto simp: getRow_def query_sql_Inr scope_view_def scope_is_iff dest: find_SomeD)

lemma of_sum_InrD: "of_sum v w = (Inr a, w') \<Longrightarrow> v = Inr a \<and> w' = w"
  by (cases v) (auto simp: of_sum_def fail_act_def return_act_def)

lemma scope_Get_InrD:
  assumes "scope_Get scope w = (Inr st, w')"
  shows "w_tables w' = w_tables w \<and> scope_view (w_tables w) scope = map_option state_view st
    \<and> (\<forall>s. st = Some s \<longrightarrow> os_Scope s = scope)"
  using assms unfolding scope_Get_def
  by (auto elim!: bind_act_InrE split: option.splits dest!: of_sum_InrD getRow_InrD mapScope_InrD)

lemma releaseOwners_InrD:
  assumes "releaseOwners scope w = (Inr u, w')"
  shows "scope_view (w_tables w') =
    (scope_view (w_tables w))(scope := map_option (\<lambda>(n, _). (n, None)) (scope_view (w_tables w) scope))"
  using assms unfolding releaseOwners_def
  by (auto elim!: bind_act_InrE simp: change_sql_Inr intro!: view_update simp: scope_of_def row_view_def)

subsection \<open>The operations as updates of the view\<close>

lemma scope_claim_InrD:
  assumes "scope_claim input allow w = (Inr ch, w')"
  shows "scope_view (w_tables w') = (scope_view (w_tables w))
      (ci_Scope input \<mapsto> (ci_AckedEventID input, Some (ci_PaneID input, ci_TerminalID input)))
    \<and> state_view (sc_Current ch) = (ci_AckedEventID input, Some (ci_PaneID input, ci_TerminalID input))
    \<and> os_Scope (sc_Current ch) = ci_Scope input
    \<and> (\<not> allow \<and> ci_OwnerConnected input = Some True \<longrightarrow>
        (\<forall>n pane terminal. scope_view (w_tables w) (ci_Scope input) = Some (n, Some (pane, terminal))
           \<longrightarrow> terminal = ci_TerminalID input))"
proof -
  from assms obtain row w1 where row: "getRow (ci_Scope input) w = (Inr row, w1)"
    unfolding scope_claim_def by (auto elim: bind_act_InrE)
  note r = getRow_InrD [OF row]
  show ?thesis
  proof (cases row)
    case None
    let ?row = "\<lparr>c_ackedEventID = ci_AckedEventID input, c_createdAt = w_wall w1,
              c_herdrSessionName = s_HerdrSessionName (ci_Scope input),
              c_ownerPaneID = Some (ci_PaneID input), c_ownerTerminalID = Some (ci_TerminalID input),
              c_updatedAt = w_wall w1, c_workspaceID = s_WorkspaceID (ci_Scope input)\<rparr>"
    have key: "scope_of ?row = ci_Scope input" by (simp add: scope_of_def)
    from assms row None obtain w2 cur where ins: "exec_sql (insert_scope ?row) w1 = (Inr (), w2)"
      and get: "scope_Get (ci_Scope input) w2 = (Inr (Some cur), w')" and cur: "sc_Current ch = cur"
      unfolding scope_claim_def by (auto elim!: bind_act_InrE split: option.splits)
    from ins have "insert_scope ?row (w_tables w1) = Inr ((), w_tables w2)" by (auto simp: exec_sql_Inr)
    from view_insert [OF this] key r None have
      "scope_view (w_tables w2) = (scope_view (w_tables w))
        (ci_Scope input \<mapsto> (ci_AckedEventID input, Some (ci_PaneID input, ci_TerminalID input)))"
      by (simp add: row_view_def)
    with scope_Get_InrD [OF get] cur r None show ?thesis by auto
  next
    case (Some old)
    from assms row Some obtain n w2 cur where
      upd: "change_sql (update_scopes (scope_is (ci_Scope input))
                 (\<lambda>c. c\<lparr>c_ackedEventID := ci_AckedEventID input, c_ownerPaneID := Some (ci_PaneID input),
                     c_ownerTerminalID := Some (ci_TerminalID input), c_updatedAt := w_wall w1\<rparr>)) w1 = (Inr n, w2)"
      and get: "scope_Get (ci_Scope input) w2 = (Inr (Some cur), w')" and cur: "sc_Current ch = cur"
      and guard: "\<not> (\<not> allow \<and> c_ownerTerminalID old \<noteq> None
               \<and> c_ownerTerminalID old \<noteq> Some (ci_TerminalID input) \<and> ci_OwnerConnected input = Some True)"
      unfolding scope_claim_def by (auto elim!: bind_act_InrE split: option.splits if_splits dest!: of_sum_InrD)
    have "scope_view (w_tables w2) = (scope_view (w_tables w1))(ci_Scope input :=
        map_option (\<lambda>_. (ci_AckedEventID input, Some (ci_PaneID input, ci_TerminalID input)))
          (scope_view (w_tables w1) (ci_Scope input)))"
      using upd by (auto simp: change_sql_Inr scope_of_def row_view_def intro!: view_update)
    with scope_Get_InrD [OF get] cur r Some guard show ?thesis
      by (auto simp: row_view_def split: option.splits)
  qed
qed

lemma release_owned_InrD:
  assumes run: "release_owned scope p message w = (Inr res, w')"
  shows "(rr_Changed res \<longrightarrow> (\<exists>r \<in> set (agent_orchestrator_scopes (w_tables w)). scope_of r = scope \<and> p r
        \<and> scope_view (w_tables w) scope = Some (row_view r))
      \<and> scope_view (w_tables w') = (scope_view (w_tables w))
          (scope := map_option (\<lambda>(n, _). (n, None)) (scope_view (w_tables w) scope))
      \<and> map_option state_view (rr_Current res) = scope_view (w_tables w') scope
      \<and> map_option state_view (rr_Previous res) = scope_view (w_tables w) scope)
    \<and> (\<not> rr_Changed res \<longrightarrow> w_tables w' = w_tables w)"
proof -
  from run obtain row w1 where row: "getRow scope w = (Inr row, w1)"
    unfolding release_owned_def by (auto elim: bind_act_InrE)
  note r = getRow_InrD [OF row]
  show ?thesis
  proof (cases "row = None \<or> \<not> p (the row)")
    case True
    with run row r show ?thesis
      unfolding release_owned_def
      by (auto elim!: bind_act_InrE split: option.splits dest!: of_sum_InrD)
  next
    case False
    then obtain old where old: "row = Some old" "p old" by auto
    with run row obtain st w2 cur where
      st: "mapScope old = Inr st" and rel: "releaseOwners scope w1 = (Inr (), w2)" and
      get: "scope_Get scope w2 = (Inr (Some cur), w')" and
      res: "res = \<lparr>rr_Changed = True, rr_Current = Some cur, rr_Previous = Some st\<rparr>"
      unfolding release_owned_def
      by (auto elim!: bind_act_InrE split: option.splits dest!: of_sum_InrD)
    from scope_Get_InrD [OF get] releaseOwners_InrD [OF rel] mapScope_InrD [OF st] r old res
    show ?thesis by auto
  qed
qed

lemma tx_view:
  assumes "RunSqliteTransaction fn w = (Inr a, w')"
  obtains v v' where "fn v = (Inr a, v')" "w_tables v = w_tables w" "w_tables w' = w_tables v'"
    "w_wall v = w_wall w" "w_logicalNow v = w_logicalNow w"
  using assms by (elim tx_InrE) (metis committed_spend_fault spend_fault_simps(1,3,4) world.select_convs(1,4,5) world.surjective world.update_convs(2))

text \<open>
  C6: a claim gives the scope to the claimer and to nobody else. A successful claim makes the
  claimer's pane and terminal the owner with the cursor supplied and changes no other scope; and
  while the current owner is connected, only that same terminal can succeed in claiming.
\<close>

theorem Claim_exclusive:
  assumes run: "Claim input w = (Inr ch, w')"
  shows "scope_view (w_tables w') = (scope_view (w_tables w))
      (ci_Scope input \<mapsto> (ci_AckedEventID input, Some (ci_PaneID input, ci_TerminalID input)))
    \<and> state_view (sc_Current ch) = (ci_AckedEventID input, Some (ci_PaneID input, ci_TerminalID input))
    \<and> (ci_OwnerConnected input = Some True \<longrightarrow>
        (\<forall>terminal. owned_by (w_tables w) (ci_Scope input) terminal \<longrightarrow> terminal = ci_TerminalID input))"
proof -
  obtain v v' where v: "scope_claim input False v = (Inr ch, v')" "w_tables v = w_tables w"
    "w_tables w' = w_tables v'" using run unfolding Claim_def by (rule tx_view)
  from scope_claim_InrD [OF v(1)] v(2,3) show ?thesis by (auto simp: owned_by_def)
qed

theorem Claim_exclusive_witness:
  "owned_by (w_tables (snd (Claim sample_claim (sample_world [])))) (ci_Scope sample_claim) ''n''"
proof -
  obtain ch where "Claim sample_claim (sample_world []) = (Inr ch, snd (Claim sample_claim (sample_world [])))"
    using sample_claim_runs by (metis prod.collapse)
  from Claim_exclusive [OF this] show ?thesis by (simp add: owned_by_def sample_claim_def)
qed

lemma scope_Ack_InrD:
  assumes ok: "scopes_ok (w_tables w)" and run: "scope_Ack input w = (Inr st, w')"
  shows "\<exists>n pane. scope_view (w_tables w) (ai_Scope input) = Some (n, Some (pane, ai_TerminalID input))
      \<and> scope_view (w_tables w') = (scope_view (w_tables w))
          (ai_Scope input \<mapsto> (max n (ai_EventID input), Some (pane, ai_TerminalID input)))
      \<and> state_view st = (max n (ai_EventID input), Some (pane, ai_TerminalID input))"
proof -
  from run obtain v v' where v: "ackCore input v = (Inr st, v')" "w_tables v = w_tables w"
    "w_tables w' = w_tables v'" unfolding scope_Ack_def by (auto elim: tx_view)
  from v(1) obtain row v1 where row: "getRow (ai_Scope input) v = (Inr row, v1)"
    unfolding ackCore_def by (auto elim: bind_act_InrE)
  note r = getRow_InrD [OF row]
  from v(1) row obtain old n v2 where old: "row = Some old" "c_ownerTerminalID old = Some (ai_TerminalID input)" and
    upd: "change_sql (update_scopes (scope_is (ai_Scope input))
             (\<lambda>c. c\<lparr>c_ackedEventID := max (c_ackedEventID c) (ai_EventID input), c_updatedAt := w_wall v1\<rparr>)) v1
        = (Inr n, v2)" and
    get: "scope_Get (ai_Scope input) v2 = (Inr (Some st), v')"
    unfolding ackCore_def by (auto elim!: bind_act_InrE split: option.splits if_splits)
  have "scope_view (w_tables v2) = (scope_view (w_tables v1))(ai_Scope input :=
      map_option (\<lambda>(k, ow). (max k (ai_EventID input), ow)) (scope_view (w_tables v1) (ai_Scope input)))"
    using upd by (auto simp: change_sql_Inr scope_of_def row_view_def intro!: view_update)
  moreover obtain pane where "c_ownerPaneID old = Some pane"
    using ok r old v(2) by (auto simp: scopes_ok_def paired_def)
  ultimately show ?thesis
    using scope_Get_InrD [OF get] r old v(2,3) by (auto simp: row_view_def)
qed

text \<open>
  the acknowledgement cursor only moves forward, and only for its owner. A successful \<open>Ack\<close>
  means the terminal owned the scope; the cursor becomes the larger of its old value and the
  event id, the owner and every other scope stay. Any other terminal gets an error, and an error
  changes nothing.
\<close>

theorem Ack_moves_cursor_forward:
  assumes ok: "scopes_ok (w_tables w)" and run: "scope_Ack input w = (res, w')"
  shows "(\<forall>st. res = Inr st \<longrightarrow> (\<exists>n pane. scope_view (w_tables w) (ai_Scope input) = Some (n, Some (pane, ai_TerminalID input))
      \<and> scope_view (w_tables w') = (scope_view (w_tables w))
          (ai_Scope input \<mapsto> (max n (ai_EventID input), Some (pane, ai_TerminalID input)))
      \<and> state_view st = (max n (ai_EventID input), Some (pane, ai_TerminalID input))))
    \<and> (\<forall>e. res = Inl e \<longrightarrow> committed w' = committed w)"
proof (cases res)
  case (Inl e)
  with run show ?thesis
    using tx_error_committed [OF moves_ackCore] by (auto simp: scope_Ack_def)
next
  case (Inr st)
  with run have "scope_Ack input w = (Inr st, w')" by simp
  from scope_Ack_InrD [OF ok this] Inr show ?thesis by simp
qed

definition sample_ack :: AckInput where
  "sample_ack = \<lparr>ai_Scope = ci_Scope sample_claim, ai_EventID = 7, ai_TerminalID = ''o''\<rparr>"

theorem Ack_moves_cursor_forward_witness:
  "scope_view (w_tables (snd (scope_Ack sample_ack (sample_world [])))) (ci_Scope sample_claim)
     = Some (7, Some (''po'', ''o''))"
proof -
  have "\<exists>st. fst (scope_Ack sample_ack (sample_world [])) = Inr st"
    by (simp add: scope_Ack_def RunSqliteTransaction_def begin_immediate_def commit_tx_def ackCore_def
      getRow_def scope_Get_def query_sql_ok change_sql_ok act_defs of_sum_def mapScope_def
      update_scopes_def update_where_def sample_claim_def sample_ack_def sample_tables_def sample_scope_def
      scope_is_def Let_def)
  then obtain st where "scope_Ack sample_ack (sample_world []) = (Inr st, snd (scope_Ack sample_ack (sample_world [])))"
    by (metis prod.collapse)
  from Ack_moves_cursor_forward [OF _ this] sample_scopes_ok
  have "\<exists>n pane. scope_view (sample_tables []) (ai_Scope sample_ack) = Some (n, Some (pane, ai_TerminalID sample_ack))
      \<and> scope_view (w_tables (snd (scope_Ack sample_ack (sample_world [])))) (ai_Scope sample_ack)
        = Some (max n (ai_EventID sample_ack), Some (pane, ai_TerminalID sample_ack))"
    by fastforce
  then show ?thesis by (simp add: sample_ack_def)
qed

text \<open>
  releasing is for the owner only and keeps the cursor. \<open>ReleaseIfOwner\<close> reports a change exactly
  when the terminal owned the scope; then the owner is cleared and the cursor kept, and the states
  before and after are returned. Otherwise no row is written.
\<close>

theorem ReleaseIfOwner_exact:
  assumes ok: "scopes_ok (w_tables w)" and run: "ReleaseIfOwner input w = (Inr res, w')"
  shows "(rr_Changed res \<longleftrightarrow> owned_by (w_tables w) (ri_Scope input) (ri_TerminalID input))
    \<and> scope_view (w_tables w') = (if rr_Changed res
        then (scope_view (w_tables w))(ri_Scope input :=
          map_option (\<lambda>(n, _). (n, None)) (scope_view (w_tables w) (ri_Scope input)))
        else scope_view (w_tables w))
    \<and> (rr_Changed res \<longrightarrow> map_option state_view (rr_Previous res) = scope_view (w_tables w) (ri_Scope input)
        \<and> map_option state_view (rr_Current res) = scope_view (w_tables w') (ri_Scope input))"
proof -
  let ?p = "\<lambda>r. c_ownerTerminalID r = Some (ri_TerminalID input)"
  obtain v v' where v: "release_owned (ri_Scope input) ?p ''Orchestrator scope disappeared during release'' v = (Inr res, v')"
    "w_tables v = w_tables w" "w_tables w' = w_tables v'"
    using run unfolding ReleaseIfOwner_def by (rule tx_view)
  note spec = release_owned_InrD [OF v(1)]
  have changed: "rr_Changed res" if own: "owned_by (w_tables w) (ri_Scope input) (ri_TerminalID input)"
  proof (rule ccontr)
    assume no: "\<not> rr_Changed res"
    from v(1) obtain row w1 where row: "getRow (ri_Scope input) v = (Inr row, w1)"
      unfolding release_owned_def by (auto elim: bind_act_InrE)
    from own getRow_InrD [OF row] v(2) obtain old where "row = Some old" "?p old"
      by (auto simp: owned_by_def row_view_def split: option.splits)
    with v(1) row no show False
      unfolding release_owned_def by (auto elim!: bind_act_InrE split: option.splits)
  qed
  have owner: "owned_by (w_tables w) (ri_Scope input) (ri_TerminalID input)" if "rr_Changed res"
  proof -
    from that spec v(2) obtain r where r: "r \<in> set (agent_orchestrator_scopes (w_tables w))" "?p r"
      "scope_view (w_tables w) (ri_Scope input) = Some (row_view r)" by auto
    moreover obtain pane where "c_ownerPaneID r = Some pane"
      using ok r by (auto simp: scopes_ok_def paired_def)
    ultimately show ?thesis by (auto simp: owned_by_def row_view_def)
  qed
  show ?thesis using spec changed owner v(2,3) by auto
qed

theorem ReleaseIfOwner_exact_witness:
  "scope_view (w_tables (snd (ReleaseIfOwner \<lparr>ri_Scope = ci_Scope sample_claim, ri_TerminalID = ''o''\<rparr>
      (sample_world [])))) (ci_Scope sample_claim) = Some (0, None)"
proof -
  let ?input = "\<lparr>ri_Scope = ci_Scope sample_claim, ri_TerminalID = ''o''\<rparr>"
  have "\<exists>res. fst (ReleaseIfOwner ?input (sample_world [])) = Inr res \<and> rr_Changed res"
    by (simp add: ReleaseIfOwner_def RunSqliteTransaction_def begin_immediate_def commit_tx_def release_owned_def
      getRow_def releaseOwners_def scope_Get_def query_sql_ok change_sql_ok act_defs of_sum_def mapScope_def
      update_scopes_def update_where_def sample_claim_def sample_tables_def sample_scope_def scope_is_def Let_def)
  then obtain res where res: "ReleaseIfOwner ?input (sample_world []) = (Inr res, snd (ReleaseIfOwner ?input (sample_world [])))"
    "rr_Changed res" by (metis prod.collapse)
  from ReleaseIfOwner_exact [OF _ res(1)] res(2) show ?thesis by (simp add: sample_scopes_ok)
qed

text \<open>
  C18: moving the orchestration is atomic. A successful \<open>MoveOwner\<close> means the terminal owned the
  source; the source is released with its cursor kept, the target is owned by the terminal's pane
  with the cursor supplied, and no other scope changes. On any error, also one between the two
  steps, the durable tables are as before: ownership is never lost or doubled half way.
\<close>

theorem MoveOwner_atomic:
  assumes ok: "scopes_ok (w_tables w)" and run: "MoveOwner input w = (res, w')"
  shows "(\<forall>changes. res = Inr changes \<longrightarrow> length changes = 2
      \<and> owned_by (w_tables w) (mi_From input) (mi_TerminalID input)
      \<and> scope_view (w_tables w') = (scope_view (w_tables w))
          (mi_From input := map_option (\<lambda>(n, _). (n, None)) (scope_view (w_tables w) (mi_From input)),
           mi_To input := Some (mi_TargetAckedEventID input, Some (mi_PaneID input, mi_TerminalID input))))
    \<and> (\<forall>e. res = Inl e \<longrightarrow> committed w' = committed w)"
proof (cases res)
  case (Inl e)
  with run show ?thesis
    using tx_error_committed [OF moves_moveOwnerCore] by (auto simp: MoveOwner_def)
next
  case (Inr changes)
  then obtain v v' where v: "moveOwnerCore input v = (Inr changes, v')" "w_tables v = w_tables w"
    "w_tables w' = w_tables v'" using run unfolding MoveOwner_def by (auto elim: tx_view)
  from v(1) obtain row v1 where row: "getRow (mi_From input) v = (Inr row, v1)"
    unfolding moveOwnerCore_def by (auto elim: bind_act_InrE)
  note r = getRow_InrD [OF row]
  let ?claim = "\<lparr>ci_Scope = mi_To input, ci_AckedEventID = mi_TargetAckedEventID input,
                  ci_PaneID = mi_PaneID input, ci_TerminalID = mi_TerminalID input,
                  ci_OwnerConnected = None\<rparr>"
  from v(1) row obtain old v2 cur v3 ch where
    old: "row = Some old" "c_ownerTerminalID old = Some (mi_TerminalID input)" and
    rel: "releaseOwners (mi_From input) v1 = (Inr (), v2)" and
    get: "scope_Get (mi_From input) v2 = (Inr (Some cur), v3)" and
    claim: "scope_claim ?claim True v3 = (Inr ch, v')" and two: "length changes = 2"
    unfolding moveOwnerCore_def
    by (auto elim!: bind_act_InrE split: option.splits if_splits dest!: of_sum_InrD)
  obtain pane where "c_ownerPaneID old = Some pane"
    using ok r old v(2) by (auto simp: scopes_ok_def paired_def)
  then have "owned_by (w_tables w) (mi_From input) (mi_TerminalID input)"
    using r old v(2) by (auto simp: owned_by_def row_view_def)
  with releaseOwners_InrD [OF rel] scope_Get_InrD [OF get] scope_claim_InrD [OF claim] r v(2,3) two Inr
  show ?thesis by simp
qed

lemma sample_target: "ci_Scope sample_claim \<noteq> \<lparr>s_HerdrSessionName = ''s'', s_WorkspaceID = ''wt''\<rparr>"
  by (simp add: sample_claim_def)

theorem MoveOwner_atomic_witness:
  "\<exists>input w. scope_view (w_tables (snd (MoveOwner input w))) (mi_From input) = Some (0, None)
     \<and> scope_view (w_tables (snd (MoveOwner input w))) (mi_To input) = Some (3, Some (''po'', ''o''))"
proof -
  let ?to = "\<lparr>s_HerdrSessionName = ''s'', s_WorkspaceID = ''wt''\<rparr>"
  let ?input = "\<lparr>mi_From = ci_Scope sample_claim, mi_PaneID = ''po'', mi_TargetAckedEventID = 3,
    mi_TerminalID = ''o'', mi_To = ?to\<rparr>"
  have "\<exists>res. fst (MoveOwner ?input (sample_world [])) = Inr res"
    by (simp add: MoveOwner_def RunSqliteTransaction_def begin_immediate_def commit_tx_def moveOwnerCore_def
      scope_claim_def getRow_def releaseOwners_def scope_Get_def query_sql_ok change_sql_ok exec_sql_def act_defs of_sum_def mapScope_def
      update_scopes_def update_where_def insert_scope_def sample_claim_def sample_tables_def sample_scope_def scope_is_def Let_def)
  then obtain res where "MoveOwner ?input (sample_world []) = (Inr res, snd (MoveOwner ?input (sample_world [])))"
    by (metis prod.collapse)
  from MoveOwner_atomic [OF _ this] sample_scopes_ok have
    "scope_view (w_tables (snd (MoveOwner ?input (sample_world [])))) (mi_From ?input) = Some (0, None)"
    "scope_view (w_tables (snd (MoveOwner ?input (sample_world [])))) (mi_To ?input) = Some (3, Some (''po'', ''o''))"
    by (simp_all add: sample_target)
  then show ?thesis by blast
qed

end
