(* ===== verification/AgentStore.thy ===== *)
theory AgentStore
  imports EventStore "HOL-Library.Char_ord" "HOL-Library.List_Lexorder" "HOL-Library.Product_Lexorder"
begin

text \<open>
  \<open>go/internal/db/agents.go\<close>: the index of live agents, the tombstones of closed panes and the
  reconciliation of the index with a scan (\<open>ReplaceForSession\<close>). The unique indexes and foreign
  keys of the schema are part of the statements: an insert or update that breaks one fails, and
  deleting agents clears their events' references and removes their context snapshots.
  \<open>strings.EqualFold\<close> folds the letters of ASCII, which agent kinds consist of.
\<close>

subsection \<open>Session references\<close>

definition fold_ascii :: "char \<Rightarrow> nat" where
  "fold_ascii c = (let n = of_char c in if 65 \<le> n \<and> n \<le> 90 then n + 32 else n)"

definition equal_fold :: "string \<Rightarrow> string \<Rightarrow> bool" where
  "equal_fold a b \<longleftrightarrow> map fold_ascii a = map fold_ascii b"

definition isPiFamilyAgent :: "string option \<Rightarrow> bool" where
  "isPiFamilyAgent agent =
     (case agent of None \<Rightarrow> False | Some a \<Rightarrow> equal_fold a ''pi'' \<or> equal_fold a ''pig'')"

definition agentSessionRefFrom :: "(string \<times> jval) list \<Rightarrow> AgentSessionRef option" where
  "agentSessionRefFrom kvs =
     (case as_string (map_of kvs ''agent'') of None \<Rightarrow> None
      | Some agent \<Rightarrow> (case as_string (map_of kvs ''kind'') of None \<Rightarrow> None
        | Some kind \<Rightarrow>
          if kind \<noteq> ''id'' \<and> kind \<noteq> ''path'' then None
          else (case as_string (map_of kvs ''source'') of None \<Rightarrow> None
            | Some source \<Rightarrow> (case as_string (map_of kvs ''value'') of None \<Rightarrow> None
              | Some value \<Rightarrow> Some \<lparr>sr_Agent = agent,
                  sr_Kind = (if kind = ''id'' then SessionRefID else SessionRefPath),
                  sr_Source = source, sr_Value = value\<rparr>))))"

definition encode_session_ref :: "AgentSessionRef \<Rightarrow> jval" where
  "encode_session_ref ref =
     JObj [(''agent'', JStr (sr_Agent ref)),
       (''kind'', JStr (case sr_Kind ref of SessionRefID \<Rightarrow> ''id'' | SessionRefPath \<Rightarrow> ''path'')),
       (''source'', JStr (sr_Source ref)), (''value'', JStr (sr_Value ref))]"

fun agentSessionJSON :: "jval option \<Rightarrow> jval option" where
  "agentSessionJSON (Some (JObj kvs)) = map_option encode_session_ref (agentSessionRefFrom kvs)"
| "agentSessionJSON _ = None"

fun parseAgentSession :: "jval option \<Rightarrow> AgentSessionRef option" where
  "parseAgentSession (Some (JObj kvs)) = agentSessionRefFrom kvs"
| "parseAgentSession _ = None"

text \<open>The reported reference wins; the hint counts only when stored for a compatible kind.\<close>

definition mapAgent :: "agentRow \<Rightarrow> AgentIndexRecord" where
  "mapAgent row =
     (let reported = parseAgentSession (g_agentSession row);
          compatibleHint = (case parseAgentSession (g_agentSessionHint row) of None \<Rightarrow> None
            | Some hint \<Rightarrow>
              if (case g_agent row of Some a \<Rightarrow> equal_fold a (sr_Agent hint) | None \<Rightarrow> False)
                \<or> (isPiFamilyAgent (g_agent row) \<and> isPiFamilyAgent (Some (sr_Agent hint)))
              then Some hint else None)
      in \<lparr>a_Agent = g_agent row,
          a_AgentSession = (case reported of None \<Rightarrow> compatibleHint | Some ref \<Rightarrow> Some ref),
          a_AgentStatus = g_agentStatus row, a_Cwd = g_cwd row, a_FirstSeenAt = g_firstSeenAtMs row,
          a_Focused = (g_focused row \<noteq> 0), a_ForegroundCwd = g_foregroundCwd row,
          a_HerdrSessionName = g_herdrSessionName row, a_ID = g_id row,
          a_LastSeenAt = g_lastSeenAtMs row, a_Name = g_name row, a_PaneID = g_paneID row,
          a_TerminalTitle = None, a_PaneRevision = g_paneRevision row,
          a_PaneGeneration = g_paneGeneration row, a_TabID = g_tabID row,
          a_TerminalID = g_terminalID row, a_WorkspaceID = g_workspaceID row\<rparr>)"

text \<open>\<open>record\<close>: the mapped agent with the terminal title the last scan reported.\<close>

definition agent_record :: "agentRow \<Rightarrow> AgentIndexRecord op" where
  "agent_record row =
     read_act (\<lambda>w. (mapAgent row)\<lparr>a_TerminalTitle := map_of (w_terminalTitles w) (g_id row)\<rparr>)"

definition setTerminalTitle :: "string \<Rightarrow> string option \<Rightarrow> unit op" where
  "setTerminalTitle agentID title =
     modify_act (\<lambda>w. w\<lparr>w_terminalTitles :=
       (case title of None \<Rightarrow> [] | Some t \<Rightarrow> [(agentID, t)])
         @ filter (\<lambda>(k, _). k \<noteq> agentID) (w_terminalTitles w)\<rparr>)"

definition deleteTerminalTitle :: "string \<Rightarrow> unit op" where
  "deleteTerminalTitle agentID =
     modify_act (\<lambda>w. w\<lparr>w_terminalTitles := filter (\<lambda>(k, _). k \<noteq> agentID) (w_terminalTitles w)\<rparr>)"

subsection \<open>Statements\<close>

text \<open>The constraints on the table: primary key, the two unique indexes, the session reference.\<close>

definition agents_constraints :: "tables \<Rightarrow> bool" where
  "agents_constraints t \<longleftrightarrow>
     distinct (map g_id (agents t))
     \<and> distinct (map (\<lambda>g. (g_herdrSessionName g, g_paneID g)) (agents t))
     \<and> distinct (map (\<lambda>g. (g_herdrSessionName g, g_terminalID g))
          (filter (\<lambda>g. g_terminalID g \<noteq> None) (agents t)))
     \<and> (\<forall>g \<in> set (agents t). \<exists>h \<in> set (herdr_sessions t). h_name h = g_herdrSessionName g)"

definition checked :: "'a \<Rightarrow> tables \<Rightarrow> go_error + 'a \<times> tables" where
  "checked a t = (if agents_constraints t then Inr (a, t) else Inl ErrConstraint)"

definition update_agents ::
    "(agentRow \<Rightarrow> bool) \<Rightarrow> (agentRow \<Rightarrow> agentRow) \<Rightarrow> tables \<Rightarrow> go_error + int \<times> tables" where
  "update_agents p f t =
     checked (count_where p (agents t)) (t\<lparr>agents := update_where p f (agents t)\<rparr>)"

definition insert_agent :: "agentRow \<Rightarrow> tables \<Rightarrow> go_error + unit \<times> tables" where
  "insert_agent row t = checked () (t\<lparr>agents := agents t @ [row]\<rparr>)"

definition delete_agents :: "(agentRow \<Rightarrow> bool) \<Rightarrow> tables \<Rightarrow> int \<times> tables" where
  "delete_agents p t =
     (let gone = map g_id (filter p (agents t))
      in (count_where p (agents t),
          t\<lparr>agents := delete_where p (agents t),
            agent_events := update_where
              (\<lambda>r. case r_agentID r of None \<Rightarrow> False | Some a \<Rightarrow> a \<in> set gone)
              (\<lambda>r. r\<lparr>r_agentID := None\<rparr>) (agent_events t),
            agent_context_snapshots := delete_where (\<lambda>n. n_agentID n \<in> set gone) (agent_context_snapshots t)\<rparr>))"

definition delete_snapshots :: "string list \<Rightarrow> tables \<Rightarrow> int \<times> tables" where
  "delete_snapshots ids t =
     (count_where (\<lambda>n. n_agentID n \<in> set ids) (agent_context_snapshots t),
      t\<lparr>agent_context_snapshots := delete_where (\<lambda>n. n_agentID n \<in> set ids) (agent_context_snapshots t)\<rparr>)"

definition delete_tombstones :: "(tombstoneRow \<Rightarrow> bool) \<Rightarrow> tables \<Rightarrow> int \<times> tables" where
  "delete_tombstones p t =
     (count_where p (agent_pane_tombstones t),
      t\<lparr>agent_pane_tombstones := delete_where p (agent_pane_tombstones t)\<rparr>)"

definition insert_tombstone :: "tombstoneRow \<Rightarrow> tables \<Rightarrow> go_error + unit \<times> tables" where
  "insert_tombstone row t =
     (if \<forall>h \<in> set (herdr_sessions t). h_name h \<noteq> t_herdrSessionName row then Inl ErrConstraint
      else Inr ((), t\<lparr>agent_pane_tombstones := agent_pane_tombstones t @ [row]\<rparr>))"

text \<open>\<open>agentGenerationClause\<close>: without a generation the clause is absent.\<close>

definition agentGenerationClause :: "string option \<Rightarrow> agentRow \<Rightarrow> bool" where
  "agentGenerationClause paneGeneration g =
     (case paneGeneration of None \<Rightarrow> True | Some gen \<Rightarrow> g_paneGeneration g = Some gen)"

definition agent_in_pane :: "string \<Rightarrow> string \<Rightarrow> string option \<Rightarrow> agentRow \<Rightarrow> bool" where
  "agent_in_pane herdrSessionName paneID paneGeneration g \<longleftrightarrow>
     g_herdrSessionName g = herdrSessionName \<and> g_paneID g = paneID
     \<and> agentGenerationClause paneGeneration g"

subsection \<open>Lookups\<close>

definition one_agent :: "(agentRow \<Rightarrow> bool) \<Rightarrow> AgentIndexRecord option op" where
  "one_agent p =
     bind_act (query_sql (\<lambda>t. find p (agents t))) (\<lambda>row. case row of
         None \<Rightarrow> return_act None
       | Some r \<Rightarrow> bind_act (agent_record r) (\<lambda>a. return_act (Some a)))"

definition FindByPane :: "string \<Rightarrow> string option \<Rightarrow> string \<Rightarrow> AgentIndexRecord option op" where
  "FindByPane herdrSessionName paneGeneration paneID =
     one_agent (agent_in_pane herdrSessionName paneID paneGeneration)"

definition FindByTerminal :: "string \<Rightarrow> string \<Rightarrow> AgentIndexRecord option op" where
  "FindByTerminal herdrSessionName terminalID =
     one_agent (\<lambda>g. g_herdrSessionName g = herdrSessionName \<and> g_terminalID g = Some terminalID)"

definition agent_Get :: "string \<Rightarrow> AgentIndexRecord op" where
  "agent_Get agentID =
     bind_act (one_agent (\<lambda>g. g_id g = agentID)) (\<lambda>a. case a of
         None \<Rightarrow> fail_act (ErrText (''Agent not found: '' @ agentID))
       | Some record \<Rightarrow> return_act record)"

definition agent_Exists :: "string \<Rightarrow> bool op" where
  "agent_Exists agentID = query_sql (\<lambda>t. \<exists>g \<in> set (agents t). g_id g = agentID)"

definition List_agents :: "AgentQueryScope \<Rightarrow> AgentIndexRecord list op" where
  "List_agents scope =
     query_sql (\<lambda>t. map mapAgent
       (sort_key (\<lambda>g. (g_herdrSessionName g, g_workspaceID g, g_paneID g))
         (filter (\<lambda>g. (\<exists>h \<in> set (herdr_sessions t). h_name h = g_herdrSessionName g \<and> h_running h = 1)
            \<and> optional_clause (q_HerdrSessionName scope) (\<lambda>v. g_herdrSessionName g = v)
            \<and> (q_All scope = Some True
               \<or> optional_clause (q_WorkspaceID scope) (\<lambda>v. g_workspaceID g = v))) (agents t))))"

definition ListForHerdrSession :: "string \<Rightarrow> AgentIndexRecord list op" where
  "ListForHerdrSession herdrSessionName =
     List_agents \<lparr>q_All = None, q_HerdrSessionName = Some herdrSessionName, q_WorkspaceID = None\<rparr>"

text \<open>
  \<open>ResolveTarget\<close>: by pane, terminal or id first, then by name, then by agent kind; the first
  group that matches decides, and must match once. The candidate list of the error's text is left
  out.
\<close>

fun resolve_groups :: "string \<Rightarrow> AgentIndexRecord list list \<Rightarrow> AgentIndexRecord op" where
  "resolve_groups target [] = fail_act (ErrText (''agent target not found: '' @ target))"
| "resolve_groups target (candidates # groups) =
     (case candidates of [] \<Rightarrow> resolve_groups target groups
      | [agent] \<Rightarrow> return_act agent
      | _ \<Rightarrow> fail_act (ErrText (''agent target '' @ target @ '' is ambiguous'')))"

definition ResolveTarget :: "AgentQueryScope \<Rightarrow> string \<Rightarrow> AgentIndexRecord op" where
  "ResolveTarget scope target =
     bind_act (List_agents scope) (\<lambda>all.
       resolve_groups target
         [filter (\<lambda>a. a_PaneID a = target \<or> a_TerminalID a = Some target \<or> a_ID a = target) all,
          filter (\<lambda>a. a_Name a = Some target) all,
          filter (\<lambda>a. a_Agent a = Some target) all])"

subsection \<open>Tombstones\<close>

definition tomb_of :: "string \<Rightarrow> string \<Rightarrow> tombstoneRow \<Rightarrow> bool" where
  "tomb_of herdrSessionName paneID b \<longleftrightarrow> t_herdrSessionName b = herdrSessionName \<and> t_paneID b = paneID"

definition MarkPaneClosed :: "string \<Rightarrow> string option \<Rightarrow> string \<Rightarrow> unit op" where
  "MarkPaneClosed herdrSessionName paneGeneration paneID =
     bind_act (change_sql (delete_tombstones
       (\<lambda>b. tomb_of herdrSessionName paneID b \<and> t_paneGeneration b = paneGeneration))) (\<lambda>_.
     bind_act wall_clock (\<lambda>now.
       exec_sql (insert_tombstone \<lparr>t_closedAt = now, t_herdrSessionName = herdrSessionName,
         t_paneGeneration = paneGeneration, t_paneID = paneID\<rparr>)))"

definition PaneClosedAt :: "string \<Rightarrow> string option \<Rightarrow> string \<Rightarrow> int option op" where
  "PaneClosedAt herdrSessionName paneGeneration paneID =
     query_sql (\<lambda>t. let closed = map t_closedAt (filter (\<lambda>b. tomb_of herdrSessionName paneID b
         \<and> (t_paneGeneration b = paneGeneration \<or> t_paneGeneration b = None)) (agent_pane_tombstones t))
       in if closed = [] then None else Some (Max (set closed)))"

definition IsPaneClosed :: "string \<Rightarrow> string option \<Rightarrow> string \<Rightarrow> bool op" where
  "IsPaneClosed herdrSessionName paneGeneration paneID =
     bind_act (PaneClosedAt herdrSessionName paneGeneration paneID) (\<lambda>closedAt.
       return_act (case closedAt of None \<Rightarrow> False | Some c \<Rightarrow> 0 \<le> c))"

definition IsPaneClosedSince :: "string \<Rightarrow> string option \<Rightarrow> string \<Rightarrow> int \<Rightarrow> bool op" where
  "IsPaneClosedSince herdrSessionName paneGeneration paneID sinceMs =
     (case paneGeneration of
        Some g \<Rightarrow> IsPaneClosed herdrSessionName (Some g) paneID
      | None \<Rightarrow> query_sql (\<lambda>t. \<exists>b \<in> set (agent_pane_tombstones t). tomb_of herdrSessionName paneID b
          \<and> (t_paneGeneration b = None \<or> sinceMs \<le> t_closedAt b)))"

definition ClearLegacyPaneTombstone :: "string \<Rightarrow> string \<Rightarrow> unit op" where
  "ClearLegacyPaneTombstone herdrSessionName paneID =
     bind_act (change_sql (delete_tombstones
       (\<lambda>b. tomb_of herdrSessionName paneID b \<and> t_paneGeneration b = None))) (\<lambda>_. return_act ())"

definition HasGenerationScopedTombstone :: "string \<Rightarrow> string \<Rightarrow> string \<Rightarrow> bool op" where
  "HasGenerationScopedTombstone herdrSessionName paneGeneration paneID =
     query_sql (\<lambda>t. \<exists>b \<in> set (agent_pane_tombstones t).
       tomb_of herdrSessionName paneID b \<and> t_paneGeneration b = Some paneGeneration)"

definition retirePaneCore :: "string \<Rightarrow> string option \<Rightarrow> string \<Rightarrow> AgentIndexRecord list op" where
  "retirePaneCore herdrSessionName paneGeneration paneID =
     bind_act (MarkPaneClosed herdrSessionName paneGeneration paneID) (\<lambda>_.
     bind_act (query_sql (\<lambda>t. filter (agent_in_pane herdrSessionName paneID paneGeneration) (agents t)))
       (\<lambda>rows.
     if rows = [] then return_act []
     else
       bind_act (for_each rows (\<lambda>row. deleteTerminalTitle (g_id row))) (\<lambda>_.
       bind_act (change_sql (delete_snapshots (map g_id rows))) (\<lambda>_.
       bind_act (change_sql (delete_agents (agent_in_pane herdrSessionName paneID paneGeneration))) (\<lambda>_.
       collect rows agent_record)))))"

definition RetirePane :: "string \<Rightarrow> string option \<Rightarrow> string \<Rightarrow> AgentIndexRecord list op" where
  "RetirePane herdrSessionName paneGeneration paneID =
     RunSqliteTransaction (retirePaneCore herdrSessionName paneGeneration paneID)"

subsection \<open>Status and session hints\<close>

definition UpdateStatus ::
    "AgentStatus \<Rightarrow> string \<Rightarrow> string option \<Rightarrow> string \<Rightarrow> AgentIndexRecord option op" where
  "UpdateStatus agentStatus herdrSessionName paneGeneration paneID =
     bind_act wall_clock (\<lambda>now.
     bind_act (exec_sql (update_agents (agent_in_pane herdrSessionName paneID paneGeneration)
       (\<lambda>g. g\<lparr>g_agentStatus := agentStatus, g_lastSeenAtMs := now\<rparr>))) (\<lambda>_.
     FindByPane herdrSessionName paneGeneration paneID))"

definition SetSessionRefByTerminal ::
    "AgentSessionRef \<Rightarrow> string \<Rightarrow> string \<Rightarrow> AgentIndexRecord option op" where
  "SetSessionRefByTerminal ref herdrSessionName terminalID =
     bind_act (FindByTerminal herdrSessionName terminalID) (\<lambda>current. case current of
         None \<Rightarrow> return_act None
       | Some cur \<Rightarrow>
         let compatible = (case a_Agent cur of Some a \<Rightarrow> equal_fold a (sr_Agent ref) | None \<Rightarrow> False)
               \<or> (isPiFamilyAgent (a_Agent cur) \<and> isPiFamilyAgent (Some (sr_Agent ref)))
         in bind_act (exec_sql (update_agents
              (\<lambda>g. g_herdrSessionName g = herdrSessionName \<and> g_terminalID g = Some terminalID)
              (\<lambda>g. g\<lparr>g_agentSessionHint := (if compatible then Some (encode_session_ref ref) else None)\<rparr>)))
            (\<lambda>_. FindByTerminal herdrSessionName terminalID))"

subsection \<open>Reconciling the index with a scan\<close>

type_synonym HerdrAgentLike = "(string \<times> jval) list"

text \<open>\<open>stringValue\<close>: only a non-empty string counts.\<close>

definition stringValue :: "jval option \<Rightarrow> string option" where
  "stringValue v = (case as_string v of None \<Rightarrow> None | Some text \<Rightarrow> if text = [] then None else Some text)"

definition stringValueOr :: "jval option \<Rightarrow> AgentStatus \<Rightarrow> string" where
  "stringValueOr v fallback =
     (case as_string v of None \<Rightarrow> agent_status_text fallback | Some text \<Rightarrow> text)"

fun integerValue :: "jval option \<Rightarrow> int option" where
  "integerValue (Some (JNum q)) =
     (if of_int \<lfloor>q\<rfloor> = q \<and> 0 \<le> q \<and> q < 2 ^ 63 then Some \<lfloor>q\<rfloor> else None)"
| "integerValue _ = None"

fun first_some :: "'a option list \<Rightarrow> 'a option" where
  "first_some [] = None"
| "first_some (None # vs) = first_some vs"
| "first_some (Some v # vs) = Some v"

text \<open>The first of the four reported spellings that is a non-empty string.\<close>

definition paneGeneration :: "HerdrAgentLike \<Rightarrow> string option" where
  "paneGeneration agent =
     first_some (map (\<lambda>key. stringValue (map_of agent key))
       [''pane_generation'', ''paneGeneration'', ''creation_id'', ''creationId''])"

record agentSnapshot =
  sn_agent :: HerdrAgentLike
  sn_paneID :: string
  sn_terminalID :: "string option"
  sn_workspaceID :: string

fun agent_snapshots :: "HerdrAgentLike list \<Rightarrow> agentSnapshot list" where
  "agent_snapshots [] = []"
| "agent_snapshots (agent # rest) =
     (case (stringValue (map_of agent ''pane_id''), stringValue (map_of agent ''workspace_id'')) of
        (Some pane, Some workspace) \<Rightarrow>
          \<lparr>sn_agent = agent, sn_paneID = pane, sn_terminalID = stringValue (map_of agent ''terminal_id''),
           sn_workspaceID = workspace\<rparr> # agent_snapshots rest
      | _ \<Rightarrow> agent_snapshots rest)"

text \<open>\<open>byPane\<close> and \<open>byTerminal\<close>: a later row with the same key replaces an earlier one.\<close>

definition byPane :: "agentRow list \<Rightarrow> string \<Rightarrow> agentRow option" where
  "byPane existing pane = find (\<lambda>g. g_paneID g = pane) (rev existing)"

definition byTerminal :: "agentRow list \<Rightarrow> string \<Rightarrow> agentRow option" where
  "byTerminal existing terminal = find (\<lambda>g. g_terminalID g = Some terminal) (rev existing)"

text \<open>Which indexed agent a reported one is: the terminal decides, a pane only as a fallback.\<close>

definition match_current :: "agentRow list \<Rightarrow> agentSnapshot \<Rightarrow> agentRow option" where
  "match_current existing snapshot =
     (let terminalMatch = (case sn_terminalID snapshot of None \<Rightarrow> None | Some t \<Rightarrow> byTerminal existing t);
          paneMatch = byPane existing (sn_paneID snapshot);
          incoming = paneGeneration (sn_agent snapshot);
          canUsePaneFallback = (case paneMatch of None \<Rightarrow> False
            | Some g \<Rightarrow> sn_terminalID snapshot = None \<or> g_terminalID g = None);
          generationMatches = (case (incoming, paneMatch) of
              (Some gen, Some g) \<Rightarrow> g_paneGeneration g = None \<or> g_paneGeneration g = Some gen
            | _ \<Rightarrow> True)
      in case terminalMatch of Some g \<Rightarrow> Some g
         | None \<Rightarrow> if generationMatches \<and> canUsePaneFallback then paneMatch else None)"

definition mark_once :: "string \<Rightarrow> string list \<Rightarrow> string list" where
  "mark_once i order = (if i \<in> set order then order else order @ [i])"

text \<open>The agents parked on a temporary pane id so that moves never collide on the pane index.\<close>

fun temporary_ids ::
    "agentRow list \<Rightarrow> (agentRow option \<times> agentSnapshot) list \<Rightarrow> string list \<Rightarrow> string list" where
  "temporary_ids existing [] order = order"
| "temporary_ids existing ((current, snapshot) # rest) order =
     (let order1 = (case current of
            Some g \<Rightarrow> if g_paneID g \<noteq> sn_paneID snapshot then mark_once (g_id g) order else order
          | None \<Rightarrow> order);
          order2 = (case byPane existing (sn_paneID snapshot) of
            Some occupant \<Rightarrow>
              if (case current of None \<Rightarrow> True | Some g \<Rightarrow> g_id occupant \<noteq> g_id g)
              then mark_once (g_id occupant) order1 else order1
          | None \<Rightarrow> order1)
      in temporary_ids existing rest order2)"

definition newUUID :: "string op" where
  "newUUID w = (Inr (w_uuids w (w_uuidsDrawn w)), w\<lparr>w_uuidsDrawn := Suc (w_uuidsDrawn w)\<rparr>)"

text \<open>The row a matched agent is written as.\<close>

definition placed_row :: "int \<Rightarrow> agentRow option \<Rightarrow> agentSnapshot \<Rightarrow> agentRow \<Rightarrow> agentRow" where
  "placed_row now current snapshot g =
     (let reported = sn_agent snapshot; agent = stringValue (map_of reported ''agent'')
      in g\<lparr>g_paneID := sn_paneID snapshot, g_terminalID := sn_terminalID snapshot,
           g_tabID := stringValue (map_of reported ''tab_id''), g_workspaceID := sn_workspaceID snapshot,
           g_agent := agent, g_name := stringValue (map_of reported ''name''),
           g_agentStatus := ParseAgentStatus (stringValueOr (map_of reported ''agent_status'') AgentStatusUnknown),
           g_agentSession := agentSessionJSON (map_of reported ''agent_session''),
           g_agentSessionHint := (case current of None \<Rightarrow> None
             | Some c \<Rightarrow> if g_agent c = agent \<or> (isPiFamilyAgent (g_agent c) \<and> isPiFamilyAgent agent)
                 then g_agentSessionHint c else None),
           g_paneRevision := integerValue (map_of reported ''revision''),
           g_paneGeneration := (case paneGeneration reported of Some gen \<Rightarrow> Some gen
             | None \<Rightarrow> (case current of None \<Rightarrow> None | Some c \<Rightarrow> g_paneGeneration c)),
           g_grokHome := None, g_cwd := stringValue (map_of reported ''cwd''),
           g_foregroundCwd := stringValue (map_of reported ''foreground_cwd''),
           g_focused := (if map_of reported ''focused'' = Some (JBool True) then 1 else 0),
           g_lastSeenAtMs := now\<rparr>)"

definition blank_agent :: "string \<Rightarrow> string \<Rightarrow> int \<Rightarrow> agentRow" where
  "blank_agent herdrSessionName agentID now =
     \<lparr>g_agent = None, g_agentSessionHint = None, g_agentSession = None,
      g_agentStatus = AgentStatusUnknown, g_cwd = None, g_firstSeenAtMs = now, g_focused = 0,
      g_foregroundCwd = None, g_herdrSessionName = herdrSessionName, g_id = agentID,
      g_lastSeenAtMs = now, g_name = None, g_paneID = [], g_paneRevision = None,
      g_paneGeneration = None, g_grokHome = None, g_tabID = None, g_terminalID = None,
      g_workspaceID = []\<rparr>"

definition place_agent :: "int \<Rightarrow> string \<Rightarrow> agentRow option \<times> agentSnapshot \<Rightarrow> string op" where
  "place_agent now herdrSessionName entry =
     (case entry of (current, snapshot) \<Rightarrow>
       bind_act newUUID (\<lambda>uuid.
       let agentID = (case current of None \<Rightarrow> ''ag_'' @ uuid | Some c \<Rightarrow> g_id c)
       in bind_act (setTerminalTitle agentID (stringValue (map_of (sn_agent snapshot) ''terminal_title''))) (\<lambda>_.
          bind_act
            (case current of
               Some c \<Rightarrow> bind_act (exec_sql (update_agents (\<lambda>g. g_id g = agentID) (placed_row now current snapshot)))
                 (\<lambda>_. return_act ())
             | None \<Rightarrow> exec_sql (insert_agent
                 (placed_row now None snapshot (blank_agent herdrSessionName agentID now))))
            (\<lambda>_. return_act agentID))))"

definition replaceCore :: "int \<Rightarrow> string \<Rightarrow> agentSnapshot list \<Rightarrow> AgentIndexRecord list op" where
  "replaceCore now herdrSessionName snapshots =
     bind_act (query_sql (\<lambda>t. filter (\<lambda>g. g_herdrSessionName g = herdrSessionName) (agents t))) (\<lambda>existing.
     let matched = map (\<lambda>snapshot. (match_current existing snapshot, snapshot)) snapshots in
     bind_act (for_each (temporary_ids existing matched []) (\<lambda>i.
       bind_act (exec_sql (update_agents (\<lambda>g. g_id g = i)
         (\<lambda>g. g\<lparr>g_paneID := ''__herdsman_moving__:'' @ i\<rparr>))) (\<lambda>_. return_act ()))) (\<lambda>_.
     bind_act (collect matched (place_agent now herdrSessionName)) (\<lambda>retainedIDs.
     bind_act (for_each matched (\<lambda>(_, snapshot).
       ClearLegacyPaneTombstone herdrSessionName (sn_paneID snapshot))) (\<lambda>_.
     let removed = filter (\<lambda>g. g_id g \<notin> set retainedIDs) existing in
     bind_act (for_each removed (\<lambda>g. deleteTerminalTitle (g_id g))) (\<lambda>_.
     bind_act (for_each removed (\<lambda>g. InvalidatePaneDirect
       \<lparr>v_AcknowledgeDelivered = None, v_HerdrSessionName = herdrSessionName, v_InvalidatedReason = None,
        v_PaneGeneration = g_paneGeneration g, v_PaneID = g_paneID g\<rparr>)) (\<lambda>_.
     bind_act (if removed = [] then return_act 0
       else change_sql (delete_snapshots (map g_id removed))) (\<lambda>_.
     bind_act (change_sql (delete_agents (\<lambda>g. g_herdrSessionName g = herdrSessionName
         \<and> (retainedIDs = [] \<or> g_id g \<notin> set retainedIDs)))) (\<lambda>_.
     ListForHerdrSession herdrSessionName))))))))"

definition ReplaceForSession :: "string \<Rightarrow> HerdrAgentLike list \<Rightarrow> AgentIndexRecord list op" where
  "ReplaceForSession herdrSessionName reported =
     bind_act wall_clock (\<lambda>now.
       RunSqliteTransaction (replaceCore now herdrSessionName (agent_snapshots reported)))"

end
