(* ===== verification/AgentContract.thy ===== *)
theory AgentContract
  imports AgentStore EventLifecycle
begin

text \<open>
  What the agent index keeps: the constraints of its table and the references into it
  (\<open>index_ok\<close>), together with the life cycle of the events, which retiring and replacing agents
  invalidate. The discipline of the event store is interpreted a third time, with the index
  invariant added, so that the calls into the event store are covered by the lemmas proved there.
\<close>

subsection \<open>The index invariant\<close>

definition index_ok :: "tables \<Rightarrow> bool" where
  "index_ok t \<longleftrightarrow> agents_constraints t
     \<and> (\<forall>r \<in> set (agent_events t). \<forall>a. r_agentID r = Some a \<longrightarrow> a \<in> g_id ` set (agents t))
     \<and> (\<forall>n \<in> set (agent_context_snapshots t). n_agentID n \<in> g_id ` set (agents t))"

text \<open>The plans and the scopes are tables neither store writes.\<close>

definition plans_and_scopes :: "tables \<Rightarrow> statusEventPlanRow list \<times> int \<times> scopeRow list" where
  "plans_and_scopes t = (status_event_plans t, status_event_plans_seq t, agent_orchestrator_scopes t)"

definition index_evolve :: "tables \<Rightarrow> tables \<Rightarrow> bool" where
  "index_evolve t t' \<longleftrightarrow> events_evolve t t' \<and> (index_ok t \<longrightarrow> index_ok t')
     \<and> plans_and_scopes t' = plans_and_scopes t"

lemma others_plans_and_scopes: "others_kept t t' \<Longrightarrow> plans_and_scopes t' = plans_and_scopes t"
  by (simp add: others_kept_def plans_and_scopes_def)

lemma constraints_cong:
  "agents u = agents t \<Longrightarrow> herdr_sessions u = herdr_sessions t \<Longrightarrow>
    agents_constraints u = agents_constraints t"
  by (simp add: agents_constraints_def)

lemma index_ok_events:
  assumes "index_ok t" and "agents u = agents t" "herdr_sessions u = herdr_sessions t"
    "agent_context_snapshots u = agent_context_snapshots t"
    and "\<And>r a. r \<in> set (agent_events u) \<Longrightarrow> r_agentID r = Some a \<Longrightarrow> a \<in> g_id ` set (agents t)"
  shows "index_ok u"
  using assms constraints_cong [of u t] by (auto simp: index_ok_def)

lemma row_step_agent: "row_step r r' \<Longrightarrow> r_agentID r' = Some a \<Longrightarrow> r_agentID r = Some a"
  by (auto simp: row_step_def same_facts_def)

interpretation idx: event_discipline index_evolve
proof
  fix t u v :: tables
  assume "index_evolve t u" "index_evolve u v"
  then show "index_evolve t v" unfolding index_evolve_def by (metis events_evolve_trans)
next
  fix t :: tables
  show "index_evolve t t" by (simp add: index_evolve_def life.refl_Q)
next
  fix t :: tables and key val
  assume "events_ok t"
  then show "index_evolve t (snd (put_meta key val t))"
    using life.Q_meta [of t key val]
    by (auto simp: index_evolve_def put_meta_def index_ok_def agents_constraints_def plans_and_scopes_def)
next
  fix t :: tables and p f
  assume ok: "events_ok t" and step: "\<And>r. r \<in> set (agent_events t) \<Longrightarrow> p r \<Longrightarrow> row_step r (f r)"
  have "index_ok (snd (update_events p f t))" if index: "index_ok t"
    by (intro index_ok_events [OF index])
      (use index row_step_agent [OF step] in
        \<open>fastforce simp: update_events_eq set_update_where index_ok_def split: if_splits\<close>)+
  with life.Q_update [OF ok step] frame.Q_update [OF ok step]
  show "index_evolve t (snd (update_events p f t))"
    by (simp add: index_evolve_def others_plans_and_scopes)
next
  fix t :: tables and p
  assume ok: "events_ok t"
  have "index_ok (snd (delete_events p t))" if index: "index_ok t"
    using index by (intro index_ok_events [OF index]) (auto simp: delete_events_def index_ok_def)
  with life.Q_delete [OF ok] frame.Q_delete [OF ok] show "index_evolve t (snd (delete_events p t))"
    by (simp add: index_evolve_def others_plans_and_scopes)
next
  fix t u :: tables and input agentID now eventID
  assume ok: "events_ok t" and ins: "insert_event (appended_row input agentID now) t = Inr (eventID, u)"
  have "index_ok u" if index: "index_ok t"
    using index insert_event_InrD(2) [OF ins] ins
    by (intro index_ok_events [OF index])
      (auto simp: index_ok_def insert_event_def image_iff split: if_splits)
  with life.Q_insert [OF ok ins] frame.Q_insert [OF ok ins] show "index_evolve t u"
    by (simp add: index_evolve_def others_plans_and_scopes)
qed

abbreviation "index_moves \<equiv> guarded events_ok index_evolve"

subsection \<open>The statements of the index\<close>

lemma distinct_map_subfilter:
  "distinct (map f (filter P xs)) \<Longrightarrow> distinct (map f (filter (\<lambda>x. \<not> Q x \<and> P x) xs))"
  "distinct (map f (filter P xs)) \<Longrightarrow> distinct (map f (filter (\<lambda>x. P x \<and> \<not> Q x) xs))"
  by (induction xs) (auto split: if_splits)

text \<open>A statement that leaves the events alone is good if it keeps the index invariant.\<close>

lemma index_movesI:
  assumes "agent_events u = agent_events t" "agent_events_seq u = agent_events_seq t"
    and "index_ok t \<Longrightarrow> index_ok u" and "plans_and_scopes u = plans_and_scopes t"
  shows "index_moves t u"
  using assms by (auto simp: guarded_def index_evolve_def events_evolve_def events_ok_def)

lemma moves_update_agents:
  assumes "\<And>g. g_id (f g) = g_id g"
  shows "moves (inside index_moves) (exec_sql (update_agents p f))"
proof (rule idx.grd.moves_exec, rule index_movesI)
  fix t a u
  assume "update_agents p f t = Inr (a, u)"
  then have u: "u = t\<lparr>agents := update_where p f (agents t)\<rparr>" and c: "agents_constraints u"
    by (auto simp: update_agents_def checked_def split: if_splits)
  show "agent_events u = agent_events t" "agent_events_seq u = agent_events_seq t" by (simp_all add: u)
  have "g_id ` set (agents u) = g_id ` set (agents t)"
    using arg_cong [OF map_update_where [of g_id f p "agents t", OF assms], of set] by (simp add: u)
  then show "index_ok t \<Longrightarrow> index_ok u" using c by (auto simp: index_ok_def u)
qed (auto simp: update_agents_def checked_def plans_and_scopes_def split: if_splits)

lemma moves_insert_agent: "moves (inside index_moves) (exec_sql (insert_agent row))"
  by (rule idx.grd.moves_exec, rule index_movesI)
    (auto simp: insert_agent_def checked_def index_ok_def plans_and_scopes_def split: if_splits)

lemma moves_tombstone:
  "moves (inside index_moves) (exec_sql (insert_tombstone row))"
  "moves (inside index_moves) (change_sql (delete_tombstones p))"
  by (rule idx.grd.moves_exec, rule index_movesI;
      auto simp: insert_tombstone_def index_ok_def agents_constraints_def plans_and_scopes_def split: if_splits)
    (rule idx.grd.moves_change, rule index_movesI;
      auto simp: delete_tombstones_def index_ok_def agents_constraints_def plans_and_scopes_def)

lemma moves_delete_snapshots: "moves (inside index_moves) (change_sql (delete_snapshots ids))"
  by (rule idx.grd.moves_change, rule index_movesI)
    (auto simp: delete_snapshots_def index_ok_def agents_constraints_def plans_and_scopes_def)

lemma moves_delete_agents: "moves (inside index_moves) (change_sql (delete_agents p))"
proof (rule idx.grd.moves_change, rule guardedI)
  fix t
  assume ok: "events_ok t"
  let ?gone = "set (map g_id (filter p (agents t)))"
  let ?q = "\<lambda>r. case r_agentID r of None \<Rightarrow> False | Some a \<Rightarrow> a \<in> ?gone"
  define u where "u = snd (delete_agents p t)"
  define v where "v = snd (update_events ?q (\<lambda>r. r\<lparr>r_agentID := None\<rparr>) t)"
  have same: "agent_events u = agent_events v" "agent_events_seq u = agent_events_seq v"
    by (simp_all add: u_def v_def delete_agents_def update_events_eq)
  have step: "row_step r (r\<lparr>r_agentID := None\<rparr>)" for r
    by (cases "r_status r") (auto simp: row_step_def same_facts_def row_ok_def)
  have "events_ok v" "events_evolve t v"
    unfolding v_def using events_ok_update [OF ok step] life.Q_update [OF ok step] by blast+
  then have uv: "events_ok u" "events_evolve t u"
    using same by (simp_all add: events_ok_def events_evolve_def)
  have u: "agents u = filter (\<lambda>g. \<not> p g) (agents t)" "herdr_sessions u = herdr_sessions t"
    "agent_context_snapshots u = filter (\<lambda>n. n_agentID n \<notin> ?gone) (agent_context_snapshots t)"
    "agent_events u = update_where ?q (\<lambda>r. r\<lparr>r_agentID := None\<rparr>) (agent_events t)"
    by (simp_all add: u_def delete_agents_def delete_where_def)
  have "index_ok u" if index: "index_ok t"
  proof -
    have "agents_constraints u"
      using index unfolding index_ok_def agents_constraints_def u
      by (auto simp: distinct_map_filter distinct_map_subfilter)
    moreover have kept: "a \<in> g_id ` set (agents u)" if "a \<in> g_id ` set (agents t)" "a \<notin> ?gone" for a
      using that by (auto simp: u)
    moreover have "a \<in> g_id ` set (agents u)"
      if r: "r \<in> set (agent_events u)" "r_agentID r = Some a" for r a
    proof -
      from r obtain r0 where "r0 \<in> set (agent_events t)" "r = (if ?q r0 then r0\<lparr>r_agentID := None\<rparr> else r0)"
        by (auto simp: u(4) set_update_where)
      with r(2) have r0: "r \<in> set (agent_events t)" "\<not> ?q r" by (auto split: if_splits)
      have "a \<in> g_id ` set (agents t)" using index r0(1) r(2) by (auto simp: index_ok_def)
      then show ?thesis by (rule kept) (use r0(2) r(2) in simp)
    qed
    moreover have "n_agentID n \<in> g_id ` set (agents u)" if "n \<in> set (agent_context_snapshots u)" for n
      by (rule kept) (use that index in \<open>auto simp: u(3) index_ok_def\<close>)
    ultimately show ?thesis unfolding index_ok_def by blast
  qed
  with uv show "events_ok (snd (delete_agents p t)) \<and> index_evolve t (snd (delete_agents p t))"
    by (simp add: u_def index_evolve_def plans_and_scopes_def delete_agents_def)
qed

subsection \<open>The operations of the index\<close>

lemma moves_titles [moves_rules]:
  "moves (inside index_moves) (setTerminalTitle agentID title)"
  "moves (inside index_moves) (deleteTerminalTitle agentID)"
  unfolding setTerminalTitle_def deleteTerminalTitle_def
  by (intro idx.moves_clock_field; simp)+

lemma moves_newUUID [moves_rules]: "moves (inside index_moves) newUUID"
  by (rule movesI) (simp add: newUUID_def inside_def idx.grd.refl_Q)

lemma moves_agent_record [moves_rules]: "moves (inside index_moves) (agent_record row)"
  unfolding agent_record_def by (intro moves_rules)

lemma moves_one_agent [moves_rules]: "moves (inside index_moves) (one_agent p)"
  unfolding one_agent_def by (intro moves_rules)

lemma moves_List_agents [moves_rules]: "moves (inside index_moves) (List_agents scope)"
  unfolding List_agents_def by (intro moves_rules)

lemma moves_MarkPaneClosed [moves_rules]: "moves (inside index_moves) (MarkPaneClosed session gen pane)"
  unfolding MarkPaneClosed_def by (intro moves_rules moves_tombstone)

lemma moves_ClearLegacy [moves_rules]: "moves (inside index_moves) (ClearLegacyPaneTombstone session pane)"
  unfolding ClearLegacyPaneTombstone_def by (intro moves_rules moves_tombstone)

lemma moves_retirePaneCore: "moves (inside index_moves) (retirePaneCore session gen pane)"
  unfolding retirePaneCore_def by (intro moves_rules moves_delete_snapshots moves_delete_agents)

lemma moves_UpdateStatus: "moves (inside index_moves) (UpdateStatus status session gen pane)"
  unfolding UpdateStatus_def FindByPane_def by (intro moves_rules moves_update_agents) simp

lemma moves_SetSessionRef: "moves (inside index_moves) (SetSessionRefByTerminal ref session terminal)"
  unfolding SetSessionRefByTerminal_def FindByTerminal_def
  by (intro moves_rules moves_update_agents) simp

lemma moves_place_agent [moves_rules]: "moves (inside index_moves) (place_agent now session entry)"
  unfolding place_agent_def
  by (cases entry) (auto intro!: moves_rules moves_update_agents moves_insert_agent simp: placed_row_def Let_def)

lemma moves_replaceCore: "moves (inside index_moves) (replaceCore now session snapshots)"
  unfolding replaceCore_def InvalidatePaneDirect_def ListForHerdrSession_def
  by (intro moves_rules moves_update_agents moves_delete_snapshots moves_delete_agents
      idx.moves_invalidatePaneCore) (auto intro: moves_rules split: prod.split)

inductive index_step :: "world \<Rightarrow> world \<Rightarrow> bool" where
  events: "store_step w w' \<Longrightarrow> index_step w w'"
| replace: "ReplaceForSession session reported w = (r, w') \<Longrightarrow> index_step w w'"
| retire: "RetirePane session gen pane w = (r, w') \<Longrightarrow> index_step w w'"
| close: "MarkPaneClosed session gen pane w = (r, w') \<Longrightarrow> index_step w w'"
| clear: "ClearLegacyPaneTombstone session pane w = (r, w') \<Longrightarrow> index_step w w'"
| status: "UpdateStatus st session gen pane w = (r, w') \<Longrightarrow> index_step w w'"
| hint: "SetSessionRefByTerminal ref session terminal w = (r, w') \<Longrightarrow> index_step w w'"

lemma index_step_durable:
  assumes "index_step w w'"
  shows "durable index_moves w w'"
  using assms
proof cases
  case events
  then show ?thesis by (rule idx.step_durable)
next
  case (replace session reported r)
  have "moves (durable index_moves) (ReplaceForSession session reported)"
    unfolding ReplaceForSession_def by (intro moves_rules moves_replaceCore)
  with replace show ?thesis by (blast intro: moves_resultD)
next
  case (retire session gen pane r)
  then show ?thesis
    unfolding RetirePane_def by (blast intro: moves_resultD idx.grd.durable_tx moves_retirePaneCore)
qed (blast intro: moves_resultD idx.grd.durable_of_inside moves_MarkPaneClosed moves_ClearLegacy
    moves_UpdateStatus moves_SetSessionRef)+

lemma index_run_durable: "index_step\<^sup>*\<^sup>* w w' \<Longrightarrow> durable index_moves w w'"
  by (induction rule: rtranclp_induct)
    (auto intro: idx.grd.dur.refl_R idx.grd.dur.trans_R index_step_durable)

text \<open>
  the index and the event queue stay consistent together. Along every run of both stores
  (scans, retired panes, status updates, deliveries; any driver failures, crashes) agent ids, panes
  and terminals stay unique per session, every event and context snapshot refers to an agent that
  exists or to none, the event table stays well formed, and no event is changed beyond what the
  life cycle of an event allows, also by a scan that retires the agents it no longer sees.
\<close>

theorem index_invariant:
  assumes run: "index_step\<^sup>*\<^sup>* w w'" and ok: "events_ok (committed w)" "index_ok (committed w)"
  shows "events_ok (committed w') \<and> index_ok (committed w') \<and> events_evolve (committed w) (committed w')"
  using index_run_durable [OF run] ok by (simp add: durable_def guarded_def index_evolve_def)

lemma sample_index_ok: "index_ok (sample_tables [sample_row])"
  by (simp add: index_ok_def agents_constraints_def sample_defs appended_row_def)

theorem index_invariant_witness:
  "index_ok (committed (snd (ReplaceForSession ''s'' [] (sample_world [sample_row]))))"
proof -
  have "index_step\<^sup>*\<^sup>* (sample_world [sample_row]) (snd (ReplaceForSession ''s'' [] (sample_world [sample_row])))"
    by (rule r_into_rtranclp, rule index_step.replace [OF prod.collapse [symmetric]])
  from index_invariant [OF this] show ?thesis by (simp add: sample_events_ok sample_index_ok)
qed

subsection \<open>Retiring a pane\<close>

lemma MarkPaneClosed_InrD:
  assumes "MarkPaneClosed session gen pane w = (Inr u, w')"
  shows "agents (w_tables w') = agents (w_tables w)"
    and "\<lparr>t_closedAt = w_wall w, t_herdrSessionName = session, t_paneGeneration = gen, t_paneID = pane\<rparr>
      \<in> set (agent_pane_tombstones (w_tables w'))"
  using assms unfolding MarkPaneClosed_def
  by (auto elim!: bind_act_InrE simp: change_sql_Inr exec_sql_Inr delete_tombstones_def insert_tombstone_def
      split: if_splits)

lemma titles_InrD:
  "for_each rows (\<lambda>row. deleteTerminalTitle (g_id row)) w = (Inr u, w') \<Longrightarrow> w_tables w' = w_tables w"
  by (induction rows arbitrary: w)
    (auto elim!: bind_act_InrE simp: deleteTerminalTitle_def modify_act_def)

lemma agent_record_InrD: "agent_record r w = (Inr a, w') \<Longrightarrow> w' = w \<and> a_ID a = g_id r"
  by (auto simp: agent_record_def read_act_def mapAgent_def Let_def)

text \<open>
  C11: retiring a pane removes its agents and closes it. After a successful \<open>RetirePane\<close> no agent of the
  pane (of the generation, when one is given) is indexed any more, every other agent is as before, the
  agents returned are the ones removed, and \<open>IsPaneClosed\<close> answers yes for that pane and generation,
  provided the wall clock was not before the epoch and the query itself does not fail.
\<close>

theorem RetirePane_closes:
  assumes run: "RetirePane session gen pane w = (Inr gone, w')"
  shows "agents (w_tables w') = filter (\<lambda>g. \<not> agent_in_pane session pane gen g) (agents (w_tables w))
    \<and> map a_ID gone = map g_id (filter (agent_in_pane session pane gen) (agents (w_tables w)))
    \<and> (w_faults w' = [] \<and> 0 \<le> w_wall w \<longrightarrow> fst (IsPaneClosed session gen pane w') = Inr True)"
proof -
  let ?p = "agent_in_pane session pane gen"
  let ?tomb = "\<lparr>t_closedAt = w_wall w, t_herdrSessionName = session, t_paneGeneration = gen, t_paneID = pane\<rparr>"
  obtain w2 where body: "retirePaneCore session gen pane ((spend_fault w)\<lparr>w_open := Some (w_tables w)\<rparr>) = (Inr gone, w2)"
    and w': "w' = (spend_fault w2)\<lparr>w_open := None\<rparr>"
    using run unfolding RetirePane_def by (rule tx_InrE)
  from body obtain w1 rows v1 where
    mark: "MarkPaneClosed session gen pane ((spend_fault w)\<lparr>w_open := Some (w_tables w)\<rparr>) = (Inr (), w1)" and
    q: "query_sql (\<lambda>t. filter ?p (agents t)) w1 = (Inr rows, v1)" and
    rest: "(if rows = [] then return_act [] else
       bind_act (for_each rows (\<lambda>row. deleteTerminalTitle (g_id row))) (\<lambda>_.
       bind_act (change_sql (delete_snapshots (map g_id rows))) (\<lambda>_.
       bind_act (change_sql (delete_agents ?p)) (\<lambda>_. collect rows agent_record)))) v1 = (Inr gone, w2)"
    unfolding retirePaneCore_def by (auto elim!: bind_act_InrE)
  note m = MarkPaneClosed_InrD [OF mark]
  have v1: "w_tables v1 = w_tables w1" and rows: "rows = filter ?p (agents (w_tables w))"
    using q m(1) by (auto simp: query_sql_Inr)
  have "agents (w_tables w2) = filter (\<lambda>g. \<not> ?p g) (agents (w_tables w)) \<and> map a_ID gone = map g_id rows
    \<and> ?tomb \<in> set (agent_pane_tombstones (w_tables w2))"
  proof (cases "rows = []")
    case True
    then have "filter (\<lambda>g. \<not> ?p g) (agents (w_tables w)) = agents (w_tables w)"
      using rows by (metis (no_types, lifting) filter_True filter_empty_conv)
    with True rest v1 m show ?thesis by (simp add: return_act_def)
  next
    case False
    from rest False obtain u1 n u2 k u3 where
      a: "for_each rows (\<lambda>row. deleteTerminalTitle (g_id row)) v1 = (Inr (), u1)" and
      b: "change_sql (delete_snapshots (map g_id rows)) u1 = (Inr n, u2)" and
      c: "change_sql (delete_agents ?p) u2 = (Inr k, u3)" and
      d: "collect rows agent_record u3 = (Inr gone, w2)"
      by (auto elim!: bind_act_InrE)
    have "w2 = u3 \<and> list_all2 (\<lambda>r a. a_ID a = g_id r) rows gone"
      by (rule collect_reads [OF d]) (auto dest: agent_record_InrD)
    then have "w2 = u3" "map a_ID gone = map g_id rows"
      by (auto simp: list_all2_conv_all_nth intro: nth_equalityI)
    with titles_InrD [OF a] b c v1 m show ?thesis
      by (simp add: change_sql_Inr delete_snapshots_def delete_agents_def Let_def delete_where_def)
  qed
  moreover have "fst (IsPaneClosed session gen pane w') = Inr True"
    if "w_faults w' = []" "0 \<le> w_wall w" "?tomb \<in> set (agent_pane_tombstones (w_tables w'))"
  proof -
    let ?S = "t_closedAt ` {b \<in> set (agent_pane_tombstones (w_tables w')). tomb_of session pane b
      \<and> (t_paneGeneration b = gen \<or> t_paneGeneration b = None)}"
    have "w_wall w \<in> ?S" using that(3) by (force simp: tomb_of_def)
    then have "w_wall w \<le> Max ?S" "?S \<noteq> {}" by (auto intro: Max_ge)
    then show ?thesis
      using that(1,2) by (auto simp: IsPaneClosed_def PaneClosedAt_def query_sql_ok Let_def bind_act_def
        return_act_def image_iff filter_empty_conv)
  qed
  ultimately show ?thesis by (simp add: w' rows)
qed

theorem RetirePane_closes_witness:
  "agents (w_tables (snd (RetirePane ''s'' None ''p'' (sample_world [])))) = []"
proof -
  have "\<exists>gone. fst (RetirePane ''s'' None ''p'' (sample_world [])) = Inr gone"
    by (simp add: RetirePane_def RunSqliteTransaction_def begin_immediate_def commit_tx_def retirePaneCore_def
        MarkPaneClosed_def query_sql_ok change_sql_ok exec_sql_def act_defs delete_tombstones_def
        insert_tombstone_def delete_snapshots_def delete_agents_def deleteTerminalTitle_def agent_record_def
        sample_world_def sample_tables_def sample_agent_def agent_in_pane_def agentGenerationClause_def Let_def)
  then obtain gone where "RetirePane ''s'' None ''p'' (sample_world []) = (Inr gone, snd (RetirePane ''s'' None ''p'' (sample_world [])))"
    by (metis prod.collapse)
  from RetirePane_closes [OF this] show ?thesis
    by (simp add: sample_tables_def sample_agent_def agent_in_pane_def agentGenerationClause_def)
qed

subsection \<open>A scan that loses an agent\<close>

definition moved_scan :: "HerdrAgentLike list" where
  "moved_scan =
     [[(''pane_id'', JStr ''q''), (''workspace_id'', JStr ''ws''), (''terminal_id'', JStr ''w''), (''agent'', JStr ''pi'')],
      [(''pane_id'', JStr ''p''), (''workspace_id'', JStr ''ws''), (''agent'', JStr ''claude'')]]"

text \<open>
  a scan can lose an agent. The agent of terminal \<open>w\<close> moved from pane \<open>p\<close> to pane \<open>q\<close>, and a new
  agent whose terminal the scan does not report sits in \<open>p\<close>. The first entry matches the indexed
  agent by terminal, the second matches the same row by the pane fallback and overwrites it: two
  live agents are reported, one is indexed, under the identity of the moved one, and terminal \<open>w\<close>
  is gone from the index.
\<close>

theorem ReplaceForSession_collapses_agents:
  "length (agent_snapshots moved_scan) = 2
   \<and> (case fst (ReplaceForSession ''s'' moved_scan (sample_world [])) of
        Inr indexed \<Rightarrow> map (\<lambda>a. (a_ID a, a_PaneID a, a_TerminalID a, a_Agent a)) indexed
      | Inl e \<Rightarrow> []) = [(''ag'', ''p'', None, Some ''claude'')]"
  by code_simp

end
