(* ===== verification/Orchestrator.thy ===== *)
theory Orchestrator
  imports ScopeStore AgentStore
begin

text \<open>
  \<open>go/internal/observability/agent_orchestrator_service.go\<close>: who may receive and acknowledge which
  events. As in the code the service sees its three stores through interfaces: records of
  operations, which \<open>herdsman_service\<close> fills with the stores of this development.
\<close>

subsection \<open>Interfaces\<close>

record AgentEventStoreLike =
  es_IsDeliverable :: "AgentEventRecord \<Rightarrow> AgentIndexRecord option \<Rightarrow> AgentScope \<Rightarrow> string \<Rightarrow> bool op"
  es_Get :: "int \<Rightarrow> AgentEventRecord op"
  es_LatestEventID :: "AgentQueryScope \<Rightarrow> int op"
  es_ListAfter :: "ListAfterInput \<Rightarrow> AgentEventRecord list op"
  es_MarkAcked :: "int \<Rightarrow> AgentScope option \<Rightarrow> unit op"
  es_NextDeliverableAfter :: "NextDeliverableAfterInput \<Rightarrow> AgentEventRecord option op"
  es_ReclaimDelivered :: "int \<Rightarrow> int op"
  es_ReservePending :: "string \<Rightarrow> int \<Rightarrow> int list \<Rightarrow> AgentEventRecord list op"

record AgentStoreLike =
  as_Get :: "string \<Rightarrow> AgentIndexRecord op"
  as_List :: "AgentQueryScope \<Rightarrow> AgentIndexRecord list op"

record AgentOrchestratorScopeStoreLike =
  ss_Ack :: "AckInput \<Rightarrow> AgentOrchestratorState op"
  ss_Claim :: "ClaimOrchestratorInput \<Rightarrow> AgentOrchestratorScopeChange op"
  ss_Get :: "AgentScope \<Rightarrow> AgentOrchestratorState option op"
  ss_ListOwned :: "AgentOrchestratorState list op"
  ss_ListOwnedForSession :: "string \<Rightarrow> AgentOrchestratorState list op"
  ss_MoveOwner :: "MoveOwnerInput \<Rightarrow> AgentOrchestratorScopeChange list op"
  ss_ReleaseIfOwner :: "ReleaseIfOwnerInput \<Rightarrow> AgentOrchestratorReleaseResult op"

record AgentOrchestratorService =
  sv_agentEvents :: AgentEventStoreLike
  sv_agents :: AgentStoreLike
  sv_scopes :: AgentOrchestratorScopeStoreLike

record AgentOrchestratorChange =
  oc_Current :: AgentOrchestratorState
  oc_Previous :: AgentOrchestratorState
  oc_Reason :: AgentOrchestratorChangeReason

definition herdsman_service :: AgentOrchestratorService where
  "herdsman_service =
     \<lparr>sv_agentEvents = \<lparr>es_IsDeliverable = is_deliverable, es_Get = get_event,
        es_LatestEventID = LatestEventID, es_ListAfter = ListAfter, es_MarkAcked = MarkAcked,
        es_NextDeliverableAfter = NextDeliverableAfter, es_ReclaimDelivered = ReclaimDelivered,
        es_ReservePending = ReservePending\<rparr>,
      sv_agents = \<lparr>as_Get = agent_Get, as_List = List_agents\<rparr>,
      sv_scopes = \<lparr>ss_Ack = scope_Ack, ss_Claim = Claim, ss_Get = scope_Get, ss_ListOwned = ListOwned,
        ss_ListOwnedForSession = ListOwnedForSession, ss_MoveOwner = MoveOwner,
        ss_ReleaseIfOwner = ReleaseIfOwner\<rparr>\<rparr>"

subsection \<open>Pure helpers\<close>

fun first_occurrences :: "'a list \<Rightarrow> 'a list" where
  "first_occurrences [] = []"
| "first_occurrences (x # xs) = x # filter (\<lambda>y. y \<noteq> x) (first_occurrences xs)"

definition scope_key :: "AgentScope \<Rightarrow> string" where
  "scope_key scope = s_HerdrSessionName scope @ [char_of (0 :: nat)] @ s_WorkspaceID scope"

text \<open>\<open>mergeScopes\<close>: in the order of first occurrence, a later scope of the same key replacing.\<close>

definition mergeScopes :: "AgentScope list \<Rightarrow> AgentScope list" where
  "mergeScopes scopes =
     map (\<lambda>key. the (find (\<lambda>s. scope_key s = key) (rev scopes)))
       (first_occurrences (map scope_key scopes))"

definition eventScope :: "AgentEventRecord \<Rightarrow> string \<Rightarrow> AgentScope" where
  "eventScope event fallbackWorkspaceID =
     \<lparr>s_HerdrSessionName = e_HerdrSessionName event,
      s_WorkspaceID = (case e_WorkspaceID event of None \<Rightarrow> fallbackWorkspaceID | Some ws \<Rightarrow> ws)\<rparr>"

definition agentFor :: "AgentIndexRecord list \<Rightarrow> string option \<Rightarrow> AgentIndexRecord option" where
  "agentFor validAgents agentID =
     (case agentID of None \<Rightarrow> None | Some i \<Rightarrow> find (\<lambda>a. a_ID a = i) (rev validAgents))"

definition isPendingOrDelivered :: "AgentEventStatus option \<Rightarrow> bool" where
  "isPendingOrDelivered status \<longleftrightarrow>
     status = Some AgentEventStatusPending \<or> status = Some AgentEventStatusDelivered"

text \<open>An error result is handled, a panic is not.\<close>

definition on_error :: "'a op \<Rightarrow> (go_error \<Rightarrow> 'a op) \<Rightarrow> 'a op" where
  "on_error m h = catch_act m (\<lambda>e. case e of ErrPanic p \<Rightarrow> fail_act (ErrPanic p) | _ \<Rightarrow> h e)"

subsection \<open>Ownership\<close>

definition svc_Status :: "AgentOrchestratorService \<Rightarrow> AgentScope \<Rightarrow> AgentOrchestratorState option op" where
  "svc_Status s scope = ss_Get (sv_scopes s) scope"

definition claimCursor :: "AgentOrchestratorService \<Rightarrow> AgentScope \<Rightarrow> int op" where
  "claimCursor s scope =
     bind_act (ss_Get (sv_scopes s) scope) (\<lambda>current. case current of
         Some st \<Rightarrow> return_act (os_AckedEventID st)
       | None \<Rightarrow> es_LatestEventID (sv_agentEvents s)
           \<lparr>q_All = None, q_HerdrSessionName = Some (s_HerdrSessionName scope),
            q_WorkspaceID = Some (s_WorkspaceID scope)\<rparr>)"

definition svc_Claim ::
    "AgentOrchestratorService \<Rightarrow> AgentScope \<Rightarrow> string \<Rightarrow> string \<Rightarrow> bool option \<Rightarrow> AgentOrchestratorChange op"
where
  "svc_Claim s scope paneID terminalID ownerConnected =
     bind_act (claimCursor s scope) (\<lambda>cursor.
     bind_act (ss_Claim (sv_scopes s) \<lparr>ci_Scope = scope, ci_AckedEventID = cursor, ci_PaneID = paneID,
       ci_TerminalID = terminalID, ci_OwnerConnected = ownerConnected\<rparr>) (\<lambda>change.
     return_act \<lparr>oc_Current = sc_Current change, oc_Previous = sc_Previous change,
       oc_Reason = OrchestratorChangeClaimed\<rparr>))"

definition svc_Release ::
    "AgentOrchestratorService \<Rightarrow> AgentScope \<Rightarrow> AgentOrchestratorChangeReason \<Rightarrow> string
      \<Rightarrow> AgentOrchestratorChange option op" where
  "svc_Release s scope reason terminalID =
     bind_act (ss_ReleaseIfOwner (sv_scopes s) \<lparr>ri_Scope = scope, ri_TerminalID = terminalID\<rparr>) (\<lambda>change.
     return_act (if \<not> rr_Changed change then None
       else (case (rr_Current change, rr_Previous change) of
           (Some current, Some previous) \<Rightarrow>
             Some \<lparr>oc_Current = current, oc_Previous = previous, oc_Reason = reason\<rparr>
         | _ \<Rightarrow> None)))"

definition svc_Move ::
    "AgentOrchestratorService \<Rightarrow> AgentScope \<Rightarrow> string \<Rightarrow> string \<Rightarrow> AgentScope
      \<Rightarrow> AgentOrchestratorChange list op" where
  "svc_Move s from_scope paneID terminalID to_scope =
     bind_act (claimCursor s to_scope) (\<lambda>cursor.
     bind_act (ss_MoveOwner (sv_scopes s) \<lparr>mi_From = from_scope, mi_PaneID = paneID,
       mi_TargetAckedEventID = cursor, mi_TerminalID = terminalID, mi_To = to_scope\<rparr>) (\<lambda>changes.
     return_act (map (\<lambda>ch. \<lparr>oc_Current = sc_Current ch, oc_Previous = sc_Previous ch,
       oc_Reason = OrchestratorChangeMoved\<rparr>) changes)))"

definition svc_PersistedOwners :: "AgentOrchestratorService \<Rightarrow> AgentOrchestratorState list op" where
  "svc_PersistedOwners s = ss_ListOwned (sv_scopes s)"

subsection \<open>Scopes an owner serves\<close>

definition OwnerlessSiblingScopes ::
    "AgentOrchestratorService \<Rightarrow> AgentScope \<Rightarrow> AgentScope list op" where
  "OwnerlessSiblingScopes s input =
     bind_act (ss_ListOwnedForSession (sv_scopes s) (s_HerdrSessionName input)) (\<lambda>owned.
     bind_act (as_List (sv_agents s) \<lparr>q_All = None, q_HerdrSessionName = Some (s_HerdrSessionName input),
       q_WorkspaceID = None\<rparr>) (\<lambda>indexed.
     let ownedWorkspaces = map (\<lambda>st. s_WorkspaceID (os_Scope st)) owned;
         ids = sort (remdups (map a_WorkspaceID indexed))
     in return_act (map (\<lambda>ws. \<lparr>s_HerdrSessionName = s_HerdrSessionName input, s_WorkspaceID = ws\<rparr>)
          (filter (\<lambda>ws. ws \<noteq> s_WorkspaceID input \<and> ws \<notin> set ownedWorkspaces) ids))))"

definition in_scope_input :: "ListAfterInput \<Rightarrow> AgentScope \<Rightarrow> ListAfterInput" where
  "in_scope_input input scope =
     input\<lparr>l_HerdrSessionName := Some (s_HerdrSessionName scope), l_WorkspaceID := Some (s_WorkspaceID scope)\<rparr>"

text \<open>The events of several scopes merged by id; the last event read under an id wins.\<close>

definition merge_events :: "AgentEventRecord list \<Rightarrow> AgentEventRecord list" where
  "merge_events events =
     sort_key e_ID (map (\<lambda>i. the (find (\<lambda>e. e_ID e = i) (rev events))) (remdups (map e_ID events)))"

definition listAfterAcrossScopes ::
    "AgentOrchestratorService \<Rightarrow> AgentScope list \<Rightarrow> ListAfterInput \<Rightarrow> AgentEventRecord list op" where
  "listAfterAcrossScopes s scopes input =
     (case scopes of
        [scope] \<Rightarrow> es_ListAfter (sv_agentEvents s) (in_scope_input input scope)
      | _ \<Rightarrow>
        bind_act (collect scopes (\<lambda>scope. es_ListAfter (sv_agentEvents s) (in_scope_input input scope)))
          (\<lambda>lists.
            let merged = merge_events (concat lists);
                limit = (case l_Limit input of None \<Rightarrow> 100 | Some n \<Rightarrow> n)
            in if int (length merged) \<le> limit then return_act merged
               else if limit < 0 then fail_act (ErrPanic ''slice bounds out of range'')
               else return_act (take (nat limit) merged)))"

definition safeGetAgent :: "AgentOrchestratorService \<Rightarrow> string \<Rightarrow> AgentIndexRecord option op" where
  "safeGetAgent s agentID =
     on_error (bind_act (as_Get (sv_agents s) agentID) (\<lambda>agent. return_act (Some agent)))
       (\<lambda>_. return_act None)"

text \<open>The lowest deliverable event id over the owner's scope and its ownerless siblings.\<close>

fun lowest_candidate ::
    "AgentOrchestratorService \<Rightarrow> string \<Rightarrow> int \<Rightarrow> AgentScope list \<Rightarrow> AgentEventRecord option
      \<Rightarrow> AgentEventRecord option op" where
  "lowest_candidate s terminalID afterEventID [] next_event = return_act next_event"
| "lowest_candidate s terminalID afterEventID (scope # scopes) next_event =
     bind_act (es_NextDeliverableAfter (sv_agentEvents s)
       \<lparr>n_AfterEventID = afterEventID, n_GetAgent = Some (safeGetAgent s),
        n_HerdrSessionName = s_HerdrSessionName scope, n_OwnerTerminalID = terminalID,
        n_WorkspaceID = s_WorkspaceID scope\<rparr>) (\<lambda>candidate.
     lowest_candidate s terminalID afterEventID scopes
       (case candidate of None \<Rightarrow> next_event
        | Some c \<Rightarrow> (case next_event of None \<Rightarrow> Some c
            | Some n \<Rightarrow> if e_ID c < e_ID n then Some c else Some n)))"

definition nextDeliverableAcrossScopes ::
    "AgentOrchestratorService \<Rightarrow> AgentScope \<Rightarrow> string \<Rightarrow> int \<Rightarrow> AgentEventRecord option op" where
  "nextDeliverableAcrossScopes s input terminalID afterEventID =
     bind_act (OwnerlessSiblingScopes s input) (\<lambda>siblings.
       lowest_candidate s terminalID afterEventID (mergeScopes (input # siblings)) None)"

subsection \<open>Pending\<close>

text \<open>The inner loop of \<open>Pending\<close> over one batch; it stops when the limit is reached.\<close>

fun pending_batch ::
    "AgentOrchestratorService \<Rightarrow> AgentIndexRecord list \<Rightarrow> string \<Rightarrow> string \<Rightarrow> int
      \<Rightarrow> AgentEventRecord list \<Rightarrow> AgentEventRecord list \<Rightarrow> AgentEventRecord list op" where
  "pending_batch s validAgents workspaceID terminalID limit [] pending = return_act pending"
| "pending_batch s validAgents workspaceID terminalID limit (event # batch) pending =
     bind_act (es_IsDeliverable (sv_agentEvents s) event (agentFor validAgents (e_AgentID event))
       (eventScope event workspaceID) terminalID) (\<lambda>valid.
     let pending' = (if valid \<and> e_TerminalID event \<noteq> None \<and> e_TerminalID event \<noteq> Some terminalID
           then pending @ [event] else pending)
     in if int (length pending') = limit then return_act pending'
        else pending_batch s validAgents workspaceID terminalID limit batch pending')"

text \<open>
  The outer loop: at most 1000 events are scanned, and every round scans at least one, so 1001
  rounds are enough (\<open>pending_loop_fuel\<close> in \<open>OrchestratorLaws\<close>).
\<close>

fun pending_loop ::
    "nat \<Rightarrow> AgentOrchestratorService \<Rightarrow> AgentScope list \<Rightarrow> AgentIndexRecord list \<Rightarrow> string \<Rightarrow> string
      \<Rightarrow> int \<Rightarrow> int \<Rightarrow> int \<Rightarrow> AgentEventRecord list \<Rightarrow> AgentEventRecord list op" where
  "pending_loop 0 s scopes validAgents workspaceID terminalID limit afterEventID scanned pending =
     return_act pending"
| "pending_loop (Suc fuel) s scopes validAgents workspaceID terminalID limit afterEventID scanned pending =
     (if \<not> (int (length pending) < limit \<and> scanned < 1000) then return_act pending
      else bind_act (listAfterAcrossScopes s scopes
        \<lparr>l_AfterEventID = Some afterEventID, l_HerdrSessionName = None,
         l_Limit = Some (min 100 (1000 - scanned)), l_OwnerTerminalID = Some terminalID,
         l_WorkspaceID = None\<rparr>) (\<lambda>batch.
      if batch = [] then return_act pending
      else bind_act (pending_batch s validAgents workspaceID terminalID limit batch pending) (\<lambda>pending'.
        pending_loop fuel s scopes validAgents workspaceID terminalID limit (e_ID (last batch))
          (scanned + int (length batch)) pending')))"

record OrchestratorPendingInput =
  op_Scope :: AgentScope
  op_ExtraScopes :: "AgentScope list"
  op_Limit :: "int option"
  op_TerminalID :: string

definition svc_Pending ::
    "AgentOrchestratorService \<Rightarrow> OrchestratorPendingInput \<Rightarrow> AgentEventRecord list op" where
  "svc_Pending s input =
     bind_act (es_ReclaimDelivered (sv_agentEvents s) 60000) (\<lambda>_.
     bind_act (ss_Get (sv_scopes s) (op_Scope input)) (\<lambda>state.
     case state of None \<Rightarrow> return_act []
     | Some st \<Rightarrow> (case os_Owner st of None \<Rightarrow> return_act []
       | Some ow \<Rightarrow>
         if o_TerminalID ow \<noteq> op_TerminalID input then return_act []
         else
           let limit = (case op_Limit input of None \<Rightarrow> 100 | Some n \<Rightarrow> n);
               scopes = mergeScopes (op_Scope input # op_ExtraScopes input)
           in bind_act (collect scopes (\<lambda>scope. as_List (sv_agents s)
                \<lparr>q_All = None, q_HerdrSessionName = Some (s_HerdrSessionName scope),
                 q_WorkspaceID = Some (s_WorkspaceID scope)\<rparr>)) (\<lambda>lists.
              bind_act (pending_loop 1001 s scopes (concat lists) (s_WorkspaceID (op_Scope input))
                (op_TerminalID input) limit (os_AckedEventID st) 0 []) (\<lambda>pending.
              if pending = [] then return_act []
              else es_ReservePending (sv_agentEvents s) (op_TerminalID input) limit (map e_ID pending))))))"

subsection \<open>Acknowledgement\<close>

record OrchestratorAckInput =
  oa_Scope :: AgentScope
  oa_EventID :: int
  oa_TerminalID :: string

definition isAckScopeAllowed ::
    "AgentOrchestratorService \<Rightarrow> AgentEventRecord \<Rightarrow> OrchestratorAckInput \<Rightarrow> bool op" where
  "isAckScopeAllowed s event input =
     (if e_WorkspaceID event = Some (s_WorkspaceID (oa_Scope input)) then return_act True
      else (case e_WorkspaceID event of None \<Rightarrow> return_act False
        | Some ws \<Rightarrow> bind_act (OwnerlessSiblingScopes s (oa_Scope input)) (\<lambda>siblings.
            return_act (\<exists>scope \<in> set siblings. s_WorkspaceID scope = ws))))"

definition ack_error :: "OrchestratorAckErrorCode \<Rightarrow> string \<Rightarrow> 'a op" where
  "ack_error code message = fail_act (NewOrchestratorAckError code message)"

text \<open>The candidate check of a pending or delivered event whose agent is still indexed.\<close>

definition ack_candidate_check ::
    "AgentOrchestratorService \<Rightarrow> OrchestratorAckInput \<Rightarrow> AgentEventRecord \<Rightarrow> unit op" where
  "ack_candidate_check s input event =
     bind_act (case e_AgentID event of None \<Rightarrow> return_act None | Some a \<Rightarrow> safeGetAgent s a) (\<lambda>eventAgent.
     case eventAgent of None \<Rightarrow> return_act ()
     | Some agent \<Rightarrow>
       let isDeliveredToCurrentTerminal = (e_Status event = Some AgentEventStatusDelivered
             \<and> e_DeliveredToTerminalID event = Some (oa_TerminalID input));
           candidate = (if isDeliveredToCurrentTerminal
             then event\<lparr>e_Status := Some AgentEventStatusPending\<rparr> else event)
       in bind_act (es_IsDeliverable (sv_agentEvents s) candidate (Some agent)
            (eventScope event (s_WorkspaceID (oa_Scope input))) (oa_TerminalID input)) (\<lambda>ok.
          if ok then return_act () else ack_error AckEventOutOfOrder MsgAckOutOfOrder))"

text \<open>Whether the lowest deliverable event stands in the way of this acknowledgement.\<close>

definition ack_blocked :: "OrchestratorAckInput \<Rightarrow> AgentEventRecord option \<Rightarrow> bool" where
  "ack_blocked input next_event =
     (case next_event of None \<Rightarrow> False
      | Some n \<Rightarrow>
        let isUnconsumedRetained = (e_Status n = Some AgentEventStatusInvalidated \<and> e_Deliverable n = 1
              \<and> e_DeliveredToTerminalID n \<noteq> Some (oa_TerminalID input))
        in e_ID n < oa_EventID input
           \<and> (e_Status n = Some AgentEventStatusPending \<or> isUnconsumedRetained))"

definition ack_settle ::
    "AgentOrchestratorService \<Rightarrow> OrchestratorAckInput \<Rightarrow> AgentOrchestratorState \<Rightarrow> AgentEventRecord
      \<Rightarrow> AgentOrchestratorState op" where
  "ack_settle s input state event =
     (if e_WorkspaceID event \<noteq> Some (s_WorkspaceID (oa_Scope input))
      then bind_act (es_MarkAcked (sv_agentEvents s) (oa_EventID input) None) (\<lambda>_.
           bind_act (ss_Get (sv_scopes s) (oa_Scope input)) (\<lambda>current.
             return_act (case current of None \<Rightarrow> state | Some cur \<Rightarrow> cur)))
      else bind_act (es_MarkAcked (sv_agentEvents s) (oa_EventID input) (Some (oa_Scope input))) (\<lambda>_.
           ss_Ack (sv_scopes s) \<lparr>ai_Scope = oa_Scope input, ai_EventID = oa_EventID input,
             ai_TerminalID = oa_TerminalID input\<rparr>))"

definition ack_status_check ::
    "AgentOrchestratorService \<Rightarrow> OrchestratorAckInput \<Rightarrow> AgentEventRecord \<Rightarrow> unit op" where
  "ack_status_check s input event =
     (let toCaller = (e_DeliveredToTerminalID event = Some (oa_TerminalID input));
          isInvalidatedDelivered = (e_Status event = Some AgentEventStatusInvalidated \<and> toCaller);
          isAlreadyAckedToCaller = (e_Status event = Some AgentEventStatusAcked \<and> toCaller)
      in if e_Status event = Some AgentEventStatusDelivered \<and> \<not> toCaller
         then ack_error AckEventOutOfOrder MsgAckOutOfOrder
         else if \<not> isPendingOrDelivered (e_Status event) \<and> \<not> isInvalidatedDelivered
           \<and> \<not> isAlreadyAckedToCaller
         then ack_error AckEventInvalidated MsgAckInvalidated
         else if \<not> isInvalidatedDelivered \<and> \<not> isAlreadyAckedToCaller
         then ack_candidate_check s input event
         else return_act ())"

text \<open>
  The checks of \<open>ack\<close>, which only read: an event at or below the cursor needs no settling, any
  other one must be found, in scope, deliverable to the caller and next in order.
\<close>

definition ack_admission ::
    "AgentOrchestratorService \<Rightarrow> OrchestratorAckInput
      \<Rightarrow> (AgentOrchestratorState \<times> AgentEventRecord option) op" where
  "ack_admission s input =
     bind_act (ss_Get (sv_scopes s) (oa_Scope input)) (\<lambda>found.
     case found of None \<Rightarrow> ack_error AckNotOwner MsgAckNotOwner
     | Some state \<Rightarrow>
       if (case os_Owner state of None \<Rightarrow> True | Some ow \<Rightarrow> o_TerminalID ow \<noteq> oa_TerminalID input)
       then ack_error AckNotOwner MsgAckNotOwner
       else if oa_EventID input \<le> os_AckedEventID state then return_act (state, None)
       else
         bind_act (on_error (es_Get (sv_agentEvents s) (oa_EventID input))
           (\<lambda>_. ack_error AckEventNotFound MsgAckOutOfOrder)) (\<lambda>event.
         if e_HerdrSessionName event \<noteq> s_HerdrSessionName (oa_Scope input)
         then ack_error AckEventNotInScope MsgAckOutOfOrder
         else
           bind_act (isAckScopeAllowed s event input) (\<lambda>allowed.
           if \<not> allowed then ack_error AckEventNotInScope MsgAckOutOfOrder
           else
             bind_act (ack_status_check s input event) (\<lambda>_.
             bind_act (nextDeliverableAcrossScopes s (oa_Scope input) (oa_TerminalID input)
                 (os_AckedEventID state)) (\<lambda>next_event.
             if ack_blocked input next_event then ack_error AckEventOutOfOrder MsgAckOutOfOrder
             else return_act (state, Some event))))))"

definition svc_ack_core ::
    "AgentOrchestratorService \<Rightarrow> OrchestratorAckInput \<Rightarrow> AgentOrchestratorState op" where
  "svc_ack_core s input =
     bind_act (ack_admission s input) (\<lambda>(state, target). case target of
         None \<Rightarrow> return_act state
       | Some event \<Rightarrow> ack_settle s input state event)"

text \<open>
  \<open>Ack\<close>: a rejection also computes the expected next event for the log, whose own failure replaces
  the rejection.
\<close>

definition svc_Ack ::
    "AgentOrchestratorService \<Rightarrow> OrchestratorAckInput \<Rightarrow> AgentOrchestratorState op" where
  "svc_Ack s input =
     catch_act (svc_ack_core s input) (\<lambda>err. case err of
         ErrAck code message \<Rightarrow>
           bind_act (ss_Get (sv_scopes s) (oa_Scope input)) (\<lambda>current.
           bind_act (case current of None \<Rightarrow> return_act None
             | Some cur \<Rightarrow> (case os_Owner cur of None \<Rightarrow> return_act None
                 | Some ow \<Rightarrow> if o_TerminalID ow = oa_TerminalID input
                     then nextDeliverableAcrossScopes s (oa_Scope input) (oa_TerminalID input)
                       (os_AckedEventID cur)
                     else return_act None)) (\<lambda>_.
           fail_act err))
       | _ \<Rightarrow> fail_act err)"

end
