(* ===== verification/OrchestratorLaws.thy ===== *)
theory OrchestratorLaws
  imports Orchestrator ScopeContract EventQueue AgentContract
begin

text \<open>
  What the orchestrator service may rely on and what it guarantees. The service only sees three
  store interfaces; their laws are the assumptions of the locale \<open>orchestrator_stores\<close>, the
  guarantees of claiming, receiving and acknowledging are proved inside it, and the interpretation
  \<open>herd\<close> discharges the laws for the stores of this development.
\<close>

subsection \<open>Quiet actions\<close>

text \<open>A read of the stores: at most the persisted clock value in \<open>daemon_meta\<close> changes.\<close>

definition quiet :: "tables \<Rightarrow> tables \<Rightarrow> bool" where
  "quiet t t' \<longleftrightarrow> t' = t\<lparr>daemon_meta := daemon_meta t'\<rparr>"

lemma quietD:
  assumes "quiet t t'"
  shows "agent_events t' = agent_events t" and "agents t' = agents t"
    and "agent_orchestrator_scopes t' = agent_orchestrator_scopes t"
    and "herdr_sessions t' = herdr_sessions t" and "scope_view t' = scope_view t"
    and "events_ok t' = events_ok t" and "scopes_ok t' = scopes_ok t"
proof -
  have t': "t' = t\<lparr>daemon_meta := daemon_meta t'\<rparr>" using assms by (simp add: quiet_def)
  show "agent_events t' = agent_events t" "agents t' = agents t"
    "agent_orchestrator_scopes t' = agent_orchestrator_scopes t"
    "herdr_sessions t' = herdr_sessions t" by (subst t', simp)+
  then show "scope_view t' = scope_view t" "scopes_ok t' = scopes_ok t"
    by (simp_all add: scope_view_def scopes_ok_def fun_eq_iff)
  show "events_ok t' = events_ok t" by (subst t') (simp add: events_ok_meta_any)
qed

interpretation qui: table_discipline quiet
proof
  show "quiet t t" for t by (simp add: quiet_def)
  show "quiet t v" if "quiet t u" "quiet u v" for t u v
  proof -
    from that(1) have "u = t\<lparr>daemon_meta := daemon_meta u\<rparr>" by (simp add: quiet_def)
    moreover from that(2) have "v = u\<lparr>daemon_meta := daemon_meta v\<rparr>" by (simp add: quiet_def)
    ultimately have "v = t\<lparr>daemon_meta := daemon_meta u, daemon_meta := daemon_meta v\<rparr>" by simp
    then show ?thesis by (simp add: quiet_def)
  qed
qed

abbreviation quiet_op :: "'a op \<Rightarrow> bool" where
  "quiet_op m \<equiv> moves (inside quiet) m"

lemma quiet_run:
  "quiet_op m \<Longrightarrow> m w = (r, w') \<Longrightarrow> quiet (w_tables w) (w_tables w') \<and> w_open w' = w_open w"
  by (auto dest: moves_inside_open)

lemmas quiet_trans = qui.trans_Q

lemma quiet_of_sum [moves_rules]: "quiet_op (of_sum v)"
  by (cases v) (auto simp: of_sum_def intro: moves_rules)

lemma quiet_logical_now [moves_rules]: "quiet_op logical_now"
proof (rule movesI)
  fix w
  have "quiet_op (bind_act (change_sql (put_meta LogicalClockMetaKey v)) (\<lambda>_. read_act w_logicalNow))" for v
    by (intro moves_rules qui.moves_change) (simp add: put_meta_def quiet_def)
  from movesD [OF this, of "w\<lparr>w_logicalNow := w_wall w, w_lastPersistedLogicalNow := w_wall w\<rparr>"
      "FormatInt (w_wall w)"]
  show "inside quiet w (snd (logical_now w))"
    by (auto simp: logical_now_def Let_def inside_def qui.refl_Q)
qed

lemma quiet_is_deliverable [moves_rules]: "quiet_op (is_deliverable e a sc terminal)"
  by (auto intro!: movesI simp: is_deliverable_def inside_def qui.refl_Q)

lemma quiet_on_error [moves_rules]:
  "quiet_op m \<Longrightarrow> (\<And>e. quiet_op (h e)) \<Longrightarrow> quiet_op (on_error m h)"
  unfolding on_error_def by (intro moves_rules) (auto split: go_error.split intro: moves_rules)

lemma quiet_get_event: "quiet_op (get_event eventID)"
  unfolding get_event_def by (intro moves_rules)

lemma quiet_ListAfter: "quiet_op (ListAfter input)"
  unfolding ListAfter_def by (intro moves_rules)

lemma quiet_LatestEventID: "quiet_op (LatestEventID scope)"
  unfolding LatestEventID_def by (intro moves_rules)

lemma quiet_scan_rows:
  assumes "\<And>f a. n_GetAgent input = Some f \<Longrightarrow> quiet_op (f a)"
  shows "quiet_op (scan_rows input rows)"
proof (induction rows)
  case (Cons e rows)
  then show ?case
    by (auto simp: Let_def intro!: moves_rules assms split: option.split)
qed (simp add: moves_rules)

lemma quiet_NextDeliverableAfter:
  assumes "\<And>f a. n_GetAgent input = Some f \<Longrightarrow> quiet_op (f a)"
  shows "quiet_op (NextDeliverableAfter input)"
proof -
  have "quiet_op (scan_pages pages input a)" for pages a
    by (induction pages arbitrary: a) (auto intro!: moves_rules quiet_scan_rows assms)
  then show ?thesis by (simp add: NextDeliverableAfter_def)
qed

lemma quiet_agent_Get: "quiet_op (agent_Get a)"
  unfolding agent_Get_def one_agent_def agent_record_def by (intro moves_rules)

lemma quiet_List_agents: "quiet_op (List_agents scope)"
  unfolding List_agents_def by (intro moves_rules)

lemma quiet_scope_Get: "quiet_op (scope_Get scope)"
  unfolding scope_Get_def getRow_def by (intro moves_rules)

lemma quiet_scanScopes: "quiet_op (scanScopes rows)"
  unfolding scanScopes_def by (intro moves_rules)

lemma quiet_ListOwnedForSession: "quiet_op (ListOwnedForSession session)"
  unfolding ListOwnedForSession_def by (rule quiet_scanScopes)

subsection \<open>The interfaces and their laws\<close>

text \<open>The scope store: reads are quiet and read the view, writes are point updates of the view.\<close>

locale scope_contract =
  fixes scopes :: AgentOrchestratorScopeStoreLike
  assumes Get_quiet: "quiet_op (ss_Get scopes scope)"
    and Get_view: "ss_Get scopes scope w = (Inr found, w')
      \<Longrightarrow> scope_view (w_tables w) scope = map_option state_view found"
    and Get_error: "ss_Get scopes scope w = (Inl err, w') \<Longrightarrow> err \<noteq> ErrAck code msg"
    and Owned_quiet: "quiet_op (ss_ListOwnedForSession scopes session)"
    and Owned_view: "ss_ListOwnedForSession scopes session w = (Inr owned, w')
      \<Longrightarrow> scopes_ok (w_tables w)
      \<Longrightarrow> ws \<in> (\<lambda>st. s_WorkspaceID (os_Scope st)) ` set owned
        \<longleftrightarrow> (\<exists>terminal. owned_by (w_tables w) \<lparr>s_HerdrSessionName = session, s_WorkspaceID = ws\<rparr> terminal)"
    and Ack_view: "ss_Ack scopes ai w = (Inr st, w') \<Longrightarrow> scopes_ok (w_tables w)
      \<Longrightarrow> \<exists>n pane. scope_view (w_tables w) (ai_Scope ai) = Some (n, Some (pane, ai_TerminalID ai))
        \<and> scope_view (w_tables w') = (scope_view (w_tables w))
            (ai_Scope ai \<mapsto> (max n (ai_EventID ai), Some (pane, ai_TerminalID ai)))
        \<and> state_view st = (max n (ai_EventID ai), Some (pane, ai_TerminalID ai))"
    and Ack_events: "ss_Ack scopes ai w = (Inr st, w') \<Longrightarrow> agent_events (w_tables w') = agent_events (w_tables w)"
    and Ack_error: "ss_Ack scopes ai w = (Inl err, w') \<Longrightarrow> err \<noteq> ErrAck code msg"
    and Claim_view: "ss_Claim scopes ci w = (Inr ch, w')
      \<Longrightarrow> scope_view (w_tables w') = (scope_view (w_tables w))
            (ci_Scope ci \<mapsto> (ci_AckedEventID ci, Some (ci_PaneID ci, ci_TerminalID ci)))"
    and Claim_events: "ss_Claim scopes ci w = (Inr ch, w')
      \<Longrightarrow> agent_events (w_tables w') = agent_events (w_tables w)"

text \<open>The event store: reads are quiet and return stored rows, writes touch the rows they name.\<close>

definition marked :: "int \<Rightarrow> AgentScope option \<Rightarrow> agentEventRow \<Rightarrow> bool" where
  "marked eventID scope =
     (case scope of
        Some sc \<Rightarrow> (\<lambda>r. in_scope sc r \<and> r_id r \<le> eventID \<and> ackable_row r)
      | None \<Rightarrow> (\<lambda>r. r_id r = eventID \<and> ackable_row r))"

definition listed :: "ListAfterInput \<Rightarrow> agentEventRow \<Rightarrow> bool" where
  "listed input r \<longleftrightarrow>
     (case l_AfterEventID input of None \<Rightarrow> 0 | Some eventID \<Rightarrow> eventID) < r_id r
     \<and> optional_clause (l_HerdrSessionName input) (\<lambda>v. r_herdrSessionName r = v)
     \<and> optional_clause (l_WorkspaceID input) (\<lambda>v. r_workspaceID r = Some v)"

definition delivered_from :: "string \<Rightarrow> agentEventRow \<Rightarrow> AgentEventRecord \<Rightarrow> bool" where
  "delivered_from terminalID r e \<longleftrightarrow>
     e_ID e = r_id r \<and> e_HerdrSessionName e = r_herdrSessionName r \<and> e_WorkspaceID e = r_workspaceID r
     \<and> e_Status e = Some AgentEventStatusDelivered \<and> e_DeliveredToTerminalID e = Some terminalID"

locale queue_contract =
  fixes events :: AgentEventStoreLike
  assumes IsDeliverable_quiet: "quiet_op (es_IsDeliverable events e a sc terminal)"
    and eGet_quiet: "quiet_op (es_Get events i)"
    and Latest_quiet: "quiet_op (es_LatestEventID events q)"
    and ListAfter_quiet: "quiet_op (es_ListAfter events li)"
    and Next_quiet: "(\<And>f a. n_GetAgent ni = Some f \<Longrightarrow> quiet_op (f a))
      \<Longrightarrow> quiet_op (es_NextDeliverableAfter events ni)"
    and eGet_row: "es_Get events i w = (Inr e, w')
      \<Longrightarrow> \<exists>r \<in> set (agent_events (w_tables w)). r_id r = i \<and> e = mapAgentEvent r"
    and Latest_max: "es_LatestEventID events
        \<lparr>q_All = None, q_HerdrSessionName = Some session, q_WorkspaceID = Some ws\<rparr> w = (Inr n, w')
      \<Longrightarrow> r \<in> set (agent_events (w_tables w)) \<Longrightarrow> r_herdrSessionName r = session
      \<Longrightarrow> r_workspaceID r = Some ws \<Longrightarrow> r_id r \<le> n"
    and ListAfter_rows: "es_ListAfter events li w = (Inr es, w') \<Longrightarrow> e \<in> set es
      \<Longrightarrow> \<exists>r \<in> set (agent_events (w_tables w)). e = mapAgentEvent r \<and> listed li r"
    and MarkAcked_rows: "es_MarkAcked events i dest w = (Inr u, w')
      \<Longrightarrow> w_tables w' = (w_tables w)
        \<lparr>agent_events := update_where (marked i dest) ack_row (agent_events (w_tables w))\<rparr>"
    and MarkAcked_error: "es_MarkAcked events i dest w = (Inl err, w') \<Longrightarrow> err \<noteq> ErrAck code msg"
    and Reclaim_scopes: "es_ReclaimDelivered events timeout w = (Inr n, w')
      \<Longrightarrow> agent_orchestrator_scopes (w_tables w') = agent_orchestrator_scopes (w_tables w)"
    and Reclaim_ok: "es_ReclaimDelivered events timeout w = (Inr n, w') \<Longrightarrow> events_ok (w_tables w)
      \<Longrightarrow> events_ok (w_tables w')"
    and Reserve_rows: "es_ReservePending events terminal limit ids w = (Inr recs, w')
      \<Longrightarrow> events_ok (w_tables w) \<Longrightarrow> ids \<noteq> [] \<Longrightarrow> e \<in> set recs
      \<Longrightarrow> \<exists>r \<in> set (agent_events (w_tables w)). r_id r \<in> set ids \<and> delivered_from terminal r e"

locale agent_contract =
  fixes store :: AgentStoreLike
  assumes aGet_quiet: "quiet_op (as_Get store a)"
    and aList_quiet: "quiet_op (as_List store q)"
    and aList_rows: "as_List store \<lparr>q_All = None, q_HerdrSessionName = Some session, q_WorkspaceID = None\<rparr> w
        = (Inr indexed, w') \<Longrightarrow> session \<noteq> []
      \<Longrightarrow> ws \<in> a_WorkspaceID ` set indexed
        \<longleftrightarrow> (\<exists>g \<in> set (agents (w_tables w)). g_herdrSessionName g = session \<and> g_workspaceID g = ws
             \<and> (\<exists>h \<in> set (herdr_sessions (w_tables w)). h_name h = session \<and> h_running h = 1))"

text \<open>The workspaces of the session that are indexed and owned by nobody.\<close>

definition ownerless_workspaces :: "tables \<Rightarrow> AgentScope \<Rightarrow> string set" where
  "ownerless_workspaces t scope =
     {ws. ws \<noteq> s_WorkspaceID scope
        \<and> (\<exists>h \<in> set (herdr_sessions t). h_name h = s_HerdrSessionName scope \<and> h_running h = 1)
        \<and> (\<exists>g \<in> set (agents t). g_herdrSessionName g = s_HerdrSessionName scope \<and> g_workspaceID g = ws)
        \<and> (\<forall>terminal. \<not> owned_by t
             \<lparr>s_HerdrSessionName = s_HerdrSessionName scope, s_WorkspaceID = ws\<rparr> terminal)}"

text \<open>The statuses in which the terminal may settle an event.\<close>

definition may_settle :: "string \<Rightarrow> agentEventRow \<Rightarrow> bool" where
  "may_settle terminalID r \<longleftrightarrow>
     r_status r = AgentEventStatusPending
     \<or> (r_status r \<noteq> AgentEventStatusFailed \<and> r_deliveredToTerminalID r = Some terminalID)"

definition may_ack :: "tables \<Rightarrow> OrchestratorAckInput \<Rightarrow> agentEventRow \<Rightarrow> bool" where
  "may_ack t input r \<longleftrightarrow>
     r_id r = oa_EventID input \<and> r_herdrSessionName r = s_HerdrSessionName (oa_Scope input)
     \<and> may_settle (oa_TerminalID input) r
     \<and> (r_workspaceID r = Some (s_WorkspaceID (oa_Scope input))
        \<or> (\<exists>ws \<in> ownerless_workspaces t (oa_Scope input). r_workspaceID r = Some ws))"

lemma find_key_in_set:
  assumes "key \<in> f ` set xs"
  shows "the (find (\<lambda>x. f x = key) (rev xs)) \<in> set xs"
proof (cases "find (\<lambda>x. f x = key) (rev xs)")
  case None
  with assms show ?thesis by (auto dest!: find_NoneD)
next
  case (Some x)
  with find_SomeD [OF Some] show ?thesis by simp
qed

lemma set_merge_events: "set (merge_events es) \<subseteq> set es"
  by (auto simp: merge_events_def find_key_in_set)

lemma set_first_occurrences [simp]: "set (first_occurrences xs) = set xs"
  by (induction xs) auto

lemma set_mergeScopes: "set (mergeScopes scopes) \<subseteq> set scopes"
  by (auto simp: mergeScopes_def find_key_in_set)

definition named_scope :: "AgentScope \<Rightarrow> bool" where
  "named_scope scope \<longleftrightarrow> s_HerdrSessionName scope \<noteq> [] \<and> s_WorkspaceID scope \<noteq> []"

text \<open>An event the terminal may be handed: past its cursor, in its scopes, of another terminal.\<close>

definition awaits :: "int \<Rightarrow> AgentScope list \<Rightarrow> string \<Rightarrow> agentEventRow \<Rightarrow> bool" where
  "awaits n scopes terminalID r \<longleftrightarrow>
     n < r_id r \<and> r_terminalID r \<noteq> None \<and> r_terminalID r \<noteq> Some terminalID
     \<and> (\<exists>sc \<in> set scopes. in_scope sc r)"

locale orchestrator_stores =
  scope_contract "sv_scopes sv" + queue_contract "sv_agentEvents sv" + agent_contract "sv_agents sv"
  for sv :: AgentOrchestratorService
begin

lemmas reads [moves_rules] = Get_quiet Owned_quiet IsDeliverable_quiet eGet_quiet Latest_quiet
  ListAfter_quiet aGet_quiet aList_quiet

lemma safeGetAgent_quiet [moves_rules]: "quiet_op (safeGetAgent sv a)"
  unfolding safeGetAgent_def by (intro moves_rules)

lemma siblings_quiet [moves_rules]: "quiet_op (OwnerlessSiblingScopes sv scope)"
  unfolding OwnerlessSiblingScopes_def Let_def by (intro moves_rules)

lemma lowest_quiet: "quiet_op (lowest_candidate sv terminal n scopes found)"
  by (induction scopes arbitrary: found) (auto intro!: moves_rules Next_quiet)

lemma next_quiet [moves_rules]: "quiet_op (nextDeliverableAcrossScopes sv scope terminal n)"
  unfolding nextDeliverableAcrossScopes_def by (intro moves_rules lowest_quiet)

lemma ack_error_quiet [moves_rules]: "quiet_op (ack_error code msg)"
  unfolding ack_error_def by (intro moves_rules)

lemma admission_quiet: "quiet_op (ack_admission sv input)"
  unfolding ack_admission_def ack_status_check_def ack_candidate_check_def isAckScopeAllowed_def Let_def
  by (intro moves_rules)

lemma claimCursor_quiet: "quiet_op (claimCursor sv scope)"
  unfolding claimCursor_def by (intro moves_rules)

text \<open>The siblings an owner also serves: indexed workspaces of its session that nobody owns.\<close>

lemma siblings_InrD:
  assumes run: "OwnerlessSiblingScopes sv scope w = (Inr siblings, w')"
    and ok: "scopes_ok (w_tables w)" and named: "s_HerdrSessionName scope \<noteq> []"
  shows "\<exists>wss. siblings = map (\<lambda>ws. \<lparr>s_HerdrSessionName = s_HerdrSessionName scope, s_WorkspaceID = ws\<rparr>) wss
    \<and> sorted wss \<and> distinct wss \<and> set wss = ownerless_workspaces (w_tables w) scope"
proof -
  from run obtain owned w1 indexed where
    own: "ss_ListOwnedForSession (sv_scopes sv) (s_HerdrSessionName scope) w = (Inr owned, w1)" and
    idx: "as_List (sv_agents sv) \<lparr>q_All = None, q_HerdrSessionName = Some (s_HerdrSessionName scope),
       q_WorkspaceID = None\<rparr> w1 = (Inr indexed, w')" and
    out: "siblings = map (\<lambda>ws. \<lparr>s_HerdrSessionName = s_HerdrSessionName scope, s_WorkspaceID = ws\<rparr>)
      (filter (\<lambda>ws. ws \<noteq> s_WorkspaceID scope \<and> ws \<notin> set (map (\<lambda>st. s_WorkspaceID (os_Scope st)) owned))
        (sort (remdups (map a_WorkspaceID indexed))))"
    unfolding OwnerlessSiblingScopes_def Let_def by (auto elim!: bind_act_InrE)
  note q = quietD [OF conjunct1 [OF quiet_run [OF Owned_quiet own]]]
  let ?wss = "filter (\<lambda>ws. ws \<noteq> s_WorkspaceID scope \<and> ws \<notin> set (map (\<lambda>st. s_WorkspaceID (os_Scope st)) owned))
        (sort (remdups (map a_WorkspaceID indexed)))"
  have "set ?wss = ownerless_workspaces (w_tables w) scope"
    using Owned_view [OF own ok] aList_rows [OF idx named] q(2,4)
    by (auto simp: ownerless_workspaces_def)
  moreover have "sorted ?wss" "distinct ?wss" by (simp_all add: sorted_wrt_filter)
  ultimately show ?thesis using out by blast
qed

lemma allowed_InrD:
  assumes run: "isAckScopeAllowed sv event input w = (Inr True, w')"
    and ok: "scopes_ok (w_tables w)" and named: "s_HerdrSessionName (oa_Scope input) \<noteq> []"
  shows "e_WorkspaceID event = Some (s_WorkspaceID (oa_Scope input))
    \<or> (\<exists>ws \<in> ownerless_workspaces (w_tables w) (oa_Scope input). e_WorkspaceID event = Some ws)"
proof (cases "e_WorkspaceID event = Some (s_WorkspaceID (oa_Scope input))")
  case False
  with run obtain ws siblings where "e_WorkspaceID event = Some ws"
    "OwnerlessSiblingScopes sv (oa_Scope input) w = (Inr siblings, w')" "\<exists>sc \<in> set siblings. s_WorkspaceID sc = ws"
    unfolding isAckScopeAllowed_def by (auto elim!: bind_act_InrE split: option.splits if_splits)
  with siblings_InrD [OF _ ok named] have
    "\<exists>ws \<in> ownerless_workspaces (w_tables w) (oa_Scope input). e_WorkspaceID event = Some ws" by fastforce
  then show ?thesis by blast
qed simp

lemma status_check_InrD:
  "ack_status_check sv input (mapAgentEvent r) w = (Inr u, w') \<Longrightarrow> may_settle (oa_TerminalID input) r"
  unfolding ack_status_check_def may_settle_def
  by (cases "r_status r") (auto simp: Let_def ack_error_def isPendingOrDelivered_def mapAgentEvent_def split: if_splits)

lemma admission_InrD:
  assumes run: "ack_admission sv input w = (Inr (state, target), w')"
    and ok: "scopes_ok (w_tables w)" and named: "s_HerdrSessionName (oa_Scope input) \<noteq> []"
  shows "\<exists>n pane. scope_view (w_tables w) (oa_Scope input) = Some (n, Some (pane, oa_TerminalID input))
    \<and> state_view state = (n, Some (pane, oa_TerminalID input))
    \<and> (target = None \<longrightarrow> oa_EventID input \<le> n)
    \<and> (\<forall>e. target = Some e \<longrightarrow> n < oa_EventID input \<and> (\<exists>r \<in> set (agent_events (w_tables w)).
          e = mapAgentEvent r \<and> may_ack (w_tables w) input r))"
proof -
  let ?scope = "oa_Scope input"
  from run obtain found w1 where get: "ss_Get (sv_scopes sv) ?scope w = (Inr found, w1)"
    unfolding ack_admission_def by (auto elim: bind_act_InrE)
  note q1 = quiet_run [OF Get_quiet get]
  from run get obtain ow where st: "found = Some state" "os_Owner state = Some ow" "o_TerminalID ow = oa_TerminalID input"
    unfolding ack_admission_def ack_error_def
    by (auto elim!: bind_act_InrE split: option.splits if_splits)
  have view: "scope_view (w_tables w) ?scope = Some (os_AckedEventID state, Some (o_PaneID ow, oa_TerminalID input))"
    using Get_view [OF get] st by (simp add: state_view_def)
  show ?thesis
  proof (cases target)
    case None
    with run get st have "oa_EventID input \<le> os_AckedEventID state"
      unfolding ack_admission_def ack_error_def
      by (auto elim!: bind_act_InrE split: option.splits if_splits)
    with None view st show ?thesis by (simp add: state_view_def)
  next
    case (Some e)
    with run get st obtain w2 w3 u w4 where
      ev: "on_error (es_Get (sv_agentEvents sv) (oa_EventID input))
           (\<lambda>_. ack_error AckEventNotFound MsgAckOutOfOrder) w1 = (Inr e, w2)" and
      session: "e_HerdrSessionName e = s_HerdrSessionName ?scope" and
      allowed: "isAckScopeAllowed sv e input w2 = (Inr True, w3)" and
      status: "ack_status_check sv input e w3 = (Inr u, w4)" and
      ahead: "os_AckedEventID state < oa_EventID input"
      unfolding ack_admission_def ack_error_def
      by (auto elim!: bind_act_InrE split: option.splits if_splits)
    from ev have get_e: "es_Get (sv_agentEvents sv) (oa_EventID input) w1 = (Inr e, w2)"
      by (auto simp: on_error_def catch_act_def ack_error_def fail_act_def
          split: prod.splits sum.splits go_error.splits)
    have q2: "quiet (w_tables w) (w_tables w2)"
      using q1 quiet_run [OF eGet_quiet get_e] quiet_trans by blast
    from eGet_row [OF get_e] obtain r where r: "r \<in> set (agent_events (w_tables w))"
      "r_id r = oa_EventID input" "e = mapAgentEvent r" using quietD(1) [OF conjunct1 [OF q1]] by auto
    have "ownerless_workspaces (w_tables w2) ?scope = ownerless_workspaces (w_tables w) ?scope"
      using quietD [OF q2] by (simp add: ownerless_workspaces_def owned_by_def)
    with allowed_InrD [OF allowed _ named] quietD(7) [OF q2] ok r(3) have
      "r_workspaceID r = Some (s_WorkspaceID ?scope)
       \<or> (\<exists>ws \<in> ownerless_workspaces (w_tables w) ?scope. r_workspaceID r = Some ws)"
      by (simp add: mapAgentEvent_def)
    with r session status_check_InrD status have "may_ack (w_tables w) input r"
      by (auto simp: may_ack_def mapAgentEvent_def)
    with Some view st ahead r show ?thesis by (auto simp: state_view_def)
  qed
qed

text \<open>Settling: in the owner's workspace the cursor and every row up to it, elsewhere one row.\<close>

lemma settle_InrD:
  assumes run: "ack_settle sv input state event w = (Inr st, w')" and ok: "scopes_ok (w_tables w)"
  shows "if e_WorkspaceID event = Some (s_WorkspaceID (oa_Scope input))
    then agent_events (w_tables w') =
        update_where (marked (oa_EventID input) (Some (oa_Scope input))) ack_row (agent_events (w_tables w))
      \<and> (\<exists>n pane. scope_view (w_tables w) (oa_Scope input) = Some (n, Some (pane, oa_TerminalID input))
          \<and> scope_view (w_tables w') = (scope_view (w_tables w))
              (oa_Scope input \<mapsto> (max n (oa_EventID input), Some (pane, oa_TerminalID input)))
          \<and> state_view st = (max n (oa_EventID input), Some (pane, oa_TerminalID input)))
    else agent_events (w_tables w') =
        update_where (marked (oa_EventID input) None) ack_row (agent_events (w_tables w))
      \<and> scope_view (w_tables w') = scope_view (w_tables w)
      \<and> (scope_view (w_tables w) (oa_Scope input) = Some (state_view state)
          \<longrightarrow> state_view st = state_view state)"
proof (cases "e_WorkspaceID event = Some (s_WorkspaceID (oa_Scope input))")
  case True
  with run obtain u w1 where
    mark: "es_MarkAcked (sv_agentEvents sv) (oa_EventID input) (Some (oa_Scope input)) w = (Inr u, w1)" and
    ack: "ss_Ack (sv_scopes sv) \<lparr>ai_Scope = oa_Scope input, ai_EventID = oa_EventID input,
             ai_TerminalID = oa_TerminalID input\<rparr> w1 = (Inr st, w')"
    unfolding ack_settle_def by (auto elim!: bind_act_InrE)
  note rows = MarkAcked_rows [OF mark]
  have view: "scope_view (w_tables w1) = scope_view (w_tables w)" "scopes_ok (w_tables w1)"
    using ok by (simp_all add: rows scope_view_def scopes_ok_def fun_eq_iff)
  have "agent_events (w_tables w1) =
      update_where (marked (oa_EventID input) (Some (oa_Scope input))) ack_row (agent_events (w_tables w))"
    by (simp add: rows)
  then show ?thesis using Ack_view [OF ack view(2)] Ack_events [OF ack] True by (simp add: view(1))
next
  case False
  with run obtain u w1 found where
    mark: "es_MarkAcked (sv_agentEvents sv) (oa_EventID input) None w = (Inr u, w1)" and
    get: "ss_Get (sv_scopes sv) (oa_Scope input) w1 = (Inr found, w')" and
    st: "st = (case found of None \<Rightarrow> state | Some cur \<Rightarrow> cur)"
    unfolding ack_settle_def by (auto elim!: bind_act_InrE)
  note rows = MarkAcked_rows [OF mark]
  note q = quietD [OF conjunct1 [OF quiet_run [OF Get_quiet get]]]
  have "scope_view (w_tables w1) = scope_view (w_tables w)"
    by (simp add: rows scope_view_def fun_eq_iff)
  then show ?thesis using Get_view [OF get] q(1,5) rows st False by (auto split: option.splits)
qed

lemma settle_error:
  assumes "ack_settle sv input state event w = (Inl err, w')"
  shows "err \<noteq> ErrAck code msg"
  using assms unfolding ack_settle_def
  by (auto elim!: bind_act_InlE split: if_splits simp: return_act_def
      dest: MarkAcked_error Get_error Ack_error)

lemma svc_Ack_Inr: "svc_Ack sv input w = (Inr st, w') \<longleftrightarrow> svc_ack_core sv input w = (Inr st, w')"
proof -
  have "bind_act m (\<lambda>_. fail_act err) v \<noteq> (Inr a, v')" for m :: "'x op" and err :: go_error and v v' a
    by (auto elim!: bind_act_InrE)
  then show ?thesis
    by (auto simp: svc_Ack_def catch_act_def split: prod.splits sum.splits go_error.splits elim!: bind_act_InrE)
qed

lemma svc_Ack_InrD:
  assumes run: "svc_Ack sv input w = (Inr st, w')"
    and ok: "scopes_ok (w_tables w)" and named: "s_HerdrSessionName (oa_Scope input) \<noteq> []"
  shows "\<exists>n pane. scope_view (w_tables w) (oa_Scope input) = Some (n, Some (pane, oa_TerminalID input))
    \<and> (oa_EventID input \<le> n \<longrightarrow> quiet (w_tables w) (w_tables w')
        \<and> state_view st = (n, Some (pane, oa_TerminalID input)))
    \<and> (n < oa_EventID input \<longrightarrow> (\<exists>r \<in> set (agent_events (w_tables w)). may_ack (w_tables w) input r
        \<and> (if r_workspaceID r = Some (s_WorkspaceID (oa_Scope input))
           then agent_events (w_tables w') = update_where (marked (oa_EventID input) (Some (oa_Scope input)))
                  ack_row (agent_events (w_tables w))
             \<and> scope_view (w_tables w') = (scope_view (w_tables w))
                  (oa_Scope input \<mapsto> (oa_EventID input, Some (pane, oa_TerminalID input)))
             \<and> state_view st = (oa_EventID input, Some (pane, oa_TerminalID input))
           else agent_events (w_tables w') = update_where (marked (oa_EventID input) None)
                  ack_row (agent_events (w_tables w))
             \<and> scope_view (w_tables w') = scope_view (w_tables w)
             \<and> state_view st = (n, Some (pane, oa_TerminalID input)))))"
proof -
  from run obtain state target w1 where
    adm: "ack_admission sv input w = (Inr (state, target), w1)" and
    rest: "(case target of None \<Rightarrow> return_act state | Some event \<Rightarrow> ack_settle sv input state event) w1
      = (Inr st, w')"
    unfolding svc_Ack_Inr svc_ack_core_def by (auto elim!: bind_act_InrE)
  note q = conjunct1 [OF quiet_run [OF admission_quiet adm]]
  from admission_InrD [OF adm ok named] obtain n pane where
    view: "scope_view (w_tables w) (oa_Scope input) = Some (n, Some (pane, oa_TerminalID input))"
      "state_view state = (n, Some (pane, oa_TerminalID input))" and
    none: "target = None \<Longrightarrow> oa_EventID input \<le> n" and
    some: "\<And>e. target = Some e \<Longrightarrow> n < oa_EventID input \<and> (\<exists>r \<in> set (agent_events (w_tables w)).
          e = mapAgentEvent r \<and> may_ack (w_tables w) input r)" by blast
  show ?thesis
  proof (cases target)
    case None
    with rest none q view show ?thesis by auto
  next
    case (Some e)
    with rest have settle: "ack_settle sv input state e w1 = (Inr st, w')" by simp
    from Some some obtain r where r: "r \<in> set (agent_events (w_tables w))" "e = mapAgentEvent r"
      "may_ack (w_tables w) input r" and ahead: "n < oa_EventID input" by blast
    have "scopes_ok (w_tables w1)" using ok quietD(7) [OF q] by simp
    from settle_InrD [OF settle this] r view ahead quietD(1,5) [OF q] show ?thesis
      by (intro exI [of _ n] exI [of _ pane] conjI impI bexI [of _ r])
        (simp_all add: max_def split: if_split_asm)
  qed
qed

lemma svc_Ack_rejected:
  assumes run: "svc_Ack sv input w = (Inl (ErrAck code msg), w')"
  shows "quiet (w_tables w) (w_tables w')"
proof -
  have log: "quiet_op (bind_act (ss_Get (sv_scopes sv) (oa_Scope input)) (\<lambda>current.
           bind_act (case current of None \<Rightarrow> return_act None
             | Some cur \<Rightarrow> (case os_Owner cur of None \<Rightarrow> return_act None
                 | Some ow \<Rightarrow> if o_TerminalID ow = oa_TerminalID input
                     then nextDeliverableAcrossScopes sv (oa_Scope input) (oa_TerminalID input)
                       (os_AckedEventID cur)
                     else return_act None)) (\<lambda>_. fail_act err)))" for err
    by (intro moves_rules)
  from run obtain code' msg' w1 where core: "svc_ack_core sv input w = (Inl (ErrAck code' msg'), w1)"
    and q1: "quiet (w_tables w1) (w_tables w')"
    by (auto simp: svc_Ack_def catch_act_def fail_act_def split: prod.splits sum.splits go_error.splits
        dest!: quiet_run [OF log])
  have "ack_admission sv input w = (Inl (ErrAck code' msg'), w1)"
    using core unfolding svc_ack_core_def
    by (auto elim!: bind_act_InlE split: option.splits dest: settle_error simp: return_act_def)
  with q1 quiet_run [OF admission_quiet] quiet_trans show ?thesis by blast
qed

subsubsection \<open>Pending\<close>

lemma listAfterAcross_quiet [moves_rules]: "quiet_op (listAfterAcrossScopes sv scopes li)"
  unfolding listAfterAcrossScopes_def Let_def by (auto intro!: moves_rules split: list.split)

lemma listAfterAcross_rows:
  assumes run: "listAfterAcrossScopes sv scopes li w = (Inr es, w')" and e: "e \<in> set es"
  shows "\<exists>r \<in> set (agent_events (w_tables w)). \<exists>sc \<in> set scopes.
    e = mapAgentEvent r \<and> listed (in_scope_input li sc) r"
proof (cases "\<exists>sc. scopes = [sc]")
  case True
  with run e show ?thesis unfolding listAfterAcrossScopes_def by (auto dest!: ListAfter_rows)
next
  case False
  have "listAfterAcrossScopes sv scopes li = bind_act
      (collect scopes (\<lambda>scope. es_ListAfter (sv_agentEvents sv) (in_scope_input li scope))) (\<lambda>lists.
            let merged = merge_events (concat lists);
                limit = (case l_Limit li of None \<Rightarrow> 100 | Some n \<Rightarrow> n)
            in if int (length merged) \<le> limit then return_act merged
               else if limit < 0 then fail_act (ErrPanic ''slice bounds out of range'')
               else return_act (take (nat limit) merged))"
    using False by (auto simp: listAfterAcrossScopes_def split: list.split)
  with run obtain lists w1 where
    lists: "collect scopes (\<lambda>scope. es_ListAfter (sv_agentEvents sv) (in_scope_input li scope)) w = (Inr lists, w1)"
    and es: "set es \<subseteq> set (merge_events (concat lists))"
    by (auto simp: Let_def set_take_subset elim!: bind_act_InrE split: if_splits)
  have "quiet (w_tables w) (w_tables w1) \<and> list_all2 (\<lambda>sc es. \<forall>e \<in> set es.
      \<exists>r \<in> set (agent_events (w_tables w)). e = mapAgentEvent r \<and> listed (in_scope_input li sc) r) scopes lists"
    using lists qui.refl_Q
  proof (rule collect_reads)
    fix sc v es v' assume q: "quiet (w_tables w) (w_tables v)"
      and run: "es_ListAfter (sv_agentEvents sv) (in_scope_input li sc) v = (Inr es, v')"
    show "quiet (w_tables w) (w_tables v') \<and> (\<forall>e \<in> set es.
      \<exists>r \<in> set (agent_events (w_tables w)). e = mapAgentEvent r \<and> listed (in_scope_input li sc) r)"
      using ListAfter_rows [OF run] quiet_run [OF ListAfter_quiet run] quiet_trans [OF q] quietD(1) [OF q]
      by simp
  qed
  moreover from e es have "e \<in> set (concat lists)" using set_merge_events by blast
  ultimately show ?thesis by (fastforce simp: list_all2_conv_all_nth in_set_conv_nth)
qed

text \<open>What the scan of \<open>Pending\<close> collects: rows past the cursor, in scope, of other terminals.\<close>

lemma pending_batch_quiet [moves_rules]:
  "quiet_op (pending_batch sv valid ws terminal limit batch pending)"
  by (induction batch arbitrary: pending) (auto simp: Let_def intro!: moves_rules)

lemma pending_batch_rows:
  assumes "pending_batch sv valid ws terminal limit batch pending w = (Inr found, w')" and "e \<in> set found"
  shows "e \<in> set pending \<or> (e \<in> set batch \<and> e_TerminalID e \<noteq> None \<and> e_TerminalID e \<noteq> Some terminal)"
  using assms
proof (induction batch arbitrary: pending w)
  case (Cons event batch)
  let ?p = "\<lambda>b. if b \<and> e_TerminalID event \<noteq> None \<and> e_TerminalID event \<noteq> Some terminal
    then pending @ [event] else pending"
  from Cons.prems(1) obtain b w1 where
    "(if int (length (?p b)) = limit then return_act (?p b)
      else pending_batch sv valid ws terminal limit batch (?p b)) w1 = (Inr found, w')"
    by (simp only: pending_batch.simps Let_def) (erule bind_act_InrE)
  then consider "found = ?p b" | "pending_batch sv valid ws terminal limit batch (?p b) w1 = (Inr found, w')"
    by (simp split: if_split_asm)
  then have "e \<in> set (?p b) \<or> (e \<in> set batch \<and> e_TerminalID e \<noteq> None \<and> e_TerminalID e \<noteq> Some terminal)"
  proof cases
    case 1
    then show ?thesis using Cons.prems(2) by simp
  next
    case 2
    then show ?thesis using Cons.IH Cons.prems(2) by blast
  qed
  then show ?case by (auto split: if_split_asm)
qed simp

lemma pending_loop_quiet [moves_rules]:
  "quiet_op (pending_loop fuel sv scopes valid ws terminal limit a scanned pending)"
  by (induction fuel arbitrary: a scanned pending) (auto intro!: moves_rules)

lemma pending_loop_rows:
  assumes "pending_loop fuel sv scopes valid ws terminal limit a scanned pending w = (Inr found, w')"
    and "n \<le> a" and named: "\<forall>sc \<in> set scopes. named_scope sc"
    and "\<forall>e \<in> set pending. \<exists>r \<in> set (agent_events (w_tables w)). e = mapAgentEvent r \<and> awaits n scopes terminal r"
  shows "\<forall>e \<in> set found. \<exists>r \<in> set (agent_events (w_tables w)). e = mapAgentEvent r \<and> awaits n scopes terminal r"
  using assms(1,2,4)
proof (induction fuel arbitrary: a scanned pending w)
  case (Suc fuel)
  let ?li = "\<lparr>l_AfterEventID = Some a, l_HerdrSessionName = None,
         l_Limit = Some (min 100 (1000 - scanned)), l_OwnerTerminalID = Some terminal, l_WorkspaceID = None\<rparr>"
  show ?case
  proof (cases "int (length pending) < limit \<and> scanned < 1000")
    case False
    with Suc.prems show ?thesis by simp
  next
    case True
    with Suc.prems(1) obtain batch w1 where
      list: "listAfterAcrossScopes sv scopes ?li w = (Inr batch, w1)" and
      rest: "(if batch = [] then return_act pending
      else bind_act (pending_batch sv valid ws terminal limit batch pending) (\<lambda>pending'.
        pending_loop fuel sv scopes valid ws terminal limit (e_ID (last batch))
          (scanned + int (length batch)) pending')) w1 = (Inr found, w')"
      by (auto elim!: bind_act_InrE)
    have batch: "\<exists>r \<in> set (agent_events (w_tables w)). e = mapAgentEvent r \<and> n < r_id r
        \<and> (\<exists>sc \<in> set scopes. in_scope sc r)" if "e \<in> set batch" for e
    proof -
      from listAfterAcross_rows [OF list that] obtain r sc where r: "r \<in> set (agent_events (w_tables w))"
        "sc \<in> set scopes" "e = mapAgentEvent r" "listed (in_scope_input ?li sc) r" by blast
      with named Suc.prems(2) have "n < r_id r" "in_scope sc r"
        by (auto simp: listed_def in_scope_input_def optional_clause_def in_scope_def named_scope_def)
      with r show ?thesis by blast
    qed
    note q1 = quietD(1) [OF conjunct1 [OF quiet_run [OF listAfterAcross_quiet list]]]
    show ?thesis
    proof (cases "batch = []")
      case True
      with rest Suc.prems(3) show ?thesis by simp
    next
      case False
      with rest obtain pending' w2 where
        step: "pending_batch sv valid ws terminal limit batch pending w1 = (Inr pending', w2)" and
        loop: "pending_loop fuel sv scopes valid ws terminal limit (e_ID (last batch))
          (scanned + int (length batch)) pending' w2 = (Inr found, w')"
        by (auto elim!: bind_act_InrE)
      note q2 = quietD(1) [OF conjunct1 [OF quiet_run [OF pending_batch_quiet step]]]
      have "n \<le> e_ID (last batch)" using batch [OF last_in_set [OF False]] by auto
      moreover have "\<forall>e \<in> set pending'. \<exists>r \<in> set (agent_events (w_tables w2)).
          e = mapAgentEvent r \<and> awaits n scopes terminal r"
        using pending_batch_rows [OF step] batch Suc.prems(3) q1 q2 by (fastforce simp: awaits_def)
      ultimately show ?thesis using Suc.IH [OF loop] q1 q2 by simp
    qed
  qed
qed simp

lemma svc_Pending_InrD:
  assumes run: "svc_Pending sv input w = (Inr recs, w')" and e: "e \<in> set recs"
    and ok: "events_ok (w_tables w)"
    and named: "\<forall>sc \<in> set (op_Scope input # op_ExtraScopes input). named_scope sc"
  shows "\<exists>n pane. scope_view (w_tables w) (op_Scope input) = Some (n, Some (pane, op_TerminalID input))
    \<and> n < e_ID e \<and> e_Status e = Some AgentEventStatusDelivered
    \<and> e_DeliveredToTerminalID e = Some (op_TerminalID input)
    \<and> (\<exists>sc \<in> set (op_Scope input # op_ExtraScopes input). e_HerdrSessionName e = s_HerdrSessionName sc
        \<and> e_WorkspaceID e = Some (s_WorkspaceID sc))"
proof -
  let ?scopes = "mergeScopes (op_Scope input # op_ExtraScopes input)"
  let ?limit = "case op_Limit input of None \<Rightarrow> 100 | Some n \<Rightarrow> n"
  from run e obtain m w1 st w2 ow lists w3 pending w4 where
    reclaim: "es_ReclaimDelivered (sv_agentEvents sv) 60000 w = (Inr m, w1)" and
    get: "ss_Get (sv_scopes sv) (op_Scope input) w1 = (Inr (Some st), w2)" and
    ow: "os_Owner st = Some ow" "o_TerminalID ow = op_TerminalID input" and
    lists: "collect ?scopes (\<lambda>scope. as_List (sv_agents sv)
                \<lparr>q_All = None, q_HerdrSessionName = Some (s_HerdrSessionName scope),
                 q_WorkspaceID = Some (s_WorkspaceID scope)\<rparr>) w2 = (Inr lists, w3)" and
    loop: "pending_loop 1001 sv ?scopes (concat lists) (s_WorkspaceID (op_Scope input))
                (op_TerminalID input) ?limit (os_AckedEventID st) 0 [] w3 = (Inr pending, w4)" and
    some: "pending \<noteq> []" and
    reserve: "es_ReservePending (sv_agentEvents sv) (op_TerminalID input) ?limit (map e_ID pending) w4 = (Inr recs, w')"
    unfolding svc_Pending_def Let_def
    by (auto elim!: bind_act_InrE split: option.split_asm if_split_asm)
  have ok1: "events_ok (w_tables w1)" using Reclaim_ok [OF reclaim ok] .
  have view: "scope_view (w_tables w) (op_Scope input)
      = Some (os_AckedEventID st, Some (o_PaneID ow, op_TerminalID input))"
    using Get_view [OF get] ow Reclaim_scopes [OF reclaim] by (simp add: scope_view_def state_view_def)
  have "quiet_op (collect ?scopes (\<lambda>scope. as_List (sv_agents sv)
                \<lparr>q_All = None, q_HerdrSessionName = Some (s_HerdrSessionName scope),
                 q_WorkspaceID = Some (s_WorkspaceID scope)\<rparr>))" by (intro moves_rules)
  from quiet_run [OF this lists] quiet_run [OF Get_quiet get]
  have q3: "quiet (w_tables w1) (w_tables w3)" using quiet_trans by blast
  with quiet_run [OF pending_loop_quiet loop] have q4: "quiet (w_tables w1) (w_tables w4)"
    using quiet_trans by blast
  have "\<forall>sc \<in> set ?scopes. named_scope sc" using named set_mergeScopes by blast
  from pending_loop_rows [OF loop order_refl this] have "\<forall>e \<in> set pending. \<exists>r \<in> set (agent_events (w_tables w3)). e = mapAgentEvent r
      \<and> awaits (os_AckedEventID st) ?scopes (op_TerminalID input) r"
    by simp
  then have rows: "\<forall>i \<in> set (map e_ID pending). \<exists>r \<in> set (agent_events (w_tables w4)). r_id r = i
      \<and> awaits (os_AckedEventID st) ?scopes (op_TerminalID input) r"
    using quietD(1) [OF q3] quietD(1) [OF q4] by fastforce
  have ok4: "events_ok (w_tables w4)" using ok1 quietD(6) [OF q4] by simp
  from Reserve_rows [OF reserve ok4 _ e] some obtain r where r: "r \<in> set (agent_events (w_tables w4))"
    "r_id r \<in> set (map e_ID pending)" "delivered_from (op_TerminalID input) r e" by auto
  with rows events_ok_unique [OF ok4] have "awaits (os_AckedEventID st) ?scopes (op_TerminalID input) r"
    by metis
  with r(3) view set_mergeScopes show ?thesis
    by (fastforce simp: awaits_def delivered_from_def in_scope_def)
qed

text \<open>A caller that does not own the scope is handed nothing.\<close>

lemma svc_Pending_not_owner:
  assumes run: "svc_Pending sv input w = (Inr recs, w')"
    and other: "\<not> owned_by (w_tables w) (op_Scope input) (op_TerminalID input)"
  shows "recs = []"
proof -
  from run obtain m w1 found w2 where
    reclaim: "es_ReclaimDelivered (sv_agentEvents sv) 60000 w = (Inr m, w1)" and
    get: "ss_Get (sv_scopes sv) (op_Scope input) w1 = (Inr found, w2)"
    unfolding svc_Pending_def by (auto elim!: bind_act_InrE)
  have "case found of None \<Rightarrow> True | Some st \<Rightarrow> (case os_Owner st of None \<Rightarrow> True
      | Some ow \<Rightarrow> o_TerminalID ow \<noteq> op_TerminalID input)"
    using Get_view [OF get] other Reclaim_scopes [OF reclaim]
    by (auto simp: owned_by_def scope_view_def state_view_def split: option.split)
  with run reclaim get show ?thesis
    unfolding svc_Pending_def by (auto split: option.splits)
qed

subsubsection \<open>Claim\<close>

lemma svc_Claim_InrD:
  assumes run: "svc_Claim sv scope pane terminal conn w = (Inr ch, w')" and named: "named_scope scope"
  shows "\<exists>n. scope_view (w_tables w') = (scope_view (w_tables w))(scope \<mapsto> (n, Some (pane, terminal)))
    \<and> agent_events (w_tables w') = agent_events (w_tables w)
    \<and> (\<forall>k ow. scope_view (w_tables w) scope = Some (k, ow) \<longrightarrow> n = k)
    \<and> (scope_view (w_tables w) scope = None
        \<longrightarrow> (\<forall>r \<in> set (agent_events (w_tables w)). in_scope scope r \<longrightarrow> r_id r \<le> n))"
proof -
  from run obtain n w1 ch' where cursor: "claimCursor sv scope w = (Inr n, w1)" and
    claim: "ss_Claim (sv_scopes sv) \<lparr>ci_Scope = scope, ci_AckedEventID = n, ci_PaneID = pane,
       ci_TerminalID = terminal, ci_OwnerConnected = conn\<rparr> w1 = (Inr ch', w')"
    unfolding svc_Claim_def by (auto elim!: bind_act_InrE)
  note q1 = quietD [OF conjunct1 [OF quiet_run [OF claimCursor_quiet cursor]]]
  from cursor obtain found w0 where get: "ss_Get (sv_scopes sv) scope w = (Inr found, w0)"
    unfolding claimCursor_def by (auto elim!: bind_act_InrE)
  note q0 = quietD(1) [OF conjunct1 [OF quiet_run [OF Get_quiet get]]]
  have kept: "n = k" if "scope_view (w_tables w) scope = Some (k, ow)" for k ow
    using that Get_view [OF get] cursor get unfolding claimCursor_def by (auto simp: state_view_def)
  have fresh: "r_id r \<le> n" if "scope_view (w_tables w) scope = None" "r \<in> set (agent_events (w_tables w))"
    "in_scope scope r" for r
  proof -
    have "es_LatestEventID (sv_agentEvents sv) \<lparr>q_All = None,
        q_HerdrSessionName = Some (s_HerdrSessionName scope), q_WorkspaceID = Some (s_WorkspaceID scope)\<rparr> w0 = (Inr n, w1)"
      using that(1) Get_view [OF get] cursor get unfolding claimCursor_def by auto
    from Latest_max [OF this] that(2,3) q0 show ?thesis by (simp add: in_scope_def)
  qed
  show ?thesis using Claim_view [OF claim] Claim_events [OF claim] q1(1,5) kept fresh by auto
qed

end

subsection \<open>The stores keep the laws\<close>

text \<open>Actions that never answer with an acknowledgement error.\<close>

definition no_ack :: "'a op \<Rightarrow> bool" where
  "no_ack m \<longleftrightarrow> (\<forall>w e w' code msg. m w = (Inl e, w') \<longrightarrow> e \<noteq> ErrAck code msg)"

lemma no_ackD: "no_ack m \<Longrightarrow> m w = (Inl e, w') \<Longrightarrow> e \<noteq> ErrAck code msg"
  unfolding no_ack_def by blast

named_theorems no_ack_rules

lemma no_ack_query [no_ack_rules]: "no_ack (query_sql f)"
  by (auto simp: no_ack_def query_sql_def exec_sql_def Let_def)

lemma no_ack_change [no_ack_rules]: "no_ack (change_sql f)"
  by (auto simp: no_ack_def change_sql_def exec_sql_def Let_def split: prod.splits)

lemma no_ack_return [no_ack_rules]: "no_ack (return_act a)"
  by (simp add: no_ack_def return_act_def)

lemma no_ack_text [no_ack_rules]: "no_ack (fail_act (ErrText msg))"
  by (simp add: no_ack_def fail_act_def)

lemma no_ack_wall [no_ack_rules]: "no_ack wall_clock"
  by (simp add: no_ack_def)

lemma no_ack_mapScope [no_ack_rules]: "no_ack (of_sum (mapScope r))"
  by (auto simp: no_ack_def of_sum_def mapScope_def fail_act_def return_act_def)

lemma no_ack_bind [no_ack_rules]: "no_ack m \<Longrightarrow> (\<And>a. no_ack (k a)) \<Longrightarrow> no_ack (bind_act m k)"
  unfolding no_ack_def by (blast elim: bind_act_InlE)

lemma no_ack_option [no_ack_rules]:
  "no_ack n \<Longrightarrow> (\<And>x. no_ack (f x)) \<Longrightarrow> no_ack (case v of None \<Rightarrow> n | Some x \<Rightarrow> f x)"
  by (cases v) auto

lemma no_ack_if [no_ack_rules]: "no_ack m \<Longrightarrow> no_ack n \<Longrightarrow> no_ack (if b then m else n)"
  by simp

lemma no_ack_tx [no_ack_rules]:
  assumes "no_ack fn"
  shows "no_ack (RunSqliteTransaction fn)"
  using assms
  by (auto simp: no_ack_def RunSqliteTransaction_def begin_immediate_def commit_tx_def Let_def
      split: prod.splits sum.splits if_splits)

lemma no_ack_scope_Get: "no_ack (scope_Get scope)"
  unfolding scope_Get_def getRow_def by (intro no_ack_rules)

lemma no_ack_scope_Ack: "no_ack (scope_Ack input)"
  unfolding scope_Ack_def ackCore_def getRow_def by (intro no_ack_rules no_ack_scope_Get)

lemma no_ack_MarkAcked: "no_ack (MarkAcked eventID scope)"
  unfolding MarkAcked_def by (intro no_ack_rules)

text \<open>The scope store leaves the event table alone, and reclaiming leaves the scope table alone.\<close>

interpretation evt: table_discipline "\<lambda>t t'. agent_events t' = agent_events t"
  by unfold_locales auto

interpretation scs: table_discipline "\<lambda>t t'. agent_orchestrator_scopes t' = agent_orchestrator_scopes t"
  by unfold_locales auto

lemma events_frame_tx:
  assumes fn: "moves (inside Q) fn" and run: "RunSqliteTransaction fn w = (Inr a, w')"
  shows "Q (w_tables w) (w_tables w')"
proof -
  from run obtain w2 where "fn ((spend_fault w)\<lparr>w_open := Some (w_tables w)\<rparr>) = (Inr a, w2)"
    "w' = (spend_fault w2)\<lparr>w_open := None\<rparr>" by (rule tx_InrE)
  with moves_inside_open [OF fn] show ?thesis by fastforce
qed

lemma evt_of_quiet: "quiet_op m \<Longrightarrow> moves (inside (\<lambda>t t'. agent_events t' = agent_events t)) m"
  by (auto simp: moves_def inside_def dest: quietD(1))

lemma evt_ackCore: "moves (inside (\<lambda>t t'. agent_events t' = agent_events t)) (ackCore input)"
  unfolding ackCore_def getRow_def
  by (intro moves_rules evt.moves_change evt_of_quiet [OF quiet_scope_Get]) (simp add: update_scopes_def)

lemma evt_scope_claim: "moves (inside (\<lambda>t t'. agent_events t' = agent_events t)) (scope_claim input allow)"
  unfolding scope_claim_def getRow_def
  by (intro moves_rules evt.moves_change evt.moves_exec evt_of_quiet [OF quiet_scope_Get]
      evt_of_quiet [OF quiet_of_sum])
    (auto simp: update_scopes_def insert_scope_def split: if_splits)

lemma scs_logical_now: "moves (inside (\<lambda>t t'. agent_orchestrator_scopes t' = agent_orchestrator_scopes t)) logical_now"
  using quiet_logical_now by (auto simp: moves_def inside_def dest: quietD(3))

lemma scs_reclaim: "moves (inside (\<lambda>t t'. agent_orchestrator_scopes t' = agent_orchestrator_scopes t))
    (reclaimDeliveredCore timeoutMs)"
  unfolding reclaimDeliveredCore_def
  by (intro moves_rules scs.moves_change scs_logical_now)
    (simp_all add: reclaim_closed_def reclaim_ownerless_def update_events_def)

lemma list_all2_map_eq: "list_all2 (\<lambda>x y. g y = f x) xs ys \<Longrightarrow> map g ys = map f xs"
  by (induction rule: list_all2_induct) simp_all

lemma owned_row_iff:
  assumes ok: "scopes_ok t"
  shows "(\<exists>c \<in> set (agent_orchestrator_scopes t). scope_of c = scope \<and> owned_row c)
    \<longleftrightarrow> (\<exists>terminal. owned_by t scope terminal)"
proof
  assume "\<exists>c \<in> set (agent_orchestrator_scopes t). scope_of c = scope \<and> owned_row c"
  then obtain c where c: "c \<in> set (agent_orchestrator_scopes t)" "scope_of c = scope" "owned_row c" by blast
  have "find (scope_is scope) (agent_orchestrator_scopes t) = Some c"
    using find_distinct [OF _ c(1), of scope_of] ok c(2) by (simp add: scope_is_iff [abs_def] scopes_ok_def)
  with c ok show "\<exists>terminal. owned_by t scope terminal"
    by (auto simp: owned_by_def scope_view_def row_view_def owned_row_def scopes_ok_def paired_def)
next
  assume "\<exists>terminal. owned_by t scope terminal"
  then obtain c where "find (scope_is scope) (agent_orchestrator_scopes t) = Some c" "owned_row c"
    by (auto simp: owned_by_def scope_view_def row_view_def owned_row_def split: option.splits)
  then show "\<exists>c \<in> set (agent_orchestrator_scopes t). scope_of c = scope \<and> owned_row c"
    by (auto simp: scope_is_iff dest!: find_SomeD)
qed

lemma ListOwnedForSession_InrD:
  assumes run: "ListOwnedForSession session w = (Inr owned, w')" and ok: "scopes_ok (w_tables w)"
  shows "ws \<in> (\<lambda>st. s_WorkspaceID (os_Scope st)) ` set owned
    \<longleftrightarrow> (\<exists>terminal. owned_by (w_tables w) \<lparr>s_HerdrSessionName = session, s_WorkspaceID = ws\<rparr> terminal)"
proof -
  let ?rows = "filter (\<lambda>c. c_herdrSessionName c = session \<and> owned_row c) (agent_orchestrator_scopes (w_tables w))"
  from run obtain w1 where all: "collect ?rows (\<lambda>r. of_sum (mapScope r)) w1 = (Inr owned, w')"
    unfolding ListOwnedForSession_def scanScopes_def by (auto elim!: bind_act_InrE simp: query_sql_Inr)
  have "True \<and> list_all2 (\<lambda>r st. os_Scope st = scope_of r) ?rows owned"
    using all TrueI by (rule collect_reads) (auto dest!: of_sum_InrD mapScope_InrD)
  then have "map os_Scope owned = map scope_of ?rows" by (auto intro: list_all2_map_eq)
  then have "s_WorkspaceID ` set (map os_Scope owned) = s_WorkspaceID ` set (map scope_of ?rows)" by simp
  then have "(\<lambda>st. s_WorkspaceID (os_Scope st)) ` set owned = (s_WorkspaceID \<circ> scope_of) ` set ?rows"
    by (simp add: image_image)
  moreover have "ws \<in> (s_WorkspaceID \<circ> scope_of) ` set ?rows
      \<longleftrightarrow> (\<exists>c \<in> set (agent_orchestrator_scopes (w_tables w)).
        scope_of c = \<lparr>s_HerdrSessionName = session, s_WorkspaceID = ws\<rparr> \<and> owned_row c)"
    by (auto simp: scope_of_def)
  moreover have "\<dots> \<longleftrightarrow> (\<exists>terminal. owned_by (w_tables w)
      \<lparr>s_HerdrSessionName = session, s_WorkspaceID = ws\<rparr> terminal)"
    by (rule owned_row_iff [OF ok])
  ultimately show ?thesis by simp
qed


lemma ListAfter_InrD:
  assumes "ListAfter input w = (Inr es, w')" and "e \<in> set es"
  shows "\<exists>r \<in> set (agent_events (w_tables w)). e = mapAgentEvent r \<and> listed input r"
proof -
  from assms(1) obtain now w1 where clock: "logical_now w = (Inr now, w1)" and
    es: "es = map mapAgentEvent (sql_limit (case l_Limit input of None \<Rightarrow> 100 | Some n \<Rightarrow> n)
      (events_asc (\<lambda>r. (case l_AfterEventID input of None \<Rightarrow> 0 | Some i \<Rightarrow> i) < r_id r
        \<and> scan_admits now (l_OwnerTerminalID input) r
        \<and> optional_clause (l_HerdrSessionName input) (\<lambda>v. r_herdrSessionName r = v)
        \<and> optional_clause (l_WorkspaceID input) (\<lambda>v. r_workspaceID r = Some v)) (w_tables w1)))"
    unfolding ListAfter_def Let_def by (auto elim!: bind_act_InrE simp: query_sql_Inr)
  note q = quietD(1) [OF conjunct1 [OF quiet_run [OF quiet_logical_now clock]]]
  from assms(2) obtain r where "r \<in> set (agent_events (w_tables w1))" "e = mapAgentEvent r" "listed input r"
    unfolding es listed_def by (auto simp: events_asc_def dest!: in_sql_limit)
  with q show ?thesis by auto
qed

lemma foldl_max_ge: "n \<le> foldl max n ns" "m \<in> set ns \<Longrightarrow> m \<le> foldl max n ns"
  for n m :: int
proof (induction ns arbitrary: n)
  case (Cons k ns)
  { case 1 show ?case using Cons.IH(1) [of "max n k"] by simp
  next case 2 then show ?case using Cons.IH [of "max n k"] by auto }
qed simp_all

lemma max_id_ge: "r \<in> set rows \<Longrightarrow> r_id r \<le> max_id rows"
  by (cases rows) (auto simp: max_id_def foldl_max_ge)

lemma LatestEventID_ge:
  assumes "LatestEventID \<lparr>q_All = None, q_HerdrSessionName = Some session, q_WorkspaceID = Some ws\<rparr> w = (Inr n, w')"
    and "r \<in> set (agent_events (w_tables w))" "r_herdrSessionName r = session" "r_workspaceID r = Some ws"
  shows "r_id r \<le> n"
  using assms unfolding LatestEventID_def query_sql_Inr by (auto simp: optional_clause_def intro!: max_id_ge)

lemma MarkAcked_InrD:
  assumes "MarkAcked eventID scope w = (Inr u, w')"
  shows "w_tables w' = (w_tables w)
    \<lparr>agent_events := update_where (marked eventID scope) ack_row (agent_events (w_tables w))\<rparr>"
  using assms unfolding MarkAcked_def marked_def [symmetric]
  by (auto elim!: bind_act_InrE simp: change_sql_Inr update_events_def)

lemma ReservePending_InrD:
  assumes run: "ReservePending terminal limit ids w = (Inr recs, w')" and ok: "events_ok (w_tables w)"
    and some: "ids \<noteq> []" and e: "e \<in> set recs"
  shows "\<exists>r \<in> set (agent_events (w_tables w)). r_id r \<in> set ids \<and> delivered_from terminal r e"
proof -
  from run obtain w2 where body: "reservePendingCore terminal limit ids
      ((spend_fault w)\<lparr>w_open := Some (w_tables w)\<rparr>) = (Inr recs, w2)"
    unfolding ReservePending_def by (rule tx_InrE)
  let ?sel = "reservation (max (w_wall w) (w_logicalNow w)) terminal limit ids (w_tables w)"
  from reservePendingCore_InrD [OF body _ refl refl] events_okD(2) [OF ok] e obtain r where
    r: "r \<in> set ?sel" "e = mapAgentEvent (reserved (max (w_wall w) (w_logicalNow w)) terminal (set ?sel) r)"
    by auto
  from r(1) some have "r \<in> set (agent_events (w_tables w))" "r_id r \<in> set ids"
    "scan_admits (max (w_wall w) (w_logicalNow w)) (Some terminal) r"
    by (auto simp: reservation_def events_asc_def dest!: in_sql_limit)
  with r show ?thesis
    by (auto simp: delivered_from_def reserved_def scan_admits_def)
qed

lemma List_agents_InrD:
  assumes "List_agents \<lparr>q_All = None, q_HerdrSessionName = Some session, q_WorkspaceID = None\<rparr> w
      = (Inr indexed, w')" and "session \<noteq> []"
  shows "ws \<in> a_WorkspaceID ` set indexed
    \<longleftrightarrow> (\<exists>g \<in> set (agents (w_tables w)). g_herdrSessionName g = session \<and> g_workspaceID g = ws
         \<and> (\<exists>h \<in> set (herdr_sessions (w_tables w)). h_name h = session \<and> h_running h = 1))"
proof -
  have "a_WorkspaceID (mapAgent g) = g_workspaceID g" for g by (simp add: mapAgent_def Let_def)
  with assms show ?thesis
    unfolding List_agents_def query_sql_Inr by (auto simp: optional_clause_def image_iff)
qed

interpretation herd: orchestrator_stores herdsman_service
proof unfold_locales
  fix w w' ai st ci ch
  assume "ss_Ack (sv_scopes herdsman_service) ai w = (Inr st, w')"
  then show "agent_events (w_tables w') = agent_events (w_tables w)"
    using events_frame_tx [OF evt_ackCore] by (simp add: herdsman_service_def scope_Ack_def)
next
  fix w w' ci ch
  assume "ss_Claim (sv_scopes herdsman_service) ci w = (Inr ch, w')"
  then show "agent_events (w_tables w') = agent_events (w_tables w)"
    using events_frame_tx [OF evt_scope_claim] by (simp add: herdsman_service_def Claim_def)
next
  fix w w' ci ch
  assume "ss_Claim (sv_scopes herdsman_service) ci w = (Inr ch, w')"
  then show "scope_view (w_tables w') = (scope_view (w_tables w))
            (ci_Scope ci \<mapsto> (ci_AckedEventID ci, Some (ci_PaneID ci, ci_TerminalID ci)))"
    by (auto simp: herdsman_service_def Claim_def elim!: tx_view dest!: scope_claim_InrD)
next
  fix w w' n timeout
  assume "es_ReclaimDelivered (sv_agentEvents herdsman_service) timeout w = (Inr n, w')"
  then show "agent_orchestrator_scopes (w_tables w') = agent_orchestrator_scopes (w_tables w)"
    using events_frame_tx [OF scs_reclaim] by (simp add: herdsman_service_def ReclaimDelivered_def)
next
  fix w w' n timeout
  assume "es_ReclaimDelivered (sv_agentEvents herdsman_service) timeout w = (Inr n, w')" "events_ok (w_tables w)"
  then show "events_ok (w_tables w')"
    using events_frame_tx [OF life.moves_reclaimDeliveredCore]
    by (simp add: herdsman_service_def ReclaimDelivered_def guarded_def)
qed (auto simp: herdsman_service_def scope_Get_InrD quiet_scope_Get quiet_ListOwnedForSession
    ListOwnedForSession_InrD quiet_is_deliverable quiet_get_event quiet_LatestEventID quiet_ListAfter
    quiet_NextDeliverableAfter LatestEventID_ge ListAfter_InrD MarkAcked_InrD ReservePending_InrD
    quiet_agent_Get quiet_List_agents List_agents_InrD
    dest: scope_Ack_InrD get_event_InrD no_ackD [OF no_ack_scope_Get] no_ackD [OF no_ack_scope_Ack]
      no_ackD [OF no_ack_MarkAcked])

end
