(* ===== verification/OrchestratorContract.thy ===== *)
theory OrchestratorContract
  imports OrchestratorLaws
begin

text \<open>
  The properties of the orchestrator service over the stores of this development: the guarantees
  of \<open>orchestrator_stores\<close> read off its interpretation \<open>herd\<close>, the bound of the scan loop, and the
  acknowledgement that settles an event nobody was handed.
\<close>

definition sample_oack :: "int \<Rightarrow> OrchestratorAckInput" where
  "sample_oack eventID = \<lparr>oa_Scope = ci_Scope sample_claim, oa_EventID = eventID, oa_TerminalID = ''o''\<rparr>"

definition sample_opending :: OrchestratorPendingInput where
  "sample_opending = \<lparr>op_Scope = ci_Scope sample_claim, op_ExtraScopes = [], op_Limit = None,
     op_TerminalID = ''o''\<rparr>"

definition sample_delivered3 :: agentEventRow where
  "sample_delivered3 = sample_delivered\<lparr>r_id := 3, r_idempotencyKey := None\<rparr>"

lemma sample_named: "named_scope (ci_Scope sample_claim)" "s_HerdrSessionName (ci_Scope sample_claim) \<noteq> []"
  by (simp_all add: named_scope_def sample_claim_def)

lemma accepted:
  assumes "case fst m of Inr a \<Rightarrow> P a | Inl e \<Rightarrow> False"
  obtains a where "m = (Inr a, snd m)" and "P a"
  using assms by (cases m) (auto split: sum.splits)

subsection \<open>Acknowledging\<close>

text \<open>
  C2: what an accepted acknowledgement did. The caller owns the scope. At or below its cursor
  nothing changes. Past it, the event exists in the owner's session, was pending or delivered to
  this very terminal, and lies in the owner's workspace or in one that nobody owns. In the owner's
  workspace the open rows up to the id are settled and the cursor moves to it; in another
  workspace that single row is settled and the owner's cursor stays.
\<close>

theorem Ack_settles_exactly:
  assumes run: "svc_Ack herdsman_service input w = (Inr st, w')"
    and ok: "scopes_ok (w_tables w)" and named: "s_HerdrSessionName (oa_Scope input) \<noteq> []"
  shows "\<exists>n pane. scope_view (w_tables w) (oa_Scope input) = Some (n, Some (pane, oa_TerminalID input))
    \<and> (oa_EventID input \<le> n \<longrightarrow> quiet (w_tables w) (w_tables w')
        \<and> state_view st = (n, Some (pane, oa_TerminalID input)))
    \<and> (n < oa_EventID input \<longrightarrow> (\<exists>r \<in> set (agent_events (w_tables w)). may_ack (w_tables w) input r
        \<and> (if r_workspaceID r = Some (s_WorkspaceID (oa_Scope input))
           then agent_events (w_tables w') = update_where (marked (oa_EventID input) (Some (oa_Scope input)))
                  ack_row (agent_events (w_tables w))
             \<and> scope_view (w_tables w') = (scope_view (w_tables w))
                  (oa_Scope input \<mapsto> (oa_EventID input, Some (pane, oa_TerminalID input)))
             \<and> state_view st = (oa_EventID input, Some (pane, oa_TerminalID input))
           else agent_events (w_tables w') = update_where (marked (oa_EventID input) None)
                  ack_row (agent_events (w_tables w))
             \<and> scope_view (w_tables w') = scope_view (w_tables w)
             \<and> state_view st = (n, Some (pane, oa_TerminalID input)))))"
  using run ok named by (rule herd.svc_Ack_InrD)

theorem Ack_settles_exactly_witness:
  "scope_view (w_tables (snd (svc_Ack herdsman_service (sample_oack 1) (sample_world [sample_delivered]))))
     (ci_Scope sample_claim) = Some (1, Some (''po'', ''o''))"
proof -
  let ?w = "sample_world [sample_delivered]"
  have "case fst (svc_Ack herdsman_service (sample_oack 1) ?w) of Inr st \<Rightarrow> True | Inl e \<Rightarrow> False"
    by code_simp
  then obtain st where run: "svc_Ack herdsman_service (sample_oack 1) ?w =
      (Inr st, snd (svc_Ack herdsman_service (sample_oack 1) ?w))" by (rule accepted)
  have events: "agent_events (w_tables ?w) = [sample_delivered]" by (simp add: sample_tables_def)
  have ws: "r_workspaceID sample_delivered = Some (s_WorkspaceID (oa_Scope (sample_oack 1)))" by code_simp
  have ok: "scopes_ok (w_tables ?w)" using sample_scopes_ok by simp
  have "s_HerdrSessionName (oa_Scope (sample_oack 1)) \<noteq> []" by code_simp
  from Ack_settles_exactly [OF run ok this] obtain n pane where
    view: "scope_view (w_tables ?w) (oa_Scope (sample_oack 1)) = Some (n, Some (pane, oa_TerminalID (sample_oack 1)))" and
    past: "n < oa_EventID (sample_oack 1) \<Longrightarrow> scope_view (w_tables (snd (svc_Ack herdsman_service (sample_oack 1) ?w)))
      = (scope_view (w_tables ?w))(oa_Scope (sample_oack 1) \<mapsto>
          (oa_EventID (sample_oack 1), Some (pane, oa_TerminalID (sample_oack 1))))"
    unfolding events by (simp add: ws) blast
  have "scope_view (w_tables ?w) (oa_Scope (sample_oack 1)) = Some (0, Some (''po'', ''o''))" by code_simp
  with view past show ?thesis by (simp add: sample_oack_def)
qed

text \<open>
  a rejection is harmless. When \<open>Ack\<close> answers with one of the orchestrator error codes, no
  event and no cursor has changed: all checks precede the first write, and the writes themselves
  never answer with such a code.
\<close>

theorem Ack_rejection_changes_nothing:
  assumes "svc_Ack herdsman_service input w = (Inl (ErrAck code msg), w')"
  shows "agent_events (w_tables w') = agent_events (w_tables w)
    \<and> agent_orchestrator_scopes (w_tables w') = agent_orchestrator_scopes (w_tables w)"
  using herd.svc_Ack_rejected [OF assms] by (simp add: quietD)

theorem Ack_rejection_changes_nothing_witness:
  "agent_events (w_tables (snd (svc_Ack herdsman_service (sample_oack 2)
      (sample_world [sample_row, sample_row2])))) = [sample_row, sample_row2]"
proof -
  let ?w = "sample_world [sample_row, sample_row2]"
  have "(case fst (svc_Ack herdsman_service (sample_oack 2) ?w) of
      Inl (ErrAck code msg) \<Rightarrow> True | _ \<Rightarrow> False)" by code_simp
  then obtain code msg where "fst (svc_Ack herdsman_service (sample_oack 2) ?w) = Inl (ErrAck code msg)"
    by (auto split: sum.splits go_error.splits)
  then have "svc_Ack herdsman_service (sample_oack 2) ?w =
      (Inl (ErrAck code msg), snd (svc_Ack herdsman_service (sample_oack 2) ?w))" by (metis prod.collapse)
  from Ack_rejection_changes_nothing [OF this] show ?thesis by (simp add: sample_tables_def)
qed

text \<open>
  an acknowledgement can settle an event that was never handed out. With events 1 and 3
  delivered to the owner and event 2 still pending and deliverable, acknowledging 3 is accepted,
  because only the lowest deliverable event is checked for being pending; event 2 is then acked
  without a delivery attempt and the cursor stands past it, although a pending event between the
  cursor and the acknowledged one is meant to block.
\<close>

theorem Ack_swallows_pending:
  "let w = sample_world [sample_delivered, sample_row2, sample_delivered3];
       w' = snd (svc_Ack herdsman_service (sample_oack 3) w)
   in (case fst (svc_Ack herdsman_service (sample_oack 3) w) of Inr st \<Rightarrow> os_AckedEventID st = 3 | Inl e \<Rightarrow> False)
    \<and> (case fst (svc_Pending herdsman_service sample_opending w) of
         Inr recs \<Rightarrow> map e_ID recs = [1, 2, 3] | Inl e \<Rightarrow> False)
    \<and> r_status (agent_events (w_tables w) ! 1) = AgentEventStatusPending
    \<and> r_status (agent_events (w_tables w') ! 1) = AgentEventStatusAcked
    \<and> r_deliveryAttempts (agent_events (w_tables w') ! 1) = 0
    \<and> r_deliveredToTerminalID (agent_events (w_tables w') ! 1) = None"
  by code_simp

subsection \<open>Receiving\<close>

text \<open>
  C3: events are handed to the owner only. Every event \<open>Pending\<close> returns lies past the caller's
  cursor, in one of the scopes asked for, and is stored as delivered to the caller, who owns the
  scope; a caller that does not own it gets the empty list.
\<close>

theorem Pending_serves_owner_only:
  assumes run: "svc_Pending herdsman_service input w = (Inr recs, w')" and ok: "events_ok (w_tables w)"
    and named: "\<forall>sc \<in> set (op_Scope input # op_ExtraScopes input). named_scope sc"
  shows "(\<not> owned_by (w_tables w) (op_Scope input) (op_TerminalID input) \<longrightarrow> recs = [])
    \<and> (\<forall>e \<in> set recs. \<exists>n pane.
          scope_view (w_tables w) (op_Scope input) = Some (n, Some (pane, op_TerminalID input))
        \<and> n < e_ID e \<and> e_Status e = Some AgentEventStatusDelivered
        \<and> e_DeliveredToTerminalID e = Some (op_TerminalID input)
        \<and> (\<exists>sc \<in> set (op_Scope input # op_ExtraScopes input). e_HerdrSessionName e = s_HerdrSessionName sc
            \<and> e_WorkspaceID e = Some (s_WorkspaceID sc)))"
  using herd.svc_Pending_InrD [OF run _ ok named] herd.svc_Pending_not_owner [OF run] by blast

theorem Pending_serves_owner_only_witness:
  "\<exists>recs w'. svc_Pending herdsman_service sample_opending (sample_world [sample_row]) = (Inr recs, w')
     \<and> recs \<noteq> [] \<and> (\<forall>e \<in> set recs. e_DeliveredToTerminalID e = Some ''o'')"
proof -
  let ?w = "sample_world [sample_row]"
  have "case fst (svc_Pending herdsman_service sample_opending ?w) of Inr recs \<Rightarrow> recs \<noteq> [] | Inl e \<Rightarrow> False"
    by code_simp
  then obtain recs where run: "svc_Pending herdsman_service sample_opending ?w
      = (Inr recs, snd (svc_Pending herdsman_service sample_opending ?w))" and some: "recs \<noteq> []"
    by (rule accepted)
  from Pending_serves_owner_only [OF run] sample_events_ok sample_named
  have "\<forall>e \<in> set recs. e_DeliveredToTerminalID e = Some ''o''" by (auto simp: sample_opending_def)
  with run some show ?thesis by blast
qed

text \<open>Once the scan stops counting, more fuel changes nothing.\<close>

lemma pending_loop_enough:
  "1000 - scanned < int fuel \<Longrightarrow> 1000 - scanned < int fuel'
   \<Longrightarrow> pending_loop fuel s scopes valid ws terminal limit a scanned pending
     = pending_loop fuel' s scopes valid ws terminal limit a scanned pending"
proof (induction fuel arbitrary: fuel' a scanned pending)
  case 0
  then have "\<not> scanned < 1000" by simp
  then show ?case by (cases fuel') simp_all
next
  case (Suc fuel)
  show ?case
  proof (cases fuel')
    case 0
    with Suc.prems have "\<not> scanned < 1000" by simp
    with 0 show ?thesis by simp
  next
    case (Suc k)
    have loop: "pending_loop fuel s scopes valid ws terminal limit a' (scanned + int (length batch)) p
        = pending_loop k s scopes valid ws terminal limit a' (scanned + int (length batch)) p"
      if "batch \<noteq> []" for a' batch p
    proof (rule Suc.IH)
      have "1 \<le> int (length batch)" using that by (cases batch) simp_all
      with Suc.prems \<open>fuel' = Suc k\<close> show "1000 - (scanned + int (length batch)) < int fuel"
        "1000 - (scanned + int (length batch)) < int k" by simp_all
    qed
    show ?thesis unfolding \<open>fuel' = Suc k\<close> pending_loop.simps
      by (intro if_cong refl arg_cong [where f = "bind_act _"] ext) (simp add: loop)
  qed
qed

text \<open>
  the scan of \<open>Pending\<close> ends. Every round that goes on has scanned at least one more event
  and at most 1000 are scanned, so 1001 rounds are enough for any stores: more fuel gives the same
  result from every state.
\<close>

theorem Pending_scan_terminates:
  "pending_loop (1001 + extra) s scopes valid ws terminal limit afterEventID 0 []
     = pending_loop 1001 s scopes valid ws terminal limit afterEventID 0 []"
  by (rule pending_loop_enough) simp_all

subsection \<open>Ownership\<close>

text \<open>
  the workspaces an owner also serves. \<open>OwnerlessSiblingScopes\<close> returns, in text order and each
  once, exactly the other workspaces of the running session that have an indexed agent and no
  owner.
\<close>

theorem OwnerlessSiblingScopes_exact:
  assumes "OwnerlessSiblingScopes herdsman_service scope w = (Inr siblings, w')"
    and "scopes_ok (w_tables w)" and "s_HerdrSessionName scope \<noteq> []"
  shows "\<exists>wss. siblings = map (\<lambda>ws. \<lparr>s_HerdrSessionName = s_HerdrSessionName scope, s_WorkspaceID = ws\<rparr>) wss
    \<and> sorted wss \<and> distinct wss \<and> set wss = ownerless_workspaces (w_tables w) scope"
  using assms by (rule herd.siblings_InrD)

theorem OwnerlessSiblingScopes_exact_witness:
  "ownerless_workspaces (sample_tables []) (ci_Scope sample_claim) = {}"
proof -
  have "fst (OwnerlessSiblingScopes herdsman_service (ci_Scope sample_claim) (sample_world [])) = Inr []"
    by code_simp
  then have "OwnerlessSiblingScopes herdsman_service (ci_Scope sample_claim) (sample_world []) =
    (Inr [], snd (OwnerlessSiblingScopes herdsman_service (ci_Scope sample_claim) (sample_world [])))"
    by (metis prod.collapse)
  from OwnerlessSiblingScopes_exact [OF this] sample_scopes_ok sample_named show ?thesis by simp
qed

text \<open>
  claiming loses no event and replays none. A scope that has a row keeps its cursor, also after
  its owner was released, so what was appended in between is still ahead; a scope claimed for the
  first time starts past every event it already has.
\<close>

theorem Claim_keeps_cursor:
  assumes "svc_Claim herdsman_service scope pane terminal conn w = (Inr ch, w')" and "named_scope scope"
  shows "\<exists>n. scope_view (w_tables w') = (scope_view (w_tables w))(scope \<mapsto> (n, Some (pane, terminal)))
    \<and> agent_events (w_tables w') = agent_events (w_tables w)
    \<and> (\<forall>k ow. scope_view (w_tables w) scope = Some (k, ow) \<longrightarrow> n = k)
    \<and> (scope_view (w_tables w) scope = None
        \<longrightarrow> (\<forall>r \<in> set (agent_events (w_tables w)). in_scope scope r \<longrightarrow> r_id r \<le> n))"
  using assms by (rule herd.svc_Claim_InrD)

theorem Claim_keeps_cursor_witness:
  "scope_view (w_tables (snd (svc_Claim herdsman_service (ci_Scope sample_claim) ''pn'' ''n'' None
      (sample_world [sample_row])))) (ci_Scope sample_claim) = Some (0, Some (''pn'', ''n''))"
proof -
  let ?run = "svc_Claim herdsman_service (ci_Scope sample_claim) ''pn'' ''n'' None (sample_world [sample_row])"
  have "case fst ?run of Inr ch \<Rightarrow> True | Inl e \<Rightarrow> False" by code_simp
  then obtain ch where "?run = (Inr ch, snd ?run)" by (rule accepted)
  from Claim_keeps_cursor [OF this sample_named(1)] obtain n where
    view: "scope_view (w_tables (snd ?run)) = (scope_view (w_tables (sample_world [sample_row])))
       (ci_Scope sample_claim \<mapsto> (n, Some (''pn'', ''n'')))" and
    kept: "\<forall>k ow. scope_view (w_tables (sample_world [sample_row])) (ci_Scope sample_claim) = Some (k, ow) \<longrightarrow> n = k"
    by blast
  from kept have "n = 0" by simp
  then show ?thesis by (simp add: view)
qed

end
