(* ===== verification/PlanStore.thy ===== *)
theory PlanStore
  imports EventStore
begin

text \<open>
  \<open>StatusEventPlanStore\<close> of \<open>go/internal/db/status_event_plans.go\<close>: the durable queue of the
  plans that turn a status transition of an agent into an event. A plan is inserted as pending,
  taken by a drain (running), and ends as completed, cancelled, failed or discarded; a plan that
  could not finish goes back to pending with one more attempt.

  The input and record types are those of \<open>observability/agent_index_types.go\<close>. Go's empty
  string for "not supplied" is \<open>[]\<close> in a string field and \<open>None\<close> in a status field.
\<close>

definition StatusPlanMaxAttempts :: int where "StatusPlanMaxAttempts = 8"

record StatusEventPlanRecord =
  pl_AgentID :: string
  pl_Attempts :: int
  pl_CompactHistory :: "CompactAgentHistory option"
  pl_CreatedAt :: int
  pl_CreatedAtMs :: int
  pl_FromStatus :: AgentStatus
  pl_HerdrEventKey :: "string option"
  pl_HerdrSessionName :: string
  pl_ID :: int
  pl_LastError :: "string option"
  pl_PaneGeneration :: "string option"
  pl_PaneID :: string
  pl_Status :: StatusEventPlanStatus
  pl_ToStatus :: AgentStatus
  pl_UpdatedAt :: int

record StatusEventPlanAgent =
  pa_HerdrSessionName :: string
  pa_ID :: string
  pa_PaneGeneration :: "string option"
  pa_PaneID :: string

record InsertPendingInput =
  ip_Agent :: "StatusEventPlanAgent option"
  ip_AgentID :: string
  ip_CompactHistory :: "CompactAgentHistory option"
  ip_From :: "AgentStatus option"
  ip_FromStatus :: "AgentStatus option"
  ip_HerdrEventKey :: "string option"
  ip_HerdrSessionName :: string
  ip_PaneGeneration :: "string option"
  ip_PaneID :: string
  ip_To :: "AgentStatus option"
  ip_ToStatus :: "AgentStatus option"

record MarkRetryOptions =
  mo_IsTargetWorking :: bool
  mo_IsWindowExpired :: bool
  mo_MaxAttempts :: int
  mo_StallDetected :: bool
  mo_TotalWindowMs :: "int option"

record CancelSupersededPendingPlansInput =
  cs_AgentID :: string
  cs_HerdrSessionName :: string
  cs_KeepID :: int
  cs_ToStatus :: AgentStatus

record StalledDiscardPlanRow =
  sd_ID :: int
  sd_LastError :: "string option"
  sd_UpdatedAtMs :: int

subsection \<open>Rows\<close>

text \<open>The stored history is the decoded column, which every writer marshals from the same type.\<close>

definition mapStatusEventPlan :: "statusEventPlanRow \<Rightarrow> StatusEventPlanRecord" where
  "mapStatusEventPlan row =
     \<lparr>pl_AgentID = p_agentID row, pl_Attempts = p_attempts row,
      pl_CompactHistory = p_compactHistory row, pl_CreatedAt = p_createdAtMs row,
      pl_CreatedAtMs = p_createdAtMs row, pl_FromStatus = p_fromStatus row,
      pl_HerdrEventKey = p_herdrEventKey row, pl_HerdrSessionName = p_herdrSessionName row,
      pl_ID = p_id row, pl_LastError = p_lastError row, pl_PaneGeneration = p_paneGeneration row,
      pl_PaneID = p_paneID row, pl_Status = p_status row, pl_ToStatus = p_toStatus row,
      pl_UpdatedAt = p_updatedAtMs row\<rparr>"

text \<open>The two lists of statuses the statements test for.\<close>

definition unfinished :: "StatusEventPlanStatus \<Rightarrow> bool" where
  "unfinished st \<longleftrightarrow> st = StatusPlanPending \<or> st = StatusPlanRunning"

definition settled_plan :: "StatusEventPlanStatus \<Rightarrow> bool" where
  "settled_plan st \<longleftrightarrow> st = StatusPlanCompleted \<or> st = StatusPlanCancelled
     \<or> st = StatusPlanFailed \<or> st = StatusPlanDiscarded"

lemma settled_plan_iff: "settled_plan st \<longleftrightarrow> \<not> unfinished st"
  by (cases st) (simp_all add: settled_plan_def unfinished_def)

text \<open>
  The statements. The unique index on session and event key leaves out the null keys; an empty
  key is a key. \<open>id\<close> is autoincrement.
\<close>

definition with_event_key :: "string \<Rightarrow> string \<Rightarrow> statusEventPlanRow \<Rightarrow> bool" where
  "with_event_key session key p \<longleftrightarrow> p_herdrSessionName p = session \<and> p_herdrEventKey p = Some key"

definition insert_plan :: "statusEventPlanRow \<Rightarrow> tables \<Rightarrow> go_error + int \<times> tables" where
  "insert_plan row t =
     (if \<exists>k. p_herdrEventKey row = Some k
          \<and> (\<exists>p \<in> set (status_event_plans t). with_event_key (p_herdrSessionName row) k p)
      then Inl ErrConstraint
      else let planID = status_event_plans_seq t + 1
        in Inr (planID, t\<lparr>status_event_plans := status_event_plans t @ [row\<lparr>p_id := planID\<rparr>],
             status_event_plans_seq := planID\<rparr>))"

definition update_plans ::
    "(statusEventPlanRow \<Rightarrow> bool) \<Rightarrow> (statusEventPlanRow \<Rightarrow> statusEventPlanRow) \<Rightarrow> tables \<Rightarrow> int \<times> tables" where
  "update_plans p f t =
     (count_where p (status_event_plans t),
      t\<lparr>status_event_plans := update_where p f (status_event_plans t)\<rparr>)"

definition delete_plans :: "(statusEventPlanRow \<Rightarrow> bool) \<Rightarrow> tables \<Rightarrow> int \<times> tables" where
  "delete_plans p t =
     (count_where p (status_event_plans t),
      t\<lparr>status_event_plans := delete_where p (status_event_plans t)\<rparr>)"

definition plan_getRow :: "int \<Rightarrow> statusEventPlanRow option op" where
  "plan_getRow planID = query_sql (\<lambda>t. find (\<lambda>p. p_id p = planID) (status_event_plans t))"

definition getByEventKey :: "string \<Rightarrow> string \<Rightarrow> StatusEventPlanRecord option op" where
  "getByEventKey session key =
     query_sql (\<lambda>t. map_option mapStatusEventPlan
       (find (with_event_key session key) (status_event_plans t)))"

definition plan_not_found :: "int \<Rightarrow> go_error" where
  "plan_not_found planID = ErrText (''StatusEventPlan with id '' @ FormatInt planID @ '' not found'')"

definition plan_Get :: "int \<Rightarrow> StatusEventPlanRecord op" where
  "plan_Get planID =
     bind_act (plan_getRow planID) (\<lambda>row. case row of
         None \<Rightarrow> fail_act (plan_not_found planID)
       | Some r \<Rightarrow> return_act (mapStatusEventPlan r))"

subsection \<open>Inserting\<close>

definition superseded_by ::
    "CancelSupersededPendingPlansInput \<Rightarrow> statusEventPlanRow \<Rightarrow> bool" where
  "superseded_by input p \<longleftrightarrow>
     p_id p \<noteq> cs_KeepID input \<and> p_agentID p = cs_AgentID input
     \<and> p_herdrSessionName p = cs_HerdrSessionName input \<and> unfinished (p_status p)
     \<and> p_toStatus p = AgentStatusIdle \<and> p_fromStatus p \<noteq> AgentStatusWorking
     \<and> p_toStatus p \<noteq> cs_ToStatus input"

definition cancel_row :: "int \<Rightarrow> statusEventPlanRow \<Rightarrow> statusEventPlanRow" where
  "cancel_row now p = p\<lparr>p_status := StatusPlanCancelled,
     p_lastError := Some ''PLAN_SUPERSEDED'', p_updatedAtMs := now\<rparr>"

definition CancelSupersededPendingPlans :: "CancelSupersededPendingPlansInput \<Rightarrow> int op" where
  "CancelSupersededPendingPlans input =
     bind_act wall_clock (\<lambda>now. change_sql (update_plans (superseded_by input) (cancel_row now)))"

text \<open>The flat fields of the input win over those of the nested agent, field by field.\<close>

definition or_else :: "string \<Rightarrow> string \<Rightarrow> string" where
  "or_else v fallback = (if v = [] then fallback else v)"

definition opt_else :: "'a option \<Rightarrow> 'a option \<Rightarrow> 'a option" where
  "opt_else v fallback = (case v of None \<Rightarrow> fallback | Some _ \<Rightarrow> v)"

definition resolved_input :: "InsertPendingInput \<Rightarrow> InsertPendingInput" where
  "resolved_input input =
     (let flat = (case ip_Agent input of None \<Rightarrow> input
        | Some agent \<Rightarrow> input\<lparr>
            ip_HerdrSessionName := or_else (ip_HerdrSessionName input) (pa_HerdrSessionName agent),
            ip_AgentID := or_else (ip_AgentID input) (pa_ID agent),
            ip_PaneID := or_else (ip_PaneID input) (pa_PaneID agent),
            ip_PaneGeneration := opt_else (ip_PaneGeneration input) (pa_PaneGeneration agent)\<rparr>)
      in flat\<lparr>ip_FromStatus := opt_else (ip_FromStatus input) (ip_From input),
              ip_ToStatus := opt_else (ip_ToStatus input) (ip_To input)\<rparr>)"

definition pending_row :: "InsertPendingInput \<Rightarrow> AgentStatus \<Rightarrow> AgentStatus \<Rightarrow> int \<Rightarrow> statusEventPlanRow" where
  "pending_row input fromStatus toStatus now =
     \<lparr>p_agentID = ip_AgentID input, p_attempts = 0, p_compactHistory = ip_CompactHistory input,
      p_createdAtMs = now, p_fromStatus = fromStatus, p_herdrEventKey = ip_HerdrEventKey input,
      p_herdrSessionName = ip_HerdrSessionName input, p_id = 0, p_lastError = None,
      p_paneGeneration = ip_PaneGeneration input, p_paneID = ip_PaneID input,
      p_status = StatusPlanPending, p_toStatus = toStatus, p_updatedAtMs = now\<rparr>"

definition existing_plan :: "string \<Rightarrow> string option \<Rightarrow> StatusEventPlanRecord option op" where
  "existing_plan session key =
     (case key of None \<Rightarrow> return_act None
      | Some k \<Rightarrow> if k = [] then return_act None else getByEventKey session k)"

text \<open>
  The insert, the read of the inserted row and the cancelling of superseded plans are three
  statements, not one transaction. A failed insert looks for the row of a concurrent duplicate.
\<close>

definition insert_pending_row ::
    "InsertPendingInput \<Rightarrow> AgentStatus \<Rightarrow> AgentStatus \<Rightarrow> StatusEventPlanRecord op" where
  "insert_pending_row input fromStatus toStatus =
     bind_act wall_clock (\<lambda>now.
     bind_act
       (catch_act
         (bind_act (exec_sql (insert_plan (pending_row input fromStatus toStatus now)))
           (\<lambda>planID. return_act (Inr planID)))
         (\<lambda>err. bind_act (existing_plan (ip_HerdrSessionName input) (ip_HerdrEventKey input))
            (\<lambda>existing. case existing of Some plan \<Rightarrow> return_act (Inl plan) | None \<Rightarrow> fail_act err)))
       (\<lambda>outcome. case outcome of
           Inl plan \<Rightarrow> return_act plan
         | Inr planID \<Rightarrow>
           bind_act (plan_Get planID) (\<lambda>row.
           bind_act (CancelSupersededPendingPlans
               \<lparr>cs_AgentID = ip_AgentID input, cs_HerdrSessionName = ip_HerdrSessionName input,
                cs_KeepID = pl_ID row, cs_ToStatus = toStatus\<rparr>) (\<lambda>_.
           return_act row))))"

definition InsertPending :: "InsertPendingInput \<Rightarrow> StatusEventPlanRecord op" where
  "InsertPending input0 =
     (let input = resolved_input input0 in
      case (ip_FromStatus input, ip_ToStatus input) of
        (Some fromStatus, Some toStatus) \<Rightarrow>
          if ip_HerdrSessionName input = [] \<or> ip_AgentID input = [] \<or> ip_PaneID input = []
          then fail_act (ErrText ''Missing required fields for status event plan'')
          else bind_act (existing_plan (ip_HerdrSessionName input) (ip_HerdrEventKey input))
            (\<lambda>existing. case existing of
                Some plan \<Rightarrow> return_act plan
              | None \<Rightarrow> insert_pending_row input fromStatus toStatus)
      | _ \<Rightarrow> fail_act (ErrText ''Missing required fields for status event plan''))"

subsection \<open>Reading\<close>

definition plans_where :: "(statusEventPlanRow \<Rightarrow> bool) \<Rightarrow> StatusEventPlanRecord list op" where
  "plans_where p = query_sql (\<lambda>t. map mapStatusEventPlan
     (sort_key p_id (filter p (status_event_plans t))))"

definition ListUnfinished :: "StatusEventPlanRecord list op" where
  "ListUnfinished = plans_where (\<lambda>p. unfinished (p_status p))"

definition ListFailed :: "StatusEventPlanRecord list op" where
  "ListFailed = plans_where (\<lambda>p. p_status p = StatusPlanFailed)"

definition ListDiscarded :: "StatusEventPlanRecord list op" where
  "ListDiscarded = plans_where (\<lambda>p. p_status p = StatusPlanDiscarded)"

definition ListWaitingHistory :: "StatusEventPlanRecord list op" where
  "ListWaitingHistory =
     plans_where (\<lambda>p. p_status p = StatusPlanPending \<and> p_lastError p = Some PlanWaitingHistory)"

definition LatestStalledDiscard :: "string \<Rightarrow> string \<Rightarrow> StalledDiscardPlanRow option op" where
  "LatestStalledDiscard agentID session =
     query_sql (\<lambda>t.
       case sort_key (\<lambda>p. - p_id p) (filter (\<lambda>p. p_agentID p = agentID
           \<and> p_herdrSessionName p = session \<and> p_status p = StatusPlanDiscarded
           \<and> (case p_lastError p of None \<Rightarrow> False | Some e \<Rightarrow> e \<in> set StalledPlanErrors))
         (status_event_plans t)) of
         [] \<Rightarrow> None
       | p # _ \<Rightarrow> Some \<lparr>sd_ID = p_id p, sd_LastError = p_lastError p, sd_UpdatedAtMs = p_updatedAtMs p\<rparr>)"

definition HasCompletedPlanAfter :: "string \<Rightarrow> string \<Rightarrow> int \<Rightarrow> bool op" where
  "HasCompletedPlanAfter agentID session afterID =
     query_sql (\<lambda>t. \<exists>p \<in> set (status_event_plans t). p_agentID p = agentID
       \<and> p_herdrSessionName p = session \<and> afterID < p_id p \<and> p_status p = StatusPlanCompleted)"

subsection \<open>Transitions\<close>

definition set_plan_status :: "StatusEventPlanStatus \<Rightarrow> int \<Rightarrow> statusEventPlanRow \<Rightarrow> statusEventPlanRow" where
  "set_plan_status st now p = p\<lparr>p_status := st, p_updatedAtMs := now\<rparr>"

definition ResetRunningToPending :: "int op" where
  "ResetRunningToPending =
     bind_act wall_clock (\<lambda>now. change_sql (update_plans
       (\<lambda>p. p_status p = StatusPlanRunning) (set_plan_status StatusPlanPending now)))"

definition MarkRunning :: "int \<Rightarrow> bool op" where
  "MarkRunning planID =
     bind_act wall_clock (\<lambda>now.
     bind_act (change_sql (update_plans
         (\<lambda>p. p_id p = planID \<and> p_status p = StatusPlanPending) (set_plan_status StatusPlanRunning now)))
       (\<lambda>affected. return_act (0 < affected)))"

definition markSettled :: "int \<Rightarrow> StatusEventPlanStatus \<Rightarrow> unit op" where
  "markSettled planID st =
     bind_act wall_clock (\<lambda>now.
     bind_act (change_sql (update_plans
         (\<lambda>p. p_id p = planID \<and> unfinished (p_status p)) (set_plan_status st now)))
       (\<lambda>_. return_act ()))"

definition MarkCompleted :: "int \<Rightarrow> unit op" where
  "MarkCompleted planID = markSettled planID StatusPlanCompleted"

definition MarkCancelled :: "int \<Rightarrow> unit op" where
  "MarkCancelled planID = markSettled planID StatusPlanCancelled"

definition MarkDiscarded :: "int \<Rightarrow> string option \<Rightarrow> unit op" where
  "MarkDiscarded planID reason =
     bind_act (plan_Get planID) (\<lambda>current.
     bind_act wall_clock (\<lambda>now.
     bind_act (change_sql (update_plans (\<lambda>p. p_id p = planID)
         (\<lambda>p. p\<lparr>p_status := StatusPlanDiscarded,
                p_lastError := opt_else reason (pl_LastError current), p_updatedAtMs := now\<rparr>)))
       (\<lambda>_. return_act ())))"

text \<open>
  \<open>MarkRetry\<close> without options is \<open>default_retry_options\<close>: the zero value of each field means
  "not supplied". The decision on status and error text is a pure function of the row, the clock,
  the error and the options.
\<close>

definition default_retry_options :: MarkRetryOptions where
  "default_retry_options = \<lparr>mo_IsTargetWorking = False, mo_IsWindowExpired = False,
     mo_MaxAttempts = 0, mo_StallDetected = False, mo_TotalWindowMs = None\<rparr>"

definition retry_max_attempts :: "MarkRetryOptions \<Rightarrow> int" where
  "retry_max_attempts opts =
     (if mo_MaxAttempts opts > 0 then mo_MaxAttempts opts else StatusPlanMaxAttempts)"

definition window_expired :: "MarkRetryOptions \<Rightarrow> int \<Rightarrow> bool" where
  "window_expired opts elapsedMs =
     (if mo_IsWindowExpired opts then True
      else (case mo_TotalWindowMs opts of None \<Rightarrow> False | Some windowMs \<Rightarrow> windowMs \<le> elapsedMs))"

definition retry_status :: "MarkRetryOptions \<Rightarrow> string \<Rightarrow> int \<Rightarrow> int \<Rightarrow> StatusEventPlanStatus" where
  "retry_status opts errorMessage attempts elapsedMs =
     (let expired = window_expired opts elapsedMs;
          attemptsExhausted = retry_max_attempts opts \<le> attempts
      in if mo_StallDetected opts \<or> expired \<or> attemptsExhausted
         then if mo_IsTargetWorking opts \<and> \<not> mo_StallDetected opts \<and> \<not> expired then StatusPlanPending
           else if errorMessage = PlanWaitingHistory then StatusPlanDiscarded
           else StatusPlanFailed
         else StatusPlanPending)"

definition retry_error :: "MarkRetryOptions \<Rightarrow> string \<Rightarrow> StatusEventPlanStatus \<Rightarrow> string" where
  "retry_error opts errorMessage newStatus =
     (if mo_StallDetected opts \<and> newStatus \<noteq> StatusPlanPending then PlanStalled else errorMessage)"

definition retry_unfinished ::
    "int \<Rightarrow> string \<Rightarrow> MarkRetryOptions \<Rightarrow> statusEventPlanRow \<Rightarrow> StatusEventPlanRecord option op" where
  "retry_unfinished planID errorMessage opts row =
     (let attempts = p_attempts row + 1
      in bind_act wall_clock (\<lambda>now.
         let newStatus = retry_status opts errorMessage attempts (now - p_createdAtMs row);
             finalError = retry_error opts errorMessage newStatus
         in bind_act (change_sql (update_plans
             (\<lambda>p. p_id p = planID \<and> unfinished (p_status p))
             (\<lambda>p. p\<lparr>p_attempts := attempts, p_status := newStatus,
                    p_lastError := Some finalError, p_updatedAtMs := now\<rparr>)))
           (\<lambda>affected. if affected = 0 then return_act None
              else bind_act (plan_Get planID) (\<lambda>updated. return_act (Some updated)))))"

definition retry_message :: "string option \<Rightarrow> string" where
  "retry_message err = (case err of None \<Rightarrow> ''undefined'' | Some e \<Rightarrow> e)"

definition retry_options :: "MarkRetryOptions option \<Rightarrow> MarkRetryOptions" where
  "retry_options options = (case options of None \<Rightarrow> default_retry_options | Some opts \<Rightarrow> opts)"

definition MarkRetry ::
    "int \<Rightarrow> string option \<Rightarrow> MarkRetryOptions option \<Rightarrow> StatusEventPlanRecord option op" where
  "MarkRetry planID err options =
     bind_act (plan_getRow planID) (\<lambda>found. case found of
         None \<Rightarrow> fail_act (plan_not_found planID)
       | Some row \<Rightarrow>
         if settled_plan (p_status row) then return_act None
         else retry_unfinished planID (retry_message err) (retry_options options) row)"

definition plan_DeleteSettledOlderThan :: "int \<Rightarrow> int op" where
  "plan_DeleteSettledOlderThan ageMs =
     bind_act wall_clock (\<lambda>now. change_sql (delete_plans
       (\<lambda>p. settled_plan (p_status p) \<and> p_updatedAtMs p < now - ageMs)))"

end
