(* ===== verification/PlanContract.thy ===== *)
theory PlanContract
  imports PlanStore Samples EventQueue
begin

text \<open>
  What the plan store keeps. \<open>plans_ok\<close> is the well-formedness of \<open>status_event_plans\<close>,
  \<open>plan_row_step\<close> what a statement may do to one row. The locale \<open>plan_discipline\<close> is the contract
  of a relation on tables that the statements of the store respect; its interpretations are the
  life cycle of a plan (\<open>plans_evolve\<close>) and the frame of one plan that is not being retried
  (\<open>plan_still\<close>), which together bound the number of retries of a plan.
\<close>

subsection \<open>Well-formed plans\<close>

definition plan_row_ok :: "statusEventPlanRow \<Rightarrow> bool" where
  "plan_row_ok p \<longleftrightarrow> 0 \<le> p_attempts p
     \<and> (unfinished (p_status p) \<longrightarrow> (p_attempts p = 0 \<longleftrightarrow> p_lastError p = None))
     \<and> (p_status p = StatusPlanFailed \<longrightarrow> 1 \<le> p_attempts p \<and> p_lastError p \<noteq> None)"

definition same_event :: "statusEventPlanRow \<Rightarrow> statusEventPlanRow \<Rightarrow> bool" where
  "same_event p p' \<longleftrightarrow> p_herdrEventKey p \<noteq> None \<and> p_herdrEventKey p' = p_herdrEventKey p
     \<and> p_herdrSessionName p' = p_herdrSessionName p"

definition plans_ok :: "tables \<Rightarrow> bool" where
  "plans_ok t \<longleftrightarrow> sorted_wrt (<) (map p_id (status_event_plans t))
     \<and> (\<forall>p \<in> set (status_event_plans t). 0 < p_id p \<and> p_id p \<le> status_event_plans_seq t \<and> plan_row_ok p)
     \<and> (\<forall>p \<in> set (status_event_plans t). \<forall>p' \<in> set (status_event_plans t).
          same_event p p' \<longrightarrow> p_id p' = p_id p)
     \<and> 0 \<le> status_event_plans_seq t"

text \<open>What the plan is about never changes, and a settled plan can only be discarded.\<close>

definition plan_facts :: "statusEventPlanRow \<Rightarrow> statusEventPlanRow \<Rightarrow> bool" where
  "plan_facts p p' \<longleftrightarrow> p_id p' = p_id p \<and> p_herdrSessionName p' = p_herdrSessionName p
     \<and> p_agentID p' = p_agentID p \<and> p_herdrEventKey p' = p_herdrEventKey p
     \<and> p_paneID p' = p_paneID p \<and> p_paneGeneration p' = p_paneGeneration p
     \<and> p_fromStatus p' = p_fromStatus p \<and> p_toStatus p' = p_toStatus p
     \<and> p_compactHistory p' = p_compactHistory p \<and> p_createdAtMs p' = p_createdAtMs p"

definition plan_row_step :: "statusEventPlanRow \<Rightarrow> statusEventPlanRow \<Rightarrow> bool" where
  "plan_row_step p p' \<longleftrightarrow> plan_facts p p' \<and> (plan_row_ok p \<longrightarrow> plan_row_ok p')
     \<and> (settled_plan (p_status p) \<longrightarrow> p' = p \<or> (p_status p' = StatusPlanDiscarded \<and> p_attempts p' = p_attempts p))"

lemma plan_row_step_refl [simp, intro]: "plan_row_step p p"
  by (simp add: plan_row_step_def plan_facts_def)

lemma plan_row_step_trans: "plan_row_step p q \<Longrightarrow> plan_row_step q r \<Longrightarrow> plan_row_step p r"
proof -
  assume pq: "plan_row_step p q" and qr: "plan_row_step q r"
  have "plan_facts p r" using pq qr by (simp add: plan_row_step_def plan_facts_def)
  moreover have "plan_row_ok p \<Longrightarrow> plan_row_ok r" using pq qr by (simp add: plan_row_step_def)
  moreover have "r = p \<or> p_status r = StatusPlanDiscarded \<and> p_attempts r = p_attempts p"
    if settled: "settled_plan (p_status p)"
  proof (cases "q = p")
    case False
    with pq settled have q: "p_status q = StatusPlanDiscarded" "p_attempts q = p_attempts p"
      by (simp_all add: plan_row_step_def)
    then have "settled_plan (p_status q)" by (simp add: settled_plan_def)
    with qr q show ?thesis unfolding plan_row_step_def by metis
  qed (use qr settled in \<open>simp add: plan_row_step_def\<close>)
  ultimately show ?thesis by (simp add: plan_row_step_def)
qed

lemma plan_row_step_id: "plan_row_step p p' \<Longrightarrow> p_id p' = p_id p"
  by (simp add: plan_row_step_def plan_facts_def)

lemma plan_row_step_key:
  "plan_row_step p p' \<Longrightarrow> plan_row_step q q' \<Longrightarrow> same_event p' q' \<longleftrightarrow> same_event p q"
  by (auto simp: plan_row_step_def plan_facts_def same_event_def)

text \<open>The shape of the status changes: a plan that is still unfinished.\<close>

lemma plan_row_step_open:
  "unfinished (p_status p) \<Longrightarrow> plan_facts p p' \<Longrightarrow> (plan_row_ok p \<Longrightarrow> plan_row_ok p') \<Longrightarrow>
    plan_row_step p p'"
  by (simp add: plan_row_step_def settled_plan_iff)

lemma plan_row_step_discard:
  "plan_row_step p (p\<lparr>p_status := StatusPlanDiscarded, p_lastError := e, p_updatedAtMs := now\<rparr>)"
  by (simp add: plan_row_step_def plan_facts_def plan_row_ok_def unfinished_def)

lemma plan_row_step_status:
  assumes "unfinished (p_status p)" and "st \<noteq> StatusPlanFailed"
  shows "plan_row_step p (set_plan_status st now p)"
  by (rule plan_row_step_open [OF assms(1)])
    (use assms in \<open>simp_all add: plan_facts_def plan_row_ok_def set_plan_status_def\<close>)

lemma plan_row_step_cancel: "unfinished (p_status p) \<Longrightarrow> plan_row_step p (cancel_row now p)"
  by (rule plan_row_step_open) (simp_all add: plan_facts_def plan_row_ok_def cancel_row_def unfinished_def)

lemma plan_row_step_retry:
  "unfinished (p_status p) \<Longrightarrow> 1 \<le> attempts \<Longrightarrow> plan_row_step p
    (p\<lparr>p_attempts := attempts, p_status := st, p_lastError := Some e, p_updatedAtMs := now\<rparr>)"
  by (rule plan_row_step_open) (simp_all add: plan_facts_def plan_row_ok_def)

lemma plans_okD:
  assumes "plans_ok t"
  shows "distinct (map p_id (status_event_plans t))"
    and "p \<in> set (status_event_plans t) \<Longrightarrow> plan_row_ok p"
    and "p \<in> set (status_event_plans t) \<Longrightarrow> p_id p \<le> status_event_plans_seq t"
  using assms by (auto simp: plans_ok_def intro: strict_sorted_distinct)

lemma plans_ok_unique:
  assumes "plans_ok t" "p \<in> set (status_event_plans t)" "q \<in> set (status_event_plans t)" "p_id q = p_id p"
  shows "q = p"
  using assms plans_okD(1) [OF assms(1)] by (meson distinct_map inj_onD)

lemma update_plans_eq:
  "snd (update_plans p f t) = t\<lparr>status_event_plans := update_where p f (status_event_plans t)\<rparr>"
  by (simp add: update_plans_def)

lemma plans_ok_update:
  assumes ok: "plans_ok t"
    and step: "\<And>r. r \<in> set (status_event_plans t) \<Longrightarrow> p r \<Longrightarrow> plan_row_step r (f r)"
  shows "plans_ok (snd (update_plans p f t))"
proof -
  define g where "g = (\<lambda>r. if p r then f r else r)"
  have st: "plan_row_step r (g r)" if "r \<in> set (status_event_plans t)" for r
    using step that by (simp add: g_def)
  have ids: "p_id (g r) = p_id r" if "r \<in> set (status_event_plans t)" for r
    using st [OF that] by (rule plan_row_step_id)
  have rows: "map p_id (map g (status_event_plans t)) = map p_id (status_event_plans t)" using ids by simp
  have good: "plan_row_ok (g r)" if "r \<in> set (status_event_plans t)" for r
    using st [OF that] plans_okD(2) [OF ok that] by (simp add: plan_row_step_def)
  have keys: "same_event (g r) (g s) \<longleftrightarrow> same_event r s"
    if "r \<in> set (status_event_plans t)" "s \<in> set (status_event_plans t)" for r s
    using plan_row_step_key [OF st st] that by blast
  have "update_where p f (status_event_plans t) = map g (status_event_plans t)"
    by (simp add: update_where_def g_def)
  then show ?thesis
    using ok ids rows good keys unfolding plans_ok_def update_plans_eq by (simp del: map_map)
qed

lemma plans_ok_delete: "plans_ok t \<Longrightarrow> plans_ok (snd (delete_plans p t))"
  unfolding plans_ok_def delete_plans_def by (auto simp: delete_where_def intro: sorted_map_filter)

lemma insert_plan_InrD:
  assumes "insert_plan row t = Inr (planID, u)"
  shows "planID = status_event_plans_seq t + 1"
    and "u = t\<lparr>status_event_plans := status_event_plans t @ [row\<lparr>p_id := planID\<rparr>],
      status_event_plans_seq := planID\<rparr>"
    and "p \<in> set (status_event_plans t) \<Longrightarrow> \<not> same_event p row"
  using assms by (auto simp: insert_plan_def Let_def same_event_def with_event_key_def split: if_splits)

lemma plans_ok_insert:
  assumes ok: "plans_ok t" and ins: "insert_plan (pending_row input st st' now) t = Inr (planID, u)"
  shows "plans_ok u"
proof -
  define row where "row = (pending_row input st st' now)\<lparr>p_id := planID\<rparr>"
  note new = insert_plan_InrD [OF ins]
  have u: "status_event_plans u = status_event_plans t @ [row]"
    "status_event_plans_seq u = status_event_plans_seq t + 1"
    using new(1,2) by (simp_all add: row_def)
  have id: "p_id row = status_event_plans_seq t + 1" and good: "plan_row_ok row"
    using new(1) by (simp_all add: row_def pending_row_def plan_row_ok_def unfinished_def)
  have key: "\<not> same_event p row" "\<not> same_event row p" if "p \<in> set (status_event_plans t)" for p
    using new(3) [OF that] by (auto simp: same_event_def row_def)
  have "sorted_wrt (<) (map p_id (status_event_plans u))"
    using ok id unfolding u plans_ok_def by (auto simp: sorted_wrt_append)
  moreover have "\<forall>p \<in> set (status_event_plans u).
      0 < p_id p \<and> p_id p \<le> status_event_plans_seq u \<and> plan_row_ok p"
    using ok id good unfolding u plans_ok_def by auto
  moreover have "\<forall>p \<in> set (status_event_plans u). \<forall>q \<in> set (status_event_plans u).
      same_event p q \<longrightarrow> p_id q = p_id p"
    using ok key unfolding u plans_ok_def by auto
  ultimately show ?thesis using ok unfolding plans_ok_def u(2) by simp
qed

subsection \<open>The discipline of the store's statements\<close>

locale plan_discipline = guarded_discipline Q plans_ok
  for Q :: "tables \<Rightarrow> tables \<Rightarrow> bool" +
  fixes S :: "statusEventPlanRow \<Rightarrow> statusEventPlanRow \<Rightarrow> bool"
  assumes Q_update: "plans_ok t \<Longrightarrow> (\<And>p. p \<in> set (status_event_plans t) \<Longrightarrow> c p \<Longrightarrow>
      plan_row_step p (f p) \<and> S p (f p)) \<Longrightarrow> Q t (snd (update_plans c f t))"
    and Q_delete: "plans_ok t \<Longrightarrow> Q t (snd (delete_plans c t))"
    and Q_insert: "plans_ok t \<Longrightarrow> insert_plan (pending_row input from_st to_st now) t = Inr (planID, u) \<Longrightarrow> Q t u"
    and S_status: "unfinished (p_status p) \<Longrightarrow> S p (set_plan_status st now p)"
    and S_cancel: "unfinished (p_status p) \<Longrightarrow> S p (cancel_row now p)"
    and S_discard: "S p (p\<lparr>p_status := StatusPlanDiscarded, p_lastError := e, p_updatedAtMs := now\<rparr>)"
begin

abbreviation "P \<equiv> guarded plans_ok Q"

lemma moves_plans_update:
  assumes "\<And>p. c p \<Longrightarrow> plan_row_step p (f p) \<and> S p (f p)"
  shows "moves (inside P) (change_sql (update_plans c f))"
  by (rule grd.moves_change) (auto intro!: guardedI plans_ok_update Q_update dest: assms)

lemma moves_plans_delete [moves_rules]: "moves (inside P) (change_sql (delete_plans c))"
  by (rule grd.moves_change) (auto intro: guardedI plans_ok_delete Q_delete)

lemma moves_plans_insert [moves_rules]:
  "moves (inside P) (exec_sql (insert_plan (pending_row input st st' now)))"
  by (rule grd.moves_exec) (auto intro: guardedI plans_ok_insert Q_insert)

lemma moves_plan_reads [moves_rules]:
  "moves (inside P) (plan_Get planID)"
  "moves (inside P) (getByEventKey session key)"
  "moves (inside P) (existing_plan session okey)"
  unfolding plan_Get_def plan_getRow_def getByEventKey_def existing_plan_def
  by (intro moves_rules)+

lemma moves_cancel_superseded [moves_rules]: "moves (inside P) (CancelSupersededPendingPlans input)"
  unfolding CancelSupersededPendingPlans_def
  by (intro moves_rules moves_plans_update conjI S_cancel plan_row_step_cancel)
    (simp_all add: superseded_by_def)

lemma moves_InsertPending: "moves (inside P) (InsertPending input)"
proof -
  have "moves (inside P) (insert_pending_row resolved fs ts)" for resolved fs ts
    unfolding insert_pending_row_def by (intro moves_rules)
  then show ?thesis
    unfolding InsertPending_def Let_def prod.case_eq_if by (intro moves_rules)
qed

lemma moves_plan_statuses:
  "moves (inside P) ResetRunningToPending"
  "moves (inside P) (MarkRunning planID)"
  "moves (inside P) (MarkCompleted planID)"
  "moves (inside P) (MarkCancelled planID)"
  unfolding ResetRunningToPending_def MarkRunning_def MarkCompleted_def MarkCancelled_def markSettled_def
  by (intro moves_rules moves_plans_update conjI S_status plan_row_step_status;
      auto simp: unfinished_def)+

lemma moves_MarkDiscarded: "moves (inside P) (MarkDiscarded planID reason)"
  unfolding MarkDiscarded_def
  by (intro moves_rules moves_plans_update conjI S_discard plan_row_step_discard)

lemma moves_plan_delete_settled: "moves (inside P) (plan_DeleteSettledOlderThan ageMs)"
  unfolding plan_DeleteSettledOlderThan_def by (intro moves_rules)

lemma moves_MarkRetry:
  assumes S: "\<And>p attempts st e now. p_id p = planID \<Longrightarrow> unfinished (p_status p) \<Longrightarrow>
    S p (p\<lparr>p_attempts := attempts, p_status := st, p_lastError := Some e, p_updatedAtMs := now\<rparr>)"
  shows "moves (inside P) (MarkRetry planID err options)"
  unfolding MarkRetry_def plan_getRow_def
proof (rule moves_bind_query, goal_cases)
  case (1 t)
  have upd: "moves (inside P) (change_sql (update_plans
      (\<lambda>p. p_id p = planID \<and> unfinished (p_status p))
      (\<lambda>p. p\<lparr>p_attempts := attempts, p_status := st, p_lastError := Some e, p_updatedAtMs := now\<rparr>)))"
    if "1 \<le> attempts" for attempts st e now
    by (rule moves_plans_update) (use that S in \<open>auto intro: plan_row_step_retry\<close>)
  show ?case
  proof (cases "find (\<lambda>p. p_id p = planID) (status_event_plans t)")
    case None
    then show ?thesis by (auto intro: moves_rules)
  next
    case (Some row)
    then have "0 \<le> p_attempts row"
      using 1 plans_okD(2) by (auto dest!: find_SomeD simp: plan_row_ok_def)
    then show ?thesis
      unfolding Some retry_unfinished_def Let_def option.case by (intro moves_rules upd) simp
  qed
next
  case (2 found)
  show ?case
    unfolding retry_unfinished_def plan_Get_def plan_getRow_def Let_def by (intro moves_rules any.moves_change) simp
qed

end

subsection \<open>Two disciplines\<close>

definition plans_evolve :: "tables \<Rightarrow> tables \<Rightarrow> bool" where
  "plans_evolve t t' \<longleftrightarrow> status_event_plans_seq t \<le> status_event_plans_seq t'
     \<and> (\<forall>p' \<in> set (status_event_plans t').
          status_event_plans_seq t < p_id p' \<or> (\<exists>p \<in> set (status_event_plans t). plan_row_step p p'))"

definition still_row :: "int \<Rightarrow> statusEventPlanRow \<Rightarrow> statusEventPlanRow \<Rightarrow> bool" where
  "still_row planID p p' \<longleftrightarrow> (p_id p = planID \<longrightarrow>
     p_attempts p' = p_attempts p \<and> (unfinished (p_status p') \<longrightarrow> unfinished (p_status p)))"

text \<open>An unfinished plan that exists already was unfinished before, with as many attempts.\<close>

definition plan_still :: "int \<Rightarrow> tables \<Rightarrow> tables \<Rightarrow> bool" where
  "plan_still planID t t' \<longleftrightarrow> status_event_plans_seq t \<le> status_event_plans_seq t'
     \<and> (planID \<le> status_event_plans_seq t \<longrightarrow>
       (\<forall>p' \<in> set (status_event_plans t'). p_id p' = planID \<and> unfinished (p_status p') \<longrightarrow>
         (\<exists>p \<in> set (status_event_plans t). p_id p = planID \<and> unfinished (p_status p)
            \<and> p_attempts p = p_attempts p')))"

lemma plans_evolve_trans:
  assumes tu: "plans_evolve t u" and uv: "plans_evolve u v"
  shows "plans_evolve t v"
  unfolding plans_evolve_def
proof (intro conjI ballI)
  show "status_event_plans_seq t \<le> status_event_plans_seq v" using tu uv by (simp add: plans_evolve_def)
  fix r assume "r \<in> set (status_event_plans v)"
  with uv consider "status_event_plans_seq u < p_id r"
    | q where "q \<in> set (status_event_plans u)" "plan_row_step q r"
    unfolding plans_evolve_def by blast
  then show "status_event_plans_seq t < p_id r \<or> (\<exists>p \<in> set (status_event_plans t). plan_row_step p r)"
  proof cases
    case 1
    then show ?thesis using tu by (simp add: plans_evolve_def)
  next
    case 2
    with tu show ?thesis unfolding plans_evolve_def by (metis plan_row_step_id plan_row_step_trans)
  qed
qed

interpretation plife: plan_discipline plans_evolve "\<lambda>_ _. True"
proof
  fix t u v :: tables
  assume "plans_evolve t u" "plans_evolve u v"
  then show "plans_evolve t v" by (rule plans_evolve_trans)
next
  fix t :: tables and c f
  assume "\<And>p. p \<in> set (status_event_plans t) \<Longrightarrow> c p \<Longrightarrow> plan_row_step p (f p) \<and> True"
  then show "plans_evolve t (snd (update_plans c f t))"
    by (fastforce simp: plans_evolve_def update_plans_eq set_update_where)
next
  fix t u :: tables and input fs ts now planID
  assume "insert_plan (pending_row input fs ts now) t = Inr (planID, u)"
  from insert_plan_InrD(1,2) [OF this] show "plans_evolve t u" by (auto simp: plans_evolve_def)
qed (auto simp: plans_evolve_def delete_plans_def)

lemma plan_still_trans:
  assumes tu: "plan_still planID t u" and uv: "plan_still planID u v"
  shows "plan_still planID t v"
  unfolding plan_still_def
proof (intro conjI impI ballI)
  show "status_event_plans_seq t \<le> status_event_plans_seq v" using tu uv by (simp add: plan_still_def)
  fix r
  assume old: "planID \<le> status_event_plans_seq t"
    and r: "r \<in> set (status_event_plans v)" "p_id r = planID \<and> unfinished (p_status r)"
  have "planID \<le> status_event_plans_seq u" using tu old by (simp add: plan_still_def)
  then obtain q where "q \<in> set (status_event_plans u)" "p_id q = planID" "unfinished (p_status q)"
    "p_attempts q = p_attempts r" using uv r unfolding plan_still_def by blast
  then show "\<exists>p \<in> set (status_event_plans t). p_id p = planID \<and> unfinished (p_status p)
      \<and> p_attempts p = p_attempts r" using tu old unfolding plan_still_def by metis
qed

interpretation pstill: plan_discipline "plan_still planID" "still_row planID" for planID
proof
  fix t u v :: tables
  assume "plan_still planID t u" "plan_still planID u v"
  then show "plan_still planID t v" by (rule plan_still_trans)
next
  fix t :: tables and c f
  assume step: "\<And>p. p \<in> set (status_event_plans t) \<Longrightarrow> c p \<Longrightarrow> plan_row_step p (f p) \<and> still_row planID p (f p)"
  have "\<exists>p \<in> set (status_event_plans t). p_id p = planID \<and> unfinished (p_status p)
      \<and> p_attempts p = p_attempts p'"
    if "p' \<in> set (update_where c f (status_event_plans t))" "p_id p' = planID" "unfinished (p_status p')" for p'
  proof -
    from that(1) obtain p where p: "p \<in> set (status_event_plans t)" "p' = (if c p then f p else p)"
      by (auto simp: set_update_where)
    then have "p_id p' = p_id p" "still_row planID p p'"
      using step [of p] plan_row_step_id [of p "f p"] by (auto simp: still_row_def)
    with p(1) that(2,3) show ?thesis by (metis still_row_def)
  qed
  then show "plan_still planID t (snd (update_plans c f t))"
    by (auto simp: plan_still_def update_plans_eq)
next
  fix t u :: tables and input fs ts now planID'
  assume "insert_plan (pending_row input fs ts now) t = Inr (planID', u)"
  from insert_plan_InrD(1,2) [OF this] show "plan_still planID t u" by (auto simp: plan_still_def)
qed (auto simp: plan_still_def delete_plans_def still_row_def set_plan_status_def cancel_row_def unfinished_def)

subsection \<open>Runs of the store\<close>

text \<open>
  One step of the daemon as the plan store sees it: any operation with any outcome, the clock
  moving on, a change of what the driver will refuse, or a crash. \<open>retried\<close> says which retries
  the step may be.
\<close>

inductive plan_step :: "(int \<Rightarrow> MarkRetryOptions option \<Rightarrow> bool) \<Rightarrow> world \<Rightarrow> world \<Rightarrow> bool"
  for retried where
  insert: "InsertPending input w = (r, w') \<Longrightarrow> plan_step retried w w'"
| reset: "ResetRunningToPending w = (r, w') \<Longrightarrow> plan_step retried w w'"
| running: "MarkRunning planID w = (r, w') \<Longrightarrow> plan_step retried w w'"
| completed: "MarkCompleted planID w = (r, w') \<Longrightarrow> plan_step retried w w'"
| cancelled: "MarkCancelled planID w = (r, w') \<Longrightarrow> plan_step retried w w'"
| discarded: "MarkDiscarded planID reason w = (r, w') \<Longrightarrow> plan_step retried w w'"
| superseded: "CancelSupersededPendingPlans cancel_input w = (r, w') \<Longrightarrow> plan_step retried w w'"
| sweep: "plan_DeleteSettledOlderThan ageMs w = (r, w') \<Longrightarrow> plan_step retried w w'"
| retry: "MarkRetry planID err options w = (r, w') \<Longrightarrow> retried planID options \<Longrightarrow> plan_step retried w w'"
| tick: "plan_step retried w (w\<lparr>w_wall := now\<rparr>)"
| driver: "plan_step retried w (w\<lparr>w_faults := faults\<rparr>)"
| crash: "plan_step retried w (restart w)"

context plan_discipline
begin

lemmas moves_plan_operations =
  moves_InsertPending moves_plan_statuses
  moves_MarkDiscarded moves_cancel_superseded moves_plan_delete_settled

lemma plan_step_inside:
  assumes step: "plan_step retried w w'" and none: "w_open w = None"
    and S: "\<And>planID options p attempts st e now. retried planID options \<Longrightarrow> p_id p = planID \<Longrightarrow>
      unfinished (p_status p) \<Longrightarrow>
      S p (p\<lparr>p_attempts := attempts, p_status := st, p_lastError := Some e, p_updatedAtMs := now\<rparr>)"
  shows "inside P w w'"
  using step
proof cases
  case (retry planID err options r)
  with S show ?thesis using moves_resultD [OF moves_MarkRetry] by blast
qed (use none in \<open>auto simp: inside_def grd.refl_Q restart_def committed_def
  dest: moves_resultD [OF moves_plan_operations(1)] moves_resultD [OF moves_plan_operations(2)]
    moves_resultD [OF moves_plan_operations(3)] moves_resultD [OF moves_plan_operations(4)]
    moves_resultD [OF moves_plan_operations(5)] moves_resultD [OF moves_plan_operations(6)]
    moves_resultD [OF moves_plan_operations(7)] moves_resultD [OF moves_plan_operations(8)]\<close>)

lemma plan_run_inside:
  assumes "(plan_step retried)\<^sup>*\<^sup>* w w'" and none: "w_open w = None"
    and S: "\<And>planID options p attempts st e now. retried planID options \<Longrightarrow> p_id p = planID \<Longrightarrow>
      unfinished (p_status p) \<Longrightarrow>
      S p (p\<lparr>p_attempts := attempts, p_status := st, p_lastError := Some e, p_updatedAtMs := now\<rparr>)"
  shows "inside P w w'"
  using assms(1)
proof (induction rule: rtranclp_induct)
  case (step w1 w2)
  then have "w_open w1 = None" using none by (simp add: inside_def)
  with step.hyps(2) have "inside P w1 w2" by (rule plan_step_inside) (rule S)
  with step.IH show ?case by (rule grd.ins.trans_R)
qed (rule grd.ins.refl_R)

end

text \<open>
  C14: the plan table stays well formed. Along every run of the plan store (inserts, drains,
  retries, cancellations, discards, retention sweeps, any driver failures, crashes) ids stay
  unique and increasing, a Herdr event has at most one plan, an unfinished plan carries an error
  exactly when it has been attempted, and a failed one always does. What a plan is about never
  changes, and a plan that was completed, cancelled, failed or discarded stays exactly as it was
  unless it is discarded; in particular no settled plan is ever run or retried again.
\<close>

theorem plans_invariant:
  assumes run: "(plan_step (\<lambda>_ _. True))\<^sup>*\<^sup>* w w'" and none: "w_open w = None" and ok: "plans_ok (w_tables w)"
  shows "plans_ok (w_tables w')
    \<and> (\<forall>p' \<in> set (status_event_plans (w_tables w')).
        status_event_plans_seq (w_tables w) < p_id p'
        \<or> (\<exists>p \<in> set (status_event_plans (w_tables w)). plan_facts p p'
            \<and> (settled_plan (p_status p) \<longrightarrow>
               p' = p \<or> (p_status p' = StatusPlanDiscarded \<and> p_attempts p' = p_attempts p))))"
  using plife.plan_run_inside [OF run none TrueI] ok
  unfolding inside_def guarded_def plans_evolve_def plan_row_step_def by blast

subsection \<open>Retrying\<close>

text \<open>When a plan is given up, and what becomes of the row, in one pass.\<close>

definition gives_up :: "MarkRetryOptions \<Rightarrow> int \<Rightarrow> int \<Rightarrow> bool" where
  "gives_up opts attempts elapsedMs \<longleftrightarrow> mo_StallDetected opts \<or> mo_IsWindowExpired opts
     \<or> (\<exists>windowMs. mo_TotalWindowMs opts = Some windowMs \<and> windowMs \<le> elapsedMs)
     \<or> (\<not> mo_IsTargetWorking opts
        \<and> (if 0 < mo_MaxAttempts opts then mo_MaxAttempts opts else 8) \<le> attempts)"

definition retried_row :: "MarkRetryOptions \<Rightarrow> string \<Rightarrow> int \<Rightarrow> statusEventPlanRow \<Rightarrow> statusEventPlanRow" where
  "retried_row opts msg now p =
     (let up = gives_up opts (p_attempts p + 1) (now - p_createdAtMs p)
      in p\<lparr>p_attempts := p_attempts p + 1,
           p_status := (if \<not> up then StatusPlanPending
             else if msg = PlanWaitingHistory then StatusPlanDiscarded else StatusPlanFailed),
           p_lastError := Some (if up \<and> mo_StallDetected opts then PlanStalled else msg),
           p_updatedAtMs := now\<rparr>)"

lemma retry_status_eq:
  "retry_status opts msg attempts elapsed =
     (if \<not> gives_up opts attempts elapsed then StatusPlanPending
      else if msg = PlanWaitingHistory then StatusPlanDiscarded else StatusPlanFailed)"
  by (simp add: retry_status_def gives_up_def window_expired_def retry_max_attempts_def
      StatusPlanMaxAttempts_def Let_def split: option.split)

lemma retry_error_eq:
  "retry_error opts msg (retry_status opts msg attempts elapsed) =
     (if gives_up opts attempts elapsed \<and> mo_StallDetected opts then PlanStalled else msg)"
  by (simp add: retry_status_eq retry_error_def)

lemma find_plan:
  assumes "plans_ok t" "p \<in> set (status_event_plans t)" "p_id p = planID"
  shows "find (\<lambda>q. p_id q = planID) (status_event_plans t) = Some p"
  using find_distinct [OF plans_okD(1) [OF assms(1)] assms(2)] assms(3) by simp

lemma update_one_plan:
  assumes ok: "plans_ok t" and p: "p \<in> set (status_event_plans t)" "p_id p = planID" "c p"
  shows "update_where (\<lambda>q. p_id q = planID \<and> c q) f (status_event_plans t)
     = update_where (\<lambda>q. p_id q = planID) (\<lambda>_. f p) (status_event_plans t)"
    and "count_where (\<lambda>q. p_id q = planID \<and> c q) (status_event_plans t) \<noteq> 0"
proof -
  show "update_where (\<lambda>q. p_id q = planID \<and> c q) f (status_event_plans t)
     = update_where (\<lambda>q. p_id q = planID) (\<lambda>_. f p) (status_event_plans t)"
    unfolding update_where_def using plans_ok_unique [OF ok p(1)] p(2,3) by (intro map_cong refl) auto
  have "0 < count_where (\<lambda>q. p_id q = planID \<and> c q) (status_event_plans t)"
    using p by (auto simp: count_where_pos)
  then show "count_where (\<lambda>q. p_id q = planID \<and> c q) (status_event_plans t) \<noteq> 0" by simp
qed

lemma find_update_one:
  assumes "p \<in> set ps" and "p_id p = planID" and "p_id p' = planID"
  shows "find (\<lambda>q. p_id q = planID) (update_where (\<lambda>q. p_id q = planID) (\<lambda>_. p') ps) = Some p'"
  using assms by (induction ps) (auto simp: update_where_def)

lemma retry_row_eq:
  "p\<lparr>p_attempts := p_attempts p + 1,
      p_status := retry_status opts msg (p_attempts p + 1) (now - p_createdAtMs p),
      p_lastError := Some (retry_error opts msg
        (retry_status opts msg (p_attempts p + 1) (now - p_createdAtMs p))),
      p_updatedAtMs := now\<rparr> = retried_row opts msg now p"
  by (simp add: retried_row_def retry_error_eq Let_def) (simp add: retry_status_eq)

text \<open>The outcome of every retry that does not fail in the driver.\<close>

lemma MarkRetry_InrD:
  assumes run: "MarkRetry planID err options w = (Inr res, w')" and ok: "plans_ok (w_tables w)"
  defines "msg \<equiv> retry_message err" and "opts \<equiv> retry_options options"
  obtains p where "p \<in> set (status_event_plans (w_tables w))" "p_id p = planID"
    and "settled_plan (p_status p) \<Longrightarrow> res = None \<and> w_tables w' = w_tables w"
    and "unfinished (p_status p) \<Longrightarrow> res = Some (mapStatusEventPlan (retried_row opts msg (w_wall w) p))
      \<and> w_tables w' = (w_tables w)\<lparr>status_event_plans := update_where (\<lambda>q. p_id q = planID)
          (\<lambda>_. retried_row opts msg (w_wall w) p) (status_event_plans (w_tables w))\<rparr>"
proof -
  let ?t = "w_tables w"
  from run obtain p where p: "find (\<lambda>q. p_id q = planID) (status_event_plans ?t) = Some p"
    and rest: "(if settled_plan (p_status p) then return_act None
       else retry_unfinished planID msg opts p) (spend_fault w) = (Inr res, w')"
    unfolding MarkRetry_def plan_getRow_def msg_def opts_def
    by (auto elim!: bind_act_InrE simp: query_sql_Inr split: option.splits)
  have mem: "p \<in> set (status_event_plans ?t)" "p_id p = planID" using find_SomeD [OF p] by auto
  let ?p' = "retried_row opts msg (w_wall w) p"
  show thesis
  proof (rule that [OF mem])
    assume "settled_plan (p_status p)"
    with rest show "res = None \<and> w_tables w' = ?t" by simp
  next
    assume open_p: "unfinished (p_status p)"
    have id: "p_id ?p' = planID" using mem(2) by (simp add: retried_row_def Let_def)
    note one = update_one_plan [where c = "\<lambda>q. unfinished (p_status q)", OF ok mem open_p]
    from rest open_p show "res = Some (mapStatusEventPlan ?p') \<and> w_tables w' = ?t\<lparr>status_event_plans :=
        update_where (\<lambda>q. p_id q = planID) (\<lambda>_. ?p') (status_event_plans ?t)\<rparr>"
      by (auto elim!: bind_act_InrE simp: retry_unfinished_def settled_plan_iff change_sql_Inr Let_def
          update_plans_def one retry_row_eq plan_Get_def plan_getRow_def query_sql_Inr find_update_one [OF mem id]
          split: if_splits option.splits)
  qed
qed

text \<open>
  a retry does exactly what its parameters say. A settled plan is left alone and nil is
  returned. An unfinished plan gets one more attempt and the error of this one; it goes back to
  pending unless a stall was detected, its window has expired, or its attempt budget is used up
  (a working target lifts only the budget), and then it is discarded when it was waiting for a
  history and failed otherwise. No other plan changes.
\<close>

theorem MarkRetry_exact:
  assumes run: "MarkRetry planID err options w = (Inr res, w')" and ok: "plans_ok (w_tables w)"
  shows "\<exists>p \<in> set (status_event_plans (w_tables w)). p_id p = planID
    \<and> (let p' = retried_row (retry_options options) (retry_message err) (w_wall w) p in
       if settled_plan (p_status p) then res = None \<and> w_tables w' = w_tables w
       else res = Some (mapStatusEventPlan p')
         \<and> w_tables w' = (w_tables w)\<lparr>status_event_plans :=
             update_where (\<lambda>q. p_id q = planID) (\<lambda>_. p') (status_event_plans (w_tables w))\<rparr>)"
proof (rule MarkRetry_InrD [OF run ok])
  fix p
  assume "p \<in> set (status_event_plans (w_tables w))" "p_id p = planID"
    and "settled_plan (p_status p) \<Longrightarrow> res = None \<and> w_tables w' = w_tables w"
    and "unfinished (p_status p) \<Longrightarrow>
      res = Some (mapStatusEventPlan (retried_row (retry_options options) (retry_message err) (w_wall w) p))
      \<and> w_tables w' = (w_tables w)\<lparr>status_event_plans := update_where (\<lambda>q. p_id q = planID)
          (\<lambda>_. retried_row (retry_options options) (retry_message err) (w_wall w) p)
          (status_event_plans (w_tables w))\<rparr>"
  then show ?thesis
    by (intro bexI [of _ p]) (simp_all add: Let_def settled_plan_iff)
qed

text \<open>A database with one plan of agent \<open>ag\<close>, as a drain left it: running, attempted once.\<close>

definition sample_plan :: statusEventPlanRow where
  "sample_plan =
     \<lparr>p_agentID = ''ag'', p_attempts = 1, p_compactHistory = None, p_createdAtMs = 5,
      p_fromStatus = AgentStatusWorking, p_herdrEventKey = Some ''hk'', p_herdrSessionName = ''s'',
      p_id = 1, p_lastError = Some ''boom'', p_paneGeneration = None, p_paneID = ''p'',
      p_status = StatusPlanRunning, p_toStatus = AgentStatusIdle, p_updatedAtMs = 6\<rparr>"

definition sample_plan_world :: world where
  "sample_plan_world =
     (sample_world [])\<lparr>w_tables := (sample_tables [])\<lparr>status_event_plans := [sample_plan],
        status_event_plans_seq := 1\<rparr>\<rparr>"

lemma sample_plans_ok: "plans_ok (w_tables sample_plan_world)" "w_open sample_plan_world = None"
  by (simp_all add: sample_plan_world_def plans_ok_def sample_plan_def plan_row_ok_def unfinished_def
      sample_tables_def sample_world_def)

theorem MarkRetry_exact_witness:
  "map_option pl_Attempts (case fst (MarkRetry 1 None None sample_plan_world) of Inr r \<Rightarrow> r | Inl _ \<Rightarrow> None)
     = Some 2"
proof -
  obtain res w' where run: "MarkRetry 1 None None sample_plan_world = (Inr res, w')"
    and some: "map_option pl_Attempts res = Some 2"
    by (simp add: MarkRetry_def plan_getRow_def retry_unfinished_def plan_Get_def sample_plan_world_def
        sample_plan_def query_sql_def exec_sql_def change_sql_def sample_tables_def sample_world_def
        next_fault_def spend_fault_def act_defs wall_clock_def settled_plan_iff unfinished_def Let_def
        update_plans_def update_where_def count_where_def mapStatusEventPlan_def)
  from MarkRetry_exact [OF run sample_plans_ok(1)] run some show ?thesis by simp
qed

subsection \<open>The budget of attempts\<close>

lemma MarkRetry_tables:
  assumes run: "MarkRetry planID err options w = (r, w')" and ok: "plans_ok (w_tables w)"
  shows "w_tables w' = w_tables w
    \<or> (\<exists>p \<in> set (status_event_plans (w_tables w)). p_id p = planID \<and> unfinished (p_status p)
        \<and> w_tables w' = (w_tables w)\<lparr>status_event_plans := update_where (\<lambda>q. p_id q = planID)
          (\<lambda>_. retried_row (retry_options options) (retry_message err) (w_wall w) p)
          (status_event_plans (w_tables w))\<rparr>)"
proof (cases r)
  case (Inr res)
  with run have "MarkRetry planID err options w = (Inr res, w')" by simp
  then show ?thesis by (rule MarkRetry_InrD [OF _ ok]) (auto simp: settled_plan_iff)
next
  case (Inl e)
  let ?opts = "retry_options options" and ?msg = "retry_message err"
  have same: "(spend_fault w)\<lparr>w_tables := w_tables w\<rparr> = spend_fault w" by (simp add: spend_fault_def)
  from run Inl have "w_tables w' = w_tables w \<or> (\<exists>p w1. find (\<lambda>q. p_id q = planID)
      (status_event_plans (w_tables w)) = Some p \<and> unfinished (p_status p) \<and> w1 = spend_fault w
      \<and> retry_unfinished planID ?msg ?opts p w1 = (Inl e, w'))"
    unfolding MarkRetry_def plan_getRow_def
    by (auto elim!: bind_act_InlE simp: query_sql_def exec_sql_def fail_act_def return_act_def settled_plan_iff
        same Let_def split: option.splits if_splits)
  then show ?thesis
  proof (elim disjE exE conjE)
    fix p w1
    assume p: "find (\<lambda>q. p_id q = planID) (status_event_plans (w_tables w)) = Some p"
      and open_p: "unfinished (p_status p)" and w1: "w1 = spend_fault w"
      and rest: "retry_unfinished planID ?msg ?opts p w1 = (Inl e, w')"
    have mem: "p \<in> set (status_event_plans (w_tables w))" "p_id p = planID" using find_SomeD [OF p] by auto
    note one = update_one_plan [where c = "\<lambda>q. unfinished (p_status q)", OF ok mem open_p]
    from rest w1 have "w_tables w' = w_tables w \<or> w_tables w' = (w_tables w)\<lparr>status_event_plans :=
        update_where (\<lambda>q. p_id q = planID) (\<lambda>_. retried_row ?opts ?msg (w_wall w) p)
          (status_event_plans (w_tables w))\<rparr>"
      by (auto elim!: bind_act_InlE simp: retry_unfinished_def change_sql_Inr Let_def plan_Get_def
          update_plans_def one retry_row_eq plan_getRow_def query_sql_def change_sql_def exec_sql_def
          fail_act_def return_act_def split: if_splits option.splits)
    with mem open_p show ?thesis by blast
  qed simp
qed

definition budgeted :: "int \<Rightarrow> MarkRetryOptions option \<Rightarrow> bool" where
  "budgeted m options \<longleftrightarrow> \<not> mo_IsTargetWorking (retry_options options)
     \<and> retry_max_attempts (retry_options options) \<le> m"

text \<open>
  \<open>retry_run planID m n w w'\<close>: a run of the store between whose states \<open>n\<close> retries of the plan have
  been granted. Everything else may happen in between: drains, other plans, failing retries,
  crashes that reset running plans.
\<close>

inductive retry_run :: "int \<Rightarrow> int \<Rightarrow> int \<Rightarrow> world \<Rightarrow> world \<Rightarrow> bool" for planID m where
  start: "retry_run planID m 0 w w"
| other: "retry_run planID m n w w1 \<Longrightarrow> plan_step (\<lambda>q _. q \<noteq> planID) w1 w2 \<Longrightarrow> retry_run planID m n w w2"
| refused: "retry_run planID m n w w1 \<Longrightarrow> MarkRetry planID err options w1 = (r, w2) \<Longrightarrow>
    (\<And>plan. r \<noteq> Inr (Some plan)) \<Longrightarrow> budgeted m options \<Longrightarrow> retry_run planID m n w w2"
| granted: "retry_run planID m n w w1 \<Longrightarrow> MarkRetry planID err options w1 = (Inr (Some plan), w2) \<Longrightarrow>
    budgeted m options \<Longrightarrow> retry_run planID m (n + 1) w w2"

definition within_budget :: "int \<Rightarrow> int \<Rightarrow> int \<Rightarrow> world \<Rightarrow> bool" where
  "within_budget planID m n w \<longleftrightarrow> w_open w = None \<and> plans_ok (w_tables w)
     \<and> planID \<le> status_event_plans_seq (w_tables w) \<and> n \<le> m
     \<and> (\<forall>p \<in> set (status_event_plans (w_tables w)). p_id p = planID \<and> unfinished (p_status p) \<longrightarrow>
          n \<le> p_attempts p \<and> (n = 0 \<or> p_attempts p < m))"

lemma retried_row_budget:
  assumes "budgeted m options"
    and "unfinished (p_status (retried_row (retry_options options) msg now p))"
  shows "p_attempts p + 1 < m"
  using assms by (auto simp: retried_row_def budgeted_def gives_up_def retry_max_attempts_def
      StatusPlanMaxAttempts_def unfinished_def Let_def split: if_splits)

lemma retried_row_keeps: "p_id (retried_row opts msg now p) = p_id p"
    "p_attempts (retried_row opts msg now p) = p_attempts p + 1"
  by (simp_all add: retried_row_def Let_def)

text \<open>What a retry of the plan itself does to the invariant, granted or not.\<close>

lemma budget_retry:
  assumes b: "within_budget planID m n w" and run: "MarkRetry planID err options w = (r, w')"
    and o: "budgeted m options" and m: "0 < m"
  shows "within_budget planID m n w'"
    and "r = Inr (Some plan) \<Longrightarrow> within_budget planID m (n + 1) w'"
proof -
  let ?row = "retried_row (retry_options options) (retry_message err) (w_wall w)"
  have none: "w_open w = None" and ok: "plans_ok (w_tables w)" and n: "n \<le> m"
    and seq: "planID \<le> status_event_plans_seq (w_tables w)"
    and rows: "p \<in> set (status_event_plans (w_tables w)) \<Longrightarrow> p_id p = planID \<Longrightarrow> unfinished (p_status p)
      \<Longrightarrow> n \<le> p_attempts p \<and> (n = 0 \<or> p_attempts p < m)" for p
    using b by (auto simp: within_budget_def)
  have "inside (guarded plans_ok plans_evolve) w w'"
    using moves_resultD [OF plife.moves_MarkRetry run] by simp
  then have none': "w_open w' = None" and ok': "plans_ok (w_tables w')"
    and seq': "planID \<le> status_event_plans_seq (w_tables w')"
    using none ok seq by (auto simp: inside_def guarded_def plans_evolve_def)
  have written: "within_budget planID m k w'"
    if p: "p \<in> set (status_event_plans (w_tables w))" "p_id p = planID"
      and t: "w_tables w' = (w_tables w)\<lparr>status_event_plans := update_where (\<lambda>q. p_id q = planID)
        (\<lambda>_. ?row p) (status_event_plans (w_tables w))\<rparr>" and k: "k \<le> m" "k \<le> p_attempts p + 1" for p k
  proof -
    have "q = ?row p" if "q \<in> set (status_event_plans (w_tables w'))" "p_id q = planID" for q
      using that p(2) unfolding t by (auto simp: set_update_where split: if_splits)
    then have "k \<le> p_attempts q \<and> p_attempts q < m"
      if "q \<in> set (status_event_plans (w_tables w'))" "p_id q = planID" "unfinished (p_status q)" for q
      using that k(2) retried_row_budget [OF o, of "retry_message err" "w_wall w" p]
      by (metis retried_row_keeps(2))
    then show ?thesis using none' ok' seq' k(1) unfolding within_budget_def by auto
  qed
  have same: "within_budget planID m n w'" if "w_tables w' = w_tables w"
    using b none' that by (simp add: within_budget_def)
  show "within_budget planID m n w'"
    using MarkRetry_tables [OF run ok]
  proof (elim disjE bexE conjE)
    fix p assume p: "p \<in> set (status_event_plans (w_tables w))" "p_id p = planID" "unfinished (p_status p)"
      and t: "w_tables w' = (w_tables w)\<lparr>status_event_plans := update_where (\<lambda>q. p_id q = planID)
        (\<lambda>_. ?row p) (status_event_plans (w_tables w))\<rparr>"
    show ?thesis using rows [OF p] n by (intro written [OF p(1,2) t]) auto
  qed (rule same)
  show "within_budget planID m (n + 1) w'" if granted: "r = Inr (Some plan)"
    using run unfolding granted
  proof (rule MarkRetry_InrD [OF _ ok])
    fix p
    assume p: "p \<in> set (status_event_plans (w_tables w))" "p_id p = planID"
      and settled: "settled_plan (p_status p) \<Longrightarrow> Some plan = None \<and> w_tables w' = w_tables w"
      and t: "unfinished (p_status p) \<Longrightarrow> Some plan = Some (mapStatusEventPlan (?row p))
        \<and> w_tables w' = (w_tables w)\<lparr>status_event_plans := update_where (\<lambda>q. p_id q = planID)
          (\<lambda>_. ?row p) (status_event_plans (w_tables w))\<rparr>"
    have open_p: "unfinished (p_status p)" using settled by (auto simp: settled_plan_iff)
    have "n + 1 \<le> m" using rows [OF p open_p] n m by (cases "n = 0") auto
    moreover have "n + 1 \<le> p_attempts p + 1" using rows [OF p open_p] by simp
    ultimately show "within_budget planID m (n + 1) w'" using written [OF p] t [OF open_p] by blast
  qed
qed

lemma budget_other:
  assumes b: "within_budget planID m n w" and step: "plan_step (\<lambda>q _. q \<noteq> planID) w w'"
  shows "within_budget planID m n w'"
proof -
  have none: "w_open w = None" using b by (simp add: within_budget_def)
  have "inside (guarded plans_ok (plan_still planID)) w w'"
    by (rule pstill.plan_step_inside [OF step none]) (simp add: still_row_def)
  then show ?thesis
    using b unfolding inside_def guarded_def plan_still_def within_budget_def by fastforce
qed

lemma budget_run:
  assumes "retry_run planID m n w w'" and "within_budget planID m 0 w" and "0 < m"
  shows "within_budget planID m n w'"
  using assms by (induction rule: retry_run.induct) (blast intro: budget_other budget_retry)+

text \<open>
  retrying ends. Whatever else happens to the store in between (drains, crashes that put
  running plans back to pending, other plans, failing statements), a plan is granted at most
  \<open>m\<close> retries when every retry of it is asked for with a budget of at most \<open>m\<close> attempts and its
  target is not working; after the \<open>m\<close>-th, and never later, no unfinished plan of that id is left,
  so it is settled and no further drain will pick it up. The default budget is 8.
\<close>

theorem retry_budget:
  assumes run: "retry_run planID m n w w'" and m: "0 < m" and none: "w_open w = None"
    and ok: "plans_ok (w_tables w)" and known: "planID \<le> status_event_plans_seq (w_tables w)"
  shows "n \<le> m \<and> (n = m \<longrightarrow>
    (\<forall>p \<in> set (status_event_plans (w_tables w')). p_id p = planID \<longrightarrow> settled_plan (p_status p)))"
proof -
  have "within_budget planID m 0 w"
    using none ok known m plans_okD(2) [OF ok] by (auto simp: within_budget_def plan_row_ok_def)
  from budget_run [OF run this m] m show ?thesis
    unfolding within_budget_def settled_plan_iff by fastforce
qed

theorem retry_budget_witness:
  "settled_plan (p_status (hd (status_event_plans (w_tables
     (snd (MarkRetry 1 None (Some (default_retry_options\<lparr>mo_MaxAttempts := 1\<rparr>)) sample_plan_world))))))"
proof -
  let ?o = "Some (default_retry_options\<lparr>mo_MaxAttempts := 1\<rparr>)"
  obtain plan w' where step: "MarkRetry 1 None ?o sample_plan_world = (Inr (Some plan), w')"
    and rows: "\<exists>p. status_event_plans (w_tables w') = [p] \<and> p_id p = 1"
    by (simp add: MarkRetry_def plan_getRow_def retry_unfinished_def plan_Get_def sample_plan_world_def
        sample_plan_def query_sql_def exec_sql_def change_sql_def sample_tables_def sample_world_def
        next_fault_def spend_fault_def act_defs wall_clock_def settled_plan_iff unfinished_def Let_def
        update_plans_def update_where_def count_where_def mapStatusEventPlan_def)
  have "budgeted 1 ?o" by (simp add: budgeted_def retry_options_def retry_max_attempts_def default_retry_options_def)
  with step have "retry_run 1 1 (0 + 1) sample_plan_world w'" by (blast intro: retry_run.intros)
  from retry_budget [OF this _ sample_plans_ok(2,1)] step rows show ?thesis
    by (auto simp: sample_plan_world_def)
qed

subsection \<open>One plan per event\<close>

definition keyed :: "InsertPendingInput \<Rightarrow> statusEventPlanRow \<Rightarrow> bool" where
  "keyed input p \<longleftrightarrow> p_herdrSessionName p = ip_HerdrSessionName (resolved_input input)
     \<and> p_herdrEventKey p = ip_HerdrEventKey (resolved_input input)"

lemma existing_plan_SomeD:
  assumes "existing_plan session key w = (Inr (Some plan), w')"
  shows "\<exists>p k. p \<in> set (status_event_plans (w_tables w)) \<and> key = Some k \<and> k \<noteq> [] \<and> with_event_key session k p
    \<and> plan = mapStatusEventPlan p \<and> w_tables w' = w_tables w"
  using assms unfolding existing_plan_def getByEventKey_def
  by (auto simp: query_sql_Inr eq_commute [of "Some plan"] dest!: find_SomeD split: option.splits if_splits)

lemma existing_plan_NoneD:
  assumes "existing_plan session (Some k) w = (Inr None, w')" and "k \<noteq> []"
  shows "p \<in> set (status_event_plans (w_tables w)) \<Longrightarrow> \<not> with_event_key session k p"
  using assms unfolding existing_plan_def getByEventKey_def
  by (auto simp: query_sql_Inr dest!: find_NoneD)

lemma existing_plan_tables: "existing_plan session key w = (Inr x, w') \<Longrightarrow> w_tables w' = w_tables w"
  unfolding existing_plan_def getByEventKey_def
  by (auto simp: query_sql_Inr split: option.splits if_splits)

lemma plan_Get_InrD:
  assumes "plan_Get planID w = (Inr plan, w')"
  shows "\<exists>p \<in> set (status_event_plans (w_tables w)). p_id p = planID \<and> plan = mapStatusEventPlan p
    \<and> w_tables w' = w_tables w"
  using assms unfolding plan_Get_def plan_getRow_def
  by (auto simp: query_sql_Inr elim!: bind_act_InrE dest!: find_SomeD split: option.splits)

lemma Cancel_keeps:
  assumes "CancelSupersededPendingPlans input w = (Inr n, w')"
    and "p \<in> set (status_event_plans (w_tables w))" "p_id p = cs_KeepID input"
  shows "p \<in> set (status_event_plans (w_tables w'))"
  using assms unfolding CancelSupersededPendingPlans_def
  by (auto simp: change_sql_Inr update_plans_def set_update_where superseded_by_def
      intro!: bexI [of _ p])

lemma insert_pending_row_InrD:
  assumes run: "insert_pending_row input fs ts w = (Inr plan, w')" and ok: "plans_ok (w_tables w)"
  shows "\<exists>p \<in> set (status_event_plans (w_tables w')). plan = mapStatusEventPlan p
    \<and> p_herdrSessionName p = ip_HerdrSessionName input \<and> p_herdrEventKey p = ip_HerdrEventKey input"
proof -
  let ?row = "pending_row input fs ts (w_wall w)"
  from run obtain outcome w2 where
    ins: "catch_act
         (bind_act (exec_sql (insert_plan ?row)) (\<lambda>planID. return_act (Inr planID)))
         (\<lambda>err. bind_act (existing_plan (ip_HerdrSessionName input) (ip_HerdrEventKey input))
            (\<lambda>existing. case existing of Some plan \<Rightarrow> return_act (Inl plan) | None \<Rightarrow> fail_act err)) w
       = (Inr outcome, w2)" and
    out: "(case outcome of
           Inl plan \<Rightarrow> return_act plan
         | Inr planID \<Rightarrow>
           bind_act (plan_Get planID) (\<lambda>row.
           bind_act (CancelSupersededPendingPlans
               \<lparr>cs_AgentID = ip_AgentID input, cs_HerdrSessionName = ip_HerdrSessionName input,
                cs_KeepID = pl_ID row, cs_ToStatus = ts\<rparr>) (\<lambda>_.
           return_act row))) w2 = (Inr plan, w')"
    unfolding insert_pending_row_def by (auto elim!: bind_act_InrE)
  show ?thesis
  proof (cases outcome)
    case (Inl known)
    then obtain w3 where "existing_plan (ip_HerdrSessionName input) (ip_HerdrEventKey input) w3
        = (Inr (Some known), w2)"
      using ins by (auto simp: catch_act_def elim!: bind_act_InrE split: prod.splits sum.splits option.splits)
    with existing_plan_SomeD out Inl show ?thesis by (fastforce simp: with_event_key_def)
  next
    case (Inr planID)
    have step: "exec_sql (insert_plan ?row) w = (Inr planID, w2)"
      using ins Inr by (auto simp: catch_act_def elim!: bind_act_InrE split: prod.splits sum.splits option.splits)
    then have t2: "insert_plan ?row (w_tables w) = Inr (planID, w_tables w2)"
      by (auto simp: exec_sql_Inr)
    note new = insert_plan_InrD(1,2) [OF t2]
    have ok2: "plans_ok (w_tables w2)" by (rule plans_ok_insert [OF ok t2])
    from out Inr obtain row w3 w4 n where get: "plan_Get planID w2 = (Inr row, w3)" and
      cancel: "CancelSupersededPendingPlans \<lparr>cs_AgentID = ip_AgentID input,
        cs_HerdrSessionName = ip_HerdrSessionName input, cs_KeepID = pl_ID row, cs_ToStatus = ts\<rparr> w3
        = (Inr n, w4)" and plan: "plan = row" "w' = w4"
      by (auto elim!: bind_act_InrE)
    from plan_Get_InrD [OF get] obtain p where p: "p \<in> set (status_event_plans (w_tables w2))" "p_id p = planID"
      "row = mapStatusEventPlan p" "w_tables w3 = w_tables w2" by blast
    have mem: "?row\<lparr>p_id := planID\<rparr> \<in> set (status_event_plans (w_tables w2))" using new by simp
    have "p = ?row\<lparr>p_id := planID\<rparr>"
      using plans_ok_unique [OF ok2 mem p(1)] p(2) by simp
    moreover have "p \<in> set (status_event_plans (w_tables w'))"
      unfolding plan(2) using p by (intro Cancel_keeps [OF cancel]) (simp_all add: mapStatusEventPlan_def)
    ultimately show ?thesis using p(3) plan(1) by (intro bexI [of _ p]) (auto simp: pending_row_def)
  qed
qed

lemma InsertPending_InrE:
  assumes "InsertPending input w = (Inr plan, w')"
  obtains (known) "existing_plan (ip_HerdrSessionName (resolved_input input))
      (ip_HerdrEventKey (resolved_input input)) w = (Inr (Some plan), w')"
    | (fresh) w1 fs ts where "existing_plan (ip_HerdrSessionName (resolved_input input))
      (ip_HerdrEventKey (resolved_input input)) w = (Inr None, w1)"
      "insert_pending_row (resolved_input input) fs ts w1 = (Inr plan, w')"
  using assms unfolding InsertPending_def Let_def
  by (auto elim!: bind_act_InrE split: option.splits if_splits)

lemma InsertPending_InrD:
  assumes run: "InsertPending input w = (Inr plan, w')" and ok: "plans_ok (w_tables w)"
  shows "\<exists>p \<in> set (status_event_plans (w_tables w')). plan = mapStatusEventPlan p \<and> keyed input p"
  using run
proof (cases rule: InsertPending_InrE)
  case known
  with existing_plan_SomeD show ?thesis by (fastforce simp: keyed_def with_event_key_def)
next
  case (fresh w1 fs ts)
  then have "plans_ok (w_tables w1)" using ok existing_plan_tables by metis
  with fresh(2) insert_pending_row_InrD show ?thesis by (fastforce simp: keyed_def)
qed

text \<open>
  a Herdr event gets one plan. After an insert with an event key, whatever the store does in
  between (the plan may have run, failed, been cancelled or discarded), a second insert for the
  same session and key that returns returns the row of the same plan as it stands and writes
  nothing, for as long as the retention sweep has not deleted it.
\<close>

theorem InsertPending_at_most_once:
  assumes ok: "plans_ok (w_tables w)" and none: "w_open w = None"
    and first: "InsertPending input w = (Inr plan, w1)"
    and key: "ip_HerdrEventKey (resolved_input input) = Some k" "k \<noteq> []"
    and run: "(plan_step (\<lambda>_ _. True))\<^sup>*\<^sup>* w1 w2"
    and kept: "p2 \<in> set (status_event_plans (w_tables w2))" "p_id p2 = pl_ID plan"
    and again: "ip_HerdrSessionName (resolved_input again) = ip_HerdrSessionName (resolved_input input)"
      "ip_HerdrEventKey (resolved_input again) = Some k"
    and second: "InsertPending again w2 = (Inr plan2, w3)"
  shows "plan2 = mapStatusEventPlan p2 \<and> w_tables w3 = w_tables w2"
proof -
  obtain p1 where p1: "p1 \<in> set (status_event_plans (w_tables w1))" "plan = mapStatusEventPlan p1" "keyed input p1"
    using InsertPending_InrD [OF first ok] by blast
  have "inside (guarded plans_ok plans_evolve) w w1" by (rule moves_resultD [OF plife.moves_InsertPending first])
  then have ok1: "plans_ok (w_tables w1)" and none1: "w_open w1 = None"
    using ok none by (auto simp: inside_def guarded_def)
  have evolve: "plans_ok (w_tables w2)" "plans_evolve (w_tables w1) (w_tables w2)"
    using plife.plan_run_inside [OF run none1 TrueI] ok1 by (auto simp: inside_def guarded_def)
  have id: "p_id p2 = p_id p1" using kept(2) p1(2) by (simp add: mapStatusEventPlan_def)
  then have "\<not> status_event_plans_seq (w_tables w1) < p_id p2" using plans_okD(3) [OF ok1 p1(1)] by simp
  then obtain p where p: "p \<in> set (status_event_plans (w_tables w1))" "plan_row_step p p2"
    using evolve(2) kept(1) unfolding plans_evolve_def by blast
  then have "p = p1" using plans_ok_unique [OF ok1 p1(1) p(1)] id plan_row_step_id by metis
  then have k2: "keyed input p2" using p(2) p1(3) by (auto simp: plan_row_step_def plan_facts_def keyed_def)
  then have key2: "with_event_key (ip_HerdrSessionName (resolved_input again)) k p2"
    using key again by (simp add: keyed_def with_event_key_def)
  show ?thesis using second
  proof (cases rule: InsertPending_InrE)
    case known
    from existing_plan_SomeD [OF this] again obtain q where q: "q \<in> set (status_event_plans (w_tables w2))"
      "with_event_key (ip_HerdrSessionName (resolved_input again)) k q"
      "plan2 = mapStatusEventPlan q" "w_tables w3 = w_tables w2" by auto
    have "same_event p2 q" using key2 q(2) by (simp add: same_event_def with_event_key_def)
    then have "p_id q = p_id p2" using evolve(1) kept(1) q(1) by (simp add: plans_ok_def)
    then have "q = p2" by (rule plans_ok_unique [OF evolve(1) kept(1) q(1)])
    with q show ?thesis by simp
  next
    case (fresh w4 fs ts)
    with again key(2) existing_plan_NoneD kept(1) key2 show ?thesis by metis
  qed
qed

definition sample_plan_input :: InsertPendingInput where
  "sample_plan_input =
     \<lparr>ip_Agent = None, ip_AgentID = ''ag'', ip_CompactHistory = None, ip_From = None,
      ip_FromStatus = Some AgentStatusWorking, ip_HerdrEventKey = Some ''hk'',
      ip_HerdrSessionName = ''s'', ip_PaneGeneration = None, ip_PaneID = ''p'', ip_To = None,
      ip_ToStatus = Some AgentStatusIdle\<rparr>"

theorem InsertPending_at_most_once_witness:
  "\<exists>plan w1 plan2 w3. InsertPending sample_plan_input (sample_world []) = (Inr plan, w1)
     \<and> InsertPending sample_plan_input w1 = (Inr plan2, w3) \<and> w_tables w3 = w_tables w1"
proof -
  note run_defs = InsertPending_def resolved_input_def insert_pending_row_def sample_plan_input_def
    existing_plan_def getByEventKey_def insert_plan_def with_event_key_def pending_row_def
    plan_getRow_def plan_Get_def CancelSupersededPendingPlans_def superseded_by_def
    query_sql_def exec_sql_def change_sql_def next_fault_def spend_fault_def act_defs
    wall_clock_def unfinished_def Let_def update_plans_def update_where_def count_where_def
    mapStatusEventPlan_def catch_act_def opt_else_def sample_world_def sample_tables_def
  obtain plan w1 plan2 w3 where first: "InsertPending sample_plan_input (sample_world []) = (Inr plan, w1)"
    and p: "\<exists>p. status_event_plans (w_tables w1) = [p] \<and> p_id p = pl_ID plan"
    and second: "InsertPending sample_plan_input w1 = (Inr plan2, w3)"
    by (simp add: run_defs)
  have key: "ip_HerdrEventKey (resolved_input sample_plan_input) = Some ''hk''"
    by (simp add: resolved_input_def sample_plan_input_def)
  have ok: "plans_ok (w_tables (sample_world []))" by (simp add: plans_ok_def sample_tables_def)
  from p obtain q where "q \<in> set (status_event_plans (w_tables w1))" "p_id q = pl_ID plan" by auto
  from InsertPending_at_most_once [OF ok _ first key _ rtranclp.rtrancl_refl this refl key second]
    first second show ?thesis by auto
qed

theorem plans_invariant_witness:
  "plans_ok (w_tables (snd (ResetRunningToPending sample_plan_world)))"
proof -
  have "(plan_step (\<lambda>_ _. True))\<^sup>*\<^sup>* sample_plan_world (snd (ResetRunningToPending sample_plan_world))"
    by (rule r_into_rtranclp, rule plan_step.reset [OF prod.collapse [symmetric]])
  from plans_invariant [OF this sample_plans_ok(2,1)] show ?thesis by blast
qed

end
