(* ===== verification/Gate.thy ===== *)
theory Gate
  imports Main Strconv
begin

text \<open>
  \<open>SqliteGate\<close> of \<open>go/internal/shared/sqlite_gate.go\<close>: the reentrant lock in front of the one
  SQLite connection. Each critical section of the code (everything between \<open>mu.Lock\<close> and
  \<open>mu.Unlock\<close>) is a function on \<open>SqliteGate\<close>; the goroutines that call them interleave as a step
  relation on \<open>gate_system\<close>, in which a waiter in the \<open>select\<close> of \<open>Acquire\<close> is a program counter
  of its own. The wake channel has one slot: \<open>wake\<close> is \<open>None\<close> before it is made, then
  whether a signal is buffered.
\<close>

subsection \<open>The critical sections\<close>

record SqliteGate =
  gate_owner :: int
  gate_depth :: nat
  gate_acquiredAt :: int
  gate_wake :: "bool option"
  gate_waitTimeout :: int

definition sqliteGateWaitTimeout :: int where
  "sqliteGateWaitTimeout = 30000000000"

text \<open>Durations are in nanoseconds. \<open>waitTimeoutOrDefault\<close> falls back on a value that is not positive.\<close>

definition waitTimeoutOrDefault :: "SqliteGate \<Rightarrow> int" where
  "waitTimeoutOrDefault g =
     (if gate_waitTimeout g > 0 then gate_waitTimeout g else sqliteGateWaitTimeout)"

text \<open>
  \<open>HERDSMAN_SQLITE_GATE_WARN_MS\<close> with its spaces trimmed; \<open>time.Duration\<close> is 64 bits wide, so the
  product wraps around.
\<close>

definition duration_wrap :: "int \<Rightarrow> int" where
  "duration_wrap v = (v + 2 ^ 63) mod 2 ^ 64 - 2 ^ 63"

definition sqliteGateWaitTimeoutFromEnv :: "string \<Rightarrow> int" where
  "sqliteGateWaitTimeoutFromEnv trimmed =
     (case ParseInt trimmed of None \<Rightarrow> 0
      | Some ms \<Rightarrow> if ms \<le> 0 then 0 else duration_wrap (ms * 1000000))"

definition NewSqliteGate :: "string \<Rightarrow> SqliteGate" where
  "NewSqliteGate trimmed =
     \<lparr>gate_owner = 0, gate_depth = 0, gate_acquiredAt = 0, gate_wake = None,
      gate_waitTimeout = sqliteGateWaitTimeoutFromEnv trimmed\<rparr>"

definition may_enter :: "int \<Rightarrow> SqliteGate \<Rightarrow> bool" where
  "may_enter gid g \<longleftrightarrow> gate_depth g = 0 \<or> (gid \<noteq> 0 \<and> gate_owner g = gid)"

definition take_gate :: "int \<Rightarrow> int \<Rightarrow> SqliteGate \<Rightarrow> SqliteGate" where
  "take_gate gid now g =
     (let stamped = (if gate_depth g = 0 then g\<lparr>gate_acquiredAt := now\<rparr> else g)
      in stamped\<lparr>gate_owner := gid, gate_depth := gate_depth g + 1\<rparr>)"

text \<open>
  The first critical section of \<open>Acquire\<close>: granted, or the channel exists and the caller queues.
  The second, after the \<open>select\<close>, only rechecks.
\<close>

definition Acquire_enter :: "int \<Rightarrow> int \<Rightarrow> SqliteGate \<Rightarrow> bool \<times> SqliteGate" where
  "Acquire_enter gid now g =
     (if may_enter gid g then (True, take_gate gid now g)
      else (False, case gate_wake g of None \<Rightarrow> g\<lparr>gate_wake := Some False\<rparr> | Some _ \<Rightarrow> g))"

definition Acquire_recheck :: "int \<Rightarrow> int \<Rightarrow> SqliteGate \<Rightarrow> bool \<times> SqliteGate" where
  "Acquire_recheck gid now g = (if may_enter gid g then (True, take_gate gid now g) else (False, g))"

definition broadcastLocked :: "SqliteGate \<Rightarrow> SqliteGate" where
  "broadcastLocked g =
     (case gate_wake g of None \<Rightarrow> g | Some _ \<Rightarrow> g\<lparr>gate_wake := Some True\<rparr>)"

definition Release :: "int \<Rightarrow> SqliteGate \<Rightarrow> SqliteGate" where
  "Release gid g =
     (if gate_depth g = 0 \<or> gate_owner g \<noteq> gid then g
      else let g' = g\<lparr>gate_depth := gate_depth g - 1\<rparr>
        in if gate_depth g' = 0 then broadcastLocked (g'\<lparr>gate_owner := 0\<rparr>) else g')"

definition ReleaseAll :: "int \<Rightarrow> SqliteGate \<Rightarrow> SqliteGate" where
  "ReleaseAll gid g =
     (if gate_depth g = 0 \<or> gate_owner g \<noteq> gid then g
      else broadcastLocked (g\<lparr>gate_depth := 0, gate_owner := 0\<rparr>))"

definition HeldBy :: "int \<Rightarrow> SqliteGate \<Rightarrow> bool" where
  "HeldBy gid g \<longleftrightarrow> 0 < gate_depth g \<and> gid \<noteq> 0 \<and> gate_owner g = gid"

text \<open>
  \<open>goroutineID\<close>: \<open>header\<close> is what \<open>runtime.Stack\<close> wrote into the 64 bytes. A header that does not
  parse gives 0.
\<close>

definition trim_prefix :: "string \<Rightarrow> string \<Rightarrow> string" where
  "trim_prefix p s = (if take (length p) s = p then drop (length p) s else s)"

definition goroutineID :: "string \<Rightarrow> int" where
  "goroutineID header =
     (case ParseInt (takeWhile (\<lambda>c. c \<noteq> CHR '' '') (trim_prefix ''goroutine '' header)) of
        Some gid \<Rightarrow> gid | None \<Rightarrow> 0)"

text \<open>The registry of gates, by open database handle; handle 0 stands for the nil pointer.\<close>

type_synonym gate_registry = "(nat \<times> nat) list"

definition RegisterSqliteGate :: "nat \<Rightarrow> nat \<Rightarrow> gate_registry \<Rightarrow> gate_registry" where
  "RegisterSqliteGate db gate gates =
     (if db = 0 \<or> gate = 0 then gates else (db, gate) # filter (\<lambda>(d, _). d \<noteq> db) gates)"

definition UnregisterSqliteGate :: "nat \<Rightarrow> gate_registry \<Rightarrow> gate_registry" where
  "UnregisterSqliteGate db gates = (if db = 0 then gates else filter (\<lambda>(d, _). d \<noteq> db) gates)"

definition SqliteGateOf :: "nat \<Rightarrow> gate_registry \<Rightarrow> nat option" where
  "SqliteGateOf db gates = (if db = 0 then None else map_of gates db)"

subsection \<open>The goroutines\<close>

text \<open>
  A goroutine is running code of its own, waits in the \<open>select\<close>, or has left the \<open>select\<close>
  (by a signal or by its timer) and is about to take the mutex. \<open>holds\<close> counts the levels it was
  granted and has not given back: it exists for the statement of the properties.
\<close>

datatype gate_pc = Running | Waiting | Woken bool

record gate_system =
  gs_gate :: SqliteGate
  gs_pc :: "nat \<Rightarrow> gate_pc"
  gs_holds :: "nat \<Rightarrow> nat"

text \<open>
  \<open>gid\<close> is the id each goroutine parsed for itself. A goroutine releases what it holds, one level
  (\<open>Release\<close>) or all of them (\<open>ReleaseAll\<close>, when a panic unwinds); a call of a goroutine that
  holds nothing is allowed too when it has an id.
\<close>

inductive gate_step :: "(nat \<Rightarrow> int) \<Rightarrow> bool \<Rightarrow> gate_system \<Rightarrow> gate_system \<Rightarrow> bool" for gid timers where
  granted: "gs_pc s g = Running \<Longrightarrow> Acquire_enter (gid g) now (gs_gate s) = (True, gate') \<Longrightarrow>
    gate_step gid timers s (s\<lparr>gs_gate := gate', gs_holds := (gs_holds s)(g := Suc (gs_holds s g))\<rparr>)"
| queued: "gs_pc s g = Running \<Longrightarrow> Acquire_enter (gid g) now (gs_gate s) = (False, gate') \<Longrightarrow>
    gate_step gid timers s (s\<lparr>gs_gate := gate', gs_pc := (gs_pc s)(g := Waiting)\<rparr>)"
| signalled: "gs_pc s g = Waiting \<Longrightarrow> gate_wake (gs_gate s) = Some True \<Longrightarrow>
    gate_step gid timers s (s\<lparr>gs_gate := (gs_gate s)\<lparr>gate_wake := Some False\<rparr>,
      gs_pc := (gs_pc s)(g := Woken True)\<rparr>)"
| timed_out: "timers \<Longrightarrow> gs_pc s g = Waiting \<Longrightarrow>
    gate_step gid timers s (s\<lparr>gs_pc := (gs_pc s)(g := Woken False)\<rparr>)"
| regranted: "gs_pc s g = Woken woke \<Longrightarrow> Acquire_recheck (gid g) now (gs_gate s) = (True, gate') \<Longrightarrow>
    gate_step gid timers s (s\<lparr>gs_gate := gate', gs_pc := (gs_pc s)(g := Running),
      gs_holds := (gs_holds s)(g := Suc (gs_holds s g))\<rparr>)"
| requeued: "gs_pc s g = Woken woke \<Longrightarrow> Acquire_recheck (gid g) now (gs_gate s) = (False, gate') \<Longrightarrow>
    gate_step gid timers s (s\<lparr>gs_gate := gate', gs_pc := (gs_pc s)(g := Waiting)\<rparr>)"
| release: "gs_pc s g = Running \<Longrightarrow> 0 < gs_holds s g \<or> gid g \<noteq> 0 \<Longrightarrow>
    gate_step gid timers s (s\<lparr>gs_gate := Release (gid g) (gs_gate s),
      gs_holds := (gs_holds s)(g := gs_holds s g - 1)\<rparr>)"
| release_all: "gs_pc s g = Running \<Longrightarrow> 0 < gs_holds s g \<or> gid g \<noteq> 0 \<Longrightarrow>
    gate_step gid timers s (s\<lparr>gs_gate := ReleaseAll (gid g) (gs_gate s), gs_holds := (gs_holds s)(g := 0)\<rparr>)"

definition fresh_gate :: "string \<Rightarrow> gate_system" where
  "fresh_gate env = \<lparr>gs_gate = NewSqliteGate env, gs_pc = (\<lambda>_. Running), gs_holds = (\<lambda>_. 0)\<rparr>"

text \<open>Goroutine ids are unique; only ids that could not be parsed (0) coincide.\<close>

definition ids_distinct :: "(nat \<Rightarrow> int) \<Rightarrow> bool" where
  "ids_distinct gid \<longleftrightarrow> (\<forall>g h. gid g = gid h \<and> gid g \<noteq> 0 \<longrightarrow> g = h)"

subsection \<open>One holder at a time\<close>

text \<open>The holder, if any: its id is the owner and the depth is the number of its levels.\<close>

definition gate_held_ok :: "(nat \<Rightarrow> int) \<Rightarrow> gate_system \<Rightarrow> bool" where
  "gate_held_ok gid s \<longleftrightarrow>
     (if gate_depth (gs_gate s) = 0 then gate_owner (gs_gate s) = 0 \<and> (\<forall>g. gs_holds s g = 0)
      else \<exists>g. gs_holds s g = gate_depth (gs_gate s) \<and> gate_owner (gs_gate s) = gid g
        \<and> (\<forall>h. h \<noteq> g \<longrightarrow> gs_holds s h = 0))"

text \<open>A waiter only waits once the channel is made, and a free gate has woken somebody.\<close>

definition gate_wake_ok :: "gate_system \<Rightarrow> bool" where
  "gate_wake_ok s \<longleftrightarrow>
     (\<forall>g. gs_pc s g \<noteq> Running \<longrightarrow> gate_wake (gs_gate s) \<noteq> None)
     \<and> (gate_depth (gs_gate s) = 0 \<and> (\<exists>g. gs_pc s g = Waiting)
        \<longrightarrow> gate_wake (gs_gate s) = Some True \<or> (\<exists>g woke. gs_pc s g = Woken woke))"

lemma broadcast_simps [simp]:
  "gate_depth (broadcastLocked g) = gate_depth g" "gate_owner (broadcastLocked g) = gate_owner g"
  "gate_wake (broadcastLocked g) = map_option (\<lambda>_. True) (gate_wake g)"
  by (simp_all add: broadcastLocked_def split: option.splits)

lemma take_gate_simps [simp]:
  "gate_depth (take_gate gid now g) = Suc (gate_depth g)" "gate_owner (take_gate gid now g) = gid"
  "gate_wake (take_gate gid now g) = gate_wake g"
  by (simp_all add: take_gate_def Let_def)

lemma Release_simps:
  "gate_depth (Release gid g) = (if gate_owner g = gid then gate_depth g - 1 else gate_depth g)"
  "gate_wake (Release gid g) = (if gate_depth g = 1 \<and> gate_owner g = gid
     then map_option (\<lambda>_. True) (gate_wake g) else gate_wake g)"
  "gate_owner (Release gid g) = (if gate_depth g = 1 \<and> gate_owner g = gid then 0 else gate_owner g)"
  by (auto simp: Release_def Let_def)

lemma ReleaseAll_simps:
  "gate_depth (ReleaseAll gid g) = (if gate_owner g = gid then 0 else gate_depth g)"
  "gate_wake (ReleaseAll gid g) = (if 0 < gate_depth g \<and> gate_owner g = gid
     then map_option (\<lambda>_. True) (gate_wake g) else gate_wake g)"
  "gate_owner (ReleaseAll gid g) = (if 0 < gate_depth g \<and> gate_owner g = gid then 0 else gate_owner g)"
  by (auto simp: ReleaseAll_def)

lemmas gate_simps = Acquire_enter_def Acquire_recheck_def Release_simps ReleaseAll_simps

text \<open>Taking one more level, and giving levels back, as far as the holder is concerned.\<close>

lemma held_take:
  assumes ids: "ids_distinct gid" and ok: "gate_held_ok gid s" and enter: "may_enter (gid g) (gs_gate s)"
  shows "gate_held_ok gid (s\<lparr>gs_gate := take_gate (gid g) now (gs_gate s), gs_pc := pcs,
    gs_holds := (gs_holds s)(g := Suc (gs_holds s g))\<rparr>)"
proof (cases "gate_depth (gs_gate s) = 0")
  case True
  with ok show ?thesis by (auto simp: gate_held_ok_def intro!: exI [of _ g])
next
  case False
  with ok obtain h where h: "gs_holds s h = gate_depth (gs_gate s)" "gate_owner (gs_gate s) = gid h"
    "\<forall>k. k \<noteq> h \<longrightarrow> gs_holds s k = 0" by (auto simp: gate_held_ok_def)
  with False enter ids have "g = h" by (auto simp: may_enter_def ids_distinct_def)
  with h show ?thesis by (auto simp: gate_held_ok_def intro!: exI [of _ g])
qed

lemma held_give:
  assumes ids: "ids_distinct gid" and ok: "gate_held_ok gid s" and who: "0 < gs_holds s g \<or> gid g \<noteq> 0"
    and owner: "gate_owner gate' = (if gate_depth gate' = 0 then 0 else gate_owner (gs_gate s))"
    and given: "gate_depth gate' = (if gate_owner (gs_gate s) = gid g then left (gate_depth (gs_gate s))
      else gate_depth (gs_gate s))" and left: "left 0 = (0::nat)"
  shows "gate_held_ok gid (s\<lparr>gs_gate := gate', gs_holds := (gs_holds s)(g := left (gs_holds s g))\<rparr>)"
proof (cases "gate_depth (gs_gate s) = 0")
  case True
  with ok owner given left show ?thesis by (auto simp: gate_held_ok_def split: if_splits)
next
  case False
  with ok obtain h where h: "gs_holds s h = gate_depth (gs_gate s)" "gate_owner (gs_gate s) = gid h"
    "\<forall>k. k \<noteq> h \<longrightarrow> gs_holds s k = 0" by (auto simp: gate_held_ok_def)
  show ?thesis
  proof (cases "g = h")
    case True
    with h owner given left show ?thesis by (auto simp: gate_held_ok_def split: if_splits)
  next
    case other: False
    with h who have "gs_holds s g = 0" "gid g \<noteq> 0" by auto
    with other h(2) ids have "gate_owner (gs_gate s) \<noteq> gid g" by (auto simp: ids_distinct_def)
    with False other h owner given left show ?thesis
      by (auto simp: gate_held_ok_def intro!: exI [of _ h])
  qed
qed

lemma held_step:
  assumes ids: "ids_distinct gid" and step: "gate_step gid timers s s'" and ok: "gate_held_ok gid s"
  shows "gate_held_ok gid s'"
  using step
proof cases
  case (granted g now gate')
  then show ?thesis
    using held_take [OF ids ok, where g = g and now = now and pcs = "gs_pc s"] by (auto simp: gate_simps split: if_splits)
next
  case (regranted g woke now gate')
  then show ?thesis using held_take [OF ids ok, where g = g and now = now] by (auto simp: gate_simps split: if_splits)
next
  case (release g)
  have "gate_owner (gs_gate s) = 0 \<or> gate_depth (gs_gate s) \<noteq> 0"
    using ok by (auto simp: gate_held_ok_def)
  with release show ?thesis
    using held_give [OF ids ok, of g "Release (gid g) (gs_gate s)" "\<lambda>n. n - 1"]
    by (auto simp: Release_simps split: if_splits)
next
  case (release_all g)
  have "gate_owner (gs_gate s) = 0 \<or> gate_depth (gs_gate s) \<noteq> 0"
    using ok by (auto simp: gate_held_ok_def)
  with release_all show ?thesis
    using held_give [OF ids ok, of g "ReleaseAll (gid g) (gs_gate s)" "\<lambda>_. 0"]
    by (auto simp: ReleaseAll_simps split: if_splits)
qed (use ok in \<open>auto simp: gate_held_ok_def gate_simps split: if_splits option.splits\<close>)

lemma wake_step:
  assumes step: "gate_step gid timers s s'" and ok: "gate_wake_ok s"
  shows "gate_wake_ok s'"
  using step
proof cases
  case (queued g now gate')
  then show ?thesis using ok
    by (auto simp: gate_wake_ok_def gate_simps may_enter_def split: if_splits option.splits)
next
  case (signalled g)
  then show ?thesis using ok by (auto simp: gate_wake_ok_def)
next
  case (timed_out g)
  then show ?thesis using ok by (auto simp: gate_wake_ok_def)
next
  case (requeued g woke now gate')
  then show ?thesis using ok by (auto simp: gate_wake_ok_def gate_simps may_enter_def split: if_splits)
next
  case (release g)
  then show ?thesis using ok by (auto simp: gate_wake_ok_def gate_simps split: if_splits)
next
  case (release_all g)
  then show ?thesis using ok by (auto simp: gate_wake_ok_def gate_simps split: if_splits)
qed (use ok in \<open>auto simp: gate_wake_ok_def gate_simps split: if_splits\<close>)

lemma gate_reachable:
  assumes "(gate_step gid timers)\<^sup>*\<^sup>* (fresh_gate env) s" and ids: "ids_distinct gid"
  shows "gate_held_ok gid s" and "gate_wake_ok s"
  using assms(1)
proof (induction rule: rtranclp_induct)
  case base
  show "gate_held_ok gid (fresh_gate env)" "gate_wake_ok (fresh_gate env)"
    by (simp_all add: gate_held_ok_def gate_wake_ok_def fresh_gate_def NewSqliteGate_def)
next
  case (step s s')
  then show "gate_held_ok gid s'" "gate_wake_ok s'" using held_step [OF ids] wake_step by blast+
qed

text \<open>
  C15: the gate admits one goroutine at a time. In every state any number of goroutines can reach
  by acquiring, nesting, waiting, timing out and releasing, if two of them hold a level of the gate
  they are the same goroutine, and the depth counter is the number of levels it holds; a goroutine
  with an id is reported by \<open>HeldBy\<close> exactly when it holds the gate.
\<close>

theorem gate_mutual_exclusion:
  assumes run: "(gate_step gid timers)\<^sup>*\<^sup>* (fresh_gate env) s" and ids: "ids_distinct gid"
  shows "(0 < gs_holds s g \<and> 0 < gs_holds s h \<longrightarrow> g = h)
    \<and> (0 < gs_holds s g \<longrightarrow> gate_depth (gs_gate s) = gs_holds s g)
    \<and> (gid g \<noteq> 0 \<longrightarrow> HeldBy (gid g) (gs_gate s) = (0 < gs_holds s g))"
proof -
  have ok: "gate_held_ok gid s" by (rule gate_reachable(1) [OF run ids])
  show ?thesis
  proof (cases "gate_depth (gs_gate s) = 0")
    case True
    with ok show ?thesis by (auto simp: gate_held_ok_def HeldBy_def)
  next
    case False
    with ok obtain k where k: "gs_holds s k = gate_depth (gs_gate s)" "gate_owner (gs_gate s) = gid k"
      "\<forall>h. h \<noteq> k \<longrightarrow> gs_holds s h = 0" by (auto simp: gate_held_ok_def)
    have only: "0 < gs_holds s h \<longleftrightarrow> h = k" for h using False k by (cases "h = k") auto
    have "HeldBy (gid g) (gs_gate s) \<longleftrightarrow> gid g \<noteq> 0 \<and> gid k = gid g"
      using False k by (auto simp: HeldBy_def)
    then show ?thesis using only k ids by (auto simp: ids_distinct_def)
  qed
qed

text \<open>One step of the goroutine \<open>g\<close> in which no timer fires: it takes the signal, or it enters the gate.\<close>

definition takes_signal :: "(nat \<Rightarrow> int) \<Rightarrow> nat \<Rightarrow> gate_system \<Rightarrow> gate_system \<Rightarrow> bool" where
  "takes_signal gid g s s' \<longleftrightarrow> gate_step gid False s s'
     \<and> gs_pc s' = (gs_pc s)(g := Woken True) \<and> gs_holds s' = gs_holds s"

definition enters :: "(nat \<Rightarrow> int) \<Rightarrow> nat \<Rightarrow> gate_system \<Rightarrow> gate_system \<Rightarrow> bool" where
  "enters gid g s s' \<longleftrightarrow> gate_step gid False s s'
     \<and> gs_pc s' = (gs_pc s)(g := Running) \<and> gs_holds s' = (gs_holds s)(g := 1)"

lemma recheck_enters:
  assumes "gs_pc s g = Woken woke" "gate_depth (gs_gate s) = 0" "gs_holds s g = 0"
  shows "\<exists>s'. enters gid g s s'"
  using gate_step.regranted [OF assms(1), of gid 0 "take_gate (gid g) 0 (gs_gate s)" False] assms(2,3)
  by (auto simp: enters_def gate_simps may_enter_def)

text \<open>
  C16: no wake-up is lost. Whenever the gate is free and a goroutine waits for it, either some waiter
  that was already woken enters the gate with its own next step, or the signal is still in the channel
  and the waiting goroutine itself enters in two steps of its own, taking the signal and then the gate;
  no timer fires and nobody else moves. The timed rounds only report.
\<close>

theorem gate_no_lost_wakeup:
  assumes run: "(gate_step gid timers)\<^sup>*\<^sup>* (fresh_gate env) s" and ids: "ids_distinct gid"
    and free: "gate_depth (gs_gate s) = 0" and waits: "gs_pc s g = Waiting"
  shows "(\<exists>h woke s'. gs_pc s h = Woken woke \<and> enters gid h s s')
    \<or> (\<exists>t s'. takes_signal gid g s t \<and> enters gid g t s')"
proof -
  have ok: "gate_wake_ok s" and held: "gate_held_ok gid s" by (rule gate_reachable [OF run ids])+
  have none: "gs_holds s h = 0" for h using held free by (simp add: gate_held_ok_def)
  from ok free waits consider "gate_wake (gs_gate s) = Some True" | h woke where "gs_pc s h = Woken woke"
    unfolding gate_wake_ok_def by blast
  then show ?thesis
  proof cases
    case 1
    define t where "t = s\<lparr>gs_gate := (gs_gate s)\<lparr>gate_wake := Some False\<rparr>, gs_pc := (gs_pc s)(g := Woken True)\<rparr>"
    have "gate_step gid False s t" unfolding t_def by (rule gate_step.signalled [OF waits 1])
    then have "takes_signal gid g s t" by (simp add: takes_signal_def t_def)
    moreover have "\<exists>s'. enters gid g t s'"
      by (rule recheck_enters [of _ _ True]) (use free none in \<open>simp_all add: t_def\<close>)
    ultimately show ?thesis by blast
  next
    case 2
    from recheck_enters [OF 2 free none] 2 show ?thesis by blast
  qed
qed

theorem gate_mutual_exclusion_witness:
  "HeldBy 7 (take_gate 7 3 (NewSqliteGate []))"
proof -
  let ?s = "(fresh_gate [])\<lparr>gs_gate := take_gate 7 3 (NewSqliteGate []), gs_holds := (\<lambda>_. 0)(0 := 1)\<rparr>"
  have step: "gate_step (\<lambda>g. int g + 7) False (fresh_gate []) ?s"
    using gate_step.granted [of "fresh_gate []" 0 "\<lambda>g. int g + 7" 3 "take_gate 7 3 (NewSqliteGate [])"]
    by (simp add: fresh_gate_def Acquire_enter_def may_enter_def NewSqliteGate_def)
  have "(gate_step (\<lambda>g. int g + 7) False)\<^sup>*\<^sup>* (fresh_gate []) ?s"
    by (rule r_into_rtranclp) (rule step)
  from gate_mutual_exclusion [OF this, of 0 0]
  show ?thesis by (simp add: ids_distinct_def)
qed

text \<open>Goroutine 0 holds the gate, goroutine 1 waits, goroutine 0 releases.\<close>

definition handover :: gate_system where
  "handover =
     (fresh_gate [])\<lparr>gs_gate := Release 7 (snd (Acquire_enter 8 4 (take_gate 7 3 (NewSqliteGate [])))),
       gs_pc := (\<lambda>_. Running)(1 := Waiting)\<rparr>"

lemma handover_run: "(gate_step (\<lambda>g. int g + 7) False)\<^sup>*\<^sup>* (fresh_gate []) handover"
proof -
  let ?id = "\<lambda>g. int g + 7"
  let ?g1 = "take_gate 7 3 (NewSqliteGate [])" and ?g2 = "snd (Acquire_enter 8 4 (take_gate 7 3 (NewSqliteGate [])))"
  let ?s1 = "(fresh_gate [])\<lparr>gs_gate := ?g1, gs_holds := (\<lambda>_. 0)(0 := 1)\<rparr>"
  have none: "(\<lambda>x. if x = 0 then 0 else if x = 0 then Suc 0 else 0) = (\<lambda>_ :: nat. 0 :: nat)" by auto
  let ?s2 = "?s1\<lparr>gs_gate := ?g2, gs_pc := (\<lambda>_. Running)(1 := Waiting)\<rparr>"
  have 1: "gate_step ?id False (fresh_gate []) ?s1"
    using gate_step.granted [of "fresh_gate []" 0 ?id 3 ?g1]
    by (simp add: fresh_gate_def Acquire_enter_def may_enter_def NewSqliteGate_def)
  have 2: "gate_step ?id False ?s1 ?s2"
    using gate_step.queued [of ?s1 1 ?id 4 ?g2 False]
    by (simp add: fresh_gate_def Acquire_enter_def may_enter_def NewSqliteGate_def take_gate_def)
  have 3: "gate_step ?id False ?s2 handover"
    using gate_step.release [of ?s2 0 ?id False] none by (simp add: fresh_gate_def handover_def fun_upd_def)
  have "(gate_step ?id False)\<^sup>*\<^sup>* (fresh_gate []) ?s1" by (rule r_into_rtranclp) (rule 1)
  then have "(gate_step ?id False)\<^sup>*\<^sup>* (fresh_gate []) ?s2" by (rule rtranclp.rtrancl_into_rtrancl) (rule 2)
  then show ?thesis by (rule rtranclp.rtrancl_into_rtrancl) (rule 3)
qed

theorem gate_no_lost_wakeup_witness:
  "\<exists>t s'. takes_signal (\<lambda>g. int g + 7) 1 handover t \<and> enters (\<lambda>g. int g + 7) 1 t s'"
proof -
  have "gs_pc handover h \<noteq> Woken woke" for h woke by (simp add: handover_def)
  then show ?thesis using gate_no_lost_wakeup [OF handover_run, where g = 1]
    by (auto simp: ids_distinct_def handover_def Acquire_enter_def may_enter_def Release_simps NewSqliteGate_def)
qed

subsection \<open>A goroutine without an id\<close>

text \<open>
  A goroutine whose id could not be parsed cannot re-enter. Holding the gate and acquiring it again,
  as every statement inside a transaction does, it waits for itself, and so does everybody else:
  nothing that can still happen frees the gate.
\<close>

definition self_blocked :: "(nat \<Rightarrow> int) \<Rightarrow> nat \<Rightarrow> gate_system \<Rightarrow> bool" where
  "self_blocked gid g s \<longleftrightarrow> gid g = 0 \<and> 0 < gate_depth (gs_gate s) \<and> gate_owner (gs_gate s) = 0
     \<and> gs_pc s g \<noteq> Running \<and> (\<forall>h. h \<noteq> g \<longrightarrow> gs_holds s h = 0)"

lemma self_blocked_step:
  assumes "gate_step gid timers s s'" and "self_blocked gid g s"
  shows "self_blocked gid g s'"
  using assms
  by cases (auto simp: self_blocked_def gate_simps may_enter_def split: if_splits option.splits)

lemma self_blocked_forever:
  assumes "(gate_step gid timers)\<^sup>*\<^sup>* s s'" and "self_blocked gid g s"
  shows "self_blocked gid g s'"
  using assms by (induction rule: rtranclp_induct) (auto intro: self_blocked_step)

lemma unparsable_nested_acquire:
  assumes run: "(gate_step gid timers)\<^sup>*\<^sup>* (fresh_gate env) s" and ids: "ids_distinct gid"
    and zero: "gid g = 0" and holds: "0 < gs_holds s g" and pc: "gs_pc s g = Running"
    and nested: "Acquire_enter (gid g) now (gs_gate s) = (granted, gate')"
    and later: "(gate_step gid timers)\<^sup>*\<^sup>* (s\<lparr>gs_gate := gate', gs_pc := (gs_pc s)(g := Waiting)\<rparr>) s'"
  shows "\<not> granted \<and> 0 < gate_depth (gs_gate s') \<and> gs_pc s' g \<noteq> Running"
proof -
  have held: "gate_held_ok gid s" by (rule gate_reachable(1) [OF run ids])
  have depth: "0 < gate_depth (gs_gate s)" using held holds by (auto simp: gate_held_ok_def split: if_splits)
  with held holds have owner: "gate_owner (gs_gate s) = gid g" "\<forall>h. h \<noteq> g \<longrightarrow> gs_holds s h = 0"
    by (auto simp: gate_held_ok_def split: if_splits) (metis less_irrefl)+
  have "\<not> granted" using nested zero depth by (auto simp: Acquire_enter_def may_enter_def split: if_splits)
  moreover have "self_blocked gid g (s\<lparr>gs_gate := gate', gs_pc := (gs_pc s)(g := Waiting)\<rparr>)"
    using nested zero depth owner
    by (auto simp: self_blocked_def Acquire_enter_def may_enter_def split: if_splits option.splits)
  from self_blocked_forever [OF later this] have "self_blocked gid g s'" .
  ultimately show ?thesis by (auto simp: self_blocked_def)
qed

end
