(* ===== verification/TurnCompletion.thy ===== *)
theory TurnCompletion
  imports Effects
begin

text \<open>
  \<open>TurnCompletionRegistry\<close> of \<open>go/internal/observability/turn_completion.go\<close>: hooks record that a
  turn of a terminal ended, and whoever waits for the turn of that terminal consumes the record.
  Each critical section of the registry is a function on its state. The maps are association
  lists with one entry per key; a waiter is the number of its allocation. What \<open>finishLocked\<close>
  sends on the waiter's channel is part of its result, as the channel has one slot and one send.
  The timer and the goroutine watching for cancellation both run \<open>finishLocked key w True\<close>.
\<close>

subsection \<open>The registry\<close>

definition TurnSignalWaitMs :: int where "TurnSignalWaitMs = 5000"
definition TurnSignalRetentionMs :: int where "TurnSignalRetentionMs = 10 * 60000"

record SessionScopedSignal =
  ss_Confirmed :: bool
  ss_ExpectedText :: string
  ss_HasExpectedText :: bool
  ss_HerdrSessionName :: string
  ss_PaneID :: string
  ss_TerminalID :: string
  ss_WorkspaceID :: string

record TurnCompletionSignal = SessionScopedSignal +
  ts_RecordedAtMs :: int

record TurnCompletionWaitResult =
  wr_Confirmed :: bool
  wr_ExpectedText :: string
  wr_HasExpectedText :: bool
  wr_Received :: bool

record WaitForSignalInput =
  wi_HerdrSessionName :: string
  wi_TerminalID :: string
  wi_RecordedAfterMs :: int
  wi_Aborted :: bool

record waiter =
  wt_recordedAfter :: int
  wt_finished :: bool

record TurnCompletionRegistry =
  latestByTerminal :: "(string \<times> TurnCompletionSignal) list"
  waitersByTerminal :: "(string \<times> nat list) list"
  tr_waiters :: "nat \<Rightarrow> waiter"
  tr_allocated :: nat
  tr_timeoutMs :: int
  tr_retentionMs :: int

definition NewTurnCompletionRegistry :: "int option \<Rightarrow> int option \<Rightarrow> TurnCompletionRegistry" where
  "NewTurnCompletionRegistry timeoutMs retentionMs =
     \<lparr>latestByTerminal = [], waitersByTerminal = [],
      tr_waiters = (\<lambda>_. \<lparr>wt_recordedAfter = 0, wt_finished = False\<rparr>), tr_allocated = 0,
      tr_timeoutMs = (case timeoutMs of None \<Rightarrow> TurnSignalWaitMs | Some ms \<Rightarrow> ms),
      tr_retentionMs = (case retentionMs of None \<Rightarrow> TurnSignalRetentionMs | Some ms \<Rightarrow> ms)\<rparr>"

definition terminalTurnKey :: "string \<Rightarrow> string \<Rightarrow> string" where
  "terminalTurnKey session terminalID = session @ CHR 0x00 # terminalID"

definition map_put :: "'k \<Rightarrow> 'v \<Rightarrow> ('k \<times> 'v) list \<Rightarrow> ('k \<times> 'v) list" where
  "map_put k v m = (k, v) # filter (\<lambda>(k', _). k' \<noteq> k) m"

definition map_delete :: "'k \<Rightarrow> ('k \<times> 'v) list \<Rightarrow> ('k \<times> 'v) list" where
  "map_delete k m = filter (\<lambda>(k', _). k' \<noteq> k) m"

definition waiters_of :: "string \<Rightarrow> TurnCompletionRegistry \<Rightarrow> nat list" where
  "waiters_of key r = (case map_of (waitersByTerminal r) key of None \<Rightarrow> [] | Some ws \<Rightarrow> ws)"

definition consumeResult :: "TurnCompletionSignal \<Rightarrow> TurnCompletionWaitResult" where
  "consumeResult signal =
     (let expected = ss_HasExpectedText signal \<and> ss_ExpectedText signal \<noteq> []
      in \<lparr>wr_Confirmed = ss_Confirmed signal,
          wr_ExpectedText = (if expected then ss_ExpectedText signal else []),
          wr_HasExpectedText = expected, wr_Received = True\<rparr>)"

definition no_signal :: TurnCompletionWaitResult where
  "no_signal = \<lparr>wr_Confirmed = False, wr_ExpectedText = [], wr_HasExpectedText = False, wr_Received = False\<rparr>"

definition removeWaiterLocked :: "string \<Rightarrow> nat \<Rightarrow> TurnCompletionRegistry \<Rightarrow> TurnCompletionRegistry" where
  "removeWaiterLocked key pending r =
     (case map_of (waitersByTerminal r) key of None \<Rightarrow> r
      | Some ws \<Rightarrow> let rest = filter (\<lambda>w. w \<noteq> pending) ws
        in r\<lparr>waitersByTerminal := (if rest = [] then map_delete key (waitersByTerminal r)
             else map_put key rest (waitersByTerminal r))\<rparr>)"

text \<open>The result that is sent, if the waiter is resolved, and the registry after.\<close>

definition finishLocked ::
    "string \<Rightarrow> nat \<Rightarrow> bool \<Rightarrow> TurnCompletionRegistry \<Rightarrow> TurnCompletionWaitResult option \<times> TurnCompletionRegistry" where
  "finishLocked key pending timedOut r =
     (if wt_finished (tr_waiters r pending) then (None, r)
      else if (case map_of (waitersByTerminal r) key of None \<Rightarrow> False | Some ws \<Rightarrow> pending \<notin> set ws) then (None, r)
      else
        let latest = map_of (latestByTerminal r) key;
            isNew = (case latest of None \<Rightarrow> False
              | Some signal \<Rightarrow> wt_recordedAfter (tr_waiters r pending) \<le> ts_RecordedAtMs signal)
        in if \<not> timedOut \<and> \<not> isNew then (None, r)
           else
             let finished = removeWaiterLocked key pending (r\<lparr>tr_waiters :=
                   (tr_waiters r)(pending := (tr_waiters r pending)\<lparr>wt_finished := True\<rparr>)\<rparr>)
             in (case latest of
                   Some signal \<Rightarrow>
                     if isNew then (Some (consumeResult signal),
                       finished\<lparr>latestByTerminal := map_delete key (latestByTerminal finished)\<rparr>)
                     else (Some no_signal, finished)
                 | None \<Rightarrow> (Some no_signal, finished)))"

definition pruneLocked :: "int \<Rightarrow> TurnCompletionRegistry \<Rightarrow> TurnCompletionRegistry" where
  "pruneLocked now r =
     (if length (latestByTerminal r) \<le> 1 then r
      else let cutoff = now - tr_retentionMs r
        in r\<lparr>latestByTerminal := filter (\<lambda>(_, signal). cutoff \<le> ts_RecordedAtMs signal) (latestByTerminal r)\<rparr>)"

text \<open>The waiters are woken in the order \<open>order\<close>, which is the iteration order of the map.\<close>

fun finish_all ::
    "string \<Rightarrow> nat list \<Rightarrow> TurnCompletionRegistry \<Rightarrow> (nat \<times> TurnCompletionWaitResult) list \<times> TurnCompletionRegistry" where
  "finish_all key [] r = ([], r)"
| "finish_all key (w # ws) r =
     (let (sent, r1) = finishLocked key w False r;
          (rest, r2) = finish_all key ws r1
      in ((case sent of None \<Rightarrow> [] | Some result \<Rightarrow> [(w, result)]) @ rest, r2))"

definition Record_signal ::
    "SessionScopedSignal \<Rightarrow> int \<Rightarrow> int \<Rightarrow> nat list \<Rightarrow> TurnCompletionRegistry
      \<Rightarrow> (nat \<times> TurnCompletionWaitResult) list \<times> TurnCompletionRegistry" where
  "Record_signal signal now now2 order r =
     (let key = terminalTurnKey (ss_HerdrSessionName signal) (ss_TerminalID signal);
          stored = SessionScopedSignal.extend signal (TurnCompletionSignal.fields now)
      in finish_all key order
           (pruneLocked now2 (r\<lparr>latestByTerminal := map_put key stored (latestByTerminal r)\<rparr>)))"

text \<open>
  The critical section of \<open>WaitForSignal\<close>: a result at once, or a waiter that is registered. The
  result of a registered waiter is what a later critical section sends to it.
\<close>

definition WaitForSignal ::
    "WaitForSignalInput \<Rightarrow> TurnCompletionRegistry \<Rightarrow> (TurnCompletionWaitResult + nat) \<times> TurnCompletionRegistry" where
  "WaitForSignal input r =
     (let key = terminalTurnKey (wi_HerdrSessionName input) (wi_TerminalID input)
      in case (case map_of (latestByTerminal r) key of None \<Rightarrow> None
           | Some signal \<Rightarrow> if wi_RecordedAfterMs input \<le> ts_RecordedAtMs signal then Some signal else None) of
           Some existing \<Rightarrow>
             (Inl (consumeResult existing), r\<lparr>latestByTerminal := map_delete key (latestByTerminal r)\<rparr>)
         | None \<Rightarrow>
             if wi_Aborted input then (Inl no_signal, r)
             else let pending = tr_allocated r
               in (Inr pending, r\<lparr>tr_allocated := Suc pending,
                    tr_waiters := (tr_waiters r)(pending :=
                      \<lparr>wt_recordedAfter = wi_RecordedAfterMs input, wt_finished = False\<rparr>),
                    waitersByTerminal := map_put key (pending # waiters_of key r) (waitersByTerminal r)\<rparr>))"

subsection \<open>Runs\<close>

text \<open>
  \<open>turn_run r sent got\<close>: the registry can reach \<open>r\<close> with \<open>sent k\<close> signals recorded for the key \<open>k\<close>
  and \<open>got k\<close> results handed out for it that say a signal was received. Waiters may be finished by
  their timer or by cancellation at any time, also after they were resolved.
\<close>

definition received :: "(nat \<times> TurnCompletionWaitResult) list \<Rightarrow> nat" where
  "received results = length (filter (\<lambda>(_, result). wr_Received result) results)"

text \<open>Every call of \<open>finishLocked\<close> is for a waiter registered under the key, or a finished one.\<close>

definition callable :: "string \<Rightarrow> nat \<Rightarrow> TurnCompletionRegistry \<Rightarrow> bool" where
  "callable key w r \<longleftrightarrow> w \<in> set (waiters_of key r) \<or> wt_finished (tr_waiters r w)"

inductive turn_run :: "TurnCompletionRegistry \<Rightarrow> (string \<Rightarrow> nat) \<Rightarrow> (string \<Rightarrow> nat) \<Rightarrow> bool" where
  new: "turn_run (NewTurnCompletionRegistry timeoutMs retentionMs) (\<lambda>_. 0) (\<lambda>_. 0)"
| recorded: "turn_run r sent got \<Longrightarrow> key = terminalTurnKey (ss_HerdrSessionName signal) (ss_TerminalID signal) \<Longrightarrow>
    set order = set (waiters_of key r) \<Longrightarrow> Record_signal signal now now2 order r = (results, r') \<Longrightarrow>
    turn_run r' (sent(key := Suc (sent key))) (got(key := got key + received results))"
| waited: "turn_run r sent got \<Longrightarrow> key = terminalTurnKey (wi_HerdrSessionName input) (wi_TerminalID input) \<Longrightarrow>
    WaitForSignal input r = (outcome, r') \<Longrightarrow>
    turn_run r' sent (got(key := got key
      + (case outcome of Inl result \<Rightarrow> if wr_Received result then 1 else 0 | Inr _ \<Rightarrow> 0)))"
| finished: "turn_run r sent got \<Longrightarrow> finishLocked key w True r = (result, r') \<Longrightarrow>
    callable key w r \<Longrightarrow>
    turn_run r' sent (got(key := got key
      + (case result of None \<Rightarrow> 0 | Some answer \<Rightarrow> if wr_Received answer then 1 else 0)))"

definition stored :: "string \<Rightarrow> TurnCompletionRegistry \<Rightarrow> nat" where
  "stored key r = (if map_of (latestByTerminal r) key = None then 0 else 1)"

text \<open>No waiter of the key is left waiting for a signal that is there.\<close>

definition none_missed :: "string \<Rightarrow> TurnCompletionRegistry \<Rightarrow> bool" where
  "none_missed key r \<longleftrightarrow> (\<forall>signal. map_of (latestByTerminal r) key = Some signal \<longrightarrow>
     (\<forall>w \<in> set (waiters_of key r). ts_RecordedAtMs signal < wt_recordedAfter (tr_waiters r w)))"

definition registry_ok :: "TurnCompletionRegistry \<Rightarrow> bool" where
  "registry_ok r \<longleftrightarrow> distinct (map fst (latestByTerminal r))
     \<and> (\<forall>key. \<forall>w \<in> set (waiters_of key r). \<not> wt_finished (tr_waiters r w) \<and> w < tr_allocated r
          \<and> (\<forall>key'. w \<in> set (waiters_of key' r) \<longrightarrow> key' = key))"

lemma map_of_put [simp]: "map_of (map_put k v m) k' = (if k' = k then Some v else map_of m k')"
  by (induction m) (auto simp: map_put_def)

lemma map_of_delete [simp]: "map_of (map_delete k m) k' = (if k' = k then None else map_of m k')"
  by (induction m) (auto simp: map_delete_def)

lemma waiters_of_remove:
  "waiters_of k (removeWaiterLocked key w r) = (if k = key then filter (\<lambda>v. v \<noteq> w) (waiters_of k r) else waiters_of k r)"
  by (auto simp: waiters_of_def removeWaiterLocked_def Let_def split: option.splits)

lemma remove_simps [simp]:
  "latestByTerminal (removeWaiterLocked key w r) = latestByTerminal r"
  "tr_waiters (removeWaiterLocked key w r) = tr_waiters r"
  "tr_allocated (removeWaiterLocked key w r) = tr_allocated r"
  by (auto simp: removeWaiterLocked_def Let_def split: option.splits)

lemma waiters_of_cong: "waitersByTerminal r = waitersByTerminal r' \<Longrightarrow> waiters_of k r = waiters_of k r'"
  by (simp add: waiters_of_def)

lemma distinct_map_put: "distinct (map fst m) \<Longrightarrow> distinct (map fst (map_put k v m))"
  by (auto simp: map_put_def distinct_map_filter)

lemma distinct_map_delete: "distinct (map fst m) \<Longrightarrow> distinct (map fst (map_delete k m))"
  by (simp add: map_delete_def distinct_map_filter)

lemma map_of_filter_Some:
  "distinct (map fst m) \<Longrightarrow> map_of (filter P m) k = Some v \<Longrightarrow> map_of m k = Some v"
  by (metis map_of_SomeD map_of_eq_Some_iff filter_is_subset subsetD)

text \<open>What one resolution of a waiter does.\<close>

definition resolved :: "string \<Rightarrow> nat \<Rightarrow> bool \<Rightarrow> TurnCompletionRegistry \<Rightarrow> TurnCompletionRegistry \<Rightarrow> bool" where
  "resolved key w received_any r r' \<longleftrightarrow>
     tr_allocated r' = tr_allocated r
     \<and> tr_waiters r' = (tr_waiters r)(w := (tr_waiters r w)\<lparr>wt_finished := True\<rparr>)
     \<and> (\<forall>k. waiters_of k r' = (if k = key then filter (\<lambda>v. v \<noteq> w) (waiters_of k r) else waiters_of k r))
     \<and> latestByTerminal r' = (if received_any then map_delete key (latestByTerminal r) else latestByTerminal r)
     \<and> (received_any \<longrightarrow> map_of (latestByTerminal r) key \<noteq> None)"

lemma finishLocked_SomeD:
  assumes "finishLocked key w timedOut r = (Some result, r')"
  shows "resolved key w (wr_Received result) r r'" and "\<not> timedOut \<Longrightarrow> wr_Received result"
  using assms unfolding finishLocked_def resolved_def
  by (auto simp: Let_def consumeResult_def no_signal_def waiters_of_remove split: if_splits option.splits
      cong: waiters_of_cong)

lemma finishLocked_NoneD:
  assumes "finishLocked key w timedOut r = (None, r')"
  shows "r' = r" and "registry_ok r \<Longrightarrow> w \<in> set (waiters_of key r) \<Longrightarrow>
    \<not> timedOut \<and> (\<forall>signal. map_of (latestByTerminal r) key = Some signal \<longrightarrow>
      ts_RecordedAtMs signal < wt_recordedAfter (tr_waiters r w))"
proof -
  show "r' = r" using assms by (auto simp: finishLocked_def Let_def split: if_splits option.splits)
  assume "registry_ok r" and w: "w \<in> set (waiters_of key r)"
  then have "\<not> wt_finished (tr_waiters r w)" by (simp add: registry_ok_def)
  with assms w show "\<not> timedOut \<and> (\<forall>signal. map_of (latestByTerminal r) key = Some signal \<longrightarrow>
      ts_RecordedAtMs signal < wt_recordedAfter (tr_waiters r w))"
    unfolding finishLocked_def by (auto simp: Let_def waiters_of_def split: if_splits option.splits)
qed

lemma finish_resolved:
  assumes "finishLocked key w timedOut r = (Some result, r')" and "callable key w r"
  shows "w \<in> set (waiters_of key r)"
  using assms by (auto simp: callable_def finishLocked_def)

lemma resolved_ok:
  assumes "resolved key w any r r'" and "registry_ok r" and "w \<in> set (waiters_of key r)"
  shows "registry_ok r'"
proof -
  have "k = key" if "w \<in> set (waiters_of k r)" for k using assms(2,3) that by (auto simp: registry_ok_def)
  then show ?thesis
    using assms unfolding resolved_def registry_ok_def
    by (simp add: distinct_map_delete) (metis (mono_tags, lifting) mem_Collect_eq set_filter)
qed

lemma resolved_stored:
  "resolved key w any r r' \<Longrightarrow> (if any then 1 else 0) + stored key r' = stored key r"
  "resolved key w any r r' \<Longrightarrow> k \<noteq> key \<Longrightarrow> stored k r' = stored k r"
  by (auto simp: resolved_def stored_def)

lemma resolved_missed: "resolved key w any r r' \<Longrightarrow> none_missed k r \<Longrightarrow> none_missed k r'"
  by (auto simp: resolved_def none_missed_def split: if_splits)

lemma resolved_callable: "resolved key w any r r' \<Longrightarrow> callable key v r \<Longrightarrow> callable key v r'"
  by (auto simp: resolved_def callable_def)

text \<open>One resolution, as far as signals and waiters are counted.\<close>

lemma finish_one:
  assumes fin: "finishLocked key w timedOut r = (sent, r')" and ok: "registry_ok r" and call: "callable key w r"
  shows "registry_ok r' \<and> (\<forall>v. callable key v r \<longrightarrow> callable key v r')
    \<and> received (case sent of None \<Rightarrow> [] | Some result \<Rightarrow> [(w, result)]) + stored key r' = stored key r
    \<and> (\<forall>k. k \<noteq> key \<longrightarrow> stored k r' = stored k r) \<and> (\<forall>k. none_missed k r \<longrightarrow> none_missed k r')"
proof (cases sent)
  case None
  with fin finishLocked_NoneD(1) ok show ?thesis by (fastforce simp: received_def)
next
  case (Some result)
  with fin have res: "resolved key w (wr_Received result) r r'" by (auto dest: finishLocked_SomeD(1))
  have "w \<in> set (waiters_of key r)" using fin call Some by (auto intro: finish_resolved)
  from resolved_ok [OF res ok this] resolved_stored [OF res] resolved_missed [OF res] resolved_callable [OF res] Some
  show ?thesis by (auto simp: received_def)
qed

text \<open>Waking all the waiters of a key.\<close>

lemma finish_all_ok:
  assumes "finish_all key ws r = (results, r')" and "registry_ok r" and "\<forall>w \<in> set ws. callable key w r"
  shows "registry_ok r' \<and> received results + stored key r' = stored key r
    \<and> (\<forall>k. k \<noteq> key \<longrightarrow> stored k r' = stored k r) \<and> (\<forall>k. none_missed k r \<longrightarrow> none_missed k r')"
  using assms
proof (induction ws arbitrary: r results)
  case (Cons w ws)
  obtain sent r1 where fin: "finishLocked key w False r = (sent, r1)" by (cases "finishLocked key w False r")
  obtain rest where rest: "finish_all key ws r1 = (rest, r')"
    and results: "results = (case sent of None \<Rightarrow> [] | Some result \<Rightarrow> [(w, result)]) @ rest"
    using Cons.prems fin by (auto simp: Let_def split: prod.splits)
  have one: "registry_ok r1 \<and> (\<forall>v. callable key v r \<longrightarrow> callable key v r1)
    \<and> received (case sent of None \<Rightarrow> [] | Some result \<Rightarrow> [(w, result)]) + stored key r1 = stored key r
    \<and> (\<forall>k. k \<noteq> key \<longrightarrow> stored k r1 = stored k r) \<and> (\<forall>k. none_missed k r \<longrightarrow> none_missed k r1)"
    using finish_one [OF fin Cons.prems(2)] Cons.prems(3) by simp
  with Cons.IH [OF rest] Cons.prems(3) results show ?case by (auto simp: received_def)
qed (auto simp: received_def)

lemma finish_all_missed:
  assumes "finish_all key ws r = (results, r')" and "registry_ok r" and "\<forall>w \<in> set ws. callable key w r"
  shows "set (waiters_of key r') \<subseteq> set (waiters_of key r)
    \<and> (\<forall>v. wt_recordedAfter (tr_waiters r' v) = wt_recordedAfter (tr_waiters r v))
    \<and> (\<forall>signal. map_of (latestByTerminal r') key = Some signal \<longrightarrow>
        map_of (latestByTerminal r) key = Some signal
        \<and> (\<forall>v \<in> set ws \<inter> set (waiters_of key r'). ts_RecordedAtMs signal < wt_recordedAfter (tr_waiters r v)))"
  using assms
proof (induction ws arbitrary: r results)
  case (Cons w ws)
  obtain sent r1 where fin: "finishLocked key w False r = (sent, r1)" by (cases "finishLocked key w False r")
  obtain rest where rest: "finish_all key ws r1 = (rest, r')"
    using Cons.prems fin by (auto simp: Let_def split: prod.splits)
  have call: "callable key w r" using Cons.prems(3) by simp
  have one: "registry_ok r1" "\<forall>v \<in> set ws. callable key v r1"
    using finish_one [OF fin Cons.prems(2) call] Cons.prems(3) by simp_all
  have here: "set (waiters_of key r1) \<subseteq> set (waiters_of key r)
      \<and> (\<forall>v. wt_recordedAfter (tr_waiters r1 v) = wt_recordedAfter (tr_waiters r v))
      \<and> (\<forall>signal. map_of (latestByTerminal r1) key = Some signal \<longrightarrow>
          map_of (latestByTerminal r) key = Some signal
          \<and> (w \<in> set (waiters_of key r1) \<longrightarrow> ts_RecordedAtMs signal < wt_recordedAfter (tr_waiters r w)))"
  proof (cases sent)
    case None
    with fin finishLocked_NoneD [OF fin [unfolded None]] Cons.prems(2) show ?thesis by auto
  next
    case (Some result)
    with fin have "resolved key w (wr_Received result) r r1" by (auto dest: finishLocked_SomeD(1))
    then show ?thesis by (auto simp: resolved_def)
  qed
  from Cons.IH [OF rest one] here show ?case by (auto dest: subsetD)
qed auto

lemma prune_ok:
  assumes "registry_ok r"
  shows "registry_ok (pruneLocked now r)" "stored k (pruneLocked now r) \<le> stored k r"
    and "none_missed k r \<Longrightarrow> none_missed k (pruneLocked now r)"
    and "waiters_of k (pruneLocked now r) = waiters_of k r"
proof -
  have d: "distinct (map fst (latestByTerminal r))" using assms by (simp add: registry_ok_def)
  have same: "waiters_of k (pruneLocked now r) = waiters_of k r" "tr_waiters (pruneLocked now r) = tr_waiters r"
    "tr_allocated (pruneLocked now r) = tr_allocated r" for k
    by (simp_all add: pruneLocked_def Let_def waiters_of_def)
  have sub: "map_of (latestByTerminal (pruneLocked now r)) k = Some signal \<Longrightarrow>
      map_of (latestByTerminal r) k = Some signal" for k signal
    using map_of_filter_Some [OF d] by (auto simp: pruneLocked_def Let_def split: if_splits)
  show "waiters_of k (pruneLocked now r) = waiters_of k r" by (rule same)
  show "registry_ok (pruneLocked now r)"
    using assms d by (auto simp: registry_ok_def same) (simp add: pruneLocked_def Let_def distinct_map_filter)
  show "stored k (pruneLocked now r) \<le> stored k r"
    using sub [of k] by (cases "map_of (latestByTerminal (pruneLocked now r)) k") (auto simp: stored_def)
  show "none_missed k r \<Longrightarrow> none_missed k (pruneLocked now r)"
    using sub [of k] by (auto simp: none_missed_def same)
qed

definition turn_ok :: "TurnCompletionRegistry \<Rightarrow> (string \<Rightarrow> nat) \<Rightarrow> (string \<Rightarrow> nat) \<Rightarrow> bool" where
  "turn_ok r sent got \<longleftrightarrow> registry_ok r \<and> (\<forall>k. got k + stored k r \<le> sent k \<and> none_missed k r)"

lemma turn_ok_Record:
  assumes ok: "turn_ok r sent got"
    and key: "key = terminalTurnKey (ss_HerdrSessionName signal) (ss_TerminalID signal)"
    and order: "set order = set (waiters_of key r)"
    and run: "Record_signal signal now now2 order r = (results, r')"
  shows "turn_ok r' (sent(key := Suc (sent key))) (got(key := got key + received results))"
proof -
  define kept where "kept = SessionScopedSignal.extend signal (TurnCompletionSignal.fields now)"
  define r0 where "r0 = r\<lparr>latestByTerminal := map_put key kept (latestByTerminal r)\<rparr>"
  define r1 where "r1 = pruneLocked now2 r0"
  have fin: "finish_all key order r1 = (results, r')"
    using run by (simp add: Record_signal_def Let_def key r0_def r1_def kept_def)
  have w0: "waiters_of k r0 = waiters_of k r" "tr_waiters r0 = tr_waiters r" for k
    by (simp_all add: r0_def waiters_of_def)
  have ok0: "registry_ok r0"
    using ok by (auto simp: turn_ok_def registry_ok_def w0) (simp_all add: r0_def distinct_map_put)
  note pruned = prune_ok [OF ok0, where now = now2, folded r1_def]
  have w1: "waiters_of k r1 = waiters_of k r" for k using pruned(4) w0 by simp
  have calls: "\<forall>w \<in> set order. callable key w r1" using order w1 by (simp add: callable_def)
  note all = finish_all_ok [OF fin pruned(1) calls] finish_all_missed [OF fin pruned(1) calls]
  have "(got(key := got key + received results)) k + stored k r' \<le> (sent(key := Suc (sent key))) k
      \<and> none_missed k r'" for k
  proof (cases "k = key")
    case True
    have "stored key r1 \<le> 1" by (simp add: stored_def)
    moreover have "got key + stored key r \<le> sent key" using ok by (simp add: turn_ok_def)
    moreover have "received results + stored key r' = stored key r1" using all(1) by blast
    ultimately have "got key + received results + stored key r' \<le> Suc (sent key)" by linarith
    moreover have "none_missed key r'"
      unfolding none_missed_def
    proof (intro allI impI ballI)
      fix signal v
      assume l: "map_of (latestByTerminal r') key = Some signal" and v: "v \<in> set (waiters_of key r')"
      have sub: "set (waiters_of key r') \<subseteq> set (waiters_of key r1)" using all(2) by (rule conjunct1)
      have "v \<in> set order" using subsetD [OF sub v] by (simp add: order w1)
      with v have "v \<in> set order \<inter> set (waiters_of key r')" by simp
      with all(2) l have "ts_RecordedAtMs signal < wt_recordedAfter (tr_waiters r1 v)" by simp
      with all(2) show "ts_RecordedAtMs signal < wt_recordedAfter (tr_waiters r' v)" by simp
    qed
    ultimately show ?thesis using True by simp
  next
    case False
    then have "stored k r0 = stored k r" "none_missed k r0 = none_missed k r"
      by (simp_all add: stored_def none_missed_def w0) (simp_all add: r0_def)
    moreover have "got k + stored k r \<le> sent k" "none_missed k r" using ok by (auto simp: turn_ok_def)
    moreover have "stored k r' = stored k r1" "none_missed k r1 \<Longrightarrow> none_missed k r'" using False all(1) by auto
    ultimately show ?thesis using False pruned(2,3) [where k = k] by simp
  qed
  then show ?thesis unfolding turn_ok_def using conjunct1 [OF all(1)] by blast
qed

lemma turn_ok_Wait:
  assumes ok: "turn_ok r sent got"
    and key: "key = terminalTurnKey (wi_HerdrSessionName input) (wi_TerminalID input)"
    and run: "WaitForSignal input r = (outcome, r')"
  shows "turn_ok r' sent (got(key := got key
    + (case outcome of Inl result \<Rightarrow> if wr_Received result then 1 else 0 | Inr _ \<Rightarrow> 0)))"
proof (cases "\<exists>signal. map_of (latestByTerminal r) key = Some signal \<and> wi_RecordedAfterMs input \<le> ts_RecordedAtMs signal")
  case True
  then obtain signal where s: "map_of (latestByTerminal r) key = Some signal" "wi_RecordedAfterMs input \<le> ts_RecordedAtMs signal"
    by blast
  then have r': "outcome = Inl (consumeResult signal)" "r' = r\<lparr>latestByTerminal := map_delete key (latestByTerminal r)\<rparr>"
    using run by (simp_all add: WaitForSignal_def Let_def key)
  have w: "waiters_of k r' = waiters_of k r" "tr_waiters r' = tr_waiters r" "tr_allocated r' = tr_allocated r" for k
    by (simp_all add: r' waiters_of_def)
  have "stored k r' = (if k = key then 0 else stored k r)" "stored key r = 1" for k
    using s(1) by (simp_all add: r' stored_def)
  moreover have "registry_ok r'" using ok unfolding turn_ok_def registry_ok_def w by (simp add: r' distinct_map_delete)
  moreover have "none_missed k r'" for k using ok by (auto simp: turn_ok_def none_missed_def w) (auto simp: r' split: if_splits)
  moreover have "got key + stored key r \<le> sent key" using ok by (simp add: turn_ok_def)
  ultimately show ?thesis using ok by (auto simp: turn_ok_def r'(1) consumeResult_def Let_def)
next
  case False
  then have none: "(case map_of (latestByTerminal r) key of None \<Rightarrow> None
      | Some signal \<Rightarrow> if wi_RecordedAfterMs input \<le> ts_RecordedAtMs signal then Some signal else None) = None"
    by (auto split: option.split)
  show ?thesis
  proof (cases "wi_Aborted input")
    case True
    with run none show ?thesis using ok by (auto simp: WaitForSignal_def Let_def key no_signal_def)
  next
    case waits: False
    define pending where "pending = tr_allocated r"
    have r': "outcome = Inr pending" "r' = r\<lparr>tr_allocated := Suc pending,
        tr_waiters := (tr_waiters r)(pending := \<lparr>wt_recordedAfter = wi_RecordedAfterMs input, wt_finished = False\<rparr>),
        waitersByTerminal := map_put key (pending # waiters_of key r) (waitersByTerminal r)\<rparr>"
      using run none waits by (simp_all add: WaitForSignal_def Let_def key pending_def)
    have w: "waiters_of k r' = (if k = key then pending # waiters_of k r else waiters_of k r)" for k
      by (simp add: r' waiters_of_def)
    have fresh: "pending \<notin> set (waiters_of k r)" for k
      using ok by (auto simp: turn_ok_def registry_ok_def pending_def)
    have old: "tr_waiters r' v = tr_waiters r v" if "v \<in> set (waiters_of k r)" for v k
      using fresh that by (auto simp: r')
    have reg: "registry_ok r" using ok by (simp add: turn_ok_def)
    have "registry_ok r'"
      unfolding registry_ok_def
    proof (intro conjI allI ballI impI)
      show "distinct (map fst (latestByTerminal r'))" using reg by (simp add: registry_ok_def r')
      fix k v assume v: "v \<in> set (waiters_of k r')"
      have "\<not> wt_finished (tr_waiters r' v) \<and> v < tr_allocated r'"
      proof (cases "v = pending")
        case True
        then show ?thesis by (simp add: r')
      next
        case other: False
        with v have v: "v \<in> set (waiters_of k r)" by (auto simp: w split: if_splits)
        with reg have "\<not> wt_finished (tr_waiters r v)" "v < tr_allocated r" by (auto simp: registry_ok_def)
        with old [OF v] show ?thesis by (simp add: r' pending_def)
      qed
      then show "\<not> wt_finished (tr_waiters r' v)" "v < tr_allocated r'" by blast+
      fix k' assume "v \<in> set (waiters_of k' r')"
      with v fresh reg show "k' = k" by (auto simp: w registry_ok_def split: if_splits)
    qed
    moreover have "none_missed k r'" for k
      unfolding none_missed_def
    proof (intro allI impI ballI)
      fix signal v
      assume l: "map_of (latestByTerminal r') k = Some signal" and v: "v \<in> set (waiters_of k r')"
      then have l': "map_of (latestByTerminal r) k = Some signal" by (simp add: r')
      show "ts_RecordedAtMs signal < wt_recordedAfter (tr_waiters r' v)"
      proof (cases "v = pending")
        case True
        with v w fresh have "k = key" by (auto split: if_splits)
        with True False l' show ?thesis by (auto simp: r')
      next
        case other: False
        with v w have "v \<in> set (waiters_of k r)" by (auto split: if_splits)
        with ok l' old [OF this] show ?thesis by (auto simp: turn_ok_def none_missed_def)
      qed
    qed
    moreover have "stored k r' = stored k r" for k by (simp add: stored_def r')
    ultimately show ?thesis using ok by (auto simp: turn_ok_def r'(1))
  qed
qed

lemma turn_run_ok: "turn_run r sent got \<Longrightarrow> turn_ok r sent got"
proof (induction rule: turn_run.induct)
  case (new timeoutMs retentionMs)
  then show ?case
    by (simp add: turn_ok_def registry_ok_def none_missed_def stored_def NewTurnCompletionRegistry_def waiters_of_def)
next
  case (finished r sent got key w result r')
  then have "registry_ok r" by (simp add: turn_ok_def)
  note one = finish_one [OF finished.hyps(2) this finished.hyps(3)]
  have count: "received (case result of None \<Rightarrow> [] | Some answer \<Rightarrow> [(w, answer)])
      = (case result of None \<Rightarrow> 0 | Some answer \<Rightarrow> if wr_Received answer then 1 else 0)"
    by (simp add: received_def split: option.split)
  have IH: "got k + stored k r \<le> sent k" "none_missed k r" for k
    using finished.IH by (auto simp: turn_ok_def)
  have "(got(key := got key + received (case result of None \<Rightarrow> [] | Some answer \<Rightarrow> [(w, answer)]))) k
      + stored k r' \<le> sent k" for k
    using one IH(1) [of k] by (cases "k = key") auto
  with one IH(2) show ?case unfolding turn_ok_def count by blast
next
  case (recorded r sent got key signal order now now2 results r')
  then show ?case by (intro turn_ok_Record)
next
  case (waited r sent got key input outcome r')
  then show ?case by (intro turn_ok_Wait)
qed

text \<open>
  C17: a turn signal is consumed once and never missed. In every state the registry can reach, by
  signals recorded, waits, timeouts and cancellations in any order and with the waiters woken in
  any order, no more results saying "received" were handed out for a terminal than signals were
  recorded for it, one signal kept for later included; and no registered waiter of the terminal is
  left waiting while a signal recorded at or after its reference time is kept for it.
\<close>

theorem turn_signal_consumed_once:
  assumes "turn_run r sent got"
  shows "got key + (if map_of (latestByTerminal r) key = None then 0 else 1) \<le> sent key
    \<and> (\<forall>signal w. map_of (latestByTerminal r) key = Some signal \<and> w \<in> set (waiters_of key r)
        \<longrightarrow> ts_RecordedAtMs signal < wt_recordedAfter (tr_waiters r w))"
  using turn_run_ok [OF assms] unfolding turn_ok_def stored_def none_missed_def by blast

definition sample_signal :: SessionScopedSignal where
  "sample_signal =
     \<lparr>ss_Confirmed = True, ss_ExpectedText = ''ok'', ss_HasExpectedText = True, ss_HerdrSessionName = ''s'',
      ss_PaneID = ''p'', ss_TerminalID = ''t'', ss_WorkspaceID = ''ws''\<rparr>"

theorem turn_signal_consumed_once_witness:
  "\<exists>r got. turn_run r ((\<lambda>_. 0)(terminalTurnKey ''s'' ''t'' := Suc 0)) got
     \<and> got (terminalTurnKey ''s'' ''t'') + 1 \<le> 1"
proof -
  let ?key = "terminalTurnKey ''s'' ''t''" and ?r = "NewTurnCompletionRegistry None None"
  obtain results r' where rec: "Record_signal sample_signal 5 5 [] ?r = (results, r')"
    and stored: "map_of (latestByTerminal r') ?key \<noteq> None"
    by (simp add: Record_signal_def sample_signal_def Let_def pruneLocked_def map_put_def NewTurnCompletionRegistry_def)
  have "turn_run r' ((\<lambda>_. 0)(?key := Suc 0)) ((\<lambda>_. 0)(?key := 0 + received results))"
    by (rule turn_run.recorded [OF turn_run.new _ _ rec])
      (simp_all add: sample_signal_def waiters_of_def NewTurnCompletionRegistry_def)
  with turn_signal_consumed_once [OF this, of ?key] stored
  show ?thesis by (intro exI [of _ r'] exI [of _ "(\<lambda>_. 0)(?key := 0 + received results)"]) simp
qed

end
