(* ===== verification/ScanStores.thy ===== *)
theory ScanStores
  imports AgentStore
begin

text \<open>
  The four small stores around a scan of the multiplexer, of \<open>go/internal/db\<close>: the sessions
  (\<open>herdr_sessions.go\<close>), their workspaces (\<open>herdr_workspaces.go\<close>), the context snapshot of each
  agent (\<open>agent_context_snapshots.go\<close>) and the cache of parsed histories
  (\<open>agent_history_cache.go\<close>). One definition per method and per statement; the foreign keys and
  unique indexes of \<open>schema.go\<close> are part of the statements.

  A source's modification time and size, floats in Go, are whole numbers of milliseconds and
  bytes: \<open>StatSourceFingerprint\<close> computes them from integers far below $2^{53}$.
\<close>

subsection \<open>Sessions\<close>

record HerdrSessionRecord =
  hs_LastScannedAt :: "int option"
  hs_Name :: string
  hs_Running :: bool
  hs_SessionDir :: string
  hs_SocketPath :: string
  hs_UpdatedAt :: int

definition scanHerdrSession :: "sessionRow \<Rightarrow> HerdrSessionRecord" where
  "scanHerdrSession row =
     \<lparr>hs_LastScannedAt = h_lastScannedAt row, hs_Name = h_name row, hs_Running = (h_running row \<noteq> 0),
      hs_SessionDir = h_sessionDir row, hs_SocketPath = h_socketPath row, hs_UpdatedAt = h_updatedAt row\<rparr>"

definition upsert_session :: "sessionRow \<Rightarrow> tables \<Rightarrow> int \<times> tables" where
  "upsert_session row t =
     (if \<exists>h \<in> set (herdr_sessions t). h_name h = h_name row
      then (1, t\<lparr>herdr_sessions := update_where (\<lambda>h. h_name h = h_name row) (\<lambda>_. row) (herdr_sessions t)\<rparr>)
      else (1, t\<lparr>herdr_sessions := herdr_sessions t @ [row]\<rparr>))"

definition update_sessions :: "(sessionRow \<Rightarrow> bool) \<Rightarrow> (sessionRow \<Rightarrow> sessionRow) \<Rightarrow> tables \<Rightarrow> int \<times> tables" where
  "update_sessions p f t =
     (count_where p (herdr_sessions t), t\<lparr>herdr_sessions := update_where p f (herdr_sessions t)\<rparr>)"

definition session_Get :: "string \<Rightarrow> HerdrSessionRecord op" where
  "session_Get name =
     bind_act (query_sql (\<lambda>t. find (\<lambda>h. h_name h = name) (herdr_sessions t))) (\<lambda>row. case row of
         None \<Rightarrow> fail_act (ErrText (''Herdr session not found: '' @ name))
       | Some r \<Rightarrow> return_act (scanHerdrSession r))"

definition UpsertRunning :: "string \<Rightarrow> string \<Rightarrow> string \<Rightarrow> HerdrSessionRecord op" where
  "UpsertRunning name sessionDir socketPath =
     bind_act wall_clock (\<lambda>now.
     bind_act (change_sql (upsert_session
       \<lparr>h_lastScannedAt = Some now, h_name = name, h_running = 1, h_sessionDir = sessionDir,
        h_socketPath = socketPath, h_updatedAt = now\<rparr>)) (\<lambda>_.
     session_Get name))"

definition MarkStoppedMissingFrom :: "string list \<Rightarrow> unit op" where
  "MarkStoppedMissingFrom runningNames =
     bind_act wall_clock (\<lambda>now.
     bind_act (change_sql (update_sessions
         (if runningNames = [] then (\<lambda>_. True) else (\<lambda>h. h_name h \<notin> set runningNames))
         (\<lambda>h. h\<lparr>h_running := 0, h_updatedAt := now\<rparr>)))
       (\<lambda>_. return_act ()))"

definition FindRunningBySocketPath :: "string \<Rightarrow> HerdrSessionRecord option op" where
  "FindRunningBySocketPath socketPath =
     query_sql (\<lambda>t. map_option scanHerdrSession
       (find (\<lambda>h. h_running h = 1 \<and> h_socketPath h = socketPath) (herdr_sessions t)))"

definition ListRunning :: "HerdrSessionRecord list op" where
  "ListRunning = query_sql (\<lambda>t. map scanHerdrSession
     (sort_key h_name (filter (\<lambda>h. h_running h = 1) (herdr_sessions t))))"

definition session_List :: "HerdrSessionRecord list op" where
  "session_List = query_sql (\<lambda>t. map scanHerdrSession (sort_key h_name (herdr_sessions t)))"

subsection \<open>Workspaces\<close>

record HerdrWorkspaceRecord =
  hw_AgentStatus :: AgentStatus
  hw_Focused :: bool
  hw_HerdrSessionName :: string
  hw_Label :: "string option"
  hw_LastSeenAt :: int
  hw_WorkspaceID :: string

definition scanHerdrWorkspace :: "workspaceRow \<Rightarrow> HerdrWorkspaceRecord" where
  "scanHerdrWorkspace row =
     \<lparr>hw_AgentStatus = k_agentStatus row, hw_Focused = (k_focused row \<noteq> 0),
      hw_HerdrSessionName = k_herdrSessionName row, hw_Label = k_label row,
      hw_LastSeenAt = k_lastSeenAt row, hw_WorkspaceID = k_workspaceID row\<rparr>"

fun workspaceAgentStatus :: "jval option \<Rightarrow> AgentStatus" where
  "workspaceAgentStatus (Some (JStr text)) = ParseAgentStatus text"
| "workspaceAgentStatus _ = AgentStatusUnknown"

definition booleanValue :: "jval option \<Rightarrow> bool" where
  "booleanValue v \<longleftrightarrow> v = Some (JBool True)"

definition delete_workspaces :: "string \<Rightarrow> tables \<Rightarrow> int \<times> tables" where
  "delete_workspaces session t =
     (count_where (\<lambda>k. k_herdrSessionName k = session) (herdr_workspaces t),
      t\<lparr>herdr_workspaces := delete_where (\<lambda>k. k_herdrSessionName k = session) (herdr_workspaces t)\<rparr>)"

definition insert_workspace :: "workspaceRow \<Rightarrow> tables \<Rightarrow> go_error + unit \<times> tables" where
  "insert_workspace row t =
     (if (\<exists>k \<in> set (herdr_workspaces t). k_herdrSessionName k = k_herdrSessionName row
            \<and> k_workspaceID k = k_workspaceID row)
        \<or> (\<forall>h \<in> set (herdr_sessions t). h_name h \<noteq> k_herdrSessionName row)
      then Inl ErrConstraint
      else Inr ((), t\<lparr>herdr_workspaces := herdr_workspaces t @ [row]\<rparr>))"

text \<open>A workspace without a usable id is skipped.\<close>

definition workspace_row :: "string \<Rightarrow> int \<Rightarrow> (string \<times> jval) list \<Rightarrow> workspaceRow option" where
  "workspace_row session now workspace =
     map_option (\<lambda>workspaceID.
       \<lparr>k_agentStatus = workspaceAgentStatus (map_of workspace ''agent_status''),
        k_focused = (if booleanValue (map_of workspace ''focused'') then 1 else 0),
        k_herdrSessionName = session,
        k_label = (case stringValue (map_of workspace ''label'') of
            None \<Rightarrow> stringValue (map_of workspace ''name'') | Some label \<Rightarrow> Some label),
        k_lastSeenAt = now, k_workspaceID = workspaceID\<rparr>)
       (case stringValue (map_of workspace ''workspace_id'') of
          None \<Rightarrow> stringValue (map_of workspace ''id'') | Some i \<Rightarrow> Some i)"

definition workspace_ListForSession :: "string \<Rightarrow> HerdrWorkspaceRecord list op" where
  "workspace_ListForSession session = query_sql (\<lambda>t. map scanHerdrWorkspace
     (sort_key k_workspaceID (filter (\<lambda>k. k_herdrSessionName k = session) (herdr_workspaces t))))"

definition workspace_List :: "HerdrWorkspaceRecord list op" where
  "workspace_List = query_sql (\<lambda>t. map scanHerdrWorkspace
     (sort_key (\<lambda>k. (k_herdrSessionName k, k_workspaceID k)) (herdr_workspaces t)))"

text \<open>The delete and the inserts are separate statements, outside any transaction.\<close>

definition workspace_ReplaceForSession ::
    "string \<Rightarrow> (string \<times> jval) list list \<Rightarrow> HerdrWorkspaceRecord list op" where
  "workspace_ReplaceForSession session workspaces =
     bind_act wall_clock (\<lambda>now.
     bind_act (change_sql (delete_workspaces session)) (\<lambda>_.
     bind_act (for_each workspaces (\<lambda>workspace. case workspace_row session now workspace of
         None \<Rightarrow> return_act ()
       | Some row \<Rightarrow> exec_sql (insert_workspace row))) (\<lambda>_.
     workspace_ListForSession session)))"

subsection \<open>Context snapshots\<close>

record AgentHistorySourceFingerprint =
  fp_MtimeMs :: int
  fp_Path :: string
  fp_Size :: int

record AgentContextSnapshotRecord =
  ns_AgentID :: string
  ns_CompactHistory :: CompactAgentHistory
  ns_HistoryRef :: "AgentHistoryRef option"
  ns_PaneRevision :: "int option"
  ns_SourceFingerprint :: "AgentHistorySourceFingerprint option"
  ns_UpdatedAt :: int

record AgentContextSnapshotInput =
  ni_AgentID :: string
  ni_CompactHistory :: CompactAgentHistory
  ni_HistoryRef :: "AgentHistoryRef option"
  ni_PaneRevision :: "int option"
  ni_SourceFingerprint :: "AgentHistorySourceFingerprint option"

definition HistoryRefAgentSession :: string where "HistoryRefAgentSession = ''agent_session''"
definition HistoryRefDiscoveredFile :: string where "HistoryRefDiscoveredFile = ''discovered_file''"

definition mapSourceFingerprint ::
    "agentContextSnapshotRow \<Rightarrow> go_error + AgentHistorySourceFingerprint option" where
  "mapSourceFingerprint row =
     (case (n_sourcePath row, n_sourceMtimeMs row, n_sourceSize row) of
        (None, None, None) \<Rightarrow> Inr None
      | (Some path, Some mtime, Some sizeBytes) \<Rightarrow>
          Inr (Some \<lparr>fp_MtimeMs = mtime, fp_Path = path, fp_Size = sizeBytes\<rparr>)
      | _ \<Rightarrow> Inl (ErrText ''Stored agent context source fingerprint is invalid''))"

definition parseContextHistoryRef :: "AgentHistoryRef \<Rightarrow> go_error + AgentHistoryRef" where
  "parseContextHistoryRef ref =
     (if hr_Kind ref \<noteq> HistoryRefAgentSession \<and> hr_Kind ref \<noteq> HistoryRefDiscoveredFile
      then Inl (ErrText ''Stored agent context history ref is invalid'') else Inr ref)"

definition mapAgentContextSnapshot ::
    "agentContextSnapshotRow \<Rightarrow> go_error + AgentContextSnapshotRecord" where
  "mapAgentContextSnapshot row =
     (case mapSourceFingerprint row of Inl e \<Rightarrow> Inl e
      | Inr fingerprint \<Rightarrow>
        (case (case n_historyRef row of None \<Rightarrow> Inr None
               | Some ref \<Rightarrow> map_sum (\<lambda>e. e) Some (parseContextHistoryRef ref)) of
           Inl e \<Rightarrow> Inl e
         | Inr historyRef \<Rightarrow>
           if (historyRef = None) \<noteq> (fingerprint = None)
           then Inl (ErrText ''Stored agent context history ref and source fingerprint are inconsistent'')
           else Inr \<lparr>ns_AgentID = n_agentID row, ns_CompactHistory = n_compactHistory row,
              ns_HistoryRef = historyRef, ns_PaneRevision = n_paneRevision row,
              ns_SourceFingerprint = fingerprint, ns_UpdatedAt = n_updatedAtMs row\<rparr>))"

definition snapshot_row :: "AgentContextSnapshotInput \<Rightarrow> int \<Rightarrow> agentContextSnapshotRow" where
  "snapshot_row input now =
     \<lparr>n_agentID = ni_AgentID input, n_compactHistory = ni_CompactHistory input,
      n_historyRef = ni_HistoryRef input, n_paneRevision = ni_PaneRevision input,
      n_sourcePath = map_option fp_Path (ni_SourceFingerprint input),
      n_sourceMtimeMs = map_option fp_MtimeMs (ni_SourceFingerprint input),
      n_sourceSize = map_option fp_Size (ni_SourceFingerprint input), n_updatedAtMs = now\<rparr>"

text \<open>The upsert: the foreign key is its only constraint that can fail.\<close>

definition upsert_snapshot :: "agentContextSnapshotRow \<Rightarrow> tables \<Rightarrow> go_error + unit \<times> tables" where
  "upsert_snapshot row t =
     (if \<forall>g \<in> set (agents t). g_id g \<noteq> n_agentID row then Inl ErrConstraint
      else Inr ((), if \<exists>n \<in> set (agent_context_snapshots t). n_agentID n = n_agentID row
        then t\<lparr>agent_context_snapshots :=
          update_where (\<lambda>n. n_agentID n = n_agentID row) (\<lambda>_. row) (agent_context_snapshots t)\<rparr>
        else t\<lparr>agent_context_snapshots := agent_context_snapshots t @ [row]\<rparr>))"

definition snapshot_getRow :: "string \<Rightarrow> agentContextSnapshotRow option op" where
  "snapshot_getRow agentID =
     query_sql (\<lambda>t. find (\<lambda>n. n_agentID n = agentID) (agent_context_snapshots t))"

definition snapshot_Get :: "string \<Rightarrow> AgentContextSnapshotRecord option op" where
  "snapshot_Get agentID =
     bind_act (snapshot_getRow agentID) (\<lambda>row. case row of
         None \<Rightarrow> return_act None
       | Some r \<Rightarrow> bind_act (of_sum (mapAgentContextSnapshot r)) (\<lambda>record. return_act (Some record)))"

fun map_snapshots :: "agentContextSnapshotRow list \<Rightarrow> go_error + AgentContextSnapshotRecord list" where
  "map_snapshots [] = Inr []"
| "map_snapshots (row # rows) =
     (case mapAgentContextSnapshot row of Inl e \<Rightarrow> Inl e
      | Inr r \<Rightarrow> map_sum (\<lambda>e. e) (\<lambda>rs. r # rs) (map_snapshots rows))"

definition ListByAgentIds :: "string list \<Rightarrow> AgentContextSnapshotRecord list op" where
  "ListByAgentIds agentIDs =
     (if agentIDs = [] then return_act []
      else bind_act (query_sql (\<lambda>t. filter (\<lambda>n. n_agentID n \<in> set agentIDs) (agent_context_snapshots t)))
        (\<lambda>rows. of_sum (map_snapshots rows)))"

definition snapshot_Put :: "AgentContextSnapshotInput \<Rightarrow> AgentContextSnapshotRecord op" where
  "snapshot_Put input =
     (if (ni_HistoryRef input = None) \<noteq> (ni_SourceFingerprint input = None)
      then fail_act (ErrText ''Agent context history ref and source fingerprint must both be null or non-null'')
      else bind_act (snapshot_getRow (ni_AgentID input)) (\<lambda>previous.
        bind_act wall_clock (\<lambda>wall.
        let now = (case previous of None \<Rightarrow> wall
          | Some p \<Rightarrow> if wall < n_updatedAtMs p + 1 then n_updatedAtMs p + 1 else wall)
        in bind_act (exec_sql (upsert_snapshot (snapshot_row input now))) (\<lambda>_.
           bind_act (snapshot_Get (ni_AgentID input)) (\<lambda>record. case record of
               None \<Rightarrow> fail_act (ErrText ''Agent context snapshot write failed'')
             | Some r \<Rightarrow> return_act r)))))"

definition snapshot_Delete :: "string \<Rightarrow> unit op" where
  "snapshot_Delete agentID = bind_act (change_sql (delete_snapshots [agentID])) (\<lambda>_. return_act ())"

subsection \<open>The history cache\<close>

record AgentHistoryCacheRecord =
  yr_CompactHistory :: CompactAgentHistory
  yr_FormatterVersion :: string
  yr_HistoryRef :: AgentHistoryRef
  yr_ID :: int
  yr_SourceMtimeMs :: int
  yr_SourcePath :: string
  yr_SourceSize :: int
  yr_UpdatedAt :: int

definition mapAgentHistoryCache :: "agentHistoryCacheRow \<Rightarrow> AgentHistoryCacheRecord" where
  "mapAgentHistoryCache row =
     \<lparr>yr_CompactHistory = y_compactHistory row, yr_FormatterVersion = y_formatterVersion row,
      yr_HistoryRef = y_historyRef row, yr_ID = y_id row, yr_SourceMtimeMs = y_sourceMtimeMs row,
      yr_SourcePath = y_sourcePath row, yr_SourceSize = y_sourceSize row, yr_UpdatedAt = y_updatedAtMs row\<rparr>"

definition cached_source :: "string \<Rightarrow> string \<Rightarrow> agentHistoryCacheRow \<Rightarrow> bool" where
  "cached_source path version y \<longleftrightarrow> y_sourcePath y = path \<and> y_formatterVersion y = version"

text \<open>A driver failure is a miss.\<close>

definition GetFresh :: "string \<Rightarrow> string \<Rightarrow> int \<Rightarrow> int \<Rightarrow> AgentHistoryCacheRecord option op" where
  "GetFresh path version mtimeMs sizeBytes =
     catch_act (query_sql (\<lambda>t. map_option mapAgentHistoryCache
         (find (\<lambda>y. cached_source path version y \<and> y_sourceMtimeMs y = mtimeMs \<and> y_sourceSize y = sizeBytes)
           (agent_history_cache t))))
       (\<lambda>_. return_act None)"

definition upsert_cache :: "agentHistoryCacheRow \<Rightarrow> tables \<Rightarrow> int \<times> tables" where
  "upsert_cache row t =
     (if \<exists>y \<in> set (agent_history_cache t). cached_source (y_sourcePath row) (y_formatterVersion row) y
      then (1, t\<lparr>agent_history_cache :=
        update_where (cached_source (y_sourcePath row) (y_formatterVersion row))
          (\<lambda>y. row\<lparr>y_id := y_id y\<rparr>) (agent_history_cache t)\<rparr>)
      else let cacheID = agent_history_cache_seq t + 1
        in (1, t\<lparr>agent_history_cache := agent_history_cache t @ [row\<lparr>y_id := cacheID\<rparr>],
              agent_history_cache_seq := cacheID\<rparr>))"

definition putRecord ::
    "CompactAgentHistory \<Rightarrow> string \<Rightarrow> AgentHistoryRef \<Rightarrow> int \<Rightarrow> string \<Rightarrow> int \<Rightarrow> AgentHistoryCacheRecord op" where
  "putRecord compactHistory version ref mtimeMs path sizeBytes =
     bind_act wall_clock (\<lambda>now.
     bind_act (change_sql (upsert_cache
       \<lparr>y_compactHistory = compactHistory, y_formatterVersion = version, y_historyRef = ref, y_id = 0,
        y_sourceMtimeMs = mtimeMs, y_sourcePath = path, y_sourceSize = sizeBytes, y_updatedAtMs = now\<rparr>)) (\<lambda>_.
     bind_act (query_sql (\<lambda>t. find (cached_source path version) (agent_history_cache t)))
       (\<lambda>row. case row of None \<Rightarrow> fail_act (ErrText ''Agent history cache write failed'')
          | Some r \<Rightarrow> return_act (mapAgentHistoryCache r))))"

definition cache_Put ::
    "CompactAgentHistory \<Rightarrow> string \<Rightarrow> AgentHistoryRef \<Rightarrow> int \<Rightarrow> string \<Rightarrow> int \<Rightarrow> unit op" where
  "cache_Put compactHistory version ref mtimeMs path sizeBytes =
     bind_act (putRecord compactHistory version ref mtimeMs path sizeBytes) (\<lambda>_. return_act ())"

definition delete_cache :: "(agentHistoryCacheRow \<Rightarrow> bool) \<Rightarrow> tables \<Rightarrow> int \<times> tables" where
  "delete_cache p t =
     (count_where p (agent_history_cache t),
      t\<lparr>agent_history_cache := delete_where p (agent_history_cache t)\<rparr>)"

definition cache_DeleteOlderThan :: "int \<Rightarrow> int op" where
  "cache_DeleteOlderThan ageMs =
     bind_act wall_clock (\<lambda>now. change_sql (delete_cache (\<lambda>y. y_updatedAtMs y < now - ageMs)))"

definition ListSourcePaths :: "string list op" where
  "ListSourcePaths = query_sql (\<lambda>t. sort (remdups (map y_sourcePath (agent_history_cache t))))"

fun dedup_paths :: "string list \<Rightarrow> string list \<Rightarrow> string list" where
  "dedup_paths seen [] = []"
| "dedup_paths seen (path # paths) =
     (if path \<in> set seen then dedup_paths seen paths
      else path # dedup_paths (path # seen) paths)"

fun batches :: "nat \<Rightarrow> 'a list \<Rightarrow> 'a list list" where
  "batches n xs = (if xs = [] \<or> n = 0 then [] else take n xs # batches n (drop n xs))"

declare batches.simps [simp del]

fun delete_batches :: "int \<Rightarrow> string list list \<Rightarrow> int op" where
  "delete_batches deleted [] = return_act deleted"
| "delete_batches deleted (batch # rest) =
     bind_act (change_sql (delete_cache (\<lambda>y. y_sourcePath y \<in> set batch)))
       (\<lambda>affected. delete_batches (deleted + affected) rest)"

definition DeleteBySourcePaths :: "string list \<Rightarrow> int op" where
  "DeleteBySourcePaths sourcePaths =
     (let unique = dedup_paths [] sourcePaths
      in if unique = [] then return_act 0 else delete_batches 0 (batches 100 unique))"

end
