(* ===== verification/IndexTypes.thy ===== *)
theory IndexTypes
  imports ScanStores PlanStore
begin

text \<open>
  The pure part of the agent index service: the types and helpers of
  \<open>observability/agent_index_types.go\<close> and the module-level helpers of
  \<open>agent_index_service.go\<close>, \<open>agent_index_plans.go\<close> and \<open>agent_index_events.go\<close>. A Go map with
  string keys is an association list read by \<open>map_of\<close>; \<open>put_key\<close> is the assignment to a key.
\<close>

definition put_key :: "string \<Rightarrow> 'v \<Rightarrow> (string \<times> 'v) list \<Rightarrow> (string \<times> 'v) list" where
  "put_key k v kvs = (k, v) # filter (\<lambda>(k', _). k' \<noteq> k) kvs"

definition put_all :: "(string \<times> 'v) list \<Rightarrow> (string \<times> 'v) list \<Rightarrow> (string \<times> 'v) list" where
  "put_all extra kvs = foldr (\<lambda>(k, v). put_key k v) extra kvs"

lemma map_of_filter_key: "k' \<noteq> k \<Longrightarrow> map_of (filter (\<lambda>(j, _). j \<noteq> k) kvs) k' = map_of kvs k'"
  by (induction kvs) auto

lemma map_of_put_key [simp]: "map_of (put_key k v kvs) = (map_of kvs)(k \<mapsto> v)"
  by (rule ext) (simp add: put_key_def map_of_filter_key)

lemma map_of_put_all: "map_of (put_all extra kvs) k = (case map_of extra k of None \<Rightarrow> map_of kvs k | Some v \<Rightarrow> Some v)"
  by (induction extra) (auto simp: put_all_def)

definition nul :: char where "nul = char_of (0 :: nat)"

subsection \<open>White space\<close>

text \<open>\<open>strings.TrimSpace\<close> on the bytes of a text: the white space of Unicode, in UTF-8.\<close>

definition space2 :: "nat \<Rightarrow> nat \<Rightarrow> bool" where
  "space2 a b \<longleftrightarrow> a = 194 \<and> (b = 133 \<or> b = 160)"

definition space3 :: "nat \<Rightarrow> nat \<Rightarrow> nat \<Rightarrow> bool" where
  "space3 a b c \<longleftrightarrow> (a = 225 \<and> b = 154 \<and> c = 128) \<or> (a = 226 \<and> b = 128 \<and> 128 \<le> c \<and> c \<le> 138)
     \<or> (a = 226 \<and> b = 128 \<and> (c = 168 \<or> c = 169 \<or> c = 175)) \<or> (a = 226 \<and> b = 129 \<and> c = 159)
     \<or> (a = 227 \<and> b = 128 \<and> c = 128)"

fun trim_front :: "nat list \<Rightarrow> nat list" where
  "trim_front [] = []"
| "trim_front [a] = (if ascii_space a then [] else [a])"
| "trim_front [a, b] =
     (if ascii_space a then trim_front [b] else if space2 a b then [] else [a, b])"
| "trim_front (a # b # c # rest) =
     (if ascii_space a then trim_front (b # c # rest)
      else if space2 a b then trim_front (c # rest)
      else if space3 a b c then trim_front rest else a # b # c # rest)"

text \<open>The same on a reversed text.\<close>

fun trim_back :: "nat list \<Rightarrow> nat list" where
  "trim_back [] = []"
| "trim_back [a] = (if ascii_space a then [] else [a])"
| "trim_back [b, a] =
     (if ascii_space b then trim_back [a] else if space2 a b then [] else [b, a])"
| "trim_back (c # b # a # rest) =
     (if ascii_space c then trim_back (b # a # rest)
      else if space2 b c then trim_back (a # rest)
      else if space3 a b c then trim_back rest else c # b # a # rest)"

definition TrimSpace :: "string \<Rightarrow> string" where
  "TrimSpace s = map char_of (rev (trim_back (rev (trim_front (map of_char s)))))"

subsection \<open>Constants, plans and results\<close>

definition WORKING_PLAN_MAX_STALL_ATTEMPTS :: int where "WORKING_PLAN_MAX_STALL_ATTEMPTS = 18"
definition WORKING_PLAN_MAX_WAIT_MS :: int where "WORKING_PLAN_MAX_WAIT_MS = 1800000"
definition ORPHAN_SALVAGE_REASON :: string where
  "ORPHAN_SALVAGE_REASON = ''pane_closed_before_delivery''"
definition HistorySourceAntigravitySQLite :: string where
  "HistorySourceAntigravitySQLite = ''antigravity-sqlite''"

record StatusEventPlan =
  sp_Agent :: AgentIndexRecord
  sp_Attempts :: "int option"
  sp_CompactHistory :: "CompactAgentHistory option"
  sp_From :: AgentStatus
  sp_HerdrEventKey :: "string option"
  sp_PlanID :: "int option"
  sp_To :: AgentStatus

record AgentEventHandlingFastResult =
  fr_ContextChangedScopes :: "AgentScope list"
  fr_Events :: "AgentEventRecord list"
  fr_StatusEventPlans :: "StatusEventPlan list"

record AgentIndexRefreshFastResult =
  rr_Agents :: "AgentIndexRecord list"
  rr_ContextChangedScopes :: "AgentScope list"
  rr_Events :: "AgentEventRecord list"
  rr_StatusEventPlans :: "StatusEventPlan list"

text \<open>The durations are whole milliseconds; the factor of the exponential backoff is a float.\<close>

record StatusPlansConfig =
  pc_BackoffFactor :: rat
  pc_InitialBackoffMs :: rat
  pc_MaxBackoffMs :: rat
  pc_TotalWindowMs :: rat

fun event_type_text :: "AgentEventType \<Rightarrow> string" where
  "event_type_text AgentEventBlocked = ''agent.blocked''"
| "event_type_text AgentEventDiscarded = ''agent.discarded''"
| "event_type_text AgentEventDone = ''agent.done''"
| "event_type_text AgentEventFailed = ''agent.failed''"
| "event_type_text AgentEventIdle = ''agent.idle''"
| "event_type_text AgentEventStatusChanged = ''agent.status.changed''"
| "event_type_text AgentEventToolFailed = ''agent.tool.failed''"

subsection \<open>Histories\<close>

definition assistant_ref :: "CompactAgentHistory option \<Rightarrow> string" where
  "assistant_ref history =
     (case history of None \<Rightarrow> [] | Some h \<Rightarrow>
        (case ch_LastAssistantMessage h of None \<Rightarrow> [] | Some m \<Rightarrow> x_Ref m))"

definition assistant_text :: "CompactAgentHistory option \<Rightarrow> string" where
  "assistant_text history =
     (case history of None \<Rightarrow> [] | Some h \<Rightarrow>
        (case ch_LastAssistantMessage h of None \<Rightarrow> [] | Some m \<Rightarrow> x_Text m))"

definition assistantRefAndText :: "CompactAgentHistory option \<Rightarrow> string \<times> string" where
  "assistantRefAndText history = (assistant_ref history, assistant_text history)"

text \<open>\<open>options\<close>, where given, says whether only a change of the assistant message counts.\<close>

definition HistoryHasAdvanced ::
    "CompactAgentHistory \<Rightarrow> CompactAgentHistory option \<Rightarrow> bool option \<Rightarrow> bool" where
  "HistoryHasAdvanced current baseline options =
     (let byMessage = (case ch_LastAssistantMessage current of None \<Rightarrow> False
        | Some m \<Rightarrow> (x_Ref m \<noteq> [] \<and> x_Ref m \<noteq> assistant_ref baseline)
            \<or> (x_Text m \<noteq> [] \<and> x_Text m \<noteq> assistant_text baseline))
      in if byMessage then True
         else if options = Some True then False
         else (case baseline of None \<Rightarrow> 0 | Some b \<Rightarrow> ch_MessageCount b) < ch_MessageCount current)"

definition is_antigravity :: "string \<Rightarrow> CompactAgentHistory option \<Rightarrow> bool" where
  "is_antigravity agentKind history \<longleftrightarrow> agentKind = ''agy''
     \<or> (case history of None \<Rightarrow> False | Some h \<Rightarrow> ch_Source h = Some HistorySourceAntigravitySQLite)"

definition stringOrEmpty :: "string option \<Rightarrow> string" where
  "stringOrEmpty v = (case v of None \<Rightarrow> [] | Some s \<Rightarrow> s)"

definition sameTerminalAssistantContent ::
    "CompactAgentHistory option \<Rightarrow> CompactAgentHistory option \<Rightarrow> string option \<Rightarrow> bool" where
  "sameTerminalAssistantContent current previous agentKind =
     (case (current, previous) of
        (Some c, Some p) \<Rightarrow>
          (case (ch_LastAssistantMessage c, ch_LastAssistantMessage p) of
             (Some cm, Some pm) \<Rightarrow>
               if is_antigravity (stringOrEmpty agentKind) current
               then if x_Ref cm \<noteq> [] \<and> x_Ref pm \<noteq> [] then x_Ref cm = x_Ref pm
                 else x_Text cm \<noteq> [] \<and> x_Text cm = x_Text pm
               else if x_Ref cm \<noteq> [] \<and> x_Ref pm \<noteq> [] then x_Ref cm = x_Ref pm
               else if x_Text cm \<noteq> [] \<and> x_Text pm \<noteq> [] then x_Text cm = x_Text pm
               else False
           | _ \<Rightarrow> False)
      | _ \<Rightarrow> False)"

definition payload_text :: "jval \<Rightarrow> string \<Rightarrow> string" where
  "payload_text pl key = stringOrEmpty (as_string (map_of (asRecord pl) key))"

definition statusTransitionMatches :: "AgentEventRecord \<Rightarrow> AgentStatus \<Rightarrow> AgentStatus \<Rightarrow> bool" where
  "statusTransitionMatches event from to \<longleftrightarrow>
     payload_text (e_Payload event) ''from'' = agent_status_text from
     \<and> payload_text (e_Payload event) ''to'' = agent_status_text to"

definition compactHistoryOf :: "AgentEventRecord option \<Rightarrow> CompactAgentHistory option" where
  "compactHistoryOf event = (case event of None \<Rightarrow> None | Some e \<Rightarrow> e_CompactHistory e)"

definition latestEventID :: "AgentEventRecord option \<Rightarrow> int" where
  "latestEventID event = (case event of None \<Rightarrow> 0 | Some e \<Rightarrow> e_ID e)"

definition blanked :: "CompactAgentHistory \<Rightarrow> CompactAgentHistory" where
  "blanked h = h\<lparr>ch_LastAssistantMessage := None\<rparr>"

definition isPiFamilyAgentKind :: "string \<Rightarrow> bool" where
  "isPiFamilyAgentKind agentKind \<longleftrightarrow> TrimSpace agentKind = ''pi'' \<or> TrimSpace agentKind = ''pig''"

subsection \<open>Keys\<close>

definition paneIdentityKey :: "string \<Rightarrow> string option \<Rightarrow> string" where
  "paneIdentityKey paneID generation = paneID @ [nul] @ stringOrEmpty generation"

definition emptyTurnAlertKey :: "string \<Rightarrow> string option \<Rightarrow> string" where
  "emptyTurnAlertKey herdrSessionName paneID = herdrSessionName @ [nul] @ stringOrEmpty paneID"

definition terminalSessionKey :: "string \<Rightarrow> string \<Rightarrow> string" where
  "terminalSessionKey herdrSessionName terminalID = herdrSessionName @ [nul] @ terminalID"

definition waiterKey :: "AgentIndexRecord \<Rightarrow> string" where
  "waiterKey agent = a_HerdrSessionName agent @ [nul] @ a_PaneID agent @ [nul]
     @ stringOrEmpty (a_PaneGeneration agent)"

text \<open>\<open>strings.SplitN(key, "\x00", 3)\<close>\<close>

fun split_nul :: "string \<Rightarrow> string \<times> string option" where
  "split_nul [] = ([], None)"
| "split_nul (c # cs) = (if c = nul then ([], Some cs)
     else (case split_nul cs of (a, rest) \<Rightarrow> (c # a, rest)))"

definition splitWaiterKey :: "string \<Rightarrow> string \<times> string \<times> string" where
  "splitWaiterKey key =
     (case split_nul key of
        (session, None) \<Rightarrow> (session, [], [])
      | (session, Some rest) \<Rightarrow>
        (case split_nul rest of (pane, gen) \<Rightarrow> (session, pane, stringOrEmpty gen)))"

lemma split_nul_append: "nul \<notin> set a \<Longrightarrow> split_nul (a @ nul # b) = (a, Some b)"
  by (induction a) auto

lemma splitWaiterKey_waiterKey:
  "nul \<notin> set (a_HerdrSessionName agent) \<Longrightarrow> nul \<notin> set (a_PaneID agent) \<Longrightarrow>
    splitWaiterKey (waiterKey agent)
    = (a_HerdrSessionName agent, a_PaneID agent, stringOrEmpty (a_PaneGeneration agent))"
  using split_nul_append [of "a_HerdrSessionName agent"] split_nul_append [of "a_PaneID agent"]
  by (simp add: splitWaiterKey_def waiterKey_def stringOrEmpty_def)

subsection \<open>Comparing agents\<close>

definition sameIdentity :: "AgentIndexRecord \<Rightarrow> AgentIndexRecord \<Rightarrow> bool" where
  "sameIdentity l r \<longleftrightarrow> a_Agent l = a_Agent r \<and> a_TerminalID l = a_TerminalID r \<and> a_Cwd l = a_Cwd r
     \<and> a_ForegroundCwd l = a_ForegroundCwd r \<and> a_AgentSession l = a_AgentSession r"

definition sameContextMetadata :: "AgentIndexRecord \<Rightarrow> AgentIndexRecord \<Rightarrow> bool" where
  "sameContextMetadata l r \<longleftrightarrow> sameIdentity l r \<and> a_Name l = a_Name r
     \<and> a_AgentStatus l = a_AgentStatus r \<and> a_PaneID l = a_PaneID r \<and> a_TabID l = a_TabID r
     \<and> a_WorkspaceID l = a_WorkspaceID r"

definition scopeOf :: "AgentIndexRecord \<Rightarrow> AgentScope" where
  "scopeOf agent =
     \<lparr>s_HerdrSessionName = a_HerdrSessionName agent, s_WorkspaceID = a_WorkspaceID agent\<rparr>"

definition scope_key :: "AgentScope \<Rightarrow> string" where
  "scope_key s = s_HerdrSessionName s @ [nul] @ s_WorkspaceID s"

definition addScope :: "AgentScope \<Rightarrow> (string \<times> AgentScope) list \<Rightarrow> (string \<times> AgentScope) list" where
  "addScope s scopes = put_key (scope_key s) s scopes"

definition sortedScopes :: "(string \<times> AgentScope) list \<Rightarrow> AgentScope list" where
  "sortedScopes scopes = sort_key (\<lambda>s. (s_HerdrSessionName s, s_WorkspaceID s)) (map snd scopes)"

definition previousByTerminal :: "AgentIndexRecord list \<Rightarrow> string \<Rightarrow> AgentIndexRecord option" where
  "previousByTerminal previous terminalID = find (\<lambda>a. a_TerminalID a = Some terminalID) (rev previous)"

definition previousByPane :: "AgentIndexRecord list \<Rightarrow> string \<Rightarrow> AgentIndexRecord option" where
  "previousByPane previous key =
     find (\<lambda>a. paneIdentityKey (a_PaneID a) (a_PaneGeneration a) = key) (rev previous)"

definition matchingPrior :: "AgentIndexRecord \<Rightarrow> AgentIndexRecord list \<Rightarrow> AgentIndexRecord option" where
  "matchingPrior agent previous =
     (let terminalMatch = (case a_TerminalID agent of None \<Rightarrow> None
            | Some t \<Rightarrow> previousByTerminal previous t);
          generationMatches = (case (a_PaneGeneration agent, terminalMatch) of
              (Some g, Some m) \<Rightarrow> (case a_PaneGeneration m of None \<Rightarrow> True | Some mg \<Rightarrow> mg = g)
            | _ \<Rightarrow> True);
          paneMatch = previousByPane previous (paneIdentityKey (a_PaneID agent) (a_PaneGeneration agent));
          canUsePaneFallback = (case paneMatch of None \<Rightarrow> False
            | Some m \<Rightarrow> a_TerminalID agent = None \<or> a_TerminalID m = None)
      in if generationMatches \<and> terminalMatch \<noteq> None then terminalMatch
         else if canUsePaneFallback then paneMatch else None)"

subsection \<open>Overlaying pane data on the reported agents\<close>

record paneOverlay =
  ov_Revision :: "int option"
  ov_TerminalTitle :: "string option"

definition overlay_of_pane :: "jval \<Rightarrow> (string \<times> paneOverlay) option" where
  "overlay_of_pane pane =
     (let v = asRecord pane in
      case stringValue (map_of v ''pane_id'') of None \<Rightarrow> None
      | Some paneID \<Rightarrow>
        let revision = integerValue (map_of v ''revision'');
            terminalTitle = stringValue (map_of v ''terminal_title'')
        in if revision = None \<and> terminalTitle = None then None
           else Some (paneID, \<lparr>ov_Revision = revision, ov_TerminalTitle = terminalTitle\<rparr>))"

definition overlayByPane :: "jval list \<Rightarrow> (string \<times> paneOverlay) list" where
  "overlayByPane panes = rev (List.map_filter overlay_of_pane panes)"

definition withPaneRevision :: "jval \<Rightarrow> (string \<times> paneOverlay) list \<Rightarrow> HerdrAgentLike" where
  "withPaneRevision agent overlays =
     (let raw = asRecord agent;
          overlay = (case stringValue (map_of raw ''pane_id'') of None \<Rightarrow> None
            | Some paneID \<Rightarrow> map_of overlays paneID);
          revision = (case integerValue (map_of raw ''revision'') of Some r \<Rightarrow> Some r
            | None \<Rightarrow> (case overlay of None \<Rightarrow> None | Some ov \<Rightarrow> ov_Revision ov));
          terminalTitle = (case stringValue (map_of raw ''terminal_title'') of Some tt \<Rightarrow> Some tt
            | None \<Rightarrow> (case overlay of None \<Rightarrow> None | Some ov \<Rightarrow> ov_TerminalTitle ov))
      in (case terminalTitle of None \<Rightarrow> (\<lambda>kvs. kvs) | Some tt \<Rightarrow> put_key ''terminal_title'' (JStr tt))
          ((case revision of None \<Rightarrow> (\<lambda>kvs. kvs) | Some r \<Rightarrow> put_key ''revision'' (JNum (of_int r))) raw))"

definition paneGenerationOf :: "HerdrAgentLike \<Rightarrow> string option" where
  "paneGenerationOf agent =
     (case stringValue (map_of agent ''pane_generation'') of Some g \<Rightarrow> Some g
      | None \<Rightarrow> stringValue (map_of agent ''creation_id''))"

subsection \<open>Events of a status transition\<close>

fun statusEventType :: "AgentStatus \<Rightarrow> AgentEventType option" where
  "statusEventType AgentStatusBlocked = Some AgentEventBlocked"
| "statusEventType AgentStatusDone = Some AgentEventDone"
| "statusEventType AgentStatusIdle = Some AgentEventIdle"
| "statusEventType _ = None"

definition jopt :: "string option \<Rightarrow> jval" where
  "jopt v = (case v of None \<Rightarrow> JNull | Some s \<Rightarrow> JStr s)"

definition payload ::
    "(string \<Rightarrow> string option) \<Rightarrow> AgentIndexRecord \<Rightarrow> AgentStatus \<Rightarrow> AgentStatus \<Rightarrow> (string \<times> jval) list" where
  "payload evalSymlinks agent from to =
     [(''agent'', jopt (a_Agent agent)), (''from'', JStr (agent_status_text from)),
      (''name'', jopt (a_Name agent)), (''herdrSessionName'', JStr (a_HerdrSessionName agent)),
      (''paneId'', JStr (a_PaneID agent)), (''terminalId'', jopt (a_TerminalID agent)),
      (''to'', JStr (agent_status_text to)), (''workspaceId'', JStr (a_WorkspaceID agent))]
     @ (if IsInteractivePiAgent evalSymlinks (Some agent) then [(''interactive'', JBool True)] else [])"

definition idempotencyKey ::
    "AgentEventType \<Rightarrow> AgentIndexRecord \<Rightarrow> AgentStatus \<Rightarrow> AgentStatus \<Rightarrow> string \<Rightarrow> string" where
  "idempotencyKey eventType agent from to observationID =
     event_type_text eventType @ '':'' @ a_HerdrSessionName agent @ '':'' @ a_PaneID agent @ '':''
     @ agent_status_text from @ '':'' @ agent_status_text to @ '':'' @ observationID"

definition herdrInputIdempotencyKey :: "string \<Rightarrow> string \<Rightarrow> (string \<times> jval) list \<Rightarrow> string option" where
  "herdrInputIdempotencyKey sessionName paneID event =
     (case first_some (map (\<lambda>key. stringValue (map_of event key)) [''id'', ''event_id'', ''eventId'']) of
        None \<Rightarrow> None
      | Some eventID \<Rightarrow> Some (sessionName @ '':'' @ paneID @ '':''
          @ stringOrEmpty (as_string (map_of event ''type'')) @ '':'' @ eventID))"

subsection \<open>Retries\<close>

text \<open>\<open>int64(f)\<close> drops the fraction of a float.\<close>

definition trunc_int :: "rat \<Rightarrow> int" where
  "trunc_int q = (if 0 \<le> q then \<lfloor>q\<rfloor> else \<lceil>q\<rceil>)"

definition computeBackoffMs :: "StatusPlansConfig \<Rightarrow> int \<Rightarrow> int" where
  "computeBackoffMs config attempts =
     (if attempts \<le> 1 then trunc_int (pc_InitialBackoffMs config)
      else let exponential = pc_InitialBackoffMs config * pc_BackoffFactor config ^ nat (attempts - 1)
        in if pc_MaxBackoffMs config < exponential then trunc_int (pc_MaxBackoffMs config)
           else trunc_int exponential)"

fun isTerminalPlanStatus :: "StatusEventPlanStatus \<Rightarrow> bool" where
  "isTerminalPlanStatus StatusPlanCompleted = True"
| "isTerminalPlanStatus StatusPlanCancelled = True"
| "isTerminalPlanStatus StatusPlanFailed = True"
| "isTerminalPlanStatus StatusPlanDiscarded = True"
| "isTerminalPlanStatus _ = False"

definition computeProgressFingerprint ::
    "AgentIndexRecord option \<Rightarrow> CompactAgentHistory option \<Rightarrow> string" where
  "computeProgressFingerprint liveAgent history =
     (if history = None \<and> liveAgent = None then []
      else let updatedAt = (case history of None \<Rightarrow> [] | Some h \<Rightarrow> stringOrEmpty (ch_UpdatedAt h));
            messageCount = (case history of None \<Rightarrow> 0 | Some h \<Rightarrow> ch_MessageCount h);
            tool = (case history of None \<Rightarrow> None | Some h \<Rightarrow> ch_LastToolResult h);
            toolRef = (case tool of None \<Rightarrow> [] | Some r \<Rightarrow> tr_Ref r);
            toolTextLength = (case tool of None \<Rightarrow> 0 | Some r \<Rightarrow> int (length (tr_Text r)));
            paneRevision = (case liveAgent of None \<Rightarrow> [] | Some a \<Rightarrow>
              (case a_PaneRevision a of None \<Rightarrow> [] | Some r \<Rightarrow> FormatInt r))
        in join_with ''|'' [updatedAt, FormatInt messageCount, toolRef, FormatInt toolTextLength,
             assistant_ref history, assistant_text history, paneRevision])"

definition containsFold :: "string \<Rightarrow> string \<Rightarrow> bool" where
  "containsFold haystack needleLower = str_contains needleLower (map (\<lambda>c. char_of (fold_ascii c)) haystack)"

text \<open>The context cancellation of the standard library has a text of its own, without \<open>aborted\<close>.\<close>

definition isAbortText :: "string \<Rightarrow> bool" where
  "isAbortText message \<longleftrightarrow> message = ''context canceled''
     \<or> containsFold message ''aborted'' \<or> containsFold message ''aborterror''"

end
