(* ===== verification/IndexState.thy ===== *)
theory IndexState
  imports IndexTypes ScopeStore TurnCompletion
begin

text \<open>
  The state of the agent index service and what it depends on: the fields of
  \<open>AgentIndexService\<close> (\<open>observability/agent_index_service.go\<close>) and of \<open>AgentContextService\<close>
  (\<open>agent_context_service.go\<close>) next to the \<open>world\<close> of the stores, and a record of the interfaces
  the service is built from.

  An operation of the service is one action on this state, except where it waits: at a sleep, at
  the wait for a turn signal and during the snapshot request the rest of the daemon runs, which is
  an arbitrary function on the state (\<open>iv_meanwhile\<close>, \<open>iv_waitForSignal\<close>,
  \<open>iv_sessionSnapshot\<close>). Locks and the tails that serialise the operations of one session or one
  agent are therefore not part of the state.
\<close>

subsection \<open>The interfaces\<close>

record AgentHistoryLookupInput =
  hl_Agent :: "string option"
  hl_AgentSession :: "AgentSessionRef option"
  hl_HerdrSessionName :: string
  hl_PaneID :: string

record AgentHistoryResolveOptions =
  ho_ForceDiscovery :: bool
  ho_ForceRefresh :: "bool option"
  ho_PreferredRef :: "AgentHistoryRef option"

record AgentHistoryResolved =
  hd_CompactHistory :: CompactAgentHistory
  hd_HistoryRef :: "AgentHistoryRef option"
  hd_SourceFingerprint :: "AgentHistorySourceFingerprint option"

text \<open>The history service reads files and its cache table; it reports no error.\<close>

record AgentHistoryServiceLike =
  hv_ResolveCompactHistory ::
    "AgentHistoryLookupInput \<Rightarrow> AgentHistoryResolveOptions \<Rightarrow> world \<Rightarrow> AgentHistoryResolved \<times> world"
  hv_SafeAllowedSessionPath :: "string \<Rightarrow> world \<Rightarrow> string"
  hv_SafeOfficialSessionPath :: "string \<Rightarrow> world \<Rightarrow> string"
  hv_SessionPathAllowedByShape :: "string \<Rightarrow> bool"
  hv_StatSourceFingerprint :: "string \<Rightarrow> world \<Rightarrow> AgentHistorySourceFingerprint option"
  hv_HistorySourceFromSessionRef :: "AgentSessionRef \<Rightarrow> string"

subsection \<open>The state\<close>

record planProgressTracker =
  pt_firstSeenAt :: int
  pt_lastProgressFingerprint :: string
  pt_stallAttempts :: int

text \<open>
  \<open>x_settledHistory\<close> is the value a wait wrote through the pointer of its caller's history.
  A waiter controller is a number; \<open>x_aborted\<close> holds those whose channel is closed. A waiting
  history timer keeps the delay and the arguments of its callback. \<open>x_published\<close> collects what
  \<open>onAgentEvent\<close> was called with.
\<close>

record index_state =
  x_world :: world
  x_occupiedFingerprintByAgent :: "string \<rightharpoonup> string"
  x_activeWaiters :: "(string \<times> nat) list"
  x_aborted :: "nat set"
  x_controllers :: nat
  x_shutdownAborted :: bool
  x_emptyTurnAlertPanes :: "string set"
  x_guardWindowSaturatedAgents :: "string set"
  x_salvageWindowSaturatedKeys :: "string set"
  x_mutationEpochBySession :: "string \<Rightarrow> int"
  x_pendingPiSessionRefs :: "string \<rightharpoonup> AgentSessionRef"
  x_waitingHistoryTimers :: "int \<rightharpoonup> int \<times> StatusEventPlan"
  x_planProgressTrackers :: "int \<rightharpoonup> planProgressTracker"
  x_planWindowTrackers :: "int \<rightharpoonup> int"
  x_settledHistory :: "CompactAgentHistory option"
  x_published :: "AgentEventRecord list"
  x_waits :: nat

record AgentIndexService =
  iv_history :: AgentHistoryServiceLike
  iv_config :: StatusPlansConfig
  iv_maxWorkingPlanWaitMs :: int
  iv_meanwhile :: "nat \<Rightarrow> index_state \<Rightarrow> index_state"
  iv_waitForSignal :: "(WaitForSignalInput \<Rightarrow> index_state \<Rightarrow> TurnCompletionWaitResult \<times> index_state) option"
  iv_openClient :: "string \<Rightarrow> index_state \<Rightarrow> go_error option"
  iv_sessionSnapshot :: "string \<Rightarrow> index_state \<Rightarrow> (go_error + jval) \<times> index_state"
  iv_fileExists :: "string \<Rightarrow> index_state \<Rightarrow> bool"
  iv_driverText :: string
  iv_constraintText :: string

type_synonym 'a ix = "(index_state, go_error, 'a) act"

subsection \<open>Actions of the service\<close>

text \<open>A method of a store runs on the \<open>world\<close> inside the state.\<close>

definition db :: "'a op \<Rightarrow> 'a ix" where
  "db m s = (case m (x_world s) of (r, w) \<Rightarrow> (r, s\<lparr>x_world := w\<rparr>))"

text \<open>\<open>if err != nil\<close> sees the errors a method returned, not a panic.\<close>

definition is_panic :: "go_error \<Rightarrow> bool" where
  "is_panic e = (case e of ErrPanic _ \<Rightarrow> True | _ \<Rightarrow> False)"

definition try_err :: "'a ix \<Rightarrow> (go_error + 'a) ix" where
  "try_err m = catch_act (bind_act m (\<lambda>a. return_act (Inr a)))
     (\<lambda>e. if is_panic e then fail_act e else return_act (Inl e))"

definition clock_now :: "int ix" where
  "clock_now = read_act (\<lambda>s. w_wall (x_world s))"

definition error_text :: "AgentIndexService \<Rightarrow> go_error \<Rightarrow> string" where
  "error_text sv e =
     (case e of ErrText text \<Rightarrow> text | ErrDriver \<Rightarrow> iv_driverText sv
      | ErrConstraint \<Rightarrow> iv_constraintText sv | ErrAck _ message \<Rightarrow> message
      | ErrPlanWaiting \<Rightarrow> PlanWaitingHistory | ErrPanic text \<Rightarrow> text)"

definition nil_dereference :: go_error where
  "nil_dereference = ErrPanic ''invalid memory address or nil pointer dereference''"

definition is_aborted :: "nat \<Rightarrow> bool ix" where
  "is_aborted controller = read_act (\<lambda>s. controller \<in> x_aborted s)"

text \<open>
  \<open>s.sleep(ms, controller.Done())\<close>: others run; the clock has moved on by \<open>ms\<close> unless the signal
  fired. A controller that is aborted stays aborted. \<open>pause\<close> is a wait without a lower bound.
\<close>

definition pause :: "AgentIndexService \<Rightarrow> unit ix" where
  "pause sv = modify_act (\<lambda>s. (iv_meanwhile sv (x_waits s) s)
     \<lparr>x_waits := Suc (x_waits s), x_aborted := x_aborted s \<union> x_aborted (iv_meanwhile sv (x_waits s) s)\<rparr>)"

definition advance_clock :: "int \<Rightarrow> world \<Rightarrow> world" where
  "advance_clock t w = w\<lparr>w_wall := max t (w_wall w)\<rparr>"

definition sleep_ms :: "AgentIndexService \<Rightarrow> int \<Rightarrow> nat \<Rightarrow> unit ix" where
  "sleep_ms sv ms controller =
     bind_act clock_now (\<lambda>start.
     bind_act (pause sv) (\<lambda>_.
     bind_act (is_aborted controller) (\<lambda>fired.
       if fired then return_act ()
       else modify_act (\<lambda>s. s\<lparr>x_world := advance_clock (start + ms) (x_world s)\<rparr>))))"

subsection \<open>Waiters and epochs\<close>

definition newWaiterController :: "nat ix" where
  "newWaiterController =
     bind_act (read_act x_controllers) (\<lambda>c.
     bind_act (modify_act (\<lambda>s. s\<lparr>x_controllers := Suc c\<rparr>)) (\<lambda>_. return_act c))"

definition registerActiveWaiter :: "AgentIndexRecord \<Rightarrow> nat \<Rightarrow> unit ix" where
  "registerActiveWaiter agent controller = modify_act (\<lambda>s.
     s\<lparr>x_aborted := (if x_shutdownAborted s then insert controller (x_aborted s) else x_aborted s),
       x_activeWaiters := (waiterKey agent, controller) # x_activeWaiters s\<rparr>)"

definition unregisterWaiter :: "AgentIndexRecord \<Rightarrow> nat \<Rightarrow> unit ix" where
  "unregisterWaiter agent controller = modify_act (\<lambda>s.
     s\<lparr>x_activeWaiters := filter (\<lambda>kc. kc \<noteq> (waiterKey agent, controller)) (x_activeWaiters s)\<rparr>)"

definition waiter_matches :: "string \<Rightarrow> string \<Rightarrow> string option \<Rightarrow> string \<times> nat \<Rightarrow> bool" where
  "waiter_matches session paneID generation kc =
     (case splitWaiterKey (fst kc) of (s, p, g) \<Rightarrow>
        s = session \<and> p = paneID \<and> (generation = None \<or> g = [] \<or> generation = Some g))"

definition abortPendingWaiters :: "string \<Rightarrow> string \<Rightarrow> string option \<Rightarrow> unit ix" where
  "abortPendingWaiters session paneID generation = modify_act (\<lambda>s.
     s\<lparr>x_aborted := x_aborted s
         \<union> snd ` set (filter (waiter_matches session paneID generation) (x_activeWaiters s)),
       x_activeWaiters := filter (\<lambda>kc. \<not> waiter_matches session paneID generation kc) (x_activeWaiters s)\<rparr>)"

definition AbortPendingWaits :: "unit ix" where
  "AbortPendingWaits = modify_act (\<lambda>s.
     s\<lparr>x_aborted := x_aborted s \<union> snd ` set (x_activeWaiters s), x_activeWaiters := []\<rparr>)"

definition incrementMutationEpoch :: "string \<Rightarrow> unit ix" where
  "incrementMutationEpoch session = modify_act (\<lambda>s.
     s\<lparr>x_mutationEpochBySession := (x_mutationEpochBySession s)(session := x_mutationEpochBySession s session + 1)\<rparr>)"

definition mutation_epoch :: "string \<Rightarrow> int ix" where
  "mutation_epoch session = read_act (\<lambda>s. x_mutationEpochBySession s session)"

text \<open>A shutdown leaves the pane alive, so the plan must stay retryable.\<close>

definition throwIfShutdownAbort :: "nat \<Rightarrow> unit ix" where
  "throwIfShutdownAbort controller s =
     (if controller \<in> x_aborted s \<and> x_shutdownAborted s then (Inl ErrPlanWaiting, s) else (Inr (), s))"

definition isPaneClosedFor :: "AgentIndexRecord \<Rightarrow> bool ix" where
  "isPaneClosedFor agent =
     db (IsPaneClosed (a_HerdrSessionName agent) (a_PaneGeneration agent) (a_PaneID agent))"

definition abortedOrPaneClosed :: "AgentIndexRecord \<Rightarrow> nat \<Rightarrow> bool ix" where
  "abortedOrPaneClosed agent controller =
     bind_act (is_aborted controller) (\<lambda>fired. if fired then return_act True else isPaneClosedFor agent)"

definition find_by_pane_of :: "AgentIndexRecord \<Rightarrow> AgentIndexRecord option ix" where
  "find_by_pane_of agent =
     db (FindByPane (a_HerdrSessionName agent) (a_PaneGeneration agent) (a_PaneID agent))"

subsection \<open>Lifting relations on the tables\<close>

text \<open>
  A service action is along \<open>Q\<close> when the committed tables move along \<open>Q\<close>, whatever it did to the
  rest of its state. Outside a wait that holds of a lifted store operation when it is \<open>durable\<close>.
\<close>

definition x_durable :: "(tables \<Rightarrow> tables \<Rightarrow> bool) \<Rightarrow> index_state \<Rightarrow> index_state \<Rightarrow> bool" where
  "x_durable Q s s' \<longleftrightarrow> durable Q (x_world s) (x_world s')"

lemma moves_db: "moves (durable Q) m \<Longrightarrow> moves (x_durable Q) (db m)"
  by (auto simp: moves_def x_durable_def db_def split: prod.split) (metis snd_conv)

lemma db_Inr: "db m s = (Inr a, s') \<longleftrightarrow> (\<exists>w. m (x_world s) = (Inr a, w) \<and> s' = s\<lparr>x_world := w\<rparr>)"
  by (auto simp: db_def split: prod.split)

lemma db_Inl: "db m s = (Inl e, s') \<longleftrightarrow> (\<exists>w. m (x_world s) = (Inl e, w) \<and> s' = s\<lparr>x_world := w\<rparr>)"
  by (auto simp: db_def split: prod.split)

end
