(* ===== verification/ContextService.thy ===== *)
theory ContextService
  imports IndexState
begin

text \<open>
  \<open>AgentContextService\<close> of \<open>observability/agent_context_service.go\<close>: which history file an agent's
  context is read from, when a persisted reference may be reused, and the snapshot that is stored.
  The history service is the interface \<open>AgentHistoryServiceLike\<close>. Two compact histories are the
  same when their JSON texts are; for texts in valid UTF-8 that is equality of the records.
\<close>

record RefreshAgentContextInput =
  rc_Agent :: AgentIndexRecord
  rc_IdentityChanged :: bool
  rc_ForceRefresh :: "bool option"
  rc_OccupiedSessionPaths :: "string list"

record RefreshAgentContextResult =
  rs_Changed :: bool
  rs_Snapshot :: AgentContextSnapshotRecord

record AgentListItem =
  li_Agent :: AgentIndexRecord
  li_LastAssistantMessage :: "AgentHistoryExcerpt option"
  li_LastUserMessage :: "AgentHistoryExcerpt option"
  li_Source :: "string option"
  li_UpdatedAt :: "string option"

record AgentWorkspaceContextSnapshot =
  aw_Scope :: AgentScope
  aw_Agents :: "AgentListItem list"
  aw_UpdatedAt :: int

subsection \<open>References\<close>

definition historyLookup :: "AgentIndexRecord \<Rightarrow> AgentHistoryLookupInput" where
  "historyLookup agent =
     \<lparr>hl_Agent = a_Agent agent, hl_AgentSession = a_AgentSession agent,
      hl_HerdrSessionName = a_HerdrSessionName agent, hl_PaneID = a_PaneID agent\<rparr>"

text \<open>The official session path, when it is readable and allowed.\<close>

definition pathHistoryRefFromAgent ::
    "AgentHistoryServiceLike \<Rightarrow> world \<Rightarrow> AgentIndexRecord \<Rightarrow> AgentHistoryRef option" where
  "pathHistoryRefFromAgent hv w agent =
     (case a_AgentSession agent of None \<Rightarrow> None
      | Some session \<Rightarrow>
        if sr_Kind session \<noteq> SessionRefPath then None
        else let path = hv_SafeOfficialSessionPath hv (sr_Value session) w
          in if path = [] then None
             else Some \<lparr>hr_Kind = HistoryRefAgentSession, hr_Path = Some path,
               hr_Source = hv_HistorySourceFromSessionRef hv session, hr_Value = sr_Value session\<rparr>)"

definition matchingAuthoritativeIdRef ::
    "AgentHistoryServiceLike \<Rightarrow> AgentIndexRecord \<Rightarrow> AgentHistoryRef option \<Rightarrow> AgentHistoryRef option" where
  "matchingAuthoritativeIdRef hv agent previous =
     (case (a_AgentSession agent, previous) of
        (Some session, Some ref) \<Rightarrow>
          if sr_Kind session \<noteq> SessionRefID \<or> hr_Kind ref \<noteq> HistoryRefAgentSession \<or> hr_Path ref = None
            \<or> hr_Source ref \<noteq> hv_HistorySourceFromSessionRef hv session \<or> hr_Value ref \<noteq> sr_Value session
          then None else Some ref
      | _ \<Rightarrow> None)"

text \<open>An agent known by id keeps the path discovery found; the reference names the official id.\<close>

definition bindAuthoritativeId ::
    "AgentHistoryServiceLike \<Rightarrow> AgentIndexRecord \<Rightarrow> AgentHistoryResolved \<Rightarrow> AgentHistoryResolved" where
  "bindAuthoritativeId hv agent outcome =
     (case (a_AgentSession agent, hd_HistoryRef outcome) of
        (Some session, Some ref) \<Rightarrow>
          if sr_Kind session \<noteq> SessionRefID \<or> hr_Path ref = None then outcome
          else let historyRef = \<lparr>hr_Kind = HistoryRefAgentSession, hr_Path = hr_Path ref,
                  hr_Source = hv_HistorySourceFromSessionRef hv session, hr_Value = sr_Value session\<rparr>
            in outcome\<lparr>hd_CompactHistory := (hd_CompactHistory outcome)\<lparr>ch_HistoryRef := Some historyRef\<rparr>,
                 hd_HistoryRef := Some historyRef\<rparr>
      | _ \<Rightarrow> outcome)"

definition selectPreferredRef ::
    "AgentHistoryServiceLike \<Rightarrow> world \<Rightarrow> AgentIndexRecord \<Rightarrow> AgentContextSnapshotRecord option
      \<Rightarrow> AgentHistoryRef option" where
  "selectPreferredRef hv w agent previous =
     (let previousRef = (case previous of None \<Rightarrow> None | Some p \<Rightarrow> ns_HistoryRef p)
      in case pathHistoryRefFromAgent hv w agent of Some ref \<Rightarrow> Some ref
         | None \<Rightarrow> (case matchingAuthoritativeIdRef hv agent previousRef of Some ref \<Rightarrow> Some ref
           | None \<Rightarrow>
             if (case previousRef of None \<Rightarrow> False | Some r \<Rightarrow> hr_Kind r = HistoryRefDiscoveredFile) then None
             else if a_AgentSession agent \<noteq> None then None
             else previousRef))"

definition paneRevisionIncreased :: "int option \<Rightarrow> int option \<Rightarrow> bool" where
  "paneRevisionIncreased current previous =
     (case (current, previous) of (Some c, Some p) \<Rightarrow> p < c | _ \<Rightarrow> False)"

definition paneRevisionDecreased :: "int option \<Rightarrow> int option \<Rightarrow> bool" where
  "paneRevisionDecreased current previous =
     (case (current, previous) of (Some c, Some p) \<Rightarrow> c < p | _ \<Rightarrow> False)"

text \<open>Whether a regular round must ignore the persisted reference and resolve again.\<close>

definition shouldForceDiscovery ::
    "AgentHistoryServiceLike \<Rightarrow> world \<Rightarrow> AgentIndexRecord \<Rightarrow> AgentHistoryRef option \<Rightarrow> bool
      \<Rightarrow> AgentContextSnapshotRecord option \<Rightarrow> bool" where
  "shouldForceDiscovery hv w agent directAuthoritativeRef identityChanged previous =
     (if directAuthoritativeRef \<noteq> None then False
      else if (case a_AgentSession agent of None \<Rightarrow> False | Some ses \<Rightarrow> sr_Kind ses = SessionRefID) then False
      else (case previous of None \<Rightarrow> False
        | Some p \<Rightarrow>
          if ns_HistoryRef p = None then False
          else if identityChanged then True
          else if paneRevisionDecreased (a_PaneRevision agent) (ns_PaneRevision p) then True
          else if \<not> paneRevisionIncreased (a_PaneRevision agent) (ns_PaneRevision p) then False
          else (case ns_SourceFingerprint p of None \<Rightarrow> True
            | Some fingerprint \<Rightarrow>
              (case hv_StatSourceFingerprint hv (fp_Path fingerprint) w of None \<Rightarrow> True
               | Some current \<Rightarrow> fingerprint = current))))"

subsection \<open>Occupied paths\<close>

definition session_path_of :: "AgentIndexRecord \<Rightarrow> string list" where
  "session_path_of agent =
     (case a_AgentSession agent of None \<Rightarrow> []
      | Some session \<Rightarrow> if sr_Kind session = SessionRefPath then [sr_Value session] else [])"

definition snapshot_path_of :: "AgentContextSnapshotRecord \<Rightarrow> string list" where
  "snapshot_path_of snapshot =
     (case ns_HistoryRef snapshot of None \<Rightarrow> []
      | Some ref \<Rightarrow> (case hr_Path ref of None \<Rightarrow> [] | Some path \<Rightarrow> [path]))"

text \<open>The paths the agent must not claim, as a list that stands for Go's set.\<close>

definition occupiedForAgent :: "AgentIndexRecord \<Rightarrow> string list op" where
  "occupiedForAgent agent =
     bind_act (ListForHerdrSession (a_HerdrSessionName agent)) (\<lambda>all.
     let others = filter (\<lambda>c. a_ID c \<noteq> a_ID agent) all
     in bind_act (ListByAgentIds (map a_ID others)) (\<lambda>snapshots.
        return_act (concat (map session_path_of others) @ concat (map snapshot_path_of snapshots))))"

definition OccupiedSessionPathsFor :: "AgentIndexRecord \<Rightarrow> string list ix" where
  "OccupiedSessionPathsFor agent = db (occupiedForAgent agent)"

definition fingerprintOccupied :: "string list \<Rightarrow> string" where
  "fingerprintOccupied paths = join_with [nul] (sort (remdups paths))"

subsection \<open>Refreshing one agent\<close>

definition snapshot_input ::
    "AgentIndexRecord \<Rightarrow> AgentHistoryResolved \<Rightarrow> AgentContextSnapshotInput" where
  "snapshot_input agent outcome =
     \<lparr>ni_AgentID = a_ID agent, ni_CompactHistory = hd_CompactHistory outcome,
      ni_HistoryRef = hd_HistoryRef outcome, ni_PaneRevision = a_PaneRevision agent,
      ni_SourceFingerprint = hd_SourceFingerprint outcome\<rparr>"

definition sameSnapshotPayload :: "AgentContextSnapshotRecord \<Rightarrow> AgentContextSnapshotInput \<Rightarrow> bool" where
  "sameSnapshotPayload previous next \<longleftrightarrow>
     ns_CompactHistory previous = ni_CompactHistory next \<and> ns_HistoryRef previous = ni_HistoryRef next
     \<and> ns_SourceFingerprint previous = ni_SourceFingerprint next
     \<and> ns_PaneRevision previous = ni_PaneRevision next"

definition inMemorySnapshot :: "AgentContextSnapshotInput \<Rightarrow> int \<Rightarrow> AgentContextSnapshotRecord" where
  "inMemorySnapshot next t =
     \<lparr>ns_AgentID = ni_AgentID next, ns_CompactHistory = ni_CompactHistory next,
      ns_HistoryRef = ni_HistoryRef next, ns_PaneRevision = ni_PaneRevision next,
      ns_SourceFingerprint = ni_SourceFingerprint next, ns_UpdatedAt = t\<rparr>"

text \<open>The foreign key is the only constraint the snapshot write can fail on.\<close>

definition isForeignKeyConstraintError :: "go_error \<Rightarrow> bool" where
  "isForeignKeyConstraintError e \<longleftrightarrow> e = ErrConstraint"

definition remember_occupied :: "string \<Rightarrow> string list \<Rightarrow> bool ix" where
  "remember_occupied agentID occupied s =
     (let fingerprint = fingerprintOccupied occupied;
          changed = (case x_occupiedFingerprintByAgent s agentID of None \<Rightarrow> False
            | Some prior \<Rightarrow> prior \<noteq> fingerprint)
      in (Inr changed, s\<lparr>x_occupiedFingerprintByAgent :=
            (x_occupiedFingerprintByAgent s)(agentID \<mapsto> fingerprint)\<rparr>))"

definition resolve_history ::
    "AgentHistoryServiceLike \<Rightarrow> AgentHistoryLookupInput \<Rightarrow> AgentHistoryResolveOptions \<Rightarrow> AgentHistoryResolved op" where
  "resolve_history hv lookup options w =
     (case hv_ResolveCompactHistory hv lookup options w of (outcome, w') \<Rightarrow> (Inr outcome, w'))"

text \<open>Storing what was resolved; an agent whose row is gone gets a snapshot in memory only.\<close>

definition store_snapshot :: "AgentContextSnapshotInput \<Rightarrow> RefreshAgentContextResult op" where
  "store_snapshot next =
     (let inMemory = bind_act wall_clock (\<lambda>t.
            return_act \<lparr>rs_Changed = True, rs_Snapshot = inMemorySnapshot next t\<rparr>)
      in bind_act (agent_Exists (ni_AgentID next)) (\<lambda>agentExists.
         if \<not> agentExists then inMemory
         else catch_act
           (bind_act (snapshot_Put next) (\<lambda>snapshot.
              return_act \<lparr>rs_Changed = True, rs_Snapshot = snapshot\<rparr>))
           (\<lambda>e. if isForeignKeyConstraintError e then inMemory else fail_act e)))"

definition resolve_options ::
    "AgentHistoryServiceLike \<Rightarrow> RefreshAgentContextInput \<Rightarrow> AgentContextSnapshotRecord option \<Rightarrow> bool
      \<Rightarrow> world \<Rightarrow> AgentHistoryResolveOptions" where
  "resolve_options hv input previous occupiedChanged w =
     (let agent = rc_Agent input
      in \<lparr>ho_ForceDiscovery = rc_ForceRefresh input = Some True
            \<or> shouldForceDiscovery hv w agent (pathHistoryRefFromAgent hv w agent)
                (rc_IdentityChanged input \<or> occupiedChanged) previous,
          ho_ForceRefresh = rc_ForceRefresh input,
          ho_PreferredRef = selectPreferredRef hv w agent previous\<rparr>)"

definition RefreshAgent :: "AgentIndexService \<Rightarrow> RefreshAgentContextInput \<Rightarrow> RefreshAgentContextResult ix" where
  "RefreshAgent sv input =
     (let agent = rc_Agent input; hv = iv_history sv
      in bind_act (db (snapshot_Get (a_ID agent))) (\<lambda>previous.
         bind_act (db (occupiedForAgent agent)) (\<lambda>occupied.
         bind_act (remember_occupied (a_ID agent) (occupied @ rc_OccupiedSessionPaths input)) (\<lambda>occupiedChanged.
         bind_act (read_act (\<lambda>s. resolve_options hv input previous occupiedChanged (x_world s))) (\<lambda>options.
         bind_act (db (resolve_history hv (historyLookup agent) options)) (\<lambda>found.
         let next = snapshot_input agent (bindAuthoritativeId hv agent found)
         in case previous of
              Some p \<Rightarrow> if sameSnapshotPayload p next
                then return_act \<lparr>rs_Changed = False, rs_Snapshot = p\<rparr>
                else db (store_snapshot next)
            | None \<Rightarrow> db (store_snapshot next)))))))"

definition GetAgentSnapshot :: "string \<Rightarrow> AgentContextSnapshotRecord option ix" where
  "GetAgentSnapshot agentID = db (snapshot_Get agentID)"

text \<open>The refreshes of the index service: a forced one, and its compact history.\<close>

definition force_refresh :: "AgentIndexService \<Rightarrow> AgentIndexRecord \<Rightarrow> RefreshAgentContextResult ix" where
  "force_refresh sv agent = RefreshAgent sv
     \<lparr>rc_Agent = agent, rc_IdentityChanged = False, rc_ForceRefresh = Some True, rc_OccupiedSessionPaths = []\<rparr>"

definition refreshedCompactHistory :: "AgentIndexService \<Rightarrow> AgentIndexRecord \<Rightarrow> CompactAgentHistory ix" where
  "refreshedCompactHistory sv agent =
     bind_act (force_refresh sv agent) (\<lambda>result. return_act (ns_CompactHistory (rs_Snapshot result)))"

subsection \<open>Listing\<close>

definition listItem :: "AgentIndexRecord \<Rightarrow> CompactAgentHistory option \<Rightarrow> AgentListItem" where
  "listItem agent compactHistory =
     (case compactHistory of
        None \<Rightarrow> \<lparr>li_Agent = agent, li_LastAssistantMessage = None, li_LastUserMessage = None,
                 li_Source = None, li_UpdatedAt = None\<rparr>
      | Some h \<Rightarrow> \<lparr>li_Agent = agent, li_LastAssistantMessage = ch_LastAssistantMessage h,
                 li_LastUserMessage = ch_LastUserMessage h, li_Source = ch_Source h,
                 li_UpdatedAt = ch_UpdatedAt h\<rparr>)"

definition list_items :: "AgentIndexRecord list \<Rightarrow> AgentContextSnapshotRecord list \<Rightarrow> AgentListItem list" where
  "list_items peers snapshots = map (\<lambda>agent. listItem agent
     (map_option ns_CompactHistory (find (\<lambda>n. ns_AgentID n = a_ID agent) (rev snapshots)))) peers"

definition ListAgents :: "AgentQueryScope \<Rightarrow> AgentListItem list ix" where
  "ListAgents scope =
     bind_act (db (List_agents scope)) (\<lambda>all.
     bind_act (db (ListByAgentIds (map a_ID all))) (\<lambda>snapshots.
     return_act (list_items all snapshots)))"

definition WorkspaceSnapshot :: "AgentScope \<Rightarrow> string \<Rightarrow> AgentWorkspaceContextSnapshot option ix" where
  "WorkspaceSnapshot scope excludeTerminalID =
     bind_act (db (List_agents \<lparr>q_All = None, q_HerdrSessionName = Some (s_HerdrSessionName scope),
       q_WorkspaceID = Some (s_WorkspaceID scope)\<rparr>)) (\<lambda>all.
     let peers = filter (\<lambda>a. a_TerminalID a \<noteq> Some excludeTerminalID) all
     in bind_act (db (ListByAgentIds (map a_ID peers))) (\<lambda>snapshots.
        if snapshots = [] then return_act None
        else return_act (Some \<lparr>aw_Scope = scope, aw_Agents = list_items peers snapshots,
          aw_UpdatedAt = Max (set (map ns_UpdatedAt snapshots))\<rparr>)))"

end
