(* ===== verification/IndexPlans.thy ===== *)
theory IndexPlans
  imports ContextService
begin

text \<open>
  The plan half of the index service (\<open>observability/agent_index_plans.go\<close>), up to the run of a
  plan: the live agent of a plan, the retry decision with its stall detection, the retry timer, the
  events that record how a plan ended, the salvage of a plan whose agent is gone, and the replay of
  a late completion. The stores are all present, as the daemon builds the service; log lines are
  left out.
\<close>

subsection \<open>Bookkeeping\<close>

text \<open>\<open>clearRetry\<close> stops the timer, which is then no longer in the map.\<close>

definition clearWaitingTimer :: "int \<Rightarrow> bool \<Rightarrow> unit ix" where
  "clearWaitingTimer planID keepTracker = modify_act (\<lambda>s.
     let s1 = s\<lparr>x_waitingHistoryTimers := (x_waitingHistoryTimers s)(planID := None)\<rparr>
     in if keepTracker then s1
        else s1\<lparr>x_planProgressTrackers := (x_planProgressTrackers s)(planID := None),
             x_planWindowTrackers := (x_planWindowTrackers s)(planID := None)\<rparr>)"

definition drop_trackers :: "int \<Rightarrow> unit ix" where
  "drop_trackers planID = modify_act (\<lambda>s.
     s\<lparr>x_planProgressTrackers := (x_planProgressTrackers s)(planID := None),
       x_planWindowTrackers := (x_planWindowTrackers s)(planID := None)\<rparr>)"

definition StopWaitingHistoryRetries :: "unit ix" where
  "StopWaitingHistoryRetries = modify_act (\<lambda>s.
     s\<lparr>x_waitingHistoryTimers := Map.empty, x_planProgressTrackers := Map.empty,
       x_planWindowTrackers := Map.empty\<rparr>)"

definition publishPlanEvent :: "AgentEventRecord option \<Rightarrow> unit ix" where
  "publishPlanEvent event =
     (case event of None \<Rightarrow> return_act ()
      | Some e \<Rightarrow> if e_Type e \<notin> set ValidAgentEventTypes then return_act ()
          else modify_act (\<lambda>s. s\<lparr>x_published := x_published s @ [e]\<rparr>))"

text \<open>One alert per pane until the pane produces a body; the alert itself is a log line.\<close>

definition noteEmptyTurnAlert :: "string \<Rightarrow> string option \<Rightarrow> unit ix" where
  "noteEmptyTurnAlert session paneID = modify_act (\<lambda>s.
     s\<lparr>x_emptyTurnAlertPanes := insert (emptyTurnAlertKey session paneID) (x_emptyTurnAlertPanes s)\<rparr>)"

definition noteGuardWindowSaturated :: "string \<Rightarrow> string \<Rightarrow> unit ix" where
  "noteGuardWindowSaturated agentID session = modify_act (\<lambda>s.
     s\<lparr>x_guardWindowSaturatedAgents := insert (agentID @ [nul] @ session) (x_guardWindowSaturatedAgents s)\<rparr>)"

definition noteSalvageWindowSaturated :: "string \<Rightarrow> string \<Rightarrow> unit ix" where
  "noteSalvageWindowSaturated session paneID = modify_act (\<lambda>s.
     s\<lparr>x_salvageWindowSaturatedKeys := insert (session @ [nul] @ paneID) (x_salvageWindowSaturatedKeys s)\<rparr>)"

definition logDegradedRelease :: "StatusEventPlan \<Rightarrow> unit ix" where
  "logDegradedRelease plan =
     noteEmptyTurnAlert (a_HerdrSessionName (sp_Agent plan)) (Some (a_PaneID (sp_Agent plan)))"

definition findLiveAgent :: "AgentIndexRecord \<Rightarrow> AgentIndexRecord option ix" where
  "findLiveAgent agent =
     bind_act (try_err (isPaneClosedFor agent)) (\<lambda>closed.
     if closed = Inr True then return_act None
     else bind_act (try_err (find_by_pane_of agent)) (\<lambda>byPane. case byPane of
         Inr (Some a) \<Rightarrow> return_act (Some a)
       | _ \<Rightarrow> bind_act (try_err (db (agent_Get (a_ID agent)))) (\<lambda>found. case found of
           Inl _ \<Rightarrow> return_act None
         | Inr a \<Rightarrow> return_act (Some a))))"

text \<open>The reference of the last completed turn; an error counts as none.\<close>

definition latest_completed_ref :: "string \<Rightarrow> string \<Rightarrow> string ix" where
  "latest_completed_ref agentID session =
     bind_act (try_err (db (LatestCompletedTurnEvent agentID session))) (\<lambda>r. case r of
         Inl _ \<Rightarrow> return_act []
       | Inr event \<Rightarrow> return_act (assistant_ref (compactHistoryOf event)))"

subsection \<open>The retry decision\<close>

record planRowOptions =
  ro_AllowWorkingExemption :: "bool option"
  ro_IsDrain :: bool

definition working_exemption :: "planRowOptions option \<Rightarrow> bool" where
  "working_exemption options =
     (case options of None \<Rightarrow> True
      | Some ro \<Rightarrow> (case ro_AllowWorkingExemption ro of Some b \<Rightarrow> b | None \<Rightarrow> \<not> ro_IsDrain ro))"

definition plan_agent_kind :: "StatusEventPlan \<Rightarrow> AgentIndexRecord option \<Rightarrow> string" where
  "plan_agent_kind plan live =
     (case live of
        Some a \<Rightarrow> (case a_Agent a of Some k \<Rightarrow> k | None \<Rightarrow> stringOrEmpty (a_Agent (sp_Agent plan)))
      | None \<Rightarrow> stringOrEmpty (a_Agent (sp_Agent plan)))"

definition idle_or_done_status :: "AgentStatus \<Rightarrow> bool" where
  "idle_or_done_status st \<longleftrightarrow> st = AgentStatusIdle \<or> st = AgentStatusDone"

text \<open>An antigravity agent that works, or reports idle without a new assistant message.\<close>

definition is_live_working ::
    "bool \<Rightarrow> StatusEventPlan \<Rightarrow> AgentIndexRecord option \<Rightarrow> CompactAgentHistory option \<Rightarrow> bool" where
  "is_live_working exempt plan live history \<longleftrightarrow>
     exempt \<and> is_antigravity (plan_agent_kind plan live) history
     \<and> (case live of None \<Rightarrow> False | Some a \<Rightarrow> a_AgentStatus a = AgentStatusWorking)"

definition is_suspected_false_idle ::
    "bool \<Rightarrow> StatusEventPlan \<Rightarrow> AgentIndexRecord option \<Rightarrow> CompactAgentHistory option \<Rightarrow> string \<Rightarrow> bool" where
  "is_suspected_false_idle exempt plan live history latestDeliveredRef \<longleftrightarrow>
     exempt \<and> is_antigravity (plan_agent_kind plan live) history
     \<and> (idle_or_done_status (sp_To plan)
        \<or> (case live of None \<Rightarrow> False | Some a \<Rightarrow> idle_or_done_status (a_AgentStatus a)))
     \<and> \<not> (assistant_ref history \<noteq> [] \<and> assistant_ref history \<noteq> latestDeliveredRef)"

text \<open>The start of the idle window, remembered on first use and moved while the agent works.\<close>

definition track_window :: "int \<Rightarrow> int \<Rightarrow> bool \<Rightarrow> int \<Rightarrow> int ix" where
  "track_window planID planCreatedAtMs liveWorking t s =
     (let remembered = (case x_planWindowTrackers s planID of
            Some started \<Rightarrow> started
          | None \<Rightarrow> if planCreatedAtMs = 0 then t else planCreatedAtMs);
          started = (if liveWorking then t else remembered)
      in (Inr started, s\<lparr>x_planWindowTrackers := (x_planWindowTrackers s)(planID \<mapsto> started)\<rparr>))"

definition next_tracker :: "planProgressTracker option \<Rightarrow> string \<Rightarrow> int \<Rightarrow> planProgressTracker" where
  "next_tracker tracker fingerprint t =
     (case tracker of
        None \<Rightarrow> \<lparr>pt_firstSeenAt = t, pt_lastProgressFingerprint = fingerprint, pt_stallAttempts = 0\<rparr>
      | Some pt \<Rightarrow>
        if pt_lastProgressFingerprint pt \<noteq> fingerprint
        then pt\<lparr>pt_lastProgressFingerprint := fingerprint, pt_stallAttempts := 0\<rparr>
        else pt\<lparr>pt_stallAttempts := pt_stallAttempts pt + 1\<rparr>)"

text \<open>Whether the plan has stalled: too many rounds without progress, or too long in total.\<close>

definition track_progress :: "AgentIndexService \<Rightarrow> int \<Rightarrow> bool \<Rightarrow> string \<Rightarrow> int \<Rightarrow> bool ix" where
  "track_progress sv planID targetWorking fingerprint t s =
     (if targetWorking
      then let tracker = next_tracker (x_planProgressTrackers s planID) fingerprint t
        in (Inr (WORKING_PLAN_MAX_STALL_ATTEMPTS \<le> pt_stallAttempts tracker
               \<or> iv_maxWorkingPlanWaitMs sv \<le> t - pt_firstSeenAt tracker),
            s\<lparr>x_planProgressTrackers := (x_planProgressTrackers s)(planID \<mapsto> tracker)\<rparr>)
      else (Inr False, s\<lparr>x_planProgressTrackers := (x_planProgressTrackers s)(planID := None)\<rparr>))"

definition markPlanRetry ::
    "AgentIndexService \<Rightarrow> int \<Rightarrow> StatusEventPlan \<Rightarrow> go_error \<Rightarrow> CompactAgentHistory option
      \<Rightarrow> planRowOptions option \<Rightarrow> StatusEventPlanRecord option ix" where
  "markPlanRetry sv planID plan retryError history options =
     (let exempt = working_exemption options; agent = sp_Agent plan
      in bind_act (findLiveAgent agent) (\<lambda>live.
         bind_act (latest_completed_ref (a_ID agent) (a_HerdrSessionName agent)) (\<lambda>latestDeliveredRef.
         bind_act (db (plan_Get planID)) (\<lambda>currentPlan.
         bind_act clock_now (\<lambda>t.
         let liveWorking = is_live_working exempt plan live history
         in bind_act (track_window planID (pl_CreatedAtMs currentPlan) liveWorking t) (\<lambda>started.
         let elapsedIdleMs = max 0 (t - started);
             windowMs = trunc_int (pc_TotalWindowMs (iv_config sv));
             windowExpired = windowMs \<le> elapsedIdleMs;
             targetWorking = liveWorking
               \<or> (is_suspected_false_idle exempt plan live history latestDeliveredRef \<and> \<not> windowExpired)
         in bind_act (track_progress sv planID targetWorking (computeProgressFingerprint live history) t)
            (\<lambda>stallDetected.
         bind_act (db (MarkRetry planID (Some (error_text sv retryError))
             (Some \<lparr>mo_IsTargetWorking = targetWorking, mo_IsWindowExpired = windowExpired,
               mo_MaxAttempts = 0, mo_StallDetected = stallDetected, mo_TotalWindowMs = Some windowMs\<rparr>)))
            (\<lambda>updated. case updated of
                None \<Rightarrow> return_act None
              | Some u \<Rightarrow> if isTerminalPlanStatus (pl_Status u)
                  then bind_act (drop_trackers planID) (\<lambda>_. return_act (Some u))
                  else return_act (Some u)))))))))"

text \<open>Only a genuine wait for the history arms the retry timer.\<close>

definition retryRingAuthorized :: "go_error \<Rightarrow> bool" where
  "retryRingAuthorized e \<longleftrightarrow> e = ErrPlanWaiting"

definition scheduleWaitingHistoryRetry :: "AgentIndexService \<Rightarrow> int \<Rightarrow> StatusEventPlan \<Rightarrow> unit ix" where
  "scheduleWaitingHistoryRetry sv planID plan =
     bind_act (clearWaitingTimer planID True) (\<lambda>_.
     bind_act (try_err (db (plan_Get planID))) (\<lambda>current.
     let attempts = (case current of Inl _ \<Rightarrow> 1 | Inr p \<Rightarrow> pl_Attempts p)
     in modify_act (\<lambda>s. s\<lparr>x_waitingHistoryTimers := (x_waitingHistoryTimers s)
          (planID \<mapsto> (computeBackoffMs (iv_config sv) attempts, plan))\<rparr>)))"

definition rearm_if_waiting :: "AgentIndexService \<Rightarrow> int \<Rightarrow> StatusEventPlan \<Rightarrow> go_error \<Rightarrow> unit ix" where
  "rearm_if_waiting sv planID plan retryError =
     (if retryRingAuthorized retryError then scheduleWaitingHistoryRetry sv planID plan else return_act ())"

text \<open>A plan that was degraded before stays degraded; otherwise the given error counts.\<close>

definition retry_error_of :: "string option \<Rightarrow> go_error \<Rightarrow> go_error" where
  "retry_error_of lastError err =
     (if lastError = Some DegradedPlanError then ErrText DegradedPlanError else err)"

subsection \<open>Events for the outcome of a plan\<close>

text \<open>A failed append is logged and returns no event.\<close>

definition appendAndAckSelfEvent :: "AppendAgentEventInput \<Rightarrow> AgentEventRecord option ix" where
  "appendAndAckSelfEvent input =
     bind_act (if HasNonEmptyAssistantMessage (i_CompactHistory input)
       then modify_act (\<lambda>s. s\<lparr>x_emptyTurnAlertPanes := x_emptyTurnAlertPanes s
              - {emptyTurnAlertKey (i_HerdrSessionName input) (i_PaneID input)}\<rparr>)
       else return_act ()) (\<lambda>_.
     bind_act (try_err (db (Append input))) (\<lambda>appended. case appended of
         Inl _ \<Rightarrow> return_act None
       | Inr event \<Rightarrow>
         bind_act (try_err (db (scope_Get \<lparr>s_HerdrSessionName = i_HerdrSessionName input,
             s_WorkspaceID = stringOrEmpty (i_WorkspaceID input)\<rparr>))) (\<lambda>owner.
         let selfOwned = (case owner of
               Inr (Some st) \<Rightarrow> (case os_Owner st of
                   Some ow \<Rightarrow> o_PaneID ow \<noteq> [] \<and> o_PaneID ow = stringOrEmpty (i_PaneID input)
                 | None \<Rightarrow> False)
             | _ \<Rightarrow> False)
         in if \<not> selfOwned then return_act (Some event)
            else bind_act (try_err (db (MarkAcked (e_ID event) None))) (\<lambda>acked. case acked of
                Inl _ \<Rightarrow> return_act (Some event)
              | Inr _ \<Rightarrow> bind_act (try_err (db (get_event (e_ID event)))) (\<lambda>again. case again of
                  Inl _ \<Rightarrow> return_act (Some event)
                | Inr e \<Rightarrow> return_act (Some e))))))"

text \<open>An agent reduced to what its events and plans remember.\<close>

definition minimal_agent ::
    "string \<Rightarrow> string \<Rightarrow> string \<Rightarrow> string option \<Rightarrow> string option \<Rightarrow> string \<Rightarrow> AgentIndexRecord" where
  "minimal_agent agentID session paneID generation terminalID workspaceID =
     \<lparr>a_Agent = None, a_AgentSession = None, a_AgentStatus = AgentStatusUnknown, a_Cwd = None,
      a_FirstSeenAt = 0, a_Focused = False, a_ForegroundCwd = None, a_HerdrSessionName = session,
      a_ID = agentID, a_LastSeenAt = 0, a_Name = None, a_PaneID = paneID, a_TerminalTitle = None,
      a_PaneRevision = None, a_PaneGeneration = generation, a_TabID = None, a_TerminalID = terminalID,
      a_WorkspaceID = workspaceID\<rparr>"

definition minimalAgentFromLatestEvent ::
    "string \<Rightarrow> int \<Rightarrow> string \<Rightarrow> string option \<Rightarrow> string \<Rightarrow> AgentIndexRecord option ix" where
  "minimalAgentFromLatestEvent agentID createdBeforeMs session generation paneID =
     bind_act (try_err (db (LatestPaneEventScope session paneID generation createdBeforeMs))) (\<lambda>r. case r of
         Inr (Some latest) \<Rightarrow>
           (case (ls_PaneID latest, ls_WorkspaceID latest) of
              (Some pane, Some workspace) \<Rightarrow>
                if pane = [] \<or> workspace = [] then return_act None
                else return_act (Some (minimal_agent agentID
                  (if ls_HerdrSessionName latest \<noteq> [] then ls_HerdrSessionName latest else session)
                  pane (ls_PaneGeneration latest) (ls_TerminalID latest) workspace))
            | _ \<Rightarrow> return_act None)
       | _ \<Rightarrow> return_act None)"

text \<open>The agent an outcome is recorded for, and whether its row is present.\<close>

definition resolvePlanOutcomeAgent :: "AgentIndexRecord \<Rightarrow> int option \<Rightarrow> (AgentIndexRecord \<times> bool) ix" where
  "resolvePlanOutcomeAgent agent planCreatedAtMs =
     bind_act (try_err (db (agent_Get (a_ID agent)))) (\<lambda>live. case live of
         Inr a \<Rightarrow> return_act (a, True)
       | Inl _ \<Rightarrow>
         bind_act (case planCreatedAtMs of Some c \<Rightarrow> return_act c | None \<Rightarrow> clock_now) (\<lambda>createdBefore.
         bind_act (minimalAgentFromLatestEvent (a_ID agent) createdBefore (a_HerdrSessionName agent)
           (a_PaneGeneration agent) (a_PaneID agent)) (\<lambda>stitched.
         return_act (case stitched of None \<Rightarrow> (agent, False) | Some a \<Rightarrow> (a, False)))))"

record appendPlanOutcomeInput =
  po_Agent :: AgentIndexRecord
  po_Attempts :: int
  po_CompactHistory :: "CompactAgentHistory option"
  po_FallbackOutcome :: "bool option"
  po_From :: AgentStatus
  po_PlanCreatedAtMs :: int
  po_PlanID :: int
  po_Reason :: "string option"
  po_To :: AgentStatus

definition agentIDOrNil :: "bool \<Rightarrow> string \<Rightarrow> string option" where
  "agentIDOrNil present agentID = (if present then Some agentID else None)"

text \<open>The payload both kinds of outcome share; the failed one leaves the plan id out.\<close>

definition outcome_payload ::
    "(string \<Rightarrow> string option) \<Rightarrow> appendPlanOutcomeInput \<Rightarrow> AgentIndexRecord \<Rightarrow> bool \<Rightarrow> string
      \<Rightarrow> (string \<times> jval) list" where
  "outcome_payload evalSymlinks input agent fallbackOutcome reason =
     [(''agent'', jopt (a_Agent agent)), (''agentId'', JStr (a_ID (po_Agent input))),
      (''attempts'', JNum (of_int (po_Attempts input))), (''fallbackOutcome'', JBool fallbackOutcome),
      (''from'', JStr (agent_status_text (po_From input))),
      (''herdrSessionName'', JStr (a_HerdrSessionName agent)), (''name'', jopt (a_Name agent)),
      (''paneId'', JStr (a_PaneID agent)), (''reason'', JStr reason),
      (''terminalId'', jopt (a_TerminalID agent)), (''to'', JStr (agent_status_text (po_To input))),
      (''workspaceId'', JStr (a_WorkspaceID agent)),
      (''interactive'', JBool (IsInteractivePiAgent evalSymlinks (Some agent)))]"

definition outcome_event ::
    "AgentEventType \<Rightarrow> string \<Rightarrow> appendPlanOutcomeInput \<Rightarrow> AgentIndexRecord \<Rightarrow> bool \<Rightarrow> (string \<times> jval) list
      \<Rightarrow> AppendAgentEventInput" where
  "outcome_event eventType prefixText input agent present pl =
     \<lparr>i_AgentID = agentIDOrNil present (a_ID agent), i_CompactHistory = po_CompactHistory input,
      i_HerdrSessionName = a_HerdrSessionName agent,
      i_IdempotencyKey = Some (prefixText @ FormatInt (po_PlanID input)),
      i_PaneID = Some (a_PaneID agent), i_PaneGeneration = a_PaneGeneration agent,
      i_Payload = JObj pl, i_TerminalID = a_TerminalID agent, i_Type = eventType,
      i_WorkspaceID = Some (a_WorkspaceID agent)\<rparr>"

definition failed_key :: "int \<Rightarrow> string" where
  "failed_key planID = ''agent.failed:plan:'' @ FormatInt planID"

definition discarded_key :: "int \<Rightarrow> string" where
  "discarded_key planID = ''agent.discarded:plan:'' @ FormatInt planID"

definition eval_symlinks :: "(string \<Rightarrow> string option) ix" where
  "eval_symlinks = read_act (\<lambda>s. w_evalSymlinks (x_world s))"

text \<open>A degraded plan without any assistant text is not recorded as a failure of the agent.\<close>

definition appendPlanFailedEvent :: "appendPlanOutcomeInput \<Rightarrow> AgentEventRecord option ix" where
  "appendPlanFailedEvent input =
     (if po_Reason input = Some DegradedPlanError \<and> \<not> HasNonEmptyAssistantMessage (po_CompactHistory input)
      then bind_act (noteEmptyTurnAlert (a_HerdrSessionName (po_Agent input)) (Some (a_PaneID (po_Agent input))))
        (\<lambda>_. return_act None)
      else
        bind_act (resolvePlanOutcomeAgent (po_Agent input) (Some (po_PlanCreatedAtMs input))) (\<lambda>(agent, present).
        bind_act eval_symlinks (\<lambda>symlinks.
        let fallbackOutcome = (case po_FallbackOutcome input of Some b \<Rightarrow> b
              | None \<Rightarrow> (po_To input = AgentStatusDone \<or> po_To input = AgentStatusBlocked)
                  \<and> po_Reason input = Some DegradedPlanError);
            reason = (case po_Reason input of None \<Rightarrow> ''unknown'' | Some r \<Rightarrow> r)
        in appendAndAckSelfEvent (outcome_event AgentEventFailed ''agent.failed:plan:'' input agent present
             (outcome_payload symlinks input agent fallbackOutcome reason)))))"

text \<open>The log line after the append reads the id of the event, also when there is none.\<close>

definition appendPlanDiscardedEvent :: "appendPlanOutcomeInput \<Rightarrow> AgentEventRecord option ix" where
  "appendPlanDiscardedEvent input =
     bind_act (resolvePlanOutcomeAgent (po_Agent input) (Some (po_PlanCreatedAtMs input))) (\<lambda>(agent, present).
     bind_act eval_symlinks (\<lambda>symlinks.
     let reason = stringOrEmpty (po_Reason input);
         fallbackOutcome = (reason \<in> set StalledPlanErrors)
     in bind_act (appendAndAckSelfEvent (outcome_event AgentEventDiscarded ''agent.discarded:plan:'' input agent present
          (outcome_payload symlinks input agent fallbackOutcome reason
             @ [(''planId'', JNum (of_int (po_PlanID input)))]))) (\<lambda>event. case event of
            None \<Rightarrow> fail_act nil_dereference
          | Some e \<Rightarrow> return_act (Some e))))"

text \<open>What the drain, the retry ring and the run of a plan append for an updated plan row.\<close>

definition outcome_input ::
    "AgentIndexRecord \<Rightarrow> StatusEventPlanRecord \<Rightarrow> CompactAgentHistory option \<Rightarrow> AgentStatus \<Rightarrow> AgentStatus
      \<Rightarrow> int \<Rightarrow> int \<Rightarrow> appendPlanOutcomeInput" where
  "outcome_input agent updated history from to planCreatedAtMs planID =
     \<lparr>po_Agent = agent, po_Attempts = pl_Attempts updated, po_CompactHistory = history,
      po_FallbackOutcome = None, po_From = from, po_PlanCreatedAtMs = planCreatedAtMs, po_PlanID = planID,
      po_Reason = pl_LastError updated, po_To = to\<rparr>"

end
