(* ===== verification/IndexSalvage.thy ===== *)
theory IndexSalvage
  imports IndexPlans
begin

text \<open>
  Recovering results that would be lost (\<open>observability/agent_index_plans.go\<close>): the replay of an
  answer that lands after its plan was discarded, the salvage of a plan whose agent is gone, and
  the backfill of outcome events for settled plans without one.
\<close>

subsection \<open>Late completions\<close>

text \<open>
  An agent is stalled when its newest discarded plan timed out and nothing completed after it. An
  error of a read counts as not found.
\<close>

definition completed_after_discard :: "StalledDiscardPlanRow \<Rightarrow> AgentEventRecord \<Rightarrow> bool ix" where
  "completed_after_discard discard completed =
     bind_act (try_err (db (EventIDByIdempotencyKey (discarded_key (sd_ID discard))))) (\<lambda>found. case found of
         Inr (Some discardEventID) \<Rightarrow> return_act (discardEventID < e_ID completed)
       | _ \<Rightarrow> return_act (sd_UpdatedAtMs discard \<le> e_CreatedAt completed))"

definition isAgentStalled :: "string \<Rightarrow> string \<Rightarrow> bool ix" where
  "isAgentStalled agentID session =
     bind_act (try_err (db (LatestStalledDiscard agentID session))) (\<lambda>latest. case latest of
         Inr (Some discard) \<Rightarrow>
           bind_act (try_err (db (HasCompletedPlanAfter agentID session (sd_ID discard)))) (\<lambda>laterPlan.
           if laterPlan = Inr True then return_act False
           else bind_act (try_err (db (LatestCompletedTurnEvent agentID session))) (\<lambda>completed. case completed of
               Inr (Some e) \<Rightarrow> bind_act (completed_after_discard discard e) (\<lambda>settled. return_act (\<not> settled))
             | _ \<Rightarrow> return_act True))
       | _ \<Rightarrow> return_act False)"

definition late_completion_input ::
    "(string \<Rightarrow> string option) \<Rightarrow> AgentIndexRecord \<Rightarrow> CompactAgentHistory \<Rightarrow> AppendAgentEventInput" where
  "late_completion_input symlinks agent history =
     (let targetStatus = (if a_AgentStatus agent = AgentStatusDone then AgentStatusDone else AgentStatusIdle)
      in \<lparr>i_AgentID = Some (a_ID agent), i_CompactHistory = Some history,
          i_HerdrSessionName = a_HerdrSessionName agent,
          i_IdempotencyKey = Some (''agent.late_completed:'' @ a_ID agent @ '':'' @ assistant_ref (Some history)),
          i_PaneID = Some (a_PaneID agent), i_PaneGeneration = a_PaneGeneration agent,
          i_Payload = JObj (put_key ''lateCompletion'' (JBool True)
            (put_key ''from'' (JStr (agent_status_text AgentStatusWorking))
              (payload symlinks agent AgentStatusWorking targetStatus))),
          i_TerminalID = a_TerminalID agent,
          i_Type = (case statusEventType targetStatus of Some ty \<Rightarrow> ty | None \<Rightarrow> AgentEventIdle),
          i_WorkspaceID = Some (a_WorkspaceID agent)\<rparr>)"

definition reconcileLateCompletion ::
    "AgentIndexRecord \<Rightarrow> CompactAgentHistory option \<Rightarrow> AgentEventRecord option ix" where
  "reconcileLateCompletion agent compactHistory =
     (if \<not> idle_or_done_status (a_AgentStatus agent) then return_act None
      else (case compactHistory of None \<Rightarrow> return_act None
        | Some history \<Rightarrow>
          if \<not> HasNonEmptyAssistantMessage (Some history) then return_act None
          else bind_act (isAgentStalled (a_ID agent) (a_HerdrSessionName agent)) (\<lambda>stalled.
            if \<not> stalled \<or> assistant_ref (Some history) = [] then return_act None
            else bind_act (latest_completed_ref (a_ID agent) (a_HerdrSessionName agent)) (\<lambda>latestRef.
              if assistant_ref (Some history) = latestRef then return_act None
              else bind_act eval_symlinks (\<lambda>symlinks.
                appendAndAckSelfEvent (late_completion_input symlinks agent history))))))"

subsection \<open>Salvage\<close>

definition alreadyDelivered ::
    "(string option \<times> CompactAgentHistory option) list \<Rightarrow> CompactAgentHistory option \<Rightarrow> bool" where
  "alreadyDelivered delivered body \<longleftrightarrow>
     body \<noteq> None
     \<and> (\<exists>other \<in> set delivered. sameTerminalAssistantContent body (snd other)
          (case delivered of [] \<Rightarrow> None | d # _ \<Rightarrow> fst d))"

definition deliverable_body ::
    "(string option \<times> CompactAgentHistory option) list \<Rightarrow> CompactAgentHistory option \<Rightarrow> bool" where
  "deliverable_body delivered body \<longleftrightarrow>
     isTerminalAssistant body \<and> HasNonEmptyAssistantMessage body \<and> \<not> alreadyDelivered delivered body"

text \<open>The plan's own body, else the newest one of the pane that was never attempted.\<close>

definition choose_body ::
    "(CompactAgentHistory option \<times> int) list \<Rightarrow> (string option \<times> CompactAgentHistory option) list
      \<Rightarrow> CompactAgentHistory option \<Rightarrow> CompactAgentHistory option" where
  "choose_body recorded delivered planBody =
     (if deliverable_body delivered planBody then planBody
      else (case find (\<lambda>c. snd c = 0 \<and> deliverable_body delivered (fst c)) recorded of
          None \<Rightarrow> None | Some c \<Rightarrow> fst c))"

definition salvageableTerminalBody :: "StatusEventPlanRecord \<Rightarrow> CompactAgentHistory option ix" where
  "salvageableTerminalBody row =
     bind_act (try_err (db (PaneEventTail (pl_HerdrSessionName row) (pl_PaneID row) (pl_PaneGeneration row)
         (pl_CreatedAtMs row) 20))) (\<lambda>tail. case tail of
         Inl _ \<Rightarrow> return_act None
       | Inr recorded \<Rightarrow>
         bind_act (try_err (db (PaneDeliveredTerminalBodies (pl_HerdrSessionName row) (pl_PaneID row)
             (pl_PaneGeneration row) (pl_CreatedAtMs row) STALE_DUPLICATE_GUARD_SCAN_LIMIT))) (\<lambda>window.
           case window of
             Inl _ \<Rightarrow> return_act None
           | Inr delivered \<Rightarrow>
             bind_act (if STALE_DUPLICATE_GUARD_SCAN_LIMIT \<le> int (length delivered)
               then noteSalvageWindowSaturated (pl_HerdrSessionName row) (pl_PaneID row)
               else return_act ()) (\<lambda>_.
             return_act (choose_body recorded delivered (pl_CompactHistory row)))))"

definition orphan_agent :: "StatusEventPlanRecord \<Rightarrow> AgentIndexRecord" where
  "orphan_agent row = minimal_agent (pl_AgentID row) (pl_HerdrSessionName row) (pl_PaneID row)
     (pl_PaneGeneration row) None []"

definition orphanScopeDeliverable :: "AgentIndexRecord \<Rightarrow> int \<Rightarrow> bool ix" where
  "orphanScopeDeliverable orphanAgent planCreatedAtMs =
     bind_act (resolvePlanOutcomeAgent orphanAgent (Some planCreatedAtMs)) (\<lambda>(agent, present).
       return_act (a_TerminalID agent \<noteq> None \<and> a_WorkspaceID agent \<noteq> []))"

definition salvageOrphanTerminalEvent :: "StatusEventPlanRecord \<Rightarrow> AgentEventRecord option ix" where
  "salvageOrphanTerminalEvent row =
     bind_act (salvageableTerminalBody row) (\<lambda>body. case body of
         None \<Rightarrow> return_act None
       | Some h \<Rightarrow>
         bind_act (orphanScopeDeliverable (orphan_agent row) (pl_CreatedAtMs row)) (\<lambda>deliverable.
         if \<not> deliverable then return_act None
         else appendPlanFailedEvent
           \<lparr>po_Agent = orphan_agent row, po_Attempts = pl_Attempts row, po_CompactHistory = Some h,
            po_FallbackOutcome = None, po_From = pl_FromStatus row, po_PlanCreatedAtMs = pl_CreatedAtMs row,
            po_PlanID = pl_ID row, po_Reason = Some ORPHAN_SALVAGE_REASON, po_To = pl_ToStatus row\<rparr>))"

text \<open>
  The recovered closure: a panic of the salvage leaves no event. The salvaged event counts only
  when its plan could be marked completed; otherwise the plan is cancelled.
\<close>

definition salvage_and_complete :: "StatusEventPlanRecord \<Rightarrow> AgentEventRecord option ix" where
  "salvage_and_complete row =
     catch_act (bind_act (salvageOrphanTerminalEvent row) (\<lambda>salvaged. case salvaged of
         None \<Rightarrow> return_act None
       | Some event \<Rightarrow>
         bind_act (try_err (db (MarkCompleted (pl_ID row)))) (\<lambda>marked. case marked of
             Inl _ \<Rightarrow> return_act None
           | Inr _ \<Rightarrow> return_act (Some event))))
       (\<lambda>_. return_act None)"

definition salvageOrCancelMissingAgentPlan :: "StatusEventPlanRecord \<Rightarrow> AgentEventRecord option ix" where
  "salvageOrCancelMissingAgentPlan row =
     bind_act (drop_trackers (pl_ID row)) (\<lambda>_.
     bind_act (salvage_and_complete row) (\<lambda>salvaged. case salvaged of
         Some event \<Rightarrow> return_act (Some event)
       | None \<Rightarrow> bind_act (try_err (db (MarkCancelled (pl_ID row)))) (\<lambda>_. return_act None)))"

definition salvage_and_publish :: "StatusEventPlanRecord \<Rightarrow> unit ix" where
  "salvage_and_publish row =
     bind_act (salvageOrCancelMissingAgentPlan row) (\<lambda>salvaged. publishPlanEvent salvaged)"

subsection \<open>Backfill\<close>

definition resolveBackfillAgent :: "StatusEventPlanRecord \<Rightarrow> AgentIndexRecord option ix" where
  "resolveBackfillAgent row =
     bind_act (try_err (db (agent_Get (pl_AgentID row)))) (\<lambda>found. case found of
         Inr a \<Rightarrow> return_act (Some a)
       | Inl _ \<Rightarrow> minimalAgentFromLatestEvent (pl_AgentID row) (pl_CreatedAtMs row)
           (pl_HerdrSessionName row) (pl_PaneGeneration row) (pl_PaneID row))"

definition backfill_input :: "AgentIndexRecord \<Rightarrow> StatusEventPlanRecord \<Rightarrow> appendPlanOutcomeInput" where
  "backfill_input agent row =
     outcome_input agent row (pl_CompactHistory row) (pl_FromStatus row) (pl_ToStatus row)
       (pl_CreatedAtMs row) (pl_ID row)"

text \<open>The rows that still need an outcome event, with the agent to record it for.\<close>

definition backfill_agent :: "string \<Rightarrow> StatusEventPlanRecord \<Rightarrow> AgentIndexRecord option ix" where
  "backfill_agent key row =
     bind_act (try_err (db (PlanOutcomeEventExists (pl_HerdrSessionName row) key))) (\<lambda>existing.
     if existing \<noteq> Inr False then return_act None else resolveBackfillAgent row)"

definition backfill_failed_row :: "StatusEventPlanRecord \<Rightarrow> unit ix" where
  "backfill_failed_row row =
     (if pl_LastError row = Some PlanWaitingHistory then return_act ()
      else bind_act (backfill_agent (failed_key (pl_ID row)) row) (\<lambda>agent. case agent of
          None \<Rightarrow> return_act ()
        | Some a \<Rightarrow>
          bind_act (appendPlanFailedEvent (backfill_input a row)) (\<lambda>event. case event of
              None \<Rightarrow> return_act ()
            | Some e \<Rightarrow> bind_act (try_err (db (MarkAcked (e_ID e) None))) (\<lambda>_. return_act ()))))"

definition backfillFailedPlanEvents :: "unit ix" where
  "backfillFailedPlanEvents = bind_act (db ListFailed) (\<lambda>rows. for_each rows backfill_failed_row)"

definition backfill_discarded_row :: "StatusEventPlanRecord \<Rightarrow> unit ix" where
  "backfill_discarded_row row =
     bind_act (backfill_agent (discarded_key (pl_ID row)) row) (\<lambda>agent. case agent of
         None \<Rightarrow> return_act ()
       | Some a \<Rightarrow>
         bind_act (appendPlanDiscardedEvent (backfill_input a row)) (\<lambda>event. case event of
             None \<Rightarrow> fail_act nil_dereference
           | Some e \<Rightarrow> bind_act (try_err (db (MarkAcked (e_ID e) None))) (\<lambda>_. return_act ())))"

definition backfillDiscardedPlanEvents :: "unit ix" where
  "backfillDiscardedPlanEvents = bind_act (db ListDiscarded) (\<lambda>rows. for_each rows backfill_discarded_row)"

end
