(* ===== verification/IndexEvents.thy ===== *)
theory IndexEvents
  imports IndexSalvage
begin

text \<open>
  \<open>appendStatusEvents\<close> of \<open>observability/agent_index_events.go\<close>: whether a status transition
  becomes an event, which history it carries, and whether the result is marked as degraded. The
  method is split where its phases meet; a phase ends the method (\<open>Inl\<close> its result) or hands its
  value to the next one (\<open>Inr\<close>). The result is the event, if any, and whether the agent's row was
  gone (\<open>cancelled\<close>).
\<close>

type_synonym append_result = "AgentEventRecord option \<times> bool"

definition skipped :: append_result where "skipped = (None, False)"

definition bind_phase :: "('r + 'a) ix \<Rightarrow> ('a \<Rightarrow> ('r + 'b) ix) \<Rightarrow> ('r + 'b) ix" where
  "bind_phase m k = bind_act m (\<lambda>r. case r of Inl res \<Rightarrow> return_act (Inl res) | Inr a \<Rightarrow> k a)"

text \<open>The repeated exit: a shutdown makes the plan wait, anything else skips it.\<close>

definition abort_exit :: "nat \<Rightarrow> (append_result + 'a) ix" where
  "abort_exit controller = bind_act (throwIfShutdownAbort controller) (\<lambda>_. return_act (Inl skipped))"

definition unless_aborted :: "AgentIndexRecord \<Rightarrow> nat \<Rightarrow> (append_result + 'a) ix \<Rightarrow> (append_result + 'a) ix" where
  "unless_aborted agent controller m =
     bind_act (abortedOrPaneClosed agent controller) (\<lambda>stop. if stop then abort_exit controller else m)"

datatype DegradedReason =
  DegradedReasonExpectedTextMismatch | DegradedReasonNoAdvanceFromInput
  | DegradedReasonNonTerminalAssistant | DegradedReasonStaleBaselineDup

fun degraded_reason_text :: "DegradedReason \<Rightarrow> string" where
  "degraded_reason_text DegradedReasonExpectedTextMismatch = ''expected_text_mismatch''"
| "degraded_reason_text DegradedReasonNoAdvanceFromInput = ''no_advance_from_input''"
| "degraded_reason_text DegradedReasonNonTerminalAssistant = ''non_terminal_assistant''"
| "degraded_reason_text DegradedReasonStaleBaselineDup = ''stale_baseline_duplicate''"

subsection \<open>Duplicates\<close>

definition attempts_of :: "StatusEventPlan \<Rightarrow> int" where
  "attempts_of input = (case sp_Attempts input of None \<Rightarrow> 0 | Some n \<Rightarrow> n)"

definition plan_kind :: "StatusEventPlan \<Rightarrow> string" where
  "plan_kind input = stringOrEmpty (a_Agent (sp_Agent input))"

definition legacy_duplicate :: "StatusEventPlan \<Rightarrow> (append_result + bool) ix" where
  "legacy_duplicate input =
     (let agent = sp_Agent input;
          isAgyHistory = is_antigravity (plan_kind input) (sp_CompactHistory input)
      in bind_act (db (if isAgyHistory then LatestCompletedTurnEvent (a_ID agent) (a_HerdrSessionName agent)
           else LatestTerminalEvent (a_ID agent) (a_HerdrSessionName agent))) (\<lambda>lastTerminal.
         if sameTerminalAssistantContent (sp_CompactHistory input) (compactHistoryOf lastTerminal) (a_Agent agent)
         then if 0 < attempts_of input \<and> \<not> isAgyHistory then fail_act ErrPlanWaiting
           else return_act (Inl skipped)
         else return_act (Inr False)))"

text \<open>A repeated transition ends here, or goes on without a second status-changed event.\<close>

definition duplicate_check :: "StatusEventPlan \<Rightarrow> AgentEventRecord option \<Rightarrow> (append_result + bool) ix" where
  "duplicate_check input latest =
     (let agent = sp_Agent input in
      case latest of None \<Rightarrow> return_act (Inr False)
      | Some e \<Rightarrow>
        if \<not> statusTransitionMatches e (sp_From input) (sp_To input) then return_act (Inr False)
        else bind_act (db (HasTerminalEventAfter (a_ID agent) (a_HerdrSessionName agent) (e_ID e)))
          (\<lambda>hasTerminalAfter.
             if \<not> hasTerminalAfter
             then if statusEventType (sp_To input) = None then return_act (Inl skipped)
               else return_act (Inr True)
             else if sp_HerdrEventKey input = None then legacy_duplicate input
             else return_act (Inr False)))"

subsection \<open>A tool round in flight\<close>

datatype inFlightToolUseResolution =
  inFlightToolUseResolved | inFlightToolUseBackToWorking | inFlightToolUseStillInFlight
  | inFlightToolUseAborted

definition inFlightToolUseGracePollMs :: int where "inFlightToolUseGracePollMs = 500"
definition inFlightToolUseGraceMaxWaitMs :: int where "inFlightToolUseGraceMaxWaitMs = 4000"

text \<open>One round of the poll: the resolution, or \<open>None\<close> after the sleep.\<close>

definition in_flight_round ::
    "AgentIndexService \<Rightarrow> AgentIndexRecord \<Rightarrow> nat \<Rightarrow> int \<Rightarrow> inFlightToolUseResolution option ix" where
  "in_flight_round sv agent controller deadline =
     bind_act (isPaneClosedFor agent) (\<lambda>closed.
     bind_act (is_aborted controller) (\<lambda>fired.
     if closed \<or> fired then return_act (Some inFlightToolUseAborted)
     else bind_act (find_by_pane_of agent) (\<lambda>live. case live of
         None \<Rightarrow> return_act (Some inFlightToolUseAborted)
       | Some a \<Rightarrow>
         if a_AgentStatus a = AgentStatusWorking then return_act (Some inFlightToolUseBackToWorking)
         else bind_act (refreshedCompactHistory sv agent) (\<lambda>fresh.
           if \<not> isInFlightToolUseHistory (Some fresh)
           then bind_act (modify_act (\<lambda>s. s\<lparr>x_settledHistory := Some fresh\<rparr>)) (\<lambda>_.
             return_act (Some inFlightToolUseResolved))
           else bind_act clock_now (\<lambda>t.
             if deadline \<le> t then return_act (Some inFlightToolUseStillInFlight)
             else bind_act (sleep_ms sv (min inFlightToolUseGracePollMs (deadline - t)) controller)
               (\<lambda>_. return_act None))))))"

fun in_flight_rounds ::
    "AgentIndexService \<Rightarrow> nat \<Rightarrow> AgentIndexRecord \<Rightarrow> nat \<Rightarrow> int \<Rightarrow> inFlightToolUseResolution ix" where
  "in_flight_rounds sv 0 agent controller deadline = return_act inFlightToolUseStillInFlight"
| "in_flight_rounds sv (Suc n) agent controller deadline =
     bind_act (in_flight_round sv agent controller deadline) (\<lambda>r. case r of
         Some resolution \<Rightarrow> return_act resolution
       | None \<Rightarrow> in_flight_rounds sv n agent controller deadline)"

text \<open>Ten rounds cover the four seconds in half-second steps.\<close>

definition waitForInFlightToolUseResolution ::
    "AgentIndexService \<Rightarrow> AgentIndexRecord \<Rightarrow> nat \<Rightarrow> inFlightToolUseResolution ix" where
  "waitForInFlightToolUseResolution sv agent controller =
     bind_act clock_now (\<lambda>t.
       in_flight_rounds sv 10 agent controller (t + inFlightToolUseGraceMaxWaitMs))"

text \<open>The phase: the history the event will carry.\<close>

definition tool_use_phase ::
    "AgentIndexService \<Rightarrow> StatusEventPlan \<Rightarrow> nat \<Rightarrow> (append_result + CompactAgentHistory option) ix" where
  "tool_use_phase sv input controller =
     (if sp_To input = AgentStatusIdle \<and> sp_From input = AgentStatusWorking
        \<and> isPiFamilyAgentKind (plan_kind input) \<and> isInFlightToolUseHistory (sp_CompactHistory input)
      then bind_act (waitForInFlightToolUseResolution sv (sp_Agent input) controller) (\<lambda>resolution.
        case resolution of
          inFlightToolUseAborted \<Rightarrow> abort_exit controller
        | inFlightToolUseBackToWorking \<Rightarrow> return_act (Inl skipped)
        | inFlightToolUseStillInFlight \<Rightarrow> return_act (Inr (sp_CompactHistory input))
        | inFlightToolUseResolved \<Rightarrow> bind_act (read_act x_settledHistory) (\<lambda>h. return_act (Inr h)))
      else return_act (Inr (sp_CompactHistory input)))"

subsection \<open>Waiting for the history\<close>

text \<open>Fixed steps of 200 milliseconds, 1500 in total and at most \<open>maxAttempts\<close> of them.\<close>

fun history_rounds ::
    "AgentIndexService \<Rightarrow> nat \<Rightarrow> AgentIndexRecord \<Rightarrow> nat \<Rightarrow> CompactAgentHistory option \<Rightarrow> bool \<Rightarrow> int
      \<Rightarrow> CompactAgentHistory \<Rightarrow> CompactAgentHistory option ix" where
  "history_rounds sv 0 agent controller baseline requireChange start refreshed = return_act (Some refreshed)"
| "history_rounds sv (Suc n) agent controller baseline requireChange start refreshed =
     bind_act (is_aborted controller) (\<lambda>fired.
     bind_act clock_now (\<lambda>t.
     if HistoryHasAdvanced refreshed baseline (Some requireChange) \<or> fired \<or> 1500 \<le> t - start
     then return_act (Some refreshed)
     else bind_act (sleep_ms sv (min 200 (1500 - (t - start))) controller) (\<lambda>_.
       bind_act (is_aborted controller) (\<lambda>cut.
       if cut then fail_act ErrPlanWaiting
       else bind_act (isPaneClosedFor agent) (\<lambda>closed.
         if closed then return_act None
         else bind_act (refreshedCompactHistory sv agent) (\<lambda>next.
           history_rounds sv n agent controller baseline requireChange start next))))))"

definition waitForHistoryAdvance ::
    "AgentIndexService \<Rightarrow> AgentIndexRecord \<Rightarrow> CompactAgentHistory option \<Rightarrow> nat \<Rightarrow> CompactAgentHistory option
      \<Rightarrow> bool \<Rightarrow> CompactAgentHistory option ix" where
  "waitForHistoryAdvance sv agent baseline controller initial requireChange =
     bind_act (case initial of Some h \<Rightarrow> return_act h | None \<Rightarrow> refreshedCompactHistory sv agent) (\<lambda>refreshed.
     bind_act clock_now (\<lambda>start.
       history_rounds sv 8 agent controller baseline requireChange start refreshed))"

subsection \<open>A turn of a pi agent\<close>

type_synonym released = "CompactAgentHistory option \<times> (string \<times> jval) list"

datatype release = Release CompactAgentHistory "(string \<times> jval) list" | Blank DegradedReason

definition stale_false :: "(string \<times> jval) list" where
  "stale_false = [(''staleSnapshot'', JBool False)]"

definition degraded_extra :: "DegradedReason \<Rightarrow> (string \<times> jval) list" where
  "degraded_extra reason =
     [(''degraded'', JBool True), (''degradedReason'', JStr (degraded_reason_text reason)),
      (''staleSnapshot'', JBool False)]"

definition matches_expected :: "string \<Rightarrow> CompactAgentHistory \<Rightarrow> bool" where
  "matches_expected expectedText h \<longleftrightarrow>
     expectedText = [] \<or> suffix expectedText (TrimSpace (assistant_text (Some h)))"

definition stale_duplicate :: "CompactAgentHistory \<Rightarrow> CompactAgentHistory option list \<Rightarrow> bool" where
  "stale_duplicate advanced delivered \<longleftrightarrow>
     (\<exists>h \<in> set delivered. sameTerminalAssistantContent (Some advanced) h (Some ''pi''))"

definition disk_deliverable :: "CompactAgentHistory \<Rightarrow> CompactAgentHistory option list \<Rightarrow> bool" where
  "disk_deliverable advanced delivered \<longleftrightarrow>
     isTerminalAssistant (Some advanced) \<and> HasNonEmptyAssistantMessage (Some advanced)
     \<and> \<not> stale_duplicate advanced delivered"

text \<open>What the disk, the window of delivered results and the expected text make of the round.\<close>

definition release_decision ::
    "bool \<Rightarrow> bool \<Rightarrow> string \<Rightarrow> CompactAgentHistory option \<Rightarrow> CompactAgentHistory \<Rightarrow> CompactAgentHistory option list
      \<Rightarrow> release" where
  "release_decision isRetry confirmed expectedText inputHistory advanced delivered =
     (if \<not> isRetry \<and> \<not> HistoryHasAdvanced advanced inputHistory (Some True)
      then if disk_deliverable advanced delivered \<and> (delivered = [] \<or> confirmed)
        then Release advanced stale_false
        else Blank (if stale_duplicate advanced delivered then DegradedReasonStaleBaselineDup
                    else DegradedReasonNoAdvanceFromInput)
      else if disk_deliverable advanced delivered
        then Release advanced (if matches_expected expectedText advanced then [] else stale_false)
      else if \<not> matches_expected expectedText advanced then Blank DegradedReasonExpectedTextMismatch
      else if \<not> isTerminalAssistant (Some advanced) \<or> \<not> HasNonEmptyAssistantMessage (Some advanced)
        then Blank DegradedReasonNonTerminalAssistant
      else if stale_duplicate advanced delivered then Blank DegradedReasonStaleBaselineDup
      else Release advanced [])"

text \<open>A confirmed turn is released with an emptied body instead of being degraded.\<close>

definition degradeOrRelease :: "StatusEventPlan \<Rightarrow> bool \<Rightarrow> DegradedReason \<Rightarrow> (string \<times> jval) list ix" where
  "degradeOrRelease input confirmed reason =
     bind_act (logDegradedRelease input) (\<lambda>_.
       return_act (if confirmed then stale_false else degraded_extra reason))"

definition apply_release :: "StatusEventPlan \<Rightarrow> bool \<Rightarrow> CompactAgentHistory \<Rightarrow> release \<Rightarrow> released ix" where
  "apply_release input confirmed advanced decision =
     (case decision of
        Release h extra \<Rightarrow> return_act (Some h, extra)
      | Blank reason \<Rightarrow> bind_act (degradeOrRelease input confirmed reason) (\<lambda>extra.
          return_act (Some (blanked advanced), extra)))"

definition late_received ::
    "AgentIndexService \<Rightarrow> StatusEventPlan \<Rightarrow> nat \<Rightarrow> bool \<Rightarrow> CompactAgentHistory option \<Rightarrow> bool \<Rightarrow> string
      \<Rightarrow> CompactAgentHistory \<Rightarrow> (append_result + released) ix" where
  "late_received sv input controller isRetry baseline confirmed expectedText fresh =
     (let agent = sp_Agent input
      in bind_act (waitForHistoryAdvance sv agent baseline controller (Some fresh) isRetry) (\<lambda>advanced.
         case advanced of None \<Rightarrow> return_act (Inl skipped)
         | Some adv \<Rightarrow>
           if isRetry \<and> \<not> HistoryHasAdvanced adv baseline (Some True) then fail_act ErrPlanWaiting
           else bind_act (db (DeliveredTerminalHistories (a_ID agent) (a_HerdrSessionName agent)
               STALE_DUPLICATE_GUARD_SCAN_LIMIT)) (\<lambda>delivered.
             bind_act (if STALE_DUPLICATE_GUARD_SCAN_LIMIT \<le> int (length delivered)
               then noteGuardWindowSaturated (a_ID agent) (a_HerdrSessionName agent) else return_act ()) (\<lambda>_.
             bind_act (apply_release input confirmed adv
               (release_decision isRetry confirmed expectedText (sp_CompactHistory input) adv delivered))
               (\<lambda>rel. return_act (Inr rel))))))"

definition received_turn ::
    "AgentIndexService \<Rightarrow> StatusEventPlan \<Rightarrow> nat \<Rightarrow> bool \<Rightarrow> CompactAgentHistory option \<Rightarrow> bool
      \<Rightarrow> TurnCompletionWaitResult \<Rightarrow> (append_result + released) ix" where
  "received_turn sv input controller isRetry baseline alreadyEmitted turn =
     (let agent = sp_Agent input; confirmed = wr_Confirmed turn;
          expectedText = (if wr_HasExpectedText turn then TrimSpace (wr_ExpectedText turn) else [])
      in bind_act (refreshedCompactHistory sv agent) (\<lambda>fresh.
         bind_act (isPaneClosedFor agent) (\<lambda>closed.
         if closed then return_act (Inl skipped)
         else let settled = isTerminalAssistant (Some fresh) \<and> matches_expected expectedText fresh
                \<and> HasNonEmptyAssistantMessage (Some fresh)
           in if confirmed \<and> settled then return_act (Inr (Some fresh, []))
              else if \<not> alreadyEmitted \<and> settled
                \<and> (isTerminalAssistant (sp_CompactHistory input)
                   \<or> HistoryHasAdvanced fresh (sp_CompactHistory input) None)
              then return_act (Inr (Some fresh, []))
              else late_received sv input controller isRetry baseline confirmed expectedText fresh)))"

definition unsignalled_turn ::
    "AgentIndexService \<Rightarrow> StatusEventPlan \<Rightarrow> nat \<Rightarrow> bool \<Rightarrow> CompactAgentHistory option
      \<Rightarrow> (append_result + released) ix" where
  "unsignalled_turn sv input controller isRetry baseline =
     bind_act (waitForHistoryAdvance sv (sp_Agent input) baseline controller None isRetry) (\<lambda>advanced.
       case advanced of None \<Rightarrow> return_act (Inl skipped)
       | Some adv \<Rightarrow>
         if isRetry \<and> \<not> HistoryHasAdvanced adv baseline (Some True) then fail_act ErrPlanWaiting
         else if \<not> isRetry \<and> \<not> HistoryHasAdvanced adv (sp_CompactHistory input) (Some True)
         then bind_act (logDegradedRelease input) (\<lambda>_.
           return_act (Inr (Some (blanked adv), degraded_extra DegradedReasonNoAdvanceFromInput)))
         else if \<not> isTerminalAssistant (Some adv) \<or> \<not> HasNonEmptyAssistantMessage (Some adv)
         then bind_act (logDegradedRelease input) (\<lambda>_.
           return_act (Inr (Some (blanked adv), degraded_extra DegradedReasonNonTerminalAssistant)))
         else return_act (Inr (Some adv, [])))"

definition turn_wait ::
    "(WaitForSignalInput \<Rightarrow> index_state \<Rightarrow> TurnCompletionWaitResult \<times> index_state) \<Rightarrow> WaitForSignalInput
      \<Rightarrow> TurnCompletionWaitResult ix" where
  "turn_wait wait input s =
     (case wait input s of (r, s') \<Rightarrow> (Inr r, s'\<lparr>x_aborted := x_aborted s \<union> x_aborted s'\<rparr>))"

definition turn_phase ::
    "AgentIndexService \<Rightarrow> (WaitForSignalInput \<Rightarrow> index_state \<Rightarrow> TurnCompletionWaitResult \<times> index_state)
      \<Rightarrow> StatusEventPlan \<Rightarrow> nat \<Rightarrow> string \<Rightarrow> CompactAgentHistory option \<Rightarrow> (append_result + released) ix" where
  "turn_phase sv wait input controller terminalID history =
     (let agent = sp_Agent input; isRetry = 0 < attempts_of input
      in bind_act (db (LatestTerminalEvent (a_ID agent) (a_HerdrSessionName agent))) (\<lambda>latestTerminal.
         let terminalHistory = compactHistoryOf latestTerminal;
             baseline = (if isRetry \<and> terminalHistory \<noteq> None then terminalHistory else sp_CompactHistory input);
             alreadyEmitted = isRetry \<and> terminalHistory \<noteq> None
               \<and> sameTerminalAssistantContent (sp_CompactHistory input) terminalHistory (Some ''pi'')
         in bind_act clock_now (\<lambda>t.
            bind_act (is_aborted controller) (\<lambda>fired.
            bind_act (turn_wait wait \<lparr>wi_HerdrSessionName = a_HerdrSessionName agent, wi_TerminalID = terminalID,
              wi_RecordedAfterMs = t - TurnSignalWaitMs, wi_Aborted = fired\<rparr>) (\<lambda>turn.
            unless_aborted agent controller
              (if wr_Received turn
               then received_turn sv input controller isRetry baseline alreadyEmitted turn
               else bind_act (is_aborted controller) (\<lambda>cut.
                 if cut then return_act (Inr (history, []))
                 else unsignalled_turn sv input controller isRetry baseline)))))))"

end
