(* ===== verification/IndexAppend.thy ===== *)
theory IndexAppend
  imports IndexEvents
begin

text \<open>
  The rest of \<open>appendStatusEvents\<close> (\<open>observability/agent_index_events.go\<close>): the readiness gate of
  agents that are not of the pi family, the append of the events, and the method as a whole.
\<close>

subsection \<open>The readiness gate\<close>

definition isReadyNonPi :: "StatusEventPlan \<Rightarrow> CompactAgentHistory option \<Rightarrow> bool ix" where
  "isReadyNonPi input history =
     (let agent = sp_Agent input in
      if \<not> HasNonEmptyAssistantMessage history then return_act False
      else if is_antigravity (plan_kind input) history
      then bind_act (latest_completed_ref (a_ID agent) (a_HerdrSessionName agent)) (\<lambda>previousRef.
        return_act (assistant_ref history \<noteq> [] \<and> assistant_ref history \<noteq> previousRef))
      else bind_act (try_err (db (LatestTerminalEvent (a_ID agent) (a_HerdrSessionName agent)))) (\<lambda>r. case r of
          Inr (Some e) \<Rightarrow> return_act
            (\<not> sameTerminalAssistantContent history (e_CompactHistory e) (a_Agent agent)
             \<or> assistantRefAndText history \<noteq> assistantRefAndText (e_CompactHistory e))
        | _ \<Rightarrow> return_act True))"

definition isAlreadyDeliveredCompletedTurn :: "StatusEventPlan \<Rightarrow> CompactAgentHistory option \<Rightarrow> bool ix" where
  "isAlreadyDeliveredCompletedTurn input history =
     (if history = None \<or> \<not> is_antigravity (plan_kind input) history \<or> \<not> HasNonEmptyAssistantMessage history
      then return_act False
      else if assistant_ref history = [] then return_act False
      else bind_act (latest_completed_ref (a_ID (sp_Agent input)) (a_HerdrSessionName (sp_Agent input)))
        (\<lambda>ref. return_act (assistant_ref history = ref)))"

definition same_as_terminal :: "StatusEventPlan \<Rightarrow> CompactAgentHistory option \<Rightarrow> AgentEventRecord option \<Rightarrow> bool" where
  "same_as_terminal input history latestTerminal \<longleftrightarrow>
     \<not> is_antigravity (plan_kind input) history \<and> sp_HerdrEventKey input \<noteq> None
     \<and> HasNonEmptyAssistantMessage history
     \<and> (case latestTerminal of None \<Rightarrow> False
        | Some e \<Rightarrow> sameTerminalAssistantContent history (e_CompactHistory e) (a_Agent (sp_Agent input))
            \<and> assistantRefAndText history = assistantRefAndText (e_CompactHistory e))"

text \<open>
  One wait of the gate is a sleep of half a second, cut short by a turn signal where the registry
  and a terminal are present. A failed refresh keeps the history of the round before.
\<close>

definition ready_wait :: "AgentIndexService \<Rightarrow> nat \<Rightarrow> string \<Rightarrow> unit ix" where
  "ready_wait sv controller terminalID =
     (if iv_waitForSignal sv \<noteq> None \<and> terminalID \<noteq> [] then pause sv else sleep_ms sv 500 controller)"

fun ready_rounds ::
    "AgentIndexService \<Rightarrow> nat \<Rightarrow> StatusEventPlan \<Rightarrow> nat \<Rightarrow> string \<Rightarrow> CompactAgentHistory option
      \<Rightarrow> (append_result + CompactAgentHistory option) ix" where
  "ready_rounds sv 0 input controller terminalID history = return_act (Inr history)"
| "ready_rounds sv (Suc n) input controller terminalID history =
     bind_act (ready_wait sv controller terminalID) (\<lambda>_.
     unless_aborted (sp_Agent input) controller
       (bind_act (try_err (refreshedCompactHistory sv (sp_Agent input))) (\<lambda>refreshed.
        let next = (case refreshed of Inl _ \<Rightarrow> history | Inr h \<Rightarrow> Some h)
        in bind_act (isReadyNonPi input next) (\<lambda>ready.
           if ready then return_act (Inr next)
           else ready_rounds sv n input controller terminalID next))))"

definition settle_gate ::
    "StatusEventPlan \<Rightarrow> CompactAgentHistory option \<Rightarrow> (append_result + CompactAgentHistory option) ix" where
  "settle_gate input history =
     bind_act (isReadyNonPi input history) (\<lambda>ready.
     if ready then return_act (Inr history)
     else bind_act (isAlreadyDeliveredCompletedTurn input history) (\<lambda>announced.
       if announced then return_act (Inl skipped) else fail_act ErrPlanWaiting))"

definition ready_phase ::
    "AgentIndexService \<Rightarrow> StatusEventPlan \<Rightarrow> nat \<Rightarrow> string \<Rightarrow> CompactAgentHistory option
      \<Rightarrow> (append_result + CompactAgentHistory option) ix" where
  "ready_phase sv input controller terminalID history =
     bind_act (db (LatestTerminalEvent (a_ID (sp_Agent input)) (a_HerdrSessionName (sp_Agent input))))
       (\<lambda>latestTerminal.
     if same_as_terminal input history latestTerminal then return_act (Inl skipped)
     else bind_act (isReadyNonPi input history) (\<lambda>ready.
       bind_phase (if ready then return_act (Inr history)
           else ready_rounds sv 8 input controller terminalID history) (\<lambda>h.
         settle_gate input h)))"

definition wait_phase ::
    "AgentIndexService \<Rightarrow> StatusEventPlan \<Rightarrow> nat \<Rightarrow> CompactAgentHistory option \<Rightarrow> (append_result + released) ix" where
  "wait_phase sv input controller history =
     (let terminalID = stringOrEmpty (a_TerminalID (sp_Agent input));
          piFamily = isPiFamilyAgentKind (plan_kind input);
          to = sp_To input
      in if (to = AgentStatusDone \<or> to = AgentStatusBlocked) \<and> terminalID \<noteq> [] \<and> piFamily
           \<and> iv_waitForSignal sv \<noteq> None
         then turn_phase sv (the (iv_waitForSignal sv)) input controller terminalID history
         else if \<not> piFamily \<and> (to = AgentStatusIdle \<or> to = AgentStatusDone)
         then bind_phase (ready_phase sv input controller terminalID history) (\<lambda>h. return_act (Inr (h, [])))
         else return_act (Inr (history, [])))"

subsection \<open>Appending\<close>

text \<open>A terminal result survives a later change of the agent's status, a passing one does not.\<close>

definition still_reportable :: "StatusEventPlan \<Rightarrow> AgentIndexRecord \<Rightarrow> bool" where
  "still_reportable input currentAgent \<longleftrightarrow>
     a_AgentStatus currentAgent = sp_To input
     \<or> sp_To input = AgentStatusDone \<or> sp_To input = AgentStatusBlocked
     \<or> (sp_To input = AgentStatusIdle \<and> a_Agent currentAgent = Some ''agy'')"

definition status_event ::
    "StatusEventPlan \<Rightarrow> AgentIndexRecord \<Rightarrow> CompactAgentHistory option \<Rightarrow> (string \<times> jval) list \<Rightarrow> string
      \<Rightarrow> AgentEventType \<Rightarrow> AppendAgentEventInput" where
  "status_event input target history pl observationID eventType =
     \<lparr>i_AgentID = Some (a_ID target), i_CompactHistory = history,
      i_HerdrSessionName = a_HerdrSessionName target,
      i_IdempotencyKey = Some (idempotencyKey eventType target (sp_From input) (sp_To input)
        (observationID @ '':'' @ (case sp_HerdrEventKey input of None \<Rightarrow> ''legacy'' | Some k \<Rightarrow> k)
         @ '':'' @ event_type_text eventType)),
      i_PaneID = Some (a_PaneID target), i_PaneGeneration = a_PaneGeneration target,
      i_Payload = JObj pl, i_TerminalID = a_TerminalID target, i_Type = eventType,
      i_WorkspaceID = Some (a_WorkspaceID target)\<rparr>"

definition append_events ::
    "StatusEventPlan \<Rightarrow> AgentIndexRecord \<Rightarrow> released \<Rightarrow> bool \<Rightarrow> string \<Rightarrow> append_result ix" where
  "append_events input target rel skipStatusChanged observationID =
     bind_act eval_symlinks (\<lambda>symlinks.
     let (history, extra) = rel;
         pl = put_all extra (payload symlinks target (sp_From input) (sp_To input));
         event = status_event input target history pl observationID
     in bind_act (if skipStatusChanged then return_act None
          else appendAndAckSelfEvent (event AgentEventStatusChanged)) (\<lambda>lastEvent.
        case statusEventType (sp_To input) of
          None \<Rightarrow> return_act (lastEvent, False)
        | Some eventType \<Rightarrow> bind_act (appendAndAckSelfEvent (event eventType)) (\<lambda>e.
            return_act (e, False))))"

definition append_phase ::
    "StatusEventPlan \<Rightarrow> nat \<Rightarrow> released \<Rightarrow> bool \<Rightarrow> string \<Rightarrow> (append_result + append_result) ix" where
  "append_phase input controller rel skipStatusChanged observationID =
     unless_aborted (sp_Agent input) controller
       (bind_act (find_by_pane_of (sp_Agent input)) (\<lambda>currentAgent. case currentAgent of
           None \<Rightarrow> return_act (Inl (None, True))
         | Some target \<Rightarrow>
           if \<not> still_reportable input target then return_act (Inl skipped)
           else bind_act (append_events input target rel skipStatusChanged observationID)
             (\<lambda>res. return_act (Inr res))))"

text \<open>The deferred unregistration runs on every exit.\<close>

definition with_waiter :: "AgentIndexRecord \<Rightarrow> (nat \<Rightarrow> 'a ix) \<Rightarrow> 'a ix" where
  "with_waiter agent f =
     bind_act newWaiterController (\<lambda>controller.
     bind_act (registerActiveWaiter agent controller) (\<lambda>_.
     \<lambda>s. case f controller s of (r, s') \<Rightarrow> (r, snd (unregisterWaiter agent controller s'))))"

definition waiting_phases ::
    "AgentIndexService \<Rightarrow> StatusEventPlan \<Rightarrow> bool \<Rightarrow> string \<Rightarrow> nat \<Rightarrow> (append_result + append_result) ix" where
  "waiting_phases sv input skipStatusChanged observationID controller =
     bind_phase (tool_use_phase sv input controller) (\<lambda>history.
     bind_phase (wait_phase sv input controller history) (\<lambda>rel.
     append_phase input controller rel skipStatusChanged observationID))"

definition appendStatusEvents :: "AgentIndexService \<Rightarrow> StatusEventPlan \<Rightarrow> append_result ix" where
  "appendStatusEvents sv input =
     bind_act (modify_act (\<lambda>s. s\<lparr>x_settledHistory := None\<rparr>)) (\<lambda>_.
     bind_act (isPaneClosedFor (sp_Agent input)) (\<lambda>paneClosed.
     if paneClosed then return_act skipped
     else bind_act (db (LatestStatusTransition (a_ID (sp_Agent input)) (a_HerdrSessionName (sp_Agent input))))
       (\<lambda>latest.
     bind_act (bind_phase (duplicate_check input latest) (\<lambda>skipStatusChanged.
         with_waiter (sp_Agent input)
           (waiting_phases sv input skipStatusChanged (''transition:'' @ FormatInt (latestEventID latest)))))
       (\<lambda>r. case r of Inl res \<Rightarrow> return_act res | Inr res \<Rightarrow> return_act res))))"

end
