(* ===== verification/IndexRuns.thy ===== *)
theory IndexRuns
  imports IndexAppend
begin

text \<open>
  The runs of a status event plan (\<open>observability/agent_index_plans.go\<close>): one run of a plan row,
  the retry ring with its timer, the execution of a new plan and the drain at startup and on the
  periodic tick. The tails that run the plans of one agent one after another are implicit: an
  operation is one action.
\<close>

subsection \<open>Settling a retried plan\<close>

text \<open>A settled plan leaves its event; a pending one goes back to the ring if that is authorised.\<close>

definition settle_updated ::
    "AgentIndexService \<Rightarrow> int \<Rightarrow> StatusEventPlan \<Rightarrow> go_error \<Rightarrow> StatusEventPlanRecord \<Rightarrow> appendPlanOutcomeInput
      \<Rightarrow> AgentEventRecord option ix" where
  "settle_updated sv planID plan retryError updated outcome =
     (case pl_Status updated of
        StatusPlanPending \<Rightarrow> bind_act (rearm_if_waiting sv planID plan retryError) (\<lambda>_. return_act None)
      | StatusPlanDiscarded \<Rightarrow>
          bind_act (clearWaitingTimer planID False) (\<lambda>_. appendPlanDiscardedEvent outcome)
      | StatusPlanFailed \<Rightarrow>
          bind_act (clearWaitingTimer planID False) (\<lambda>_. appendPlanFailedEvent outcome)
      | _ \<Rightarrow> return_act None)"

definition row_outcome ::
    "StatusEventPlanRecord \<Rightarrow> StatusEventPlan \<Rightarrow> StatusEventPlanRecord \<Rightarrow> CompactAgentHistory option
      \<Rightarrow> appendPlanOutcomeInput" where
  "row_outcome row plan updated history =
     outcome_input (sp_Agent plan) updated history (pl_FromStatus row) (pl_ToStatus row)
       (pl_CreatedAtMs row) (pl_ID row)"

definition retry_and_settle ::
    "AgentIndexService \<Rightarrow> StatusEventPlanRecord \<Rightarrow> StatusEventPlan \<Rightarrow> go_error \<Rightarrow> CompactAgentHistory option
      \<Rightarrow> planRowOptions option \<Rightarrow> AgentEventRecord option ix" where
  "retry_and_settle sv row plan retryError history options =
     bind_act (markPlanRetry sv (pl_ID row) plan retryError history options) (\<lambda>updated. case updated of
         None \<Rightarrow> bind_act (clearWaitingTimer (pl_ID row) False) (\<lambda>_. return_act None)
       | Some u \<Rightarrow>
         bind_act (if pl_Status u = StatusPlanPending then return_act ()
             else clearWaitingTimer (pl_ID row) False) (\<lambda>_.
         settle_updated sv (pl_ID row) plan retryError u (row_outcome row plan u history)))"

subsection \<open>One run\<close>

definition salvage_closed :: "StatusEventPlanRecord \<Rightarrow> AgentEventRecord option ix" where
  "salvage_closed row =
     bind_act (clearWaitingTimer (pl_ID row) False) (\<lambda>_.
     bind_act (salvage_and_publish row) (\<lambda>_. return_act None))"

text \<open>An error other than a wait: the plan is retried, and a plan left pending returns the error.\<close>

definition generic_failure ::
    "AgentIndexService \<Rightarrow> StatusEventPlanRecord \<Rightarrow> StatusEventPlan \<Rightarrow> go_error \<Rightarrow> CompactAgentHistory option
      \<Rightarrow> planRowOptions option \<Rightarrow> AgentEventRecord option ix" where
  "generic_failure sv row plan appendErr history options =
     bind_act (isPaneClosedFor (sp_Agent plan)) (\<lambda>paneClosed.
     if paneClosed \<or> isAbortText (error_text sv appendErr) then salvage_closed row
     else
       bind_act (clearWaitingTimer (pl_ID row) True) (\<lambda>_.
       bind_act (markPlanRetry sv (pl_ID row) plan (retry_error_of (pl_LastError row) appendErr) history options)
         (\<lambda>updated. case updated of
             None \<Rightarrow> bind_act (clearWaitingTimer (pl_ID row) False) (\<lambda>_. return_act None)
           | Some u \<Rightarrow>
             (case pl_Status u of
                StatusPlanDiscarded \<Rightarrow> bind_act (clearWaitingTimer (pl_ID row) False) (\<lambda>_.
                  appendPlanDiscardedEvent (row_outcome row plan u history))
              | StatusPlanFailed \<Rightarrow> bind_act (clearWaitingTimer (pl_ID row) False) (\<lambda>_.
                  appendPlanFailedEvent (row_outcome row plan u history))
              | _ \<Rightarrow> fail_act appendErr))))"

definition is_degraded :: "AgentEventRecord \<Rightarrow> bool" where
  "is_degraded event \<longleftrightarrow> map_of (asRecord (e_Payload event)) ''degraded'' = Some (JBool True)"

text \<open>An event that was appended: a degraded one is invalidated and its plan retried.\<close>

definition finish_run ::
    "AgentIndexService \<Rightarrow> StatusEventPlanRecord \<Rightarrow> StatusEventPlan \<Rightarrow> CompactAgentHistory option
      \<Rightarrow> planRowOptions option \<Rightarrow> AgentEventRecord option \<Rightarrow> AgentEventRecord option ix" where
  "finish_run sv row plan history options event =
     (case event of
        Some e \<Rightarrow>
          if is_degraded e
          then bind_act (db (InvalidateByID (e_ID e) ''degraded_retry'')) (\<lambda>_.
            bind_act (clearWaitingTimer (pl_ID row) True) (\<lambda>_.
            retry_and_settle sv row plan (ErrText DegradedPlanError) history options))
          else bind_act (clearWaitingTimer (pl_ID row) False) (\<lambda>_.
            bind_act (db (MarkCompleted (pl_ID row))) (\<lambda>_. return_act event))
      | None \<Rightarrow>
          bind_act (isPaneClosedFor (sp_Agent plan)) (\<lambda>paneClosed.
          if paneClosed then salvage_closed row
          else bind_act (clearWaitingTimer (pl_ID row) False) (\<lambda>_.
            bind_act (db (MarkCompleted (pl_ID row))) (\<lambda>_. return_act None))))"

text \<open>
  The append writes a settled history through the pointer it was given. On a first run the caller's
  plan holds the same pointer.
\<close>

definition run_active ::
    "AgentIndexService \<Rightarrow> StatusEventPlanRecord \<Rightarrow> StatusEventPlan \<Rightarrow> StatusEventPlan \<Rightarrow> planRowOptions option
      \<Rightarrow> AgentEventRecord option ix" where
  "run_active sv row plan0 activePlan options =
     bind_act (try_err (appendStatusEvents sv activePlan)) (\<lambda>r.
     bind_act (read_act x_settledHistory) (\<lambda>settled.
     let history = (case settled of None \<Rightarrow> sp_CompactHistory activePlan | Some h \<Rightarrow> Some h);
         plan = (if settled = None \<or> 0 < pl_Attempts row then plan0 else plan0\<lparr>sp_CompactHistory := settled\<rparr>)
     in case r of
          Inl err \<Rightarrow>
            if err = ErrPlanWaiting
            then retry_and_settle sv row plan (retry_error_of (pl_LastError row) err) history options
            else generic_failure sv row plan err history options
        | Inr (event, cancelled) \<Rightarrow>
            if cancelled then salvage_closed row
            else finish_run sv row plan history options event))"

definition runPlanRow ::
    "AgentIndexService \<Rightarrow> StatusEventPlanRecord \<Rightarrow> StatusEventPlan \<Rightarrow> planRowOptions option
      \<Rightarrow> AgentEventRecord option ix" where
  "runPlanRow sv row plan options =
     bind_act (db (plan_Get (pl_ID row))) (\<lambda>current.
     if isTerminalPlanStatus (pl_Status current)
     then bind_act (clearWaitingTimer (pl_ID row) False) (\<lambda>_. return_act None)
     else bind_act (db (MarkRunning (pl_ID row))) (\<lambda>running.
       if \<not> running then bind_act (clearWaitingTimer (pl_ID row) False) (\<lambda>_. return_act None)
       else let activePlan = plan\<lparr>sp_Attempts := Some (pl_Attempts row), sp_PlanID := Some (pl_ID row)\<rparr>
         in if 0 < pl_Attempts row
            then bind_act (try_err (refreshedCompactHistory sv (sp_Agent plan))) (\<lambda>refreshed. case refreshed of
                Inl _ \<Rightarrow> retry_and_settle sv row plan (retry_error_of (pl_LastError row) ErrPlanWaiting)
                  (sp_CompactHistory plan) options
              | Inr h \<Rightarrow> run_active sv row plan (activePlan\<lparr>sp_CompactHistory := Some h\<rparr>) options)
            else run_active sv row plan activePlan options))"

subsection \<open>The retry ring\<close>

definition retryWaitingPlanRow :: "AgentIndexService \<Rightarrow> int \<Rightarrow> StatusEventPlan \<Rightarrow> unit ix" where
  "retryWaitingPlanRow sv planID plan =
     bind_act (try_err (db (plan_Get planID))) (\<lambda>found. case found of
         Inl _ \<Rightarrow> clearWaitingTimer planID False
       | Inr current \<Rightarrow>
         bind_act (try_err (refreshedCompactHistory sv (sp_Agent plan))) (\<lambda>refreshed. case refreshed of
             Inl _ \<Rightarrow>
               bind_act (try_err (db (plan_Get planID))) (\<lambda>again. case again of
                   Inl _ \<Rightarrow> clearWaitingTimer planID False
                 | Inr currentPlan \<Rightarrow>
                   let retryError = retry_error_of (pl_LastError currentPlan) ErrPlanWaiting
                   in bind_act (markPlanRetry sv planID plan retryError (sp_CompactHistory plan) None)
                      (\<lambda>updated. case updated of
                          None \<Rightarrow> clearWaitingTimer planID False
                        | Some u \<Rightarrow> bind_act (settle_updated sv planID plan retryError u
                            (outcome_input (sp_Agent plan) u (sp_CompactHistory plan) (sp_From plan) (sp_To plan)
                              (pl_CreatedAtMs currentPlan) planID)) publishPlanEvent))
           | Inr h \<Rightarrow>
               bind_act (runPlanRow sv current
                 (plan\<lparr>sp_Attempts := Some (pl_Attempts current), sp_CompactHistory := Some h\<rparr>) None)
                 publishPlanEvent))"

text \<open>The callback of a timer that fires. The error of the retry is a log line.\<close>

definition retry_timer_fires :: "AgentIndexService \<Rightarrow> int \<Rightarrow> StatusEventPlan \<Rightarrow> unit ix" where
  "retry_timer_fires sv planID plan =
     bind_act (try_err (db (plan_Get planID))) (\<lambda>found.
     bind_act (case found of
         Inl _ \<Rightarrow> return_act ()
       | Inr current \<Rightarrow>
         if pl_Status current \<noteq> StatusPlanPending then clearWaitingTimer planID False
         else bind_act (try_err (retryWaitingPlanRow sv planID plan)) (\<lambda>_. return_act ())) (\<lambda>_.
     bind_act (try_err (db (plan_Get planID))) (\<lambda>after. case after of
         Inl _ \<Rightarrow> return_act ()
       | Inr p \<Rightarrow> if isTerminalPlanStatus (pl_Status p) then clearWaitingTimer planID False else return_act ())))"

subsection \<open>Executing a new plan\<close>

definition plan_input :: "StatusEventPlan \<Rightarrow> InsertPendingInput" where
  "plan_input plan =
     (let agent = sp_Agent plan
      in \<lparr>ip_Agent = Some \<lparr>pa_HerdrSessionName = a_HerdrSessionName agent, pa_ID = a_ID agent,
            pa_PaneGeneration = a_PaneGeneration agent, pa_PaneID = a_PaneID agent\<rparr>,
          ip_AgentID = [], ip_CompactHistory = sp_CompactHistory plan, ip_From = Some (sp_From plan),
          ip_FromStatus = None, ip_HerdrEventKey = sp_HerdrEventKey plan, ip_HerdrSessionName = [],
          ip_PaneGeneration = None, ip_PaneID = [], ip_To = Some (sp_To plan), ip_ToStatus = None\<rparr>)"

definition ExecuteStatusEventPlan :: "AgentIndexService \<Rightarrow> StatusEventPlan \<Rightarrow> AgentEventRecord option ix" where
  "ExecuteStatusEventPlan sv plan =
     (if sp_From plan = sp_To plan then return_act None
      else bind_act (case sp_PlanID plan of
          Some planID \<Rightarrow> db (plan_Get planID)
        | None \<Rightarrow> db (InsertPending (plan_input plan))) (\<lambda>inserted.
        runPlanRow sv inserted plan None))"

text \<open>
  All plans of a refresh are run and their results collected in order; the first error is
  returned. The goroutines are run in the order of the list, one of the orders the scheduler has.
\<close>

fun run_all :: "('p \<Rightarrow> 'a ix) \<Rightarrow> 'p list \<Rightarrow> (go_error + 'a) list ix" where
  "run_all f [] = return_act []"
| "run_all f (p # ps) =
     bind_act (try_err (f p)) (\<lambda>r. bind_act (run_all f ps) (\<lambda>rs. return_act (r # rs)))"

fun first_error :: "(go_error + 'a) list \<Rightarrow> go_error option" where
  "first_error [] = None"
| "first_error (Inl e # rs) = Some e"
| "first_error (Inr a # rs) = first_error rs"

definition event_results :: "(go_error + AgentEventRecord option) list \<Rightarrow> AgentEventRecord list" where
  "event_results rs = List.map_filter (\<lambda>r. case r of Inl _ \<Rightarrow> None | Inr e \<Rightarrow> e) rs"

definition runStatusEventPlans :: "AgentIndexService \<Rightarrow> StatusEventPlan list \<Rightarrow> AgentEventRecord list ix" where
  "runStatusEventPlans sv plans =
     bind_act (run_all (ExecuteStatusEventPlan sv) plans) (\<lambda>outcomes. case first_error outcomes of
         Some e \<Rightarrow> fail_act e
       | None \<Rightarrow> return_act (event_results outcomes))"

subsection \<open>The drain\<close>

definition drain_candidate :: "int \<Rightarrow> StatusEventPlanRecord option op" where
  "drain_candidate planID = RunSqliteTransaction
     (bind_act (plan_Get planID) (\<lambda>candidate.
        return_act (if pl_Status candidate \<noteq> StatusPlanPending then None else Some candidate)))"

definition drain_agent :: "StatusEventPlanRecord \<Rightarrow> AgentIndexRecord option ix" where
  "drain_agent current =
     bind_act (try_err (db (FindByPane (pl_HerdrSessionName current) (pl_PaneGeneration current) (pl_PaneID current))))
       (\<lambda>byPane. case byPane of
           Inr (Some a) \<Rightarrow> return_act (Some a)
         | _ \<Rightarrow> bind_act (try_err (db (agent_Get (pl_AgentID current)))) (\<lambda>fallback. case fallback of
             Inl _ \<Rightarrow> return_act None
           | Inr a \<Rightarrow> return_act (Some a)))"

definition drained_plan :: "StatusEventPlanRecord \<Rightarrow> AgentIndexRecord \<Rightarrow> CompactAgentHistory option \<Rightarrow> StatusEventPlan" where
  "drained_plan current agent history =
     \<lparr>sp_Agent = agent, sp_Attempts = Some (pl_Attempts current), sp_CompactHistory = history,
      sp_From = pl_FromStatus current, sp_HerdrEventKey = pl_HerdrEventKey current, sp_PlanID = None,
      sp_To = pl_ToStatus current\<rparr>"

definition drain_unrefreshed ::
    "AgentIndexService \<Rightarrow> StatusEventPlanRecord \<Rightarrow> AgentIndexRecord \<Rightarrow> planRowOptions option \<Rightarrow> unit ix" where
  "drain_unrefreshed sv current agent options =
     (let retryError = retry_error_of (pl_LastError current) ErrPlanWaiting;
          plan = drained_plan current agent (pl_CompactHistory current)
      in bind_act (markPlanRetry sv (pl_ID current) plan retryError (pl_CompactHistory current) options)
         (\<lambda>updated. case updated of
             None \<Rightarrow> clearWaitingTimer (pl_ID current) False
           | Some u \<Rightarrow> bind_act (settle_updated sv (pl_ID current) plan retryError u
               (row_outcome current plan u (pl_CompactHistory current))) publishPlanEvent))"

definition drainPlanRow :: "AgentIndexService \<Rightarrow> planRowOptions option \<Rightarrow> StatusEventPlanRecord \<Rightarrow> unit ix" where
  "drainPlanRow sv options row =
     bind_act (try_err (db (drain_candidate (pl_ID row)))) (\<lambda>found. case found of
         Inr (Some current) \<Rightarrow>
           bind_act (drain_agent current) (\<lambda>agent. case agent of
               None \<Rightarrow> salvage_and_publish current
             | Some a \<Rightarrow>
               bind_act (try_err (refreshedCompactHistory sv a)) (\<lambda>refreshed. case refreshed of
                   Inl _ \<Rightarrow> drain_unrefreshed sv current a options
                 | Inr h \<Rightarrow>
                   bind_act (runPlanRow sv current (drained_plan current a (Some h))
                     (case options of None \<Rightarrow> Some \<lparr>ro_AllowWorkingExemption = None, ro_IsDrain = True\<rparr>
                      | Some ro \<Rightarrow> Some ro)) publishPlanEvent))
       | _ \<Rightarrow> clearWaitingTimer (pl_ID row) False)"

record DrainPendingPlansOptions =
  do_AllowWorkingExemption :: "bool option"
  do_Reason :: string

definition drain_exemption :: "DrainPendingPlansOptions option \<Rightarrow> bool" where
  "drain_exemption options =
     (case options of None \<Rightarrow> False
      | Some dopts \<Rightarrow> (case do_AllowWorkingExemption dopts of Some b \<Rightarrow> b | None \<Rightarrow> do_Reason dopts = ''periodic''))"

text \<open>A row whose drain fails is logged and the others are drained all the same.\<close>

definition DrainPendingPlans :: "AgentIndexService \<Rightarrow> DrainPendingPlansOptions option \<Rightarrow> unit ix" where
  "DrainPendingPlans sv options =
     bind_act (db ResetRunningToPending) (\<lambda>_.
     bind_act (db ListUnfinished) (\<lambda>rows.
     bind_act (run_all (drainPlanRow sv (Some
         \<lparr>ro_AllowWorkingExemption = Some (drain_exemption options), ro_IsDrain = True\<rparr>)) rows) (\<lambda>_.
     bind_act backfillFailedPlanEvents (\<lambda>_.
     backfillDiscardedPlanEvents))))"

end
