(* ===== verification/IndexService.thy ===== *)
theory IndexService
  imports IndexRuns
begin

text \<open>
  The session half of the index service (\<open>observability/agent_index_service.go\<close>): the refresh of a
  session from a Herdr snapshot, the handling of a Herdr event, the closing of a pane and the
  registration of a session reference. \<open>NormalizeHerdrSessionSnapshot\<close> is that of
  \<open>herdr/session_snapshot.go\<close>. The registry that lets concurrent refreshes of one epoch share a
  result is left out.
\<close>

subsection \<open>The snapshot\<close>

record HerdrSessionSnapshot =
  hn_Agents :: "jval list"
  hn_FocusedPaneId :: "string option"
  hn_FocusedWorkspaceId :: "string option"
  hn_Panes :: "jval list"
  hn_Tabs :: "jval list"
  hn_Workspaces :: "jval list"

fun asJSONObject :: "jval option \<Rightarrow> (string \<times> jval) list option" where
  "asJSONObject (Some (JObj kvs)) = Some kvs"
| "asJSONObject _ = None"

fun jsonArrayOrEmpty :: "jval option \<Rightarrow> jval list" where
  "jsonArrayOrEmpty (Some (JArr vs)) = vs"
| "jsonArrayOrEmpty _ = []"

definition NormalizeHerdrSessionSnapshot :: "jval \<Rightarrow> HerdrSessionSnapshot" where
  "NormalizeHerdrSessionSnapshot v =
     (let object = (case asJSONObject (Some v) of Some kvs \<Rightarrow> kvs | None \<Rightarrow> []);
          snapshot = (case asJSONObject (map_of object ''snapshot'') of Some kvs \<Rightarrow> kvs | None \<Rightarrow> object)
      in \<lparr>hn_Agents = jsonArrayOrEmpty (map_of snapshot ''agents''),
          hn_FocusedPaneId = as_string (map_of snapshot ''focused_pane_id''),
          hn_FocusedWorkspaceId = as_string (map_of snapshot ''focused_workspace_id''),
          hn_Panes = jsonArrayOrEmpty (map_of snapshot ''panes''),
          hn_Tabs = jsonArrayOrEmpty (map_of snapshot ''tabs''),
          hn_Workspaces = jsonArrayOrEmpty (map_of snapshot ''workspaces'')\<rparr>)"

definition open_client :: "AgentIndexService \<Rightarrow> string \<Rightarrow> unit ix" where
  "open_client sv socketPath s =
     (case iv_openClient sv socketPath s of Some e \<Rightarrow> (Inl e, s) | None \<Rightarrow> (Inr (), s))"

definition request_snapshot :: "AgentIndexService \<Rightarrow> string \<Rightarrow> HerdrSessionSnapshot ix" where
  "request_snapshot sv socketPath s =
     (case iv_sessionSnapshot sv socketPath s of
        (Inl e, s') \<Rightarrow> (Inl e, s') | (Inr v, s') \<Rightarrow> (Inr (NormalizeHerdrSessionSnapshot v), s'))"

subsection \<open>Reconciling the stores with the snapshot\<close>

definition isClosedPaneAgent :: "string \<Rightarrow> HerdrAgentLike \<Rightarrow> bool ix" where
  "isClosedPaneAgent session agent =
     (case stringValue (map_of agent ''pane_id'') of
        None \<Rightarrow> return_act False
      | Some paneID \<Rightarrow>
        bind_act (try_err (db (IsPaneClosed session (paneGenerationOf agent) paneID))) (\<lambda>closed.
          return_act (closed = Inr True)))"

fun keep_open :: "string \<Rightarrow> HerdrAgentLike list \<Rightarrow> HerdrAgentLike list ix" where
  "keep_open session [] = return_act []"
| "keep_open session (agent # rest) =
     bind_act (isClosedPaneAgent session agent) (\<lambda>closed.
     bind_act (keep_open session rest) (\<lambda>others.
     return_act (if closed then others else agent # others)))"

definition clear_legacy :: "string \<Rightarrow> HerdrAgentLike \<Rightarrow> unit ix" where
  "clear_legacy session agent =
     (case stringValue (map_of agent ''pane_id'') of
        None \<Rightarrow> return_act ()
      | Some paneID \<Rightarrow> db (ClearLegacyPaneTombstone session paneID))"

definition store_scan ::
    "string \<Rightarrow> string \<Rightarrow> string \<Rightarrow> HerdrSessionSnapshot \<Rightarrow> AgentIndexRecord list ix" where
  "store_scan session sessionDir socketPath snapshot =
     (let snapshotAgents = map (\<lambda>a. withPaneRevision a (overlayByPane (hn_Panes snapshot))) (hn_Agents snapshot);
          workspaces = List.map_filter (\<lambda>v. asJSONObject (Some v)) (hn_Workspaces snapshot)
      in bind_act (for_each snapshotAgents (clear_legacy session)) (\<lambda>_.
         bind_act (keep_open session snapshotAgents) (\<lambda>liveSnapshotAgents.
         bind_act (db (UpsertRunning session sessionDir socketPath)) (\<lambda>_.
         bind_act (db (workspace_ReplaceForSession session workspaces)) (\<lambda>_.
         db (ReplaceForSession session liveSnapshotAgents))))))"

text \<open>A session reference that was registered before its terminal was indexed is applied now.\<close>

definition adopt_pending :: "string \<Rightarrow> AgentIndexRecord \<Rightarrow> AgentIndexRecord ix" where
  "adopt_pending session agent =
     (case a_TerminalID agent of None \<Rightarrow> return_act agent
      | Some terminalID \<Rightarrow>
        let key = terminalSessionKey session terminalID
        in bind_act (read_act (\<lambda>s. x_pendingPiSessionRefs s key)) (\<lambda>pending. case pending of
            None \<Rightarrow> return_act agent
          | Some ref \<Rightarrow>
            bind_act (modify_act (\<lambda>s. s\<lparr>x_pendingPiSessionRefs := (x_pendingPiSessionRefs s)(key := None)\<rparr>)) (\<lambda>_.
            bind_act (db (SetSessionRefByTerminal ref session terminalID)) (\<lambda>updated.
            return_act (case updated of None \<Rightarrow> agent | Some u \<Rightarrow> u)))))"

subsection \<open>Refreshing the agents of the snapshot\<close>

type_synonym scan_state = "(string \<times> AgentScope) list \<times> AgentEventRecord list \<times> StatusEventPlan list"

definition unbound_session :: "AgentIndexService \<Rightarrow> world \<Rightarrow> AgentIndexRecord \<Rightarrow> AgentContextSnapshotRecord option \<Rightarrow> bool" where
  "unbound_session sv w agent cached =
     (case a_AgentSession agent of None \<Rightarrow> False
      | Some session \<Rightarrow>
        if sr_Kind session \<noteq> SessionRefPath
          \<or> hv_SafeOfficialSessionPath (iv_history sv) (sr_Value session) w = [] then False
        else (case cached of None \<Rightarrow> True
          | Some c \<Rightarrow> (case ns_HistoryRef c of None \<Rightarrow> True
            | Some ref \<Rightarrow> hr_Kind ref \<noteq> HistoryRefAgentSession \<or> hr_Path ref \<noteq> Some (sr_Value session))))"

definition needs_refresh ::
    "AgentIndexRecord \<Rightarrow> AgentContextSnapshotRecord option \<Rightarrow> bool \<Rightarrow> string list \<Rightarrow> bool \<Rightarrow> bool \<Rightarrow> bool" where
  "needs_refresh agent cached identityChanged occupiedByOthers sessionUnbound stalled =
     (case cached of None \<Rightarrow> True
      | Some c \<Rightarrow>
        a_PaneRevision agent = None \<or> ns_PaneRevision c \<noteq> a_PaneRevision agent \<or> identityChanged
        \<or> (case ns_HistoryRef c of None \<Rightarrow> True
           | Some ref \<Rightarrow> hr_Kind ref = HistoryRefDiscoveredFile
               \<or> (case hr_Path ref of None \<Rightarrow> False | Some path \<Rightarrow> path \<in> set occupiedByOthers))
        \<or> sessionUnbound \<or> stalled)"

text \<open>The context of one agent: the snapshot now in force, and whether it changed.\<close>

definition refresh_if_dirty ::
    "AgentIndexService \<Rightarrow> string \<Rightarrow> AgentIndexRecord \<Rightarrow> bool \<Rightarrow> string list
      \<Rightarrow> (AgentContextSnapshotRecord option \<times> bool) ix" where
  "refresh_if_dirty sv session agent identityChanged occupiedSessionPaths =
     bind_act (GetAgentSnapshot (a_ID agent)) (\<lambda>cached.
     bind_act (OccupiedSessionPathsFor agent) (\<lambda>occupiedByOthers.
     bind_act (read_act (\<lambda>s. unbound_session sv (x_world s) agent cached)) (\<lambda>sessionUnbound.
     bind_act (if idle_or_done_status (a_AgentStatus agent)
         then isAgentStalled (a_ID agent) session else return_act False) (\<lambda>stalled.
     if needs_refresh agent cached identityChanged occupiedByOthers sessionUnbound stalled
     then bind_act (RefreshAgent sv
         \<lparr>rc_Agent = agent, rc_IdentityChanged = identityChanged,
          rc_ForceRefresh = (if stalled then Some True else None),
          rc_OccupiedSessionPaths = filter (\<lambda>p. p \<notin> set (session_path_of agent)) occupiedSessionPaths\<rparr>)
       (\<lambda>result. return_act (Some (rs_Snapshot result), rs_Changed result))
     else return_act (cached, False)))))"

definition metadata_scopes ::
    "AgentIndexRecord option \<Rightarrow> AgentIndexRecord \<Rightarrow> (string \<times> AgentScope) list \<Rightarrow> (string \<times> AgentScope) list" where
  "metadata_scopes prior agent scopes =
     (case prior of None \<Rightarrow> addScope (scopeOf agent) scopes
      | Some p \<Rightarrow> if sameContextMetadata p agent then scopes
          else addScope (scopeOf agent)
            (if scopeOf p \<noteq> scopeOf agent then addScope (scopeOf p) scopes else scopes))"

definition transition_plan ::
    "AgentIndexRecord option \<Rightarrow> AgentIndexRecord \<Rightarrow> CompactAgentHistory option \<Rightarrow> StatusEventPlan list" where
  "transition_plan prior agent history =
     (case prior of None \<Rightarrow> []
      | Some p \<Rightarrow> if a_AgentStatus p = a_AgentStatus agent then []
          else [\<lparr>sp_Agent = agent, sp_Attempts = None, sp_CompactHistory = history, sp_From = a_AgentStatus p,
                 sp_HerdrEventKey = None, sp_PlanID = None, sp_To = a_AgentStatus agent\<rparr>])"

definition refresh_one ::
    "AgentIndexService \<Rightarrow> string \<Rightarrow> AgentIndexRecord list \<Rightarrow> string list \<Rightarrow> AgentIndexRecord \<Rightarrow> scan_state \<Rightarrow> scan_state ix" where
  "refresh_one sv session previous occupiedSessionPaths agent st =
     (let (scopes, events, plans) = st;
          prior = matchingPrior agent previous;
          identityChanged = (case prior of None \<Rightarrow> True | Some p \<Rightarrow> \<not> sameIdentity p agent)
      in bind_act (refresh_if_dirty sv session agent identityChanged occupiedSessionPaths) (\<lambda>(refreshed, changed).
         let history = map_option ns_CompactHistory refreshed;
             scopes1 = (if changed then addScope (scopeOf agent) scopes else scopes)
         in bind_act (reconcileLateCompletion agent history) (\<lambda>lateEvent.
            let scopes2 = (case lateEvent of None \<Rightarrow> scopes1 | Some _ \<Rightarrow> addScope (scopeOf agent) scopes1);
                scopes3 = metadata_scopes prior agent scopes2;
                newPlans = transition_plan prior agent history
            in return_act
                 (if newPlans = [] then scopes3 else addScope (scopeOf agent) scopes3,
                  events @ (case lateEvent of None \<Rightarrow> [] | Some e \<Rightarrow> [e]), plans @ newPlans))))"

fun refresh_each ::
    "AgentIndexService \<Rightarrow> string \<Rightarrow> AgentIndexRecord list \<Rightarrow> string list \<Rightarrow> AgentIndexRecord list \<Rightarrow> scan_state \<Rightarrow> scan_state ix" where
  "refresh_each sv session previous occupied [] st = return_act st"
| "refresh_each sv session previous occupied (agent # rest) st =
     bind_act (refresh_one sv session previous occupied agent st) (\<lambda>st'. refresh_each sv session previous occupied rest st')"

definition removed_scopes :: "AgentIndexRecord list \<Rightarrow> AgentIndexRecord list \<Rightarrow> (string \<times> AgentScope) list" where
  "removed_scopes previous indexed =
     foldl (\<lambda>scopes p. if a_ID p \<in> a_ID ` set indexed then scopes else addScope (scopeOf p) scopes) [] previous"

text \<open>A mutation during the snapshot request makes the whole refresh stale.\<close>

definition refreshHerdrSessionNow ::
    "AgentIndexService \<Rightarrow> string \<Rightarrow> string \<Rightarrow> string \<Rightarrow> AgentIndexRefreshFastResult ix" where
  "refreshHerdrSessionNow sv session sessionDir socketPath =
     bind_act (open_client sv socketPath) (\<lambda>_.
     bind_act (db (ListForHerdrSession session)) (\<lambda>previous.
     bind_act (mutation_epoch session) (\<lambda>refreshEpoch.
     bind_act (request_snapshot sv socketPath) (\<lambda>snapshot.
     bind_act (mutation_epoch session) (\<lambda>mutationEpoch.
     if mutationEpoch \<noteq> refreshEpoch
     then return_act \<lparr>rr_Agents = previous, rr_ContextChangedScopes = [], rr_Events = [], rr_StatusEventPlans = []\<rparr>
     else
       bind_act (store_scan session sessionDir socketPath snapshot) (\<lambda>indexed.
       bind_act (collect indexed (adopt_pending session)) (\<lambda>current.
       bind_act (refresh_each sv session previous (concat (map session_path_of current)) current
           (removed_scopes previous current, [], [])) (\<lambda>(scopes, events, plans).
       return_act \<lparr>rr_Agents = current, rr_ContextChangedScopes = sortedScopes scopes, rr_Events = events,
         rr_StatusEventPlans = plans\<rparr>))))))))"

subsection \<open>Closing a pane\<close>

record HandleHerdrEventInput =
  he_Event :: jval
  he_HerdrSessionName :: string
  he_SessionDir :: string
  he_SocketPath :: string

definition nothing_changed :: AgentEventHandlingFastResult where
  "nothing_changed = \<lparr>fr_ContextChangedScopes = [], fr_Events = [], fr_StatusEventPlans = []\<rparr>"

text \<open>A stalled agent gets a last chance to report its result before its pane is retired.\<close>

definition rescue_late ::
    "AgentIndexService \<Rightarrow> AgentIndexRecord option \<Rightarrow> string \<Rightarrow> AgentEventRecord list ix" where
  "rescue_late sv closingAgent session =
     (case closingAgent of None \<Rightarrow> return_act []
      | Some agent \<Rightarrow>
        bind_act (isAgentStalled (a_ID agent) session) (\<lambda>stalled.
        if \<not> stalled then return_act []
        else bind_act (try_err (refreshedCompactHistory sv agent)) (\<lambda>refreshed. case refreshed of
            Inl _ \<Rightarrow> return_act []
          | Inr h \<Rightarrow> bind_act (reconcileLateCompletion agent (Some h)) (\<lambda>lateEvent.
              return_act (case lateEvent of None \<Rightarrow> [] | Some e \<Rightarrow> [e])))))"

fun release_retired ::
    "string \<Rightarrow> string option \<Rightarrow> AgentIndexRecord list \<Rightarrow> (string \<times> AgentScope) list
      \<Rightarrow> (string \<times> AgentScope) list ix" where
  "release_retired paneID closedTerminalID [] scopes = return_act scopes"
| "release_retired paneID closedTerminalID (agent # rest) scopes =
     (let terminalIDToRelease = (case closedTerminalID of Some t \<Rightarrow> t
            | None \<Rightarrow> stringOrEmpty (a_TerminalID agent))
      in bind_act (if terminalIDToRelease = [] then return_act ()
           else bind_act (db (ReleaseIfOwnerIdentity \<lparr>rid_Scope = scopeOf agent, rid_PaneID = paneID,
               rid_TerminalID = terminalIDToRelease\<rparr>)) (\<lambda>_. return_act ())) (\<lambda>_.
         release_retired paneID closedTerminalID rest (addScope (scopeOf agent) scopes)))"

definition handlePaneClosed ::
    "AgentIndexService \<Rightarrow> HandleHerdrEventInput \<Rightarrow> string \<Rightarrow> (string \<times> jval) list
      \<Rightarrow> AgentEventHandlingFastResult ix" where
  "handlePaneClosed sv input paneID event =
     (let session = he_HerdrSessionName input;
          closedGeneration = stringValue (map_of event ''pane_generation'');
          closedTerminalID = (case stringValue (map_of event ''terminal_id'') of Some t \<Rightarrow> Some t
            | None \<Rightarrow> stringValue (map_of event ''terminalId''))
      in bind_act (db (FindByPane session closedGeneration paneID)) (\<lambda>closingAgent.
         bind_act (rescue_late sv closingAgent session) (\<lambda>lateEvents.
         bind_act (abortPendingWaiters session paneID closedGeneration) (\<lambda>_.
         bind_act (db (InvalidatePane \<lparr>v_AcknowledgeDelivered = Some True, v_HerdrSessionName = session,
             v_InvalidatedReason = Some (if closedGeneration = None then ''LEGACY_CLOSE_WITHOUT_GENERATION''
               else ''PANE_CLOSED''),
             v_PaneGeneration = closedGeneration, v_PaneID = paneID\<rparr>)) (\<lambda>_.
         bind_act (db (RetirePane session closedGeneration paneID)) (\<lambda>retired.
         bind_act (release_retired paneID closedTerminalID retired []) (\<lambda>scopes.
         return_act \<lparr>fr_ContextChangedScopes = sortedScopes scopes, fr_Events = lateEvents,
           fr_StatusEventPlans = []\<rparr>)))))))"

subsection \<open>A status event\<close>

text \<open>An unknown pane is recovered by a refresh, unless a close of it still holds.\<close>

definition pane_stays_closed :: "string \<Rightarrow> string option \<Rightarrow> string \<Rightarrow> bool op" where
  "pane_stays_closed session generation paneID =
     (case generation of
        Some g \<Rightarrow> HasGenerationScopedTombstone session g paneID
      | None \<Rightarrow> IsPaneClosed session None paneID)"

definition locate_agent ::
    "AgentIndexService \<Rightarrow> HandleHerdrEventInput \<Rightarrow> string option \<Rightarrow> string
      \<Rightarrow> (AgentIndexRecord option \<times> AgentIndexRefreshFastResult option) ix" where
  "locate_agent sv input generation paneID =
     (let session = he_HerdrSessionName input
      in bind_act (db (FindByPane session generation paneID)) (\<lambda>found. case found of
           Some agent \<Rightarrow> return_act (Some agent, None)
         | None \<Rightarrow>
           bind_act (db (pane_stays_closed session generation paneID)) (\<lambda>closed.
           if closed then return_act (None, None)
           else bind_act (refreshHerdrSessionNow sv session (he_SessionDir input) (he_SocketPath input)) (\<lambda>recovered.
             bind_act (db (FindByPane session generation paneID)) (\<lambda>again.
             return_act (again, Some recovered))))))"

text \<open>The new status and its plan are stored in one transaction.\<close>

definition status_and_plan ::
    "AgentIndexRecord \<Rightarrow> AgentStatus \<Rightarrow> AgentStatus \<Rightarrow> string option \<Rightarrow> string option \<Rightarrow> string \<Rightarrow> string
      \<Rightarrow> (AgentIndexRecord \<times> StatusEventPlanRecord) op" where
  "status_and_plan current from to herdrEventKey generation session paneID =
     RunSqliteTransaction
       (bind_act (UpdateStatus to session generation paneID) (\<lambda>updatedRecord.
        let updated = (case updatedRecord of Some u \<Rightarrow> u | None \<Rightarrow> current)
        in bind_act (InsertPending
          \<lparr>ip_Agent = Some \<lparr>pa_HerdrSessionName = a_HerdrSessionName updated, pa_ID = a_ID updated,
              pa_PaneGeneration = a_PaneGeneration updated, pa_PaneID = a_PaneID updated\<rparr>,
           ip_AgentID = [], ip_CompactHistory = None, ip_From = Some from, ip_FromStatus = None,
           ip_HerdrEventKey = herdrEventKey, ip_HerdrSessionName = [], ip_PaneGeneration = None,
           ip_PaneID = [], ip_To = Some to, ip_ToStatus = None\<rparr>) (\<lambda>inserted.
        return_act (updated, inserted))))"

definition recovered_parts ::
    "AgentIndexRefreshFastResult option \<Rightarrow> AgentScope list \<times> AgentEventRecord list \<times> StatusEventPlan list" where
  "recovered_parts recovered =
     (case recovered of None \<Rightarrow> ([], [], [])
      | Some r \<Rightarrow> (rr_ContextChangedScopes r, rr_Events r, rr_StatusEventPlans r))"

definition record_status ::
    "HandleHerdrEventInput \<Rightarrow> AgentIndexRecord \<Rightarrow> AgentStatus \<Rightarrow> AgentStatus \<Rightarrow> string option \<Rightarrow> string option \<Rightarrow> string
      \<Rightarrow> CompactAgentHistory \<Rightarrow> StatusEventPlan list \<Rightarrow> StatusEventPlan list ix" where
  "record_status input current from to herdrEventKey generation paneID history plans =
     (let session = he_HerdrSessionName input;
          equivalent = (\<exists>p \<in> set plans. a_ID (sp_Agent p) = a_ID current \<and> sp_To p = to)
      in if from = to \<or> equivalent
         then bind_act (db (UpdateStatus to session generation paneID)) (\<lambda>_. return_act plans)
         else bind_act (db (status_and_plan current from to herdrEventKey generation session paneID))
           (\<lambda>(updated, plan). return_act (plans @
             [\<lparr>sp_Agent = updated, sp_Attempts = None, sp_CompactHistory = Some history, sp_From = from,
               sp_HerdrEventKey = herdrEventKey, sp_PlanID = Some (pl_ID plan), sp_To = to\<rparr>])))"

definition status_changed ::
    "AgentIndexService \<Rightarrow> HandleHerdrEventInput \<Rightarrow> (string \<times> jval) list \<Rightarrow> string \<Rightarrow> AgentIndexRecord
      \<Rightarrow> AgentIndexRefreshFastResult option \<Rightarrow> AgentEventHandlingFastResult ix" where
  "status_changed sv input event paneID agent recovered =
     (let generation = stringValue (map_of event ''pane_generation'');
          from = (case recovered of None \<Rightarrow> a_AgentStatus agent | Some _ \<Rightarrow> AgentStatusUnknown);
          to = ParseAgentStatus (stringOrEmpty (as_string (map_of event ''agent_status'')));
          herdrEventKey = herdrInputIdempotencyKey (he_HerdrSessionName input) paneID event;
          current = agent\<lparr>a_AgentStatus := to\<rparr>;
          (scopes0, events0, plans0) = recovered_parts recovered
      in bind_act (RefreshAgent sv \<lparr>rc_Agent = current, rc_IdentityChanged = False, rc_ForceRefresh = None,
             rc_OccupiedSessionPaths = []\<rparr>) (\<lambda>refreshed.
         let history = ns_CompactHistory (rs_Snapshot refreshed);
             scopes1 = foldl (\<lambda>acc s. addScope s acc) [] scopes0;
             scopes2 = (if rs_Changed refreshed \<or> from \<noteq> to then addScope (scopeOf current) scopes1 else scopes1)
         in bind_act (reconcileLateCompletion current (Some history)) (\<lambda>lateEvent.
            bind_act (record_status input current from to herdrEventKey generation paneID history plans0) (\<lambda>plans.
            return_act \<lparr>fr_ContextChangedScopes = sortedScopes scopes2,
              fr_Events = events0 @ (case lateEvent of None \<Rightarrow> [] | Some e \<Rightarrow> [e]),
              fr_StatusEventPlans = plans\<rparr>))))"

definition handleHerdrEventNow ::
    "AgentIndexService \<Rightarrow> HandleHerdrEventInput \<Rightarrow> AgentEventHandlingFastResult ix" where
  "handleHerdrEventNow sv input =
     (let event = asRecord (he_Event input);
          eventType = stringOrEmpty (as_string (map_of event ''type''))
      in case first_some [stringValue (map_of event ''pane_id''), stringValue (map_of event ''paneId'')] of
           None \<Rightarrow> return_act nothing_changed
         | Some paneID \<Rightarrow>
           if eventType = ''pane.closed'' then handlePaneClosed sv input paneID event
           else if eventType \<noteq> ''pane.agent_status_changed'' then return_act nothing_changed
           else bind_act (locate_agent sv input (stringValue (map_of event ''pane_generation'')) paneID)
             (\<lambda>(agent, recovered). case agent of
                Some a \<Rightarrow> status_changed sv input event paneID a recovered
              | None \<Rightarrow> (case recovered of None \<Rightarrow> return_act nothing_changed
                  | Some r \<Rightarrow> return_act \<lparr>fr_ContextChangedScopes = rr_ContextChangedScopes r,
                      fr_Events = rr_Events r, fr_StatusEventPlans = rr_StatusEventPlans r\<rparr>)))"

subsection \<open>Registering a session reference\<close>

definition registerPiSessionRefNow ::
    "AgentIndexService \<Rightarrow> string \<Rightarrow> AgentSessionRef \<Rightarrow> string
      \<Rightarrow> (AgentIndexRecord option \<times> AgentScope list) ix" where
  "registerPiSessionRefNow sv session ref terminalID =
     (let key = terminalSessionKey session terminalID
      in bind_act (read_act (\<lambda>s. sr_Kind ref = SessionRefPath
             \<and> hv_SafeAllowedSessionPath (iv_history sv) (sr_Value ref) (x_world s) = []
             \<and> (iv_fileExists sv (sr_Value ref) s
                \<or> \<not> hv_SessionPathAllowedByShape (iv_history sv) (sr_Value ref)))) (\<lambda>refused.
         if refused then return_act (None, [])
         else bind_act (db (FindByTerminal session terminalID)) (\<lambda>previous. case previous of
             None \<Rightarrow> bind_act (modify_act (\<lambda>s. s\<lparr>x_pendingPiSessionRefs :=
                 (x_pendingPiSessionRefs s)(key \<mapsto> ref)\<rparr>)) (\<lambda>_. return_act (None, []))
           | Some prev \<Rightarrow>
             bind_act (db (SetSessionRefByTerminal ref session terminalID)) (\<lambda>agent.
             bind_act (modify_act (\<lambda>s. s\<lparr>x_pendingPiSessionRefs :=
                 (x_pendingPiSessionRefs s)(key := None)\<rparr>)) (\<lambda>_.
             case agent of None \<Rightarrow> return_act (None, [])
             | Some a \<Rightarrow>
               if a_AgentSession prev = a_AgentSession a then return_act (Some a, [])
               else bind_act (RefreshAgent sv \<lparr>rc_Agent = a, rc_IdentityChanged = True, rc_ForceRefresh = None,
                   rc_OccupiedSessionPaths = []\<rparr>) (\<lambda>refreshed.
                 return_act (Some a, if rs_Changed refreshed then [scopeOf a] else [])))))))"

subsection \<open>The public operations\<close>

definition RefreshHerdrSessionFast ::
    "AgentIndexService \<Rightarrow> string \<Rightarrow> string \<Rightarrow> string \<Rightarrow> AgentIndexRefreshFastResult ix" where
  "RefreshHerdrSessionFast sv session sessionDir socketPath =
     bind_act (incrementMutationEpoch session) (\<lambda>_. refreshHerdrSessionNow sv session sessionDir socketPath)"

definition RefreshHerdrSession ::
    "AgentIndexService \<Rightarrow> string \<Rightarrow> string \<Rightarrow> string
      \<Rightarrow> (AgentIndexRecord list \<times> AgentScope list \<times> AgentEventRecord list) ix" where
  "RefreshHerdrSession sv session sessionDir socketPath =
     bind_act (refreshHerdrSessionNow sv session sessionDir socketPath) (\<lambda>r.
     bind_act (runStatusEventPlans sv (rr_StatusEventPlans r)) (\<lambda>events.
     return_act (rr_Agents r, rr_ContextChangedScopes r, rr_Events r @ events)))"

definition HandleHerdrEventFast ::
    "AgentIndexService \<Rightarrow> HandleHerdrEventInput \<Rightarrow> AgentEventHandlingFastResult ix" where
  "HandleHerdrEventFast sv input =
     bind_act (incrementMutationEpoch (he_HerdrSessionName input)) (\<lambda>_. handleHerdrEventNow sv input)"

definition HandleHerdrEvent ::
    "AgentIndexService \<Rightarrow> HandleHerdrEventInput \<Rightarrow> (AgentScope list \<times> AgentEventRecord list) ix" where
  "HandleHerdrEvent sv input =
     bind_act (HandleHerdrEventFast sv input) (\<lambda>r.
     bind_act (runStatusEventPlans sv (fr_StatusEventPlans r)) (\<lambda>events.
     return_act (fr_ContextChangedScopes r, fr_Events r @ events)))"

definition RegisterPiSessionRef ::
    "AgentIndexService \<Rightarrow> string \<Rightarrow> AgentSessionRef \<Rightarrow> string
      \<Rightarrow> (AgentIndexRecord option \<times> AgentScope list) ix" where
  "RegisterPiSessionRef sv session ref terminalID =
     bind_act (incrementMutationEpoch session) (\<lambda>_. registerPiSessionRefNow sv session ref terminalID)"

end
