(* ===== verification/ScanContract.thy ===== *)
theory ScanContract
  imports ScanStores AgentContract
begin

text \<open>
  What the stores around a scan promise: a context snapshot that was written reads back as it was
  given, with a timestamp that only moves forward; clearing the history cache in batches is the one
  deletion it stands for; and none of their statements breaks the index invariant.
\<close>

subsection \<open>The statements keep the index invariant\<close>

text \<open>What the index reads of the tables of a scan: the names of the sessions, the owners of snapshots.\<close>

lemma index_ok_names:
  assumes ok: "index_ok t" and kept: "agents u = agents t" "agent_events u = agent_events t"
    and names: "h_name ` set (herdr_sessions t) \<subseteq> h_name ` set (herdr_sessions u)"
    and owners: "n_agentID ` set (agent_context_snapshots u) \<subseteq> g_id ` set (agents t)"
  shows "index_ok u"
proof -
  have "\<exists>h \<in> set (herdr_sessions u). h_name h = g_herdrSessionName g" if "g \<in> set (agents u)" for g
  proof -
    from that ok have "g_herdrSessionName g \<in> h_name ` set (herdr_sessions t)"
      by (auto simp: index_ok_def agents_constraints_def kept) (metis imageI)
    with names show ?thesis by (metis image_iff subsetD)
  qed
  with ok owners show ?thesis by (simp add: index_ok_def agents_constraints_def kept image_subset_iff)
qed

lemma index_ok_owners: "index_ok t \<Longrightarrow> n_agentID ` set (agent_context_snapshots t) \<subseteq> g_id ` set (agents t)"
  by (auto simp: index_ok_def)

lemma scan_movesI:
  assumes "agents u = agents t" "agent_events u = agent_events t" "agent_events_seq u = agent_events_seq t"
    and "h_name ` set (herdr_sessions t) \<subseteq> h_name ` set (herdr_sessions u)"
    and "n_agentID ` set (agent_context_snapshots u)
      \<subseteq> n_agentID ` set (agent_context_snapshots t) \<union> g_id ` set (agents t)"
    and "plans_and_scopes u = plans_and_scopes t"
  shows "index_moves t u"
proof (rule index_movesI [OF assms(2,3) _ assms(6)])
  assume ok: "index_ok t"
  from assms(5) index_ok_owners [OF ok] have "n_agentID ` set (agent_context_snapshots u) \<subseteq> g_id ` set (agents t)"
    by blast
  then show "index_ok u" by (rule index_ok_names [OF ok assms(1,2,4)])
qed

lemma moves_upsert_session: "moves (inside index_moves) (change_sql (upsert_session row))"
  by (rule idx.grd.moves_change, rule scan_movesI)
    (simp_all add: upsert_session_def plans_and_scopes_def, auto simp: update_where_def image_iff)

lemma moves_update_sessions:
  assumes "\<And>h. h_name (f h) = h_name h"
  shows "moves (inside index_moves) (change_sql (update_sessions p f))"
proof -
  have "h_name ` set (update_where p f rows) = h_name ` set rows" for rows
    using arg_cong [OF map_update_where [of h_name f p rows, OF assms], of set] by simp
  then show ?thesis
    by (intro idx.grd.moves_change scan_movesI) (simp_all add: update_sessions_def plans_and_scopes_def)
qed

lemma moves_workspaces:
  "moves (inside index_moves) (change_sql (delete_workspaces session))"
  "moves (inside index_moves) (exec_sql (insert_workspace row))"
  by (rule idx.grd.moves_change, rule scan_movesI; simp add: delete_workspaces_def plans_and_scopes_def)
    (rule idx.grd.moves_exec, rule scan_movesI;
      auto simp: insert_workspace_def plans_and_scopes_def split: if_splits)

lemma upsert_snapshot_InrD:
  assumes "upsert_snapshot row t = Inr (a, u)"
  shows "n_agentID row \<in> g_id ` set (agents t)"
    and "u = t\<lparr>agent_context_snapshots := if \<exists>n \<in> set (agent_context_snapshots t). n_agentID n = n_agentID row
      then update_where (\<lambda>n. n_agentID n = n_agentID row) (\<lambda>_. row) (agent_context_snapshots t)
      else agent_context_snapshots t @ [row]\<rparr>"
  using assms by (auto simp: upsert_snapshot_def split: if_splits) (metis imageI)+

lemma moves_upsert_snapshot: "moves (inside index_moves) (exec_sql (upsert_snapshot row))"
proof (rule idx.grd.moves_exec, rule scan_movesI)
  fix t a u
  assume "upsert_snapshot row t = Inr (a, u)"
  note u = upsert_snapshot_InrD [OF this]
  show "n_agentID ` set (agent_context_snapshots u)
      \<subseteq> n_agentID ` set (agent_context_snapshots t) \<union> g_id ` set (agents t)"
    using u(1) by (auto simp: u(2) set_update_where)
qed (auto dest: upsert_snapshot_InrD simp: plans_and_scopes_def)

lemma moves_cache:
  "moves (inside index_moves) (change_sql (upsert_cache row))"
  "moves (inside index_moves) (change_sql (delete_cache p))"
  by (rule idx.grd.moves_change, rule scan_movesI;
      simp add: upsert_cache_def delete_cache_def plans_and_scopes_def Let_def)+

lemma moves_sum_value [moves_rules]: "moves (inside index_moves) (of_sum v)"
  by (cases v) (simp_all add: of_sum_def moves_rules)

subsection \<open>The operations\<close>

lemma moves_scan_operations:
  "moves (inside index_moves) (UpsertRunning name dir path)"
  "moves (inside index_moves) (MarkStoppedMissingFrom names)"
  "moves (inside index_moves) (workspace_ReplaceForSession session workspaces)"
  "moves (inside index_moves) (snapshot_Get agentID)"
  "moves (inside index_moves) (ListByAgentIds ids)"
  "moves (inside index_moves) (snapshot_Put input)"
  "moves (inside index_moves) (snapshot_Delete agentID)"
  unfolding UpsertRunning_def session_Get_def MarkStoppedMissingFrom_def workspace_ReplaceForSession_def
    workspace_ListForSession_def snapshot_Put_def snapshot_Get_def snapshot_getRow_def ListByAgentIds_def
    snapshot_Delete_def Let_def
  by (intro moves_rules moves_upsert_session moves_update_sessions moves_workspaces moves_upsert_snapshot
      moves_delete_snapshots; simp)+

lemma moves_cache_operations:
  "moves (inside index_moves) (GetFresh path version mtime bytes)"
  "moves (inside index_moves) (putRecord history version ref mtime path bytes)"
  "moves (inside index_moves) (cache_DeleteOlderThan ageMs)"
  "moves (inside index_moves) (DeleteBySourcePaths paths)"
proof -
  have "moves (inside index_moves) (delete_batches n bs)" for n bs
    by (induction bs arbitrary: n) (auto intro!: moves_rules moves_cache)
  then show "moves (inside index_moves) (DeleteBySourcePaths paths)"
    unfolding DeleteBySourcePaths_def Let_def by (intro moves_rules)
qed (unfold GetFresh_def putRecord_def cache_DeleteOlderThan_def, (intro moves_rules moves_cache)+)

subsection \<open>A snapshot reads back\<close>

lemma map_snapshot_row:
  assumes "mapAgentContextSnapshot (snapshot_row input now) = Inr rec"
  shows "rec = \<lparr>ns_AgentID = ni_AgentID input, ns_CompactHistory = ni_CompactHistory input,
    ns_HistoryRef = ni_HistoryRef input, ns_PaneRevision = ni_PaneRevision input,
    ns_SourceFingerprint = ni_SourceFingerprint input, ns_UpdatedAt = now\<rparr>"
  using assms
  by (cases "ni_SourceFingerprint input"; cases "ni_HistoryRef input")
    (auto simp: mapAgentContextSnapshot_def snapshot_row_def mapSourceFingerprint_def parseContextHistoryRef_def
      split: if_splits)

lemma find_upserted:
  assumes "upsert_snapshot row t = Inr ((), u)"
  shows "find (\<lambda>n. n_agentID n = n_agentID row) (agent_context_snapshots u) = Some row
    \<and> filter (\<lambda>n. n_agentID n \<noteq> n_agentID row) (agent_context_snapshots u)
      = filter (\<lambda>n. n_agentID n \<noteq> n_agentID row) (agent_context_snapshots t)
    \<and> n_agentID row \<in> g_id ` set (agents t) \<and> u = t\<lparr>agent_context_snapshots := agent_context_snapshots u\<rparr>"
proof -
  let ?p = "\<lambda>n. n_agentID n = n_agentID row"
  have upd: "find ?p (update_where ?p (\<lambda>_. row) rows) = Some row" if "\<exists>n \<in> set rows. ?p n" for rows
    using that by (induction rows) (auto simp: update_where_def)
  have other: "filter (\<lambda>n. \<not> ?p n) (update_where ?p (\<lambda>_. row) rows) = filter (\<lambda>n. \<not> ?p n) rows" for rows
    by (induction rows) (auto simp: update_where_def)
  have new: "find ?p (rows @ [row]) = Some row" if "\<forall>n \<in> set rows. \<not> ?p n" for rows
    using that by (induction rows) auto
  note u = upsert_snapshot_InrD [OF assms]
  show ?thesis
  proof (cases "\<exists>n \<in> set (agent_context_snapshots t). ?p n")
    case True
    with u upd [OF True] other show ?thesis by simp
  next
    case False
    with u new [of "agent_context_snapshots t"] show ?thesis by simp
  qed
qed

text \<open>
  a context snapshot reads back as it was written. A successful \<open>Put\<close> returns the snapshot with
  every field of the input, a later \<open>Get\<close> returns the same record, its timestamp is later than that
  of the snapshot it replaces and not before the wall clock, the agent exists, and the snapshots of
  the other agents and every other table are as before.
\<close>

theorem snapshot_Put_Get:
  assumes put: "snapshot_Put input w = (Inr rec, w')"
  shows "ns_AgentID rec = ni_AgentID input \<and> ns_CompactHistory rec = ni_CompactHistory input
    \<and> ns_HistoryRef rec = ni_HistoryRef input \<and> ns_PaneRevision rec = ni_PaneRevision input
    \<and> ns_SourceFingerprint rec = ni_SourceFingerprint input
    \<and> (w_faults w' = [] \<longrightarrow> snapshot_Get (ni_AgentID input) w' = (Inr (Some rec), w'))
    \<and> w_wall w \<le> ns_UpdatedAt rec
    \<and> (\<forall>n. find (\<lambda>n. n_agentID n = ni_AgentID input) (agent_context_snapshots (w_tables w)) = Some n
        \<longrightarrow> n_updatedAtMs n < ns_UpdatedAt rec)
    \<and> ni_AgentID input \<in> g_id ` set (agents (w_tables w))
    \<and> filter (\<lambda>n. n_agentID n \<noteq> ni_AgentID input) (agent_context_snapshots (w_tables w'))
      = filter (\<lambda>n. n_agentID n \<noteq> ni_AgentID input) (agent_context_snapshots (w_tables w))
    \<and> w_tables w' = (w_tables w)\<lparr>agent_context_snapshots := agent_context_snapshots (w_tables w')\<rparr>"
proof -
  let ?find = "\<lambda>t. find (\<lambda>n. n_agentID n = ni_AgentID input) (agent_context_snapshots t)"
  let ?now = "case ?find (w_tables w) of None \<Rightarrow> w_wall w
    | Some p \<Rightarrow> if w_wall w < n_updatedAtMs p + 1 then n_updatedAtMs p + 1 else w_wall w"
  have id: "n_agentID (snapshot_row input t) = ni_AgentID input" for t by (simp add: snapshot_row_def)
  from put obtain w1 w2 where
    prev: "snapshot_getRow (ni_AgentID input) w = (Inr (?find (w_tables w)), w1)" and
    exec: "exec_sql (upsert_snapshot (snapshot_row input ?now)) w1 = (Inr (), w2)" and
    get: "snapshot_Get (ni_AgentID input) w2 = (Inr (Some rec), w')"
    by (auto simp: snapshot_Put_def snapshot_getRow_def query_sql_Inr Let_def split: if_splits option.splits
      elim!: bind_act_InrE)
  from prev have w1: "w_tables w1 = w_tables w" by (simp add: snapshot_getRow_def query_sql_Inr)
  from exec have up: "upsert_snapshot (snapshot_row input ?now) (w_tables w) = Inr ((), w_tables w2)"
    by (auto simp: exec_sql_Inr w1)
  note found = find_upserted [OF up, unfolded id]
  from get have w': "w_tables w' = w_tables w2" and rec: "mapAgentContextSnapshot (snapshot_row input ?now) = Inr rec"
    using found by (auto simp: snapshot_Get_def snapshot_getRow_def query_sql_Inr of_sum_def
        split: option.splits sum.splits elim!: bind_act_InrE)
  note fields = map_snapshot_row [OF rec]
  have "snapshot_Get (ni_AgentID input) w' = (Inr (Some rec), w')" if "w_faults w' = []"
    using that found rec
    by (simp add: snapshot_Get_def snapshot_getRow_def query_sql_ok bind_act_def w' of_sum_def return_act_def)
  with found show ?thesis unfolding w' by (auto simp: fields split: option.split)
qed

definition sample_history :: CompactAgentHistory where
  "sample_history =
     \<lparr>ch_HistoryRef = None, ch_LastAssistantMessage = None, ch_LastToolResult = None,
      ch_LastUserMessage = None, ch_MessageCount = 0, ch_Source = None,
      ch_UnreadyReason = None, ch_UpdatedAt = None\<rparr>"

definition sample_snapshot :: AgentContextSnapshotInput where
  "sample_snapshot =
     \<lparr>ni_AgentID = ''ag'', ni_CompactHistory = sample_history, ni_HistoryRef = None,
      ni_PaneRevision = Some 3, ni_SourceFingerprint = None\<rparr>"

lemma sample_put: "\<exists>rec. fst (snapshot_Put sample_snapshot (sample_world [])) = Inr rec"
  by (simp add: snapshot_Put_def sample_snapshot_def snapshot_getRow_def snapshot_Get_def query_sql_ok exec_sql_def
      act_defs upsert_snapshot_def snapshot_row_def of_sum_def mapAgentContextSnapshot_def mapSourceFingerprint_def
      sample_tables_def sample_agent_def)

theorem snapshot_Put_Get_witness:
  "\<exists>rec. fst (snapshot_Get ''ag'' (snd (snapshot_Put sample_snapshot (sample_world [])))) = Inr (Some rec)
     \<and> ns_PaneRevision rec = Some 3 \<and> 10 \<le> ns_UpdatedAt rec"
proof -
  obtain rec where "snapshot_Put sample_snapshot (sample_world []) = (Inr rec, snd (snapshot_Put sample_snapshot (sample_world [])))"
    using sample_put by (metis prod.collapse)
  moreover have "w_faults (snd (snapshot_Put sample_snapshot (sample_world []))) = []"
    by (simp add: snapshot_Put_def sample_snapshot_def snapshot_getRow_def snapshot_Get_def query_sql_ok exec_sql_def
        act_defs upsert_snapshot_def snapshot_row_def of_sum_def mapAgentContextSnapshot_def mapSourceFingerprint_def
        sample_tables_def sample_agent_def)
  ultimately show ?thesis
    using snapshot_Put_Get [of sample_snapshot "sample_world []" rec] by (simp add: sample_snapshot_def)
qed

subsection \<open>Clearing the cache in batches\<close>

lemma set_dedup: "set (dedup_paths seen paths) = set paths - set seen"
  by (induction seen paths rule: dedup_paths.induct) auto

lemma distinct_dedup: "distinct (dedup_paths seen paths)"
  by (induction seen paths rule: dedup_paths.induct) (auto simp: set_dedup)

lemma concat_batches: "0 < n \<Longrightarrow> concat (batches n xs) = xs"
proof (induction n xs rule: batches.induct)
  case (1 n xs)
  then show ?case by (subst batches.simps) auto
qed

lemma length_batches: "0 < n \<Longrightarrow> length (batches n xs) = (length xs + n - 1) div n"
proof (induction n xs rule: batches.induct)
  case (1 n xs)
  show ?case
  proof (cases "length xs \<le> n")
    case True
    with 1 show ?thesis
      by (subst batches.simps) (cases xs; auto simp: batches.simps [of n "[]"] intro!: div_nat_eqI [symmetric])
  next
    case False
    then have "xs \<noteq> []" by auto
    have shift: "length xs + n - 1 = (length xs - 1) + n" using False 1(2) by linarith
    have "length (batches n (drop n xs)) = (length xs - 1) div n"
      using 1(1) [OF _ 1(2)] \<open>xs \<noteq> []\<close> False 1(2) by simp
    moreover have "length (batches n xs) = Suc (length (batches n (drop n xs)))"
      using \<open>xs \<noteq> []\<close> 1(2) batches.simps [of n xs] by simp
    ultimately show ?thesis unfolding shift using 1(2) by simp
  qed
qed

lemma delete_where_twice: "delete_where q (delete_where p rows) = delete_where (\<lambda>y. p y \<or> q y) rows"
  by (induction rows) (auto simp: delete_where_def)

lemma delete_cache_twice:
  "delete_cache q (snd (delete_cache p t))
    = (count_where (\<lambda>y. p y \<or> q y) (agent_history_cache t) - count_where p (agent_history_cache t),
       snd (delete_cache (\<lambda>y. p y \<or> q y) t))"
proof -
  have "count_where q (delete_where p rows) = count_where (\<lambda>y. p y \<or> q y) rows - count_where p rows" for rows
    by (induction rows) (auto simp: count_where_def delete_where_def)
  then show ?thesis by (simp add: delete_cache_def delete_where_twice)
qed

lemma delete_batches_eq:
  assumes "delete_batches d bs w = (r, w')"
  shows "\<exists>k \<le> length bs. w_tables w' = snd (delete_cache (\<lambda>y. y_sourcePath y \<in> set (concat (take k bs))) (w_tables w))
    \<and> (\<forall>n. r = Inr n \<longrightarrow> k = length bs \<and> w_faults w' = drop (length bs) (w_faults w)
         \<and> n = d + count_where (\<lambda>y. y_sourcePath y \<in> set (concat bs)) (agent_history_cache (w_tables w)))"
  using assms
proof (induction bs arbitrary: d w)
  case Nil
  then show ?case by (auto simp: return_act_def delete_cache_def delete_where_def count_where_def)
next
  case (Cons b bs)
  let ?p = "\<lambda>y. y_sourcePath y \<in> set b"
  obtain q w1 where del: "change_sql (delete_cache ?p) w = (q, w1)" by (cases "change_sql (delete_cache ?p) w")
  show ?case
  proof (cases q)
    case (Inl e)
    with del have "w_tables w1 = w_tables w"
      by (auto simp: change_sql_def exec_sql_def Let_def split: if_splits prod.splits)
    with Cons.prems del Inl show ?thesis
      by (intro exI [of _ 0]) (auto simp: delete_cache_def delete_where_def)
  next
    case (Inr a)
    with del have w1: "w_tables w1 = snd (delete_cache ?p (w_tables w))" "w_faults w1 = tl (w_faults w)"
      "a = count_where ?p (agent_history_cache (w_tables w))"
      by (auto simp: change_sql_Inr delete_cache_def)
    from Cons.prems del Inr have "delete_batches (d + a) bs w1 = (r, w')" by simp
    from Cons.IH [OF this] obtain k where k: "k \<le> length bs"
      "w_tables w' = snd (delete_cache (\<lambda>y. y_sourcePath y \<in> set (concat (take k bs))) (w_tables w1))"
      "\<forall>n. r = Inr n \<longrightarrow> k = length bs \<and> w_faults w' = drop (length bs) (w_faults w1)
        \<and> n = d + a + count_where (\<lambda>y. y_sourcePath y \<in> set (concat bs)) (agent_history_cache (w_tables w1))"
      by blast
    show ?thesis
      using k w1 arg_cong [OF delete_cache_twice [of "\<lambda>y. y_sourcePath y \<in> set (concat bs)" ?p "w_tables w"], of fst]
      by (intro exI [of _ "Suc k"]) (auto simp: delete_cache_twice drop_Suc delete_cache_def delete_where_twice)
  qed
qed

text \<open>
  clearing the cache in batches is the one deletion it stands for. The paths are deduplicated and
  deleted a hundred at a time; when the call succeeds it removed exactly the rows of the given paths,
  returns their number, and used one statement per started hundred of distinct paths. Whatever
  statement fails, the rows it removed are those of some of the given paths and no other table
  changed.
\<close>

theorem DeleteBySourcePaths_unbatched:
  assumes run: "DeleteBySourcePaths paths w = (r, w')"
  shows "(\<exists>deleted \<subseteq> set paths. w_tables w' = snd (delete_cache (\<lambda>y. y_sourcePath y \<in> deleted) (w_tables w)))
    \<and> (\<forall>n. r = Inr n \<longrightarrow> (n, w_tables w') = delete_cache (\<lambda>y. y_sourcePath y \<in> set paths) (w_tables w)
         \<and> w_faults w' = drop ((card (set paths) + 99) div 100) (w_faults w))"
proof -
  define unique where "unique = dedup_paths [] paths"
  define bs where "bs = batches 100 unique"
  have all: "set unique = set paths" "length unique = card (set paths)"
    using distinct_card [OF distinct_dedup [of "[]" paths]] by (simp_all add: unique_def set_dedup)
  have cat: "set (concat bs) = set paths"
    using concat_batches [of 100 unique] all by (simp add: bs_def)
  have len: "length bs = (card (set paths) + 99) div 100" by (simp add: bs_def length_batches all)
  have "delete_batches 0 bs w = (r, w')"
    using run by (simp add: DeleteBySourcePaths_def Let_def bs_def unique_def batches.simps [of _ "[]"] split: if_splits)
  from delete_batches_eq [OF this] obtain k where k: "k \<le> length bs"
    and tab: "w_tables w' = snd (delete_cache (\<lambda>y. y_sourcePath y \<in> set (concat (take k bs))) (w_tables w))"
    and res: "\<And>n. r = Inr n \<Longrightarrow> k = length bs \<and> w_faults w' = drop (length bs) (w_faults w)
      \<and> n = 0 + count_where (\<lambda>y. y_sourcePath y \<in> set (concat bs)) (agent_history_cache (w_tables w))"
    by blast
  have "set (concat (take k bs)) \<subseteq> set paths"
    unfolding cat [symmetric] using set_take_subset by fastforce
  with tab have "\<exists>deleted \<subseteq> set paths. w_tables w' = snd (delete_cache (\<lambda>y. y_sourcePath y \<in> deleted) (w_tables w))"
    by blast
  moreover have "(n, w_tables w') = delete_cache (\<lambda>y. y_sourcePath y \<in> set paths) (w_tables w)
      \<and> w_faults w' = drop ((card (set paths) + 99) div 100) (w_faults w)" if "r = Inr n" for n
    using res [OF that] tab unfolding cat len [symmetric] by (simp add: delete_cache_def cat del: set_concat)
  ultimately show ?thesis by blast
qed

definition cached_row :: "int \<Rightarrow> string \<Rightarrow> agentHistoryCacheRow" where
  "cached_row cacheID path =
     \<lparr>y_compactHistory = sample_history, y_formatterVersion = ''1'',
      y_historyRef = \<lparr>hr_Kind = HistoryRefDiscoveredFile, hr_Path = Some path, hr_Source = ''pi'',
        hr_Value = path\<rparr>,
      y_id = cacheID, y_sourceMtimeMs = 1, y_sourcePath = path, y_sourceSize = 1, y_updatedAtMs = 1\<rparr>"

definition cached_world :: world where
  "cached_world = (sample_world [])\<lparr>w_tables := (sample_tables [])
     \<lparr>agent_history_cache := [cached_row 1 ''a'', cached_row 2 ''c'']\<rparr>\<rparr>"

theorem DeleteBySourcePaths_unbatched_witness:
  "fst (DeleteBySourcePaths [''a'', ''b'', ''a''] cached_world) = Inr 1
   \<and> agent_history_cache (w_tables (snd (DeleteBySourcePaths [''a'', ''b'', ''a''] cached_world))) = [cached_row 2 ''c'']"
proof -
  have ran: "fst (DeleteBySourcePaths [''a'', ''b'', ''a''] cached_world) = Inr 1"
    by (simp add: DeleteBySourcePaths_def batches.simps change_sql_ok bind_act_def return_act_def delete_cache_def
        cached_world_def cached_row_def count_where_def)
  obtain r w' where run: "DeleteBySourcePaths [''a'', ''b'', ''a''] cached_world = (r, w')"
    by (rule prod.exhaust)
  with ran have "w_tables w' = snd (delete_cache (\<lambda>y. y_sourcePath y \<in> set [''a'', ''b'', ''a'']) (w_tables cached_world))"
    using DeleteBySourcePaths_unbatched [OF run] by (metis fst_conv snd_conv)
  then have "agent_history_cache (w_tables w') = [cached_row 2 ''c'']"
    by (simp add: cached_world_def delete_cache_def delete_where_def cached_row_def)
  with ran run show ?thesis by simp
qed

end
