(* ===== verification/IndexContract.thy ===== *)
theory IndexContract
  imports IndexService ScanContract PlanContract ScopeContract
begin

text \<open>
  The composition of the stores under the index service. \<open>daemon_ok\<close> joins the invariants of the
  event, agent, plan and scope tables; \<open>daemon_moves\<close> is the discipline all of their statements
  respect together. Every operation of the index service is shown to move the committed tables along
  it, provided what runs while it waits does.
\<close>

subsection \<open>One discipline for all stores\<close>

definition daemon_ok :: "tables \<Rightarrow> bool" where
  "daemon_ok t \<longleftrightarrow> events_ok t \<and> index_ok t \<and> plans_ok t \<and> scopes_ok t"

definition daemon_evolve :: "tables \<Rightarrow> tables \<Rightarrow> bool" where
  "daemon_evolve t t' \<longleftrightarrow> events_evolve t t' \<and> plans_evolve t t'"

abbreviation "daemon_moves \<equiv> guarded daemon_ok daemon_evolve"

interpretation dmn: guarded_discipline daemon_evolve daemon_ok
proof
  fix t u v :: tables
  assume "daemon_evolve t u" "daemon_evolve u v"
  then show "daemon_evolve t v"
    unfolding daemon_evolve_def by (metis events_evolve_trans plans_evolve_trans)
qed (simp add: daemon_evolve_def life.refl_Q plife.refl_Q)

text \<open>The plan store leaves the tables of the other invariants alone.\<close>

definition beside_plans :: "tables \<Rightarrow> agentEventRow list \<times> int \<times> agentRow list \<times> sessionRow list
    \<times> agentContextSnapshotRow list \<times> scopeRow list" where
  "beside_plans t = (agent_events t, agent_events_seq t, agents t, herdr_sessions t,
     agent_context_snapshots t, agent_orchestrator_scopes t)"

definition plans_quiet :: "tables \<Rightarrow> tables \<Rightarrow> bool" where
  "plans_quiet t t' \<longleftrightarrow> plans_evolve t t' \<and> beside_plans t' = beside_plans t"

interpretation pqui: plan_discipline plans_quiet "\<lambda>_ _. True"
proof
  fix t u v :: tables
  assume "plans_quiet t u" "plans_quiet u v"
  then show "plans_quiet t v" unfolding plans_quiet_def by (metis plans_evolve_trans)
next
  fix t :: tables and c f
  assume ok: "plans_ok t" and step: "\<And>p. p \<in> set (status_event_plans t) \<Longrightarrow> c p \<Longrightarrow> plan_row_step p (f p) \<and> True"
  from plife.Q_update [OF ok step] show "plans_quiet t (snd (update_plans c f t))"
    by (simp add: plans_quiet_def update_plans_eq beside_plans_def)
next
  fix t u :: tables and input fs ts now planID
  assume ok: "plans_ok t" and ins: "insert_plan (pending_row input fs ts now) t = Inr (planID, u)"
  from plife.Q_insert [OF ok ins] ins show "plans_quiet t u"
    by (auto simp: plans_quiet_def insert_plan_def beside_plans_def Let_def split: if_splits)
next
  fix t :: tables and c
  assume ok: "plans_ok t"
  from plife.Q_delete [OF ok] show "plans_quiet t (snd (delete_plans c t))"
    by (simp add: plans_quiet_def delete_plans_def beside_plans_def)
qed (simp_all add: plans_quiet_def plife.refl_Q)

text \<open>Each store's discipline is one of the joint tables.\<close>

lemma plans_ok_kept: "plans_and_scopes u = plans_and_scopes t \<Longrightarrow> plans_ok t \<Longrightarrow> plans_ok u"
  by (simp add: plans_ok_def plans_and_scopes_def)

lemma scopes_ok_kept: "plans_and_scopes u = plans_and_scopes t \<Longrightarrow> scopes_ok t \<Longrightarrow> scopes_ok u"
  by (simp add: scopes_ok_def plans_and_scopes_def)

lemma daemon_of_index: "index_moves t u \<Longrightarrow> daemon_moves t u"
  using plans_ok_kept [of u t] scopes_ok_kept [of u t]
  by (auto simp: guarded_def index_evolve_def daemon_ok_def daemon_evolve_def plans_evolve_def plans_and_scopes_def)

lemma daemon_of_plans:
  assumes "pqui.P t u"
  shows "daemon_moves t u"
proof (rule guardedI)
  assume ok: "daemon_ok t"
  with assms have u: "plans_ok u" "plans_evolve t u" and same: "beside_plans u = beside_plans t"
    by (auto simp: guarded_def plans_quiet_def daemon_ok_def)
  show "daemon_ok u \<and> daemon_evolve t u"
    using ok u same by (simp add: daemon_ok_def daemon_evolve_def events_ok_def events_evolve_def index_ok_def
      agents_constraints_def scopes_ok_def beside_plans_def) (blast intro: row_step_refl)
qed

lemma daemon_of_scopes:
  assumes "scope_moves t u"
  shows "daemon_moves t u"
proof (rule guardedI)
  assume ok: "daemon_ok t"
  with assms have u: "scopes_ok u" "u = t\<lparr>agent_orchestrator_scopes := agent_orchestrator_scopes u\<rparr>"
    by (auto simp: guarded_def only_scopes_def daemon_ok_def)
  have same: "agent_events u = agent_events t" "agent_events_seq u = agent_events_seq t" "agents u = agents t"
    "herdr_sessions u = herdr_sessions t" "agent_context_snapshots u = agent_context_snapshots t"
    "status_event_plans u = status_event_plans t" "status_event_plans_seq u = status_event_plans_seq t"
    by (subst u(2), simp)+
  show "daemon_ok u \<and> daemon_evolve t u"
    using ok u(1) by (simp add: daemon_ok_def daemon_evolve_def events_ok_def events_evolve_def index_ok_def
      agents_constraints_def plans_ok_def plans_evolve_def same) (blast intro: row_step_refl plan_row_step_refl)
qed

lemma durable_daemon:
  "moves (durable index_moves) m \<Longrightarrow> moves (durable daemon_moves) m"
  "moves (durable pqui.P) m \<Longrightarrow> moves (durable daemon_moves) m"
  "moves (durable scope_moves) m \<Longrightarrow> moves (durable daemon_moves) m"
  unfolding moves_def durable_def using daemon_of_index daemon_of_plans daemon_of_scopes by blast+

lemma inside_daemon:
  "moves (inside index_moves) m \<Longrightarrow> moves (inside daemon_moves) m"
  "moves (inside pqui.P) m \<Longrightarrow> moves (inside daemon_moves) m"
  unfolding moves_def inside_def using daemon_of_index daemon_of_plans by blast+

lemmas inside_durable = inside_daemon [THEN dmn.grd.durable_of_inside]

subsection \<open>What the index service relies on\<close>

text \<open>The rest of the daemon, which runs while the service waits, moves the tables along \<open>D\<close> too.\<close>

definition service_along :: "(tables \<Rightarrow> tables \<Rightarrow> bool) \<Rightarrow> AgentIndexService \<Rightarrow> bool" where
  "service_along D sv \<longleftrightarrow>
     (\<forall>lookup options w. durable D w (snd (hv_ResolveCompactHistory (iv_history sv) lookup options w)))
     \<and> (\<forall>n s. x_durable D s (iv_meanwhile sv n s))
     \<and> (\<forall>wait input s. iv_waitForSignal sv = Some wait \<longrightarrow> x_durable D s (snd (wait input s)))
     \<and> (\<forall>path s. x_durable D s (snd (iv_sessionSnapshot sv path s)))"

lemma moves_case_prod [moves_rules]:
  "(\<And>a b. moves R (f a b)) \<Longrightarrow> moves R (case p of (a, b) \<Rightarrow> f a b)"
  by (cases p) simp

text \<open>
  The contract of the stores as the index service uses them: the laws of its writes over a relation
  \<open>D\<close> on tables. Reads need no law.
\<close>

locale index_stores = table_discipline D for D :: "tables \<Rightarrow> tables \<Rightarrow> bool" +
  assumes store_events: "moves (durable D) (Append appended)" "moves (durable D) (MarkAcked eventID ackScope)"
      "moves (durable D) (InvalidateByID eventID reason)" "moves (durable D) (InvalidatePane pane_input)"
    and store_plans: "moves (durable D) (MarkRetry planID message retry)" "moves (durable D) (MarkCompleted planID)"
      "moves (durable D) (MarkCancelled planID)" "moves (durable D) (MarkRunning planID)"
      "moves (durable D) ResetRunningToPending" "moves (durable D) (InsertPending planned)"
    and store_agents: "moves (durable D) (ReplaceForSession session reported)"
      "moves (durable D) (ClearLegacyPaneTombstone session pane)"
      "moves (durable D) (SetSessionRefByTerminal ref session terminalID)"
      "moves (durable D) (RetirePane session generation pane)"
      "moves (durable D) (UpdateStatus status session generation pane)"
    and store_scans: "moves (durable D) (UpsertRunning session dir socket)"
      "moves (durable D) (workspace_ReplaceForSession session workspaces)" "moves (durable D) (snapshot_Put snapshot)"
    and store_scopes: "moves (durable D) (ReleaseIfOwnerIdentity identity)"
    and store_status: "moves (durable D) (status_and_plan agent from_status to_status eventKey generation session pane)"
begin

sublocale svc: state_preorder "x_durable D"
  by unfold_locales (auto simp: x_durable_def intro: dur.refl_R dur.trans_R)

abbreviation "ok \<equiv> moves (x_durable D)"

lemma ok_same_world: "(\<And>s. x_world (f s) = x_world s) \<Longrightarrow> ok (modify_act f)"
  by (rule svc.moves_modify) (simp add: x_durable_def dur.refl_R)

lemma ok_db: "moves (durable D) m \<Longrightarrow> ok (db m)"
  by (rule moves_db)

lemma ok_read [moves_rules]: "moves (inside D) m \<Longrightarrow> ok (db m)"
  by (rule moves_db) (rule durable_of_inside)

lemma ok_try [moves_rules]: "ok m \<Longrightarrow> ok (try_err m)"
  unfolding try_err_def by (intro moves_rules)

lemma ok_status [moves_rules]:
  "ok a \<Longrightarrow> ok b \<Longrightarrow> ok c \<Longrightarrow> ok d \<Longrightarrow> ok e \<Longrightarrow> ok f \<Longrightarrow> ok (case st of StatusPlanPending \<Rightarrow> a
    | StatusPlanRunning \<Rightarrow> b | StatusPlanCompleted \<Rightarrow> c | StatusPlanCancelled \<Rightarrow> d | StatusPlanFailed \<Rightarrow> e
    | StatusPlanDiscarded \<Rightarrow> f)"
  by (cases st) simp_all

lemma of_sum_inside [moves_rules]: "moves (inside D) (of_sum v)"
  by (cases v) (simp_all add: of_sum_def moves_rules)

subsection \<open>Reads\<close>

lemma event_reads [moves_rules]:
  "moves (inside D) (get_event eventID)"
  "moves (inside D) (LatestStatusTransition agentID session)"
  "moves (inside D) (HasTerminalEventAfter agentID session eventID)"
  "moves (inside D) (LatestTerminalEvent agentID session)"
  "moves (inside D) (LatestCompletedTurnEvent agentID session)"
  "moves (inside D) (LatestPaneEventScope session pane generation createdBefore)"
  "moves (inside D) (EventIDByIdempotencyKey key)"
  "moves (inside D) (PaneEventTail session pane generation createdBefore limit)"
  "moves (inside D) (PaneDeliveredTerminalBodies session pane generation createdBefore limit)"
  "moves (inside D) (PlanOutcomeEventExists session key)"
  "moves (inside D) (DeliveredTerminalHistories agentID session limit)"
  unfolding get_event_def LatestStatusTransition_def HasTerminalEventAfter_def LatestTerminalEvent_def
    LatestCompletedTurnEvent_def LatestPaneEventScope_def EventIDByIdempotencyKey_def PaneEventTail_def
    PaneDeliveredTerminalBodies_def PlanOutcomeEventExists_def DeliveredTerminalHistories_def
  by (intro moves_rules)+

lemma agent_reads [moves_rules]:
  "moves (inside D) (agent_Get agentID)"
  "moves (inside D) (agent_Exists agentID)"
  "moves (inside D) (FindByPane session generation pane)"
  "moves (inside D) (FindByTerminal session terminalID)"
  "moves (inside D) (IsPaneClosed session generation pane)"
  "moves (inside D) (HasGenerationScopedTombstone session g pane)"
  "moves (inside D) (ListForHerdrSession session)"
  "moves (inside D) (List_agents query)"
  unfolding agent_Get_def agent_Exists_def FindByPane_def FindByTerminal_def IsPaneClosed_def PaneClosedAt_def
    HasGenerationScopedTombstone_def ListForHerdrSession_def List_agents_def one_agent_def agent_record_def Let_def
  by (intro moves_rules)+

lemma other_reads [moves_rules]:
  "moves (inside D) (plan_Get planID)"
  "moves (inside D) (LatestStalledDiscard agentID session)"
  "moves (inside D) (HasCompletedPlanAfter agentID session planID)"
  "moves (inside D) ListUnfinished" "moves (inside D) ListFailed" "moves (inside D) ListDiscarded"
  "moves (inside D) (scope_Get scope)"
  "moves (inside D) (snapshot_Get agentID)"
  "moves (inside D) (ListByAgentIds ids)"
  unfolding plan_Get_def plan_getRow_def LatestStalledDiscard_def HasCompletedPlanAfter_def ListUnfinished_def
    ListFailed_def ListDiscarded_def plans_where_def scope_Get_def getRow_def snapshot_Get_def snapshot_getRow_def ListByAgentIds_def
  by (intro moves_rules)+

lemma drain_candidate_read: "moves (durable D) (drain_candidate planID)"
  unfolding drain_candidate_def by (intro moves_rules)

lemma pane_stays_closed_read [moves_rules]: "moves (inside D) (pane_stays_closed session generation pane)"
  unfolding pane_stays_closed_def by (intro moves_rules)

lemma store_snapshot_ok: "moves (durable D) (store_snapshot input)"
  unfolding store_snapshot_def Let_def by (intro moves_rules store_scans)

lemma occupied_read [moves_rules]: "moves (inside D) (occupiedForAgent agent)"
  unfolding occupiedForAgent_def Let_def by (intro moves_rules)

subsection \<open>The operations of the service\<close>

lemma ok_clock [moves_rules]: "ok clock_now" "ok (is_aborted controller)" "ok (mutation_epoch session)"
  unfolding clock_now_def is_aborted_def mutation_epoch_def by (intro moves_rules)+

lemma ok_bookkeeping [moves_rules]:
  "ok (clearWaitingTimer planID keep)" "ok (drop_trackers planID)" "ok (noteEmptyTurnAlert session pane)"
  "ok (noteGuardWindowSaturated agentID session)" "ok (noteSalvageWindowSaturated session pane2)"
  "ok (registerActiveWaiter agent controller)" "ok (abortPendingWaiters session2 pane2 generation)"
  "ok (incrementMutationEpoch session)"
  unfolding clearWaitingTimer_def drop_trackers_def noteEmptyTurnAlert_def noteGuardWindowSaturated_def
    noteSalvageWindowSaturated_def registerActiveWaiter_def abortPendingWaiters_def incrementMutationEpoch_def Let_def
  by (rule ok_same_world; simp)+

lemma ok_publish [moves_rules]: "ok (publishPlanEvent event)"
  unfolding publishPlanEvent_def by (intro moves_rules ok_same_world) simp

lemma ok_controller [moves_rules]: "ok newWaiterController" "ok (throwIfShutdownAbort controller)"
  "ok (remember_occupied agentID occupied)" "ok (track_window planID created working t)"
  "ok (track_progress sv planID working fingerprint t)" "ok (open_client sv path)"
  unfolding newWaiterController_def by (intro moves_rules ok_same_world, simp)
    (rule movesI; simp add: throwIfShutdownAbort_def remember_occupied_def track_window_def track_progress_def
      open_client_def x_durable_def dur.refl_R Let_def split: option.split)+

lemma ok_lookups [moves_rules]: "ok (isPaneClosedFor agent)" "ok (abortedOrPaneClosed agent controller)"
  "ok (find_by_pane_of agent)" "ok (findLiveAgent agent)" "ok (latest_completed_ref agentID session)"
  "ok eval_symlinks" "ok (GetAgentSnapshot agentID)" "ok (OccupiedSessionPathsFor agent)"
  unfolding isPaneClosedFor_def abortedOrPaneClosed_def find_by_pane_of_def findLiveAgent_def latest_completed_ref_def
    eval_symlinks_def GetAgentSnapshot_def OccupiedSessionPathsFor_def
  by (intro moves_rules)+

lemma ok_isAgentStalled [moves_rules]: "ok (isAgentStalled agentID session)"
  unfolding isAgentStalled_def completed_after_discard_def by (intro moves_rules)

lemma ok_appendAndAck [moves_rules]: "ok (appendAndAckSelfEvent input)"
  unfolding appendAndAckSelfEvent_def Let_def by (intro moves_rules ok_same_world ok_db [OF store_events(1)] ok_db [OF store_events(2)]) simp

lemma ok_outcome_agent [moves_rules]:
  "ok (minimalAgentFromLatestEvent agentID created session generation pane)"
  "ok (resolvePlanOutcomeAgent agent createdAt)"
  unfolding resolvePlanOutcomeAgent_def minimalAgentFromLatestEvent_def by (intro moves_rules)+

lemma ok_outcome_events [moves_rules]: "ok (appendPlanFailedEvent outcome)" "ok (appendPlanDiscardedEvent outcome)"
  unfolding appendPlanFailedEvent_def appendPlanDiscardedEvent_def Let_def by (intro moves_rules)+

lemma ok_late [moves_rules]: "ok (reconcileLateCompletion agent history)"
  unfolding reconcileLateCompletion_def by (intro moves_rules)

lemma ok_salvage [moves_rules]: "ok (salvage_and_publish row)"
  unfolding salvage_and_publish_def salvageOrCancelMissingAgentPlan_def salvage_and_complete_def
    salvageOrphanTerminalEvent_def orphanScopeDeliverable_def salvageableTerminalBody_def
  by (intro moves_rules ok_db store_plans)

lemma ok_backfill [moves_rules]: "ok backfillFailedPlanEvents" "ok backfillDiscardedPlanEvents"
  unfolding backfillFailedPlanEvents_def backfillDiscardedPlanEvents_def backfill_failed_row_def
    backfill_discarded_row_def backfill_agent_def resolveBackfillAgent_def
  by (intro moves_rules ok_db [OF store_events(2)])+

lemma ok_markPlanRetry [moves_rules]: "ok (markPlanRetry sv planID plan err history options)"
  unfolding markPlanRetry_def Let_def by (intro moves_rules ok_db [OF store_plans(1)])

lemma ok_schedule [moves_rules]: "ok (rearm_if_waiting sv planID plan err)"
  unfolding rearm_if_waiting_def scheduleWaitingHistoryRetry_def Let_def by (intro moves_rules ok_same_world) simp

lemma ok_resolve: "service_along D sv \<Longrightarrow> ok (db (resolve_history (iv_history sv) lookup options))"
  by (rule moves_db, rule movesI) (simp add: resolve_history_def service_along_def prod.case_eq_if)

lemma ok_RefreshAgent [moves_rules]: "service_along D sv \<Longrightarrow> ok (RefreshAgent sv input)"
  unfolding RefreshAgent_def Let_def by (intro moves_rules ok_resolve ok_db [OF store_snapshot_ok])

lemma ok_refreshed [moves_rules]: "service_along D sv \<Longrightarrow> ok (refreshedCompactHistory sv agent)"
  unfolding refreshedCompactHistory_def force_refresh_def by (intro moves_rules)

lemma ok_pause [moves_rules]: "service_along D sv \<Longrightarrow> ok (pause sv)"
  unfolding pause_def by (rule svc.moves_modify) (simp add: service_along_def x_durable_def)

lemma ok_sleep [moves_rules]: "service_along D sv \<Longrightarrow> ok (sleep_ms sv ms controller)"
proof -
  have "ok (modify_act (\<lambda>s. s\<lparr>x_world := advance_clock t (x_world s)\<rparr>))" for t
    by (rule svc.moves_modify)
      (simp add: x_durable_def durable_def advance_clock_def committed_def refl_Q split: option.split)
  then show "service_along D sv \<Longrightarrow> ?thesis" unfolding sleep_ms_def by (intro moves_rules)
qed

lemma ok_turn_wait: "service_along D sv \<Longrightarrow> iv_waitForSignal sv = Some wait \<Longrightarrow> ok (turn_wait wait input)"
  by (rule movesI) (simp add: turn_wait_def prod.case_eq_if service_along_def x_durable_def)

lemma ok_snapshot [moves_rules]: "service_along D sv \<Longrightarrow> ok (request_snapshot sv path)"
  by (rule movesI) (auto simp: request_snapshot_def service_along_def split: prod.split sum.split; metis snd_conv)

subsubsection \<open>Appending the events of a transition\<close>

lemma ok_phases [moves_rules]:
  "ok m \<Longrightarrow> (\<And>a. ok (k a)) \<Longrightarrow> ok (bind_phase m k)"
  "ok (abort_exit controller)"
  "ok n \<Longrightarrow> ok (unless_aborted agent controller n)"
  unfolding bind_phase_def abort_exit_def unless_aborted_def by (intro moves_rules; assumption)+

lemma ok_duplicate [moves_rules]: "ok (duplicate_check input latest)"
  unfolding duplicate_check_def legacy_duplicate_def Let_def by (intro moves_rules)

lemma ok_in_flight [moves_rules]: "service_along D sv \<Longrightarrow> ok (tool_use_phase sv input controller)"
proof -
  assume along: "service_along D sv"
  have round: "ok (in_flight_round sv agent controller deadline)" for agent deadline
    unfolding in_flight_round_def by (intro moves_rules along ok_same_world) simp
  have "ok (in_flight_rounds sv n agent controller deadline)" for n agent deadline
    by (induction n) (auto intro!: moves_rules round)
  then show ?thesis
    unfolding tool_use_phase_def waitForInFlightToolUseResolution_def
    by (intro moves_rules) (auto intro: moves_rules split: inFlightToolUseResolution.split)
qed

lemma ok_history_advance [moves_rules]:
  assumes along: "service_along D sv"
  shows "ok (waitForHistoryAdvance sv agent baseline controller initial change)"
proof -
  have "ok (history_rounds sv n agent controller baseline change start refreshed)" for n start refreshed
    by (induction n arbitrary: refreshed) (auto intro!: moves_rules along)
  then show ?thesis unfolding waitForHistoryAdvance_def by (intro moves_rules along)
qed

lemma ok_release [moves_rules]: "ok (logDegradedRelease plan)" "ok (apply_release input confirmed advanced decision)"
proof -
  show log: "ok (logDegradedRelease plan)" for plan unfolding logDegradedRelease_def by (intro moves_rules)
  show "ok (apply_release input confirmed advanced decision)"
    unfolding apply_release_def degradeOrRelease_def by (cases decision; simp) (intro moves_rules log conjI impI)+
qed

lemma ok_turns [moves_rules]:
  assumes along: "service_along D sv"
  shows "ok (received_turn sv input controller isRetry baseline emitted turn)"
    "ok (unsignalled_turn sv input controller isRetry baseline)"
  unfolding received_turn_def late_received_def unsignalled_turn_def Let_def by (intro moves_rules along)+

lemma ok_turn_phase [moves_rules]:
  assumes along: "service_along D sv" and "iv_waitForSignal sv = Some wait"
  shows "ok (turn_phase sv wait input controller terminalID history)"
  unfolding turn_phase_def Let_def by (intro moves_rules along ok_turn_wait [OF along assms(2)])

lemma ok_ready [moves_rules]:
  assumes along: "service_along D sv"
  shows "ok (ready_phase sv input controller terminalID history)"
proof -
  have ready: "ok (isReadyNonPi input h)" for h unfolding isReadyNonPi_def Let_def by (intro moves_rules)
  have "ok (ready_rounds sv n input controller terminalID h)" for n h
    by (induction n arbitrary: h) (auto simp: ready_wait_def Let_def intro!: moves_rules along ready)
  then show ?thesis
    unfolding ready_phase_def settle_gate_def isAlreadyDeliveredCompletedTurn_def by (intro moves_rules ready)
qed

lemma ok_wait_phase [moves_rules]:
  assumes along: "service_along D sv"
  shows "ok (wait_phase sv input controller history)"
proof (cases "iv_waitForSignal sv")
  case None
  then show ?thesis unfolding wait_phase_def Let_def by (simp add: moves_rules along)
next
  case (Some wait)
  then show ?thesis unfolding wait_phase_def Let_def by (simp add: moves_rules along)
qed

lemma ok_append_phase [moves_rules]: "ok (append_phase input controller rel skipStatusChanged observationID)"
  unfolding append_phase_def append_events_def Let_def by (intro moves_rules)

lemma ok_with_waiter: "(\<And>c. ok (f c)) \<Longrightarrow> ok (with_waiter agent f)"
proof -
  assume f: "\<And>c. ok (f c)"
  have "ok (\<lambda>s. case f c s of (r, s') \<Rightarrow> (r, snd (unregisterWaiter agent c s')))" for c
    by (rule movesI) (use f [of c] in \<open>simp add: moves_def unregisterWaiter_def modify_act_def x_durable_def prod.case_eq_if\<close>)
  then show ?thesis unfolding with_waiter_def by (intro moves_rules)
qed

lemma ok_appendStatusEvents [moves_rules]: "service_along D sv \<Longrightarrow> ok (appendStatusEvents sv input)"
  unfolding appendStatusEvents_def waiting_phases_def by (intro moves_rules ok_with_waiter ok_same_world) simp

subsubsection \<open>Running plans\<close>

lemma ok_settle [moves_rules]:
  "ok (settle_updated sv planID plan err updated outcome)"
  "ok (retry_and_settle sv row plan err history options)"
  "ok (salvage_closed row)"
  unfolding retry_and_settle_def settle_updated_def salvage_closed_def by (intro moves_rules)+

lemma ok_run_exits [moves_rules]:
  "ok (generic_failure sv row plan err history options)"
  "ok (finish_run sv row plan history options event)"
  unfolding generic_failure_def finish_run_def
  by (intro moves_rules ok_db [OF store_plans(2)] ok_db [OF store_events(3)])+

lemma ok_runPlanRow [moves_rules]: "service_along D sv \<Longrightarrow> ok (runPlanRow sv row plan options)"
  unfolding runPlanRow_def run_active_def Let_def by (intro moves_rules ok_db [OF store_plans(4)])

lemma ok_retry_ring [moves_rules]:
  assumes along: "service_along D sv"
  shows "ok (retryWaitingPlanRow sv planID plan)" "ok (retry_timer_fires sv planID plan)"
  unfolding retry_timer_fires_def retryWaitingPlanRow_def Let_def by (intro moves_rules along)+

lemma ok_run_all: "(\<And>p. ok (f p)) \<Longrightarrow> ok (run_all f ps)"
  by (induction ps) (auto intro!: moves_rules)

lemma ok_execute [moves_rules]:
  assumes along: "service_along D sv"
  shows "ok (ExecuteStatusEventPlan sv plan)" "ok (runStatusEventPlans sv plans)"
proof -
  show "ok (ExecuteStatusEventPlan sv plan)" for plan
    unfolding ExecuteStatusEventPlan_def by (intro moves_rules along ok_db [OF store_plans(6)])
  then show "ok (runStatusEventPlans sv plans)"
    unfolding runStatusEventPlans_def by (intro moves_rules ok_run_all)
qed

lemma ok_drain [moves_rules]:
  assumes along: "service_along D sv"
  shows "ok (DrainPendingPlans sv options)"
proof -
  have "ok (drainPlanRow sv ro row)" for ro row
    unfolding drainPlanRow_def drain_agent_def drain_unrefreshed_def Let_def
    by (intro moves_rules along ok_db [OF drain_candidate_read])
  then show ?thesis
    unfolding DrainPendingPlans_def by (intro moves_rules ok_run_all ok_db [OF store_plans(5)])
qed

subsubsection \<open>Sessions\<close>

lemma ok_store_scan [moves_rules]: "ok (store_scan session dir path snapshot)"
proof -
  have "ok (keep_open session reported)" for reported
    by (induction reported) (auto simp: isClosedPaneAgent_def intro!: moves_rules)
  then show ?thesis
    unfolding store_scan_def clear_legacy_def Let_def by (intro moves_rules ok_db store_agents store_scans)
qed

lemma ok_refresh_each [moves_rules]:
  assumes along: "service_along D sv"
  shows "ok (refresh_each sv session previous occupied current st)"
proof -
  have "ok (refresh_one sv session previous occupied agent st)" for agent st
    unfolding refresh_one_def refresh_if_dirty_def Let_def by (intro moves_rules along)
  then show ?thesis by (induction current arbitrary: st) (auto intro!: moves_rules)
qed

lemma ok_refreshNow [moves_rules]: "service_along D sv \<Longrightarrow> ok (refreshHerdrSessionNow sv session dir path)"
  unfolding refreshHerdrSessionNow_def adopt_pending_def Let_def
  by (intro moves_rules ok_same_world ok_db [OF store_agents(3)]; simp)

lemma ok_pane_closed [moves_rules]: "service_along D sv \<Longrightarrow> ok (handlePaneClosed sv input pane event)"
proof -
  have "ok (release_retired pane terminal retired scopes)" for terminal retired scopes
    by (induction retired arbitrary: scopes) (auto simp: Let_def intro!: moves_rules ok_db [OF store_scopes])
  then show "service_along D sv \<Longrightarrow> ?thesis"
    unfolding handlePaneClosed_def rescue_late_def Let_def
    by (intro moves_rules ok_db [OF store_events(4)] ok_db [OF store_agents(4)])
qed

lemma ok_handle_event [moves_rules]: "service_along D sv \<Longrightarrow> ok (handleHerdrEventNow sv input)"
  unfolding handleHerdrEventNow_def locate_agent_def status_changed_def record_status_def Let_def prod.case_eq_if
  by (intro moves_rules ok_db [OF store_agents(5)] ok_db [OF store_status])

lemma ok_register [moves_rules]: "service_along D sv \<Longrightarrow> ok (registerPiSessionRefNow sv session ref terminalID)"
  unfolding registerPiSessionRefNow_def Let_def by (intro moves_rules ok_same_world ok_db [OF store_agents(3)]; simp)

lemma ok_public:
  assumes along: "service_along D sv"
  shows "ok (RefreshHerdrSession sv session dir path)" "ok (RefreshHerdrSessionFast sv session dir path)"
    "ok (HandleHerdrEventFast sv input)" "ok (HandleHerdrEvent sv input)"
    "ok (RegisterPiSessionRef sv session ref terminalID)" "ok (ExecuteStatusEventPlan sv plan)"
    "ok (DrainPendingPlans sv options)" "ok (retry_timer_fires sv planID plan)"
  unfolding RefreshHerdrSession_def RefreshHerdrSessionFast_def HandleHerdrEventFast_def HandleHerdrEvent_def
    RegisterPiSessionRef_def
  by (intro moves_rules along)+

end
subsection \<open>The daemon's stores keep the contract\<close>

interpretation daemon: index_stores daemon_moves
proof unfold_locales
  show "moves (durable daemon_moves) (Append input)" for input by (rule inside_durable(1)) (rule idx.moves_Append)
  show "moves (durable daemon_moves) (MarkAcked eventID ackScope)" for eventID ackScope
    by (rule inside_durable(1)) (rule idx.moves_single_statements)
  show "moves (durable daemon_moves) (InvalidateByID eventID reason)" for eventID reason
    by (rule inside_durable(1)) (rule idx.moves_single_statements)
  show "moves (durable daemon_moves) (InvalidatePane input)" for input
    by (rule durable_daemon(1)) (rule idx.durable_transactions)
  show "moves (durable daemon_moves) (MarkRetry planID message retry)" for planID message retry
    by (rule inside_durable(2)) (rule pqui.moves_MarkRetry, simp)
  show "moves (durable daemon_moves) (MarkCompleted planID)" "moves (durable daemon_moves) (MarkCancelled planID)"
    "moves (durable daemon_moves) (MarkRunning planID)" for planID
    by (rule inside_durable(2), rule pqui.moves_plan_statuses)+
  show "moves (durable daemon_moves) ResetRunningToPending"
    by (rule inside_durable(2), rule pqui.moves_plan_statuses)
  show "moves (durable daemon_moves) (InsertPending input)" for input
    by (rule inside_durable(2), rule pqui.moves_InsertPending)
  show "moves (durable daemon_moves) (ReplaceForSession session reported)" for session reported
    by (rule durable_daemon(1), unfold ReplaceForSession_def, intro moves_rules moves_replaceCore)
  show "moves (durable daemon_moves) (ClearLegacyPaneTombstone session pane)" for session pane
    by (rule inside_durable(1)) (rule moves_ClearLegacy)
  show "moves (durable daemon_moves) (SetSessionRefByTerminal ref session terminalID)" for ref session terminalID
    by (rule inside_durable(1)) (rule moves_SetSessionRef)
  show "moves (durable daemon_moves) (RetirePane session generation pane)" for session generation pane
    by (rule durable_daemon(1), unfold RetirePane_def, rule idx.grd.durable_tx, rule moves_retirePaneCore)
  show "moves (durable daemon_moves) (UpdateStatus status session generation pane)" for status session generation pane
    by (rule inside_durable(1)) (rule moves_UpdateStatus)
  show "moves (durable daemon_moves) (UpsertRunning session dir socket)" for session dir socket
    by (rule inside_durable(1)) (rule moves_scan_operations)
  show "moves (durable daemon_moves) (workspace_ReplaceForSession session workspaces)" for session workspaces
    by (rule inside_durable(1)) (rule moves_scan_operations)
  show "moves (durable daemon_moves) (snapshot_Put snapshot)" for snapshot
    by (rule inside_durable(1)) (rule moves_scan_operations)
  show "moves (durable daemon_moves) (ReleaseIfOwnerIdentity identity)" for identity
    by (rule durable_daemon(3)) (rule scope_durable)
  show "moves (durable daemon_moves) (status_and_plan agent from_status to_status eventKey generation session pane)"
    for agent from_status to_status eventKey generation session pane
  proof -
    have "moves (inside daemon_moves) (UpdateStatus st session generation pane)" for st
      by (rule inside_daemon(1)) (rule moves_UpdateStatus)
    moreover have "moves (inside daemon_moves) (InsertPending input)" for input
      by (rule inside_daemon(2)) (rule pqui.moves_InsertPending)
    ultimately show ?thesis unfolding status_and_plan_def Let_def by (intro moves_rules)
  qed
qed

subsection \<open>Runs of the daemon\<close>

text \<open>
  One step of the daemon as the index service sees it: an operation of the service with any outcome,
  an operation of the event queue, the index or the scope store by another part of the daemon, the
  retention sweep of the plans, or a change of the memory of the service.
\<close>

inductive service_step :: "AgentIndexService \<Rightarrow> index_state \<Rightarrow> index_state \<Rightarrow> bool" for sv where
  refresh: "RefreshHerdrSession sv session dir path s = (r, s') \<Longrightarrow> service_step sv s s'"
| refresh_fast: "RefreshHerdrSessionFast sv session dir path s = (r1, s') \<Longrightarrow> service_step sv s s'"
| event: "HandleHerdrEvent sv input s = (r2, s') \<Longrightarrow> service_step sv s s'"
| event_fast: "HandleHerdrEventFast sv input s = (r3, s') \<Longrightarrow> service_step sv s s'"
| register: "RegisterPiSessionRef sv session ref terminalID s = (r4, s') \<Longrightarrow> service_step sv s s'"
| execute: "ExecuteStatusEventPlan sv plan s = (r5, s') \<Longrightarrow> service_step sv s s'"
| drain: "DrainPendingPlans sv options s = (r6, s') \<Longrightarrow> service_step sv s s'"
| timer: "retry_timer_fires sv planID plan s = (r6, s') \<Longrightarrow> service_step sv s s'"
| index: "index_step (x_world s) w \<Longrightarrow> service_step sv s (s\<lparr>x_world := w\<rparr>)"
| scopes: "scope_step (x_world s) w \<Longrightarrow> service_step sv s (s\<lparr>x_world := w\<rparr>)"
| sweep: "plan_DeleteSettledOlderThan ageMs (x_world s) = (r7, w) \<Longrightarrow> service_step sv s (s\<lparr>x_world := w\<rparr>)"
| memory: "x_world s' = x_world s \<Longrightarrow> service_step sv s s'"

lemma service_step_durable:
  assumes along: "service_along daemon_moves sv" and step: "service_step sv s s'"
  shows "x_durable daemon_moves s s'"
  using step
proof cases
  case (index w)
  then show ?thesis using index_step_durable daemon_of_index by (simp add: x_durable_def durable_def)
next
  case (scopes w)
  then show ?thesis using scope_step_durable daemon_of_scopes by (simp add: x_durable_def durable_def)
next
  case (sweep ageMs r w)
  have "moves (durable daemon_moves) (plan_DeleteSettledOlderThan ageMs)"
    by (rule inside_durable(2)) (rule pqui.moves_plan_delete_settled)
  with sweep show ?thesis by (simp add: x_durable_def) (metis moves_resultD)
next
  case memory
  then show ?thesis by (simp add: x_durable_def dmn.grd.dur.refl_R)
qed (blast intro: moves_resultD [OF daemon.ok_public(1) [OF along]] moves_resultD [OF daemon.ok_public(2) [OF along]]
    moves_resultD [OF daemon.ok_public(3) [OF along]] moves_resultD [OF daemon.ok_public(4) [OF along]]
    moves_resultD [OF daemon.ok_public(5) [OF along]] moves_resultD [OF daemon.ok_public(6) [OF along]]
    moves_resultD [OF daemon.ok_public(7) [OF along]] moves_resultD [OF daemon.ok_public(8) [OF along]])+

lemma service_run_durable:
  assumes "service_along daemon_moves sv" and "(service_step sv)\<^sup>*\<^sup>* s s'"
  shows "x_durable daemon_moves s s'"
  using assms(2)
  by (induction rule: rtranclp_induct)
    (auto intro: daemon.svc.refl_R daemon.svc.trans_R service_step_durable [OF assms(1)])

text \<open>
  the index service keeps the stores consistent. Along every run of the daemon in which the index
  service refreshes sessions, handles status and close events, registers session references and
  runs, retries, salvages and drains plans, under any driver failures, waits and crashes of the
  other stores' operations, the durable event, agent, plan and scope tables stay well formed
  together; no event changes beyond its life cycle, and no plan beyond its state machine.
\<close>

theorem index_service_invariant:
  assumes along: "service_along daemon_moves sv" and run: "(service_step sv)\<^sup>*\<^sup>* s s'"
    and ok: "daemon_ok (committed (x_world s))"
  shows "events_ok (committed (x_world s')) \<and> index_ok (committed (x_world s'))
    \<and> plans_ok (committed (x_world s')) \<and> scopes_ok (committed (x_world s'))
    \<and> events_evolve (committed (x_world s)) (committed (x_world s'))
    \<and> plans_evolve (committed (x_world s)) (committed (x_world s'))"
  using service_run_durable [OF along run] ok
  by (simp add: x_durable_def durable_def guarded_def daemon_ok_def daemon_evolve_def)

text \<open>A service whose environment is at rest, over the sample database.\<close>

definition idle_history :: AgentHistoryServiceLike where
  "idle_history =
     \<lparr>hv_ResolveCompactHistory = (\<lambda>lookup options w. (\<lparr>hd_CompactHistory = sample_history, hd_HistoryRef = None,
        hd_SourceFingerprint = None\<rparr>, w)),
      hv_SafeAllowedSessionPath = (\<lambda>path w. path), hv_SafeOfficialSessionPath = (\<lambda>path w. path),
      hv_SessionPathAllowedByShape = (\<lambda>path. True), hv_StatSourceFingerprint = (\<lambda>path w. None),
      hv_HistorySourceFromSessionRef = (\<lambda>ref. ''pi-jsonl'')\<rparr>"

definition idle_service :: AgentIndexService where
  "idle_service =
     \<lparr>iv_history = idle_history,
      iv_config = \<lparr>pc_BackoffFactor = 2, pc_InitialBackoffMs = 5000, pc_MaxBackoffMs = 60000, pc_TotalWindowMs = 600000\<rparr>,
      iv_maxWorkingPlanWaitMs = WORKING_PLAN_MAX_WAIT_MS, iv_meanwhile = (\<lambda>n s. s), iv_waitForSignal = None,
      iv_openClient = (\<lambda>path s. None), iv_sessionSnapshot = (\<lambda>path s. (Inr (JObj []), s)),
      iv_fileExists = (\<lambda>path s. True), iv_driverText = ''driver'', iv_constraintText = ''constraint''\<rparr>"

definition sample_index :: "world \<Rightarrow> index_state" where
  "sample_index w =
     \<lparr>x_world = w, x_occupiedFingerprintByAgent = Map.empty, x_activeWaiters = [], x_aborted = {},
      x_controllers = 0, x_shutdownAborted = False, x_emptyTurnAlertPanes = {}, x_guardWindowSaturatedAgents = {},
      x_salvageWindowSaturatedKeys = {}, x_mutationEpochBySession = (\<lambda>_. 0), x_pendingPiSessionRefs = Map.empty,
      x_waitingHistoryTimers = Map.empty, x_planProgressTrackers = Map.empty, x_planWindowTrackers = Map.empty,
      x_settledHistory = None, x_published = [], x_waits = 0\<rparr>"

lemma idle_service_along: "service_along daemon_moves idle_service"
  by (simp add: service_along_def idle_service_def idle_history_def x_durable_def dmn.grd.dur.refl_R)

lemma no_plans_ok: "plans_ok (sample_tables rows)"
  by (simp add: plans_ok_def sample_tables_def)

lemma sample_daemon_ok: "daemon_ok (sample_tables [sample_row])"
  by (simp add: daemon_ok_def sample_index_ok sample_events_ok sample_scopes_ok no_plans_ok)

definition sample_pane_closed :: HandleHerdrEventInput where
  "sample_pane_closed =
     \<lparr>he_Event = JObj [(''type'', JStr ''pane.closed''), (''pane_id'', JStr ''p'')], he_HerdrSessionName = ''s'',
      he_SessionDir = ''d'', he_SocketPath = ''k''\<rparr>"

theorem index_service_invariant_witness:
  "let s' = snd (HandleHerdrEvent idle_service sample_pane_closed (sample_index (sample_world [sample_row])))
   in events_ok (committed (x_world s')) \<and> plans_ok (committed (x_world s'))
      \<and> events_evolve (sample_tables [sample_row]) (committed (x_world s'))"
proof -
  let ?s = "sample_index (sample_world [sample_row])"
  have "service_step idle_service ?s (snd (HandleHerdrEvent idle_service sample_pane_closed ?s))"
    by (rule service_step.event) (rule surjective_pairing)
  from index_service_invariant [OF idle_service_along r_into_rtranclp, OF this] show ?thesis
    by (simp add: sample_index_def sample_daemon_ok Let_def)
qed

end
