(* ===== verification/IndexLaws.thy ===== *)
theory IndexLaws
  imports IndexContract EventDelivery
begin

text \<open>
  What single operations of the index service promise: which assistant body the event of a finished
  turn may carry, how a failed append of an outcome event ends, that the poll of a tool round is
  bounded, and what closing a pane leaves behind.
\<close>

subsection \<open>Results of an action\<close>

named_theorems results_rules \<open>rules for a property of every value an action returns\<close>

definition results :: "('a \<Rightarrow> bool) \<Rightarrow> ('s, 'e, 'a) act \<Rightarrow> bool" where
  "results P m \<longleftrightarrow> (\<forall>s a s'. m s = (Inr a, s') \<longrightarrow> P a)"



lemma results_bind: "results Q m \<Longrightarrow> (\<And>a. Q a \<Longrightarrow> results P (k a)) \<Longrightarrow> results P (bind_act m k)"
  unfolding results_def by (blast elim: bind_act_InrE)

lemma results_any [results_rules]: "(\<And>a. results P (k a)) \<Longrightarrow> results P (bind_act m k)"
  by (rule results_bind [where Q = "\<lambda>_. True"]) (simp_all add: results_def)

lemma results_cases [results_rules]:
  "(b \<Longrightarrow> results P m) \<Longrightarrow> (\<not> b \<Longrightarrow> results P n) \<Longrightarrow> results P (if b then m else n)"
  "(v = None \<Longrightarrow> results P n) \<Longrightarrow> (\<And>x. v = Some x \<Longrightarrow> results P (f x))
    \<Longrightarrow> results P (case v of None \<Rightarrow> n | Some x \<Rightarrow> f x)"
  "(\<And>e. w = Inl e \<Longrightarrow> results P (g e)) \<Longrightarrow> (\<And>x. w = Inr x \<Longrightarrow> results P (h x))
    \<Longrightarrow> results P (case w of Inl e \<Rightarrow> g e | Inr x \<Rightarrow> h x)"
  by (auto split: option.split sum.split)

subsection \<open>The body of a finished turn\<close>

text \<open>
  A body that may be handed out: a finished answer with some text, and not marked degraded. A body
  without an answer is marked with the reason, or, when Pi confirmed the turn, as no stale snapshot.
\<close>

definition complete_body :: "released \<Rightarrow> bool" where
  "complete_body rel \<longleftrightarrow> isTerminalAssistant (fst rel) \<and> HasNonEmptyAssistantMessage (fst rel)
     \<and> (snd rel = [] \<or> snd rel = stale_false)"

definition blank_body :: "released \<Rightarrow> bool" where
  "blank_body rel \<longleftrightarrow> (\<exists>h. fst rel = Some h \<and> ch_LastAssistantMessage h = None)
     \<and> (snd rel = stale_false \<or> (\<exists>reason. snd rel = degraded_extra reason))"


text \<open>What a turn that was not cut off may hand to the append: one of the two bodies.\<close>

definition turn_body :: "append_result + released \<Rightarrow> bool" where
  "turn_body r \<longleftrightarrow> (case r of Inl _ \<Rightarrow> True | Inr rel \<Rightarrow> complete_body rel \<or> blank_body rel)"

lemma turn_body_simps [simp]: "turn_body (Inl res)"
  by (simp add: turn_body_def)










text \<open>A daemon that has seen nothing yet, and a reader that finds a finished answer.\<close>

definition bare_index :: index_state where
  "bare_index = sample_index ((sample_world [])\<lparr>w_tables := (sample_tables [])\<lparr>agents := []\<rparr>\<rparr>)"



definition done_plan :: StatusEventPlan where
  "done_plan = \<lparr>sp_Agent = minimal_agent ''ag'' ''s'' ''p'' None (Some ''w'') ''ws'', sp_Attempts = None,
     sp_CompactHistory = None, sp_From = AgentStatusWorking, sp_HerdrEventKey = None, sp_PlanID = None,
     sp_To = AgentStatusDone\<rparr>"


lemma bare_index_quiet:
  "w_faults (x_world bare_index) = []" "w_tables (x_world bare_index) = (sample_tables [])\<lparr>agents := []\<rparr>"
  "x_aborted bare_index = {}"
  by (simp_all add: bare_index_def sample_index_def)




subsection \<open>The poll of a tool round\<close>

text \<open>The daemon's clock does not go back while an action runs.\<close>

definition clock_order :: "index_state \<Rightarrow> index_state \<Rightarrow> bool" where
  "clock_order s s' \<longleftrightarrow> w_wall (x_world s) \<le> w_wall (x_world s')"

interpretation ticking: state_preorder clock_order
  by unfold_locales (auto simp: clock_order_def)

definition history_keeps_clock :: "AgentIndexService \<Rightarrow> bool" where
  "history_keeps_clock sv \<longleftrightarrow>
     (\<forall>lookup options w. w_wall w \<le> w_wall (snd (hv_ResolveCompactHistory (iv_history sv) lookup options w)))"

lemma ticks_db: "moves (same_under w_wall) m \<Longrightarrow> moves clock_order (db m)"
  by (rule movesI) (auto simp: db_def clock_order_def split: prod.split dest: moves_sameD)

lemma same_wall_exec: "moves (same_under w_wall) (exec_sql f)"
  by (rule movesI) (auto simp: exec_sql_def same_under_def spend_fault_def Let_def split: sum.split)

lemma same_wall_rules:
  "moves (same_under w_wall) (query_sql g)"
  "moves (same_under w_wall) (change_sql h)"
  "moves (same_under w_wall) (of_sum v)"
  "moves (same_under w_wall) wall_clock"
  unfolding query_sql_def change_sql_def wall_clock_def of_sum_def
  by (intro same_wall_exec moves_rules)+

lemma same_wall_stores:
  "moves (same_under w_wall) (snapshot_Get agentID)"
  "moves (same_under w_wall) (occupiedForAgent agent)"
  "moves (same_under w_wall) (store_snapshot next)"
  "moves (same_under w_wall) (IsPaneClosed session generation paneID)"
  "moves (same_under w_wall) (FindByPane session generation paneID)"
  unfolding snapshot_Get_def snapshot_getRow_def occupiedForAgent_def ListForHerdrSession_def List_agents_def
    ListByAgentIds_def store_snapshot_def agent_Exists_def snapshot_Put_def IsPaneClosed_def PaneClosedAt_def
    FindByPane_def one_agent_def agent_record_def Let_def
  by (intro moves_rules same_wall_exec same_wall_rules)+

lemma ticks_refreshed: "history_keeps_clock sv \<Longrightarrow> moves clock_order (refreshedCompactHistory sv agent)"
proof -
  have occupied: "moves clock_order (remember_occupied agentID paths)" for agentID paths
    by (rule movesI) (simp add: remember_occupied_def clock_order_def Let_def)
  have resolve: "moves clock_order (db (resolve_history (iv_history sv) lookup options))"
    if "history_keeps_clock sv" for lookup options
    using that by (intro movesI) (auto simp: db_def resolve_history_def clock_order_def history_keeps_clock_def
        split: prod.split dest: spec, metis snd_conv)
  assume "history_keeps_clock sv"
  then show ?thesis
    unfolding refreshedCompactHistory_def force_refresh_def RefreshAgent_def Let_def
    by (intro moves_rules occupied resolve ticks_db same_wall_stores)
qed

text \<open>
  After a round that ends in a sleep the signal has fired, or the clock stands half a second later or
  at the deadline. An expired or aborted poll does not go to sleep again.
\<close>

lemma slept:
  assumes "sleep_ms sv ms controller s = (Inr u, s')"
  shows "controller \<in> x_aborted s' \<or> w_wall (x_world s) + ms \<le> w_wall (x_world s')"
  using assms
  by (auto simp: sleep_ms_def bind_act_def clock_now_def read_act_def pause_def modify_act_def is_aborted_def
      return_act_def advance_clock_def split: if_splits)

lemma in_flight_round_sleeps:
  assumes ran: "in_flight_round sv agent controller deadline s = (Inr None, s')" and clock: "history_keeps_clock sv"
  shows "controller \<notin> x_aborted s \<and> w_wall (x_world s) < deadline
    \<and> (controller \<in> x_aborted s' \<or> min deadline (w_wall (x_world s) + inFlightToolUseGracePollMs) \<le> w_wall (x_world s'))"
proof -
  from ran obtain s1 live s2 fresh s3 where
    closed: "isPaneClosedFor agent s = (Inr False, s1)" and open_signal: "controller \<notin> x_aborted s1"
    and find: "find_by_pane_of agent s1 = (Inr (Some live), s2)"
    and fresh: "refreshedCompactHistory sv agent s2 = (Inr fresh, s3)"
    and early: "w_wall (x_world s3) < deadline"
    and sleep: "sleep_ms sv (min inFlightToolUseGracePollMs (deadline - w_wall (x_world s3))) controller s3 = (Inr (), s')"
    by (auto simp: in_flight_round_def is_aborted_def clock_now_def read_act_def modify_act_def elim!: bind_act_InrE
        split: if_splits option.splits)
  have "clock_order s s1" using closed by (rule moves_resultD [rotated])
      (simp add: isPaneClosedFor_def ticks_db same_wall_stores)
  moreover have "clock_order s1 s2" using find by (rule moves_resultD [rotated])
      (simp add: find_by_pane_of_def ticks_db same_wall_stores)
  moreover have "clock_order s2 s3" using fresh by (rule moves_resultD [rotated]) (rule ticks_refreshed [OF clock])
  moreover have "x_aborted s1 = x_aborted s"
    using closed by (auto simp: isPaneClosedFor_def db_def split: prod.splits)
  ultimately show ?thesis using slept [OF sleep] early open_signal by (auto simp: clock_order_def)
qed

lemma in_flight_fuel:
  assumes clock: "history_keeps_clock sv"
    and enough: "controller \<in> x_aborted s \<or> deadline - w_wall (x_world s) \<le> inFlightToolUseGracePollMs * int n"
  shows "in_flight_rounds sv (Suc n + extra) agent controller deadline s
    = in_flight_rounds sv (Suc n) agent controller deadline s"
  using enough
proof (induction n arbitrary: s)
  case 0
  then have "in_flight_round sv agent controller deadline s \<noteq> (Inr None, s')" for s'
    using in_flight_round_sleeps [OF _ clock] by fastforce
  then show ?case by (auto simp: bind_act_def split: prod.split sum.split option.split)
next
  case (Suc n)
  have "in_flight_rounds sv (Suc n + extra) agent controller deadline s'
      = in_flight_rounds sv (Suc n) agent controller deadline s'"
    if "in_flight_round sv agent controller deadline s = (Inr None, s')" for s'
    using in_flight_round_sleeps [OF that clock] Suc.prems
    by (intro Suc.IH) (auto simp: algebra_simps inFlightToolUseGracePollMs_def)
  then show ?case by (auto simp: bind_act_def split: prod.split sum.split option.split)
qed

text \<open>
  C20: The poll that waits for an open tool round ends within the ten rounds it is given: more fuel
  changes nothing, for every state of the daemon and whatever happens during its sleeps, as long as
  the history reader does not set the clock back. (Each full sleep takes half a second of the four,
  and a sleep that was cut short leaves an aborted signal, which ends the next round.)
\<close>

theorem in_flight_poll_terminates:
  assumes "history_keeps_clock sv"
  shows "bind_act clock_now (\<lambda>t. in_flight_rounds sv (10 + extra) agent controller (t + inFlightToolUseGraceMaxWaitMs)) s
    = waitForInFlightToolUseResolution sv agent controller s"
proof -
  have "in_flight_rounds sv (Suc 9 + extra) agent controller (w_wall (x_world s) + inFlightToolUseGraceMaxWaitMs) s
      = in_flight_rounds sv (Suc 9) agent controller (w_wall (x_world s) + inFlightToolUseGraceMaxWaitMs) s"
    by (rule in_flight_fuel [OF assms]) (simp add: inFlightToolUseGracePollMs_def inFlightToolUseGraceMaxWaitMs_def)
  then show ?thesis by (simp add: waitForInFlightToolUseResolution_def bind_act_def clock_now_def read_act_def)
qed

theorem in_flight_poll_terminates_witness:
  "bind_act clock_now (\<lambda>t. in_flight_rounds idle_service (10 + 5) (sp_Agent done_plan) 0
     (t + inFlightToolUseGraceMaxWaitMs)) bare_index
   = waitForInFlightToolUseResolution idle_service (sp_Agent done_plan) 0 bare_index"
  by (rule in_flight_poll_terminates) (simp add: history_keeps_clock_def idle_service_def idle_history_def)

subsection \<open>A failed append of an outcome\<close>

text \<open>A world whose second statement is refused by the driver.\<close>

definition refusing_index :: index_state where
  "refusing_index = bare_index\<lparr>x_world := (x_world (sample_index (sample_world [])))\<lparr>w_faults := [False, True]\<rparr>\<rparr>"

definition discarded_outcome :: appendPlanOutcomeInput where
  "discarded_outcome =
     \<lparr>po_Agent = sp_Agent done_plan, po_Attempts = 3, po_CompactHistory = None, po_FallbackOutcome = None,
      po_From = AgentStatusWorking, po_PlanCreatedAtMs = 5, po_PlanID = 1, po_Reason = None, po_To = AgentStatusDone\<rparr>"

lemma refused_append:
  "fst (appendPlanFailedEvent discarded_outcome refusing_index) = Inr None"
  "fst (appendPlanDiscardedEvent discarded_outcome refusing_index) = Inl nil_dereference"
  by (simp_all add: appendPlanFailedEvent_def appendPlanDiscardedEvent_def discarded_outcome_def refusing_index_def
      bare_index_def sample_index_def done_plan_def minimal_agent_def resolvePlanOutcomeAgent_def try_err_def
      catch_act_def bind_act_def return_act_def fail_act_def db_def agent_Get_def one_agent_def query_sql_def exec_sql_def
      Let_def next_fault_def spend_fault_def sample_tables_def sample_agent_def agent_record_def read_act_def
      eval_symlinks_def appendAndAckSelfEvent_def HasNonEmptyAssistantMessage_def Append_def lookup_existing_def getByIdempotencyKey_def
      outcome_event_def is_panic_def sample_world_def DegradedPlanError_def mapAgent_def)

text \<open>
  A discarded plan whose event cannot be stored ends in a panic: \<open>appendPlanDiscardedEvent\<close> never
  returns without an event, it reads the id of the missing event for its log line. The failed event of
  the same plan in the same state of the database is reported as not stored and the daemon goes on.
\<close>

theorem discarded_event_never_missing:
  "fst (appendPlanDiscardedEvent input s) \<noteq> Inr None
   \<and> (\<exists>outcome t. fst (appendPlanFailedEvent outcome t) = Inr None
        \<and> fst (appendPlanDiscardedEvent outcome t) = Inl nil_dereference)"
proof
  show "fst (appendPlanDiscardedEvent input s) \<noteq> Inr None"
    by (auto simp: appendPlanDiscardedEvent_def bind_act_def Let_def fail_act_def return_act_def
        split: prod.splits sum.splits option.splits)
qed (use refused_append in blast)

end
