(* ===== verification/HerdrSession.thy ===== *)
theory HerdrSession
  imports IndexService
begin

text \<open>
  What the daemon reads from Herdr besides the session snapshot: the list of sessions
  (\<open>herdr/session_list.go\<close>) and the identity of one pane (\<open>herdr/pane_identity_resolver.go\<close>).
  The JSON text has been decoded; starting the \<open>herdr\<close> command and its timeout are left out.
\<close>

record HerdrSessionListEntry =
  hse_Default :: "bool option"
  hse_Name :: string
  hse_Running :: bool
  hse_SessionDir :: string
  hse_SocketPath :: string

definition object_or_empty :: "jval option \<Rightarrow> (string \<times> jval) list" where
  "object_or_empty v = (case asJSONObject v of None \<Rightarrow> [] | Some kvs \<Rightarrow> kvs)"

definition session_entry :: "jval \<Rightarrow> go_error + HerdrSessionListEntry" where
  "session_entry session =
     (let item = object_or_empty (Some session) in
      case (stringValue (map_of item ''name''), stringValue (map_of item ''session_dir''),
            stringValue (map_of item ''socket_path'')) of
        (Some name, Some sessionDir, Some socketPath) \<Rightarrow>
          Inr \<lparr>hse_Default = (case map_of item ''default'' of Some (JBool b) \<Rightarrow> Some b | _ \<Rightarrow> None),
               hse_Name = name, hse_Running = (map_of item ''running'' = Some (JBool True)),
               hse_SessionDir = sessionDir, hse_SocketPath = socketPath\<rparr>
      | _ \<Rightarrow> Inl (ErrText ''Invalid herdr session list entry''))"

text \<open>The first entry that lacks a part of its identity fails the whole list.\<close>

fun session_entries :: "jval list \<Rightarrow> go_error + HerdrSessionListEntry list" where
  "session_entries [] = Inr []"
| "session_entries (session # rest) =
     (case session_entry session of Inl e \<Rightarrow> Inl e
      | Inr entry \<Rightarrow> (case session_entries rest of Inl e \<Rightarrow> Inl e | Inr entries \<Rightarrow> Inr (entry # entries)))"

definition NormalizeHerdrSessionList :: "jval \<Rightarrow> go_error + HerdrSessionListEntry list" where
  "NormalizeHerdrSessionList parsed =
     session_entries (jsonArrayOrEmpty (map_of (object_or_empty (Some parsed)) ''sessions''))"

subsection \<open>Pane identity\<close>

record HerdrPaneIdentity =
  hp_PaneID :: string
  hp_TerminalID :: string
  hp_WorkspaceID :: string
  hp_Agent :: "string option"
  hp_CWD :: "string option"
  hp_ForegroundCwd :: "string option"
  hp_TabID :: "string option"

definition paneInfo :: "jval \<Rightarrow> go_error + (string \<times> jval) list" where
  "paneInfo v =
     (case asJSONObject (Some v) of None \<Rightarrow> Inl (ErrText ''Invalid Herdr pane response'')
      | Some object \<Rightarrow> (case asJSONObject (map_of object ''pane'') of
            None \<Rightarrow> Inl (ErrText ''Invalid Herdr pane response'') | Some pane \<Rightarrow> Inr pane))"

definition stringField :: "(string \<times> jval) list \<Rightarrow> string \<Rightarrow> string option" where
  "stringField v field = stringValue (map_of v field)"

text \<open>\<open>answer\<close> is what the client's \<open>GetPane\<close> returned, or why it could not be asked.\<close>

definition ResolveHerdrPaneIdentity :: "go_error + jval \<Rightarrow> go_error + HerdrPaneIdentity" where
  "ResolveHerdrPaneIdentity answer =
     (case answer of Inl e \<Rightarrow> Inl e
      | Inr result \<Rightarrow> (case paneInfo result of Inl e \<Rightarrow> Inl e
        | Inr pane \<Rightarrow>
          (case (stringField pane ''pane_id'', stringField pane ''terminal_id'', stringField pane ''workspace_id'') of
             (Some paneID, Some terminalID, Some workspaceID) \<Rightarrow>
               Inr \<lparr>hp_PaneID = paneID, hp_TerminalID = terminalID, hp_WorkspaceID = workspaceID,
                    hp_Agent = stringField pane ''agent'', hp_CWD = stringField pane ''cwd'',
                    hp_ForegroundCwd = stringField pane ''foreground_cwd'', hp_TabID = stringField pane ''tab_id''\<rparr>
           | _ \<Rightarrow> Inl (ErrText ''Herdr pane response has no terminal identity''))))"

end
