(* ===== verification/Reconciler.thy ===== *)
theory Reconciler
  imports HerdrSession
begin

text \<open>
  \<open>AgentEventReconciler\<close> of \<open>daemon/agent_event_reconciler.go\<close>: it compares the undelivered events
  with the panes that Herdr reports, drops or retains the events of closed panes, purges what is old,
  releases owners whose terminal is gone and acknowledges the owners' own events.

  Herdr is asked through parameters: the session list, the connection and the snapshot of a session
  may fail. The shutdown signal is polled; \<open>ro_stopWalk\<close> and \<open>ro_stopSweep\<close> are what the polls see.
\<close>

definition ReconcileBatchLimit :: int where "ReconcileBatchLimit = 100"
definition ScopeReleaseTtlMs :: int where "ScopeReleaseTtlMs = 30 * 24 * 60 * 60 * 1000"
definition ReconcileSettledTtlMs :: int where "ReconcileSettledTtlMs = 7 * 24 * 60 * 60 * 1000"
definition HistoryCacheTtlMs :: int where "HistoryCacheTtlMs = 30 * 24 * 60 * 60 * 1000"
definition InvalidatedGraceMs :: int where "InvalidatedGraceMs = 60 * 60 * 1000"

record AgentEventReconcileResult =
  re_HistoryCacheExpired :: int
  re_HistoryCacheMissing :: int
  re_Invalidated :: int
  re_Purged :: int
  re_Released :: int

definition emptyReconcileResult :: AgentEventReconcileResult where
  "emptyReconcileResult =
     \<lparr>re_HistoryCacheExpired = 0, re_HistoryCacheMissing = 0, re_Invalidated = 0, re_Purged = 0, re_Released = 0\<rparr>"

record livePane =
  lp_paneID :: string
  lp_generation :: "string option"
  lp_terminalID :: "string option"

text \<open>The optional stores are the ones the daemon passes; \<open>rz_sourceExists\<close> is \<open>os.Stat\<close>.\<close>

record AgentEventReconciler =
  rz_historyCache :: bool
  rz_statusEventPlans :: bool
  rz_sessionList :: "world \<Rightarrow> go_error + HerdrSessionListEntry list"
  rz_clientFactory :: "HerdrSessionListEntry \<Rightarrow> go_error option"
  rz_sessionSnapshot :: "HerdrSessionListEntry \<Rightarrow> go_error + jval"
  rz_connectedTerminal :: "string \<Rightarrow> string \<Rightarrow> bool"
  rz_sourceExists :: "string \<Rightarrow> bool"

record ReconcileOptions =
  ro_ReleaseStaleOwners :: "bool option"
  ro_stopWalk :: "nat \<Rightarrow> bool"
  ro_stopSweep :: "nat \<Rightarrow> bool"

subsection \<open>Live panes\<close>

definition reconcileStringValue :: "jval option \<Rightarrow> string option" where
  "reconcileStringValue v =
     (case v of Some (JStr text) \<Rightarrow> if text = [] then None else Some text | _ \<Rightarrow> None)"

definition live_pane_of :: "jval \<Rightarrow> livePane option" where
  "live_pane_of v =
     (case asJSONObject (Some v) of None \<Rightarrow> None
      | Some item \<Rightarrow> (case reconcileStringValue (map_of item ''pane_id'') of None \<Rightarrow> None
        | Some paneID \<Rightarrow> Some \<lparr>lp_paneID = paneID,
            lp_generation = reconcileStringValue (map_of item ''pane_generation''),
            lp_terminalID = reconcileStringValue (map_of item ''terminal_id'')\<rparr>))"

definition livePanesFromSnapshot :: "HerdrSessionSnapshot \<Rightarrow> livePane list" where
  "livePanesFromSnapshot snapshot = List.map_filter live_pane_of (hn_Panes snapshot)"

type_synonym live_panes = "string \<rightharpoonup> livePane list"

text \<open>The walk over the sessions: \<open>None\<close> when a running session could not be read.\<close>

fun walk_sessions ::
    "AgentEventReconciler \<Rightarrow> (nat \<Rightarrow> bool) \<Rightarrow> nat \<Rightarrow> HerdrSessionListEntry list \<Rightarrow> live_panes \<Rightarrow> live_panes option" where
  "walk_sessions z stopping k [] live = Some live"
| "walk_sessions z stopping k (entry # rest) live =
     (if stopping k then Some live
      else if \<not> hse_Running entry then walk_sessions z stopping (Suc k) rest live
      else if rz_clientFactory z entry \<noteq> None then None
      else (case rz_sessionSnapshot z entry of
          Inl _ \<Rightarrow> None
        | Inr v \<Rightarrow> walk_sessions z stopping (Suc k) rest
            (live(hse_Name entry \<mapsto> livePanesFromSnapshot (NormalizeHerdrSessionSnapshot v)))))"

subsection \<open>The sweep over the events\<close>

definition paneMatchesEvent :: "livePane \<Rightarrow> AgentEventRecord \<Rightarrow> bool" where
  "paneMatchesEvent pane event \<longleftrightarrow>
     (case e_PaneID event of None \<Rightarrow> False
      | Some paneID \<Rightarrow>
        if lp_paneID pane \<noteq> paneID then False
        else (case e_PaneGeneration event of None \<Rightarrow> True
          | Some generation \<Rightarrow> (case lp_generation pane of None \<Rightarrow> True | Some g \<Rightarrow> g = generation)))"

definition isRetainableTerminalFailure :: "AgentEventRecord \<Rightarrow> bool" where
  "isRetainableTerminalFailure event \<longleftrightarrow>
     e_Type event = AgentEventFailed \<and> e_Deliverable event = 1 \<and> e_DeliveryAttempts event = Some 0"

text \<open>The stored timestamp always parses; the function returns the age of the event.\<close>

definition eventAgeMs :: "int \<Rightarrow> int \<Rightarrow> int" where
  "eventAgeMs createdAt now = now - createdAt"

definition asReconcileRecord :: "jval \<Rightarrow> (string \<times> jval) list" where
  "asReconcileRecord v = (case v of JObj kvs \<Rightarrow> kvs | _ \<Rightarrow> [])"

definition retainable_closed :: "AgentEventRecord \<Rightarrow> int \<Rightarrow> bool" where
  "retainable_closed event now =
     (let payload = asReconcileRecord (e_Payload event);
          eventAge = now - eventAgeMs (e_CreatedAt event) now;
          isFresh = eventAge \<le> RedeliveryFreshnessMs;
          fromWorking = (map_of payload ''from'' = Some (JStr ''working''))
      in isRetainableTerminalFailure event
         \<or> (e_Deliverable event = 1 \<and> isFresh
            \<and> ((e_Type event = AgentEventDone \<and> fromWorking) \<or> (e_Type event = AgentEventIdle \<and> fromWorking))))"

definition counted :: "bool \<Rightarrow> int" where "counted changed = (if changed then 1 else 0)"

text \<open>One candidate, and by how much it raises \<open>invalidated\<close>.\<close>

definition reconcile_event :: "live_panes \<Rightarrow> AgentEventRecord \<Rightarrow> int op" where
  "reconcile_event live event =
     (case live (e_HerdrSessionName event) of None \<Rightarrow> return_act 0
      | Some panes \<Rightarrow>
        if \<exists>pane \<in> set panes. paneMatchesEvent pane event then return_act 0
        else if \<exists>pane \<in> set panes. e_PaneID event = Some (lp_paneID pane)
        then if isRetainableTerminalFailure event
          then bind_act (MarkRetainedInvalidated (e_ID event)) (\<lambda>changed. return_act (counted changed))
          else bind_act (DeleteReconcileCandidate (e_ID event)) (\<lambda>deleted. return_act (counted deleted))
        else bind_act wall_clock (\<lambda>now.
          if retainable_closed event now
          then bind_act (MarkRetainedInvalidated (e_ID event)) (\<lambda>_. return_act 1)
          else bind_act (DeleteReconcileCandidate (e_ID event)) (\<lambda>deleted. return_act (counted deleted))))"

fun reconcile_events :: "live_panes \<Rightarrow> AgentEventRecord list \<Rightarrow> int \<Rightarrow> int op" where
  "reconcile_events live [] invalidated = return_act invalidated"
| "reconcile_events live (event # rest) invalidated =
     bind_act (reconcile_event live event) (\<lambda>n. reconcile_events live rest (invalidated + n))"

text \<open>The loop over the pages; every page moves the cursor past the events it listed.\<close>

fun sweep_pages ::
    "nat \<Rightarrow> live_panes \<Rightarrow> (nat \<Rightarrow> bool) \<Rightarrow> nat \<Rightarrow> int \<Rightarrow> int \<Rightarrow> int op" where
  "sweep_pages 0 live stopping k cursor invalidated = return_act invalidated"
| "sweep_pages (Suc fuel) live stopping k cursor invalidated =
     (if stopping k then return_act invalidated
      else bind_act (ListReconcileCandidates ReconcileBatchLimit cursor) (\<lambda>candidates.
        if candidates = [] then return_act invalidated
        else bind_act (reconcile_events live candidates invalidated) (\<lambda>total.
          sweep_pages fuel live stopping (Suc k) (e_ID (last candidates)) total)))"

text \<open>One page per row and one more is enough.\<close>

definition sweep_events :: "live_panes \<Rightarrow> (nat \<Rightarrow> bool) \<Rightarrow> int op" where
  "sweep_events live stopping w = sweep_pages (Suc (length (agent_events (w_tables w)))) live stopping 0 0 0 w"

subsection \<open>Owners and caches\<close>

definition purgeHistoryCache :: "AgentEventReconciler \<Rightarrow> (int \<times> int) op" where
  "purgeHistoryCache z =
     (if \<not> rz_historyCache z then return_act (0, 0)
      else bind_act (cache_DeleteOlderThan HistoryCacheTtlMs) (\<lambda>expired.
        bind_act ListSourcePaths (\<lambda>sourcePaths.
        bind_act (DeleteBySourcePaths (filter (\<lambda>p. \<not> rz_sourceExists z p) sourcePaths)) (\<lambda>missing.
          return_act (expired, missing)))))"

definition stale_owner_input ::
    "AgentEventReconciler \<Rightarrow> AgentOrchestratorState \<Rightarrow> livePane list \<Rightarrow> ReleaseIfStaleOwnerInput" where
  "stale_owner_input z scope panes =
     \<lparr>rs_Scope = os_Scope scope, rs_LivePaneIDs = map lp_paneID panes,
      rs_LiveTerminalIDs = filter (rz_connectedTerminal z (s_HerdrSessionName (os_Scope scope)))
        (List.map_filter lp_terminalID panes)\<rparr>"

fun release_stale :: "AgentEventReconciler \<Rightarrow> live_panes \<Rightarrow> AgentOrchestratorState list \<Rightarrow> int \<Rightarrow> int op" where
  "release_stale z live [] released = return_act released"
| "release_stale z live (scope # rest) released =
     (case live (s_HerdrSessionName (os_Scope scope)) of
        None \<Rightarrow> release_stale z live rest released
      | Some panes \<Rightarrow> bind_act (ReleaseIfStaleOwner (stale_owner_input z scope panes)) (\<lambda>scopeReleased.
          release_stale z live rest (released + counted scopeReleased)))"

definition ack_own_events :: "AgentOrchestratorState \<Rightarrow> unit op" where
  "ack_own_events scope =
     (case os_Owner scope of None \<Rightarrow> return_act ()
      | Some owner \<Rightarrow>
        if o_PaneID owner = [] then return_act ()
        else bind_act (AckSelfOwned \<lparr>k_HerdrSessionName = s_HerdrSessionName (os_Scope scope),
               k_PaneID = o_PaneID owner, k_WorkspaceID = s_WorkspaceID (os_Scope scope)\<rparr>) (\<lambda>_. return_act ()))"

subsection \<open>One round\<close>

definition reconcile_live ::
    "AgentEventReconciler \<Rightarrow> ReconcileOptions \<Rightarrow> live_panes \<Rightarrow> AgentEventReconcileResult op" where
  "reconcile_live z options live =
     bind_act (sweep_events live (ro_stopSweep options)) (\<lambda>swept.
     bind_act (DeleteInvalidatedOlderThan InvalidatedGraceMs) (\<lambda>invalidatedExpired.
     bind_act (DeleteSettledOlderThan ReconcileSettledTtlMs) (\<lambda>_.
     bind_act (if rz_statusEventPlans z then plan_DeleteSettledOlderThan ReconcileSettledTtlMs else return_act 0) (\<lambda>_.
     bind_act (purgeHistoryCache z) (\<lambda>(expired, missing).
     bind_act (if ro_ReleaseStaleOwners options = Some False then return_act 0
         else bind_act ListOwnedScopes (\<lambda>owned. release_stale z live owned 0)) (\<lambda>released.
     bind_act (PurgeReleasedOlderThan ScopeReleaseTtlMs) (\<lambda>purged.
     bind_act ListOwnedScopes (\<lambda>owned.
     bind_act (for_each owned ack_own_events) (\<lambda>_.
       return_act \<lparr>re_HistoryCacheExpired = expired, re_HistoryCacheMissing = missing,
         re_Invalidated = swept + invalidatedExpired, re_Purged = purged, re_Released = released\<rparr>)))))))))"

definition Reconcile :: "AgentEventReconciler \<Rightarrow> ReconcileOptions \<Rightarrow> AgentEventReconcileResult op" where
  "Reconcile z options w =
     (case rz_sessionList z w of
        Inl _ \<Rightarrow> (Inr emptyReconcileResult, w)
      | Inr sessions \<Rightarrow>
        (case walk_sessions z (ro_stopWalk options) 0 sessions Map.empty of
           None \<Rightarrow> (Inr emptyReconcileResult, w)
         | Some live \<Rightarrow> reconcile_live z options live w))"

end
