(* ===== verification/ReconcilerLaws.thy ===== *)
theory ReconcilerLaws
  imports Reconciler IndexLaws EventQueue
begin

text \<open>
  What a reconcile round does to the event table: the paged sweep is one pass over the rows, it ends
  whatever the driver does, and nothing is swept when Herdr could not be read completely.
\<close>

subsection \<open>The sweep ends\<close>

text \<open>Statements of the sweep only remove rows or change them in place.\<close>

definition fewer_rows :: "world \<Rightarrow> world \<Rightarrow> bool" where
  "fewer_rows w w' \<longleftrightarrow> (\<forall>P. length (filter (\<lambda>r. P (r_id r)) (agent_events (w_tables w')))
     \<le> length (filter (\<lambda>r. P (r_id r)) (agent_events (w_tables w))))"

interpretation fewer: state_preorder fewer_rows
  by unfold_locales (auto simp: fewer_rows_def intro: order_trans)

lemma fewer_exec:
  assumes "\<And>t a t'. f t = Inr (a, t') \<Longrightarrow>
    \<forall>P. length (filter (\<lambda>r. P (r_id r)) (agent_events t')) \<le> length (filter (\<lambda>r. P (r_id r)) (agent_events t))"
  shows "moves fewer_rows (exec_sql f)"
  using assms by (intro movesI) (auto simp: exec_sql_def fewer_rows_def Let_def split: sum.split)

lemma fewer_statements:
  "moves fewer_rows (MarkRetainedInvalidated eventID)"
  "moves fewer_rows (DeleteReconcileCandidate eventID)"
  "moves fewer_rows wall_clock"
proof -
  have keep: "length (filter (\<lambda>r. P (r_id r)) (update_where q f rows)) = length (filter (\<lambda>r. P (r_id r)) rows)"
    if "\<And>r. r_id (f r) = r_id r" for P q f rows
    using that by (induction rows) (auto simp: update_where_def)
  have drop: "length (filter (\<lambda>x. Q x \<and> P x) rows) \<le> length (filter P rows)"
    for P Q :: "agentEventRow \<Rightarrow> bool" and rows
    by (induction rows) auto
  show "moves fewer_rows (MarkRetainedInvalidated eventID)"
    unfolding MarkRetainedInvalidated_def affected_some_def change_sql_def
    by (intro moves_rules fewer_exec) (auto simp: update_events_def keep)
  show "moves fewer_rows (DeleteReconcileCandidate eventID)"
    unfolding DeleteReconcileCandidate_def affected_some_def change_sql_def
    by (intro moves_rules fewer_exec) (auto simp: delete_events_def delete_where_def drop)
  show "moves fewer_rows wall_clock" unfolding wall_clock_def by (intro moves_rules)
qed

lemma fewer_reconcile_event: "moves fewer_rows (reconcile_event live event)"
  unfolding reconcile_event_def by (intro moves_rules fewer_statements)

lemma fewer_reconcile_events: "moves fewer_rows (reconcile_events live events invalidated)"
  by (induction events arbitrary: invalidated) (auto intro!: moves_rules fewer_reconcile_event)

text \<open>The rows beyond the cursor are the measure of the loop.\<close>

definition beyond :: "int \<Rightarrow> world \<Rightarrow> nat" where
  "beyond cursor w = length (filter (\<lambda>r. cursor < r_id r) (agent_events (w_tables w)))"

lemma candidates_InrD:
  assumes "ListReconcileCandidates ReconcileBatchLimit cursor w = (Inr events, w')"
  shows "agent_events (w_tables w') = agent_events (w_tables w)"
    and "event \<in> set events \<Longrightarrow> \<exists>r \<in> set (agent_events (w_tables w)). cursor < r_id r \<and> e_ID event = r_id r"
proof -
  from assms have events: "events = map mapAgentEvent (sql_limit 100
      (events_asc (\<lambda>r. cursor < r_id r \<and> pending_or_delivered r) (w_tables w)))"
    and after: "w_tables w' = w_tables w"
    by (simp_all add: ListReconcileCandidates_def query_sql_Inr ReconcileBatchLimit_def)
  from after show "agent_events (w_tables w') = agent_events (w_tables w)" by simp
  assume "event \<in> set events"
  then obtain r where r: "event = mapAgentEvent r"
    and listed: "r \<in> set (sql_limit 100 (events_asc (\<lambda>r. cursor < r_id r \<and> pending_or_delivered r) (w_tables w)))"
    unfolding events by auto
  from in_sql_limit [OF listed] r
  show "\<exists>r \<in> set (agent_events (w_tables w)). cursor < r_id r \<and> e_ID event = r_id r"
    by (auto simp: events_asc_def mapAgentEvent_def)
qed

lemma bind_act_same: "(\<And>a s'. m s = (Inr a, s') \<Longrightarrow> k a s' = k' a s') \<Longrightarrow> bind_act m k s = bind_act m k' s"
  by (auto simp: bind_act_def split: prod.split sum.split)

lemma beyond_page:
  assumes page: "ListReconcileCandidates ReconcileBatchLimit cursor w = (Inr events, w1)" and "events \<noteq> []"
    and run: "reconcile_events live events invalidated w1 = (Inr tally, w2)"
  shows "beyond (e_ID (last events)) w2 < beyond cursor w"
proof -
  let ?rows = "agent_events (w_tables w)" and ?c = "e_ID (last events)"
  obtain r where r: "r \<in> set ?rows" "cursor < r_id r" "?c = r_id r"
    using candidates_InrD(2) [OF page, of "last events"] assms(2) by auto
  have "fewer_rows w1 w2" using run by (rule moves_resultD [OF fewer_reconcile_events])
  then have "beyond ?c w2 \<le> length (filter (\<lambda>x. ?c < r_id x) ?rows)"
    using candidates_InrD(1) [OF page] by (auto simp: beyond_def fewer_rows_def)
  also have "\<dots> = length (filter (\<lambda>x. ?c < r_id x) (filter (\<lambda>x. cursor < r_id x) ?rows))"
    using r by (intro arg_cong [where f = length]) (auto simp: filter_filter intro!: filter_cong)
  also have "\<dots> < length (filter (\<lambda>x. cursor < r_id x) ?rows)"
    using r by (intro length_filter_less [where x = r]) auto
  finally show ?thesis by (simp add: beyond_def)
qed

lemma sweep_fuel:
  "beyond cursor w \<le> n \<Longrightarrow>
   sweep_pages (Suc n + extra) live stopping k cursor invalidated w
     = sweep_pages (Suc n) live stopping k cursor invalidated w"
proof (induction n arbitrary: k cursor invalidated w)
  case 0
  have "events = []" if "ListReconcileCandidates ReconcileBatchLimit cursor w = (Inr events, w')" for events w'
    using candidates_InrD(2) [OF that] 0 by (cases events) (auto simp: beyond_def filter_empty_conv)
  then show ?case by (auto simp: bind_act_def split: prod.split sum.split)
next
  case (Suc n)
  have "sweep_pages (Suc n + extra) live stopping (Suc k) (e_ID (last events)) tally w2
      = sweep_pages (Suc n) live stopping (Suc k) (e_ID (last events)) tally w2"
    if "ListReconcileCandidates ReconcileBatchLimit cursor w = (Inr events, w1)" "events \<noteq> []"
      "reconcile_events live events invalidated w1 = (Inr tally, w2)" for events w1 tally w2
    using beyond_page [OF that] Suc.prems by (intro Suc.IH) simp
  then show ?case
    unfolding add_Suc sweep_pages.simps(2) [of "n + extra"] sweep_pages.simps(2) [of "Suc n + extra"]
      sweep_pages.simps(2) [of "Suc n"]
    by (auto intro!: bind_act_same)
qed

text \<open>
  The sweep of a reconcile round over the undelivered events ends: one page per row of the table
  and one more is enough fuel, in every state of the database, for every pattern of driver failures and
  whenever the shutdown signal fires; more fuel gives the same result.
\<close>

theorem reconcile_sweep_terminates:
  "sweep_pages (Suc (length (agent_events (w_tables w))) + extra) live stopping 0 0 0 w = sweep_events live stopping w"
  unfolding sweep_events_def by (rule sweep_fuel) (simp add: beyond_def)

subsection \<open>The sweep is one pass\<close>

definition alive :: "livePane list \<Rightarrow> agentEventRow \<Rightarrow> bool" where
  "alive panes r \<longleftrightarrow> (\<exists>pane \<in> set panes. r_paneID r = Some (lp_paneID pane)
     \<and> (r_paneGeneration r = None \<or> lp_generation pane = None \<or> lp_generation pane = r_paneGeneration r))"

definition retained :: "agentEventRow \<Rightarrow> agentEventRow" where
  "retained r = r\<lparr>r_status := AgentEventStatusInvalidated, r_deliverable := 1,
     r_invalidatedReason := Some retained_reason\<rparr>"

definition unseen_failure :: "agentEventRow \<Rightarrow> bool" where
  "unseen_failure r \<longleftrightarrow> r_eventType r = AgentEventFailed \<and> r_deliverable r = 1 \<and> r_deliveryAttempts r = 0"

definition completion_from_working :: "agentEventRow \<Rightarrow> bool" where
  "completion_from_working r \<longleftrightarrow> r_deliverable r = 1
     \<and> (r_eventType r = AgentEventDone \<or> r_eventType r = AgentEventIdle)
     \<and> map_of (asRecord (r_payload r)) ''from'' = Some (JStr ''working'')"

text \<open>What the sweep makes of a row; \<open>None\<close> is a deleted row.\<close>

definition swept_row :: "live_panes \<Rightarrow> agentEventRow \<Rightarrow> agentEventRow option" where
  "swept_row live r =
     (if \<not> pending_or_delivered r then Some r
      else (case live (r_herdrSessionName r) of None \<Rightarrow> Some r
        | Some panes \<Rightarrow>
          if alive panes r then Some r
          else if unseen_failure r
            \<or> (r_paneID r \<notin> Some ` lp_paneID ` set panes \<and> completion_from_working r
               \<and> r_createdAtMs r \<le> RedeliveryFreshnessMs)
          then Some (retained r) else None))"

definition touched :: "live_panes \<Rightarrow> agentEventRow \<Rightarrow> bool" where
  "touched live r \<longleftrightarrow> swept_row live r \<noteq> Some r"

definition put_events :: "agentEventRow list \<Rightarrow> world \<Rightarrow> world" where
  "put_events rows w = w\<lparr>w_tables := (w_tables w)\<lparr>agent_events := rows\<rparr>\<rparr>"

lemma put_events_simps [simp]:
  "agent_events (w_tables (put_events rows w)) = rows" "w_faults (put_events rows w) = w_faults w"
  "put_events rows (put_events rows' w) = put_events rows w"
  by (simp_all add: put_events_def)

lemma put_events_same: "agent_events (w_tables w) = rows \<Longrightarrow> put_events rows w = w"
  by (auto simp: put_events_def)

text \<open>Replacing or dropping the one row with a given id.\<close>

definition replace_row :: "agentEventRow \<Rightarrow> agentEventRow option \<Rightarrow> agentEventRow list \<Rightarrow> agentEventRow list" where
  "replace_row r new rows = List.map_filter (\<lambda>x. if x = r then new else Some x) rows"

lemma replace_row_Some: "replace_row r (Some y) rows = map (\<lambda>x. if x = r then y else x) rows"
  by (induction rows) (auto simp: replace_row_def List.map_filter_simps)

lemma replace_row_None: "replace_row r None rows = filter (\<lambda>x. x \<noteq> r) rows"
  by (induction rows) (auto simp: replace_row_def List.map_filter_simps)

lemma same_id:
  "sorted_wrt (<) (map r_id rows) \<Longrightarrow> r \<in> set rows \<Longrightarrow> x \<in> set rows \<Longrightarrow> r_id x = r_id r \<Longrightarrow> x = r"
  by (metis strict_sorted_distinct distinct_map inj_onD)

lemma marked_row:
  assumes "w_faults w = []" and rows: "agent_events (w_tables w) = rows" "sorted_wrt (<) (map r_id rows)"
    and r: "r \<in> set rows" "pending_or_delivered r"
  shows "MarkRetainedInvalidated (r_id r) w = (Inr True, put_events (replace_row r (Some (retained r)) rows) w)"
    and "DeleteReconcileCandidate (r_id r) w = (Inr True, put_events (replace_row r None rows) w)"
proof -
  have only: "r_id x = r_id r \<and> pending_or_delivered x \<longleftrightarrow> x = r" if "x \<in> set rows" for x
    using same_id [OF rows(2) r(1) that] r(2) by auto
  have "update_where (\<lambda>x. r_id x = r_id r \<and> pending_or_delivered x) retained rows = replace_row r (Some (retained r)) rows"
    using only by (auto simp: update_where_def replace_row_Some)
  moreover have "delete_where (\<lambda>x. r_id x = r_id r \<and> pending_or_delivered x) rows = replace_row r None rows"
    using only by (auto simp: delete_where_def replace_row_None intro!: filter_cong)
  moreover have "0 < count_where (\<lambda>x. r_id x = r_id r \<and> pending_or_delivered x) rows"
    using r by (auto simp: count_where_pos)
  ultimately show "MarkRetainedInvalidated (r_id r) w = (Inr True, put_events (replace_row r (Some (retained r)) rows) w)"
    and "DeleteReconcileCandidate (r_id r) w = (Inr True, put_events (replace_row r None rows) w)"
    using assms by (simp_all add: MarkRetainedInvalidated_def DeleteReconcileCandidate_def affected_some_def bind_act_def
        change_sql_ok return_act_def update_events_def delete_events_def put_events_def retained_def [abs_def])
qed

text \<open>The tests of the code on a stored event.\<close>

lemma event_tests:
  "(\<exists>pane \<in> set panes. paneMatchesEvent pane (mapAgentEvent r)) \<longleftrightarrow> alive panes r"
  "(\<exists>pane \<in> set panes. e_PaneID (mapAgentEvent r) = Some (lp_paneID pane)) \<longleftrightarrow> r_paneID r \<in> Some ` lp_paneID ` set panes"
  "isRetainableTerminalFailure (mapAgentEvent r) \<longleftrightarrow> unseen_failure r"
  "retainable_closed (mapAgentEvent r) now \<longleftrightarrow>
     unseen_failure r \<or> (completion_from_working r \<and> r_createdAtMs r \<le> RedeliveryFreshnessMs)"
proof -
  show "(\<exists>pane \<in> set panes. paneMatchesEvent pane (mapAgentEvent r)) \<longleftrightarrow> alive panes r"
  proof -
    have "paneMatchesEvent pane (mapAgentEvent r) \<longleftrightarrow> r_paneID r = Some (lp_paneID pane)
        \<and> (r_paneGeneration r = None \<or> lp_generation pane = None \<or> lp_generation pane = r_paneGeneration r)" for pane
      by (cases "r_paneID r"; cases "r_paneGeneration r"; cases "lp_generation pane")
        (auto simp: paneMatchesEvent_def mapAgentEvent_def)
    then show ?thesis by (simp add: alive_def)
  qed
  show failure: "isRetainableTerminalFailure (mapAgentEvent r) \<longleftrightarrow> unseen_failure r"
    by (simp add: isRetainableTerminalFailure_def unseen_failure_def mapAgentEvent_def)
  have "asReconcileRecord (parsePayload v) = asRecord v" for v
    by (cases v) (auto simp: asReconcileRecord_def)
  then show "retainable_closed (mapAgentEvent r) now \<longleftrightarrow>
      unseen_failure r \<or> (completion_from_working r \<and> r_createdAtMs r \<le> RedeliveryFreshnessMs)"
    unfolding retainable_closed_def Let_def failure
    by (auto simp: eventAgeMs_def completion_from_working_def mapAgentEvent_def)
qed (auto simp: mapAgentEvent_def)

lemma swept_one:
  assumes quiet: "w_faults w = []" and rows: "agent_events (w_tables w) = rows" "sorted_wrt (<) (map r_id rows)"
    and r: "r \<in> set rows" "pending_or_delivered r"
  shows "reconcile_event live (mapAgentEvent r) w
    = (Inr (counted (touched live r)), put_events (replace_row r (swept_row live r) rows) w)"
proof -
  have "retained r \<noteq> r"
  proof
    assume "retained r = r"
    moreover have "r_status (retained r) = AgentEventStatusInvalidated" by (simp add: retained_def)
    ultimately have "r_status r = AgentEventStatusInvalidated" by simp
    with r show False by (auto simp: pending_or_delivered_def)
  qed
  moreover have "put_events (replace_row r (Some r) rows) w = w"
    using rows by (intro put_events_same) (simp add: replace_row_Some map_idI)
  moreover have "e_HerdrSessionName (mapAgentEvent r) = r_herdrSessionName r" "e_ID (mapAgentEvent r) = r_id r"
    by (simp_all add: mapAgentEvent_def)
  ultimately show ?thesis
    using r marked_row [OF assms]
    by (auto simp: reconcile_event_def event_tests touched_def swept_row_def return_act_def bind_act_def counted_def
        split: option.split)
qed

lemma map_filter_agree:
  "(\<And>x. x \<in> set rows \<Longrightarrow> f x = g x) \<Longrightarrow> List.map_filter f rows = List.map_filter g rows"
  by (induction rows) (auto simp: List.map_filter_simps split: option.split)

lemma map_filter_keep: "List.map_filter Some rows = rows"
  by (induction rows) (simp_all add: List.map_filter_simps)

text \<open>The sweep of a set of rows, as a map over the table that may drop rows.\<close>

definition sweep_rows :: "live_panes \<Rightarrow> agentEventRow set \<Rightarrow> agentEventRow list \<Rightarrow> agentEventRow list" where
  "sweep_rows live S rows = List.map_filter (\<lambda>r. if r \<in> S then swept_row live r else Some r) rows"

lemma swept_id: "swept_row live r = Some y \<Longrightarrow> r_id y = r_id r \<and> (y = r \<or> y = retained r)"
  by (auto simp: swept_row_def retained_def split: if_splits option.splits)

lemma map_filter_ids:
  assumes "\<And>x y. f x = Some y \<Longrightarrow> r_id y = r_id x" and "sorted_wrt (<) (map r_id rows)"
  shows "sorted_wrt (<) (map r_id (List.map_filter f rows))"
  using assms(2)
proof (induction rows)
  case (Cons r rows)
  have "r_id r < r_id y" if filtered: "y \<in> set (List.map_filter f rows)" for y
  proof -
    from filtered obtain x where "x \<in> set rows" "f x = Some y" by (auto simp: List.map_filter_def)
    with Cons.prems assms(1) show ?thesis by fastforce
  qed
  with Cons show ?case
    by (cases "f r") (auto simp: List.map_filter_simps dest: assms(1))
qed (simp add: List.map_filter_simps)

lemma sorted_replaced:
  "sorted_wrt (<) (map r_id rows) \<Longrightarrow> sorted_wrt (<) (map r_id (replace_row r (swept_row live r) rows))"
  unfolding replace_row_def by (rule map_filter_ids) (auto split: if_splits dest: swept_id)

lemma sorted_swept: "sorted_wrt (<) (map r_id rows) \<Longrightarrow> sorted_wrt (<) (map r_id (sweep_rows live S rows))"
  unfolding sweep_rows_def by (rule map_filter_ids) (auto split: if_splits dest: swept_id)

lemma sweep_after_one:
  assumes "\<And>y. swept_row live r = Some y \<Longrightarrow> y \<notin> S"
  shows "sweep_rows live S (replace_row r (swept_row live r) rows) = sweep_rows live (insert r S) rows"
  using assms
  by (induction rows) (auto simp: sweep_rows_def replace_row_def List.map_filter_simps split: option.split)

lemma swept_list:
  assumes "w_faults w = []" and "agent_events (w_tables w) = rows" and "sorted_wrt (<) (map r_id rows)"
    and "set rs \<subseteq> set rows" and "distinct rs" and "\<forall>r \<in> set rs. pending_or_delivered r"
  shows "reconcile_events live (map mapAgentEvent rs) n w
    = (Inr (n + int (length (filter (touched live) rs))), put_events (sweep_rows live (set rs) rows) w)"
  using assms
proof (induction rs arbitrary: rows w n)
  case Nil
  then show ?case by (simp add: return_act_def sweep_rows_def put_events_same map_filter_keep)
next
  case (Cons r rs)
  let ?rows = "replace_row r (swept_row live r) rows"
  have one: "reconcile_event live (mapAgentEvent r) w = (Inr (counted (touched live r)), put_events ?rows w)"
    using Cons.prems by (intro swept_one) auto
  have others: "y \<notin> set rs" if "swept_row live r = Some y" for y
    using swept_id [OF that] same_id [OF Cons.prems(3), of r y] Cons.prems(4,5) by auto
  have "set rs \<subseteq> set ?rows" using Cons.prems(4,5)
    by (auto simp: replace_row_def List.map_filter_def image_iff)
  then have "reconcile_events live (map mapAgentEvent rs) (n + counted (touched live r)) (put_events ?rows w)
      = (Inr (n + counted (touched live r) + int (length (filter (touched live) rs))),
         put_events (sweep_rows live (set rs) ?rows) (put_events ?rows w))"
    using Cons.prems by (intro Cons.IH) (auto intro: sorted_replaced)
  with one sweep_after_one [OF others] show ?case by (simp add: counted_def)
qed

text \<open>The pages together are the list of all candidates.\<close>

definition candidates_of :: "int \<Rightarrow> agentEventRow list \<Rightarrow> agentEventRow list" where
  "candidates_of cursor rows = filter (\<lambda>r. cursor < r_id r \<and> pending_or_delivered r) rows"

lemma page_quiet:
  assumes "w_faults w = []" and "agent_events (w_tables w) = rows" and "sorted_wrt (<) (map r_id rows)"
  shows "ListReconcileCandidates ReconcileBatchLimit cursor w
    = (Inr (map mapAgentEvent (take 100 (candidates_of cursor rows))), w)"
  using assms by (simp add: ListReconcileCandidates_def query_sql_ok ReconcileBatchLimit_def sql_limit_def events_asc_def
      candidates_of_def sort_key_sorted sorted_map_filter)

lemma reconcile_events_append:
  "reconcile_events live (xs @ ys) n = bind_act (reconcile_events live xs n) (reconcile_events live ys)"
proof (induction xs arbitrary: n)
  case (Cons x xs)
  then show ?case by (auto simp: bind_act_def fun_eq_iff split: prod.split sum.split)
qed (simp add: bind_act_def return_act_def fun_eq_iff)

lemma filter_sweep:
  "(\<And>r. r \<in> S \<Longrightarrow> \<not> P r) \<Longrightarrow> (\<And>r y. r \<in> S \<Longrightarrow> swept_row live r = Some y \<Longrightarrow> \<not> P y)
    \<Longrightarrow> filter P (sweep_rows live S rows) = filter P rows"
  by (induction rows) (auto simp: sweep_rows_def List.map_filter_simps split: option.split)

lemma next_candidates:
  assumes sorted: "sorted_wrt (<) (map r_id rows)" and some: "candidates_of cursor rows \<noteq> []"
    and page: "rs = take 100 (candidates_of cursor rows)"
  shows "candidates_of (r_id (last rs)) (sweep_rows live (set rs) rows) = drop 100 (candidates_of cursor rows)"
proof -
  let ?C = "candidates_of cursor rows" and ?c = "r_id (last rs)"
  have sortedC: "sorted_wrt (<) (map r_id ?C)"
    unfolding candidates_of_def using sorted by (rule sorted_map_filter)
  have rest: "filter (\<lambda>x. ?c < r_id x) ?C = drop 100 ?C"
    unfolding page using drop_sorted [OF sortedC some] by simp
  have "rs \<noteq> []" using some page by simp
  then have "last rs \<in> set ?C" unfolding page by (meson last_in_set in_set_takeD)
  then have later: "cursor < ?c" by (simp add: candidates_of_def)
  have passed: "\<not> ?c < r_id r" if "r \<in> set rs" for r
  proof
    assume "?c < r_id r"
    with that have "r \<in> set (drop 100 ?C)" unfolding rest [symmetric] page by (auto dest: in_set_takeD)
    moreover have "distinct ?C" using sortedC by (metis distinct_map strict_sorted_distinct)
    ultimately show False using that page by (metis append_take_drop_id disjoint_iff distinct_append)
  qed
  have "candidates_of ?c (sweep_rows live (set rs) rows) = filter (\<lambda>r. ?c < r_id r \<and> pending_or_delivered r) rows"
    unfolding candidates_of_def using passed by (intro filter_sweep) (auto dest: swept_id)
  also have "\<dots> = filter (\<lambda>x. ?c < r_id x) ?C"
    using later by (auto simp: candidates_of_def filter_filter intro!: filter_cong)
  finally show ?thesis by (simp add: rest)
qed

lemma sweep_quiet:
  assumes "w_faults w = []" and "agent_events (w_tables w) = rows" and "sorted_wrt (<) (map r_id rows)"
    and "length (candidates_of cursor rows) \<le> fuel"
  shows "sweep_pages (Suc fuel) live (\<lambda>_. False) k cursor n w
    = reconcile_events live (map mapAgentEvent (candidates_of cursor rows)) n w"
  using assms
proof (induction fuel arbitrary: k cursor n w rows)
  case 0
  then show ?case using page_quiet [OF 0(1-3)] by (simp add: bind_act_def)
next
  case (Suc fuel)
  define rs where "rs = take 100 (candidates_of cursor rows)"
  show ?case
  proof (cases "candidates_of cursor rows = []")
    case False
    have within: "set rs \<subseteq> set rows" "distinct rs" "\<forall>r \<in> set rs. pending_or_delivered r"
      using strict_sorted_distinct [OF Suc.prems(3)]
      by (auto simp: rs_def candidates_of_def distinct_map dest: in_set_takeD)
    from False have "rs \<noteq> []" by (simp add: rs_def)
    then have cursor': "e_ID (last (map mapAgentEvent rs)) = r_id (last rs)"
      by (simp add: last_map mapAgentEvent_def)
    have next_page: "candidates_of (r_id (last rs)) (sweep_rows live (set rs) rows) = drop 100 (candidates_of cursor rows)"
      using next_candidates [OF Suc.prems(3) False rs_def] .
    let ?w1 = "put_events (sweep_rows live (set rs) rows) w"
    have "sweep_pages (Suc fuel) live (\<lambda>_. False) (Suc k) (r_id (last rs)) m ?w1
        = reconcile_events live (map mapAgentEvent (drop 100 (candidates_of cursor rows))) m ?w1" for m
      using Suc.IH [of ?w1 "sweep_rows live (set rs) rows" "r_id (last rs)"] Suc.prems next_page False
      by (simp add: sorted_swept)
    moreover have "map mapAgentEvent (candidates_of cursor rows)
        = map mapAgentEvent rs @ map mapAgentEvent (drop 100 (candidates_of cursor rows))"
      by (simp add: rs_def flip: map_append)
    ultimately show ?thesis
      using page_quiet [OF Suc.prems(1-3)] False \<open>rs \<noteq> []\<close> swept_list [OF Suc.prems(1-3) within]
      by (simp add: reconcile_events_append cursor' flip: rs_def del: sweep_pages.simps(2) add: sweep_pages.simps(2) [of "Suc fuel"])
  qed (use page_quiet [OF Suc.prems(1-3)] in \<open>simp add: bind_act_def\<close>)
qed

text \<open>
  C21: One reconcile sweep without failures is one pass over the event table. Rows that are not pending
  or delivered and rows of sessions that were not read stay; so do the rows of a pane that is alive in
  the same generation. A failure that was never handed out survives as a retained row, and every other
  pending or delivered row of a closed pane is deleted. A completion is retained too only when its
  creation time lies in the first five minutes of the epoch: the sources mean a completion of the last
  five minutes, but subtract the age from the clock twice. The count is the number of rows changed or
  removed.
\<close>

theorem reconcile_sweep_exact:
  assumes "w_faults w = []" and "events_ok (w_tables w)"
  shows "sweep_events live (\<lambda>_. False) w =
    (Inr (int (length (filter (touched live) (agent_events (w_tables w))))),
     put_events (List.map_filter (swept_row live) (agent_events (w_tables w))) w)"
proof -
  let ?rows = "agent_events (w_tables w)" and ?C = "candidates_of 0 (agent_events (w_tables w))"
  have sorted: "sorted_wrt (<) (map r_id ?rows)" and C: "?C = filter pending_or_delivered ?rows"
    using assms(2) by (auto simp: events_ok_def candidates_of_def intro!: filter_cong)
  have settled: "swept_row live r = Some r" if "\<not> pending_or_delivered r" for r
    using that by (simp add: swept_row_def)
  have "sweep_rows live (set ?C) ?rows = List.map_filter (swept_row live) ?rows"
    unfolding sweep_rows_def C by (rule map_filter_agree) (simp add: settled)
  moreover have "filter (touched live) ?C = filter (touched live) ?rows"
    unfolding C filter_filter by (rule filter_cong) (simp_all add: touched_def swept_row_def)
  moreover have "distinct ?C" "set ?C \<subseteq> set ?rows" "\<forall>r \<in> set ?C. pending_or_delivered r"
    using strict_sorted_distinct [OF sorted] by (auto simp: C distinct_map)
  moreover have "length ?C \<le> length ?rows" by (simp add: C)
  ultimately show ?thesis
    unfolding sweep_events_def sweep_quiet [OF assms(1) refl sorted \<open>length ?C \<le> length ?rows\<close>]
    using swept_list [OF assms(1) refl sorted, of ?C live 0] by simp
qed

text \<open>Two pending rows of a closed pane: a failure nobody saw and a completion.\<close>

definition closed_pane_rows :: "agentEventRow list" where
  "closed_pane_rows = [sample_row\<lparr>r_eventType := AgentEventFailed\<rparr>, sample_row2\<lparr>r_createdAtMs := 400000\<rparr>]"

lemma closed_pane_rows_ok: "events_ok (sample_tables closed_pane_rows)"
  by (simp add: events_ok_def closed_pane_rows_def sample_tables_def sample_row_def sample_row2_def appended_row_def
      sample_input_def row_ok_def same_key_def)

theorem reconcile_sweep_exact_witness:
  "sweep_events [''s'' \<mapsto> []] (\<lambda>_. False) (sample_world closed_pane_rows)
   = (Inr 2, put_events [retained (sample_row\<lparr>r_eventType := AgentEventFailed\<rparr>)] (sample_world closed_pane_rows))"
  using reconcile_sweep_exact [of "sample_world closed_pane_rows" "[''s'' \<mapsto> []]"]
  by (simp add: closed_pane_rows_ok) (simp add: closed_pane_rows_def sample_tables_def List.map_filter_simps
      swept_row_def touched_def pending_or_delivered_def alive_def unseen_failure_def completion_from_working_def
      sample_row_def sample_row2_def appended_row_def sample_input_def RedeliveryFreshnessMs_def retained_def)

text \<open>
  The freshness rule of the sweep never applies: an event stored later than five minutes after the
  epoch counts as stale whatever the clock says, because its age is subtracted from the clock twice. So a
  completion of a pane that closed a moment ago is not retained; only failures nobody saw are.
\<close>

theorem reconcile_never_fresh:
  assumes "RedeliveryFreshnessMs < e_CreatedAt event"
  shows "retainable_closed event now \<longleftrightarrow> isRetainableTerminalFailure event"
  using assms by (simp add: retainable_closed_def eventAgeMs_def Let_def)

theorem reconcile_never_fresh_witness:
  "let event = mapAgentEvent (sample_row2\<lparr>r_createdAtMs := 400000\<rparr>)
   in e_Type event = AgentEventDone \<and> e_Deliverable event = 1 \<and> \<not> retainable_closed event 400001"
  using reconcile_never_fresh [of "mapAgentEvent (sample_row2\<lparr>r_createdAtMs := 400000\<rparr>)" 400001]
  by (simp add: mapAgentEvent_def sample_row2_def appended_row_def sample_input_def RedeliveryFreshnessMs_def
      isRetainableTerminalFailure_def Let_def)

subsection \<open>Incomplete answers\<close>

lemma walk_fails:
  assumes "entry \<in> set sessions" and "hse_Running entry"
    and "rz_clientFactory z entry \<noteq> None \<or> (\<exists>e. rz_sessionSnapshot z entry = Inl e)" and "\<forall>k. \<not> stopping k"
  shows "walk_sessions z stopping k sessions live = None"
  using assms(1,4)
proof (induction sessions arbitrary: k live)
  case (Cons x sessions)
  then show ?case using assms(2,3) by (cases "x = entry") (auto split: sum.split)
qed simp

text \<open>
  A round that could not read every running session does nothing: when the session list is not
  available, or one running session cannot be connected to or asked for its panes, the world stays as it
  is and the result is empty, so no event is dropped for a pane that merely could not be seen.
\<close>

theorem reconcile_incomplete_changes_nothing:
  assumes "case rz_sessionList z w of Inl _ \<Rightarrow> True
    | Inr sessions \<Rightarrow> \<exists>entry \<in> set sessions. hse_Running entry
        \<and> (rz_clientFactory z entry \<noteq> None \<or> (\<exists>e. rz_sessionSnapshot z entry = Inl e))"
    and "\<forall>k. \<not> ro_stopWalk options k"
  shows "Reconcile z options w = (Inr emptyReconcileResult, w)"
  using assms walk_fails [of _ _ z "ro_stopWalk options" 0 Map.empty]
  by (auto simp: Reconcile_def split: sum.splits)

definition unreadable_reconciler :: AgentEventReconciler where
  "unreadable_reconciler =
     \<lparr>rz_historyCache = True, rz_statusEventPlans = True,
      rz_sessionList = (\<lambda>w. Inr [\<lparr>hse_Default = None, hse_Name = ''s'', hse_Running = True, hse_SessionDir = ''d'',
        hse_SocketPath = ''k''\<rparr>]),
      rz_clientFactory = (\<lambda>entry. None), rz_sessionSnapshot = (\<lambda>entry. Inl ErrDriver),
      rz_connectedTerminal = (\<lambda>session terminal. True), rz_sourceExists = (\<lambda>path. True)\<rparr>"

theorem reconcile_incomplete_changes_nothing_witness:
  "Reconcile unreadable_reconciler
     \<lparr>ro_ReleaseStaleOwners = None, ro_stopWalk = (\<lambda>_. False), ro_stopSweep = (\<lambda>_. False)\<rparr>
     (sample_world closed_pane_rows) = (Inr emptyReconcileResult, sample_world closed_pane_rows)"
  by (rule reconcile_incomplete_changes_nothing) (simp_all add: unreadable_reconciler_def)

end
