(* ===== verification/JsonLines.thy ===== *)
theory JsonLines
  imports Contracts
begin

text \<open>
  The JSON Lines framing of \<open>go/internal/shared/json_lines.go\<close>: one JSON value per line, pushed in
  arbitrary chunks, with a limit on the bytes that may be pending. Strings are byte strings. The JSON
  codec itself is \<open>encoding/json\<close>; \<open>marshal\<close> and \<open>unmarshal\<close> stand for it, \<open>None\<close> being its error. The
  replacement of invalid UTF-8 before a line is parsed is written out.
\<close>

definition DefaultMaxFrameBytes :: int where "DefaultMaxFrameBytes = 1024 * 1024"

datatype frame_error =
  ErrJSONLineNotSerializable | ErrInvalidMaxFrameBytes | JsonLineFrameTooLargeError int | ErrDecodeFrame

definition newline :: char where "newline = CHR 0x0A"

definition EncodeJSONLine :: "(jval \<Rightarrow> string option) \<Rightarrow> jval \<Rightarrow> frame_error + string" where
  "EncodeJSONLine marshal v =
     (case marshal v of None \<Rightarrow> Inl ErrJSONLineNotSerializable | Some encoded \<Rightarrow> Inr (encoded @ [newline]))"

record JsonLineDecoder =
  jd_buffer :: string
  jd_maxBytes :: int

definition NewJSONLineDecoder :: "int \<Rightarrow> frame_error + JsonLineDecoder" where
  "NewJSONLineDecoder maxBytes =
     (if maxBytes \<le> 0 then Inl ErrInvalidMaxFrameBytes else Inr \<lparr>jd_buffer = [], jd_maxBytes = maxBytes\<rparr>)"

text \<open>\<open>splitLines\<close>: the part after the last newline is the last element, also when it is empty.\<close>

fun splitLines :: "string \<Rightarrow> string list" where
  "splitLines [] = [[]]"
| "splitLines (c # s) =
     (if c = newline then [] # splitLines s
      else case splitLines s of [] \<Rightarrow> [[c]] | line # rest \<Rightarrow> (c # line) # rest)"

subsection \<open>UTF-8\<close>

definition between :: "nat \<Rightarrow> nat \<Rightarrow> char \<Rightarrow> bool" where
  "between lo hi c \<longleftrightarrow> lo \<le> of_char c \<and> of_char c \<le> hi"

definition continuation :: "char \<Rightarrow> bool" where "continuation = between 0x80 0xBF"

text \<open>The range of the second byte that the first one admits (\<open>unicode/utf8\<close>).\<close>

definition second_ok :: "char \<Rightarrow> char \<Rightarrow> bool" where
  "second_ok a b \<longleftrightarrow>
     (if of_char a = (0xE0::nat) then between 0xA0 0xBF b
      else if of_char a = (0xED::nat) then between 0x80 0x9F b
      else if of_char a = (0xF0::nat) then between 0x90 0xBF b
      else if of_char a = (0xF4::nat) then between 0x80 0x8F b
      else continuation b)"

text \<open>How many bytes the valid sequence at the front takes; 0 when there is none.\<close>

fun rune_length :: "string \<Rightarrow> nat" where
  "rune_length [] = 0"
| "rune_length (a # s) =
     (if between 0 0x7F a then 1
      else case s of [] \<Rightarrow> 0
        | b # s1 \<Rightarrow>
          if between 0xC2 0xDF a then (if continuation b then 2 else 0)
          else (case s1 of [] \<Rightarrow> 0
            | c # s2 \<Rightarrow>
              if between 0xE0 0xEF a then (if second_ok a b \<and> continuation c then 3 else 0)
              else (case s2 of [] \<Rightarrow> 0
                | d # _ \<Rightarrow>
                  if between 0xF0 0xF4 a \<and> second_ok a b \<and> continuation c \<and> continuation d then 4 else 0)))"

definition replacement :: string where "replacement = [CHR 0xEF, CHR 0xBF, CHR 0xBD]"

text \<open>\<open>string([]rune(line))\<close>: each byte that starts no valid sequence becomes U+FFFD.\<close>

function replace_invalid :: "string \<Rightarrow> string" where
  "replace_invalid [] = []"
| "replace_invalid (c # s) =
     (let n = rune_length (c # s)
      in if n = 0 then replacement @ replace_invalid s
         else take n (c # s) @ replace_invalid (drop n (c # s)))"
  by pat_completeness auto
termination by (relation "measure length") auto

declare replace_invalid.simps(2) [simp del]

subsection \<open>The decoder\<close>

definition parseFrame :: "(string \<Rightarrow> jval option) \<Rightarrow> string \<Rightarrow> frame_error + jval" where
  "parseFrame unmarshal line =
     (case unmarshal (replace_invalid line) of None \<Rightarrow> Inl ErrDecodeFrame | Some v \<Rightarrow> Inr v)"

text \<open>Empty lines are skipped, the first line that does not parse ends the push.\<close>

fun parse_lines :: "(string \<Rightarrow> jval option) \<Rightarrow> string list \<Rightarrow> frame_error + jval list" where
  "parse_lines unmarshal [] = Inr []"
| "parse_lines unmarshal (line # rest) =
     (if line = [] then parse_lines unmarshal rest
      else case parseFrame unmarshal line of Inl e \<Rightarrow> Inl e
        | Inr v \<Rightarrow> (case parse_lines unmarshal rest of Inl e \<Rightarrow> Inl e | Inr vs \<Rightarrow> Inr (v # vs)))"

definition Push :: "(string \<Rightarrow> jval option) \<Rightarrow> string \<Rightarrow> JsonLineDecoder \<Rightarrow> (frame_error + jval list) \<times> JsonLineDecoder" where
  "Push unmarshal chunk d =
     (let buffer = jd_buffer d @ chunk
      in if jd_maxBytes d < int (length buffer)
         then (Inl (JsonLineFrameTooLargeError (jd_maxBytes d)), d\<lparr>jd_buffer := buffer\<rparr>)
         else let lines = splitLines buffer
           in (parse_lines unmarshal (butlast lines), d\<lparr>jd_buffer := last lines\<rparr>))"

definition Flush :: "(string \<Rightarrow> jval option) \<Rightarrow> JsonLineDecoder \<Rightarrow> (frame_error + jval list) \<times> JsonLineDecoder" where
  "Flush unmarshal d =
     (if jd_buffer d = [] then (Inr [], d)
      else (case parseFrame unmarshal (jd_buffer d) of Inl e \<Rightarrow> Inl e | Inr v \<Rightarrow> Inr [v], d\<lparr>jd_buffer := []\<rparr>))"

definition BufferedByteLength :: "JsonLineDecoder \<Rightarrow> int" where
  "BufferedByteLength d = int (length (jd_buffer d))"

text \<open>A stream of chunks up to its first error.\<close>

fun push_all ::
    "(string \<Rightarrow> jval option) \<Rightarrow> string list \<Rightarrow> JsonLineDecoder \<Rightarrow> (frame_error + jval list) \<times> JsonLineDecoder" where
  "push_all unmarshal [] d = (Inr [], d)"
| "push_all unmarshal (chunk # chunks) d =
     (case Push unmarshal chunk d of (Inl e, d1) \<Rightarrow> (Inl e, d1)
      | (Inr vs, d1) \<Rightarrow> (case push_all unmarshal chunks d1 of (Inl e, d2) \<Rightarrow> (Inl e, d2)
          | (Inr ws, d2) \<Rightarrow> (Inr (vs @ ws), d2)))"

subsection \<open>Chunk boundaries\<close>

lemma splitLines_nonempty [simp]: "splitLines s \<noteq> []"
  by (induction s) (auto split: list.split)

text \<open>Splitting a concatenation continues the last line of the first part.\<close>

lemma splitLines_append:
  "splitLines (s @ t) = butlast (splitLines s) @ splitLines (last (splitLines s) @ t)"
proof (induction s)
  case (Cons c s)
  obtain line rest where s: "splitLines s = line # rest" by (cases "splitLines s") auto
  show ?case
  proof (cases "c = newline")
    case False
    then show ?thesis
    proof (cases rest)
      case Nil
      with Cons s False show ?thesis by simp
    next
      case (Cons line2 rest2)
      with Cons.IH s False show ?thesis by (simp add: Cons.IH)
    qed
  qed (use Cons s in simp)
qed simp

lemma splitLines_last: "splitLines (last (splitLines s)) = [last (splitLines s)]"
proof (induction s)
  case (Cons c s)
  obtain line rest where s: "splitLines s = line # rest" by (cases "splitLines s") auto
  with Cons show ?case by (cases rest) (auto split: if_splits)
qed simp

lemma length_last_split: "length (last (splitLines s)) \<le> length s"
proof (induction s)
  case (Cons c s)
  obtain line rest where "splitLines s = line # rest" by (cases "splitLines s") auto
  with Cons show ?case by (cases rest) auto
qed simp

lemma parse_lines_append:
  "parse_lines unmarshal (xs @ ys) =
     (case parse_lines unmarshal xs of Inl e \<Rightarrow> Inl e
      | Inr vs \<Rightarrow> (case parse_lines unmarshal ys of Inl e \<Rightarrow> Inl e | Inr ws \<Rightarrow> Inr (vs @ ws)))"
  by (induction xs) (auto split: sum.splits)

lemma Push_append:
  assumes "int (length (jd_buffer d @ s @ t)) \<le> jd_maxBytes d"
  shows "Push unmarshal (s @ t) d =
    (case Push unmarshal s d of (Inl e, d1) \<Rightarrow> (Inl e, snd (Push unmarshal t d1))
     | (Inr vs, d1) \<Rightarrow> (case Push unmarshal t d1 of (Inl e, d2) \<Rightarrow> (Inl e, d2) | (Inr ws, d2) \<Rightarrow> (Inr (vs @ ws), d2)))"
proof -
  let ?b = "jd_buffer d @ s"
  have "length (last (splitLines ?b) @ t) \<le> length (jd_buffer d @ s @ t)"
    using length_last_split [of ?b] by simp
  moreover have "splitLines (jd_buffer d @ s @ t) = butlast (splitLines ?b) @ splitLines (last (splitLines ?b) @ t)"
    using splitLines_append [of ?b t] by simp
  ultimately show ?thesis
    using assms by (simp add: Push_def Let_def butlast_append parse_lines_append split: sum.split prod.split)
qed

lemma splitLines_single: "newline \<notin> set s \<Longrightarrow> splitLines s = [s]"
  by (induction s) auto

lemma last_split_clean: "newline \<notin> set (last (splitLines s))"
proof (induction s)
  case (Cons c s)
  obtain line rest where "splitLines s = line # rest" by (cases "splitLines s") auto
  with Cons show ?case by (cases rest) auto
qed simp

lemma Push_ok:
  assumes "Push unmarshal s d = (Inr vs, d')"
  shows "newline \<notin> set (jd_buffer d')" and "jd_maxBytes d' = jd_maxBytes d"
    and "length (jd_buffer d') \<le> length (jd_buffer d @ s)"
  using assms last_split_clean [of "jd_buffer d @ s"] length_last_split [of "jd_buffer d @ s"]
  by (auto simp: Push_def Let_def split: if_splits)

text \<open>The limit bounds what a decoder keeps between two pushes.\<close>

lemma Push_bounded: "Push unmarshal s d = (Inr vs, d') \<Longrightarrow> BufferedByteLength d' \<le> jd_maxBytes d"
  using Push_ok(3) [of unmarshal s d vs d']
  by (auto simp: BufferedByteLength_def Push_def Let_def split: if_splits)

text \<open>Framing does not depend on where the stream was cut.\<close>

lemma Push_chunks:
  assumes "newline \<notin> set (jd_buffer d)"
    and "int (length (jd_buffer d @ concat chunks)) \<le> jd_maxBytes d"
    and "Push unmarshal (concat chunks) d = (Inr vs, d')"
  shows "push_all unmarshal chunks d = (Inr vs, d')"
  using assms
proof (induction chunks arbitrary: d vs)
  case Nil
  then show ?case by (auto simp: Push_def splitLines_single)
next
  case (Cons chunk chunks)
  from Cons.prems(2,3) Push_append [of d chunk "concat chunks" unmarshal]
  obtain us d1 ws where first: "Push unmarshal chunk d = (Inr us, d1)"
    and rest: "Push unmarshal (concat chunks) d1 = (Inr ws, d')" and vs: "vs = us @ ws"
    by (auto split: prod.splits sum.splits)
  have "push_all unmarshal chunks d1 = (Inr ws, d')"
    using Push_ok [OF first] Cons.prems(2) by (intro Cons.IH rest) auto
  with first vs show ?case by simp
qed

subsection \<open>Encoding and decoding\<close>

lemma rune_ascii: "between 0 0x7F c \<Longrightarrow> replace_invalid (c # s) = c # replace_invalid s"
  by (simp add: replace_invalid.simps(2))

lemma replace_ascii: "\<forall>c \<in> set s. between 0 0x7F c \<Longrightarrow> replace_invalid s = s"
  by (induction s) (simp_all add: rune_ascii)

definition framed :: "(jval \<Rightarrow> string option) \<Rightarrow> (string \<Rightarrow> jval option) \<Rightarrow> jval \<Rightarrow> string \<Rightarrow> bool" where
  "framed marshal unmarshal v frame \<longleftrightarrow> EncodeJSONLine marshal v = Inr frame
     \<and> (\<forall>s. marshal v = Some s \<longrightarrow> s \<noteq> [] \<and> newline \<notin> set s \<and> replace_invalid s = s \<and> unmarshal s = Some v)"

lemma splitLines_frames:
  assumes "list_all2 (framed marshal unmarshal) vs frames"
  shows "\<exists>lines. splitLines (concat frames) = lines @ [[]] \<and> parse_lines unmarshal lines = Inr vs"
  using assms
proof (induction rule: list_all2_induct)
  case (Cons v vs frame frames)
  then obtain s where s: "frame = s @ [newline]" "s \<noteq> []" "newline \<notin> set s" "unmarshal (replace_invalid s) = Some v"
    by (auto simp: framed_def EncodeJSONLine_def split: option.splits)
  from Cons.IH obtain lines where "splitLines (concat frames) = lines @ [[]]" "parse_lines unmarshal lines = Inr vs"
    by blast
  moreover have "splitLines (s @ newline # t) = s # splitLines t" if "newline \<notin> set s" for s t
    using that by (induction s) auto
  ultimately have "splitLines (concat (frame # frames)) = (s # lines) @ [[]]"
      "parse_lines unmarshal (s # lines) = Inr (v # vs)"
    using s by (simp_all add: parseFrame_def)
  then show ?case by blast
qed simp

text \<open>
  C22: What was encoded is decoded again however the stream is cut: when a sequence of values is encoded
  line by line and the bytes, in any chunks, are pushed into an empty decoder whose limit they fit, the
  decoder returns exactly these values in order and keeps nothing. The JSON codec is assumed to write
  each value without a raw newline and in UTF-8, and to read back what it wrote.
\<close>

theorem frames_decoded_in_any_chunks:
  assumes "list_all2 (framed marshal unmarshal) vs frames" and "concat chunks = concat frames"
    and "NewJSONLineDecoder limit = Inr d" and "int (length (concat frames)) \<le> limit"
  shows "push_all unmarshal chunks d = (Inr vs, d) \<and> BufferedByteLength d = 0"
proof -
  from assms(3) have d: "d = \<lparr>jd_buffer = [], jd_maxBytes = limit\<rparr>"
    by (simp add: NewJSONLineDecoder_def split: if_splits)
  from splitLines_frames [OF assms(1)] obtain lines
    where "splitLines (concat frames) = lines @ [[]]" "parse_lines unmarshal lines = Inr vs" by blast
  then have "Push unmarshal (concat chunks) d = (Inr vs, d)"
    using assms(2,4) by (simp add: Push_def d)
  then show ?thesis using Push_chunks [of d chunks unmarshal vs d] assms(2,4)
    by (simp add: d BufferedByteLength_def)
qed

text \<open>A codec for the two booleans.\<close>

definition bool_marshal :: "jval \<Rightarrow> string option" where
  "bool_marshal v = (case v of JBool b \<Rightarrow> Some (if b then ''true'' else ''false'') | _ \<Rightarrow> None)"

definition bool_unmarshal :: "string \<Rightarrow> jval option" where
  "bool_unmarshal s = (if s = ''true'' then Some (JBool True) else if s = ''false'' then Some (JBool False) else None)"

lemma bool_framed: "framed bool_marshal bool_unmarshal (JBool b) ((if b then ''true'' else ''false'') @ [newline])"
  by (simp add: framed_def EncodeJSONLine_def bool_marshal_def bool_unmarshal_def newline_def rune_ascii between_def)

theorem frames_decoded_in_any_chunks_witness:
  "push_all bool_unmarshal [''tr'', ''ue'' @ newline # ''fal'', ''se'' @ [newline]] \<lparr>jd_buffer = [], jd_maxBytes = 16\<rparr>
   = (Inr [JBool True, JBool False], \<lparr>jd_buffer = [], jd_maxBytes = 16\<rparr>)"
proof -
  have "list_all2 (framed bool_marshal bool_unmarshal) [JBool True, JBool False]
      [''true'' @ [newline], ''false'' @ [newline]]"
    using bool_framed [of True] bool_framed [of False] by simp
  from frames_decoded_in_any_chunks [OF this, of "[''tr'', ''ue'' @ newline # ''fal'', ''se'' @ [newline]]" 16]
  show ?thesis by (simp add: NewJSONLineDecoder_def)
qed

end
