(* ===== verification/Config.thy ===== *)
theory Config
  imports IndexTypes
begin

text \<open>
  The configuration: the validation of the decoded document (\<open>config/schema.go\<close>), the loader
  (\<open>config/load.go\<close>) and the resolution of paths and settings from the environment
  (\<open>config/runtime.go\<close>). YAML is decoded by \<open>yaml.v3\<close>; its result is a parameter. A number of a YAML
  document is an integer (\<open>YInt\<close>: an \<open>int\<close>, \<open>int64\<close> or \<open>uint64\<close>) or a \<open>float64\<close> (\<open>YNum\<close>), which may be infinite or
  not a number and whose finite values are rationals. The validator converts integers to \<open>float64\<close>, which
  rounds above \<open>2 ^ 53\<close>. The defaults the validator writes
  back into the document are left out, as the loader drops the document.
\<close>

datatype fnum = Fin rat | PInf | MInf | NaN

fun fl_less :: "fnum \<Rightarrow> fnum \<Rightarrow> bool" where
  "fl_less (Fin a) (Fin b) = (a < b)"
| "fl_less MInf (Fin _) = True"
| "fl_less MInf PInf = True"
| "fl_less (Fin _) PInf = True"
| "fl_less _ _ = False"

text \<open>\<open>number == float64(int64(number))\<close>; a conversion out of range gives the least integer.\<close>

definition fl_integral :: "fnum \<Rightarrow> bool" where
  "fl_integral n = (case n of Fin q \<Rightarrow> of_int \<lfloor>q\<rfloor> = q \<and> - (2 ^ 63) \<le> q \<and> q < 2 ^ 63 | _ \<Rightarrow> False)"

text \<open>
  \<open>float64(n)\<close> for an integer: above 53 bits, the nearest multiple of the spacing of the floats there, and
  of two equally near ones the even one.
\<close>

fun float_spacing :: "int \<Rightarrow> int" where
  "float_spacing a = (if a < 2 ^ 53 then 1 else 2 * float_spacing (a div 2))"

declare float_spacing.simps [simp del]

definition round_float :: "int \<Rightarrow> int" where
  "round_float a =
     (let u = float_spacing a; q = a div u; r = a mod u
      in if 2 * r < u \<or> 2 * r = u \<and> even q then q * u else (q + 1) * u)"

definition float64_of_int :: "int \<Rightarrow> int" where
  "float64_of_int n = (if n < 0 then - round_float (- n) else round_float n)"

datatype yval =
  YNull | YBool bool | YNum fnum | YInt int | YStr string | YArr "yval list" | YObj "(string \<times> yval) list" | YOther

subsection \<open>Results\<close>

record ValidationError =
  ve_InstancePath :: string
  ve_Keyword :: string
  ve_Message :: string

record RuntimePathsConfig =
  cr_DBPath :: "string option"
  cr_LogPath :: "string option"
  cr_PIDPath :: "string option"
  cr_SocketPath :: "string option"

record StatusPlansSettings =
  cs_BackoffFactor :: fnum
  cs_InitialBackoffMs :: fnum
  cs_MaxBackoffMs :: fnum
  cs_TotalWindowMs :: fnum

record TelemetryConfig =
  ct_MaxExcerptBytes :: fnum

record ObservabilityConfig =
  co_StatusPlans :: "StatusPlansSettings option"
  co_Telemetry :: "TelemetryConfig option"

record WakeConfig =
  cw_ExtraUpstreamErrorPatterns :: "string list"
  cw_FilterUpstreamErrors :: bool

record HerdsmanConfig =
  cg_Observability :: "ObservabilityConfig option"
  cg_Runtime :: "RuntimePathsConfig option"
  cg_Wake :: "WakeConfig option"

text \<open>A value with the errors that were appended while it was read.\<close>

type_synonym 'a checked = "'a \<times> ValidationError list"

definition DefaultStatusPlanConfig :: StatusPlansSettings where
  "DefaultStatusPlanConfig =
     \<lparr>cs_BackoffFactor = Fin 2, cs_InitialBackoffMs = Fin 5000, cs_MaxBackoffMs = Fin 60000,
      cs_TotalWindowMs = Fin (15 * 60 * 1000)\<rparr>"

definition DefaultMaxExcerptBytes :: fnum where "DefaultMaxExcerptBytes = Fin 4096"
definition DefaultFilterUpstreamErrors :: bool where "DefaultFilterUpstreamErrors = True"

subsection \<open>Checks of one value\<close>

definition typeError :: "string \<Rightarrow> string \<Rightarrow> ValidationError" where
  "typeError path want =
     \<lparr>ve_InstancePath = path, ve_Keyword = ''type'', ve_Message = ''must be '' @ want\<rparr>"

definition minLengthError :: "string \<Rightarrow> ValidationError" where
  "minLengthError path =
     \<lparr>ve_InstancePath = path, ve_Keyword = ''minLength'',
      ve_Message = ''must NOT have fewer than 1 characters''\<rparr>"

definition minimumError :: "string \<Rightarrow> ValidationError" where
  "minimumError path =
     \<lparr>ve_InstancePath = path, ve_Keyword = ''minimum'', ve_Message = ''must be >= 1''\<rparr>"

definition replace_char :: "char \<Rightarrow> string \<Rightarrow> string \<Rightarrow> string" where
  "replace_char c new s = concat (map (\<lambda>x. if x = c then new else [x]) s)"

definition joinPath :: "string \<Rightarrow> string \<Rightarrow> string" where
  "joinPath prefix_path key =
     prefix_path @ ''/'' @ replace_char (CHR ''/'') ''~1'' (replace_char (CHR ''~'') ''~0'' key)"

definition checkAdditionalProperties :: "(string \<times> yval) list \<Rightarrow> string list \<Rightarrow> string \<Rightarrow> ValidationError list" where
  "checkAdditionalProperties obj allowed prefix_path =
     map (\<lambda>key. \<lparr>ve_InstancePath = joinPath prefix_path key, ve_Keyword = ''additionalProperties'',
            ve_Message = ''must NOT have additional properties''\<rparr>)
       (filter (\<lambda>key. key \<notin> set allowed) (sort (map fst obj)))"

definition nonEmptyString :: "yval \<Rightarrow> string \<Rightarrow> string option checked" where
  "nonEmptyString raw path =
     (case raw of YStr s \<Rightarrow> if s = [] then (None, [minLengthError path]) else (Some s, [])
      | _ \<Rightarrow> (None, [typeError path ''string'']))"

definition asNumber :: "yval \<Rightarrow> fnum option" where
  "asNumber raw = (case raw of YNum n \<Rightarrow> Some n | YInt n \<Rightarrow> Some (Fin (of_int (float64_of_int n))) | _ \<Rightarrow> None)"

text \<open>Every minimum of the schema is 1.\<close>

definition numberAtLeast :: "yval \<Rightarrow> string \<Rightarrow> fnum option checked" where
  "numberAtLeast raw path =
     (case asNumber raw of None \<Rightarrow> (None, [typeError path ''number''])
      | Some number \<Rightarrow> if fl_less number (Fin 1) then (None, [minimumError path]) else (Some number, []))"

definition integerAtLeast :: "yval \<Rightarrow> string \<Rightarrow> fnum option checked" where
  "integerAtLeast raw path =
     (case asNumber raw of None \<Rightarrow> (None, [typeError path ''number''])
      | Some number \<Rightarrow>
        if \<not> fl_integral number then (None, [typeError path ''integer''])
        else if fl_less number (Fin 1) then (None, [minimumError path])
        else (Some number, []))"

fun string_items :: "string \<Rightarrow> int \<Rightarrow> yval list \<Rightarrow> string list option checked" where
  "string_items path index [] = (Some [], [])"
| "string_items path index (item # rest) =
     (let here = path @ ''/'' @ FormatInt index;
          (others, errs) = string_items path (index + 1) rest
      in case item of
           YStr s \<Rightarrow> if s = [] then (None, minLengthError here # errs)
             else (map_option (\<lambda>ss. s # ss) others, errs)
         | _ \<Rightarrow> (None, typeError here ''string'' # errs))"

definition validateStringArray :: "yval \<Rightarrow> string \<Rightarrow> string list option checked" where
  "validateStringArray raw path =
     (case raw of YArr items \<Rightarrow> string_items path 0 items | _ \<Rightarrow> (None, [typeError path ''array'']))"

subsection \<open>The sections\<close>

text \<open>A key that is absent, or whose value was rejected, keeps the default.\<close>

definition field_or ::
    "(string \<times> yval) list \<Rightarrow> string \<Rightarrow> string \<Rightarrow> (yval \<Rightarrow> string \<Rightarrow> 'a option checked) \<Rightarrow> 'a \<Rightarrow> 'a checked" where
  "field_or obj prefix_path key check fallback =
     (case map_of obj key of None \<Rightarrow> (fallback, [])
      | Some raw \<Rightarrow> (case check raw (prefix_path @ ''/'' @ key) of
          (None, errs) \<Rightarrow> (fallback, errs) | (Some v, errs) \<Rightarrow> (v, errs)))"

definition optional_string :: "yval \<Rightarrow> string \<Rightarrow> string option option checked" where
  "optional_string raw path = (case nonEmptyString raw path of (s, errs) \<Rightarrow> (map_option Some s, errs))"

definition validateRuntimePaths :: "yval \<Rightarrow> RuntimePathsConfig option checked" where
  "validateRuntimePaths raw =
     (case raw of
        YObj obj \<Rightarrow>
          let (db_path, e1) = field_or obj ''/runtime'' ''db_path'' optional_string None;
              (log_path, e2) = field_or obj ''/runtime'' ''log_path'' optional_string None;
              (pid_path, e3) = field_or obj ''/runtime'' ''pid_path'' optional_string None;
              (socket_path, e4) = field_or obj ''/runtime'' ''socket_path'' optional_string None
          in (Some \<lparr>cr_DBPath = db_path, cr_LogPath = log_path, cr_PIDPath = pid_path, cr_SocketPath = socket_path\<rparr>,
              checkAdditionalProperties obj [''db_path'', ''log_path'', ''pid_path'', ''socket_path''] ''/runtime''
                @ e1 @ e2 @ e3 @ e4)
      | _ \<Rightarrow> (None, [typeError ''/runtime'' ''object'']))"

definition validateStatusPlans :: "yval \<Rightarrow> StatusPlansSettings option checked" where
  "validateStatusPlans raw =
     (let path = ''/observability/status_plans''; d = DefaultStatusPlanConfig in
      case raw of
        YObj obj \<Rightarrow>
          let (factor, e1) = field_or obj path ''backoff_factor'' numberAtLeast (cs_BackoffFactor d);
              (initial, e2) = field_or obj path ''initial_backoff_ms'' integerAtLeast (cs_InitialBackoffMs d);
              (maximal, e3) = field_or obj path ''max_backoff_ms'' integerAtLeast (cs_MaxBackoffMs d);
              (window, e4) = field_or obj path ''total_window_ms'' integerAtLeast (cs_TotalWindowMs d)
          in (Some \<lparr>cs_BackoffFactor = factor, cs_InitialBackoffMs = initial, cs_MaxBackoffMs = maximal,
                cs_TotalWindowMs = window\<rparr>,
              checkAdditionalProperties obj
                [''backoff_factor'', ''initial_backoff_ms'', ''max_backoff_ms'', ''total_window_ms''] path
                @ e1 @ e2 @ e3 @ e4)
      | _ \<Rightarrow> (None, [typeError path ''object'']))"

definition validateTelemetry :: "yval \<Rightarrow> TelemetryConfig option checked" where
  "validateTelemetry raw =
     (let path = ''/observability/telemetry'' in
      case raw of
        YObj obj \<Rightarrow>
          let (bytes, e1) = field_or obj path ''max_excerpt_bytes'' integerAtLeast DefaultMaxExcerptBytes
          in (Some \<lparr>ct_MaxExcerptBytes = bytes\<rparr>, checkAdditionalProperties obj [''max_excerpt_bytes''] path @ e1)
      | _ \<Rightarrow> (None, [typeError path ''object'']))"

definition present :: "(string \<times> yval) list \<Rightarrow> string \<Rightarrow> (yval \<Rightarrow> 'a option checked) \<Rightarrow> 'a option checked" where
  "present obj key check = (case map_of obj key of None \<Rightarrow> (None, []) | Some raw \<Rightarrow> check raw)"

definition validateObservability :: "yval \<Rightarrow> ObservabilityConfig option checked" where
  "validateObservability raw =
     (case raw of
        YObj obj \<Rightarrow>
          let (plans, e1) = present obj ''status_plans'' validateStatusPlans;
              (telemetry, e2) = present obj ''telemetry'' validateTelemetry
          in (Some \<lparr>co_StatusPlans = plans, co_Telemetry = telemetry\<rparr>,
              checkAdditionalProperties obj [''status_plans'', ''telemetry''] ''/observability'' @ e1 @ e2)
      | _ \<Rightarrow> (None, [typeError ''/observability'' ''object'']))"

definition boolean :: "yval \<Rightarrow> string \<Rightarrow> bool option checked" where
  "boolean raw path = (case raw of YBool b \<Rightarrow> (Some b, []) | _ \<Rightarrow> (None, [typeError path ''boolean'']))"

definition validateWake :: "yval \<Rightarrow> WakeConfig option checked" where
  "validateWake raw =
     (case raw of
        YObj obj \<Rightarrow>
          let (patterns, e1) = field_or obj ''/wake'' ''extra_upstream_error_patterns'' validateStringArray [];
              (filtered, e2) = field_or obj ''/wake'' ''filter_upstream_errors'' boolean DefaultFilterUpstreamErrors
          in (Some \<lparr>cw_ExtraUpstreamErrorPatterns = patterns, cw_FilterUpstreamErrors = filtered\<rparr>,
              checkAdditionalProperties obj [''extra_upstream_error_patterns'', ''filter_upstream_errors''] ''/wake''
                @ e1 @ e2)
      | _ \<Rightarrow> (None, [typeError ''/wake'' ''object'']))"

subsection \<open>The document\<close>

definition sortErrors :: "ValidationError list \<Rightarrow> ValidationError list" where
  "sortErrors = sort_key (\<lambda>e. (ve_InstancePath e, ve_Keyword e))"

text \<open>\<open>None\<close> is a nil document. The result is the config, or the errors in order.\<close>

definition ParseHerdsmanConfig :: "(string \<times> yval) list option \<Rightarrow> ValidationError list + HerdsmanConfig" where
  "ParseHerdsmanConfig doc =
     (case doc of
        None \<Rightarrow> Inl [typeError [] ''object'']
      | Some obj \<Rightarrow>
        let (runtime, e1) = present obj ''runtime'' validateRuntimePaths;
            (observability, e2) = present obj ''observability'' validateObservability;
            (wake, e3) = present obj ''wake'' validateWake;
            errs = checkAdditionalProperties obj [''observability'', ''runtime'', ''wake''] [] @ e1 @ e2 @ e3
        in if errs \<noteq> [] then Inl (sortErrors errs)
           else Inr \<lparr>cg_Observability = observability, cg_Runtime = runtime, cg_Wake = wake\<rparr>)"

end
