(* ===== verification/ConfigRuntime.thy ===== *)
theory ConfigRuntime
  imports Config
begin

text \<open>
  Loading and resolving the configuration (\<open>config/load.go\<close>, \<open>config/runtime.go\<close>). The files, the
  working directory and the decoders for YAML and for decimal numbers are parameters. An environment is
  a map; a missing variable reads as the empty string.
\<close>

record platform =
  pf_cwd :: string
  pf_homeDir :: "string option"
  pf_readFile :: "string \<Rightarrow> string + string"
  pf_exists :: "string \<Rightarrow> bool"
  pf_parseYAML :: "string \<Rightarrow> string list + (string \<times> yval) list"
  pf_parseFloat :: "string \<Rightarrow> fnum option"

type_synonym environment = "string \<rightharpoonup> string"

definition env_value :: "environment \<Rightarrow> string \<Rightarrow> string" where
  "env_value env key = (case env key of None \<Rightarrow> [] | Some v \<Rightarrow> v)"

subsection \<open>Loading\<close>

record ConfigLoadError =
  le_Message :: string
  le_Path :: string

definition load_error :: "string \<Rightarrow> string \<Rightarrow> ConfigLoadError" where
  "load_error path message = \<lparr>le_Message = message, le_Path = path\<rparr>"

definition LoadHerdsmanConfig :: "platform \<Rightarrow> string \<Rightarrow> ConfigLoadError list + HerdsmanConfig" where
  "LoadHerdsmanConfig pf path =
     (case pf_readFile pf path of
        Inl message \<Rightarrow> Inl [load_error path message]
      | Inr source \<Rightarrow>
        (case pf_parseYAML pf source of
           Inl (e # es) \<Rightarrow> Inl (map (load_error path) (e # es))
         | parsed \<Rightarrow>
           (case ParseHerdsmanConfig (case parsed of Inl _ \<Rightarrow> None | Inr obj \<Rightarrow> Some obj) of
              Inr config \<Rightarrow> Inr config
            | Inl errs \<Rightarrow> Inl (map (\<lambda>e. load_error path
                (if ve_Message e = [] then ve_InstancePath e @ '' failed '' @ ve_Keyword e else ve_Message e)) errs))))"

subsection \<open>Paths\<close>

definition is_abs :: "string \<Rightarrow> bool" where
  "is_abs path = (path \<noteq> [] \<and> hd path = CHR ''/'')"

text \<open>\<open>filepath.Join\<close> of two elements; empty elements are ignored.\<close>

definition path_join :: "string \<Rightarrow> string \<Rightarrow> string" where
  "path_join a b =
     (if a = [] then (if b = [] then [] else path_clean b)
      else if b = [] then path_clean a else path_clean (a @ ''/'' @ b))"

definition path_abs :: "platform \<Rightarrow> string \<Rightarrow> string" where
  "path_abs pf path = (if is_abs path then path_clean path else path_join (pf_cwd pf) path)"

definition GetHerdsmanHome :: "platform \<Rightarrow> environment \<Rightarrow> string option" where
  "GetHerdsmanHome pf env =
     (let explicit = TrimSpace (env_value env ''HERDSMAN_HOME'')
      in if explicit \<noteq> [] then Some (path_abs pf explicit)
         else map_option (\<lambda>home. path_abs pf (path_join home ''.herdsman'')) (pf_homeDir pf))"

definition ResolveRuntimePath :: "string \<Rightarrow> string \<Rightarrow> string" where
  "ResolveRuntimePath homeDir v = (if is_abs v then path_clean v else path_join homeDir v)"

record RuntimePaths =
  rp_ConfigPath :: string
  rp_DBPath :: string
  rp_EnvPath :: string
  rp_HomeDir :: string
  rp_LogPath :: string
  rp_PIDPath :: string
  rp_PiSessionDir :: string
  rp_RuntimeRecordPath :: string
  rp_SocketPath :: string

definition or_default :: "RuntimePathsConfig option \<Rightarrow> (RuntimePathsConfig \<Rightarrow> string option) \<Rightarrow> string \<Rightarrow> string" where
  "or_default runtime field d =
     (case runtime of None \<Rightarrow> d | Some r \<Rightarrow> (case field r of None \<Rightarrow> d | Some v \<Rightarrow> v))"

definition ResolveRuntimePaths :: "platform \<Rightarrow> HerdsmanConfig option \<Rightarrow> environment \<Rightarrow> RuntimePaths option" where
  "ResolveRuntimePaths pf config env =
     map_option (\<lambda>homeDir.
       let runtime = (case config of None \<Rightarrow> None | Some c \<Rightarrow> cg_Runtime c)
       in \<lparr>rp_ConfigPath = path_join homeDir ''config.yaml'',
           rp_DBPath = ResolveRuntimePath homeDir (or_default runtime cr_DBPath ''state.db''),
           rp_EnvPath = path_join homeDir ''.env'', rp_HomeDir = homeDir,
           rp_LogPath = ResolveRuntimePath homeDir (or_default runtime cr_LogPath (path_join ''logs'' ''herdsman.log'')),
           rp_PIDPath = ResolveRuntimePath homeDir (or_default runtime cr_PIDPath ''herdsman.pid''),
           rp_PiSessionDir = path_join homeDir ''pi-sessions'',
           rp_RuntimeRecordPath = path_join homeDir ''runtime.json'',
           rp_SocketPath = ResolveRuntimePath homeDir (or_default runtime cr_SocketPath ''herdsman.sock'')\<rparr>)
       (GetHerdsmanHome pf env)"

subsection \<open>The \<open>.env\<close> file\<close>

fun crlf_to_lf :: "string \<Rightarrow> string" where
  "crlf_to_lf [] = []"
| "crlf_to_lf [c] = [c]"
| "crlf_to_lf (c # d # s) =
     (if c = CHR 0x0D \<and> d = CHR 0x0A then d # crlf_to_lf s else c # crlf_to_lf (d # s))"

definition env_lines :: "string \<Rightarrow> string list" where
  "env_lines source = split_on (CHR 0x0A) (crlf_to_lf source)"

definition key_start :: "char \<Rightarrow> bool" where
  "key_start c \<longleftrightarrow> (let n = of_char c :: nat in (65 \<le> n \<and> n \<le> 90) \<or> (97 \<le> n \<and> n \<le> 122) \<or> n = 95)"

definition key_char :: "char \<Rightarrow> bool" where
  "key_char c \<longleftrightarrow> key_start c \<or> (let n = of_char c :: nat in 48 \<le> n \<and> n \<le> 57)"

definition env_key :: "string \<Rightarrow> bool" where
  "env_key key \<longleftrightarrow> (case key of [] \<Rightarrow> False | c # cs \<Rightarrow> key_start c \<and> list_all key_char cs)"

definition unquoteEnvValue :: "string \<Rightarrow> string" where
  "unquoteEnvValue v =
     (if 2 \<le> length v \<and> hd v = last v \<and> (hd v = CHR 0x22 \<or> hd v = CHR 0x27) then tl (butlast v) else v)"

text \<open>A line that sets nothing, or the key and the value it sets.\<close>

definition env_line :: "string \<Rightarrow> (string \<times> string) option" where
  "env_line rawLine =
     (let line = TrimSpace rawLine in
      if line = [] \<or> hd line = CHR ''#'' then None
      else
        let before = takeWhile (\<lambda>c. c \<noteq> CHR ''='') line; after = dropWhile (\<lambda>c. c \<noteq> CHR ''='') line
        in if after = [] \<or> before = [] then None
           else let key = TrimSpace before
             in if env_key key then Some (key, unquoteEnvValue (TrimSpace (tl after))) else None)"

definition apply_env :: "environment \<Rightarrow> string list \<Rightarrow> environment" where
  "apply_env env lines = foldl (\<lambda>e (k, v). e(k \<mapsto> v)) env (List.map_filter env_line lines)"

definition LoadHerdsmanDotEnv :: "platform \<Rightarrow> environment \<Rightarrow> string \<Rightarrow> environment" where
  "LoadHerdsmanDotEnv pf base envPath =
     (case pf_readFile pf envPath of Inl _ \<Rightarrow> base | Inr source \<Rightarrow> apply_env base (env_lines source))"

subsection \<open>The runtime record\<close>

record RuntimeRecordPaths =
  rrp_DBPath :: string
  rrp_LogPath :: string
  rrp_PIDPath :: string
  rrp_SocketPath :: string

definition RuntimePathsFromRecordOrDefault ::
    "platform \<Rightarrow> environment \<Rightarrow> string \<Rightarrow> (string \<Rightarrow> RuntimeRecordPaths option) option \<Rightarrow> RuntimePaths option" where
  "RuntimePathsFromRecordOrDefault pf env recordPath reader =
     (case ResolveRuntimePaths pf None env of None \<Rightarrow> None
      | Some defaults \<Rightarrow>
        let path = (if recordPath = [] then rp_RuntimeRecordPath defaults else recordPath)
        in (case reader of None \<Rightarrow> Some defaults
            | Some read \<Rightarrow> (case read path of None \<Rightarrow> Some defaults
                | Some r \<Rightarrow> Some (defaults\<lparr>rp_DBPath := rrp_DBPath r, rp_LogPath := rrp_LogPath r,
                    rp_PIDPath := rrp_PIDPath r, rp_SocketPath := rrp_SocketPath r\<rparr>))))"

subsection \<open>The runtime\<close>

record RuntimeResolution =
  ru_Config :: "HerdsmanConfig option"
  ru_ConfigErrors :: "ConfigLoadError list"
  ru_ConfigPath :: string
  ru_Environment :: environment
  ru_HomeDir :: string
  ru_Paths :: RuntimePaths

definition no_home :: string where "no_home = ''no home directory''"

definition plain_resolution ::
    "HerdsmanConfig option \<Rightarrow> ConfigLoadError list \<Rightarrow> environment \<Rightarrow> RuntimePaths \<Rightarrow> RuntimePaths \<Rightarrow> RuntimeResolution" where
  "plain_resolution config errs env base paths =
     \<lparr>ru_Config = config, ru_ConfigErrors = errs, ru_ConfigPath = rp_ConfigPath base, ru_Environment = env,
      ru_HomeDir = rp_HomeDir paths, ru_Paths = paths\<rparr>"

definition ResolveRuntime :: "platform \<Rightarrow> bool \<Rightarrow> environment \<Rightarrow> string + RuntimeResolution" where
  "ResolveRuntime pf allowInvalid env0 =
     (case ResolveRuntimePaths pf None env0 of None \<Rightarrow> Inl no_home
      | Some initial \<Rightarrow>
        let env = LoadHerdsmanDotEnv pf env0 (rp_EnvPath initial)
        in (case ResolveRuntimePaths pf None env of None \<Rightarrow> Inl no_home
            | Some base \<Rightarrow>
              if \<not> pf_exists pf (rp_ConfigPath base) then Inr (plain_resolution None [] env base base)
              else (case LoadHerdsmanConfig pf (rp_ConfigPath base) of
                  Inl errs \<Rightarrow>
                    if allowInvalid then Inr (plain_resolution None errs env base base)
                    else Inl (''Invalid Herdsman config: '' @ join_with ''; '' (map le_Message errs))
                | Inr config \<Rightarrow>
                  (case ResolveRuntimePaths pf (Some config) env of None \<Rightarrow> Inl no_home
                   | Some paths \<Rightarrow> Inr (plain_resolution (Some config) [] env base paths)))))"

subsection \<open>Settings of the status plans\<close>

text \<open>\<open>jsNumber\<close>: the empty text is 0.\<close>

definition jsNumber :: "platform \<Rightarrow> string \<Rightarrow> fnum option" where
  "jsNumber pf raw = (let trimmed = TrimSpace raw in if trimmed = [] then Some (Fin 0) else pf_parseFloat pf trimmed)"

definition positive :: "fnum \<Rightarrow> bool" where "positive n = fl_less (Fin 0) n"

definition atLeastOne :: "fnum \<Rightarrow> bool" where
  "atLeastOne n = (fl_less (Fin 1) n \<or> n = Fin 1)"

definition pick_setting ::
    "platform \<Rightarrow> string \<Rightarrow> (fnum \<Rightarrow> bool) \<Rightarrow> fnum option \<Rightarrow> fnum \<Rightarrow> fnum" where
  "pick_setting pf envValue usable configValue fallback =
     (let rest = (case configValue of Some v \<Rightarrow> v | None \<Rightarrow> fallback)
      in if envValue = [] then rest
         else (case jsNumber pf envValue of Some number \<Rightarrow> if usable number then number else rest | None \<Rightarrow> rest))"

definition ResolveStatusPlansConfig ::
    "platform \<Rightarrow> HerdsmanConfig option \<Rightarrow> environment \<Rightarrow> StatusPlansSettings" where
  "ResolveStatusPlansConfig pf cfg env =
     (let fromConfig = (case cfg of None \<Rightarrow> None
            | Some c \<Rightarrow> (case cg_Observability c of None \<Rightarrow> None | Some ob \<Rightarrow> co_StatusPlans ob));
          d = DefaultStatusPlanConfig;
          env_of = (\<lambda>key. TrimSpace (env_value env key))
      in \<lparr>cs_BackoffFactor = pick_setting pf (env_of ''HERDSMAN_STATUS_PLAN_BACKOFF_FACTOR'') atLeastOne
            (map_option cs_BackoffFactor fromConfig) (cs_BackoffFactor d),
          cs_InitialBackoffMs = pick_setting pf (env_of ''HERDSMAN_STATUS_PLAN_INITIAL_BACKOFF_MS'') positive
            (map_option cs_InitialBackoffMs fromConfig) (cs_InitialBackoffMs d),
          cs_MaxBackoffMs = pick_setting pf (env_of ''HERDSMAN_STATUS_PLAN_MAX_BACKOFF_MS'') positive
            (map_option cs_MaxBackoffMs fromConfig) (cs_MaxBackoffMs d),
          cs_TotalWindowMs = pick_setting pf (env_of ''HERDSMAN_STATUS_PLAN_TOTAL_WINDOW_MS'') positive
            (map_option cs_TotalWindowMs fromConfig) (cs_TotalWindowMs d)\<rparr>)"

end
