(* ===== verification/ConfigLaws.thy ===== *)
theory ConfigLaws
  imports ConfigRuntime
begin

text \<open>
  What the configuration promises: the validator accepts exactly the documents of a declarative schema,
  and what it accepts has usable values.
\<close>

subsection \<open>The schema\<close>

text \<open>An object conforms when each of its keys is a field and the value of each conforms.\<close>

definition object_conforms :: "(string \<times> (yval \<Rightarrow> bool)) list \<Rightarrow> yval \<Rightarrow> bool" where
  "object_conforms fs v =
     (case v of YObj obj \<Rightarrow> list_all (\<lambda>key. case map_of fs key of None \<Rightarrow> False
          | Some p \<Rightarrow> p (the (map_of obj key))) (map fst obj)
      | _ \<Rightarrow> False)"

definition string_ok :: "yval \<Rightarrow> bool" where
  "string_ok v = (case v of YStr s \<Rightarrow> s \<noteq> [] | _ \<Rightarrow> False)"

definition number_ok :: "yval \<Rightarrow> bool" where
  "number_ok v = (case v of YInt n \<Rightarrow> 1 \<le> n | YNum (Fin q) \<Rightarrow> 1 \<le> q | YNum MInf \<Rightarrow> False | YNum _ \<Rightarrow> True | _ \<Rightarrow> False)"

text \<open>The largest integers of 64 bits round to \<open>2 ^ 63\<close>, which no longer fits.\<close>

definition integer_ok :: "yval \<Rightarrow> bool" where
  "integer_ok v = (case v of YInt n \<Rightarrow> 1 \<le> n \<and> n < 2 ^ 63 - 512
     | YNum (Fin q) \<Rightarrow> of_int \<lfloor>q\<rfloor> = q \<and> 1 \<le> q \<and> q < 2 ^ 63 | _ \<Rightarrow> False)"

definition strings_ok :: "yval \<Rightarrow> bool" where
  "strings_ok v = (case v of YArr items \<Rightarrow> list_all string_ok items | _ \<Rightarrow> False)"

definition bool_ok :: "yval \<Rightarrow> bool" where
  "bool_ok v = (case v of YBool _ \<Rightarrow> True | _ \<Rightarrow> False)"

definition status_plans_schema :: "yval \<Rightarrow> bool" where
  "status_plans_schema = object_conforms [(''backoff_factor'', number_ok), (''initial_backoff_ms'', integer_ok),
     (''max_backoff_ms'', integer_ok), (''total_window_ms'', integer_ok)]"

definition herdsmanConfigSchema :: "yval \<Rightarrow> bool" where
  "herdsmanConfigSchema = object_conforms
     [(''observability'', object_conforms [(''status_plans'', status_plans_schema),
        (''telemetry'', object_conforms [(''max_excerpt_bytes'', integer_ok)])]),
      (''runtime'', object_conforms [(''db_path'', string_ok), (''log_path'', string_ok),
        (''pid_path'', string_ok), (''socket_path'', string_ok)]),
      (''wake'', object_conforms [(''extra_upstream_error_patterns'', strings_ok),
        (''filter_upstream_errors'', bool_ok)])]"

subsection \<open>Rounding\<close>

lemma float_spacing_exact: "2 ^ 52 * 2 ^ k \<le> a \<Longrightarrow> a < 2 ^ 53 * 2 ^ k \<Longrightarrow> float_spacing a = 2 ^ k"
proof (induction k arbitrary: a)
  case 0
  then show ?case by (simp add: float_spacing.simps [of a])
next
  case (Suc k)
  from Suc.prems have half: "2 ^ 52 * 2 ^ k \<le> a div 2" "a div 2 < 2 ^ 53 * 2 ^ k" by simp_all
  moreover have "(2::int) ^ 53 \<le> 2 ^ (52 + Suc k)" by (intro power_increasing) simp_all
  then have "\<not> a < 2 ^ 53" using Suc.prems(1) unfolding power_add by linarith
  ultimately show ?case using Suc.IH [of "a div 2"] by (simp add: float_spacing.simps [of a])
qed

lemma float_scale: "2 ^ 53 \<le> a \<Longrightarrow> \<exists>k. 2 ^ 52 * 2 ^ k \<le> a \<and> a < 2 ^ 53 * (2::int) ^ k"
proof (induction a rule: float_spacing.induct)
  case (1 a)
  show ?case
  proof (cases "a div 2 < 2 ^ 53")
    case True
    with "1.prems" show ?thesis by (intro exI [of _ 1]) simp
  next
    case False
    with 1 obtain k where "2 ^ 52 * 2 ^ k \<le> a div 2" "a div 2 < 2 ^ 53 * (2::int) ^ k" by auto
    moreover have "2 ^ 52 * 2 ^ Suc k \<le> a" using calculation(1) by simp
    moreover have "a < 2 ^ 53 * 2 ^ Suc k" using calculation(2) by simp
    ultimately show ?thesis by blast
  qed
qed

lemma round_small [simp]: "a < 2 ^ 53 \<Longrightarrow> round_float a = a"
  by (simp add: round_float_def float_spacing.simps [of a])

lemma round_scaled: "2 ^ 52 * 2 ^ k \<le> a \<Longrightarrow> a < 2 ^ 53 * 2 ^ k \<Longrightarrow> 2 ^ 52 * 2 ^ k \<le> round_float a"
proof -
  assume k: "2 ^ 52 * 2 ^ k \<le> a" "a < 2 ^ 53 * 2 ^ k"
  have "2 ^ 52 \<le> a div 2 ^ k" using zdiv_mono1 [OF k(1), of "2 ^ k"] by simp
  then have "2 ^ 52 * 2 ^ k \<le> a div 2 ^ k * 2 ^ k" "a div 2 ^ k * 2 ^ k \<le> (a div 2 ^ k + 1) * 2 ^ k"
    by (simp_all add: algebra_simps)
  then show ?thesis by (simp add: round_float_def float_spacing_exact [OF k] Let_def)
qed

lemma round_positive: "1 \<le> a \<Longrightarrow> 1 \<le> round_float a"
proof (cases "a < 2 ^ 53")
  case False
  then have "2 ^ 53 \<le> a" by simp
  from float_scale [OF this] obtain k where k: "2 ^ 52 * 2 ^ k \<le> a" "a < 2 ^ 53 * 2 ^ k" by blast
  have "(1::int) * 1 \<le> 2 ^ 52 * 2 ^ k" by (intro mult_mono) simp_all
  with round_scaled [OF k] show ?thesis by simp
qed simp

lemma round_fits: "1 \<le> a \<Longrightarrow> round_float a < 2 ^ 63 \<longleftrightarrow> a < 2 ^ 63 - 512"
proof -
  assume a: "1 \<le> a"
  consider "a < 2 ^ 62" | "2 ^ 62 \<le> a" "a < 2 ^ 63" | "2 ^ 63 \<le> a" by linarith
  then show ?thesis
  proof cases
    case 1
    have "round_float a < 2 ^ 63"
    proof (cases "a < 2 ^ 53")
      case False
      with a have "2 ^ 53 \<le> a" by simp
      from float_scale [OF this] obtain k where k: "2 ^ 52 * 2 ^ k \<le> a" "a < 2 ^ 53 * 2 ^ k" by blast
      then have u: "float_spacing a = 2 ^ k" by (rule float_spacing_exact)
      have "(2::int) ^ k \<le> 2 ^ 52 * 2 ^ k" by simp
      then have "2 ^ k \<le> a" using k(1) by linarith
      moreover have "a div 2 ^ k * 2 ^ k \<le> a" by (simp add: minus_mod_eq_div_mult [symmetric])
      ultimately show ?thesis using 1 by (auto simp: round_float_def u Let_def algebra_simps)
    qed (use 1 in simp)
    then show ?thesis using 1 by simp
  next
    case 2
    then have u: "float_spacing a = 1024" using float_spacing_exact [of 10 a] by simp
    define q r where "q = a div 1024" and "r = a mod 1024"
    then have a_eq: "a = 1024 * q + r" and r: "0 \<le> r" "r < 1024" by simp_all
    have q: "q < 2 ^ 53" using 2 a_eq r by simp
    have rounded: "round_float a = (if r < 512 \<or> r = 512 \<and> even q then 1024 * q else 1024 * q + 1024)"
      unfolding round_float_def u Let_def q_def [symmetric] r_def [symmetric] by auto
    show ?thesis
    proof (cases "q = 2 ^ 53 - 1")
      case True
      then have "odd q" by simp
      then show ?thesis unfolding rounded using True r by (auto simp: a_eq)
    next
      case False
      with q have "q < 2 ^ 53 - 1" by simp
      with r show ?thesis unfolding rounded by (auto simp: a_eq)
    qed
  next
    case 3
    then have "2 ^ 53 \<le> a" by simp
    from float_scale [OF this] obtain k where k: "2 ^ 52 * 2 ^ k \<le> a" "a < 2 ^ 53 * 2 ^ k" by blast
    have "(2::int) ^ 63 < 2 ^ (53 + k)" using k(2) 3 by (simp add: power_add)
    then have "63 < 53 + k" by (rule power_less_imp_less_exp [rotated]) simp
    then have "(2::int) ^ 63 \<le> 2 ^ (52 + k)" by (intro power_increasing) simp_all
    with round_scaled [OF k] 3 show ?thesis by (simp add: power_add)
  qed
qed

lemma float64_positive: "float64_of_int n < 1 \<longleftrightarrow> n < 1"
  using round_positive [of n] round_positive [of "- n"] round_small [of 0]
  by (cases n "0::int" rule: linorder_cases) (auto simp: float64_of_int_def)

lemma float64_fits: "1 \<le> n \<Longrightarrow> float64_of_int n < 2 ^ 63 \<longleftrightarrow> n < 2 ^ 63 - 512"
  using round_fits [of n] by (simp add: float64_of_int_def)

text \<open>Halves go to the even neighbour, and the largest 64-bit integers to a power of two.\<close>

lemma float64_samples:
  "float64_of_int 9007199254740993 = 9007199254740992"
  "float64_of_int (- 9007199254740995) = - 9007199254740996"
  "float64_of_int 9223372036854775295 = 9223372036854774784"
  "float64_of_int 9223372036854775807 = 2 ^ 63"
  by (simp_all add: float64_of_int_def round_float_def float_spacing.simps)

subsection \<open>Acceptance\<close>

named_theorems no_errors \<open>when a check appends no error\<close>

lemma string_checked [no_errors]: "snd (nonEmptyString raw path) = [] \<longleftrightarrow> string_ok raw"
  by (auto simp: nonEmptyString_def string_ok_def split: yval.split)

lemma optional_checked [no_errors]: "snd (optional_string raw path) = [] \<longleftrightarrow> string_ok raw"
  by (auto simp: optional_string_def nonEmptyString_def string_ok_def split: yval.split)

lemma number_checked [no_errors]: "snd (numberAtLeast raw path) = [] \<longleftrightarrow> number_ok raw"
  by (auto simp: numberAtLeast_def asNumber_def number_ok_def float64_positive
      split: yval.split fnum.split)

lemma integer_checked [no_errors]: "snd (integerAtLeast raw path) = [] \<longleftrightarrow> integer_ok raw"
proof (cases raw)
  case (YInt n)
  then show ?thesis
    using float64_positive [of n] float64_fits [of n]
    by (cases "n < 1") (auto simp: integerAtLeast_def asNumber_def integer_ok_def fl_integral_def)
qed (auto simp: integerAtLeast_def asNumber_def integer_ok_def fl_integral_def split: fnum.split)

lemma boolean_checked [no_errors]: "snd (boolean raw path) = [] \<longleftrightarrow> bool_ok raw"
  by (auto simp: boolean_def bool_ok_def split: yval.split)

lemma items_checked: "snd (string_items path i items) = [] \<longleftrightarrow> list_all string_ok items"
  by (induction items arbitrary: i) (auto simp: string_ok_def Let_def prod.case_eq_if split: yval.split)

lemma strings_checked [no_errors]: "snd (validateStringArray raw path) = [] \<longleftrightarrow> strings_ok raw"
  by (auto simp: validateStringArray_def strings_ok_def items_checked split: yval.split)

lemma field_checked [no_errors]:
  "snd (field_or obj prefix_path key check d) = [] \<longleftrightarrow>
     (\<forall>raw. map_of obj key = Some raw \<longrightarrow> snd (check raw (prefix_path @ ''/'' @ key)) = [])"
  by (auto simp: field_or_def split: option.split prod.split)

lemma present_checked [no_errors]:
  "snd (present obj key check) = [] \<longleftrightarrow> (\<forall>raw. map_of obj key = Some raw \<longrightarrow> snd (check raw) = [])"
  by (auto simp: present_def split: option.split)

lemma keys_checked [no_errors]: "checkAdditionalProperties obj allowed path = [] \<longleftrightarrow> set (map fst obj) \<subseteq> set allowed"
  by (auto simp: checkAdditionalProperties_def filter_empty_conv)

text \<open>An object conforms when the keys are known and each field that is there conforms.\<close>

lemma object_conforms_iff:
  assumes "distinct (map fst fs)"
  shows "object_conforms fs (YObj obj) \<longleftrightarrow> set (map fst obj) \<subseteq> set (map fst fs)
    \<and> (\<forall>(key, p) \<in> set fs. \<forall>raw. map_of obj key = Some raw \<longrightarrow> p raw)"
  (is "?l = (?keys \<and> ?vals)")
proof
  assume l: ?l
  have "map_of fs key \<noteq> None" if "key \<in> set (map fst obj)" for key
    using l that by (auto simp: object_conforms_def list_all_iff split: option.splits)
  then have ?keys by (auto simp: map_of_eq_None_iff)
  moreover have "p raw" if "(key, p) \<in> set fs" "map_of obj key = Some raw" for key p raw
  proof -
    have "map_of fs key = Some p" using that(1) assms by simp
    moreover have "key \<in> set (map fst obj)" using map_of_SomeD [OF that(2)] by force
    ultimately show ?thesis using l that(2) by (auto simp: object_conforms_def list_all_iff)
  qed
  ultimately show "?keys \<and> ?vals" by auto
next
  assume r: "?keys \<and> ?vals"
  have "case map_of fs key of None \<Rightarrow> False | Some p \<Rightarrow> p (the (map_of obj key))" if key: "key \<in> set (map fst obj)" for key
  proof -
    from r key have "key \<in> fst ` set fs" by auto
    then obtain p where p: "map_of fs key = Some p" by (metis map_of_eq_None_iff not_Some_eq)
    from key obtain raw where raw: "map_of obj key = Some raw" by (metis map_of_eq_None_iff not_Some_eq set_map)
    from r map_of_SomeD [OF p] raw have "p raw" by fastforce
    with p raw show ?thesis by simp
  qed
  then show ?l by (simp add: object_conforms_def list_all_iff)
qed

lemma object_conforms_only: "(\<And>obj. v \<noteq> YObj obj) \<Longrightarrow> \<not> object_conforms fs v"
  by (cases v) (auto simp: object_conforms_def)

lemma status_plans_checked [no_errors]: "snd (validateStatusPlans raw) = [] \<longleftrightarrow> status_plans_schema raw"
  by (cases raw) (auto simp: validateStatusPlans_def status_plans_schema_def object_conforms_iff object_conforms_only
      no_errors Let_def prod.case_eq_if)

lemma telemetry_checked [no_errors]:
  "snd (validateTelemetry raw) = [] \<longleftrightarrow> object_conforms [(''max_excerpt_bytes'', integer_ok)] raw"
  by (cases raw) (auto simp: validateTelemetry_def object_conforms_iff object_conforms_only no_errors Let_def
      prod.case_eq_if)

lemma observability_checked [no_errors]:
  "snd (validateObservability raw) = [] \<longleftrightarrow> object_conforms [(''status_plans'', status_plans_schema),
     (''telemetry'', object_conforms [(''max_excerpt_bytes'', integer_ok)])] raw"
  by (cases raw) (auto simp: validateObservability_def object_conforms_iff object_conforms_only no_errors Let_def
      prod.case_eq_if)

lemma runtime_checked [no_errors]:
  "snd (validateRuntimePaths raw) = [] \<longleftrightarrow> object_conforms [(''db_path'', string_ok), (''log_path'', string_ok),
     (''pid_path'', string_ok), (''socket_path'', string_ok)] raw"
  by (cases raw) (auto simp: validateRuntimePaths_def object_conforms_iff object_conforms_only no_errors Let_def
      prod.case_eq_if)

lemma wake_checked [no_errors]:
  "snd (validateWake raw) = [] \<longleftrightarrow> object_conforms [(''extra_upstream_error_patterns'', strings_ok),
     (''filter_upstream_errors'', bool_ok)] raw"
  by (cases raw) (auto simp: validateWake_def object_conforms_iff object_conforms_only no_errors Let_def
      prod.case_eq_if)

text \<open>
  C23: The validator accepts exactly the documents of the schema: every key is known at its level, paths
  and patterns are non-empty texts, the filter is a boolean, the times are
  numbers that are, as a \<open>float64\<close>, whole, at least 1 and below \<open>2 ^ 63\<close> (an integer of the document is
  rounded first, so those from \<open>2 ^ 63 - 512\<close> are refused), and the backoff factor is a number that is not
  below 1, which infinity and NaN are not either.
\<close>

theorem config_accepted_iff_schema:
  "(\<exists>config. ParseHerdsmanConfig (Some obj) = Inr config) \<longleftrightarrow> herdsmanConfigSchema (YObj obj)"
proof -
  have "(\<exists>config. ParseHerdsmanConfig (Some obj) = Inr config) \<longleftrightarrow>
      checkAdditionalProperties obj [''observability'', ''runtime'', ''wake''] [] = []
      \<and> snd (present obj ''runtime'' validateRuntimePaths) = []
      \<and> snd (present obj ''observability'' validateObservability) = []
      \<and> snd (present obj ''wake'' validateWake) = []"
    by (auto simp: ParseHerdsmanConfig_def Let_def prod.case_eq_if)
  also have "\<dots> \<longleftrightarrow> herdsmanConfigSchema (YObj obj)"
    unfolding herdsmanConfigSchema_def by (auto simp: object_conforms_iff no_errors)
  finally show ?thesis .
qed

subsection \<open>What is accepted is usable\<close>

text \<open>A time setting is an integer of at least 1 that fits 64 bits; the factor may also be infinite or no number.\<close>

definition time_setting :: "fnum \<Rightarrow> bool" where
  "time_setting n = (case n of Fin q \<Rightarrow> of_int \<lfloor>q\<rfloor> = q \<and> 1 \<le> q \<and> q < 2 ^ 63 | _ \<Rightarrow> False)"

definition factor_setting :: "fnum \<Rightarrow> bool" where
  "factor_setting n = (case n of Fin q \<Rightarrow> 1 \<le> q | PInf \<Rightarrow> True | NaN \<Rightarrow> True | MInf \<Rightarrow> False)"

definition settings_ok :: "StatusPlansSettings \<Rightarrow> bool" where
  "settings_ok s \<longleftrightarrow> factor_setting (cs_BackoffFactor s) \<and> time_setting (cs_InitialBackoffMs s)
     \<and> time_setting (cs_MaxBackoffMs s) \<and> time_setting (cs_TotalWindowMs s)"

definition config_ok :: "HerdsmanConfig \<Rightarrow> bool" where
  "config_ok c \<longleftrightarrow>
     (\<forall>ob \<in> set_option (cg_Observability c).
        (\<forall>s \<in> set_option (co_StatusPlans ob). settings_ok s)
        \<and> (\<forall>tm \<in> set_option (co_Telemetry ob). time_setting (ct_MaxExcerptBytes tm)))
     \<and> (\<forall>r \<in> set_option (cg_Runtime c). \<forall>path \<in> {cr_DBPath r, cr_LogPath r, cr_PIDPath r, cr_SocketPath r}. path \<noteq> Some [])
     \<and> (\<forall>k \<in> set_option (cg_Wake c). [] \<notin> set (cw_ExtraUpstreamErrorPatterns k))"

text \<open>A field keeps a property that its default and every accepted value have.\<close>

lemma field_or_keeps:
  assumes "\<And>raw path v errs. check raw path = (Some v, errs) \<Longrightarrow> P v" and "P d"
  shows "P (fst (field_or obj prefix_path key check d))"
  using assms by (auto simp: field_or_def split: option.split prod.split)

lemma checked_number: "numberAtLeast raw path = (Some n, errs) \<Longrightarrow> factor_setting n"
  by (auto simp: numberAtLeast_def factor_setting_def split: option.splits if_splits fnum.splits)

lemma checked_integer: "integerAtLeast raw path = (Some n, errs) \<Longrightarrow> time_setting n"
  by (auto simp: integerAtLeast_def time_setting_def fl_integral_def split: option.splits if_splits fnum.splits)

lemma checked_string: "optional_string raw path = (Some v, errs) \<Longrightarrow> v \<noteq> Some []"
  by (auto simp: optional_string_def nonEmptyString_def split: yval.splits if_splits)

lemma checked_strings: "validateStringArray raw path = (Some v, errs) \<Longrightarrow> [] \<notin> set v"
proof -
  have items: "string_items path i items = (Some v, errs) \<Longrightarrow> [] \<notin> set v" for i items v errs
    by (induction items arbitrary: i v errs)
      (auto simp: Let_def split: prod.splits yval.splits if_splits)
  then show "validateStringArray raw path = (Some v, errs) \<Longrightarrow> [] \<notin> set v"
    by (auto simp: validateStringArray_def split: yval.splits dest: items)
qed

lemma defaults_ok: "settings_ok DefaultStatusPlanConfig" "time_setting DefaultMaxExcerptBytes"
  by (simp_all add: settings_ok_def DefaultStatusPlanConfig_def factor_setting_def time_setting_def
      DefaultMaxExcerptBytes_def)

lemma plans_settings_ok: "validateStatusPlans raw = (Some s, errs) \<Longrightarrow> settings_ok s"
  using defaults_ok(1)
  by (auto simp: validateStatusPlans_def Let_def prod.case_eq_if settings_ok_def split: yval.splits
      intro!: field_or_keeps [where P = factor_setting] field_or_keeps [where P = time_setting]
      dest: checked_number checked_integer)

lemma telemetry_ok: "validateTelemetry raw = (Some tm, errs) \<Longrightarrow> time_setting (ct_MaxExcerptBytes tm)"
  using defaults_ok(2)
  by (auto simp: validateTelemetry_def Let_def prod.case_eq_if split: yval.splits
      intro!: field_or_keeps [where P = time_setting] dest: checked_integer)

lemma field_strings:
  "fst (field_or obj prefix_path key optional_string None) \<noteq> Some []"
  "[] \<notin> set (fst (field_or obj prefix_path key validateStringArray []))"
  by (rule field_or_keeps [where P = "\<lambda>v. v \<noteq> Some []"], erule checked_string, simp)
    (rule field_or_keeps [where P = "\<lambda>v. [] \<notin> set v"], erule checked_strings, simp)

lemma runtime_ok: "validateRuntimePaths raw = (Some r, errs) \<Longrightarrow>
    path \<in> {cr_DBPath r, cr_LogPath r, cr_PIDPath r, cr_SocketPath r} \<Longrightarrow> path \<noteq> Some []"
  using field_strings(1) by (auto simp: validateRuntimePaths_def Let_def prod.case_eq_if split: yval.splits) metis+

lemma wake_ok: "validateWake raw = (Some k, errs) \<Longrightarrow> [] \<notin> set (cw_ExtraUpstreamErrorPatterns k)"
  by (auto simp: validateWake_def Let_def prod.case_eq_if field_strings split: yval.splits)

lemma presentD: "fst (present obj key check) = Some v \<Longrightarrow> \<exists>raw errs. check raw = (Some v, errs)"
  by (auto simp: present_def split: option.splits) (metis prod.collapse)

lemma observability_ok:
  assumes "validateObservability raw = (Some ob, errs)"
  shows "co_StatusPlans ob = Some s \<Longrightarrow> settings_ok s"
    and "co_Telemetry ob = Some tm \<Longrightarrow> time_setting (ct_MaxExcerptBytes tm)"
  using assms by (auto simp: validateObservability_def Let_def prod.case_eq_if split: yval.splits
      dest!: presentD intro: plans_settings_ok telemetry_ok)

text \<open>
  C24: An accepted configuration is usable: times and sizes are integers from 1 to the 64-bit limit, no
  path and no pattern is empty, and the backoff factor is at least 1 unless it is infinite or not a
  number.
\<close>

theorem accepted_config_usable:
  assumes "ParseHerdsmanConfig doc = Inr config"
  shows "config_ok config"
proof -
  from assms obtain obj where config: "config =
      \<lparr>cg_Observability = fst (present obj ''observability'' validateObservability),
       cg_Runtime = fst (present obj ''runtime'' validateRuntimePaths),
       cg_Wake = fst (present obj ''wake'' validateWake)\<rparr>"
    by (auto simp: ParseHerdsmanConfig_def Let_def prod.case_eq_if split: option.splits if_splits)
  show ?thesis
    unfolding config_ok_def config
    by (auto dest!: presentD dest: observability_ok wake_ok runtime_ok)
qed

definition sample_config_doc :: "(string \<times> yval) list" where
  "sample_config_doc = [(''observability'', YObj [(''status_plans'',
     YObj [(''backoff_factor'', YNum NaN), (''max_backoff_ms'', YInt 90000)])])]"

theorem accepted_config_usable_witness:
  "\<exists>config. ParseHerdsmanConfig (Some sample_config_doc) = Inr config \<and> config_ok config
     \<and> (\<exists>ob s. cg_Observability config = Some ob \<and> co_StatusPlans ob = Some s
          \<and> cs_BackoffFactor s = NaN \<and> cs_MaxBackoffMs s = Fin 90000 \<and> cs_InitialBackoffMs s = Fin 5000)"
proof -
  obtain config where config: "ParseHerdsmanConfig (Some sample_config_doc) = Inr config"
      "\<exists>ob s. cg_Observability config = Some ob \<and> co_StatusPlans ob = Some s
        \<and> cs_BackoffFactor s = NaN \<and> cs_MaxBackoffMs s = Fin 90000 \<and> cs_InitialBackoffMs s = Fin 5000"
    by (simp add: ParseHerdsmanConfig_def sample_config_doc_def present_def validateObservability_def
        validateStatusPlans_def field_or_def numberAtLeast_def integerAtLeast_def asNumber_def fl_integral_def
        checkAdditionalProperties_def DefaultStatusPlanConfig_def float64_of_int_def Let_def)
  with accepted_config_usable [OF config(1)] show ?thesis by blast
qed

end
