(* ===== verification/RpcConnection.thy ===== *)
theory RpcConnection
  imports Effects
begin

text \<open>
  One client connection of the observability server: \<open>rpcConnection\<close> of
  \<open>go/internal/daemon/observability_server_handlers.go\<close>. Publishers append encoded frames to a
  send queue, a goroutine (\<open>drain\<close>) takes them off and writes them to the socket. Each critical
  section under \<open>queueMu\<close> is a function on the connection; the goroutines interleave as a step
  relation in which the flag \<open>destroyed\<close>, the writes and the close of the socket are steps of their
  own.
\<close>

subsection \<open>The critical sections\<close>

record rpcConnection =
  rq_queue :: "string list"
  rq_draining :: bool
  rq_destroyed :: bool

text \<open>
  A section that claims the queue starts a drainer afterwards: the first component says so. The
  frame of \<open>enqueueMessage\<close> is \<open>None\<close> where the message could not be encoded.
\<close>

definition enqueueMessage :: "string option \<Rightarrow> rpcConnection \<Rightarrow> bool \<times> rpcConnection" where
  "enqueueMessage frame c =
     (case frame of None \<Rightarrow> (False, c)
      | Some f \<Rightarrow>
        if rq_destroyed c then (False, c)
        else (\<not> rq_draining c, c\<lparr>rq_queue := rq_queue c @ [f], rq_draining := True\<rparr>))"

definition flushQueue :: "rpcConnection \<Rightarrow> bool \<times> rpcConnection" where
  "flushQueue c =
     (let claim = (\<not> rq_draining c \<and> rq_queue c \<noteq> [])
      in (claim, if claim then c\<lparr>rq_draining := True\<rparr> else c))"

definition drain_take :: "rpcConnection \<Rightarrow> string option \<times> rpcConnection" where
  "drain_take c =
     (case rq_queue c of
        [] \<Rightarrow> (None, c\<lparr>rq_draining := False\<rparr>)
      | frame # rest \<Rightarrow> (Some frame, c\<lparr>rq_queue := rest\<rparr>))"

definition drain_abandon :: "rpcConnection \<Rightarrow> rpcConnection" where
  "drain_abandon c = c\<lparr>rq_queue := [], rq_draining := False\<rparr>"

text \<open>\<open>destroy\<close>: the compare-and-swap, and the section only its winner runs.\<close>

definition destroy_swap :: "rpcConnection \<Rightarrow> bool \<times> rpcConnection" where
  "destroy_swap c = (\<not> rq_destroyed c, c\<lparr>rq_destroyed := True\<rparr>)"

definition destroy_clear :: "rpcConnection \<Rightarrow> rpcConnection" where
  "destroy_clear c = c\<lparr>rq_queue := []\<rparr>"

subsection \<open>The goroutines\<close>

text \<open>
  A drainer is at the head of its loop, holds a frame it has taken, is inside \<open>Write\<close>, has seen
  \<open>Write\<close> fail, runs its \<open>destroy\<close>, or has given the connection up. The winner of the
  compare-and-swap is the only one that clears the queue and closes the socket.
\<close>

datatype drain_pc =
  NoDrainer | LoopHead | Holding string | Writing string | WriteFailed | Destroying | GivingUp

datatype destroy_pc = Intact | Swapped | Cleared | Shut

text \<open>
  \<open>cn_wire\<close> is what the socket has accepted so far, \<open>cn_appended\<close> the frames whose append succeeded,
  in that order; both only record what happened.
\<close>

record conn_system =
  cn_conn :: rpcConnection
  cn_pc :: "nat \<Rightarrow> drain_pc"
  cn_destroy :: destroy_pc
  cn_wire :: string
  cn_appended :: "string list"

definition spawn_if :: "bool \<Rightarrow> nat \<Rightarrow> (nat \<Rightarrow> drain_pc) \<Rightarrow> nat \<Rightarrow> drain_pc" where
  "spawn_if claim g pcs = (if claim then pcs(g := LoopHead) else pcs)"

definition appended_after :: "string option \<Rightarrow> conn_system \<Rightarrow> string list" where
  "appended_after frame s =
     (case frame of None \<Rightarrow> cn_appended s
      | Some f \<Rightarrow> if rq_destroyed (cn_conn s) then cn_appended s else cn_appended s @ [f])"

text \<open>A \<open>Write\<close> that fails, at its deadline or on a closed socket, may have sent a part of the frame.\<close>

inductive conn_step :: "conn_system \<Rightarrow> conn_system \<Rightarrow> bool" where
  enqueue: "enqueueMessage frame (cn_conn s) = (claim, c) \<Longrightarrow> cn_pc s g = NoDrainer \<Longrightarrow>
    conn_step s (s\<lparr>cn_conn := c, cn_pc := spawn_if claim g (cn_pc s), cn_appended := appended_after frame s\<rparr>)"
| flush: "flushQueue (cn_conn s) = (claim, c) \<Longrightarrow> cn_pc s g = NoDrainer \<Longrightarrow>
    conn_step s (s\<lparr>cn_conn := c, cn_pc := spawn_if claim g (cn_pc s)\<rparr>)"
| take_frame: "cn_pc s g = LoopHead \<Longrightarrow> drain_take (cn_conn s) = (Some f, c) \<Longrightarrow>
    conn_step s (s\<lparr>cn_conn := c, cn_pc := (cn_pc s)(g := Holding f)\<rparr>)"
| drained: "cn_pc s g = LoopHead \<Longrightarrow> drain_take (cn_conn s) = (None, c) \<Longrightarrow>
    conn_step s (s\<lparr>cn_conn := c, cn_pc := (cn_pc s)(g := NoDrainer)\<rparr>)"
| refuse_write: "cn_pc s g = Holding f \<Longrightarrow> rq_destroyed (cn_conn s) \<Longrightarrow>
    conn_step s (s\<lparr>cn_pc := (cn_pc s)(g := GivingUp)\<rparr>)"
| begin_write: "cn_pc s g = Holding f \<Longrightarrow> \<not> rq_destroyed (cn_conn s) \<Longrightarrow>
    conn_step s (s\<lparr>cn_pc := (cn_pc s)(g := Writing f)\<rparr>)"
| written: "cn_pc s g = Writing f \<Longrightarrow> cn_destroy s \<noteq> Shut \<Longrightarrow>
    conn_step s (s\<lparr>cn_pc := (cn_pc s)(g := LoopHead), cn_wire := cn_wire s @ f\<rparr>)"
| write_error: "cn_pc s g = Writing f \<Longrightarrow> cn_destroy s = Shut \<longrightarrow> n = 0 \<Longrightarrow>
    conn_step s (s\<lparr>cn_pc := (cn_pc s)(g := WriteFailed), cn_wire := cn_wire s @ take n f\<rparr>)"
| own_destroy: "cn_pc s g = WriteFailed \<Longrightarrow> destroy_swap (cn_conn s) = (True, c) \<Longrightarrow>
    conn_step s (s\<lparr>cn_conn := c, cn_destroy := Swapped, cn_pc := (cn_pc s)(g := Destroying)\<rparr>)"
| lost_destroy: "cn_pc s g = WriteFailed \<Longrightarrow> destroy_swap (cn_conn s) = (False, c) \<Longrightarrow>
    conn_step s (s\<lparr>cn_conn := c, cn_pc := (cn_pc s)(g := GivingUp)\<rparr>)"
| own_destroyed: "cn_pc s g = Destroying \<Longrightarrow> cn_destroy s = Shut \<Longrightarrow>
    conn_step s (s\<lparr>cn_pc := (cn_pc s)(g := GivingUp)\<rparr>)"
| give_up: "cn_pc s g = GivingUp \<Longrightarrow>
    conn_step s (s\<lparr>cn_conn := drain_abandon (cn_conn s), cn_pc := (cn_pc s)(g := NoDrainer)\<rparr>)"
| other_destroy: "destroy_swap (cn_conn s) = (True, c) \<Longrightarrow>
    conn_step s (s\<lparr>cn_conn := c, cn_destroy := Swapped\<rparr>)"
| clear_queue: "cn_destroy s = Swapped \<Longrightarrow>
    conn_step s (s\<lparr>cn_conn := destroy_clear (cn_conn s), cn_destroy := Cleared\<rparr>)"
| close_socket: "cn_destroy s = Cleared \<Longrightarrow> conn_step s (s\<lparr>cn_destroy := Shut\<rparr>)"

definition fresh_connection :: conn_system where
  "fresh_connection = \<lparr>cn_conn = \<lparr>rq_queue = [], rq_draining = False, rq_destroyed = False\<rparr>,
     cn_pc = (\<lambda>_. NoDrainer), cn_destroy = Intact, cn_wire = [], cn_appended = []\<rparr>"

inductive conn_run :: "conn_system \<Rightarrow> bool" where
  opened: "conn_run fresh_connection"
| stepped: "conn_run s \<Longrightarrow> conn_step s s' \<Longrightarrow> conn_run s'"

subsection \<open>The invariant\<close>

text \<open>
  The drainer, if any, is the only one. What it holds and what is queued is exactly what was
  appended and not yet sent, until the connection is destroyed.
\<close>

definition held_frames :: "drain_pc \<Rightarrow> string list" where
  "held_frames pc = (case pc of Holding f \<Rightarrow> [f] | Writing f \<Rightarrow> [f] | _ \<Rightarrow> [])"

definition to_send :: "drain_pc \<Rightarrow> rpcConnection \<Rightarrow> string" where
  "to_send pc c = concat (held_frames pc @ rq_queue c)"

definition in_hand :: "string \<Rightarrow> string \<Rightarrow> rpcConnection \<Rightarrow> drain_pc \<Rightarrow> bool" where
  "in_hand appended wire c pc \<longleftrightarrow>
     (case pc of
        WriteFailed \<Rightarrow> prefix wire appended
      | Destroying \<Rightarrow> rq_destroyed c \<and> prefix wire appended
      | GivingUp \<Rightarrow> rq_destroyed c \<and> prefix wire appended
      | _ \<Rightarrow> appended = wire @ to_send pc c
          \<or> rq_destroyed c \<and> rq_queue c = [] \<and> prefix (wire @ to_send pc c) appended)"

definition sending_ok :: "conn_system \<Rightarrow> drain_pc \<Rightarrow> bool" where
  "sending_ok s pc = in_hand (concat (cn_appended s)) (cn_wire s) (cn_conn s) pc"

definition no_drainer :: "nat \<Rightarrow> drain_pc" where
  "no_drainer = (\<lambda>_. NoDrainer)"

definition conn_ok :: "conn_system \<Rightarrow> bool" where
  "conn_ok s \<longleftrightarrow> (rq_destroyed (cn_conn s) \<longleftrightarrow> cn_destroy s \<noteq> Intact)
     \<and> (if rq_draining (cn_conn s)
        then \<exists>g pc. pc \<noteq> NoDrainer \<and> cn_pc s = no_drainer(g := pc) \<and> sending_ok s pc
        else rq_queue (cn_conn s) = [] \<and> cn_pc s = no_drainer \<and> sending_ok s NoDrainer)"

lemma conn_okE:
  assumes "conn_ok s"
  obtains (active) g pc where "rq_draining (cn_conn s)" "pc \<noteq> NoDrainer" "cn_pc s = no_drainer(g := pc)" "sending_ok s pc"
    | (quiet) "\<not> rq_draining (cn_conn s)" "rq_queue (cn_conn s) = []" "cn_pc s = no_drainer" "sending_ok s NoDrainer"
  using assms by (auto simp: conn_ok_def split: if_splits)

lemma conn_ok_activeI:
  assumes "rq_destroyed (cn_conn s) \<longleftrightarrow> cn_destroy s \<noteq> Intact" "rq_draining (cn_conn s)"
    "cn_pc s = no_drainer(g := pc)" "pc \<noteq> NoDrainer" "sending_ok s pc"
  shows "conn_ok s"
  using assms by (auto simp: conn_ok_def)

lemma conn_ok_quietI:
  assumes "rq_destroyed (cn_conn s) \<longleftrightarrow> cn_destroy s \<noteq> Intact" "\<not> rq_draining (cn_conn s)"
    "rq_queue (cn_conn s) = []" "cn_pc s = no_drainer" "sending_ok s NoDrainer"
  shows "conn_ok s"
  using assms by (auto simp: conn_ok_def)

lemma conn_ok_destroyed: "conn_ok s \<Longrightarrow> rq_destroyed (cn_conn s) \<longleftrightarrow> cn_destroy s \<noteq> Intact"
  by (simp add: conn_ok_def)

text \<open>A goroutine that is at work is the drainer.\<close>

lemma conn_ok_working:
  assumes "conn_ok s" "cn_pc s g = pc" "pc \<noteq> NoDrainer"
  shows "rq_draining (cn_conn s) \<and> cn_pc s = no_drainer(g := pc) \<and> sending_ok s pc"
  using assms(1)
proof (cases rule: conn_okE)
  case (active h pc')
  with assms(2,3) have "h = g" "pc' = pc" by (auto simp: no_drainer_def split: if_splits)
  with active show ?thesis by simp
next
  case quiet
  with assms(2,3) show ?thesis by (simp add: no_drainer_def)
qed

lemma no_drainer_upd [simp]: "no_drainer(g := NoDrainer) = no_drainer"
  by (auto simp: no_drainer_def)

lemmas sending_simps = sending_ok_def in_hand_def to_send_def held_frames_def

lemma sending_part:
  assumes "sending_ok s (Writing f)"
  shows "prefix (cn_wire s @ take n f) (concat (cn_appended s))"
proof -
  from assms have "prefix (cn_wire s @ f) (concat (cn_appended s))"
    by (auto simp: sending_simps dest: append_prefixD [of "cn_wire s @ f", simplified])
  moreover have "prefix (cn_wire s @ take n f) (cn_wire s @ f)" by (simp add: take_is_prefix)
  ultimately show ?thesis using prefix_order.trans by blast
qed

lemma conn_ok_step:
  assumes "conn_step s s'" and ok: "conn_ok s"
  shows "conn_ok s'"
  using assms(1)
proof (cases rule: conn_step.cases)
  case (enqueue frame claim c g)
  show ?thesis
  proof (cases "frame = None \<or> rq_destroyed (cn_conn s)")
    case True
    with enqueue have "s' = s" by (auto simp: enqueueMessage_def appended_after_def spawn_if_def split: option.splits)
    with ok show ?thesis by simp
  next
    case False
    then obtain f where f: "frame = Some f" by (cases frame) auto
    from ok show ?thesis
    proof (cases rule: conn_okE)
      case (active h pc)
      with False f enqueue conn_ok_destroyed [OF ok] show ?thesis
        by (intro conn_ok_activeI [of _ h pc])
          (auto simp: enqueueMessage_def appended_after_def spawn_if_def sending_simps split: drain_pc.splits)
    next
      case quiet
      with False f enqueue conn_ok_destroyed [OF ok] show ?thesis
        by (intro conn_ok_activeI [of _ g LoopHead])
          (auto simp: enqueueMessage_def appended_after_def spawn_if_def sending_simps)
    qed
  qed
next
  case (flush claim c g)
  from ok have "rq_draining (cn_conn s) \<or> rq_queue (cn_conn s) = []" by (cases rule: conn_okE) auto
  with flush have "s' = s" by (auto simp: flushQueue_def spawn_if_def)
  with ok show ?thesis by simp
next
  case (take_frame g f c)
  with conn_ok_working [OF ok take_frame(2)] conn_ok_destroyed [OF ok] show ?thesis
    by (intro conn_ok_activeI [of _ g "Holding f"]) (auto simp: drain_take_def sending_simps split: list.splits)
next
  case (drained g c)
  with conn_ok_working [OF ok drained(2)] conn_ok_destroyed [OF ok] show ?thesis
    by (intro conn_ok_quietI) (auto simp: drain_take_def sending_simps split: list.splits)
next
  case (refuse_write g f)
  with conn_ok_working [OF ok refuse_write(2)] conn_ok_destroyed [OF ok] show ?thesis
    by (intro conn_ok_activeI [of _ g GivingUp]) (auto simp: sending_simps dest: append_prefixD)
next
  case (begin_write g f)
  with conn_ok_working [OF ok begin_write(2)] conn_ok_destroyed [OF ok] show ?thesis
    by (intro conn_ok_activeI [of _ g "Writing f"]) (auto simp: sending_simps)
next
  case (written g f)
  with conn_ok_working [OF ok written(2)] conn_ok_destroyed [OF ok] show ?thesis
    by (intro conn_ok_activeI [of _ g LoopHead]) (auto simp: sending_simps)
next
  case (write_error g f n)
  with conn_ok_working [OF ok write_error(2)] conn_ok_destroyed [OF ok] sending_part [of s f n] show ?thesis
    by (intro conn_ok_activeI [of _ g WriteFailed]) (auto simp: sending_simps)
next
  case (own_destroy g c)
  with conn_ok_working [OF ok own_destroy(2)] conn_ok_destroyed [OF ok] show ?thesis
    by (intro conn_ok_activeI [of _ g Destroying]) (auto simp: destroy_swap_def sending_simps)
next
  case (lost_destroy g c)
  with conn_ok_working [OF ok lost_destroy(2)] conn_ok_destroyed [OF ok] show ?thesis
    by (intro conn_ok_activeI [of _ g GivingUp]) (auto simp: destroy_swap_def sending_simps)
next
  case (own_destroyed g)
  with conn_ok_working [OF ok own_destroyed(2)] conn_ok_destroyed [OF ok] show ?thesis
    by (intro conn_ok_activeI [of _ g GivingUp]) (auto simp: sending_simps)
next
  case (give_up g)
  with conn_ok_working [OF ok give_up(2)] conn_ok_destroyed [OF ok] show ?thesis
    by (intro conn_ok_quietI) (auto simp: drain_abandon_def sending_simps)
next
  case (other_destroy c)
  from ok show ?thesis
  proof (cases rule: conn_okE)
    case (active h pc)
    with other_destroy show ?thesis
      by (intro conn_ok_activeI [of _ h pc]) (auto simp: destroy_swap_def sending_simps split: drain_pc.splits)
  next
    case quiet
    with other_destroy show ?thesis by (intro conn_ok_quietI) (auto simp: destroy_swap_def sending_simps)
  qed
next
  case clear_queue
  with conn_ok_destroyed [OF ok] have "rq_destroyed (cn_conn s)" by simp
  from ok show ?thesis
  proof (cases rule: conn_okE)
    case (active h pc)
    with clear_queue \<open>rq_destroyed (cn_conn s)\<close> show ?thesis
      by (intro conn_ok_activeI [of _ h pc])
        (auto simp: destroy_clear_def sending_simps dest: append_prefixD split: drain_pc.splits)
  next
    case quiet
    with clear_queue \<open>rq_destroyed (cn_conn s)\<close> show ?thesis
      by (intro conn_ok_quietI) (auto simp: destroy_clear_def sending_simps)
  qed
next
  case close_socket
  with conn_ok_destroyed [OF ok] have "rq_destroyed (cn_conn s)" by simp
  with close_socket ok show ?thesis by (auto simp: conn_ok_def sending_simps)
qed

lemma conn_run_ok: "conn_run s \<Longrightarrow> conn_ok s"
proof (induction rule: conn_run.induct)
  case opened
  show ?case by (simp add: conn_ok_def fresh_connection_def no_drainer_def sending_simps)
next
  case (stepped s s')
  then show ?case using conn_ok_step by blast
qed

lemma sending_prefix: "sending_ok s pc \<Longrightarrow> prefix (cn_wire s) (concat (cn_appended s))"
  by (auto simp: sending_simps dest: append_prefixD split: drain_pc.splits)

text \<open>
  C29: However the publishers, the drainers, the writes and the closing of one connection interleave,
  the bytes its socket has accepted are a prefix of the appended frames in the order of the appends,
  no two goroutines are ever inside \<open>drain\<close>, and a queue that is not empty has a drainer (so
  \<open>flushQueue\<close> never starts one). Once no drainer is left and the connection is not destroyed, all
  appended frames are on the wire.
\<close>

theorem frames_sent_in_order:
  assumes "conn_run s"
  shows "prefix (cn_wire s) (concat (cn_appended s))
    \<and> (\<forall>g h. cn_pc s g \<noteq> NoDrainer \<and> cn_pc s h \<noteq> NoDrainer \<longrightarrow> g = h)
    \<and> \<not> fst (flushQueue (cn_conn s))
    \<and> ((\<forall>g. cn_pc s g = NoDrainer) \<and> \<not> rq_destroyed (cn_conn s) \<longrightarrow> cn_wire s = concat (cn_appended s))"
proof -
  from assms have "conn_ok s" by (rule conn_run_ok)
  then show ?thesis
  proof (cases rule: conn_okE)
    case (active g pc)
    then have "cn_pc s h \<noteq> NoDrainer \<longleftrightarrow> h = g" for h by (simp add: no_drainer_def)
    with active show ?thesis by (auto simp: flushQueue_def Let_def dest: sending_prefix)
  next
    case quiet
    then have "cn_pc s h = NoDrainer" for h by (simp add: no_drainer_def)
    with quiet show ?thesis by (auto simp: flushQueue_def Let_def sending_simps dest: sending_prefix)
  qed
qed

text \<open>Two frames are appended and the first is sent while the second waits.\<close>

definition two_frames :: conn_system where
  "two_frames = \<lparr>cn_conn = \<lparr>rq_queue = [''b''], rq_draining = True, rq_destroyed = False\<rparr>,
     cn_pc = (\<lambda>_. NoDrainer)(0 := LoopHead), cn_destroy = Intact, cn_wire = ''a'', cn_appended = [''a'', ''b'']\<rparr>"

lemma two_frames_run: "conn_run two_frames"
proof -
  have 1: "conn_run (fresh_connection\<lparr>cn_conn := \<lparr>rq_queue = [''a''], rq_draining = True, rq_destroyed = False\<rparr>,
      cn_pc := (\<lambda>_. NoDrainer)(0 := LoopHead), cn_appended := [''a'']\<rparr>)" (is "conn_run ?s1")
    using conn_run.stepped [OF opened enqueue [where frame = "Some ''a''" and g = 0]]
    by (simp add: enqueueMessage_def fresh_connection_def appended_after_def spawn_if_def)
  have 2: "conn_run (?s1\<lparr>cn_conn := \<lparr>rq_queue = [''a'', ''b''], rq_draining = True, rq_destroyed = False\<rparr>,
      cn_appended := [''a'', ''b'']\<rparr>)" (is "conn_run ?s2")
    using conn_run.stepped [OF 1 enqueue [where frame = "Some ''b''" and g = 1 and claim = False]]
    by (simp add: enqueueMessage_def fresh_connection_def appended_after_def spawn_if_def)
  have 3: "conn_run (?s2\<lparr>cn_conn := \<lparr>rq_queue = [''b''], rq_draining = True, rq_destroyed = False\<rparr>,
      cn_pc := (\<lambda>_. NoDrainer)(0 := Holding ''a'')\<rparr>)" (is "conn_run ?s3")
    using conn_run.stepped [OF 2 take_frame [where g = 0 and f = "''a''"]]
    by (simp add: drain_take_def fresh_connection_def)
  have 4: "conn_run (?s3\<lparr>cn_pc := (\<lambda>_. NoDrainer)(0 := Writing ''a'')\<rparr>)" (is "conn_run ?s4")
    using conn_run.stepped [OF 3 begin_write [where g = 0 and f = "''a''"]] by (simp add: fresh_connection_def)
  show ?thesis
    using conn_run.stepped [OF 4 written [where g = 0 and f = "''a''"]]
    by (simp add: two_frames_def fresh_connection_def)
qed

theorem frames_sent_in_order_witness:
  "prefix (cn_wire two_frames) ''ab'' \<and> cn_pc two_frames 0 \<noteq> NoDrainer"
  using frames_sent_in_order [OF two_frames_run] by (simp add: two_frames_def)

end
