(* ===== verification/RpcSchemas.thy ===== *)
theory RpcSchemas
  imports JsonLines ScopeStore TurnCompletion
begin

text \<open>
  What a client may send to the observability server: the schemas of
  \<open>go/internal/observability/schemas.go\<close> with their check, the request frame, and the parameters each
  method reads from a checked value (\<open>decodeRPCParams\<close> in \<open>daemon/observability_server_handlers.go\<close>).
  Numbers are the floats \<open>encoding/json\<close> produced, as rationals; how such a number is written back and
  read as an \<open>int64\<close> is the parameter \<open>int64_of\<close>.
\<close>

subsection \<open>Schemas\<close>

text \<open>A property carries whether it is optional. The bounds of an integer may be absent.\<close>

datatype fieldSpec =
  kindString nat | kindBoolean | kindInteger "rat option" "rat option" | kindLiteralSet "string list"
  | kindObject ObjectSchema | kindObjectUnion "ObjectSchema list"
and ObjectSchema = ObjectSchema "(string \<times> bool \<times> fieldSpec) list"

function rune_count :: "string \<Rightarrow> nat" where
  "rune_count [] = 0"
| "rune_count (c # s) = Suc (rune_count (drop (max 1 (rune_length (c # s))) (c # s)))"
  by pat_completeness auto
termination by (relation "measure length") auto

definition json_integer_ok :: "rat option \<Rightarrow> rat option \<Rightarrow> rat \<Rightarrow> bool" where
  "json_integer_ok minimum maximum n \<longleftrightarrow> of_int \<lfloor>n\<rfloor> = n
     \<and> (case minimum of None \<Rightarrow> True | Some low \<Rightarrow> low \<le> n)
     \<and> (case maximum of None \<Rightarrow> True | Some high \<Rightarrow> n \<le> high)"

fun check_spec :: "fieldSpec \<Rightarrow> jval \<Rightarrow> bool" and Check :: "ObjectSchema \<Rightarrow> jval \<Rightarrow> bool" where
  "check_spec (kindString minLength) v = (case v of JStr s \<Rightarrow> minLength \<le> rune_count s | _ \<Rightarrow> False)"
| "check_spec kindBoolean v = (case v of JBool _ \<Rightarrow> True | _ \<Rightarrow> False)"
| "check_spec (kindInteger minimum maximum) v =
     (case v of JNum n \<Rightarrow> json_integer_ok minimum maximum n | _ \<Rightarrow> False)"
| "check_spec (kindLiteralSet literals) v = (case v of JStr s \<Rightarrow> s \<in> set literals | _ \<Rightarrow> False)"
| "check_spec (kindObject nested) v = Check nested v"
| "check_spec (kindObjectUnion branches) v = (\<exists>branch \<in> set branches. Check branch v)"
| "Check (ObjectSchema properties) v =
     (case v of
        JObj obj \<Rightarrow>
          (\<forall>(key, _) \<in> set obj. key \<in> fst ` set properties)
          \<and> (\<forall>(name, optional, spec) \<in> set properties.
               case map_of obj name of None \<Rightarrow> optional | Some raw \<Rightarrow> check_spec spec raw)
      | _ \<Rightarrow> False)"

definition AgentSessionRefSchema :: ObjectSchema where
  "AgentSessionRefSchema = ObjectSchema
     [(''agent'', False, kindString 1), (''kind'', False, kindLiteralSet [''id'', ''path'']),
      (''source'', False, kindString 1), (''value'', False, kindString 1)]"

definition AgentListInputSchema :: ObjectSchema where
  "AgentListInputSchema = ObjectSchema
     [(''all'', True, kindBoolean), (''herdrSessionName'', True, kindString 1),
      (''includeOwnerlessWorkspaces'', True, kindBoolean), (''workspaceId'', True, kindString 1)]"

definition AgentGetInputSchema :: ObjectSchema where
  "AgentGetInputSchema = ObjectSchema
     [(''herdrSessionName'', True, kindString 1), (''target'', False, kindString 1),
      (''workspaceId'', True, kindString 1)]"

definition AgentReadInputSchema :: ObjectSchema where
  "AgentReadInputSchema = ObjectSchema
     [(''herdrSessionName'', True, kindString 1), (''limit'', True, kindInteger (Some 1) (Some 500)),
      (''target'', False, kindString 1), (''workspaceId'', True, kindString 1)]"

definition AgentEventsInputSchema :: ObjectSchema where
  "AgentEventsInputSchema = ObjectSchema
     [(''afterEventId'', True, kindInteger (Some 0) None), (''herdrSessionName'', True, kindString 1),
      (''limit'', True, kindInteger (Some 1) (Some 500)), (''workspaceId'', True, kindString 1)]"

definition piPresenceSessionRefPiSchema :: ObjectSchema where
  "piPresenceSessionRefPiSchema = ObjectSchema
     [(''agent'', False, kindLiteralSet [''pi'', ''pig'']), (''kind'', False, kindLiteralSet [''path'']),
      (''source'', False, kindString 1), (''value'', False, kindString 1)]"

definition piPresenceSessionRefAgySchema :: ObjectSchema where
  "piPresenceSessionRefAgySchema = ObjectSchema
     [(''agent'', False, kindLiteralSet [''agy'']), (''kind'', False, kindLiteralSet [''id'', ''path'']),
      (''source'', False, kindString 1), (''value'', False, kindString 1)]"

definition sessionRefUnionSchema :: "ObjectSchema list" where
  "sessionRefUnionSchema = [piPresenceSessionRefPiSchema, piPresenceSessionRefAgySchema]"

definition AgentOrchestratorRegisterInputSchema :: ObjectSchema where
  "AgentOrchestratorRegisterInputSchema = ObjectSchema
     [(''herdrSocketPath'', False, kindString 1), (''paneId'', False, kindString 1),
      (''sessionRef'', False, kindObjectUnion sessionRefUnionSchema), (''subscriberId'', False, kindString 1),
      (''subscriberKind'', False, kindLiteralSet [''pi'', ''pig'', ''agy'']), (''workspaceId'', False, kindString 1)]"

definition AgentOrchestratorSetInputSchema :: ObjectSchema where
  "AgentOrchestratorSetInputSchema = ObjectSchema [(''enabled'', False, kindBoolean)]"

definition AgentOrchestratorGetInputSchema :: ObjectSchema where
  "AgentOrchestratorGetInputSchema = ObjectSchema []"

definition AgentPingInputSchema :: ObjectSchema where
  "AgentPingInputSchema = ObjectSchema []"

definition AgentOrchestratorAckInputSchema :: ObjectSchema where
  "AgentOrchestratorAckInputSchema = ObjectSchema [(''eventId'', False, kindInteger (Some 1) None)]"

definition AgentTurnCompletedInputSchema :: ObjectSchema where
  "AgentTurnCompletedInputSchema = ObjectSchema
     [(''confirmed'', False, kindBoolean), (''expectedText'', True, kindString 0),
      (''herdrSessionName'', False, kindString 1), (''paneId'', False, kindString 1),
      (''terminalId'', False, kindString 1), (''workspaceId'', False, kindString 1)]"

lemmas schema_defs = AgentSessionRefSchema_def AgentListInputSchema_def AgentGetInputSchema_def
  AgentReadInputSchema_def AgentEventsInputSchema_def piPresenceSessionRefPiSchema_def
  piPresenceSessionRefAgySchema_def sessionRefUnionSchema_def AgentOrchestratorRegisterInputSchema_def
  AgentOrchestratorSetInputSchema_def AgentOrchestratorGetInputSchema_def AgentPingInputSchema_def
  AgentOrchestratorAckInputSchema_def AgentTurnCompletedInputSchema_def

subsection \<open>Requests\<close>

record rpcRequest =
  qr_id :: "jval option"
  qr_method :: string
  qr_params :: jval

definition rpcRequestOf :: "jval \<Rightarrow> rpcRequest" where
  "rpcRequestOf message =
     (case message of
        JObj obj \<Rightarrow>
          \<lparr>qr_id = map_of obj ''id'',
           qr_method = (case as_string (map_of obj ''method'') of None \<Rightarrow> [] | Some m \<Rightarrow> m),
           qr_params = (case map_of obj ''params'' of None \<Rightarrow> JObj [] | Some JNull \<Rightarrow> JObj [] | Some raw \<Rightarrow> raw)\<rparr>
      | _ \<Rightarrow> \<lparr>qr_id = None, qr_method = [], qr_params = JObj []\<rparr>)"

subsection \<open>Parameters\<close>

datatype SubscriberKind = SubscriberPi | SubscriberPig | SubscriberAgy

definition subscriber_kind :: "string \<Rightarrow> SubscriberKind option" where
  "subscriber_kind text =
     (if text = ''pi'' then Some SubscriberPi else if text = ''pig'' then Some SubscriberPig
      else if text = ''agy'' then Some SubscriberAgy else None)"

record PiPresenceRegistration =
  pr_HerdrSocketPath :: string
  pr_PaneID :: string
  pr_SessionRef :: AgentSessionRef
  pr_SubscriberID :: string
  pr_SubscriberKind :: "SubscriberKind option"
  pr_WorkspaceID :: string

record AgentTurnCompletedInput =
  ti_Confirmed :: bool
  ti_ExpectedText :: "string option"
  ti_HerdrSessionName :: string
  ti_PaneID :: string
  ti_TerminalID :: string
  ti_WorkspaceID :: string

text \<open>A field a struct has and the object has not is the zero value.\<close>

definition text_field :: "jval \<Rightarrow> string \<Rightarrow> string" where
  "text_field v name = (case as_string (map_of (asRecord v) name) of None \<Rightarrow> [] | Some s \<Rightarrow> s)"

definition flag_field :: "jval \<Rightarrow> string \<Rightarrow> bool" where
  "flag_field v name = (as_bool (map_of (asRecord v) name) = Some True)"

fun number_field :: "(rat \<Rightarrow> go_error + int) \<Rightarrow> jval option \<Rightarrow> go_error + int option" where
  "number_field int64_of (Some (JNum n)) = (case int64_of n of Inl e \<Rightarrow> Inl e | Inr i \<Rightarrow> Inr (Some i))"
| "number_field int64_of _ = Inr None"

definition scope_params :: "jval \<Rightarrow> AgentQueryScope" where
  "scope_params v =
     \<lparr>q_All = as_bool (map_of (asRecord v) ''all''),
      q_HerdrSessionName = as_string (map_of (asRecord v) ''herdrSessionName''),
      q_WorkspaceID = as_string (map_of (asRecord v) ''workspaceId'')\<rparr>"

definition session_ref_params :: "jval \<Rightarrow> AgentSessionRef" where
  "session_ref_params v =
     \<lparr>sr_Agent = text_field v ''agent'',
      sr_Kind = (if text_field v ''kind'' = ''id'' then SessionRefID else SessionRefPath),
      sr_Source = text_field v ''source'', sr_Value = text_field v ''value''\<rparr>"

definition registration_params :: "jval \<Rightarrow> PiPresenceRegistration" where
  "registration_params v =
     \<lparr>pr_HerdrSocketPath = text_field v ''herdrSocketPath'', pr_PaneID = text_field v ''paneId'',
      pr_SessionRef = session_ref_params (case map_of (asRecord v) ''sessionRef'' of None \<Rightarrow> JNull | Some ref \<Rightarrow> ref),
      pr_SubscriberID = text_field v ''subscriberId'',
      pr_SubscriberKind = subscriber_kind (text_field v ''subscriberKind''),
      pr_WorkspaceID = text_field v ''workspaceId''\<rparr>"

definition events_params :: "(rat \<Rightarrow> go_error + int) \<Rightarrow> jval \<Rightarrow> go_error + ListAfterInput" where
  "events_params int64_of v =
     (case (number_field int64_of (map_of (asRecord v) ''afterEventId''),
            number_field int64_of (map_of (asRecord v) ''limit'')) of
        (Inl e, _) \<Rightarrow> Inl e
      | (_, Inl e) \<Rightarrow> Inl e
      | (Inr after, Inr limit) \<Rightarrow> Inr
          \<lparr>l_AfterEventID = after, l_HerdrSessionName = as_string (map_of (asRecord v) ''herdrSessionName''),
           l_Limit = limit, l_OwnerTerminalID = None,
           l_WorkspaceID = as_string (map_of (asRecord v) ''workspaceId'')\<rparr>)"

definition turn_params :: "jval \<Rightarrow> AgentTurnCompletedInput" where
  "turn_params v =
     \<lparr>ti_Confirmed = flag_field v ''confirmed'', ti_ExpectedText = as_string (map_of (asRecord v) ''expectedText''),
      ti_HerdrSessionName = text_field v ''herdrSessionName'', ti_PaneID = text_field v ''paneId'',
      ti_TerminalID = text_field v ''terminalId'', ti_WorkspaceID = text_field v ''workspaceId''\<rparr>"

text \<open>Methods validate before they decode; \<open>errInvalidRPCParams\<close> is the whole answer to a bad value.\<close>

definition errInvalidRPCParams :: go_error where
  "errInvalidRPCParams = ErrText ''Invalid RPC params''"

lemma rune_count_pos [simp]: "Suc 0 \<le> rune_count s \<longleftrightarrow> s \<noteq> []"
  by (cases s) simp_all

end
