(* ===== verification/PeerCredentials.thy ===== *)
theory PeerCredentials
  imports Strconv Contracts
begin

text \<open>
  Which process is behind a connection: \<open>go/internal/shared/unix_peercred.go\<close>. The process table
  of \<open>/proc\<close> and the resolution of symbolic links are the parameters of \<open>ProcFS\<close>; the credentials of
  the socket are what the kernel reports.
\<close>

definition maxAncestor :: nat where "maxAncestor = 32"
definition maxCwdDepth :: nat where "maxCwdDepth = 4"

record ProcFS =
  px_status :: "int \<Rightarrow> string option"
  px_cwd :: "int \<Rightarrow> string option"
  px_evalSymlinks :: "string \<Rightarrow> string option"

text \<open>The pid of \<open>SO_PEERCRED\<close>; init and the kernel are not accepted as clients.\<close>

definition LinuxPeerPid :: "int option \<Rightarrow> int option" where
  "LinuxPeerPid creds = (case creds of None \<Rightarrow> None | Some pid \<Rightarrow> if pid \<le> 1 then None else Some pid)"

subsection \<open>Parents\<close>

definition status_space :: "char \<Rightarrow> bool" where
  "status_space c \<longleftrightarrow> ascii_space (of_char c)"

fun fields_of :: "string \<Rightarrow> string list" where
  "fields_of [] = []"
| "fields_of (c # s) =
     (if status_space c then fields_of s
      else case s of [] \<Rightarrow> [[c]]
        | d # _ \<Rightarrow> if status_space d then [c] # fields_of s
            else (case fields_of s of [] \<Rightarrow> [[c]] | w # ws \<Rightarrow> (c # w) # ws))"

definition trim_cr :: "string \<Rightarrow> string" where
  "trim_cr line = (if line \<noteq> [] \<and> last line = CHR 0x0D then butlast line else line)"

definition scan_lines :: "string \<Rightarrow> string list" where
  "scan_lines text =
     (let parts = split_on (CHR 0x0A) text
      in map trim_cr (if last parts = [] then butlast parts else parts))"

text \<open>\<open>ParentPid\<close>: the first line that starts with \<open>PPid:\<close> decides.\<close>

definition ParentPid :: "ProcFS \<Rightarrow> int \<Rightarrow> int option" where
  "ParentPid px pid =
     (case px_status px pid of None \<Rightarrow> None
      | Some text \<Rightarrow> (case find (prefix ''PPid:'') (scan_lines text) of None \<Rightarrow> None
          | Some line \<Rightarrow> (case fields_of (drop 5 line) of
                [field] \<Rightarrow> (case ParseInt field of None \<Rightarrow> None
                  | Some ppid \<Rightarrow> if ppid < 0 then None else Some ppid)
              | _ \<Rightarrow> None)))"

subsection \<open>Working directories\<close>

definition normalizeCwd :: "ProcFS \<Rightarrow> string \<Rightarrow> string" where
  "normalizeCwd px path =
     (case px_evalSymlinks px path of Some target \<Rightarrow> target
      | None \<Rightarrow> if 1 < length path \<and> last path = CHR ''/'' then butlast path else path)"

definition sameCwd :: "ProcFS \<Rightarrow> string \<Rightarrow> string \<Rightarrow> bool" where
  "sameCwd px left right \<longleftrightarrow> normalizeCwd px left = normalizeCwd px right"

fun cwd_climb :: "nat \<Rightarrow> ProcFS \<Rightarrow> string \<Rightarrow> int \<Rightarrow> bool" where
  "cwd_climb 0 px paneCwd current = False"
| "cwd_climb (Suc steps) px paneCwd current =
     (if current \<le> 1 then False
      else case px_cwd px current of None \<Rightarrow> False
        | Some currentCwd \<Rightarrow>
          if sameCwd px currentCwd paneCwd then True
          else (case ParentPid px current of None \<Rightarrow> False
            | Some parent \<Rightarrow> if parent \<le> 1 \<or> parent = current then False
                else cwd_climb steps px paneCwd parent))"

definition PeerBoundToPaneCwd :: "ProcFS \<Rightarrow> int \<Rightarrow> string \<Rightarrow> bool" where
  "PeerBoundToPaneCwd px peerPid paneCwd =
     (if peerPid \<le> 1 \<or> paneCwd = [] then False else cwd_climb (Suc maxCwdDepth) px paneCwd peerPid)"

fun ancestor_climb :: "nat \<Rightarrow> ProcFS \<Rightarrow> int \<Rightarrow> int \<Rightarrow> bool" where
  "ancestor_climb 0 px ancestor current = False"
| "ancestor_climb (Suc steps) px ancestor current =
     (case ParentPid px current of None \<Rightarrow> False
      | Some parent \<Rightarrow>
        if parent \<le> 1 then False
        else if parent = ancestor then True
        else if parent = current then False
        else ancestor_climb steps px ancestor parent)"

definition isAncestorPid :: "ProcFS \<Rightarrow> int \<Rightarrow> int \<Rightarrow> bool" where
  "isAncestorPid px ancestor pid = ancestor_climb maxAncestor px ancestor pid"

definition PeerBoundToPanePid :: "ProcFS \<Rightarrow> int \<Rightarrow> int \<Rightarrow> bool" where
  "PeerBoundToPanePid px peerPid panePid =
     (if peerPid \<le> 1 \<or> panePid \<le> 1 then False
      else if peerPid = panePid then True else isAncestorPid px panePid peerPid)"

subsection \<open>What a bound peer is\<close>

text \<open>The chain of parents of a process, as far as the walk follows it.\<close>

inductive descends :: "ProcFS \<Rightarrow> int \<Rightarrow> nat \<Rightarrow> int \<Rightarrow> bool" for px where
  itself: "descends px pid 0 pid"
| parent: "descends px parent n ancestor \<Longrightarrow> ParentPid px pid = Some parent \<Longrightarrow> descends px pid (Suc n) ancestor"

lemma cwd_climb_sound:
  assumes "cwd_climb steps px cwd pid"
  shows "\<exists>n owner found. n < steps \<and> descends px pid n owner \<and> 1 < owner
    \<and> px_cwd px owner = Some found \<and> sameCwd px found cwd"
  using assms
proof (induction steps arbitrary: pid)
  case (Suc steps)
  then obtain found where pid: "1 < pid" "px_cwd px pid = Some found"
    by (auto split: if_splits option.splits)
  show ?case
  proof (cases "sameCwd px found cwd")
    case True
    with pid show ?thesis using itself by (intro exI [of _ 0] exI [of _ pid] exI [of _ found]) simp
  next
    case False
    with Suc.prems pid obtain up where up: "ParentPid px pid = Some up" "cwd_climb steps px cwd up"
      by (auto split: if_splits option.splits)
    from Suc.IH [OF up(2)] obtain n owner found'
      where "n < steps" "descends px up n owner" "1 < owner" "px_cwd px owner = Some found'" "sameCwd px found' cwd"
      by blast
    with parent [OF _ up(1)] show ?thesis by (intro exI [of _ "Suc n"] exI [of _ owner] exI [of _ found']) simp
  qed
qed simp

text \<open>
  A connector is bound to a pane only through a process that works in the pane's directory: itself
  or one of its next four ancestors, never init.
\<close>

lemma bound_peer_works_in_pane:
  assumes "PeerBoundToPaneCwd px peerPid paneCwd"
  obtains n owner found where "n \<le> maxCwdDepth" "descends px peerPid n owner" "1 < owner"
    "px_cwd px owner = Some found" "sameCwd px found paneCwd"
  using assms cwd_climb_sound [of "Suc maxCwdDepth" px paneCwd peerPid]
  by (auto simp: PeerBoundToPaneCwd_def less_Suc_eq_le split: if_splits)

end
