(* ===== verification/RpcServer.thy ===== *)
theory RpcServer
  imports IndexService HerdrSession Orchestrator RpcSchemas PeerCredentials
begin

text \<open>
  The observability server, \<open>go/internal/daemon/observability_server.go\<close>: which terminals are
  connected, who keeps ownership while a terminal is away, and to which connection a frame goes. This
  theory holds its state and the operations that run in one critical section of the server lock; the
  methods of the RPC protocol are in \<open>RpcHandlers\<close>.

  A connection is the number of its allocation. A Go map that the code iterates over is an association
  list, whose order stands for the iteration order; the other maps are partial functions. What is
  appended to the send queue of a connection (\<open>RpcConnection\<close>) is logged in \<open>sx_frames\<close> in the order
  of the appends; the drain of the queue is the business of that theory. A timer is a handle: armed,
  or expired with its callback waiting for the lock.
\<close>

subsection \<open>State\<close>

record PiPresence =
  pp_ConnectedAt :: int
  pp_HerdrSessionName :: string
  pp_PaneID :: string
  pp_SubscriberID :: string
  pp_SubscriberKind :: "SubscriberKind option"
  pp_TerminalID :: string
  pp_WorkspaceID :: string

definition presence_scope :: "PiPresence \<Rightarrow> AgentScope" where
  "presence_scope p = \<lparr>s_HerdrSessionName = pp_HerdrSessionName p, s_WorkspaceID = pp_WorkspaceID p\<rparr>"

record agyTerminalLease =
  lz_PaneGeneration :: "string option"
  lz_Presence :: PiPresence

text \<open>What a timer does when it fires: the two closures of the code with what they captured.\<close>

datatype grace_callback = DisconnectGrace PiPresence | StartupGrace AgentOrchestratorState

record grace_timer =
  tm_key :: string
  tm_callback :: grace_callback
  tm_delayMs :: int

text \<open>What the methods answer. A history message is passed on as the reader gave it.\<close>

record AgentHistoryMessage =
  hm_Compact :: "CompactToolResult option"
  hm_Ref :: string
  hm_Role :: string
  hm_StopReason :: "string option"
  hm_Text :: string
  hm_Timestamp :: "string option"
  hm_ToolName :: "string option"

record OrchestratorConnectionState =
  ocs_Context :: "AgentWorkspaceContextSnapshot option"
  ocs_Events :: "AgentEventRecord list"
  ocs_Presence :: PiPresence
  ocs_State :: "AgentOrchestratorState option"

datatype rpc_result =
  AgentsResult "AgentListItem list"
  | AgentHistoryResult AgentIndexRecord CompactAgentHistory
  | AgentMessagesResult AgentIndexRecord "AgentHistoryRef option" "AgentHistoryMessage list"
  | EventsResult "AgentEventRecord list"
  | ConnectionResult OrchestratorConnectionState
  | SetResult OrchestratorConnectionState bool
  | AckResult AgentOrchestratorState
  | AcceptedResult
  | PongResult

record rpc_error =
  er_code :: "OrchestratorAckErrorCode option"
  er_retryable :: "bool option"
  er_message :: string

text \<open>
  The frames: the notifications, by their method, and the response to a request with its id. The wire
  records of a change are the records of the service (\<open>toWireState\<close> and \<open>toWireChange\<close> copy them
  field by field).
\<close>

datatype rpc_frame =
  agent_event AgentEventRecord
  | agent_orchestrator_changed AgentOrchestratorChange
  | agent_context_changed "AgentWorkspaceContextSnapshot option" AgentScope
  | rpc_response "jval option" "rpc_error + rpc_result"

record rpc_state =
  sx_index :: index_state
  sx_connectionOrderBySocket :: "nat \<rightharpoonup> nat"
  sx_publishedContextFingerprintByScope :: "string \<rightharpoonup> string"
  sx_disconnectTimers :: "(string \<times> nat) list"
  sx_lastActivityByTerminal :: "(string \<times> int) list"
  sx_heartbeatTimer :: bool
  sx_agyPresenceByTerminal :: "(string \<times> agyTerminalLease) list"
  sx_piPresenceBySocket :: "(nat \<times> PiPresence) list"
  sx_socketsByTerminal :: "string \<rightharpoonup> nat list"
  sx_sockets :: "nat list"
  sx_startupTimers :: "(string \<times> nat) list"
  sx_connectionSequence :: nat
  sx_stopping :: bool
  sx_turnCompletions :: TurnCompletionRegistry
  sx_destroyed :: "nat set"
  sx_armed :: "(nat \<times> grace_timer) list"
  sx_expired :: "(nat \<times> grace_timer) list"
  sx_handles :: nat
  sx_frames :: "(nat \<times> rpc_frame) list"

text \<open>
  What the server is built from. \<open>so_getPane\<close> is the answer of Herdr to a question about a pane of a
  socket path, \<open>so_readHistory\<close> the reader of histories, \<open>so_jsonStringify\<close> the JSON text of a context.
\<close>

record ObservabilityRpcServer =
  so_orchestrator :: AgentOrchestratorService
  so_index :: AgentIndexService
  so_disconnectGraceMs :: int
  so_startupReconnectMs :: int
  so_heartbeatTimeoutMs :: int
  so_peerCred :: "nat \<Rightarrow> int option"
  so_procFS :: ProcFS
  so_readHistory :: "AgentHistoryLookupInput \<Rightarrow> int \<Rightarrow> rpc_state \<Rightarrow> AgentHistoryRef option \<times> AgentHistoryMessage list"
  so_getPane :: "string \<Rightarrow> string \<Rightarrow> rpc_state \<Rightarrow> go_error + jval"
  so_jsonStringify :: "AgentWorkspaceContextSnapshot option \<Rightarrow> go_error + string"
  so_int64 :: "rat \<Rightarrow> go_error + int"

definition DisconnectGraceMs :: int where "DisconnectGraceMs = 5000"
definition StartupReconnectGraceMs :: int where "StartupReconnectGraceMs = 10000"
definition TerminalHeartbeatTimeoutMs :: int where "TerminalHeartbeatTimeoutMs = 90000"

definition or_duration :: "int \<Rightarrow> int \<Rightarrow> int" where
  "or_duration given fallback = (if given = 0 then fallback else given)"

text \<open>The constructor: durations that are 0 get their default, and every registry is empty.\<close>

definition with_durations :: "ObservabilityRpcServer \<Rightarrow> ObservabilityRpcServer" where
  "with_durations so = so\<lparr>so_disconnectGraceMs := or_duration (so_disconnectGraceMs so) DisconnectGraceMs,
     so_startupReconnectMs := or_duration (so_startupReconnectMs so) StartupReconnectGraceMs,
     so_heartbeatTimeoutMs := or_duration (so_heartbeatTimeoutMs so) TerminalHeartbeatTimeoutMs\<rparr>"

definition NewObservabilityRpcServer :: "index_state \<Rightarrow> TurnCompletionRegistry \<Rightarrow> rpc_state" where
  "NewObservabilityRpcServer ix turns =
     \<lparr>sx_index = ix, sx_connectionOrderBySocket = Map.empty,
      sx_publishedContextFingerprintByScope = Map.empty, sx_disconnectTimers = [],
      sx_lastActivityByTerminal = [], sx_heartbeatTimer = False, sx_agyPresenceByTerminal = [],
      sx_piPresenceBySocket = [], sx_socketsByTerminal = Map.empty, sx_sockets = [],
      sx_startupTimers = [], sx_connectionSequence = 0, sx_stopping = False,
      sx_turnCompletions = turns, sx_destroyed = {}, sx_armed = [], sx_expired = [], sx_handles = 0,
      sx_frames = []\<rparr>"

subsection \<open>Actions of the server\<close>

type_synonym 'a rpc = "(rpc_state, go_error, 'a) act"

definition on_index :: "'a ix \<Rightarrow> 'a rpc" where
  "on_index m s = (case m (sx_index s) of (r, ix) \<Rightarrow> (r, s\<lparr>sx_index := ix\<rparr>))"

definition store :: "'a op \<Rightarrow> 'a rpc" where
  "store m = on_index (db m)"

definition try_store :: "'a op \<Rightarrow> (go_error + 'a) rpc" where
  "try_store m = on_index (try_err (db m))"

definition server_now :: "int rpc" where
  "server_now = on_index clock_now"

text \<open>\<open>if err != nil\<close> around a helper of the server.\<close>

definition try_rpc :: "'a rpc \<Rightarrow> (go_error + 'a) rpc" where
  "try_rpc m = catch_act (bind_act m (\<lambda>a. return_act (Inr a)))
     (\<lambda>e. if is_panic e then fail_act e else return_act (Inl e))"

definition terminalPresenceKey :: "string \<Rightarrow> string \<Rightarrow> string" where
  "terminalPresenceKey herdrSessionName terminalID = herdrSessionName @ CHR 0x00 # terminalID"

definition presence_key :: "PiPresence \<Rightarrow> string" where
  "presence_key p = terminalPresenceKey (pp_HerdrSessionName p) (pp_TerminalID p)"

definition nonempty_text :: "string option \<Rightarrow> bool" where
  "nonempty_text v \<longleftrightarrow> v \<noteq> None \<and> v \<noteq> Some []"

definition presenceIsAgy :: "PiPresence \<Rightarrow> bool" where
  "presenceIsAgy p \<longleftrightarrow> pp_SubscriberKind p = Some SubscriberAgy"

subsection \<open>Frames\<close>

text \<open>\<open>enqueueAll\<close>: a destroyed connection takes no frames.\<close>

definition enqueueAll :: "(nat \<times> rpc_frame) list \<Rightarrow> unit rpc" where
  "enqueueAll frames = modify_act (\<lambda>s. s\<lparr>sx_frames := sx_frames s
     @ filter (\<lambda>(connection, _). connection \<notin> sx_destroyed s) frames\<rparr>)"

definition destroy_connections :: "nat list \<Rightarrow> unit rpc" where
  "destroy_connections connections = modify_act (\<lambda>s. s\<lparr>sx_destroyed := sx_destroyed s \<union> set connections\<rparr>)"

subsection \<open>The registry of sockets\<close>

definition sockets_of :: "string \<Rightarrow> rpc_state \<Rightarrow> nat list" where
  "sockets_of key s = (case sx_socketsByTerminal s key of None \<Rightarrow> [] | Some cs \<Rightarrow> cs)"

definition presence_of :: "nat \<Rightarrow> rpc_state \<Rightarrow> PiPresence option" where
  "presence_of connection s = map_of (sx_piPresenceBySocket s) connection"

definition registerTerminalSocket :: "nat \<Rightarrow> PiPresence \<Rightarrow> rpc_state \<Rightarrow> rpc_state" where
  "registerTerminalSocket connection p s =
     s\<lparr>sx_socketsByTerminal := (sx_socketsByTerminal s)(presence_key p \<mapsto>
         (if connection \<in> set (sockets_of (presence_key p) s) then sockets_of (presence_key p) s
          else sockets_of (presence_key p) s @ [connection]))\<rparr>"

definition unregisterTerminalSocket :: "nat \<Rightarrow> PiPresence \<Rightarrow> rpc_state \<Rightarrow> rpc_state" where
  "unregisterTerminalSocket connection p s =
     (case sx_socketsByTerminal s (presence_key p) of None \<Rightarrow> s
      | Some cs \<Rightarrow> let rest = filter (\<lambda>c. c \<noteq> connection) cs
        in if rest = []
           then s\<lparr>sx_socketsByTerminal := (sx_socketsByTerminal s)(presence_key p := None),
                  sx_lastActivityByTerminal := map_delete (presence_key p) (sx_lastActivityByTerminal s)\<rparr>
           else s\<lparr>sx_socketsByTerminal := (sx_socketsByTerminal s)(presence_key p \<mapsto> rest)\<rparr>)"

definition markTerminalActivity :: "nat \<Rightarrow> unit rpc" where
  "markTerminalActivity connection =
     bind_act (read_act (presence_of connection)) (\<lambda>found. case found of None \<Rightarrow> return_act ()
     | Some p \<Rightarrow> bind_act server_now (\<lambda>t.
         modify_act (\<lambda>s. s\<lparr>sx_lastActivityByTerminal :=
           map_put (presence_key p) t (sx_lastActivityByTerminal s)\<rparr>)))"

definition scanHeartbeats :: "ObservabilityRpcServer \<Rightarrow> unit rpc" where
  "scanHeartbeats so =
     bind_act (read_act sx_stopping) (\<lambda>stopping. if stopping then return_act ()
     else bind_act server_now (\<lambda>t.
       bind_act (read_act (\<lambda>s. concat (map (\<lambda>(key, lastActivity).
           if t - so_heartbeatTimeoutMs so \<le> lastActivity then [] else sockets_of key s)
         (sx_lastActivityByTerminal s)))) destroy_connections))"

text \<open>
  The newest live connection of a terminal: the last in the order of acceptance. The order of a
  connection that is not tracked is 0.
\<close>

definition socket_order :: "rpc_state \<Rightarrow> nat \<Rightarrow> nat" where
  "socket_order s connection =
     (case sx_connectionOrderBySocket s connection of None \<Rightarrow> 0 | Some n \<Rightarrow> n)"

definition newer_socket :: "rpc_state \<Rightarrow> nat option \<Rightarrow> nat \<Rightarrow> nat option" where
  "newer_socket s newest connection =
     (case newest of None \<Rightarrow> Some connection
      | Some n \<Rightarrow> if socket_order s n < socket_order s connection then Some connection else Some n)"

definition newestSocketForTerminal :: "AgentScope \<Rightarrow> string \<Rightarrow> rpc_state \<Rightarrow> nat option" where
  "newestSocketForTerminal scope terminalID s =
     foldl (newer_socket s) None (map fst (filter (\<lambda>(connection, p).
         presence_scope p = scope \<and> pp_TerminalID p = terminalID \<and> connection \<notin> sx_destroyed s)
       (sx_piPresenceBySocket s)))"

definition newestSocketForSessionTerminal :: "string \<Rightarrow> string \<Rightarrow> rpc_state \<Rightarrow> nat option" where
  "newestSocketForSessionTerminal herdrSessionName terminalID s =
     foldl (newer_socket s) None (map fst (filter (\<lambda>(connection, p).
         pp_HerdrSessionName p = herdrSessionName \<and> pp_TerminalID p = terminalID
         \<and> connection \<notin> sx_destroyed s) (sx_piPresenceBySocket s)))"

subsection \<open>Presence\<close>

definition indexedForPresence :: "string \<Rightarrow> string \<Rightarrow> string \<Rightarrow> AgentIndexRecord option rpc" where
  "indexedForPresence herdrSessionName paneID terminalID =
     bind_act (store (FindByTerminal herdrSessionName terminalID)) (\<lambda>byTerminal. case byTerminal of
         Some a \<Rightarrow> return_act (Some a)
       | None \<Rightarrow> store (FindByPane herdrSessionName None paneID))"

definition resolvePaneGeneration :: "string \<Rightarrow> string \<Rightarrow> string \<Rightarrow> string option rpc" where
  "resolvePaneGeneration herdrSessionName paneID terminalID =
     bind_act (indexedForPresence herdrSessionName paneID terminalID) (\<lambda>indexed.
       return_act (case indexed of None \<Rightarrow> None | Some a \<Rightarrow> a_PaneGeneration a))"

definition isPiTerminal :: "string \<Rightarrow> string \<Rightarrow> string \<Rightarrow> bool rpc" where
  "isPiTerminal herdrSessionName paneID terminalID =
     bind_act (indexedForPresence herdrSessionName paneID terminalID) (\<lambda>indexed.
       if (case indexed of None \<Rightarrow> False | Some a \<Rightarrow> a_Agent a = Some ''pi'' \<or> a_Agent a = Some ''pig'')
       then return_act True
       else read_act (\<lambda>s. \<exists>connection \<in> set (sockets_of (terminalPresenceKey herdrSessionName terminalID) s).
         (case presence_of connection s of None \<Rightarrow> False
          | Some p \<Rightarrow> pp_SubscriberKind p = Some SubscriberPi \<or> pp_SubscriberKind p = Some SubscriberPig)))"

text \<open>
  \<open>hasTerminalPresence\<close>: a live socket, or a lease whose pane is still open. The lease takes over a
  newer pane generation, and is dropped when another agent is in the terminal or the pane closed.
\<close>

definition set_lease :: "string \<Rightarrow> agyTerminalLease \<Rightarrow> unit rpc" where
  "set_lease key lease = modify_act (\<lambda>s. s\<lparr>sx_agyPresenceByTerminal :=
     map_put key lease (sx_agyPresenceByTerminal s)\<rparr>)"

definition drop_lease :: "string \<Rightarrow> unit rpc" where
  "drop_lease key = modify_act (\<lambda>s. s\<lparr>sx_agyPresenceByTerminal :=
     map_delete key (sx_agyPresenceByTerminal s)\<rparr>)"

definition refresh_lease :: "string \<Rightarrow> agyTerminalLease \<Rightarrow> AgentIndexRecord option \<Rightarrow> agyTerminalLease rpc" where
  "refresh_lease key lease indexed =
     (case indexed of None \<Rightarrow> return_act lease
      | Some a \<Rightarrow> (case a_PaneGeneration a of None \<Rightarrow> return_act lease
          | Some generation \<Rightarrow> bind_act (set_lease key (lease\<lparr>lz_PaneGeneration := Some generation\<rparr>)) (\<lambda>_.
              return_act (lease\<lparr>lz_PaneGeneration := Some generation\<rparr>))))"

definition other_agent :: "AgentIndexRecord option \<Rightarrow> bool" where
  "other_agent indexed \<longleftrightarrow>
     (case indexed of None \<Rightarrow> False | Some a \<Rightarrow> a_Agent a \<noteq> None \<and> a_Agent a \<noteq> Some ''agy'')"

definition lease_pane_closed :: "agyTerminalLease \<Rightarrow> bool rpc" where
  "lease_pane_closed lease =
     store (IsPaneClosedSince (pp_HerdrSessionName (lz_Presence lease)) (lz_PaneGeneration lease)
       (pp_PaneID (lz_Presence lease)) (pp_ConnectedAt (lz_Presence lease)))"

definition lease_holds :: "string \<Rightarrow> agyTerminalLease \<Rightarrow> bool rpc" where
  "lease_holds key lease =
     bind_act (indexedForPresence (pp_HerdrSessionName (lz_Presence lease)) (pp_PaneID (lz_Presence lease))
       (pp_TerminalID (lz_Presence lease))) (\<lambda>indexed.
     bind_act (refresh_lease key lease indexed) (\<lambda>current.
     bind_act (if other_agent indexed then return_act True else lease_pane_closed current) (\<lambda>expired.
     if expired then bind_act (drop_lease key) (\<lambda>_. return_act False) else return_act True)))"

definition hasTerminalPresence :: "string \<Rightarrow> string \<Rightarrow> bool rpc" where
  "hasTerminalPresence herdrSessionName terminalID =
     (let key = terminalPresenceKey herdrSessionName terminalID
      in bind_act (read_act (\<lambda>s. (sockets_of key s, map_of (sx_agyPresenceByTerminal s) key))) (\<lambda>(connections, lease).
         if connections \<noteq> [] then return_act True
         else (case lease of None \<Rightarrow> return_act False | Some l \<Rightarrow> lease_holds key l)))"

text \<open>A failure of the store reads as not connected.\<close>

definition IsTerminalConnected :: "string \<Rightarrow> string \<Rightarrow> bool rpc" where
  "IsTerminalConnected herdrSessionName terminalID =
     bind_act (try_rpc (hasTerminalPresence herdrSessionName terminalID)) (\<lambda>r.
       return_act (case r of Inl _ \<Rightarrow> False | Inr live \<Rightarrow> live))"

end
