(* ===== verification/RpcRouting.thy ===== *)
theory RpcRouting
  imports RpcServer
begin

text \<open>
  The rest of \<open>go/internal/daemon/observability_server.go\<close>: grace timers, the release of owners that
  stay away, the routing of events and contexts, the relocation of terminals after a scan, and the life
  of a connection. Where the code returns the frames it has collected together with an error, the
  result is that pair; the callers differ in whether they still send the frames.
\<close>

type_synonym frames = "(nat \<times> rpc_frame) list"

subsection \<open>Ownership changes\<close>

definition publishOrchestratorChange :: "AgentOrchestratorChange \<Rightarrow> rpc_state \<Rightarrow> frames" where
  "publishOrchestratorChange change s =
     map (\<lambda>(connection, _). (connection, agent_orchestrator_changed change))
       (filter (\<lambda>(_, p). presence_scope p = os_Scope (oc_Previous change)
           \<or> presence_scope p = os_Scope (oc_Current change)) (sx_piPresenceBySocket s))"

definition owned_by_terminal :: "string \<Rightarrow> string \<Rightarrow> AgentOrchestratorState \<Rightarrow> bool" where
  "owned_by_terminal herdrSessionName terminalID st \<longleftrightarrow>
     s_HerdrSessionName (os_Scope st) = herdrSessionName
     \<and> (case os_Owner st of None \<Rightarrow> False | Some ow \<Rightarrow> o_TerminalID ow = terminalID)"

fun release_owners ::
    "ObservabilityRpcServer \<Rightarrow> AgentOrchestratorChangeReason \<Rightarrow> string \<Rightarrow> AgentOrchestratorState list \<Rightarrow> frames
      \<Rightarrow> (frames \<times> go_error option) rpc" where
  "release_owners so reason terminalID [] frames = return_act (frames, None)"
| "release_owners so reason terminalID (st # rest) frames =
     bind_act (try_store (svc_Release (so_orchestrator so) (os_Scope st) reason terminalID)) (\<lambda>r. case r of
         Inl e \<Rightarrow> return_act (frames, Some e)
       | Inr None \<Rightarrow> release_owners so reason terminalID rest frames
       | Inr (Some change) \<Rightarrow> bind_act (read_act (publishOrchestratorChange change)) (\<lambda>fs.
           release_owners so reason terminalID rest (frames @ fs)))"

definition releaseCurrentOwnersForTerminal ::
    "ObservabilityRpcServer \<Rightarrow> string \<Rightarrow> AgentOrchestratorChangeReason \<Rightarrow> string \<Rightarrow> (frames \<times> go_error option) rpc"
where
  "releaseCurrentOwnersForTerminal so herdrSessionName reason terminalID =
     bind_act (try_store (svc_PersistedOwners (so_orchestrator so))) (\<lambda>r. case r of
         Inl e \<Rightarrow> return_act ([], Some e)
       | Inr states \<Rightarrow> release_owners so reason terminalID
           (filter (owned_by_terminal herdrSessionName terminalID) states) [])"

subsection \<open>Timers\<close>

definition set_timeout :: "string \<Rightarrow> grace_callback \<Rightarrow> int \<Rightarrow> nat rpc" where
  "set_timeout key callback delayMs =
     bind_act (read_act sx_handles) (\<lambda>handle.
     bind_act (modify_act (\<lambda>s. s\<lparr>sx_handles := Suc handle,
         sx_armed := sx_armed s @ [(handle, \<lparr>tm_key = key, tm_callback = callback, tm_delayMs = delayMs\<rparr>)]\<rparr>)) (\<lambda>_.
     return_act handle))"

text \<open>Clearing stops an armed timer; one whose callback already waits for the lock is not stopped.\<close>

definition clear_timeouts :: "nat list \<Rightarrow> rpc_state \<Rightarrow> rpc_state" where
  "clear_timeouts handles s = s\<lparr>sx_armed := filter (\<lambda>(handle, _). handle \<notin> set handles) (sx_armed s)\<rparr>"

definition entries_at :: "string \<Rightarrow> (string \<times> nat) list \<Rightarrow> nat list" where
  "entries_at key registry = (case map_of registry key of None \<Rightarrow> [] | Some handle \<Rightarrow> [handle])"

definition cancelGraceForTerminal :: "string \<Rightarrow> string \<Rightarrow> unit rpc" where
  "cancelGraceForTerminal herdrSessionName terminalID =
     (let key = terminalPresenceKey herdrSessionName terminalID
      in modify_act (\<lambda>s. (clear_timeouts (entries_at key (sx_disconnectTimers s) @ entries_at key (sx_startupTimers s)) s)
           \<lparr>sx_disconnectTimers := map_delete key (sx_disconnectTimers s),
            sx_startupTimers := map_delete key (sx_startupTimers s)\<rparr>))"

definition clearGraceTimers :: "unit rpc" where
  "clearGraceTimers =
     modify_act (\<lambda>s. (clear_timeouts (map snd (sx_disconnectTimers s) @ map snd (sx_startupTimers s)) s)
       \<lparr>sx_disconnectTimers := [], sx_startupTimers := []\<rparr>)"

definition scheduleDisconnect :: "ObservabilityRpcServer \<Rightarrow> PiPresence \<Rightarrow> unit rpc" where
  "scheduleDisconnect so p =
     bind_act (hasTerminalPresence (pp_HerdrSessionName p) (pp_TerminalID p)) (\<lambda>live.
     if live then return_act ()
     else bind_act (read_act (\<lambda>s. map_of (sx_disconnectTimers s) (presence_key p))) (\<lambda>pending.
       if pending \<noteq> None then return_act ()
       else bind_act (set_timeout (presence_key p) (DisconnectGrace p) (so_disconnectGraceMs so)) (\<lambda>handle.
         modify_act (\<lambda>s. s\<lparr>sx_disconnectTimers := map_put (presence_key p) handle (sx_disconnectTimers s)\<rparr>))))"

text \<open>
  Both callbacks, once the registry entry is gone: nothing while the server stops, nothing when the
  terminal is back, and on an error no frame is sent, not even for owners already released.
\<close>

definition release_if_absent ::
    "ObservabilityRpcServer \<Rightarrow> string \<Rightarrow> AgentOrchestratorChangeReason \<Rightarrow> string \<Rightarrow> unit rpc" where
  "release_if_absent so herdrSessionName reason terminalID =
     bind_act (read_act sx_stopping) (\<lambda>stopping. if stopping then return_act ()
     else bind_act (try_rpc (hasTerminalPresence herdrSessionName terminalID)) (\<lambda>r. case r of
         Inl _ \<Rightarrow> return_act ()
       | Inr stillPresent \<Rightarrow> if stillPresent then return_act ()
           else bind_act (releaseCurrentOwnersForTerminal so herdrSessionName reason terminalID) (\<lambda>(owned, err).
             if err \<noteq> None then return_act () else enqueueAll owned)))"

definition run_timer :: "ObservabilityRpcServer \<Rightarrow> grace_timer \<Rightarrow> unit rpc" where
  "run_timer so timer =
     (case tm_callback timer of
        DisconnectGrace p \<Rightarrow>
          bind_act (modify_act (\<lambda>s. s\<lparr>sx_disconnectTimers := map_delete (tm_key timer) (sx_disconnectTimers s)\<rparr>)) (\<lambda>_.
          release_if_absent so (pp_HerdrSessionName p) OrchestratorChangeDisconnected (pp_TerminalID p))
      | StartupGrace st \<Rightarrow>
          bind_act (modify_act (\<lambda>s. s\<lparr>sx_startupTimers := map_delete (tm_key timer) (sx_startupTimers s)\<rparr>)) (\<lambda>_.
          release_if_absent so (s_HerdrSessionName (os_Scope st)) OrchestratorChangeStartupTimeout
            (case os_Owner st of None \<Rightarrow> [] | Some ow \<Rightarrow> o_TerminalID ow)))"

text \<open>\<open>armStartupGrace\<close>: a window for every persisted owner, and a lease for the terminals of agy.\<close>

definition startup_lease :: "AgentOrchestratorState \<Rightarrow> AgentOrchestratorOwner \<Rightarrow> AgentIndexRecord option \<Rightarrow> int
    \<Rightarrow> agyTerminalLease option" where
  "startup_lease st owner indexed t =
     (case indexed of None \<Rightarrow> None
      | Some a \<Rightarrow> if a_Agent a \<noteq> Some ''agy'' then None
          else Some \<lparr>lz_PaneGeneration = a_PaneGeneration a, lz_Presence =
            \<lparr>pp_ConnectedAt = t, pp_HerdrSessionName = s_HerdrSessionName (os_Scope st), pp_PaneID = a_PaneID a,
             pp_SubscriberID = ''agy:'' @ o_TerminalID owner, pp_SubscriberKind = Some SubscriberAgy,
             pp_TerminalID = o_TerminalID owner, pp_WorkspaceID = s_WorkspaceID (os_Scope st)\<rparr>\<rparr>)"

definition arm_owner :: "ObservabilityRpcServer \<Rightarrow> AgentOrchestratorState \<Rightarrow> unit rpc" where
  "arm_owner so st =
     (case os_Owner st of None \<Rightarrow> return_act ()
      | Some owner \<Rightarrow>
        let key = terminalPresenceKey (s_HerdrSessionName (os_Scope st)) (o_TerminalID owner)
        in bind_act (try_store (FindByTerminal (s_HerdrSessionName (os_Scope st)) (o_TerminalID owner))) (\<lambda>r. case r of
             Inl _ \<Rightarrow> return_act ()
           | Inr indexed \<Rightarrow>
             bind_act server_now (\<lambda>t.
             bind_act (case startup_lease st owner indexed t of None \<Rightarrow> return_act () | Some lease \<Rightarrow> set_lease key lease) (\<lambda>_.
             bind_act (set_timeout key (StartupGrace st) (so_startupReconnectMs so)) (\<lambda>handle.
             modify_act (\<lambda>s. s\<lparr>sx_startupTimers := map_put key handle (sx_startupTimers s)\<rparr>))))))"

definition armStartupGrace :: "ObservabilityRpcServer \<Rightarrow> unit rpc" where
  "armStartupGrace so =
     bind_act (try_store (svc_PersistedOwners (so_orchestrator so))) (\<lambda>r. case r of
         Inl _ \<Rightarrow> return_act ()
       | Inr states \<Rightarrow> for_each states (arm_owner so))"

subsection \<open>Events\<close>

definition event_routable :: "AgentEventRecord \<Rightarrow> bool" where
  "event_routable event \<longleftrightarrow> nonempty_text (e_WorkspaceID event) \<and> nonempty_text (e_TerminalID event)
     \<and> e_Type event \<noteq> AgentEventStatusChanged \<and> isPendingOrDelivered (e_Status event) \<and> e_Deliverable event = 1"

definition owner_of :: "AgentOrchestratorState option \<Rightarrow> AgentOrchestratorOwner option" where
  "owner_of st = (case st of None \<Rightarrow> None | Some s \<Rightarrow> os_Owner s)"

fun active_owners :: "string \<Rightarrow> string \<Rightarrow> AgentOrchestratorState list \<Rightarrow> string list \<Rightarrow> string list rpc" where
  "active_owners herdrSessionName eventWorkspaceID [] terminalIDs = return_act terminalIDs"
| "active_owners herdrSessionName eventWorkspaceID (st # rest) terminalIDs =
     (if s_HerdrSessionName (os_Scope st) \<noteq> herdrSessionName \<or> s_WorkspaceID (os_Scope st) = eventWorkspaceID
      then active_owners herdrSessionName eventWorkspaceID rest terminalIDs
      else (case os_Owner st of
          None \<Rightarrow> active_owners herdrSessionName eventWorkspaceID rest terminalIDs
        | Some owner \<Rightarrow>
          bind_act (hasTerminalPresence (s_HerdrSessionName (os_Scope st)) (o_TerminalID owner)) (\<lambda>live.
          active_owners herdrSessionName eventWorkspaceID rest
            (if live \<and> o_TerminalID owner \<notin> set terminalIDs then terminalIDs @ [o_TerminalID owner] else terminalIDs))))"

definition singleActiveSessionOwner :: "ObservabilityRpcServer \<Rightarrow> string \<Rightarrow> string \<Rightarrow> string option rpc" where
  "singleActiveSessionOwner so herdrSessionName eventWorkspaceID =
     bind_act (store (svc_PersistedOwners (so_orchestrator so))) (\<lambda>states.
     bind_act (active_owners herdrSessionName eventWorkspaceID states []) (\<lambda>terminalIDs.
     return_act (case terminalIDs of [terminalID] \<Rightarrow> Some terminalID | _ \<Rightarrow> None)))"

definition frame_to :: "nat option \<Rightarrow> AgentEventRecord \<Rightarrow> frames" where
  "frame_to connection event = (case connection of None \<Rightarrow> [] | Some c \<Rightarrow> [(c, agent_event event)])"

definition event_scope :: "AgentEventRecord \<Rightarrow> AgentScope" where
  "event_scope event =
     \<lparr>s_HerdrSessionName = e_HerdrSessionName event,
      s_WorkspaceID = (case e_WorkspaceID event of None \<Rightarrow> [] | Some ws \<Rightarrow> ws)\<rparr>"

definition publishAgentEventLocked :: "ObservabilityRpcServer \<Rightarrow> AgentEventRecord \<Rightarrow> frames rpc" where
  "publishAgentEventLocked so event =
     (if \<not> event_routable event then return_act []
      else let scope = event_scope event
        in bind_act (try_store (svc_Status (so_orchestrator so) scope)) (\<lambda>r. case r of
             Inl _ \<Rightarrow> return_act []
           | Inr st \<Rightarrow> (case owner_of st of
               None \<Rightarrow>
                 bind_act (try_rpc (singleActiveSessionOwner so (e_HerdrSessionName event) (s_WorkspaceID scope))) (\<lambda>r.
                 case r of Inl _ \<Rightarrow> return_act [] | Inr None \<Rightarrow> return_act []
                 | Inr (Some sessionOwner) \<Rightarrow>
                   bind_act (read_act (newestSocketForSessionTerminal (e_HerdrSessionName event) sessionOwner))
                     (\<lambda>connection. return_act (frame_to connection event)))
             | Some owner \<Rightarrow>
                 if e_TerminalID event = Some (o_TerminalID owner) then return_act []
                 else bind_act (read_act (newestSocketForTerminal scope (o_TerminalID owner)))
                   (\<lambda>connection. return_act (frame_to connection event)))))"

definition PublishAgentEvent :: "ObservabilityRpcServer \<Rightarrow> AgentEventRecord \<Rightarrow> unit rpc" where
  "PublishAgentEvent so event = bind_act (publishAgentEventLocked so event) enqueueAll"

subsection \<open>Contexts\<close>

text \<open>A context is sent to its owner only when its text differs from the last one sent for the scope.\<close>

definition publishAgentContextLocked :: "ObservabilityRpcServer \<Rightarrow> AgentScope \<Rightarrow> frames rpc" where
  "publishAgentContextLocked so scope =
     bind_act (try_store (svc_Status (so_orchestrator so) scope)) (\<lambda>r. case r of
         Inl _ \<Rightarrow> return_act []
       | Inr st \<Rightarrow> (case owner_of st of None \<Rightarrow> return_act []
         | Some owner \<Rightarrow>
           bind_act (read_act (newestSocketForTerminal scope (o_TerminalID owner))) (\<lambda>connection. case connection of
               None \<Rightarrow> return_act []
             | Some c \<Rightarrow>
               bind_act (on_index (try_err (WorkspaceSnapshot scope (o_TerminalID owner)))) (\<lambda>r. case r of
                   Inl _ \<Rightarrow> return_act []
                 | Inr context \<Rightarrow> (case so_jsonStringify so context of
                     Inl _ \<Rightarrow> return_act []
                   | Inr fingerprint \<Rightarrow>
                     bind_act (read_act (\<lambda>s. sx_publishedContextFingerprintByScope s (scope_key scope))) (\<lambda>sent.
                     if (case sent of None \<Rightarrow> [] | Some f \<Rightarrow> f) = fingerprint then return_act []
                     else bind_act (modify_act (\<lambda>s. s\<lparr>sx_publishedContextFingerprintByScope :=
                         (sx_publishedContextFingerprintByScope s)(scope_key scope \<mapsto> fingerprint)\<rparr>)) (\<lambda>_.
                       return_act [(c, agent_context_changed context scope)])))))))"

definition PublishAgentContext :: "ObservabilityRpcServer \<Rightarrow> AgentScope \<Rightarrow> unit rpc" where
  "PublishAgentContext so scope = bind_act (publishAgentContextLocked so scope) enqueueAll"

subsection \<open>Relocation after a scan\<close>

text \<open>The last agent a scan lists for a terminal counts.\<close>

definition agent_at_terminal :: "AgentIndexRecord list \<Rightarrow> string \<Rightarrow> AgentIndexRecord option" where
  "agent_at_terminal scanned terminalID =
     (if terminalID = [] then None else find (\<lambda>a. a_TerminalID a = Some terminalID) (rev scanned))"

definition relocated :: "string \<Rightarrow> AgentIndexRecord list \<Rightarrow> PiPresence \<Rightarrow> PiPresence" where
  "relocated herdrSessionName scanned p =
     (if pp_HerdrSessionName p \<noteq> herdrSessionName then p
      else case agent_at_terminal scanned (pp_TerminalID p) of None \<Rightarrow> p
        | Some a \<Rightarrow> p\<lparr>pp_PaneID := a_PaneID a, pp_WorkspaceID := a_WorkspaceID a\<rparr>)"

definition relocate_presences :: "string \<Rightarrow> AgentIndexRecord list \<Rightarrow> unit rpc" where
  "relocate_presences herdrSessionName scanned =
     modify_act (\<lambda>s. s\<lparr>sx_piPresenceBySocket :=
       map (\<lambda>(connection, p). (connection, relocated herdrSessionName scanned p)) (sx_piPresenceBySocket s)\<rparr>)"

text \<open>A lease that ended: without a socket the terminal loses its scopes at once.\<close>

definition expire_lease :: "ObservabilityRpcServer \<Rightarrow> string \<Rightarrow> string \<Rightarrow> PiPresence \<Rightarrow> (frames \<times> go_error option) rpc" where
  "expire_lease so herdrSessionName key p =
     bind_act (drop_lease key) (\<lambda>_.
     bind_act (read_act (sockets_of key)) (\<lambda>connections.
     if connections \<noteq> [] then return_act ([], None)
     else releaseCurrentOwnersForTerminal so herdrSessionName OrchestratorChangeDisconnected (pp_TerminalID p)))"

definition reconcile_lease ::
    "ObservabilityRpcServer \<Rightarrow> string \<Rightarrow> AgentIndexRecord list \<Rightarrow> string \<times> agyTerminalLease \<Rightarrow> (frames \<times> go_error option) rpc"
where
  "reconcile_lease so herdrSessionName scanned = (\<lambda>(key, lease).
     let p = lz_Presence lease
     in if pp_HerdrSessionName p \<noteq> herdrSessionName then return_act ([], None)
        else (case agent_at_terminal scanned (pp_TerminalID p) of
            None \<Rightarrow>
              bind_act (try_rpc (lease_pane_closed lease)) (\<lambda>r. case r of
                  Inl e \<Rightarrow> return_act ([], Some e)
                | Inr paneClosed \<Rightarrow>
                    if paneClosed then expire_lease so herdrSessionName key p else return_act ([], None))
          | Some a \<Rightarrow>
              if a_Agent a \<noteq> None \<and> a_Agent a \<noteq> Some ''agy'' then expire_lease so herdrSessionName key p
              else bind_act (set_lease key
                  \<lparr>lz_PaneGeneration = (if a_PaneGeneration a = None then lz_PaneGeneration lease else a_PaneGeneration a),
                   lz_Presence = p\<lparr>pp_PaneID := a_PaneID a, pp_WorkspaceID := a_WorkspaceID a\<rparr>\<rparr>) (\<lambda>_.
                return_act ([], None))))"

text \<open>An owner whose pane moved is re-claimed in its workspace or moved to the other one.\<close>

definition reconcile_owner ::
    "ObservabilityRpcServer \<Rightarrow> string \<Rightarrow> AgentIndexRecord list \<Rightarrow> AgentOrchestratorState \<Rightarrow> (frames \<times> go_error option) rpc"
where
  "reconcile_owner so herdrSessionName scanned ownerState =
     (case os_Owner ownerState of None \<Rightarrow> return_act ([], None)
      | Some owner \<Rightarrow>
        bind_act (try_store (svc_Status (so_orchestrator so) (os_Scope ownerState))) (\<lambda>r. case r of
            Inl e \<Rightarrow> return_act ([], Some e)
          | Inr current \<Rightarrow>
            if map_option o_TerminalID (owner_of current) \<noteq> Some (o_TerminalID owner) then return_act ([], None)
            else (case agent_at_terminal scanned (o_TerminalID owner) of None \<Rightarrow> return_act ([], None)
              | Some a \<Rightarrow>
                if a_WorkspaceID a = s_WorkspaceID (os_Scope ownerState)
                then if a_PaneID a = o_PaneID owner then return_act ([], None)
                  else bind_act (try_store (svc_Claim (so_orchestrator so) (os_Scope ownerState) (a_PaneID a)
                      (o_TerminalID owner) None)) (\<lambda>r. case r of
                      Inl e \<Rightarrow> return_act ([], Some e)
                    | Inr change \<Rightarrow> bind_act (read_act (publishOrchestratorChange
                          (change\<lparr>oc_Reason := OrchestratorChangeMoved\<rparr>))) (\<lambda>fs. return_act (fs, None)))
                else bind_act (try_store (svc_Move (so_orchestrator so) (os_Scope ownerState) (a_PaneID a)
                    (o_TerminalID owner) \<lparr>s_HerdrSessionName = herdrSessionName, s_WorkspaceID = a_WorkspaceID a\<rparr>)) (\<lambda>r.
                  case r of Inl e \<Rightarrow> return_act ([], Some e)
                  | Inr changes \<Rightarrow> bind_act (read_act (\<lambda>s. concat (map (\<lambda>ch. publishOrchestratorChange ch s) changes)))
                      (\<lambda>fs. return_act (fs, None))))))"

text \<open>A pass over a list that collects frames and ends at the first error.\<close>

fun collect_frames :: "('a \<Rightarrow> (frames \<times> go_error option) rpc) \<Rightarrow> 'a list \<Rightarrow> frames \<Rightarrow> (frames \<times> go_error option) rpc" where
  "collect_frames f [] frames = return_act (frames, None)"
| "collect_frames f (x # xs) frames =
     bind_act (f x) (\<lambda>(fs, err).
       if err \<noteq> None then return_act (frames @ fs, err) else collect_frames f xs (frames @ fs))"

definition reconcileAgentLocationsLocked ::
    "ObservabilityRpcServer \<Rightarrow> string \<Rightarrow> AgentIndexRecord list \<Rightarrow> (frames \<times> go_error option) rpc" where
  "reconcileAgentLocationsLocked so herdrSessionName scanned =
     bind_act (try_store (svc_PersistedOwners (so_orchestrator so))) (\<lambda>r. case r of
         Inl e \<Rightarrow> return_act ([], Some e)
       | Inr states \<Rightarrow>
         let owners = filter (\<lambda>st. s_HerdrSessionName (os_Scope st) = herdrSessionName) states
         in bind_act (relocate_presences herdrSessionName scanned) (\<lambda>_.
            bind_act (read_act sx_agyPresenceByTerminal) (\<lambda>leases.
            bind_act (collect_frames (reconcile_lease so herdrSessionName scanned) leases []) (\<lambda>(frames, err).
            if err \<noteq> None then return_act (frames, err)
            else collect_frames (reconcile_owner so herdrSessionName scanned) owners frames))))"

text \<open>The frames collected before an error are sent all the same.\<close>

definition send_and_fail :: "frames \<times> go_error option \<Rightarrow> unit rpc" where
  "send_and_fail = (\<lambda>(frames, err). bind_act (enqueueAll frames) (\<lambda>_.
     case err of None \<Rightarrow> return_act () | Some e \<Rightarrow> fail_act e))"

definition ReconcileAgentLocations :: "ObservabilityRpcServer \<Rightarrow> string \<Rightarrow> AgentIndexRecord list \<Rightarrow> unit rpc" where
  "ReconcileAgentLocations so herdrSessionName scanned =
     bind_act (reconcileAgentLocationsLocked so herdrSessionName scanned) send_and_fail"

subsection \<open>Connections\<close>

text \<open>The first critical section of \<open>handleConnection\<close>; the connection is a new one.\<close>

definition accept_connection :: "nat \<Rightarrow> unit rpc" where
  "accept_connection connection =
     modify_act (\<lambda>s. s\<lparr>sx_sockets := sx_sockets s @ [connection],
       sx_connectionSequence := Suc (sx_connectionSequence s),
       sx_connectionOrderBySocket := (sx_connectionOrderBySocket s)(connection \<mapsto> Suc (sx_connectionSequence s))\<rparr>)"

definition forget_connection :: "nat \<Rightarrow> rpc_state \<Rightarrow> rpc_state" where
  "forget_connection connection s =
     s\<lparr>sx_sockets := filter (\<lambda>c. c \<noteq> connection) (sx_sockets s),
       sx_connectionOrderBySocket := (sx_connectionOrderBySocket s)(connection := None),
       sx_piPresenceBySocket := map_delete connection (sx_piPresenceBySocket s)\<rparr>"

definition handleSocketClose :: "ObservabilityRpcServer \<Rightarrow> nat \<Rightarrow> unit rpc" where
  "handleSocketClose so connection =
     bind_act (read_act (\<lambda>s. (connection \<in> set (sx_sockets s), presence_of connection s, sx_stopping s)))
       (\<lambda>(tracked, found, stopping).
     if \<not> tracked then return_act ()
     else bind_act (modify_act (forget_connection connection)) (\<lambda>_.
       case found of None \<Rightarrow> return_act ()
       | Some p \<Rightarrow>
         bind_act (modify_act (unregisterTerminalSocket connection p)) (\<lambda>_.
         if stopping then return_act ()
         else bind_act (try_rpc (scheduleDisconnect so p)) (\<lambda>_. return_act ()))))"

text \<open>
  \<open>Start\<close> once the socket listens, and \<open>Stop\<close> up to the listener. Checking, creating and removing the
  socket file are input and output.
\<close>

definition Start :: "ObservabilityRpcServer \<Rightarrow> unit rpc" where
  "Start so =
     bind_act (modify_act (\<lambda>s. s\<lparr>sx_stopping := False\<rparr>)) (\<lambda>_.
     bind_act (modify_act (\<lambda>s. s\<lparr>sx_heartbeatTimer := True\<rparr>)) (\<lambda>_.
     armStartupGrace so))"

definition Stop :: "unit rpc" where
  "Stop =
     bind_act (modify_act (\<lambda>s. s\<lparr>sx_stopping := True, sx_heartbeatTimer := False\<rparr>)) (\<lambda>_.
     bind_act clearGraceTimers (\<lambda>_.
     modify_act (\<lambda>s. s\<lparr>sx_destroyed := sx_destroyed s \<union> set (sx_sockets s), sx_sockets := [],
       sx_agyPresenceByTerminal := [], sx_piPresenceBySocket := [], sx_socketsByTerminal := Map.empty,
       sx_connectionOrderBySocket := Map.empty\<rparr>)))"

end
