(* ===== verification/RpcHandlers.thy ===== *)
theory RpcHandlers
  imports RpcRouting
begin

text \<open>
  The methods of the RPC protocol, \<open>go/internal/daemon/observability_server_handlers.go\<close>: dispatch,
  the reads, registration of a terminal, claiming and giving up a workspace, acknowledgements and turn
  signals. A method is one action, except registration, which releases the lock three times: it is
  a sequence of sections with a program counter (\<open>register_pc\<close>), between which others run.
\<close>

subsection \<open>Scopes and reads\<close>

definition resolveScope :: "AgentQueryScope \<Rightarrow> AgentQueryScope rpc" where
  "resolveScope input =
     (if q_All input = Some True
      then return_act \<lparr>q_All = Some True,
        q_HerdrSessionName = (if nonempty_text (q_HerdrSessionName input) then q_HerdrSessionName input else None),
        q_WorkspaceID = None\<rparr>
      else bind_act (if nonempty_text (q_WorkspaceID input) \<and> \<not> nonempty_text (q_HerdrSessionName input)
          then bind_act (store (List_agents \<lparr>q_All = None, q_HerdrSessionName = None, q_WorkspaceID = q_WorkspaceID input\<rparr>))
            (\<lambda>found. return_act (first_occurrences (map a_HerdrSessionName found)))
          else return_act []) (\<lambda>sessions.
        if 1 < length sessions
        then fail_act (ErrText (''workspace '' @ the (q_WorkspaceID input)
          @ '' exists in multiple Herdr sessions; pass --session <name>: '' @ join_with '', '' sessions))
        else if nonempty_text (q_WorkspaceID input) \<or> nonempty_text (q_HerdrSessionName input)
        then return_act \<lparr>q_All = None,
          q_HerdrSessionName = (if nonempty_text (q_HerdrSessionName input) then q_HerdrSessionName input else None),
          q_WorkspaceID = (if nonempty_text (q_WorkspaceID input) then q_WorkspaceID input else None)\<rparr>
        else fail_act (ErrText
          ''agent scope requires current Herdr workspace, --workspace, --session, or --all'')))"

text \<open>Every method checks its parameters first.\<close>

definition validated :: "ObjectSchema \<Rightarrow> jval \<Rightarrow> 'a rpc \<Rightarrow> 'a rpc" where
  "validated schema params m = (if Check schema params then m else fail_act errInvalidRPCParams)"

definition handleAgentList :: "ObservabilityRpcServer \<Rightarrow> jval \<Rightarrow> rpc_result rpc" where
  "handleAgentList so params = validated AgentListInputSchema params
     (bind_act (resolveScope (scope_params params)) (\<lambda>scope.
      if flag_field params ''includeOwnerlessWorkspaces'' \<and> nonempty_text (q_HerdrSessionName scope) \<and> nonempty_text (q_WorkspaceID scope)
      then bind_act (store (OwnerlessSiblingScopes (so_orchestrator so)
            \<lparr>s_HerdrSessionName = the (q_HerdrSessionName scope), s_WorkspaceID = the (q_WorkspaceID scope)\<rparr>)) (\<lambda>siblings.
        bind_act (on_index (ListAgents scope)) (\<lambda>own.
        bind_act (collect siblings (\<lambda>sibling. on_index (ListAgents \<lparr>q_All = None,
            q_HerdrSessionName = Some (s_HerdrSessionName sibling), q_WorkspaceID = Some (s_WorkspaceID sibling)\<rparr>))) (\<lambda>others.
        return_act (AgentsResult (own @ concat others)))))
      else bind_act (on_index (ListAgents scope)) (\<lambda>own. return_act (AgentsResult own))))"

definition handleAgentGet :: "ObservabilityRpcServer \<Rightarrow> jval \<Rightarrow> rpc_result rpc" where
  "handleAgentGet so params = validated AgentGetInputSchema params
     (bind_act (resolveScope (scope_params params)) (\<lambda>scope.
      bind_act (store (ResolveTarget scope (text_field params ''target''))) (\<lambda>agent.
      bind_act (store (resolve_history (iv_history (so_index so)) (historyLookup agent)
          \<lparr>ho_ForceDiscovery = True, ho_ForceRefresh = None, ho_PreferredRef = None\<rparr>)) (\<lambda>found.
      return_act (AgentHistoryResult agent (hd_CompactHistory found))))))"

definition handleAgentRead :: "ObservabilityRpcServer \<Rightarrow> jval \<Rightarrow> rpc_result rpc" where
  "handleAgentRead so params = validated AgentReadInputSchema params
     (case number_field (so_int64 so) (map_of (asRecord params) ''limit'') of
        Inl e \<Rightarrow> fail_act e
      | Inr limit \<Rightarrow>
        bind_act (resolveScope (scope_params params)) (\<lambda>scope.
        bind_act (store (ResolveTarget scope (text_field params ''target''))) (\<lambda>agent.
        bind_act (read_act (so_readHistory so (historyLookup agent) (case limit of None \<Rightarrow> 20 | Some n \<Rightarrow> n)))
          (\<lambda>(ref, messages). return_act (AgentMessagesResult agent ref messages)))))"

definition handleAgentEvents :: "ObservabilityRpcServer \<Rightarrow> jval \<Rightarrow> rpc_result rpc" where
  "handleAgentEvents so params = validated AgentEventsInputSchema params
     (case events_params (so_int64 so) params of
        Inl e \<Rightarrow> fail_act e
      | Inr input \<Rightarrow> bind_act (store (ListAfter input)) (\<lambda>events. return_act (EventsResult events)))"

subsection \<open>The state of a connection\<close>

definition is_owner :: "AgentOrchestratorState option \<Rightarrow> string \<Rightarrow> bool" where
  "is_owner st terminalID \<longleftrightarrow> map_option o_TerminalID (owner_of st) = Some terminalID"

definition connectionStateLocked :: "ObservabilityRpcServer \<Rightarrow> PiPresence \<Rightarrow> OrchestratorConnectionState rpc" where
  "connectionStateLocked so p =
     bind_act (store (svc_Status (so_orchestrator so) (presence_scope p))) (\<lambda>st.
     bind_act (if is_owner st (pp_TerminalID p)
         then on_index (WorkspaceSnapshot (presence_scope p) (pp_TerminalID p)) else return_act None) (\<lambda>context.
     bind_act (if is_owner st (pp_TerminalID p)
         then store (OwnerlessSiblingScopes (so_orchestrator so) (presence_scope p)) else return_act []) (\<lambda>siblings.
     bind_act (store (svc_Pending (so_orchestrator so) \<lparr>op_Scope = presence_scope p, op_ExtraScopes = siblings,
         op_Limit = Some 100, op_TerminalID = pp_TerminalID p\<rparr>)) (\<lambda>events.
     return_act \<lparr>ocs_Context = context, ocs_Events = events, ocs_Presence = p, ocs_State = st\<rparr>))))"

definition requirePiPresence :: "nat \<Rightarrow> PiPresence rpc" where
  "requirePiPresence connection =
     bind_act (read_act (presence_of connection)) (\<lambda>found. case found of
         None \<Rightarrow> fail_act (ErrText ''Pi presence is not registered for this connection'')
       | Some p \<Rightarrow> return_act p)"

definition handleOrchestratorGet :: "ObservabilityRpcServer \<Rightarrow> nat \<Rightarrow> jval \<Rightarrow> rpc_result rpc" where
  "handleOrchestratorGet so connection params = validated AgentOrchestratorGetInputSchema params
     (bind_act (requirePiPresence connection) (\<lambda>p.
      bind_act (connectionStateLocked so p) (\<lambda>st. return_act (ConnectionResult st))))"

subsection \<open>Claiming and releasing\<close>

definition sameOwner :: "AgentOrchestratorOwner option \<Rightarrow> AgentOrchestratorOwner option \<Rightarrow> bool" where
  "sameOwner left right \<longleftrightarrow>
     (case (left, right) of
        (Some l, Some r) \<Rightarrow> o_TerminalID l = o_TerminalID r \<and> o_PaneID l = o_PaneID r
      | _ \<Rightarrow> left = None \<and> right = None)"

text \<open>An agy terminal that owns its workspace is leased, unless it really is a pi terminal.\<close>

definition lease_agy_owner :: "PiPresence \<Rightarrow> unit rpc" where
  "lease_agy_owner p =
     bind_act (isPiTerminal (pp_HerdrSessionName p) (pp_PaneID p) (pp_TerminalID p)) (\<lambda>isPi.
     if isPi then return_act ()
     else bind_act (resolvePaneGeneration (pp_HerdrSessionName p) (pp_PaneID p) (pp_TerminalID p)) (\<lambda>generation.
       bind_act (set_lease (presence_key p) \<lparr>lz_PaneGeneration = generation, lz_Presence = p\<rparr>) (\<lambda>_.
       cancelGraceForTerminal (pp_HerdrSessionName p) (pp_TerminalID p))))"

definition set_enabled :: "ObservabilityRpcServer \<Rightarrow> PiPresence \<Rightarrow> (frames \<times> bool) rpc" where
  "set_enabled so p =
     bind_act (store (svc_Status (so_orchestrator so) (presence_scope p))) (\<lambda>current.
     bind_act (case owner_of current of None \<Rightarrow> return_act False
         | Some owner \<Rightarrow> hasTerminalPresence (pp_HerdrSessionName p) (o_TerminalID owner)) (\<lambda>ownerConnected.
     bind_act (store (svc_Claim (so_orchestrator so) (presence_scope p) (pp_PaneID p) (pp_TerminalID p)
         (Some ownerConnected))) (\<lambda>change.
     bind_act (if presenceIsAgy p then lease_agy_owner p else return_act ()) (\<lambda>_.
     if sameOwner (os_Owner (oc_Current change)) (os_Owner (oc_Previous change)) then return_act ([], False)
     else bind_act (read_act (publishOrchestratorChange change)) (\<lambda>fs. return_act (fs, True))))))"

definition set_disabled :: "ObservabilityRpcServer \<Rightarrow> PiPresence \<Rightarrow> (frames \<times> bool) rpc" where
  "set_disabled so p =
     bind_act (drop_lease (presence_key p)) (\<lambda>_.
     bind_act (store (svc_Release (so_orchestrator so) (presence_scope p) OrchestratorChangeReleased
         (pp_TerminalID p))) (\<lambda>change.
     case change of None \<Rightarrow> return_act ([], False)
     | Some ch \<Rightarrow> bind_act (read_act (publishOrchestratorChange ch)) (\<lambda>fs. return_act (fs, True))))"

text \<open>The frames are sent even when the state cannot be read back.\<close>

definition orchestratorSetLocked ::
    "ObservabilityRpcServer \<Rightarrow> nat \<Rightarrow> bool \<Rightarrow> (frames \<times> (go_error + rpc_result)) rpc" where
  "orchestratorSetLocked so connection enabled =
     bind_act (requirePiPresence connection) (\<lambda>p.
     bind_act (if enabled then set_enabled so p else set_disabled so p) (\<lambda>(frames, changed).
     bind_act (try_rpc (connectionStateLocked so p)) (\<lambda>r. return_act (frames,
       case r of Inl e \<Rightarrow> Inl e | Inr st \<Rightarrow> Inr (SetResult st changed)))))"

definition handleOrchestratorSet :: "ObservabilityRpcServer \<Rightarrow> nat \<Rightarrow> jval \<Rightarrow> rpc_result rpc" where
  "handleOrchestratorSet so connection params = validated AgentOrchestratorSetInputSchema params
     (bind_act (orchestratorSetLocked so connection (flag_field params ''enabled'')) (\<lambda>(frames, r).
      bind_act (enqueueAll frames) (\<lambda>_. case r of Inl e \<Rightarrow> fail_act e | Inr result \<Rightarrow> return_act result)))"

subsection \<open>Acknowledgements, turns, ping\<close>

definition handleOrchestratorAck :: "ObservabilityRpcServer \<Rightarrow> nat \<Rightarrow> jval \<Rightarrow> rpc_result rpc" where
  "handleOrchestratorAck so connection params = validated AgentOrchestratorAckInputSchema params
     (case number_field (so_int64 so) (map_of (asRecord params) ''eventId'') of
        Inl e \<Rightarrow> fail_act e
      | Inr eventID \<Rightarrow>
        bind_act (requirePiPresence connection) (\<lambda>p.
        bind_act (store (svc_Ack (so_orchestrator so) \<lparr>oa_Scope = presence_scope p,
            oa_EventID = (case eventID of None \<Rightarrow> 0 | Some i \<Rightarrow> i), oa_TerminalID = pp_TerminalID p\<rparr>)) (\<lambda>st.
        return_act (AckResult st))))"

text \<open>The signal names the terminal and pane of the connection, the workspace of the caller.\<close>

definition turn_signal :: "PiPresence \<Rightarrow> AgentTurnCompletedInput \<Rightarrow> SessionScopedSignal" where
  "turn_signal p input =
     \<lparr>ss_Confirmed = ti_Confirmed input,
      ss_ExpectedText = (case ti_ExpectedText input of None \<Rightarrow> [] | Some text \<Rightarrow> text),
      ss_HasExpectedText = (ti_ExpectedText input \<noteq> None),
      ss_HerdrSessionName = pp_HerdrSessionName p, ss_PaneID = pp_PaneID p, ss_TerminalID = pp_TerminalID p,
      ss_WorkspaceID = ti_WorkspaceID input\<rparr>"

definition record_turn :: "SessionScopedSignal \<Rightarrow> unit rpc" where
  "record_turn signal =
     bind_act server_now (\<lambda>t.
     bind_act server_now (\<lambda>t2.
     modify_act (\<lambda>s. s\<lparr>sx_turnCompletions := snd (Record_signal signal t t2
       (waiters_of (terminalTurnKey (ss_HerdrSessionName signal) (ss_TerminalID signal)) (sx_turnCompletions s))
       (sx_turnCompletions s))\<rparr>)))"

definition handleTurnCompleted :: "nat \<Rightarrow> jval \<Rightarrow> rpc_result rpc" where
  "handleTurnCompleted connection params = validated AgentTurnCompletedInputSchema params
     (bind_act (requirePiPresence connection) (\<lambda>p.
      bind_act (record_turn (turn_signal p (turn_params params))) (\<lambda>_. return_act AcceptedResult)))"

definition handlePing :: "jval \<Rightarrow> rpc_result rpc" where
  "handlePing params = validated AgentPingInputSchema params (return_act PongResult)"

subsection \<open>Registration\<close>

definition ErrConnectorPaneMismatch :: go_error where
  "ErrConnectorPaneMismatch = ErrText ''Connector process does not match Herdr pane''"

text \<open>What the first section finds out about the pane; the presence when the index knows it already.\<close>

record presence_lookup =
  lk_SocketPath :: string
  lk_SessionName :: string
  lk_Indexed :: "AgentIndexRecord option"
  lk_Presence :: "PiPresence option"

definition indexed_presence :: "PiPresenceRegistration \<Rightarrow> string \<Rightarrow> int \<Rightarrow> AgentIndexRecord option \<Rightarrow> PiPresence option" where
  "indexed_presence input sessionName t indexed =
     (case indexed of None \<Rightarrow> None
      | Some a \<Rightarrow> if a_WorkspaceID a = pr_WorkspaceID input \<and> nonempty_text (a_TerminalID a)
          then Some \<lparr>pp_ConnectedAt = t, pp_HerdrSessionName = sessionName, pp_PaneID = a_PaneID a,
            pp_SubscriberID = pr_SubscriberID input, pp_SubscriberKind = pr_SubscriberKind input,
            pp_TerminalID = the (a_TerminalID a), pp_WorkspaceID = a_WorkspaceID a\<rparr>
          else None)"

definition lookup_presence :: "PiPresenceRegistration \<Rightarrow> presence_lookup rpc" where
  "lookup_presence input =
     bind_act (store (FindRunningBySocketPath (pr_HerdrSocketPath input))) (\<lambda>session. case session of
         None \<Rightarrow> fail_act (ErrText ''Herdr socket is not registered as a running session'')
       | Some running \<Rightarrow>
         bind_act (store (FindByPane (hs_Name running) None (pr_PaneID input))) (\<lambda>indexed.
         bind_act server_now (\<lambda>t.
         return_act \<lparr>lk_SocketPath = hs_SocketPath running, lk_SessionName = hs_Name running, lk_Indexed = indexed,
           lk_Presence = indexed_presence input (hs_Name running) t indexed\<rparr>)))"

text \<open>
  \<open>assertConnectorBoundToPane\<close>: a pane without a directory or a peer without a pid is let through,
  with a warning. The result is the error, if any.
\<close>

definition text_or_empty :: "string option \<Rightarrow> string" where
  "text_or_empty v = (case v of None \<Rightarrow> [] | Some s \<Rightarrow> s)"

definition bound_to :: "ObservabilityRpcServer \<Rightarrow> int \<Rightarrow> string option \<Rightarrow> bool" where
  "bound_to so peerPid cwd = (case cwd of None \<Rightarrow> False | Some dir \<Rightarrow> PeerBoundToPaneCwd (so_procFS so) peerPid dir)"

definition assertConnectorBoundToPane ::
    "ObservabilityRpcServer \<Rightarrow> nat \<Rightarrow> HerdrPaneIdentity option \<Rightarrow> go_error option" where
  "assertConnectorBoundToPane so connection pane =
     (case pane of None \<Rightarrow> None
      | Some p \<Rightarrow>
        if text_or_empty (hp_CWD p) = [] \<and> text_or_empty (hp_ForegroundCwd p) = [] then None
        else (case LinuxPeerPid (so_peerCred so connection) of None \<Rightarrow> None
          | Some peerPid \<Rightarrow>
            if bound_to so peerPid (hp_CWD p) \<or> bound_to so peerPid (hp_ForegroundCwd p) then None
            else Some ErrConnectorPaneMismatch))"

definition bound_presence :: "ObservabilityRpcServer \<Rightarrow> nat \<Rightarrow> HerdrPaneIdentity option \<Rightarrow> PiPresence \<Rightarrow> PiPresence rpc" where
  "bound_presence so connection pane p =
     (case assertConnectorBoundToPane so connection pane of Some e \<Rightarrow> fail_act e | None \<Rightarrow> return_act p)"

text \<open>The rest of \<open>resolvePiPresence\<close>, after the question to Herdr; \<open>tryPaneIdentity\<close> drops its error.\<close>

definition finish_presence ::
    "ObservabilityRpcServer \<Rightarrow> nat \<Rightarrow> PiPresenceRegistration \<Rightarrow> presence_lookup \<Rightarrow> PiPresence rpc" where
  "finish_presence so connection input found =
     bind_act (read_act (\<lambda>s. ResolveHerdrPaneIdentity (so_getPane so (lk_SocketPath found) (pr_PaneID input) s))) (\<lambda>answer.
     case lk_Presence found of
       Some p \<Rightarrow> bound_presence so connection (case answer of Inl _ \<Rightarrow> None | Inr pane \<Rightarrow> Some pane) p
     | None \<Rightarrow> (case answer of
           Inl _ \<Rightarrow> fail_act (ErrText (case lk_Indexed found of
               None \<Rightarrow> ''Herdr pane is not indexed yet''
             | Some a \<Rightarrow> if a_WorkspaceID a \<noteq> pr_WorkspaceID input
                 then ''Pi presence workspace does not match indexed Herdr pane''
                 else ''Herdr pane has no terminal identity''))
         | Inr live \<Rightarrow>
           bind_act server_now (\<lambda>t.
           bound_presence so connection (Some live)
             \<lparr>pp_ConnectedAt = t, pp_HerdrSessionName = lk_SessionName found, pp_PaneID = hp_PaneID live,
              pp_SubscriberID = pr_SubscriberID input, pp_SubscriberKind = pr_SubscriberKind input,
              pp_TerminalID = hp_TerminalID live, pp_WorkspaceID = hp_WorkspaceID live\<rparr>)))"

text \<open>Five groups of 8, 4, 4, 4 and 12 hexadecimal digits.\<close>

definition isUuidLikeSessionID :: "string \<Rightarrow> bool" where
  "isUuidLikeSessionID text =
     (let groups = split_on (CHR ''-'') (map to_lower text)
      in map length groups = [8, 4, 4, 4, 12] \<and> (\<forall>g \<in> set groups. list_all lower_hex g))"

definition should_register_ref :: "PiPresence \<Rightarrow> AgentSessionRef \<Rightarrow> bool rpc" where
  "should_register_ref p ref =
     (if \<not> presenceIsAgy p then return_act True
      else if sr_Kind ref = SessionRefID \<and> sr_Source ref \<noteq> ''agy-subagent'' \<and> isUuidLikeSessionID (sr_Value ref)
      then bind_act (isPiTerminal (pp_HerdrSessionName p) (pp_PaneID p) (pp_TerminalID p)) (\<lambda>isPi. return_act (\<not> isPi))
      else return_act False)"

text \<open>The connection takes its new place in the registries, before anything that can fail.\<close>

definition enter_registry :: "nat \<Rightarrow> PiPresence option \<Rightarrow> PiPresence \<Rightarrow> unit rpc" where
  "enter_registry connection previous p =
     modify_act (\<lambda>s. let s1 = (case previous of None \<Rightarrow> s | Some q \<Rightarrow> unregisterTerminalSocket connection q s);
         s2 = s1\<lparr>sx_piPresenceBySocket := map_put connection p (sx_piPresenceBySocket s1)\<rparr>
       in registerTerminalSocket connection p s2)"

text \<open>The main section of registration; its result is whether the session reference is to be registered.\<close>

definition register_presence ::
    "ObservabilityRpcServer \<Rightarrow> nat \<Rightarrow> PiPresence option \<Rightarrow> PiPresence \<Rightarrow> AgentSessionRef \<Rightarrow> bool rpc" where
  "register_presence so connection previous p ref =
     bind_act (enter_registry connection previous p) (\<lambda>_.
     bind_act (store (svc_Status (so_orchestrator so) (presence_scope p))) (\<lambda>st.
     bind_act (if \<not> presenceIsAgy p
         then bind_act (drop_lease (presence_key p)) (\<lambda>_. cancelGraceForTerminal (pp_HerdrSessionName p) (pp_TerminalID p))
         else if is_owner st (pp_TerminalID p) then lease_agy_owner p else return_act ()) (\<lambda>_.
     bind_act server_now (\<lambda>t.
     bind_act (modify_act (\<lambda>s. s\<lparr>sx_lastActivityByTerminal :=
         map_put (presence_key p) t (sx_lastActivityByTerminal s)\<rparr>)) (\<lambda>_.
     bind_act (case previous of None \<Rightarrow> return_act ()
         | Some q \<Rightarrow> if presence_key q \<noteq> presence_key p \<and> \<not> presenceIsAgy q then scheduleDisconnect so q else return_act ()) (\<lambda>_.
     should_register_ref p ref))))))"

text \<open>The contexts of the scopes the registration changed.\<close>

definition publish_contexts :: "ObservabilityRpcServer \<Rightarrow> AgentScope list \<Rightarrow> unit rpc" where
  "publish_contexts so scopes =
     bind_act (collect scopes (publishAgentContextLocked so)) (\<lambda>frames. enqueueAll (concat frames))"

text \<open>
  \<open>handleOrchestratorRegister\<close> as its sections: what the registration has done so far is the program
  counter, and \<open>register_step\<close> runs the next section. \<open>Inr\<close> is the answer.
\<close>

datatype register_pc =
  RegBegin
  | RegLookup "PiPresence option"
  | RegIdentity "PiPresence option" presence_lookup
  | RegCommit "PiPresence option" PiPresence
  | RegSessionRef PiPresence
  | RegContexts PiPresence "AgentScope list"
  | RegReply PiPresence

definition connection_result :: "ObservabilityRpcServer \<Rightarrow> PiPresence \<Rightarrow> (register_pc + rpc_result) rpc" where
  "connection_result so p = bind_act (connectionStateLocked so p) (\<lambda>st. return_act (Inr (ConnectionResult st)))"

fun register_step ::
    "ObservabilityRpcServer \<Rightarrow> nat \<Rightarrow> PiPresenceRegistration \<Rightarrow> register_pc \<Rightarrow> (register_pc + rpc_result) rpc" where
  "register_step so connection input RegBegin =
     bind_act (read_act (presence_of connection)) (\<lambda>previous. return_act (Inl (RegLookup previous)))"
| "register_step so connection input (RegLookup previous) =
     bind_act (lookup_presence input) (\<lambda>found. return_act (Inl (RegIdentity previous found)))"
| "register_step so connection input (RegIdentity previous found) =
     bind_act (finish_presence so connection input found) (\<lambda>p. return_act (Inl (RegCommit previous p)))"
| "register_step so connection input (RegCommit previous p) =
     bind_act (register_presence so connection previous p (pr_SessionRef input)) (\<lambda>should.
       if should then return_act (Inl (RegSessionRef p)) else connection_result so p)"
| "register_step so connection input (RegSessionRef p) =
     bind_act (on_index (RegisterPiSessionRef (so_index so) (pp_HerdrSessionName p) (pr_SessionRef input) (pp_TerminalID p)))
       (\<lambda>(_, scopes). return_act (Inl (RegContexts p scopes)))"
| "register_step so connection input (RegContexts p scopes) =
     bind_act (publish_contexts so scopes) (\<lambda>_. return_act (Inl (RegReply p)))"
| "register_step so connection input (RegReply p) = connection_result so p"

subsection \<open>Requests\<close>

definition observabilityRPCError :: "ObservabilityRpcServer \<Rightarrow> go_error \<Rightarrow> rpc_error" where
  "observabilityRPCError so e =
     \<lparr>er_code = (case e of ErrAck code _ \<Rightarrow> Some code | _ \<Rightarrow> None),
      er_retryable = (case e of ErrAck code _ \<Rightarrow> Some (OrchestratorAckErrorCodeRetryable code) | _ \<Rightarrow> None),
      er_message = error_text (so_index so) e\<rparr>"

definition respond :: "ObservabilityRpcServer \<Rightarrow> nat \<Rightarrow> jval option \<Rightarrow> go_error + rpc_result \<Rightarrow> unit rpc" where
  "respond so connection request_id outcome = enqueueAll [(connection, rpc_response request_id
     (case outcome of Inl e \<Rightarrow> Inl (observabilityRPCError so e) | Inr result \<Rightarrow> Inr result))]"

text \<open>Every method but registration, which is started instead.\<close>

definition dispatch :: "ObservabilityRpcServer \<Rightarrow> nat \<Rightarrow> rpcRequest \<Rightarrow> (PiPresenceRegistration + rpc_result) rpc" where
  "dispatch so connection request =
     (let params = qr_params request;
          answer = (\<lambda>m. bind_act m (\<lambda>result. return_act (Inr result)))
      in if qr_method request = [] then fail_act (ErrText ''Missing method'')
         else if qr_method request = ''agent.list'' then answer (handleAgentList so params)
         else if qr_method request = ''agent.get'' then answer (handleAgentGet so params)
         else if qr_method request = ''agent.read'' then answer (handleAgentRead so params)
         else if qr_method request = ''agent.events'' then answer (handleAgentEvents so params)
         else if qr_method request = ''agent.orchestrator.register''
         then validated AgentOrchestratorRegisterInputSchema params (return_act (Inl (registration_params params)))
         else if qr_method request = ''agent.orchestrator.get'' then answer (handleOrchestratorGet so connection params)
         else if qr_method request = ''agent.orchestrator.set'' then answer (handleOrchestratorSet so connection params)
         else if qr_method request = ''agent.notifications.ack'' then answer (handleOrchestratorAck so connection params)
         else if qr_method request = ''agent.turn.completed'' then answer (handleTurnCompleted connection params)
         else if qr_method request = ''agent.ping'' then answer (handlePing params)
         else fail_act (ErrText (''Unknown method: '' @ qr_method request)))"

text \<open>
  \<open>handleRequest\<close>: either the request is answered in one section, or a registration is under way whose
  answer carries the id of the request. A panic unwinds through it.
\<close>

definition handleRequest ::
    "ObservabilityRpcServer \<Rightarrow> nat \<Rightarrow> jval \<Rightarrow> (jval option \<times> PiPresenceRegistration) option rpc" where
  "handleRequest so connection message =
     (let request = rpcRequestOf message
      in bind_act (markTerminalActivity connection) (\<lambda>_.
         bind_act (try_rpc (dispatch so connection request)) (\<lambda>r. case r of
             Inr (Inl input) \<Rightarrow> return_act (Some (qr_id request, input))
           | Inr (Inr result) \<Rightarrow> bind_act (respond so connection (qr_id request) (Inr result)) (\<lambda>_. return_act None)
           | Inl e \<Rightarrow> bind_act (respond so connection (qr_id request) (Inl e)) (\<lambda>_. return_act None))))"

end
