(* ===== verification/RpcContract.thy ===== *)
theory RpcContract
  imports RpcHandlers
begin

text \<open>
  The registries of the observability server agree with each other, whatever the connections, the timers
  and the rest of the daemon do in between: the server as a step relation over its critical sections,
  and the invariant of its runs.
\<close>

subsection \<open>The server and its goroutines\<close>

text \<open>
  The goroutine of a connection reads one frame after the other; a registration is in progress between
  two of its sections, and the close handler runs only between requests.
\<close>

datatype conn_phase = Unused | Reading | Registering "jval option" PiPresenceRegistration register_pc | Gone

record rpc_system =
  sy_state :: rpc_state
  sy_phase :: "nat \<Rightarrow> conn_phase"

text \<open>
  A step is one critical section. The stores and services change under the server (\<open>others_run\<close>), a
  failed write destroys a connection, a timer expires at some time after it was armed. A section that
  panics takes the daemon down and has no successor.
\<close>

inductive rpc_step :: "ObservabilityRpcServer \<Rightarrow> rpc_system \<Rightarrow> rpc_system \<Rightarrow> bool" for so where
  accepted: "sy_phase y c = Unused \<Longrightarrow> accept_connection c (sy_state y) = (Inr (), s) \<Longrightarrow>
    rpc_step so y \<lparr>sy_state = s, sy_phase = (sy_phase y)(c := Reading)\<rparr>"
| answered: "sy_phase y c = Reading \<Longrightarrow> handleRequest so c message (sy_state y) = (Inr None, s) \<Longrightarrow>
    rpc_step so y (y\<lparr>sy_state := s\<rparr>)"
| registers: "sy_phase y c = Reading \<Longrightarrow> handleRequest so c message (sy_state y) = (Inr (Some (i, input)), s) \<Longrightarrow>
    rpc_step so y \<lparr>sy_state = s, sy_phase = (sy_phase y)(c := Registering i input RegBegin)\<rparr>"
| register_section: "sy_phase y c = Registering i input pc \<Longrightarrow>
    register_step so c input pc (sy_state y) = (Inr (Inl pc'), s) \<Longrightarrow>
    rpc_step so y \<lparr>sy_state = s, sy_phase = (sy_phase y)(c := Registering i input pc')\<rparr>"
| register_done: "sy_phase y c = Registering i input pc \<Longrightarrow>
    register_step so c input pc (sy_state y) = (Inr (Inr result), s) \<Longrightarrow> respond so c i (Inr result) s = (Inr (), s') \<Longrightarrow>
    rpc_step so y \<lparr>sy_state = s', sy_phase = (sy_phase y)(c := Reading)\<rparr>"
| register_failed: "sy_phase y c = Registering i input pc \<Longrightarrow>
    register_step so c input pc (sy_state y) = (Inl e, s) \<Longrightarrow> \<not> is_panic e \<Longrightarrow> respond so c i (Inl e) s = (Inr (), s') \<Longrightarrow>
    rpc_step so y \<lparr>sy_state = s', sy_phase = (sy_phase y)(c := Reading)\<rparr>"
| connection_closed: "sy_phase y c = Reading \<Longrightarrow>
    bind_act (destroy_connections [c]) (\<lambda>_. handleSocketClose so c) (sy_state y) = (Inr (), s) \<Longrightarrow>
    rpc_step so y \<lparr>sy_state = s, sy_phase = (sy_phase y)(c := Gone)\<rparr>"
| heartbeat: "scanHeartbeats so (sy_state y) = (Inr (), s) \<Longrightarrow> rpc_step so y (y\<lparr>sy_state := s\<rparr>)"
| event: "PublishAgentEvent so e (sy_state y) = (Inr (), s) \<Longrightarrow> rpc_step so y (y\<lparr>sy_state := s\<rparr>)"
| context_changed: "PublishAgentContext so scope (sy_state y) = (Inr (), s) \<Longrightarrow> rpc_step so y (y\<lparr>sy_state := s\<rparr>)"
| scanned: "ReconcileAgentLocations so session found (sy_state y) = (r, s) \<Longrightarrow> rpc_step so y (y\<lparr>sy_state := s\<rparr>)"
| asked: "IsTerminalConnected session terminalID (sy_state y) = (Inr live, s) \<Longrightarrow> rpc_step so y (y\<lparr>sy_state := s\<rparr>)"
| timer_expires: "(handle, timer) \<in> set (sx_armed (sy_state y)) \<Longrightarrow>
    rpc_step so y (y\<lparr>sy_state := (sy_state y)\<lparr>sx_armed := filter (\<lambda>(h, _). h \<noteq> handle) (sx_armed (sy_state y)),
      sx_expired := sx_expired (sy_state y) @ [(handle, timer)]\<rparr>\<rparr>)"
| timer_runs: "(handle, timer) \<in> set (sx_expired (sy_state y)) \<Longrightarrow>
    run_timer so timer ((sy_state y)\<lparr>sx_expired := filter (\<lambda>(h, _). h \<noteq> handle) (sx_expired (sy_state y))\<rparr>) = (Inr (), s) \<Longrightarrow>
    rpc_step so y (y\<lparr>sy_state := s\<rparr>)"
| stopped: "Stop (sy_state y) = (Inr (), s) \<Longrightarrow> rpc_step so y (y\<lparr>sy_state := s\<rparr>)"
| write_failed: "rpc_step so y (y\<lparr>sy_state := (sy_state y)\<lparr>sx_destroyed := insert c (sx_destroyed (sy_state y))\<rparr>\<rparr>)"
| others_run: "rpc_step so y (y\<lparr>sy_state := (sy_state y)\<lparr>sx_index := ix, sx_turnCompletions := turns\<rparr>\<rparr>)"

inductive rpc_run :: "ObservabilityRpcServer \<Rightarrow> rpc_system \<Rightarrow> bool" for so where
  started: "Start so (NewObservabilityRpcServer ix turns) = (Inr (), s) \<Longrightarrow>
    rpc_run so \<lparr>sy_state = s, sy_phase = (\<lambda>_. Unused)\<rparr>"
| stepped: "rpc_run so y \<Longrightarrow> rpc_step so y y' \<Longrightarrow> rpc_run so y'"

subsection \<open>Sections that leave the registries alone\<close>

definition registry :: "rpc_state \<Rightarrow> (nat \<times> PiPresence) list \<times> (string \<rightharpoonup> nat list) \<times> nat list
    \<times> (nat \<rightharpoonup> nat) \<times> nat \<times> (string \<times> int) list \<times> bool" where
  "registry s = (sx_piPresenceBySocket s, sx_socketsByTerminal s, sx_sockets s, sx_connectionOrderBySocket s,
     sx_connectionSequence s, sx_lastActivityByTerminal s, sx_stopping s)"

abbreviation "unmoved \<equiv> moves (same_under registry)"

lemma unmoved_on_index [moves_rules]: "unmoved (on_index m)"
  by (simp add: moves_def same_under_def on_index_def registry_def split: prod.splits)

lemma unmoved_modify: "(\<And>s. registry (f s) = registry s) \<Longrightarrow> unmoved (modify_act f)"
  by (simp add: framing.moves_modify same_under_def)

lemma unmoved_store [moves_rules]: "unmoved (store m)" "unmoved (try_store m)" "unmoved server_now"
  by (simp_all add: store_def try_store_def server_now_def unmoved_on_index)

lemma unmoved_try [moves_rules]: "unmoved m \<Longrightarrow> unmoved (try_rpc m)"
  unfolding try_rpc_def by (intro moves_rules)

lemma unmoved_pair [moves_rules]: "(\<And>x y. unmoved (f x y)) \<Longrightarrow> unmoved (case p of (x, y) \<Rightarrow> f x y)"
  by (cases p) simp

lemma unmoved_enqueue [moves_rules]: "unmoved (enqueueAll frames)" "unmoved (destroy_connections cs)"
    "unmoved (set_lease key lease)" "unmoved (drop_lease key)" "unmoved (cancelGraceForTerminal n t)"
    "unmoved (set_timeout key cb ms)"
  unfolding enqueueAll_def destroy_connections_def set_lease_def drop_lease_def cancelGraceForTerminal_def
    clear_timeouts_def set_timeout_def Let_def
  by (intro moves_rules unmoved_modify; simp add: registry_def)+

lemma unmoved_presence [moves_rules]: "unmoved (indexedForPresence n p t)" "unmoved (hasTerminalPresence n t)"
  unfolding indexedForPresence_def hasTerminalPresence_def lease_holds_def refresh_lease_def lease_pane_closed_def Let_def
  by (intro moves_rules)+

lemma unmoved_kind [moves_rules]: "unmoved (isPiTerminal n p t)" "unmoved (resolvePaneGeneration n p t)"
    "unmoved (IsTerminalConnected n t)" "unmoved (scanHeartbeats so)"
  unfolding isPiTerminal_def resolvePaneGeneration_def IsTerminalConnected_def scanHeartbeats_def
  by (intro moves_rules)+

lemma unmoved_release_owners [moves_rules]: "unmoved (release_owners so reason t states frames)"
  by (induction states arbitrary: frames) (auto intro!: moves_rules split: option.splits)

lemma unmoved_release [moves_rules]: "unmoved (releaseCurrentOwnersForTerminal so n reason t)"
  unfolding releaseCurrentOwnersForTerminal_def by (intro moves_rules)

lemma unmoved_grace [moves_rules]: "unmoved (scheduleDisconnect so p)" "unmoved (release_if_absent so n reason t)"
  unfolding scheduleDisconnect_def release_if_absent_def
  by ((intro moves_rules unmoved_modify | simp add: registry_def)+)

lemma unmoved_timer [moves_rules]: "unmoved (run_timer so timer)"
  by (cases "tm_callback timer") (auto simp: run_timer_def registry_def intro!: moves_rules unmoved_modify)

lemma unmoved_active [moves_rules]: "unmoved (active_owners n ws states ids)"
proof (induction states arbitrary: ids)
  case (Cons st states)
  then show ?case by (cases "os_Owner st") (auto intro!: moves_rules)
qed (simp add: framing.moves_return)

lemma unmoved_events [moves_rules]: "unmoved (publishAgentEventLocked so e)" "unmoved (PublishAgentEvent so e)"
  unfolding publishAgentEventLocked_def PublishAgentEvent_def singleActiveSessionOwner_def Let_def
  by (intro moves_rules)+

lemma unmoved_contexts [moves_rules]: "unmoved (publishAgentContextLocked so scope)" "unmoved (PublishAgentContext so scope)"
    "unmoved (publish_contexts so scopes)"
  unfolding publishAgentContextLocked_def PublishAgentContext_def publish_contexts_def
  by ((intro moves_rules unmoved_modify | simp add: registry_def)+)

lemma unmoved_reconcile [moves_rules]: "unmoved (reconcile_lease so n found kl)" "unmoved (reconcile_owner so n found st)"
  unfolding reconcile_lease_def expire_lease_def lease_pane_closed_def reconcile_owner_def Let_def
  by (intro moves_rules)+

lemma unmoved_collect_frames [moves_rules]: "(\<And>x. unmoved (f x)) \<Longrightarrow> unmoved (collect_frames f xs frames)"
  by (induction xs arbitrary: frames) (auto intro!: moves_rules)

lemma unmoved_send [moves_rules]: "unmoved (send_and_fail result)" "unmoved (respond so c i outcome)"
  unfolding send_and_fail_def respond_def by (intro moves_rules)+

lemma unmoved_arm [moves_rules]: "unmoved (arm_owner so st)" "unmoved (armStartupGrace so)"
  unfolding arm_owner_def armStartupGrace_def Let_def
  by ((intro moves_rules unmoved_modify | simp add: registry_def)+)

lemma unmoved_validated [moves_rules]: "unmoved m \<Longrightarrow> unmoved (validated schema params m)"
  unfolding validated_def by (intro moves_rules)

lemma unmoved_reads [moves_rules]: "unmoved (resolveScope q)" "unmoved (handleAgentList so params)"
    "unmoved (handleAgentGet so params)" "unmoved (handleAgentRead so params)" "unmoved (handleAgentEvents so params)"
  unfolding resolveScope_def handleAgentList_def handleAgentGet_def handleAgentRead_def handleAgentEvents_def
  by (intro moves_rules)+

lemma unmoved_state [moves_rules]: "unmoved (connectionStateLocked so p)" "unmoved (requirePiPresence c)"
    "unmoved (lease_agy_owner p)" "unmoved (set_enabled so p)" "unmoved (set_disabled so p)"
  unfolding connectionStateLocked_def requirePiPresence_def lease_agy_owner_def set_enabled_def set_disabled_def
  by (intro moves_rules)+

lemma unmoved_handlers [moves_rules]: "unmoved (handleOrchestratorGet so c params)" "unmoved (handleOrchestratorSet so c params)"
    "unmoved (handleOrchestratorAck so c params)" "unmoved (handleTurnCompleted c params)" "unmoved (handlePing params)"
  unfolding handleOrchestratorGet_def handleOrchestratorSet_def orchestratorSetLocked_def handleOrchestratorAck_def
    handleTurnCompleted_def handlePing_def record_turn_def
  by ((intro moves_rules unmoved_modify | simp add: registry_def)+)

lemma unmoved_dispatch [moves_rules]: "unmoved (dispatch so c request)"
  unfolding dispatch_def Let_def by (intro moves_rules)

lemma unmoved_registration [moves_rules]: "unmoved (lookup_presence input)" "unmoved (finish_presence so c input found)"
    "unmoved (should_register_ref p ref)" "unmoved (connection_result so p)"
  unfolding lookup_presence_def finish_presence_def bound_presence_def should_register_ref_def connection_result_def
  by (intro moves_rules)+

lemma unmoved_registry: "unmoved m \<Longrightarrow> m s = (r, s') \<Longrightarrow> registry s' = registry s"
  by (rule moves_sameD)

lemma registry_parts:
  assumes "registry s' = registry s"
  shows "sx_piPresenceBySocket s' = sx_piPresenceBySocket s" "sx_socketsByTerminal s' = sx_socketsByTerminal s"
    "sx_sockets s' = sx_sockets s" "sx_connectionOrderBySocket s' = sx_connectionOrderBySocket s"
    "sx_connectionSequence s' = sx_connectionSequence s" "sx_lastActivityByTerminal s' = sx_lastActivityByTerminal s"
    "sx_stopping s' = sx_stopping s" "presence_of c s' = presence_of c s" "sockets_of key s' = sockets_of key s"
  using assms by (simp_all add: registry_def presence_of_def sockets_of_def)

subsection \<open>Consistent registries\<close>

text \<open>
  A terminal's set of sockets is exactly the connections whose presence names the terminal; no set is
  empty. A tracked connection has an order of its own, at most the sequence number. Until the server
  stops every presence belongs to a tracked connection, and activity is kept for connected terminals
  only.
\<close>

definition sockets_agree :: "rpc_state \<Rightarrow> bool" where
  "sockets_agree s \<longleftrightarrow> distinct (map fst (sx_piPresenceBySocket s))
     \<and> (\<forall>key. sx_socketsByTerminal s key \<noteq> Some [])
     \<and> (\<forall>key c. c \<in> set (sockets_of key s) \<longleftrightarrow> (\<exists>p. presence_of c s = Some p \<and> presence_key p = key))"

definition orders_agree :: "rpc_state \<Rightarrow> bool" where
  "orders_agree s \<longleftrightarrow>
     (\<forall>c. c \<in> set (sx_sockets s) \<longleftrightarrow> sx_connectionOrderBySocket s c \<noteq> None)
     \<and> (\<forall>c n. sx_connectionOrderBySocket s c = Some n \<longrightarrow> n \<le> sx_connectionSequence s)
     \<and> (\<forall>c d n. sx_connectionOrderBySocket s c = Some n \<and> sx_connectionOrderBySocket s d = Some n \<longrightarrow> c = d)"

definition tracked_only :: "rpc_state \<Rightarrow> bool" where
  "tracked_only s \<longleftrightarrow>
     (\<not> sx_stopping s \<longrightarrow> (\<forall>c. presence_of c s \<noteq> None \<longrightarrow> c \<in> set (sx_sockets s))
        \<and> (\<forall>key t. (key, t) \<in> set (sx_lastActivityByTerminal s) \<longrightarrow> sockets_of key s \<noteq> []))"

definition registries_ok :: "rpc_state \<Rightarrow> bool" where
  "registries_ok s \<longleftrightarrow> sockets_agree s \<and> orders_agree s \<and> tracked_only s"

lemmas registries_ok_defs = registries_ok_def sockets_agree_def orders_agree_def tracked_only_def

lemma registries_ok_cong:
  assumes "registry s' = registry s"
  shows "registries_ok s' = registries_ok s"
  unfolding registries_ok_defs registry_parts [OF assms] by (rule refl)

lemma sockets_agreeD:
  assumes "sockets_agree s"
  shows "c \<in> set (sockets_of key s) \<longleftrightarrow> (\<exists>p. presence_of c s = Some p \<and> presence_key p = key)"
  using assms by (simp add: sockets_agree_def)

lemma sockets_of_nonempty: "sockets_agree s \<Longrightarrow> sx_socketsByTerminal s key = Some cs \<Longrightarrow> cs \<noteq> []"
  by (auto simp: sockets_agree_def)

text \<open>The updates of the registries.\<close>

lemma presence_of_put [simp]:
  "presence_of d (s\<lparr>sx_piPresenceBySocket := map_put c p (sx_piPresenceBySocket s)\<rparr>)
     = (if d = c then Some p else presence_of d s)"
  by (simp add: presence_of_def)

lemma sockets_of_put [simp]: "sockets_of key (s\<lparr>sx_piPresenceBySocket := ps\<rparr>) = sockets_of key s"
  by (simp add: sockets_of_def)

lemma register_simps [simp]:
  "presence_of d (registerTerminalSocket c p s) = presence_of d s"
  "sx_piPresenceBySocket (registerTerminalSocket c p s) = sx_piPresenceBySocket s"
  "sx_sockets (registerTerminalSocket c p s) = sx_sockets s"
  "sx_connectionOrderBySocket (registerTerminalSocket c p s) = sx_connectionOrderBySocket s"
  "sx_connectionSequence (registerTerminalSocket c p s) = sx_connectionSequence s"
  "sx_lastActivityByTerminal (registerTerminalSocket c p s) = sx_lastActivityByTerminal s"
  "sx_stopping (registerTerminalSocket c p s) = sx_stopping s"
  by (simp_all add: registerTerminalSocket_def presence_of_def)

lemma sockets_of_register:
  "set (sockets_of key (registerTerminalSocket c p s))
     = (if key = presence_key p then insert c (set (sockets_of key s)) else set (sockets_of key s))"
  by (auto simp: registerTerminalSocket_def sockets_of_def)

lemma registered_nonempty:
  "sx_socketsByTerminal s key \<noteq> Some [] \<Longrightarrow> sx_socketsByTerminal (registerTerminalSocket c p s) key \<noteq> Some []"
  by (auto simp: registerTerminalSocket_def sockets_of_def split: option.splits)

lemma unregister_simps [simp]:
  "presence_of d (unregisterTerminalSocket c p s) = presence_of d s"
  "sx_piPresenceBySocket (unregisterTerminalSocket c p s) = sx_piPresenceBySocket s"
  "sx_sockets (unregisterTerminalSocket c p s) = sx_sockets s"
  "sx_connectionOrderBySocket (unregisterTerminalSocket c p s) = sx_connectionOrderBySocket s"
  "sx_connectionSequence (unregisterTerminalSocket c p s) = sx_connectionSequence s"
  "sx_stopping (unregisterTerminalSocket c p s) = sx_stopping s"
  by (simp_all add: unregisterTerminalSocket_def presence_of_def Let_def split: option.splits)

lemma sockets_of_unregister:
  "sockets_of key (unregisterTerminalSocket c p s)
     = (if key = presence_key p then filter (\<lambda>d. d \<noteq> c) (sockets_of key s) else sockets_of key s)"
  by (auto simp: unregisterTerminalSocket_def sockets_of_def Let_def split: option.splits)

lemma unregistered_nonempty:
  "sx_socketsByTerminal s key \<noteq> Some [] \<Longrightarrow> sx_socketsByTerminal (unregisterTerminalSocket c p s) key \<noteq> Some []"
  by (auto simp: unregisterTerminalSocket_def Let_def split: option.splits)

lemma unregister_activity:
  assumes "(key, t) \<in> set (sx_lastActivityByTerminal (unregisterTerminalSocket c p s))"
    and "\<And>key t. (key, t) \<in> set (sx_lastActivityByTerminal s) \<Longrightarrow> sockets_of key s \<noteq> []"
  shows "sockets_of key (unregisterTerminalSocket c p s) \<noteq> []"
proof (cases "sx_socketsByTerminal s (presence_key p)")
  case None
  with assms show ?thesis by (simp add: unregisterTerminalSocket_def)
next
  case (Some cs)
  with assms(1) have old: "(key, t) \<in> set (sx_lastActivityByTerminal s)"
      and here: "key = presence_key p \<Longrightarrow> filter (\<lambda>d. d \<noteq> c) cs \<noteq> []"
    by (auto simp: unregisterTerminalSocket_def map_delete_def Let_def split: if_splits)
  show ?thesis
    unfolding sockets_of_unregister using assms(2) [OF old] here Some by (auto simp: sockets_of_def)
qed

text \<open>Where a connection may have been registered before: nowhere else than under \<open>previous\<close>.\<close>

definition previous_ok :: "nat \<Rightarrow> PiPresence option \<Rightarrow> rpc_state \<Rightarrow> bool" where
  "previous_ok c previous s \<longleftrightarrow>
     (\<forall>p. presence_of c s = Some p \<longrightarrow> (\<exists>q. previous = Some q \<and> presence_key q = presence_key p))"

lemma enter_registry_ok:
  assumes ok: "registries_ok s" and prev: "previous_ok c previous s"
    and live: "\<not> sx_stopping s \<Longrightarrow> c \<in> set (sx_sockets s)"
    and run: "enter_registry c previous p s = (r, s')"
  shows "registries_ok s' \<and> presence_of c s' = Some p \<and> (\<forall>d. d \<noteq> c \<longrightarrow> presence_of d s' = presence_of d s)
    \<and> sx_sockets s' = sx_sockets s \<and> sx_stopping s' = sx_stopping s \<and> c \<in> set (sockets_of (presence_key p) s')"
proof -
  define s1 where "s1 = (case previous of None \<Rightarrow> s | Some q \<Rightarrow> unregisterTerminalSocket c q s)"
  have s': "s' = registerTerminalSocket c p (s1\<lparr>sx_piPresenceBySocket := map_put c p (sx_piPresenceBySocket s1)\<rparr>)"
    using run by (simp add: enter_registry_def modify_act_def s1_def Let_def)
  have agree: "sockets_agree s" and orders: "orders_agree s" and tracked: "tracked_only s"
    using ok by (simp_all add: registries_ok_def)
  have same: "presence_of d s1 = presence_of d s" "sx_piPresenceBySocket s1 = sx_piPresenceBySocket s"
    "sx_sockets s1 = sx_sockets s" "sx_connectionOrderBySocket s1 = sx_connectionOrderBySocket s"
    "sx_connectionSequence s1 = sx_connectionSequence s" "sx_stopping s1 = sx_stopping s" for d
    by (auto simp: s1_def split: option.splits)
  have away: "set (sockets_of key s1) = set (sockets_of key s) - {c}" for key
  proof (cases previous)
    case None
    with prev have "presence_of c s = None" by (cases "presence_of c s") (auto simp: previous_ok_def)
    then have "c \<notin> set (sockets_of key s)" using sockets_agreeD [OF agree] by simp
    with None show ?thesis by (simp add: s1_def)
  next
    case (Some q)
    have "c \<notin> set (sockets_of key s)" if "key \<noteq> presence_key q"
      using that prev sockets_agreeD [OF agree, of c key] Some by (auto simp: previous_ok_def)
    with Some show ?thesis by (auto simp: s1_def sockets_of_unregister)
  qed
  have filled: "sx_socketsByTerminal s1 key \<noteq> Some []" for key
    using agree unregistered_nonempty [of s key c] by (auto simp: s1_def sockets_agree_def split: option.splits)
  have sockets: "set (sockets_of key s') = (set (sockets_of key s) - {c}) \<union> (if key = presence_key p then {c} else {})" for key
    by (auto simp: s' sockets_of_register away)
  have pres: "presence_of d s' = (if d = c then Some p else presence_of d s)" for d
    by (simp add: s' same(1))
  have "sockets_agree s'"
    using agree sockets pres registered_nonempty [of _ _ c p] filled same(2)
    by (auto simp: sockets_agree_def s' distinct_map_put)
  moreover have "orders_agree s'" using orders by (simp add: orders_agree_def s' same)
  moreover have "tracked_only s'"
    unfolding tracked_only_def
  proof (intro impI conjI allI)
    fix d
    assume "\<not> sx_stopping s'" "presence_of d s' \<noteq> None"
    then show "d \<in> set (sx_sockets s')"
      using tracked live pres [of d] by (auto simp: s' same(3,6) tracked_only_def split: if_splits)
  next
    fix key t
    assume st: "\<not> sx_stopping s'" and here: "(key, t) \<in> set (sx_lastActivityByTerminal s')"
    then have act: "(key, t) \<in> set (sx_lastActivityByTerminal s1)" by (simp add: s')
    have old: "sockets_of k s \<noteq> []" if "(k, t') \<in> set (sx_lastActivityByTerminal s)" for k t'
      using tracked st that by (auto simp: tracked_only_def s' same)
    have "sockets_of key s1 \<noteq> []"
      using act old unregister_activity [of key t c _ s] by (auto simp: s1_def split: option.splits)
    then have "set (sockets_of key s') \<noteq> {}" using away sockets by (metis Un_empty set_empty)
    then show "sockets_of key s' \<noteq> []" by simp
  qed
  moreover have "sx_sockets s' = sx_sockets s" "sx_stopping s' = sx_stopping s" by (simp_all add: s' same)
  ultimately show ?thesis using pres sockets by (simp add: registries_ok_def)
qed

text \<open>Accepting, closing, activity, relocation, stopping.\<close>

lemma accept_ok:
  assumes "registries_ok s" "c \<notin> set (sx_sockets s)" "accept_connection c s = (r, s')"
  shows "registries_ok s' \<and> set (sx_sockets s') = insert c (set (sx_sockets s)) \<and> sx_stopping s' = sx_stopping s
    \<and> (\<forall>d. presence_of d s' = presence_of d s)"
proof -
  have s': "s' = s\<lparr>sx_sockets := sx_sockets s @ [c], sx_connectionSequence := Suc (sx_connectionSequence s),
      sx_connectionOrderBySocket := (sx_connectionOrderBySocket s)(c \<mapsto> Suc (sx_connectionSequence s))\<rparr>"
    using assms(3) by (simp add: accept_connection_def modify_act_def)
  have same: "presence_of d s' = presence_of d s" "sockets_of key s' = sockets_of key s" for d key
    by (simp_all add: s' presence_of_def sockets_of_def)
  have bound: "n \<le> sx_connectionSequence s" if "sx_connectionOrderBySocket s d = Some n" for d n
    using assms(1) that by (auto simp: registries_ok_defs)
  have "sockets_agree s'" using assms(1) by (simp add: registries_ok_def sockets_agree_def same) (simp add: s')
  moreover have "orders_agree s'"
    using assms(1,2) bound by (auto simp: registries_ok_defs s' dest: le_SucI) fastforce+
  moreover have "tracked_only s'" using assms(1) by (simp add: registries_ok_def tracked_only_def same) (simp add: s')
  ultimately show ?thesis using same by (simp add: registries_ok_def s')
qed

lemma forget_ok:
  assumes ok: "registries_ok s" and here: "presence_of c s = found"
    and s': "s' = (case found of None \<Rightarrow> forget_connection c s | Some p \<Rightarrow> unregisterTerminalSocket c p (forget_connection c s))"
  shows "registries_ok s' \<and> c \<notin> set (sx_sockets s') \<and> set (sx_sockets s') = set (sx_sockets s) - {c}
    \<and> presence_of c s' = None \<and> sx_stopping s' = sx_stopping s \<and> (\<forall>d. d \<noteq> c \<longrightarrow> presence_of d s' = presence_of d s)"
proof -
  define s1 where "s1 = forget_connection c s"
  have agree: "sockets_agree s" using ok by (simp add: registries_ok_def)
  have s1: "presence_of d s1 = (if d = c then None else presence_of d s)" "sockets_of key s1 = sockets_of key s"
    "sx_socketsByTerminal s1 = sx_socketsByTerminal s" "sx_lastActivityByTerminal s1 = sx_lastActivityByTerminal s"
    "sx_stopping s1 = sx_stopping s" "sx_sockets s1 = filter (\<lambda>d. d \<noteq> c) (sx_sockets s)"
    "sx_connectionOrderBySocket s1 = (sx_connectionOrderBySocket s)(c := None)"
    "sx_connectionSequence s1 = sx_connectionSequence s"
    "sx_piPresenceBySocket s1 = map_delete c (sx_piPresenceBySocket s)" for d key
    by (simp_all add: s1_def forget_connection_def presence_of_def sockets_of_def)
  have rest: "presence_of d s' = presence_of d s1" "sx_sockets s' = sx_sockets s1" "sx_stopping s' = sx_stopping s1"
    "sx_connectionOrderBySocket s' = sx_connectionOrderBySocket s1" "sx_connectionSequence s' = sx_connectionSequence s1"
    "sx_piPresenceBySocket s' = sx_piPresenceBySocket s1" for d
    using s' by (auto simp: s1_def split: option.splits)
  have sockets: "set (sockets_of key s') = set (sockets_of key s) - {c}" for key
  proof (cases found)
    case None
    with here sockets_agreeD [OF agree, of c key] have "c \<notin> set (sockets_of key s)" by simp
    with None s' show ?thesis by (simp add: s1_def [symmetric] s1)
  next
    case (Some p)
    with here sockets_agreeD [OF agree, of c key] have "c \<in> set (sockets_of key s) \<longleftrightarrow> presence_key p = key" by simp
    with Some s' show ?thesis by (auto simp: s1_def [symmetric] sockets_of_unregister s1)
  qed
  have "sx_socketsByTerminal s' key \<noteq> Some []" for key
    using agree unregistered_nonempty [of s1 key c] s' by (auto simp: s1_def [symmetric] sockets_agree_def s1(3) split: option.splits)
  then have "sockets_agree s'"
    using agree sockets by (simp add: sockets_agree_def rest s1 distinct_map_delete)
  moreover have "orders_agree s'" using ok by (auto simp: registries_ok_defs rest s1)
  moreover have "tracked_only s'"
    unfolding tracked_only_def
  proof (intro impI conjI allI)
    fix d
    assume "\<not> sx_stopping s'" "presence_of d s' \<noteq> None"
    with ok show "d \<in> set (sx_sockets s')" by (auto simp: registries_ok_defs rest s1 split: if_splits)
  next
    fix key t
    assume st: "\<not> sx_stopping s'" and act: "(key, t) \<in> set (sx_lastActivityByTerminal s')"
    have old: "sockets_of k s1 \<noteq> []" if "(k, t') \<in> set (sx_lastActivityByTerminal s1)" for k t'
      using ok st that by (auto simp: registries_ok_def tracked_only_def rest s1)
    show "sockets_of key s' \<noteq> []"
    proof (cases found)
      case None
      with act old [of key t] s' show ?thesis by (simp add: s1_def)
    next
      case (Some p)
      with act s' show ?thesis using unregister_activity [of key t c p s1] old by (simp add: s1_def)
    qed
  qed
  ultimately show ?thesis by (auto simp: registries_ok_def rest s1)
qed

text \<open>A section that leaves a connection where it is.\<close>

definition same_place :: "nat \<Rightarrow> rpc_state \<Rightarrow> rpc_state \<Rightarrow> bool" where
  "same_place c s s' \<longleftrightarrow> (c \<in> set (sx_sockets s') \<longleftrightarrow> c \<in> set (sx_sockets s)) \<and> sx_stopping s' = sx_stopping s
     \<and> map_option presence_key (presence_of c s') = map_option presence_key (presence_of c s)"

lemma activity_simps [simp]:
  "presence_of d (s\<lparr>sx_lastActivityByTerminal := x\<rparr>) = presence_of d s"
  "sockets_of key (s\<lparr>sx_lastActivityByTerminal := x\<rparr>) = sockets_of key s"
  by (simp_all add: presence_of_def sockets_of_def)

lemma put_activity_ok:
  assumes "registries_ok s" "sockets_of key s \<noteq> []"
  shows "registries_ok (s\<lparr>sx_lastActivityByTerminal := map_put key t (sx_lastActivityByTerminal s)\<rparr>)"
  using assms by (simp add: registries_ok_defs) (auto simp: map_put_def)

lemma server_now_eq [simp]: "server_now s = (Inr (w_wall (x_world (sx_index s))), s)"
  by (simp add: server_now_def on_index_def clock_now_def read_act_def)

lemma mark_ok:
  assumes ok: "registries_ok s" and run: "markTerminalActivity c s = (r, s')"
  shows "registries_ok s' \<and> (\<forall>d. presence_of d s' = presence_of d s) \<and> sx_sockets s' = sx_sockets s
    \<and> sx_stopping s' = sx_stopping s"
proof (cases "presence_of c s")
  case None
  with ok run show ?thesis by (simp add: markTerminalActivity_def act_defs)
next
  case (Some p)
  have full: "sockets_of (presence_key p) s \<noteq> []"
    using sockets_agreeD [of s c "presence_key p"] ok Some by (auto simp: registries_ok_def)
  from run Some put_activity_ok [OF ok full] show ?thesis
    by (auto simp: markTerminalActivity_def bind_act_def read_act_def modify_act_def)
qed

lemma relocated_key [simp]: "presence_key (relocated n found p) = presence_key p"
  by (auto simp: relocated_def presence_key_def split: option.splits)

lemma relocate_ok:
  assumes ok: "registries_ok s" and run: "relocate_presences n found s = (r, s')"
  shows "registries_ok s' \<and> (\<forall>d. presence_of d s' = map_option (relocated n found) (presence_of d s))
    \<and> sx_sockets s' = sx_sockets s \<and> sx_stopping s' = sx_stopping s"
proof -
  have s': "s' = s\<lparr>sx_piPresenceBySocket := map (\<lambda>(c, p). (c, relocated n found p)) (sx_piPresenceBySocket s)\<rparr>"
    using run by (simp add: relocate_presences_def modify_act_def)
  have pres: "presence_of d s' = map_option (relocated n found) (presence_of d s)" for d
    by (simp add: s' presence_of_def map_of_map)
  have sockets: "sockets_of key s' = sockets_of key s" for key by (simp add: s')
  have keys: "map fst (sx_piPresenceBySocket s') = map fst (sx_piPresenceBySocket s)"
    by (simp add: s' case_prod_unfold comp_def)
  have "sockets_agree s'"
    using ok by (auto simp: registries_ok_def sockets_agree_def pres sockets keys) (auto simp: s')
  moreover have "orders_agree s'" using ok by (simp add: registries_ok_def orders_agree_def s')
  moreover have "tracked_only s'" using ok by (simp add: registries_ok_def tracked_only_def pres sockets) (simp add: s')
  ultimately show ?thesis using pres by (simp add: registries_ok_def s')
qed

lemma stop_ok:
  assumes "registries_ok s" "Stop s = (r, s')"
  shows "registries_ok s' \<and> sx_stopping s' \<and> sx_sockets s' = [] \<and> (\<forall>d. presence_of d s' = None)"
proof -
  have s': "registry s' = ([], Map.empty, [], Map.empty, sx_connectionSequence s, sx_lastActivityByTerminal s, True)"
    using assms(2) by (auto simp: Stop_def clearGraceTimers_def clear_timeouts_def bind_act_def modify_act_def registry_def)
  then have "presence_of d s' = None" "sockets_of key s' = []" for d key
    by (simp_all add: registry_def presence_of_def sockets_of_def)
  with s' show ?thesis by (simp add: registries_ok_defs registry_def)
qed

subsection \<open>The invariant of the runs\<close>

definition previous_of :: "register_pc \<Rightarrow> PiPresence option option" where
  "previous_of pc = (case pc of RegLookup previous \<Rightarrow> Some previous | RegIdentity previous _ \<Rightarrow> Some previous
     | RegCommit previous _ \<Rightarrow> Some previous | _ \<Rightarrow> None)"

definition phase_ok :: "conn_phase \<Rightarrow> nat \<Rightarrow> rpc_state \<Rightarrow> bool" where
  "phase_ok phase c s =
     (case phase of
        Unused \<Rightarrow> c \<notin> set (sx_sockets s) \<and> presence_of c s = None
      | Gone \<Rightarrow> c \<notin> set (sx_sockets s)
      | Reading \<Rightarrow> sx_stopping s \<or> c \<in> set (sx_sockets s)
      | Registering _ _ pc \<Rightarrow> (sx_stopping s \<or> c \<in> set (sx_sockets s))
          \<and> (\<forall>previous. previous_of pc = Some previous \<longrightarrow> previous_ok c previous s))"

definition rpc_ok :: "rpc_system \<Rightarrow> bool" where
  "rpc_ok y \<longleftrightarrow> registries_ok (sy_state y) \<and> (\<forall>c. phase_ok (sy_phase y c) c (sy_state y))"

lemma previous_of_simps [simp]:
  "previous_of RegBegin = None" "previous_of (RegLookup previous) = Some previous"
  "previous_of (RegIdentity previous found) = Some previous" "previous_of (RegCommit previous p) = Some previous"
  "previous_of (RegSessionRef p) = None" "previous_of (RegContexts p scopes) = None" "previous_of (RegReply p) = None"
  by (simp_all add: previous_of_def)

lemma rpc_okD: "rpc_ok y \<Longrightarrow> sy_phase y c = phase \<Longrightarrow> registries_ok (sy_state y) \<and> phase_ok phase c (sy_state y)"
  unfolding rpc_ok_def by blast

lemma phase_ok_same_place:
  assumes same: "same_place c s s'" and ok: "phase_ok phase c s"
  shows "phase_ok phase c s'"
proof -
  have keys: "map_option presence_key (presence_of c s') = map_option presence_key (presence_of c s)"
    using same by (simp add: same_place_def)
  then have prev: "previous_ok c previous s \<Longrightarrow> previous_ok c previous s'" for previous
    by (cases "presence_of c s"; cases "presence_of c s'") (auto simp: previous_ok_def)
  from keys have none: "presence_of c s = None \<Longrightarrow> presence_of c s' = None"
    by (cases "presence_of c s'") auto
  have eqs: "c \<in> set (sx_sockets s') \<longleftrightarrow> c \<in> set (sx_sockets s)" "sx_stopping s' = sx_stopping s"
    using same by (simp_all add: same_place_def)
  show ?thesis
  proof (cases phase)
    case (Registering i input pc)
    with ok have "sx_stopping s \<or> c \<in> set (sx_sockets s)"
        "\<And>previous. previous_of pc = Some previous \<Longrightarrow> previous_ok c previous s"
      by (simp_all add: phase_ok_def)
    with Registering eqs prev show ?thesis by (simp add: phase_ok_def)
  next
    case Unused
    with ok none eqs show ?thesis by (simp add: phase_ok_def)
  next
    case Reading
    with ok eqs show ?thesis by (simp add: phase_ok_def)
  next
    case Gone
    with ok eqs show ?thesis by (simp add: phase_ok_def)
  qed
qed

lemma same_place_registry: "registry s' = registry s \<Longrightarrow> same_place c s s'"
  by (simp add: same_place_def registry_parts [of s' s])

lemma same_place_presence:
  "presence_of c s' = presence_of c s \<Longrightarrow> sx_sockets s' = sx_sockets s \<Longrightarrow> sx_stopping s' = sx_stopping s
    \<Longrightarrow> same_place c s s'"
  by (simp add: same_place_def)

text \<open>A section that changes the place of one connection at most.\<close>

lemma rpc_ok_section:
  assumes "rpc_ok y" "registries_ok s" "\<And>d. d \<noteq> c \<Longrightarrow> same_place d (sy_state y) s" "phase_ok phase c s"
  shows "rpc_ok \<lparr>sy_state = s, sy_phase = (sy_phase y)(c := phase)\<rparr>"
  using assms phase_ok_same_place [of _ "sy_state y" s] by (simp add: rpc_ok_def)

lemma rpc_ok_state:
  assumes "rpc_ok y" "registries_ok s" "\<And>d. same_place d (sy_state y) s"
  shows "rpc_ok (y\<lparr>sy_state := s\<rparr>)"
  using assms phase_ok_same_place [of _ "sy_state y" s] by (simp add: rpc_ok_def)

lemma rpc_ok_unmoved: "rpc_ok y \<Longrightarrow> registry s = registry (sy_state y) \<Longrightarrow> rpc_ok (y\<lparr>sy_state := s\<rparr>)"
  using registries_ok_cong [of s "sy_state y"] rpc_ok_state [of y s] same_place_registry [of s "sy_state y"]
  by (auto simp: rpc_ok_def)

text \<open>What a registration leaves behind, whether or not it fails after it entered the registries.\<close>

definition entered :: "nat \<Rightarrow> PiPresence \<Rightarrow> rpc_state \<Rightarrow> rpc_state \<Rightarrow> bool" where
  "entered c p s0 s \<longleftrightarrow> registries_ok s \<and> presence_of c s = Some p \<and> (\<forall>d. d \<noteq> c \<longrightarrow> presence_of d s = presence_of d s0)
     \<and> sx_sockets s = sx_sockets s0 \<and> sx_stopping s = sx_stopping s0"

lemma entered_unmoved:
  assumes "unmoved m"
  shows "moves (keeps (entered c p s0)) m"
proof (rule movesI)
  fix s
  obtain r s' where run: "m s = (r, s')" by (cases "m s")
  have same: "registry s' = registry s" using unmoved_registry [OF assms run] .
  show "keeps (entered c p s0) s (snd (m s))"
    using registries_ok_cong [OF same] by (simp add: run keeps_def entered_def registry_parts [OF same])
qed

lemma entered_activity:
  "moves (keeps (entered c p s0)) (modify_act (\<lambda>s. s\<lparr>sx_lastActivityByTerminal :=
     map_put (presence_key p) t (sx_lastActivityByTerminal s)\<rparr>))"
proof (rule keeping.moves_modify)
  fix s
  have "entered c p s0 s \<Longrightarrow> sockets_of (presence_key p) s \<noteq> []"
    using sockets_agreeD [of s c "presence_key p"] by (auto simp: entered_def registries_ok_def)
  then show "keeps (entered c p s0) s (s\<lparr>sx_lastActivityByTerminal :=
      map_put (presence_key p) t (sx_lastActivityByTerminal s)\<rparr>)"
    using put_activity_ok [of s "presence_key p" t] by (simp add: keeps_def entered_def)
qed

lemma register_presence_entered:
  assumes "registries_ok s" "previous_ok c previous s" "sx_stopping s \<or> c \<in> set (sx_sockets s)"
    and run: "register_presence so c previous p ref s = (r, s')"
  shows "entered c p s s'"
proof -
  obtain r1 s1 where enter: "enter_registry c previous p s = (r1, s1)" by (cases "enter_registry c previous p s")
  then have r1: "r1 = Inr ()" by (auto simp: enter_registry_def modify_act_def)
  from enter_registry_ok [OF assms(1,2) _ enter] assms(3) have "entered c p s s1" by (auto simp: entered_def)
  moreover have "moves (keeps (entered c p s)) (bind_act (store (svc_Status (so_orchestrator so) (presence_scope p))) (\<lambda>st.
     bind_act (if \<not> presenceIsAgy p
         then bind_act (drop_lease (presence_key p)) (\<lambda>_. cancelGraceForTerminal (pp_HerdrSessionName p) (pp_TerminalID p))
         else if is_owner st (pp_TerminalID p) then lease_agy_owner p else return_act ()) (\<lambda>_.
     bind_act server_now (\<lambda>t.
     bind_act (modify_act (\<lambda>s. s\<lparr>sx_lastActivityByTerminal :=
         map_put (presence_key p) t (sx_lastActivityByTerminal s)\<rparr>)) (\<lambda>_.
     bind_act (case previous of None \<Rightarrow> return_act ()
         | Some q \<Rightarrow> if presence_key q \<noteq> presence_key p \<and> \<not> presenceIsAgy q then scheduleDisconnect so q else return_act ()) (\<lambda>_.
     should_register_ref p ref))))))" (is "moves _ ?rest")
    by (intro keeping.moves_bind entered_activity) (intro entered_unmoved moves_rules)+
  moreover have "?rest s1 = (r, s')"
    using run enter r1 by (simp add: register_presence_def)
  ultimately show ?thesis by (auto dest: moves_keepsD)
qed

lemma commit_entered:
  assumes "registries_ok s" "previous_ok c previous s" "sx_stopping s \<or> c \<in> set (sx_sockets s)"
    and run: "register_step so c input (RegCommit previous p) s = (r, s')"
  shows "entered c p s s'"
proof -
  obtain r1 s1 where reg: "register_presence so c previous p (pr_SessionRef input) s = (r1, s1)"
    by (cases "register_presence so c previous p (pr_SessionRef input) s")
  from register_presence_entered [OF assms(1-3) reg] have here: "entered c p s s1" .
  show ?thesis
  proof (cases r1)
    case (Inl e)
    with reg run here show ?thesis by simp
  next
    case (Inr should)
    have "moves (keeps (entered c p s)) (if should then return_act (Inl (RegSessionRef p)) else connection_result so p)"
      by (intro entered_unmoved moves_rules)
    with here Inr reg run show ?thesis by (auto dest: moves_keepsD)
  qed
qed

text \<open>The sections that may move no connection.\<close>

definition placed :: "rpc_state \<Rightarrow> rpc_state \<Rightarrow> bool" where
  "placed s0 s \<longleftrightarrow> registries_ok s \<and> (\<forall>d. same_place d s0 s)"

abbreviation "placing s0 \<equiv> moves (keeps (placed s0))"

lemma placed_step: "placed s0 s \<Longrightarrow> registries_ok s' \<Longrightarrow> (\<And>d. same_place d s s') \<Longrightarrow> placed s0 s'"
  by (simp add: placed_def same_place_def)

lemma placingI:
  assumes "\<And>s r s'. registries_ok s \<Longrightarrow> m s = (r, s') \<Longrightarrow> registries_ok s' \<and> (\<forall>d. same_place d s s')"
  shows "placing s0 m"
proof (rule movesI, unfold keeps_def, intro impI)
  fix s
  assume here: "placed s0 s"
  obtain r s' where run: "m s = (r, s')" by (cases "m s")
  from here have "registries_ok s" by (simp add: placed_def)
  from assms [OF this run] have "placed s0 s'" using placed_step [OF here] by blast
  with run show "placed s0 (snd (m s))" by simp
qed

lemma placed_unmoved: "unmoved m \<Longrightarrow> placing s0 m"
  by (rule placingI) (use unmoved_registry registries_ok_cong same_place_registry in blast)

lemma placed_mark: "placing s0 (markTerminalActivity c)"
  by (rule placingI) (use mark_ok same_place_presence in blast)

lemma placed_relocate: "placing s0 (relocate_presences n found)"
proof (rule placingI)
  fix s r s'
  assume ok: "registries_ok s" and run: "relocate_presences n found s = (r, s')"
  have "same_place d s s'" for d
    using relocate_ok [OF ok run] by (cases "presence_of d s") (auto simp: same_place_def)
  with relocate_ok [OF ok run] show "registries_ok s' \<and> (\<forall>d. same_place d s s')" by blast
qed

lemma phase_ok_placed: "placed s s' \<Longrightarrow> phase_ok phase c s \<Longrightarrow> phase_ok phase c s'"
  unfolding placed_def using phase_ok_same_place by blast

lemma placed_start: "registries_ok s \<Longrightarrow> placed s s"
  by (simp add: placed_def same_place_def)

lemma placing_done: "placing s m \<Longrightarrow> registries_ok s \<Longrightarrow> m s = (r, s') \<Longrightarrow> placed s s'"
  using moves_keepsD [of "placed s" m s r s'] placed_start by simp

lemma placing_request: "placing s0 (handleRequest so c message)"
  unfolding handleRequest_def Let_def
  by (rule keeping.moves_bind [OF placed_mark]) (intro placed_unmoved moves_rules)

lemma placing_reconcile: "placing s0 (ReconcileAgentLocations so n found)"
proof -
  have pass: "unmoved (bind_act (read_act sx_agyPresenceByTerminal) (\<lambda>leases.
      bind_act (collect_frames (reconcile_lease so n found) leases []) (\<lambda>(frames, err).
      if err \<noteq> None then return_act (frames, err)
      else collect_frames (reconcile_owner so n found) owners frames)))" for owners
    by (intro moves_rules)
  show ?thesis
    unfolding ReconcileAgentLocations_def reconcileAgentLocationsLocked_def Let_def
    by (intro keeping.moves_bind keeping.moves_sum placed_unmoved [OF unmoved_send(1)] placed_unmoved [OF unmoved_store(2)]
      placed_relocate placed_unmoved [OF pass] keeping.moves_return)
qed

lemma register_step_ok:
  assumes ok: "registries_ok s" and phase: "phase_ok (Registering i input pc) c s"
    and run: "register_step so c input pc s = (r, s')"
  shows "registries_ok s' \<and> (\<forall>d. d \<noteq> c \<longrightarrow> same_place d s s') \<and> phase_ok Reading c s'
    \<and> (\<forall>pc'. r = Inr (Inl pc') \<longrightarrow> phase_ok (Registering i input pc') c s')"
proof -
  have live: "sx_stopping s \<or> c \<in> set (sx_sockets s)" using phase by (simp add: phase_ok_def)
  have still: "unmoved (register_step so c input pc) \<Longrightarrow> placed s s'"
    using placing_done [of s "register_step so c input pc" r s'] placed_unmoved [of "register_step so c input pc" s] ok run
    by simp
  have reading: "placed s s' \<Longrightarrow> phase_ok Reading c s'"
    using live by (auto simp: placed_def same_place_def phase_ok_def)
  have before: "previous_of pc = Some previous \<Longrightarrow> previous_ok c previous s" for previous
    using phase by (simp add: phase_ok_def)
  have prev: "phase_ok (Registering i input pc') c s'"
    if "placed s s'" "previous_of pc' = None \<or> previous_of pc' = previous_of pc" for pc'
  proof -
    have "phase_ok (Registering i input pc') c s" using live that(2) before by (auto simp: phase_ok_def)
    then show ?thesis by (rule phase_ok_placed [OF that(1)])
  qed
  show ?thesis
  proof (cases pc)
    case RegBegin
    with run have "s' = s" "r = Inr (Inl (RegLookup (presence_of c s)))" by (auto simp: bind_act_def read_act_def return_act_def)
    with ok live show ?thesis by (simp add: same_place_def phase_ok_def previous_ok_def)
  next
    case (RegLookup previous)
    then have "placed s s'" using still by (simp add: moves_rules)
    moreover have "\<exists>lookup. pc' = RegIdentity previous lookup" if "r = Inr (Inl pc')" for pc'
      using run RegLookup that by (auto elim!: bind_act_InrE)
    ultimately show ?thesis using reading prev RegLookup by (auto simp: placed_def)
  next
    case (RegIdentity previous found)
    then have "placed s s'" using still by (simp add: moves_rules)
    moreover have "\<exists>p. pc' = RegCommit previous p" if "r = Inr (Inl pc')" for pc'
      using run RegIdentity that by (auto elim!: bind_act_InrE)
    ultimately show ?thesis using reading prev RegIdentity by (auto simp: placed_def)
  next
    case (RegCommit previous p)
    from commit_entered [OF ok before live] run RegCommit have here: "entered c p s s'" by simp
    moreover have "\<exists>q. pc' = RegSessionRef q" if "r = Inr (Inl pc')" for pc'
      using run RegCommit that by (auto simp: connection_result_def elim!: bind_act_InrE split: if_splits)
    ultimately show ?thesis using live by (auto simp: entered_def same_place_def phase_ok_def)
  next
    case (RegSessionRef p)
    then have "placed s s'" using still by (simp add: moves_rules)
    moreover have "\<exists>scopes. pc' = RegContexts p scopes" if "r = Inr (Inl pc')" for pc'
      using run RegSessionRef that by (auto elim!: bind_act_InrE split: prod.splits)
    ultimately show ?thesis using reading prev by (auto simp: placed_def)
  next
    case (RegContexts p scopes)
    then have "placed s s'" using still by (simp add: moves_rules)
    moreover have "pc' = RegReply p" if "r = Inr (Inl pc')" for pc'
      using run RegContexts that by (auto elim!: bind_act_InrE)
    ultimately show ?thesis using reading prev by (auto simp: placed_def)
  next
    case (RegReply p)
    then have "placed s s'" using still by (simp add: moves_rules)
    moreover have "r \<noteq> Inr (Inl pc')" for pc'
      using run RegReply by (auto simp: connection_result_def elim!: bind_act_InrE)
    ultimately show ?thesis using reading by (simp add: placed_def)
  qed
qed

lemma close_ok:
  assumes ok: "registries_ok s"
    and run: "bind_act (destroy_connections [c]) (\<lambda>_. handleSocketClose so c) s = (r, s')"
  shows "registries_ok s' \<and> c \<notin> set (sx_sockets s') \<and> (\<forall>d. d \<noteq> c \<longrightarrow> same_place d s s')"
proof -
  define s1 where "s1 = s\<lparr>sx_destroyed := sx_destroyed s \<union> {c}\<rparr>"
  have reg: "registry s1 = registry s" by (simp add: s1_def registry_def)
  have ok1: "registries_ok s1" using ok registries_ok_cong [OF reg] by simp
  note same1 = same_place_registry [OF reg]
  have close: "handleSocketClose so c s1 = (r, s')"
    using run by (simp add: bind_act_def destroy_connections_def modify_act_def s1_def)
  show ?thesis
  proof (cases "c \<in> set (sx_sockets s1)")
    case False
    with close have "s' = s1" by (simp add: handleSocketClose_def bind_act_def read_act_def return_act_def)
    with False ok1 same1 show ?thesis by simp
  next
    case True
    define s2 where "s2 = (case presence_of c s1 of None \<Rightarrow> forget_connection c s1
      | Some p \<Rightarrow> unregisterTerminalSocket c p (forget_connection c s1))"
    have after: "registries_ok s2 \<and> c \<notin> set (sx_sockets s2) \<and> (\<forall>d. d \<noteq> c \<longrightarrow> same_place d s1 s2)"
      using forget_ok [OF ok1 refl s2_def] by (auto simp: same_place_def)
    have "\<exists>m r'. unmoved (m :: unit rpc) \<and> m s2 = (r', s')"
    proof (cases "presence_of c s1")
      case None
      with close True have "s' = s2"
        by (simp add: handleSocketClose_def bind_act_def read_act_def return_act_def modify_act_def s2_def)
      then show ?thesis by (intro exI [of _ "return_act ()"] exI) (simp add: return_act_def framing.moves_return)
    next
      case (Some p)
      with close True have "(if sx_stopping s1 then return_act ()
          else bind_act (try_rpc (scheduleDisconnect so p)) (\<lambda>_. return_act ())) s2 = (r, s')"
        by (simp add: handleSocketClose_def bind_act_def read_act_def modify_act_def s2_def)
      moreover have "unmoved (if sx_stopping s1 then return_act ()
          else bind_act (try_rpc (scheduleDisconnect so p)) (\<lambda>_. return_act ()))" by (intro moves_rules)
      ultimately show ?thesis by blast
    qed
    then obtain m :: "unit rpc" and r' where "unmoved m" "m s2 = (r', s')" by blast
    from unmoved_registry [OF this] have reg2: "registry s' = registry s2" .
    show ?thesis
      using after registries_ok_cong [OF reg2] same_place_registry [OF reg2] same1
      by (simp add: registry_parts [OF reg2]) (simp add: same_place_def)
  qed
qed

lemma rpc_step_ok:
  assumes "rpc_step so y y'" and ok: "rpc_ok y"
  shows "rpc_ok y'"
  using assms(1)
proof (cases rule: rpc_step.cases)
  case (accepted c s)
  have fresh: "c \<notin> set (sx_sockets (sy_state y))" "registries_ok (sy_state y)"
    using rpc_okD [OF ok accepted(2)] by (auto simp: phase_ok_def)
  from accept_ok [OF fresh(2,1) accepted(3)] show ?thesis
    unfolding accepted(1) by (intro rpc_ok_section [OF ok]) (auto simp: same_place_def phase_ok_def)
next
  case (answered c message s)
  have "registries_ok (sy_state y)" using ok by (simp add: rpc_ok_def)
  from placing_done [OF placing_request this answered(3)] answered(1) show ?thesis
    using rpc_ok_state [OF ok] by (simp add: placed_def)
next
  case (registers c message i input s)
  have reg: "registries_ok (sy_state y)" "phase_ok Reading c (sy_state y)" using rpc_okD [OF ok registers(2)] by auto
  from placing_done [OF placing_request reg(1) registers(3)] have here: "placed (sy_state y) s" .
  then have "phase_ok Reading c s" using reg(2) by (rule phase_ok_placed)
  then have "phase_ok (Registering i input RegBegin) c s" by (simp add: phase_ok_def)
  with here registers(1) show ?thesis using rpc_ok_section [OF ok] by (simp add: placed_def)
next
  case (register_section c i input pc pc' s)
  have reg: "registries_ok (sy_state y)" "phase_ok (Registering i input pc) c (sy_state y)"
    using rpc_okD [OF ok register_section(2)] by auto
  from register_step_ok [OF reg register_section(3)] register_section(1) show ?thesis
    using rpc_ok_section [OF ok] by simp
next
  case (register_done c i input pc result s s')
  have reg: "registries_ok (sy_state y)" "phase_ok (Registering i input pc) c (sy_state y)"
    using rpc_okD [OF ok register_done(2)] by auto
  from register_step_ok [OF reg register_done(3)] have here: "registries_ok s" "phase_ok Reading c s"
    "\<And>d. d \<noteq> c \<Longrightarrow> same_place d (sy_state y) s" by auto
  from placing_done [OF placed_unmoved [OF unmoved_send(2)] here(1) register_done(4)] have sent: "placed s s'" .
  have "phase_ok Reading c s'" using sent here(2) by (rule phase_ok_placed)
  with sent here(3) register_done(1) show ?thesis
    using rpc_ok_section [OF ok] by (simp add: placed_def same_place_def)
next
  case (register_failed c i input pc e s s')
  have reg: "registries_ok (sy_state y)" "phase_ok (Registering i input pc) c (sy_state y)"
    using rpc_okD [OF ok register_failed(2)] by auto
  from register_step_ok [OF reg register_failed(3)] have here: "registries_ok s" "phase_ok Reading c s"
    "\<And>d. d \<noteq> c \<Longrightarrow> same_place d (sy_state y) s" by auto
  from placing_done [OF placed_unmoved [OF unmoved_send(2)] here(1) register_failed(5)] have sent: "placed s s'" .
  have "phase_ok Reading c s'" using sent here(2) by (rule phase_ok_placed)
  with sent here(3) register_failed(1) show ?thesis
    using rpc_ok_section [OF ok] by (simp add: placed_def same_place_def)
next
  case (connection_closed c s)
  have "registries_ok (sy_state y)" using ok by (simp add: rpc_ok_def)
  from close_ok [OF this connection_closed(3)] connection_closed(1) show ?thesis
    using rpc_ok_section [OF ok, of s c Gone] by (simp add: phase_ok_def)
next
  case (heartbeat s)
  with unmoved_registry [OF unmoved_kind(4)] show ?thesis using rpc_ok_unmoved [OF ok] by simp
next
  case (event e s)
  with unmoved_registry [OF unmoved_events(2)] show ?thesis using rpc_ok_unmoved [OF ok] by simp
next
  case (context_changed scope s)
  with unmoved_registry [OF unmoved_contexts(2)] show ?thesis using rpc_ok_unmoved [OF ok] by simp
next
  case (scanned session found r s)
  have "registries_ok (sy_state y)" using ok by (simp add: rpc_ok_def)
  from placing_done [OF placing_reconcile this scanned(2)] scanned(1) show ?thesis
    using rpc_ok_state [OF ok] by (simp add: placed_def)
next
  case (asked session terminalID live s)
  with unmoved_registry [OF unmoved_kind(3)] show ?thesis using rpc_ok_unmoved [OF ok] by simp
next
  case (timer_expires handle timer)
  then show ?thesis using rpc_ok_unmoved [OF ok] by (simp add: registry_def)
next
  case (timer_runs handle timer s)
  with unmoved_registry [OF unmoved_timer timer_runs(3)] show ?thesis
    using rpc_ok_unmoved [OF ok, of s] by (simp add: registry_def)
next
  case (stopped s)
  have "registries_ok (sy_state y)" using ok by (simp add: rpc_ok_def)
  from stop_ok [OF this stopped(2)] stopped(1) show ?thesis
    by (auto simp: rpc_ok_def phase_ok_def previous_ok_def split: conn_phase.split)
next
  case (write_failed c)
  then show ?thesis using rpc_ok_unmoved [OF ok] by (simp add: registry_def)
next
  case (others_run ix turns)
  then show ?thesis using rpc_ok_unmoved [OF ok] by (simp add: registry_def)
qed

lemma start_ok:
  assumes "Start so (NewObservabilityRpcServer ix turns) = (Inr (), s)"
  shows "rpc_ok \<lparr>sy_state = s, sy_phase = (\<lambda>_. Unused)\<rparr>"
proof -
  define s1 where "s1 = (NewObservabilityRpcServer ix turns)\<lparr>sx_stopping := False, sx_heartbeatTimer := True\<rparr>"
  have "armStartupGrace so s1 = (Inr (), s)"
    using assms by (simp add: Start_def bind_act_def modify_act_def s1_def)
  from unmoved_registry [OF unmoved_arm(2) this] have reg: "registry s = registry s1" .
  have empty: "sx_piPresenceBySocket s1 = []" "sx_socketsByTerminal s1 = Map.empty" "sx_sockets s1 = []"
    "sx_connectionOrderBySocket s1 = Map.empty" "sx_lastActivityByTerminal s1 = []"
    by (simp_all add: s1_def NewObservabilityRpcServer_def)
  then have "registries_ok s1" by (simp add: registries_ok_defs presence_of_def sockets_of_def)
  then have "registries_ok s" using registries_ok_cong [OF reg] by simp
  moreover have "sx_sockets s = []" "presence_of c s = None" for c
    using empty by (simp_all add: registry_parts [OF reg]) (simp add: presence_of_def)
  ultimately show ?thesis by (simp add: rpc_ok_def phase_ok_def)
qed

lemma rpc_run_ok: "rpc_run so y \<Longrightarrow> rpc_ok y"
  by (induction rule: rpc_run.induct) (auto intro: start_ok rpc_step_ok)

end
