(* ===== verification/RpcSamples.thy ===== *)
theory RpcSamples
  imports RpcContract IndexLaws
begin

text \<open>
  A running observability server the witnesses evaluate on: two agents in one workspace, the scope of
  the workspace owned by the terminal \<open>o\<close> of the second, and the connections of both terminals.
\<close>

definition owner_agent :: agentRow where
  "owner_agent = sample_agent\<lparr>g_id := ''ao'', g_paneID := ''po'', g_terminalID := Some ''o''\<rparr>"

definition demo_index :: index_state where
  "demo_index = sample_index ((sample_world [])\<lparr>w_tables := (sample_tables [])\<lparr>agents := [sample_agent, owner_agent]\<rparr>\<rparr>)"

definition ownerless_index :: index_state where
  "ownerless_index = demo_index\<lparr>x_world := (x_world demo_index)\<lparr>w_tables :=
     (w_tables (x_world demo_index))\<lparr>agent_orchestrator_scopes := []\<rparr>\<rparr>\<rparr>"

text \<open>Herdr answers nothing, so the panes are looked up in the index alone.\<close>

definition demo_server :: ObservabilityRpcServer where
  "demo_server = with_durations
     \<lparr>so_orchestrator = herdsman_service, so_index = idle_service, so_disconnectGraceMs = 0,
      so_startupReconnectMs = 0, so_heartbeatTimeoutMs = 0, so_peerCred = (\<lambda>_. None),
      so_procFS = \<lparr>px_status = (\<lambda>_. None), px_cwd = (\<lambda>_. None), px_evalSymlinks = (\<lambda>_. None)\<rparr>,
      so_readHistory = (\<lambda>_ _ _. (None, [])), so_getPane = (\<lambda>_ _ _. Inl ErrDriver),
      so_jsonStringify = (\<lambda>_. Inr ''null''), so_int64 = (\<lambda>n. Inr \<lfloor>n\<rfloor>)\<rparr>"

definition demo_message :: "string \<Rightarrow> jval" where
  "demo_message pane = JObj [(''id'', JStr ''1''), (''method'', JStr ''agent.orchestrator.register''),
     (''params'', JObj [(''herdrSocketPath'', JStr ''k''), (''paneId'', JStr pane),
       (''sessionRef'', JObj [(''agent'', JStr ''pi''), (''kind'', JStr ''path''), (''source'', JStr ''h''), (''value'', JStr ''v'')]),
       (''subscriberId'', JStr ''i''), (''subscriberKind'', JStr ''pi''), (''workspaceId'', JStr ''ws'')])]"

definition demo_registration :: "string \<Rightarrow> PiPresenceRegistration" where
  "demo_registration pane = \<lparr>pr_HerdrSocketPath = ''k'', pr_PaneID = pane,
     pr_SessionRef = \<lparr>sr_Agent = ''pi'', sr_Kind = SessionRefPath, sr_Source = ''h'', sr_Value = ''v''\<rparr>,
     pr_SubscriberID = ''i'', pr_SubscriberKind = Some SubscriberPi, pr_WorkspaceID = ''ws''\<rparr>"

definition demo_presence :: "string \<Rightarrow> string \<Rightarrow> PiPresence" where
  "demo_presence pane terminal = \<lparr>pp_ConnectedAt = 10, pp_HerdrSessionName = ''s'', pp_PaneID = pane,
     pp_SubscriberID = ''i'', pp_SubscriberKind = Some SubscriberPi, pp_TerminalID = terminal, pp_WorkspaceID = ''ws''\<rparr>"

lemma demo_simps [simp]:
  "so_orchestrator demo_server = herdsman_service" "so_getPane demo_server path pane s = Inl ErrDriver"
  "w_faults (x_world demo_index) = []" "w_open (x_world demo_index) = None" "w_wall (x_world demo_index) = 10"
  "w_tables (x_world demo_index) = (sample_tables [])\<lparr>agents := [sample_agent, owner_agent]\<rparr>"
  by (simp_all add: demo_server_def with_durations_def demo_index_def sample_index_def sample_world_def)

subsection \<open>The server starts\<close>

definition demo_start :: rpc_state where
  "demo_start = (NewObservabilityRpcServer demo_index (NewTurnCompletionRegistry None None))\<lparr>sx_heartbeatTimer := True\<rparr>"

lemma demo_started: "rpc_run demo_server \<lparr>sy_state = demo_start, sy_phase = (\<lambda>_. Unused)\<rparr>"
proof -
  let ?s = "(NewObservabilityRpcServer ownerless_index (NewTurnCompletionRegistry None None))\<lparr>sx_heartbeatTimer := True\<rparr>"
  have "Start demo_server (NewObservabilityRpcServer ownerless_index (NewTurnCompletionRegistry None None)) = (Inr (), ?s)"
    by (simp add: Start_def armStartupGrace_def svc_PersistedOwners_def herdsman_service_def ListOwned_def scanScopes_def
      try_store_def on_index_def try_err_def db_def catch_act_def act_defs query_sql_ok ownerless_index_def
      NewObservabilityRpcServer_def)
  from rpc_run.stepped [OF rpc_run.started [OF this] others_run [where ix = demo_index and turns = "NewTurnCompletionRegistry None None"]]
  show ?thesis by (simp add: demo_start_def NewObservabilityRpcServer_def)
qed

subsection \<open>A terminal registers\<close>

lemma demo_request:
  assumes "presence_of c s = None" "pane \<noteq> []"
  shows "handleRequest demo_server c (demo_message pane) s = (Inr (Some (Some (JStr ''1''), demo_registration pane)), s)"
proof -
  have "dispatch demo_server c (rpcRequestOf (demo_message pane)) s = (Inr (Inl (demo_registration pane)), s)"
    using assms(2)
    by (simp add: dispatch_def rpcRequestOf_def demo_message_def validated_def schema_defs return_act_def
      registration_params_def session_ref_params_def text_field_def subscriber_kind_def demo_registration_def)
  moreover have "qr_id (rpcRequestOf (demo_message pane)) = Some (JStr ''1'')"
    by (simp add: rpcRequestOf_def demo_message_def)
  ultimately show ?thesis
    using assms(1) by (simp add: handleRequest_def markTerminalActivity_def Let_def try_rpc_def catch_act_def act_defs)
qed

lemma demo_index_same [simp]: "s\<lparr>sx_index := sx_index s\<rparr> = s" "ix\<lparr>x_world := x_world ix\<rparr> = ix"
  for s :: rpc_state and ix :: index_state
  by simp_all

lemma demo_store:
  assumes "m (x_world demo_index) = (r, x_world demo_index)" "sx_index s = demo_index"
  shows "store m s = (r, s)"
  using assms by (simp add: store_def on_index_def db_def)

definition demo_seat :: "string \<Rightarrow> string \<Rightarrow> bool" where
  "demo_seat pane terminal \<longleftrightarrow> (pane, terminal) = (''p'', ''w'') \<or> (pane, terminal) = (''po'', ''o'')"

lemma demo_find:
  assumes "demo_seat pane terminal"
  shows "\<exists>a. FindByPane ''s'' None pane (x_world demo_index) = (Inr (Some a), x_world demo_index) \<and> a_WorkspaceID a = ''ws''
    \<and> a_TerminalID a = Some terminal \<and> a_PaneID a = pane"
  using assms
  by (auto simp: demo_seat_def FindByPane_def one_agent_def agent_record_def query_sql_ok bind_act_def read_act_def
    return_act_def agent_in_pane_def agentGenerationClause_def owner_agent_def sample_agent_def mapAgent_def Let_def)

lemma demo_lookup:
  assumes s: "sx_index s = demo_index" and seat: "demo_seat pane terminal"
  shows "\<exists>a. lookup_presence (demo_registration pane) s = (Inr \<lparr>lk_SocketPath = ''k'', lk_SessionName = ''s'',
    lk_Indexed = Some a, lk_Presence = Some (demo_presence pane terminal)\<rparr>, s)"
proof -
  from demo_find [OF seat] obtain a where a: "FindByPane ''s'' None pane (x_world demo_index) = (Inr (Some a), x_world demo_index)"
    "a_WorkspaceID a = ''ws''" "a_TerminalID a = Some terminal" "a_PaneID a = pane" by blast
  have finds: "store (FindRunningBySocketPath ''k'') s = (Inr (Some \<lparr>hs_LastScannedAt = Some 1, hs_Name = ''s'',
      hs_Running = True, hs_SessionDir = ''d'', hs_SocketPath = ''k'', hs_UpdatedAt = 1\<rparr>), s)"
    "store (FindByPane ''s'' None pane) s = (Inr (Some a), s)"
    by (rule demo_store [OF _ s], simp add: FindRunningBySocketPath_def query_sql_ok sample_tables_def scanHerdrSession_def)
      (rule demo_store [OF _ s], rule a(1))
  have "terminal \<noteq> []" using seat by (auto simp: demo_seat_def)
  with finds a s show ?thesis
    by (simp add: lookup_presence_def demo_registration_def bind_act_def return_act_def indexed_presence_def
      nonempty_text_def demo_presence_def)
qed

lemma demo_finish:
  assumes "lk_Presence found = Some p"
  shows "finish_presence demo_server c input found s = (Inr p, s)"
  using assms by (simp add: finish_presence_def bind_act_def read_act_def return_act_def ResolveHerdrPaneIdentity_def
    bound_presence_def assertConnectorBoundToPane_def)

lemma demo_status:
  "svc_Status herdsman_service \<lparr>s_HerdrSessionName = ''s'', s_WorkspaceID = ''ws''\<rparr> (x_world demo_index)
     = (Inr (Some \<lparr>os_Scope = \<lparr>s_HerdrSessionName = ''s'', s_WorkspaceID = ''ws''\<rparr>, os_AckedEventID = 0,
         os_Owner = Some \<lparr>o_PaneID = ''po'', o_TerminalID = ''o''\<rparr>, os_UpdatedAt = 1\<rparr>), x_world demo_index)"
  by (simp add: svc_Status_def herdsman_service_def scope_Get_def getRow_def query_sql_ok bind_act_def return_act_def
    of_sum_def mapScope_def scope_is_def sample_tables_def sample_scope_def)

lemma demo_scope [simp]: "presence_scope (demo_presence pane terminal) = \<lparr>s_HerdrSessionName = ''s'', s_WorkspaceID = ''ws''\<rparr>"
  by (simp add: presence_scope_def demo_presence_def)

lemma demo_commit:
  assumes s: "sx_index s = demo_index" and fresh: "presence_of c s = None"
  shows "\<exists>s'. register_step demo_server c (demo_registration pane) (RegCommit None (demo_presence pane terminal)) s
      = (Inr (Inl (RegSessionRef (demo_presence pane terminal))), s') \<and> sx_index s' = demo_index \<and> sx_destroyed s' = sx_destroyed s
    \<and> presence_of c s' = Some (demo_presence pane terminal) \<and> (\<forall>d. d \<noteq> c \<longrightarrow> presence_of d s' = presence_of d s)"
proof -
  let ?p = "demo_presence pane terminal"
  define s1 where "s1 = registerTerminalSocket c ?p (s\<lparr>sx_piPresenceBySocket := map_put c ?p (sx_piPresenceBySocket s)\<rparr>)"
  have s1: "sx_index s1 = demo_index" "presence_of d s1 = (if d = c then Some ?p else presence_of d s)"
    "sx_destroyed s1 = sx_destroyed s" for d
    using s by (simp_all add: s1_def) (simp_all add: registerTerminalSocket_def)
  have enter: "enter_registry c None ?p s = (Inr (), s1)" by (simp add: enter_registry_def modify_act_def s1_def Let_def)
  have status: "store (svc_Status herdsman_service (presence_scope ?p)) s1 = (Inr (Some \<lparr>os_Scope = \<lparr>s_HerdrSessionName = ''s'',
      s_WorkspaceID = ''ws''\<rparr>, os_AckedEventID = 0, os_Owner = Some \<lparr>o_PaneID = ''po'', o_TerminalID = ''o''\<rparr>, os_UpdatedAt = 1\<rparr>), s1)"
    by (rule demo_store [OF _ s1(1)]) (simp add: demo_status)
  have "\<not> presenceIsAgy ?p" by (simp add: presenceIsAgy_def demo_presence_def)
  with enter status have run: "\<exists>s'. register_step demo_server c (demo_registration pane) (RegCommit None ?p) s = (Inr (Inl (RegSessionRef ?p)), s')
      \<and> sx_index s' = sx_index s1 \<and> sx_destroyed s' = sx_destroyed s1 \<and> (\<forall>d. presence_of d s' = presence_of d s1)"
    by (simp add: register_presence_def drop_lease_def cancelGraceForTerminal_def clear_timeouts_def should_register_ref_def
      bind_act_def modify_act_def return_act_def Let_def presence_of_def)
  then show ?thesis using s1 by auto
qed

text \<open>From accepting the connection to the entry in the registries.\<close>

lemma demo_joins:
  assumes run: "rpc_run demo_server y" and y: "sy_phase y c = Unused" "presence_of c (sy_state y) = None"
    and s: "sx_index (sy_state y) = demo_index" and seat: "demo_seat pane terminal"
  shows "\<exists>y'. rpc_run demo_server y' \<and> sx_index (sy_state y') = demo_index
    \<and> sx_destroyed (sy_state y') = sx_destroyed (sy_state y) \<and> presence_of c (sy_state y') = Some (demo_presence pane terminal)
    \<and> (\<forall>d. d \<noteq> c \<longrightarrow> presence_of d (sy_state y') = presence_of d (sy_state y) \<and> sy_phase y' d = sy_phase y d)"
proof -
  obtain s1 where accept: "accept_connection c (sy_state y) = (Inr (), s1)"
    and s1: "sx_index s1 = demo_index" "\<And>d. presence_of d s1 = presence_of d (sy_state y)"
      "sx_destroyed s1 = sx_destroyed (sy_state y)"
    using s by (auto simp: accept_connection_def modify_act_def presence_of_def)
  let ?upto = "\<lambda>s pc. \<lparr>sy_state = s, sy_phase = (sy_phase y)(c := Registering (Some (JStr ''1'')) (demo_registration pane) pc)\<rparr>"
  have pane: "pane \<noteq> []" using seat by (auto simp: demo_seat_def)
  have fresh: "presence_of c s1 = None" using s1(2) y(2) by simp
  obtain a where look: "lookup_presence (demo_registration pane) s1 = (Inr \<lparr>lk_SocketPath = ''k'', lk_SessionName = ''s'',
    lk_Indexed = Some a, lk_Presence = Some (demo_presence pane terminal)\<rparr>, s1)" (is "_ = (Inr ?found, s1)")
    using demo_lookup [OF s1(1) seat] by blast
  from demo_commit [OF s1(1) fresh, of pane terminal] obtain s2 where
    commit: "register_step demo_server c (demo_registration pane) (RegCommit None (demo_presence pane terminal)) s1
      = (Inr (Inl (RegSessionRef (demo_presence pane terminal))), s2)"
    and s2: "sx_index s2 = demo_index" "sx_destroyed s2 = sx_destroyed s1" "presence_of c s2 = Some (demo_presence pane terminal)"
      "\<And>d. d \<noteq> c \<Longrightarrow> presence_of d s2 = presence_of d s1" by blast
  have "rpc_run demo_server (?upto s1 RegBegin)"
    using rpc_run.stepped [OF rpc_run.stepped [OF run accepted [OF y(1) accept]]
      registers [where c = c, OF _ demo_request [OF _ pane]]] fresh by simp
  from rpc_run.stepped [OF this register_section [where c = c and pc = RegBegin and pc' = "RegLookup None" and s = s1]] fresh
  have "rpc_run demo_server (?upto s1 (RegLookup None))" by (simp add: bind_act_def read_act_def return_act_def)
  from rpc_run.stepped [OF this register_section [where c = c and pc = "RegLookup None" and pc' = "RegIdentity None ?found" and s = s1]] look
  have "rpc_run demo_server (?upto s1 (RegIdentity None ?found))" by (simp add: bind_act_def return_act_def)
  from rpc_run.stepped [OF this register_section [where c = c and pc = "RegIdentity None ?found"
      and pc' = "RegCommit None (demo_presence pane terminal)" and s = s1]]
  have "rpc_run demo_server (?upto s1 (RegCommit None (demo_presence pane terminal)))"
    by (simp add: demo_finish bind_act_def return_act_def)
  from rpc_run.stepped [OF this register_section [where c = c and pc = "RegCommit None (demo_presence pane terminal)"
      and pc' = "RegSessionRef (demo_presence pane terminal)" and s = s2]] commit
  have "rpc_run demo_server (?upto s2 (RegSessionRef (demo_presence pane terminal)))" by simp
  with s2 s1(2,3) show ?thesis by (intro exI [of _ "?upto s2 (RegSessionRef (demo_presence pane terminal))"]) simp
qed

text \<open>Both terminals are connected: \<open>o\<close>, which owns the workspace, with connection 0, and \<open>w\<close> with 1.\<close>

lemma demo_both:
  "\<exists>y. rpc_run demo_server y \<and> sx_index (sy_state y) = demo_index \<and> sx_destroyed (sy_state y) = {}
     \<and> presence_of 0 (sy_state y) = Some (demo_presence ''po'' ''o'')
     \<and> presence_of 1 (sy_state y) = Some (demo_presence ''p'' ''w'')"
proof -
  have "presence_of c demo_start = None" for c
    by (simp add: demo_start_def NewObservabilityRpcServer_def presence_of_def)
  moreover have "sx_index demo_start = demo_index" "sx_destroyed demo_start = {}" by (simp_all add: demo_start_def NewObservabilityRpcServer_def)
  ultimately obtain y where y: "rpc_run demo_server y" "sx_index (sy_state y) = demo_index" "sx_destroyed (sy_state y) = {}"
    "presence_of 0 (sy_state y) = Some (demo_presence ''po'' ''o'')" "presence_of 1 (sy_state y) = None" "sy_phase y 1 = Unused"
    using demo_joins [OF demo_started, of 0 "''po''" "''o''"] by (auto simp: demo_seat_def)
  from demo_joins [OF y(1,6,5,2), of "''p''" "''w''"] y(3,4) show ?thesis by (auto simp: demo_seat_def)
qed

end
