(* ===== verification/RpcOwnership.thy ===== *)
theory RpcOwnership
  imports RpcSamples OrchestratorLaws
begin

text \<open>
  Ownership of a workspace under the methods of the server: a connected owner keeps it, whatever another
  terminal asks for. The proof follows the committed tables through a whole request.
\<close>

named_theorems kept_rules \<open>actions that leave a connected owner its workspace\<close>

subsection \<open>A discipline for one owner\<close>

definition owner_kept :: "AgentScope \<Rightarrow> string \<Rightarrow> tables \<Rightarrow> tables \<Rightarrow> bool" where
  "owner_kept scope terminal t t' \<longleftrightarrow> (owned_by t scope terminal \<longrightarrow> scope_view t' scope = scope_view t scope)"

interpretation own: table_discipline "owner_kept scope terminal"
  by unfold_locales (auto simp: owner_kept_def owned_by_def)

abbreviation "keeping_owner scope terminal \<equiv> moves (durable (owner_kept scope terminal))"

lemma owner_kept_scopes: "agent_orchestrator_scopes t' = agent_orchestrator_scopes t \<Longrightarrow> owner_kept scope terminal t t'"
  by (simp add: owner_kept_def scope_view_def)

lemma keeping_of_scopes:
  "moves (inside (\<lambda>t t'. agent_orchestrator_scopes t' = agent_orchestrator_scopes t)) m
    \<Longrightarrow> moves (inside (owner_kept scope terminal)) m"
  by (auto simp: moves_def inside_def intro: owner_kept_scopes)

lemma keeping_of_quiet: "quiet_op m \<Longrightarrow> keeping_owner scope terminal m"
  by (rule own.durable_of_inside) (auto simp: moves_def inside_def intro!: owner_kept_scopes dest: quietD(3))

lemmas own_binds = own.dur.moves_bind own.dur.moves_option own.dur.moves_if own.dur.moves_let own.dur.moves_return

text \<open>A transaction that succeeds starts from the committed tables; one that fails leaves them.\<close>

lemma keeping_tx:
  assumes any: "moves (inside Q) fn"
    and ok: "\<And>v a v'. fn v = (Inr a, v') \<Longrightarrow> owner_kept scope terminal (w_tables v) (w_tables v')"
  shows "keeping_owner scope terminal (RunSqliteTransaction fn)"
proof (rule movesI)
  fix w
  obtain r w' where run: "RunSqliteTransaction fn w = (r, w')" by (cases "RunSqliteTransaction fn w")
  show "durable (owner_kept scope terminal) w (snd (RunSqliteTransaction fn w))"
  proof (cases r)
    case (Inl e)
    with run tx_error_committed [OF any, of w e w'] show ?thesis by (simp add: durable_def own.refl_Q)
  next
    case (Inr a)
    with run have "RunSqliteTransaction fn w = (Inr a, w')" by simp
    then obtain w2 where "w_open w = None" "fn ((spend_fault w)\<lparr>w_open := Some (w_tables w)\<rparr>) = (Inr a, w2)"
      "w' = (spend_fault w2)\<lparr>w_open := None\<rparr>" by (rule tx_InrE)
    with ok run show ?thesis by (force simp: durable_def committed_def)
  qed
qed

text \<open>A claim of another terminal that knows the owner to be connected, or a claim elsewhere.\<close>

lemma keeping_Claim:
  assumes "ci_TerminalID input \<noteq> terminal" "ci_Scope input = scope \<Longrightarrow> ci_OwnerConnected input = Some True"
  shows "keeping_owner scope terminal (Claim input)"
  unfolding Claim_def
proof (rule keeping_tx [OF evt_scope_claim])
  fix v a v'
  assume "scope_claim input False v = (Inr a, v')"
  from scope_claim_InrD [OF this] assms show "owner_kept scope terminal (w_tables v) (w_tables v')"
    by (auto simp: owner_kept_def owned_by_def)
qed

lemma keeping_ReleaseIfOwner:
  assumes "ri_TerminalID input \<noteq> terminal"
  shows "keeping_owner scope terminal (ReleaseIfOwner input)"
  unfolding ReleaseIfOwner_def
proof (rule keeping_tx)
  show "moves (inside scope_moves) (release_owned (ri_Scope input)
      (\<lambda>r. c_ownerTerminalID r = Some (ri_TerminalID input)) ''Orchestrator scope disappeared during release'')"
    by (rule moves_release_owned)
next
  fix v a v'
  assume "release_owned (ri_Scope input) (\<lambda>r. c_ownerTerminalID r = Some (ri_TerminalID input))
    ''Orchestrator scope disappeared during release'' v = (Inr a, v')"
  from release_owned_InrD [OF this] assms show "owner_kept scope terminal (w_tables v) (w_tables v')"
    by (cases "rr_Changed a")
      (auto simp: owner_kept_def owned_by_def row_view_def split: option.splits if_splits)
qed

lemma scs_reserve:
  "moves (inside (\<lambda>t t'. agent_orchestrator_scopes t' = agent_orchestrator_scopes t)) (reservePendingCore terminalID limit ids)"
  unfolding reservePendingCore_def reserve_row_def get_event_def
  by (intro moves_rules scs.moves_change scs_logical_now) (simp add: update_events_def)

lemma keeping_Pending: "keeping_owner scope terminal (svc_Pending herdsman_service input)"
proof -
  have "keeping_owner scope terminal (es_ReclaimDelivered (sv_agentEvents herdsman_service) timeout)"
    "keeping_owner scope terminal (es_ReservePending (sv_agentEvents herdsman_service) t limit ids)" for timeout t limit ids
    by (simp_all add: herdsman_service_def ReclaimDelivered_def ReservePending_def own.durable_tx
      keeping_of_scopes [OF scs_reclaim] keeping_of_scopes [OF scs_reserve])
  then show ?thesis
    unfolding svc_Pending_def Let_def
    by (intro own_binds)
      (auto intro!: keeping_of_quiet qui.ins.moves_collect herd.Get_quiet herd.aList_quiet herd.pending_loop_quiet)
qed

text \<open>The same on the state of the server.\<close>

definition rpc_kept :: "AgentScope \<Rightarrow> string \<Rightarrow> rpc_state \<Rightarrow> rpc_state \<Rightarrow> bool" where
  "rpc_kept scope terminal s s' \<longleftrightarrow> x_durable (owner_kept scope terminal) (sx_index s) (sx_index s')"

interpretation rown: state_preorder "rpc_kept scope terminal"
proof
  show "rpc_kept scope terminal s s" for s by (simp add: rpc_kept_def x_durable_def own.dur.refl_R)
  show "rpc_kept scope terminal s u" if "rpc_kept scope terminal s t" "rpc_kept scope terminal t u" for s t u
    using that unfolding rpc_kept_def x_durable_def by (rule own.dur.trans_R)
qed

abbreviation "rpc_keeping scope terminal \<equiv> moves (rpc_kept scope terminal)"

lemmas rown_binds [kept_rules] = rown.moves_bind rown.moves_option rown.moves_if rown.moves_let rown.moves_return
  rown.moves_read rown.moves_fail rown.moves_sum rown.moves_catch

lemma rpc_kept_pair [kept_rules]: "(\<And>x y. rpc_keeping scope terminal (f x y)) \<Longrightarrow> rpc_keeping scope terminal (case v of (x, y) \<Rightarrow> f x y)"
  by (cases v) simp

lemma rpc_kept_same: "(\<And>s. sx_index (f s) = sx_index s) \<Longrightarrow> rpc_keeping scope terminal (modify_act f)"
  by (rule rown.moves_modify) (simp add: rpc_kept_def x_durable_def own.dur.refl_R)

lemma rpc_kept_on_index: "moves (x_durable (owner_kept scope terminal)) m \<Longrightarrow> rpc_keeping scope terminal (on_index m)"
  by (auto simp: moves_def rpc_kept_def on_index_def split: prod.split) (metis snd_conv)

lemma rpc_kept_store: "keeping_owner scope terminal m \<Longrightarrow> rpc_keeping scope terminal (store m)"
  unfolding store_def by (rule rpc_kept_on_index) (rule moves_db)

lemma rpc_kept_read: "quiet_op m \<Longrightarrow> rpc_keeping scope terminal (store m)"
  by (rule rpc_kept_store) (rule keeping_of_quiet)

lemma rpc_kept_try [kept_rules]: "rpc_keeping scope terminal m \<Longrightarrow> rpc_keeping scope terminal (try_rpc m)"
  unfolding try_rpc_def by (auto intro!: kept_rules)

lemma quiet_finds:
  "quiet_op (FindByTerminal session t)" "quiet_op (FindByPane session generation pane)"
  "quiet_op (IsPaneClosedSince session generation pane n)" "quiet_op (ListByAgentIds ids)"
  unfolding FindByTerminal_def FindByPane_def one_agent_def agent_record_def IsPaneClosedSince_def IsPaneClosed_def
    PaneClosedAt_def ListByAgentIds_def
  by (auto intro!: moves_rules split: option.split)

lemmas rpc_kept_finds [kept_rules] = quiet_finds [THEN rpc_kept_read]

lemma rpc_kept_server [kept_rules]: "rpc_keeping scope terminal (enqueueAll frames)"
    "rpc_keeping scope terminal (set_lease key lease)" "rpc_keeping scope terminal (drop_lease key)"
    "rpc_keeping scope terminal (cancelGraceForTerminal n t)" "rpc_keeping scope terminal server_now"
  unfolding enqueueAll_def set_lease_def drop_lease_def cancelGraceForTerminal_def clear_timeouts_def Let_def
  by (intro rpc_kept_same; simp; fail | simp add: moves_def rown.refl_R)+

lemma rpc_kept_presence [kept_rules]: "rpc_keeping scope terminal (indexedForPresence n pane t)"
    "rpc_keeping scope terminal (resolvePaneGeneration n pane t)" "rpc_keeping scope terminal (isPiTerminal n pane t)"
    "rpc_keeping scope terminal (hasTerminalPresence n t)" "rpc_keeping scope terminal (lease_agy_owner p)"
  unfolding lease_agy_owner_def isPiTerminal_def resolvePaneGeneration_def indexedForPresence_def hasTerminalPresence_def
    lease_holds_def refresh_lease_def lease_pane_closed_def Let_def
  by (intro kept_rules)+

interpretation xown: state_preorder "x_durable (owner_kept scope terminal)"
  by unfold_locales (auto simp: x_durable_def intro: own.dur.refl_R own.dur.trans_R)

lemma rpc_kept_snapshot [kept_rules]: "rpc_keeping scope terminal (on_index (WorkspaceSnapshot sc t))"
  unfolding WorkspaceSnapshot_def Let_def
  by (intro rpc_kept_on_index xown.moves_bind xown.moves_if xown.moves_return moves_db keeping_of_quiet
    quiet_finds quiet_List_agents)

lemma rpc_kept_service [kept_rules]:
  "rpc_keeping scope terminal (store (svc_Status herdsman_service sc))"
  "rpc_keeping scope terminal (store (OwnerlessSiblingScopes herdsman_service sc))"
  "rpc_keeping scope terminal (store (svc_Pending herdsman_service input))"
  unfolding svc_Status_def
  by (intro rpc_kept_read herd.Get_quiet herd.siblings_quiet rpc_kept_store keeping_Pending)+

lemma rpc_kept_connection_state:
  assumes "so_orchestrator so = herdsman_service"
  shows "rpc_keeping scope terminal (connectionStateLocked so p)"
  unfolding connectionStateLocked_def assms by (intro kept_rules)

subsection \<open>A request to set the owner\<close>

lemma rpc_kept_claim:
  assumes "t \<noteq> terminal" "sc = scope \<Longrightarrow> conn = Some True"
  shows "rpc_keeping scope terminal (store (svc_Claim herdsman_service sc pane t conn))"
proof -
  have claim: "keeping_owner scope terminal (ss_Claim (sv_scopes herdsman_service) \<lparr>ci_Scope = sc, ci_AckedEventID = n,
      ci_PaneID = pane, ci_TerminalID = t, ci_OwnerConnected = conn\<rparr>)" for n
    using keeping_Claim [of "\<lparr>ci_Scope = sc, ci_AckedEventID = n, ci_PaneID = pane, ci_TerminalID = t,
        ci_OwnerConnected = conn\<rparr>" terminal scope] assms
    by (simp add: herdsman_service_def)
  show ?thesis
    unfolding svc_Claim_def
    by (intro rpc_kept_store own_binds claim keeping_of_quiet [OF herd.claimCursor_quiet])
qed

lemma rpc_kept_disabled:
  assumes "so_orchestrator so = herdsman_service" "pp_TerminalID p \<noteq> terminal"
  shows "rpc_keeping scope terminal (set_disabled so p)"
proof -
  have "keeping_owner scope terminal (svc_Release herdsman_service sc reason (pp_TerminalID p))" for sc reason
    unfolding svc_Release_def
    by (intro own_binds) (simp add: herdsman_service_def keeping_ReleaseIfOwner assms(2))
  then show ?thesis unfolding set_disabled_def assms(1) by (intro kept_rules rpc_kept_store)
qed

text \<open>A terminal with a registered connection is present, and asking changes nothing.\<close>

lemma connected_present:
  assumes "sockets_agree s" "presence_of d s = Some q" "presence_key q = terminalPresenceKey session terminal"
  shows "hasTerminalPresence session terminal s = (Inr True, s)"
proof -
  have "d \<in> set (sockets_of (terminalPresenceKey session terminal) s)"
    using sockets_agreeD [OF assms(1)] assms(2,3) by blast
  then have "sockets_of (terminalPresenceKey session terminal) s \<noteq> []" by auto
  then show ?thesis by (simp add: hasTerminalPresence_def bind_act_def read_act_def return_act_def Let_def)
qed

lemma store_InrD: "store m s = (Inr a, s') \<Longrightarrow> \<exists>w. m (x_world (sx_index s)) = (Inr a, w) \<and> x_world (sx_index s') = w"
  by (auto simp: store_def on_index_def db_def split: prod.splits)

lemma status_owner:
  assumes "store (svc_Status herdsman_service scope) s = (Inr current, s')"
    and "owned_by (w_tables (x_world (sx_index s))) scope terminal"
  shows "\<exists>ow. owner_of current = Some ow \<and> o_TerminalID ow = terminal"
proof -
  from store_InrD [OF assms(1)] obtain w where "ss_Get (sv_scopes herdsman_service) scope (x_world (sx_index s)) = (Inr current, w)"
    by (auto simp: svc_Status_def)
  from herd.Get_view [OF this] assms(2) show ?thesis
    by (auto simp: owned_by_def state_view_def owner_of_def)
qed

lemma set_enabled_kept:
  assumes so: "so_orchestrator so = herdsman_service" and agree: "sockets_agree s"
    and other: "pp_TerminalID p \<noteq> terminal" and own: "owned_by (w_tables (x_world (sx_index s))) scope terminal"
    and live: "presence_of d s = Some q" "pp_HerdrSessionName q = s_HerdrSessionName scope" "pp_TerminalID q = terminal"
  shows "rpc_kept scope terminal s (snd (set_enabled so p s))"
proof -
  have rest: "rpc_keeping scope terminal (bind_act (store (svc_Claim herdsman_service (presence_scope p) (pp_PaneID p)
       (pp_TerminalID p) (Some conn))) (\<lambda>change.
     bind_act (if presenceIsAgy p then lease_agy_owner p else return_act ()) (\<lambda>_.
     if sameOwner (os_Owner (oc_Current change)) (os_Owner (oc_Previous change)) then return_act ([], False)
     else bind_act (read_act (publishOrchestratorChange change)) (\<lambda>fs. return_act (fs, True)))))"
    if "presence_scope p = scope \<Longrightarrow> conn" for conn
    using that other by (intro kept_rules rpc_kept_claim) auto
  obtain r s1 where status: "store (svc_Status herdsman_service (presence_scope p)) s = (r, s1)"
    by (cases "store (svc_Status herdsman_service (presence_scope p)) s")
  have kept1: "rpc_kept scope terminal s s1" using moves_resultD [OF rpc_kept_service(1) status] .
  show ?thesis
  proof (cases r)
    case (Inl e)
    with status kept1 show ?thesis by (simp add: set_enabled_def so)
  next
    case (Inr current)
    have "rpc_kept scope terminal s1 (snd (bind_act (case owner_of current of None \<Rightarrow> return_act False
         | Some owner \<Rightarrow> hasTerminalPresence (pp_HerdrSessionName p) (o_TerminalID owner)) k s1))"
      if k: "\<And>conn. (presence_scope p = scope \<Longrightarrow> conn) \<Longrightarrow> rpc_keeping scope terminal (k conn)" for k :: "bool \<Rightarrow> 'a rpc"
    proof (cases "presence_scope p = scope")
      case False
      then have "rpc_keeping scope terminal (k conn)" for conn using k [of conn] by simp
      then show ?thesis
        by (intro movesD [of "rpc_kept scope terminal"]) (rule rown.moves_bind, rule rown.moves_option, rule rown.moves_return, rule rpc_kept_presence)
    next
      case True
      with status_owner [of scope s current s1] status own Inr obtain ow where
        ow: "owner_of current = Some ow" "o_TerminalID ow = terminal" by auto
      have same: "registry s1 = registry s" using unmoved_registry [OF unmoved_store(1) status] .
      have "sockets_agree s1" using agree by (simp add: sockets_agree_def registry_parts [OF same])
      then have "hasTerminalPresence (pp_HerdrSessionName p) terminal s1 = (Inr True, s1)"
        using live True by (intro connected_present [of _ d q])
          (auto simp: registry_parts [OF same] presence_key_def presence_scope_def)
      with ow k [of True] show ?thesis by (simp add: movesD)
    qed
    from this [OF rest] have "rpc_kept scope terminal s1 (snd (set_enabled so p s))"
      using status Inr by (simp add: set_enabled_def so)
    with kept1 show ?thesis by (rule rown.trans_R)
  qed
qed

lemma set_request_kept:
  assumes so: "so_orchestrator so = herdsman_service" and agree: "sockets_agree s"
    and here: "presence_of c s = Some p" and other: "pp_TerminalID p \<noteq> terminal"
    and own: "owned_by (w_tables (x_world (sx_index s))) scope terminal"
    and live: "presence_of d s = Some q" "pp_HerdrSessionName q = s_HerdrSessionName scope" "pp_TerminalID q = terminal"
  shows "rpc_kept scope terminal s (snd (handleOrchestratorSet so c params s))"
proof (cases "Check AgentOrchestratorSetInputSchema params")
  case False
  then show ?thesis by (simp add: handleOrchestratorSet_def validated_def fail_act_def rown.refl_R)
next
  case True
  let ?set = "if flag_field params ''enabled'' then set_enabled so p else set_disabled so p"
  let ?after = "\<lambda>(frames, changed). bind_act (try_rpc (connectionStateLocked so p)) (\<lambda>r. return_act (frames,
       case r of Inl e \<Rightarrow> Inl e | Inr st \<Rightarrow> Inr (SetResult st changed)))"
  let ?send = "\<lambda>(frames, r). bind_act (enqueueAll frames) (\<lambda>_. case r of Inl e \<Rightarrow> fail_act e | Inr result \<Rightarrow> return_act result)"
  have run: "handleOrchestratorSet so c params s = bind_act (bind_act ?set ?after) ?send s"
    using True here
    by (simp add: handleOrchestratorSet_def validated_def orchestratorSetLocked_def requirePiPresence_def
      bind_act_def read_act_def return_act_def)
  have set: "rpc_kept scope terminal s (snd (?set s))"
    using set_enabled_kept [OF so agree other own live] movesD [OF rpc_kept_disabled [OF so other], of scope s] by simp
  have after: "rpc_keeping scope terminal (?after x)" "rpc_keeping scope terminal (?send v)" for x v
    by (intro kept_rules rpc_kept_connection_state [OF so])+
  obtain r s1 where r: "?set s = (r, s1)" by (cases "?set s")
  show ?thesis
  proof (cases r)
    case (Inl e)
    with r set run show ?thesis by simp
  next
    case (Inr x)
    then have "bind_act (bind_act ?set ?after) ?send s = bind_act (?after x) ?send s1" using r by (simp add: bind_act_def)
    moreover have "rpc_kept scope terminal s1 (snd (bind_act (?after x) ?send s1))"
      by (rule movesD [OF rown.moves_bind [OF after]])
    ultimately show ?thesis using run r set by (auto intro: rown.trans_R)
  qed
qed

text \<open>
  C26: A terminal that owns a workspace and has a registered connection keeps it: no
  \<open>agent.orchestrator.set\<close> request of another terminal, to claim or to give up whatever workspace,
  changes the owner or the cursor of the scope in the committed tables, and neither does one that fails
  half way.
\<close>

theorem connected_owner_kept:
  assumes "rpc_run so y" and so: "so_orchestrator so = herdsman_service"
    and world: "w = x_world (sx_index (sy_state y))" "w_open w = None"
    and own: "owned_by (w_tables w) scope (pp_TerminalID q)"
    and live: "presence_of d (sy_state y) = Some q" "pp_HerdrSessionName q = s_HerdrSessionName scope"
    and caller: "presence_of c (sy_state y) = Some p" "pp_TerminalID p \<noteq> pp_TerminalID q"
    and run: "handleOrchestratorSet so c params (sy_state y) = (r, s')"
  shows "scope_view (committed (x_world (sx_index s'))) scope = scope_view (committed w) scope"
proof -
  have "sockets_agree (sy_state y)" using rpc_run_ok [OF assms(1)] by (simp add: rpc_ok_def registries_ok_def)
  from set_request_kept [OF so this caller _ live refl, of params] own run
  have "owner_kept scope (pp_TerminalID q) (committed w) (committed (x_world (sx_index s')))"
    by (simp add: world(1) rpc_kept_def x_durable_def durable_def)
  moreover have "committed w = w_tables w" using world(2) by (simp add: committed_def)
  ultimately show ?thesis using own by (simp add: owner_kept_def)
qed

text \<open>The worker asks for the workspace of the connected owner.\<close>

definition worker_asks :: "rpc_system \<Rightarrow> rpc_state" where
  "worker_asks y = snd (handleOrchestratorSet demo_server 1 (JObj [(''enabled'', JBool True)]) (sy_state y))"

theorem connected_owner_kept_witness:
  "\<exists>y. rpc_run demo_server y \<and> presence_of 1 (sy_state y) = Some (demo_presence ''p'' ''w'')
     \<and> scope_view (committed (x_world (sx_index (worker_asks y)))) \<lparr>s_HerdrSessionName = ''s'', s_WorkspaceID = ''ws''\<rparr>
        = Some (0, Some (''po'', ''o''))"
proof -
  let ?w = "x_world demo_index" and ?scope = "\<lparr>s_HerdrSessionName = ''s'', s_WorkspaceID = ''ws''\<rparr>"
  obtain y where y: "rpc_run demo_server y" "sx_index (sy_state y) = demo_index"
    "presence_of 0 (sy_state y) = Some (demo_presence ''po'' ''o'')"
    "presence_of 1 (sy_state y) = Some (demo_presence ''p'' ''w'')" using demo_both by blast
  have view: "scope_view (committed ?w) ?scope = Some (0, Some (''po'', ''o''))" "committed ?w = w_tables ?w"
    by (simp_all add: committed_def scope_view_def sample_tables_def scope_is_def sample_scope_def row_view_def)
  then have own: "owned_by (w_tables ?w) ?scope (pp_TerminalID (demo_presence ''po'' ''o''))"
    by (simp add: owned_by_def demo_presence_def)
  have differ: "pp_TerminalID (demo_presence ''p'' ''w'') \<noteq> pp_TerminalID (demo_presence ''po'' ''o'')"
    "pp_HerdrSessionName (demo_presence ''po'' ''o'') = s_HerdrSessionName ?scope"
    "x_world demo_index = x_world (sx_index (sy_state y))" using y(2) by (simp_all add: demo_presence_def)
  have "handleOrchestratorSet demo_server 1 (JObj [(''enabled'', JBool True)]) (sy_state y)
      = (fst (handleOrchestratorSet demo_server 1 (JObj [(''enabled'', JBool True)]) (sy_state y)), worker_asks y)"
    by (simp add: worker_asks_def)
  from connected_owner_kept [OF y(1) demo_simps(1) differ(3) demo_simps(4) own y(3) differ(2) y(4) differ(1) this] view y(1,4)
  show ?thesis by auto
qed

end
