(* ===== verification/RpcLaws.thy ===== *)
theory RpcLaws
  imports RpcOwnership
begin

text \<open>
  What the observability server promises, over its runs: consistent registries, where an event goes, who
  is spared by a grace timer, and what a connection without a presence is told.
\<close>

subsection \<open>The registries\<close>

text \<open>
  C25: Whatever connections, registrations in progress, scans, timers, failing writes and the shutdown do
  to each other, the registries agree: the sockets of a terminal are exactly the connections whose
  presence names it, every tracked connection has an order of its own, and until the server stops each
  presence belongs to a tracked connection and activity is kept for connected terminals only.
\<close>

theorem rpc_registry_invariant:
  assumes "rpc_run so y"
  shows "registries_ok (sy_state y)"
  using rpc_run_ok [OF assms] by (simp add: rpc_ok_def)

theorem rpc_registry_invariant_witness:
  "\<exists>y :: rpc_system. registries_ok (sy_state y) \<and> presence_of 0 (sy_state y) = Some (demo_presence ''po'' ''o'')"
  using demo_both rpc_registry_invariant [of demo_server] by blast

subsection \<open>Where an event goes\<close>

lemma newest_of_fold:
  assumes "foldl (newer_socket s) newest cs = Some c"
  shows "(c \<in> set cs \<or> newest = Some c) \<and> (\<forall>d. d \<in> set cs \<or> newest = Some d \<longrightarrow> socket_order s d \<le> socket_order s c)"
  using assms
proof (induction cs arbitrary: newest)
  case (Cons d cs)
  have here: "newer_socket s newest d = Some d \<or> newer_socket s newest d = newest"
    "\<And>n. newer_socket s newest d = Some n \<Longrightarrow> socket_order s d \<le> socket_order s n
       \<and> (\<forall>m. newest = Some m \<longrightarrow> socket_order s m \<le> socket_order s n)"
    by (auto simp: newer_socket_def split: option.splits if_splits)
  from Cons.IH [of "newer_socket s newest d"] Cons.prems have
    c: "c \<in> set cs \<or> newer_socket s newest d = Some c"
    and max: "\<And>e. e \<in> set cs \<or> newer_socket s newest d = Some e \<Longrightarrow> socket_order s e \<le> socket_order s c" by auto
  have "newer_socket s newest d \<noteq> None" by (auto simp: newer_socket_def split: option.splits)
  then obtain n where n: "newer_socket s newest d = Some n" by blast
  from here(2) [OF n] max [of n] n have "socket_order s d \<le> socket_order s c"
    "\<forall>m. newest = Some m \<longrightarrow> socket_order s m \<le> socket_order s c" by (auto intro: order_trans)
  with c max here(1) show ?case by auto
qed simp

lemma newest_exists: "foldl (newer_socket s) newest cs = None \<longleftrightarrow> newest = None \<and> cs = []"
proof (induction cs arbitrary: newest)
  case (Cons d cs)
  have "newer_socket s newest d \<noteq> None" by (auto simp: newer_socket_def split: option.splits)
  with Cons show ?case by simp
qed simp

definition live_at :: "(PiPresence \<Rightarrow> bool) \<Rightarrow> rpc_state \<Rightarrow> nat \<Rightarrow> bool" where
  "live_at at_place s c \<longleftrightarrow> (\<exists>p. presence_of c s = Some p \<and> at_place p) \<and> c \<notin> sx_destroyed s"

definition newest_at :: "(PiPresence \<Rightarrow> bool) \<Rightarrow> rpc_state \<Rightarrow> nat \<Rightarrow> bool" where
  "newest_at at_place s c \<longleftrightarrow> live_at at_place s c \<and> (\<forall>d. live_at at_place s d \<longrightarrow> socket_order s d \<le> socket_order s c)"

lemma newest_filter:
  assumes "distinct (map fst (sx_piPresenceBySocket s))"
    and "found = foldl (newer_socket s) None (map fst (filter (\<lambda>(c, p). at_place p \<and> c \<notin> sx_destroyed s) (sx_piPresenceBySocket s)))"
  shows "(\<forall>c. found = Some c \<longrightarrow> newest_at at_place s c) \<and> (found = None \<longrightarrow> \<not> live_at at_place s c)"
proof -
  let ?cs = "map fst (filter (\<lambda>(c, p). at_place p \<and> c \<notin> sx_destroyed s) (sx_piPresenceBySocket s))"
  have live: "c \<in> set ?cs \<longleftrightarrow> live_at at_place s c" for c
    using assms(1) by (force simp: live_at_def presence_of_def image_iff)
  show ?thesis
    using newest_of_fold [of s None ?cs] newest_exists [of s None ?cs] live assms(2)
    by (auto simp: newest_at_def simp del: set_map set_filter)
qed

lemma newest_session:
  assumes "sockets_agree s"
  shows "newestSocketForSessionTerminal n t s = Some c
      \<Longrightarrow> newest_at (\<lambda>p. pp_HerdrSessionName p = n \<and> pp_TerminalID p = t) s c"
    and "newestSocketForTerminal scope t s = Some c \<Longrightarrow> newest_at (\<lambda>p. presence_scope p = scope \<and> pp_TerminalID p = t) s c"
    and "newestSocketForTerminal scope t s = None \<Longrightarrow> \<not> live_at (\<lambda>p. presence_scope p = scope \<and> pp_TerminalID p = t) s d"
  using assms newest_filter [of s _ "\<lambda>p. pp_HerdrSessionName p = n \<and> pp_TerminalID p = t"]
    newest_filter [of s _ "\<lambda>p. presence_scope p = scope \<and> pp_TerminalID p = t" d]
  by (auto simp: newestSocketForSessionTerminal_def newestSocketForTerminal_def sockets_agree_def case_prod_unfold conj_assoc)

text \<open>The owners of other workspaces of the session: what the server collects from the scope table.\<close>

definition elsewhere :: "AgentScope \<Rightarrow> AgentScope \<Rightarrow> bool" where
  "elsewhere scope other \<longleftrightarrow> s_HerdrSessionName other = s_HerdrSessionName scope \<and> s_WorkspaceID other \<noteq> s_WorkspaceID scope"

definition owns_elsewhere :: "tables \<Rightarrow> AgentScope \<Rightarrow> string \<Rightarrow> bool" where
  "owns_elsewhere t scope terminal \<longleftrightarrow> (\<exists>r \<in> set (agent_orchestrator_scopes t).
     elsewhere scope (scope_of r) \<and> (\<exists>pane. snd (row_view r) = Some (pane, terminal)))"

definition other_owner :: "AgentScope \<Rightarrow> AgentOrchestratorState \<Rightarrow> string \<Rightarrow> bool" where
  "other_owner scope st terminal \<longleftrightarrow>
     elsewhere scope (os_Scope st) \<and> map_option o_TerminalID (os_Owner st) = Some terminal"

lemma owners_listed:
  assumes "ListOwned w = (Inr states, w')"
  shows "(\<exists>st \<in> set states. other_owner scope st terminal)
    \<longleftrightarrow> owns_elsewhere (w_tables w) scope terminal"
proof -
  let ?rows = "sort_key (\<lambda>c. (c_herdrSessionName c, c_workspaceID c)) (filter owned_row (agent_orchestrator_scopes (w_tables w)))"
  from assms obtain w1 where all: "collect ?rows (\<lambda>r. of_sum (mapScope r)) w1 = (Inr states, w')"
    unfolding ListOwned_def scanScopes_def by (auto elim!: bind_act_InrE simp: query_sql_Inr)
  have "True \<and> list_all2 (\<lambda>r st. (os_Scope st, state_view st) = (scope_of r, row_view r)) ?rows states"
    using all TrueI by (rule collect_reads) (auto dest!: of_sum_InrD mapScope_InrD)
  then have "map (\<lambda>st. (os_Scope st, state_view st)) states = map (\<lambda>r. (scope_of r, row_view r)) ?rows"
    by (auto intro: list_all2_map_eq)
  then have "set (map (\<lambda>st. (os_Scope st, state_view st)) states) = set (map (\<lambda>r. (scope_of r, row_view r)) ?rows)" by simp
  then have pairs: "(\<lambda>st. (os_Scope st, state_view st)) ` set states
      = (\<lambda>r. (scope_of r, row_view r)) ` {r \<in> set (agent_orchestrator_scopes (w_tables w)). owned_row r}" by simp
  have owner: "map_option o_TerminalID (os_Owner st) = Some terminal \<longleftrightarrow> (\<exists>pane. snd (state_view st) = Some (pane, terminal))" for st
    by (cases "os_Owner st") (auto simp: state_view_def)
  have "snd (row_view r) = Some (pane, terminal) \<Longrightarrow> owned_row r" for r pane
    by (auto simp: row_view_def owned_row_def split: option.splits)
  then have "owns_elsewhere (w_tables w) scope terminal \<longleftrightarrow> (\<exists>x \<in> (\<lambda>r. (scope_of r, row_view r)) `
      {r \<in> set (agent_orchestrator_scopes (w_tables w)). owned_row r}. elsewhere scope (fst x)
      \<and> (\<exists>pane. snd (snd x) = Some (pane, terminal)))"
    by (auto simp: owns_elsewhere_def)
  then show ?thesis unfolding pairs [symmetric] other_owner_def owner by simp
qed

lemma active_owners_InrD:
  fixes n ws
  defines "scope \<equiv> \<lparr>s_HerdrSessionName = n, s_WorkspaceID = ws\<rparr>"
  assumes "active_owners n ws states ids s = (Inr ts, s')"
  shows "set ids \<subseteq> set ts \<and> (\<forall>t \<in> set ts - set ids. \<exists>st \<in> set states. other_owner scope st t)
    \<and> (\<forall>t. (\<exists>st \<in> set states. other_owner scope st t) \<and> sockets_of (terminalPresenceKey n t) s \<noteq> [] \<longrightarrow> t \<in> set ts)"
  using assms(2)
proof (induction states arbitrary: ids s)
  case (Cons st states)
  consider (skip) "\<And>t. \<not> other_owner scope st t"
    | (owned) ow where "\<And>t. other_owner scope st t \<longleftrightarrow> t = o_TerminalID ow" "elsewhere scope (os_Scope st)" "os_Owner st = Some ow"
    by (cases "elsewhere scope (os_Scope st)"; cases "os_Owner st") (auto simp: other_owner_def)
  then show ?case
  proof cases
    case skip
    then have "\<not> elsewhere scope (os_Scope st) \<or> os_Owner st = None"
      by (cases "os_Owner st") (auto simp: other_owner_def)
    then have "active_owners n ws states ids s = (Inr ts, s')"
      using Cons.prems by (auto simp: elsewhere_def scope_def split: if_splits option.splits)
    from Cons.IH [OF this] skip show ?thesis by simp
  next
    case (owned ow)
    then have here: "s_HerdrSessionName (os_Scope st) = n" "s_WorkspaceID (os_Scope st) \<noteq> ws" by (auto simp: elsewhere_def scope_def)
    with owned Cons.prems obtain live s1 where asked: "hasTerminalPresence n (o_TerminalID ow) s = (Inr live, s1)"
      and rest: "active_owners n ws states (if live \<and> o_TerminalID ow \<notin> set ids then ids @ [o_TerminalID ow] else ids) s1 = (Inr ts, s')"
      by (auto elim!: bind_act_InrE)
    have same: "registry s1 = registry s" using unmoved_registry [OF unmoved_presence(2) asked] .
    have live: "live" if "sockets_of (terminalPresenceKey n (o_TerminalID ow)) s \<noteq> []"
      using asked that by (simp add: hasTerminalPresence_def bind_act_def read_act_def return_act_def Let_def)
    from Cons.IH [OF rest] live show ?thesis
      unfolding registry_parts [OF same] by (cases "live \<and> o_TerminalID ow \<notin> set ids") (auto simp: owned(1))
  qed
qed simp

text \<open>What the answer of the service says about the tables the server reads.\<close>

lemma try_store_InrD:
  "try_store m s = (Inr (Inr a), s') \<Longrightarrow> \<exists>w. m (x_world (sx_index s)) = (Inr a, w) \<and> x_world (sx_index s') = w
     \<and> registry s' = registry s \<and> sx_destroyed s' = sx_destroyed s"
  by (auto simp: try_store_def on_index_def try_err_def catch_act_def db_def bind_act_def return_act_def fail_act_def
    registry_def split: prod.splits sum.splits if_splits)

lemma try_rpc_InrD: "try_rpc m s = (Inr (Inr a), s') \<Longrightarrow> m s = (Inr a, s')"
  by (auto simp: try_rpc_def catch_act_def bind_act_def return_act_def fail_act_def split: prod.splits sum.splits if_splits)

lemma store_quiet:
  assumes "quiet_op m" "store m s = (Inr a, s')"
  shows "agent_orchestrator_scopes (w_tables (x_world (sx_index s'))) = agent_orchestrator_scopes (w_tables (x_world (sx_index s)))"
proof -
  from store_InrD [OF assms(2)] obtain w where "m (x_world (sx_index s)) = (Inr a, w)" "x_world (sx_index s') = w" by blast
  with quietD(3) [OF conjunct1 [OF quiet_run [OF assms(1)]]] show ?thesis by blast
qed

text \<open>The one owner of the session, when the workspace of the event has none.\<close>

lemma single_owner:
  assumes so: "so_orchestrator so = herdsman_service" and run: "singleActiveSessionOwner so n ws s = (Inr (Some t), s')"
  shows "owns_elsewhere (w_tables (x_world (sx_index s))) \<lparr>s_HerdrSessionName = n, s_WorkspaceID = ws\<rparr> t
    \<and> (\<forall>u. owns_elsewhere (w_tables (x_world (sx_index s))) \<lparr>s_HerdrSessionName = n, s_WorkspaceID = ws\<rparr> u
        \<and> sockets_of (terminalPresenceKey n u) s \<noteq> [] \<longrightarrow> u = t)"
proof -
  from run obtain states s1 ts where list: "store (svc_PersistedOwners herdsman_service) s = (Inr states, s1)"
    and active: "active_owners n ws states [] s1 = (Inr ts, s')" and ts: "ts = [t]"
    unfolding singleActiveSessionOwner_def so by (auto elim!: bind_act_InrE split: list.splits)
  have same: "registry s1 = registry s" using unmoved_registry [OF unmoved_store(1) list] .
  from store_InrD [OF list] obtain w where "ListOwned (x_world (sx_index s)) = (Inr states, w)"
    by (auto simp: svc_PersistedOwners_def herdsman_service_def)
  note owners = owners_listed [OF this]
  from active_owners_InrD [OF active] ts have
    "\<exists>st \<in> set states. other_owner \<lparr>s_HerdrSessionName = n, s_WorkspaceID = ws\<rparr> st t"
    "\<And>u. \<exists>st \<in> set states. other_owner \<lparr>s_HerdrSessionName = n, s_WorkspaceID = ws\<rparr> st u
      \<Longrightarrow> sockets_of (terminalPresenceKey n u) s1 \<noteq> [] \<Longrightarrow> u = t" by auto
  then show ?thesis unfolding owners registry_parts [OF same] by blast
qed

text \<open>The presence an event may go to.\<close>

definition routed_to :: "tables \<Rightarrow> AgentEventRecord \<Rightarrow> rpc_state \<Rightarrow> PiPresence \<Rightarrow> bool" where
  "routed_to t e s p \<longleftrightarrow>
     (if \<exists>terminal. owned_by t (event_scope e) terminal
      then owned_by t (event_scope e) (pp_TerminalID p) \<and> presence_scope p = event_scope e
        \<and> e_TerminalID e \<noteq> Some (pp_TerminalID p)
      else owns_elsewhere t (event_scope e) (pp_TerminalID p) \<and> pp_HerdrSessionName p = e_HerdrSessionName e
        \<and> (\<forall>u. owns_elsewhere t (event_scope e) u \<and> sockets_of (terminalPresenceKey (e_HerdrSessionName e) u) s \<noteq> []
             \<longrightarrow> u = pp_TerminalID p))"

lemma event_routed:
  assumes so: "so_orchestrator so = herdsman_service" and agree: "sockets_agree s"
    and run: "publishAgentEventLocked so e s = (Inr (f # fs), s')"
  shows "event_routable e \<and> (\<exists>c p. f # fs = [(c, agent_event e)] \<and> presence_of c s = Some p
    \<and> routed_to (w_tables (x_world (sx_index s))) e s p
    \<and> newest_at (\<lambda>q. presence_scope q = presence_scope p \<and> pp_TerminalID q = pp_TerminalID p) s' c)"
proof (cases "event_routable e")
  case False
  with run show ?thesis by (simp add: publishAgentEventLocked_def return_act_def)
next
  case True
  let ?t = "w_tables (x_world (sx_index s))"
  have registry: "registry s' = registry s" using unmoved_registry [OF unmoved_events(1) run] .
  have agree': "sockets_agree s'" using agree by (simp add: sockets_agree_def registry_parts [OF registry])
  from True run obtain st s1 where status: "try_store (svc_Status herdsman_service (event_scope e)) s = (Inr (Inr st), s1)"
    and rest: "(case owner_of st of
       None \<Rightarrow> bind_act (try_rpc (singleActiveSessionOwner so (e_HerdrSessionName e) (s_WorkspaceID (event_scope e)))) (\<lambda>r.
           case r of Inl _ \<Rightarrow> return_act [] | Inr None \<Rightarrow> return_act []
           | Inr (Some sessionOwner) \<Rightarrow> bind_act (read_act (newestSocketForSessionTerminal (e_HerdrSessionName e) sessionOwner))
               (\<lambda>connection. return_act (frame_to connection e)))
     | Some owner \<Rightarrow> if e_TerminalID e = Some (o_TerminalID owner) then return_act []
         else bind_act (read_act (newestSocketForTerminal (event_scope e) (o_TerminalID owner)))
           (\<lambda>connection. return_act (frame_to connection e))) s1 = (Inr (f # fs), s')"
    unfolding publishAgentEventLocked_def so Let_def by (auto elim!: bind_act_InrE split: sum.splits)
  from try_store_InrD [OF status] obtain w where get: "ss_Get (sv_scopes herdsman_service) (event_scope e) (x_world (sx_index s)) = (Inr st, w)"
    and s1: "x_world (sx_index s1) = w" "registry s1 = registry s" by (auto simp: svc_Status_def)
  have tables: "agent_orchestrator_scopes (w_tables w) = agent_orchestrator_scopes ?t"
    using quietD(3) [OF conjunct1 [OF quiet_run [OF herd.Get_quiet get]]] .
  have owned: "owned_by ?t (event_scope e) terminal \<longleftrightarrow> map_option o_TerminalID (owner_of st) = Some terminal" for terminal
    using herd.Get_view [OF get] by (auto simp: owned_by_def state_view_def owner_of_def split: option.splits)
  show ?thesis
  proof (cases "owner_of st")
    case (Some owner)
    with rest obtain c where c: "newestSocketForTerminal (event_scope e) (o_TerminalID owner) s' = Some c"
      "f # fs = [(c, agent_event e)]" "e_TerminalID e \<noteq> Some (o_TerminalID owner)"
      by (auto simp: bind_act_def read_act_def return_act_def frame_to_def split: if_splits option.splits)
    from newest_session(2) [OF agree' c(1)] obtain p where p: "presence_of c s' = Some p" "presence_scope p = event_scope e"
      "pp_TerminalID p = o_TerminalID owner"
      and max: "newest_at (\<lambda>q. presence_scope q = event_scope e \<and> pp_TerminalID q = o_TerminalID owner) s' c"
      by (auto simp: newest_at_def live_at_def)
    have "routed_to ?t e s p" using Some p c(3) owned by (auto simp: routed_to_def)
    with True c(2) p max show ?thesis by (auto simp: registry_parts [OF registry])
  next
    case None
    with rest obtain t c s2 where single: "singleActiveSessionOwner so (e_HerdrSessionName e) (s_WorkspaceID (event_scope e)) s1 = (Inr (Some t), s2)"
      and c: "newestSocketForSessionTerminal (e_HerdrSessionName e) t s' = Some c" "f # fs = [(c, agent_event e)]"
      by (auto elim!: bind_act_InrE dest!: try_rpc_InrD simp: read_act_def frame_to_def split: sum.splits option.splits)
    from newest_session(1) [OF agree' c(1)] obtain p where p: "presence_of c s' = Some p" "pp_HerdrSessionName p = e_HerdrSessionName e"
      "pp_TerminalID p = t"
      and max: "newest_at (\<lambda>q. pp_HerdrSessionName q = e_HerdrSessionName e \<and> pp_TerminalID q = t) s' c"
      by (auto simp: newest_at_def live_at_def)
    have scope: "\<lparr>s_HerdrSessionName = e_HerdrSessionName e, s_WorkspaceID = s_WorkspaceID (event_scope e)\<rparr> = event_scope e"
      by (simp add: event_scope_def)
    have "owns_elsewhere (w_tables w) = owns_elsewhere ?t" by (simp add: owns_elsewhere_def tables fun_eq_iff)
    with single_owner [OF so single] p have "routed_to ?t e s p"
      unfolding scope s1(1) registry_parts [OF s1(2)] using None owned by (auto simp: routed_to_def)
    moreover have "newest_at (\<lambda>q. presence_scope q = presence_scope p \<and> pp_TerminalID q = pp_TerminalID p) s' c"
      using max p by (auto simp: newest_at_def live_at_def presence_scope_def)
    ultimately show ?thesis using True c(2) p by (auto simp: registry_parts [OF registry])
  qed
qed

text \<open>
  C27: An event the server routes goes to one connection only: the newest live one of the terminal that
  owns the workspace of the event, and never to the terminal the event is about; for a workspace nobody
  owns, of the one terminal that owns another workspace of the session and is connected. Nothing is sent
  for events that are not deliverable or no longer waiting.
\<close>

theorem agent_event_routed:
  assumes "rpc_run so y" and "so_orchestrator so = herdsman_service"
    and "publishAgentEventLocked so e (sy_state y) = (Inr (f # fs), s')"
  shows "event_routable e \<and> (\<exists>c p. f # fs = [(c, agent_event e)] \<and> presence_of c (sy_state y) = Some p
    \<and> routed_to (w_tables (x_world (sx_index (sy_state y)))) e (sy_state y) p
    \<and> newest_at (\<lambda>q. presence_scope q = presence_scope p \<and> pp_TerminalID q = pp_TerminalID p) s' c)"
  using event_routed [OF assms(2) _ assms(3)] rpc_run_ok [OF assms(1)] by (simp add: rpc_ok_def registries_ok_def)

text \<open>The worker of the sample daemon finished; the owner of its workspace is connected.\<close>

definition worker_done :: AgentEventRecord where
  "worker_done = mapAgentEvent sample_row"

lemma worker_done_simps:
  "event_routable worker_done" "event_scope worker_done = \<lparr>s_HerdrSessionName = ''s'', s_WorkspaceID = ''ws''\<rparr>"
  "e_TerminalID worker_done = Some ''w''"
  by (simp_all add: worker_done_def event_routable_def event_scope_def nonempty_text_def isPendingOrDelivered_def
    mapAgentEvent_def sample_row_def appended_row_def sample_input_def)

theorem agent_event_routed_witness:
  "\<exists>y c p s'. rpc_run demo_server y \<and> publishAgentEventLocked demo_server worker_done (sy_state y) = (Inr [(c, agent_event worker_done)], s')
     \<and> presence_of c (sy_state y) = Some p \<and> routed_to (w_tables (x_world demo_index)) worker_done (sy_state y) p"
proof -
  obtain y where y: "rpc_run demo_server y" "sx_index (sy_state y) = demo_index" "sx_destroyed (sy_state y) = {}"
    "presence_of 0 (sy_state y) = Some (demo_presence ''po'' ''o'')" using demo_both by blast
  let ?s = "sy_state y" and ?scope = "\<lparr>s_HerdrSessionName = ''s'', s_WorkspaceID = ''ws''\<rparr>"
  have agree: "sockets_agree ?s" using rpc_run_ok [OF y(1)] by (simp add: rpc_ok_def registries_ok_def)
  have "live_at (\<lambda>p. presence_scope p = ?scope \<and> pp_TerminalID p = ''o'') ?s 0"
    using y(3,4) by (simp add: live_at_def) (simp add: demo_presence_def)
  with newest_session(3) [OF agree, of ?scope "''o''"] obtain c where c: "newestSocketForTerminal ?scope ''o'' ?s = Some c"
    by (cases "newestSocketForTerminal ?scope ''o'' ?s") auto
  have "try_store (svc_Status herdsman_service ?scope) ?s = (Inr (Inr (Some \<lparr>os_Scope = ?scope, os_AckedEventID = 0,
      os_Owner = Some \<lparr>o_PaneID = ''po'', o_TerminalID = ''o''\<rparr>, os_UpdatedAt = 1\<rparr>)), ?s)"
    using y(2) by (simp add: try_store_def on_index_def try_err_def catch_act_def db_def bind_act_def return_act_def demo_status)
  then have run: "publishAgentEventLocked demo_server worker_done ?s = (Inr [(c, agent_event worker_done)], ?s)"
    using c by (simp add: publishAgentEventLocked_def worker_done_simps Let_def bind_act_def owner_of_def read_act_def
      return_act_def frame_to_def)
  from agent_event_routed [OF y(1) demo_simps(1) run] y(1,2) run show ?thesis by auto
qed

subsection \<open>The owner receives what is due\<close>

lemma calm_status:
  assumes "w_faults w = []" "owned_by (w_tables w) scope terminal"
  shows "\<exists>st. svc_Status herdsman_service scope w = (Inr (Some st), w) \<and> map_option o_TerminalID (os_Owner st) = Some terminal"
proof -
  from assms(2) obtain r pane where r: "find (scope_is scope) (agent_orchestrator_scopes (w_tables w)) = Some r"
    "c_ownerPaneID r = Some pane" "c_ownerTerminalID r = Some terminal"
    by (auto simp: owned_by_def scope_view_def row_view_def split: option.splits)
  then show ?thesis
    by (simp add: svc_Status_def herdsman_service_def scope_Get_def getRow_def query_sql_ok [OF assms(1)] bind_act_def
      mapScope_def of_sum_def return_act_def)
qed

lemma calm_try_store:
  assumes "m (x_world (sx_index s)) = (Inr a, x_world (sx_index s))"
  shows "try_store m s = (Inr (Inr a), s)"
  using assms by (simp add: try_store_def on_index_def try_err_def catch_act_def db_def bind_act_def return_act_def)

text \<open>
  C28: When the store works, a deliverable event of a workspace is sent to its owner as soon as the owner has
  a live connection in the workspace: \<open>PublishAgentEvent\<close> appends exactly one frame, for the newest such
  connection, and changes nothing else.
\<close>

theorem owner_receives_event:
  assumes "rpc_run so y" and so: "so_orchestrator so = herdsman_service"
    and s: "s = sy_state y" "w_faults (x_world (sx_index s)) = []"
    and owned: "owned_by (w_tables (x_world (sx_index s))) (event_scope e) (pp_TerminalID p)"
    and e: "event_routable e" "e_TerminalID e \<noteq> Some (pp_TerminalID p)"
    and live: "presence_of d s = Some p" "presence_scope p = event_scope e" "d \<notin> sx_destroyed s"
  shows "\<exists>c. PublishAgentEvent so e s = (Inr (), s\<lparr>sx_frames := sx_frames s @ [(c, agent_event e)]\<rparr>)
    \<and> newest_at (\<lambda>q. presence_scope q = event_scope e \<and> pp_TerminalID q = pp_TerminalID p) s c"
proof -
  have agree: "sockets_agree s" using rpc_run_ok [OF assms(1)] s(1) by (simp add: rpc_ok_def registries_ok_def)
  have "live_at (\<lambda>q. presence_scope q = event_scope e \<and> pp_TerminalID q = pp_TerminalID p) s d"
    using live by (simp add: live_at_def)
  with newest_session(3) [OF agree] obtain c where c: "newestSocketForTerminal (event_scope e) (pp_TerminalID p) s = Some c"
    by (cases "newestSocketForTerminal (event_scope e) (pp_TerminalID p) s") auto
  have max: "newest_at (\<lambda>q. presence_scope q = event_scope e \<and> pp_TerminalID q = pp_TerminalID p) s c"
    using newest_session(2) [OF agree c] .
  from calm_status [OF s(2) owned] obtain st ow where "svc_Status herdsman_service (event_scope e) (x_world (sx_index s))
      = (Inr (Some st), x_world (sx_index s))" "os_Owner st = Some ow" "o_TerminalID ow = pp_TerminalID p"
    by auto
  with calm_try_store [of "svc_Status herdsman_service (event_scope e)" s] have
    "publishAgentEventLocked so e s = (Inr [(c, agent_event e)], s)"
    using c e so by (simp add: publishAgentEventLocked_def Let_def bind_act_def owner_of_def read_act_def return_act_def frame_to_def)
  then have "PublishAgentEvent so e s = (Inr (), s\<lparr>sx_frames := sx_frames s @ [(c, agent_event e)]\<rparr>)"
    using max by (simp add: PublishAgentEvent_def bind_act_def enqueueAll_def modify_act_def newest_at_def live_at_def)
  with max show ?thesis by blast
qed

theorem owner_receives_event_witness:
  "\<exists>y c. rpc_run demo_server y \<and> snd (PublishAgentEvent demo_server worker_done (sy_state y))
     = (sy_state y)\<lparr>sx_frames := sx_frames (sy_state y) @ [(c, agent_event worker_done)]\<rparr>"
proof -
  obtain y where y: "rpc_run demo_server y" "sx_index (sy_state y) = demo_index" "sx_destroyed (sy_state y) = {}"
    "presence_of 0 (sy_state y) = Some (demo_presence ''po'' ''o'')" using demo_both by blast
  have "owned_by (w_tables (x_world demo_index)) (event_scope worker_done) (pp_TerminalID (demo_presence ''po'' ''o''))"
    by (simp add: worker_done_simps owned_by_def scope_view_def sample_tables_def scope_is_def sample_scope_def row_view_def
      demo_presence_def)
  from owner_receives_event [OF y(1) demo_simps(1) refl _ _ worker_done_simps(1) _ y(4)] this y show ?thesis
    by (force simp: worker_done_simps demo_presence_def presence_scope_def)
qed

subsection \<open>Grace timers\<close>

definition grace_terminal :: "grace_callback \<Rightarrow> string \<times> string" where
  "grace_terminal callback = (case callback of
     DisconnectGrace p \<Rightarrow> (pp_HerdrSessionName p, pp_TerminalID p)
   | StartupGrace st \<Rightarrow> (s_HerdrSessionName (os_Scope st), case os_Owner st of None \<Rightarrow> [] | Some ow \<Rightarrow> o_TerminalID ow))"

definition forget_timer :: "grace_timer \<Rightarrow> rpc_state \<Rightarrow> rpc_state" where
  "forget_timer timer s = (case tm_callback timer of
     DisconnectGrace p \<Rightarrow> s\<lparr>sx_disconnectTimers := map_delete (tm_key timer) (sx_disconnectTimers s)\<rparr>
   | StartupGrace st \<Rightarrow> s\<lparr>sx_startupTimers := map_delete (tm_key timer) (sx_startupTimers s)\<rparr>)"

lemma forget_timer_registry: "registry (forget_timer timer s) = registry s"
  by (simp add: forget_timer_def registry_def split: grace_callback.split)

text \<open>
  A grace timer that fires for a terminal with a registered connection releases nothing: its callback
  drops the entry of the timer and leaves the rest of the server and the store as they are.
\<close>

theorem grace_spares_connected:
  assumes "rpc_run so y" and s: "s = (sy_state y)\<lparr>sx_expired := waiting\<rparr>"
    and returned: "presence_of c s = Some p" "grace_terminal (tm_callback timer) = (pp_HerdrSessionName p, pp_TerminalID p)"
  shows "run_timer so timer s = (Inr (), forget_timer timer s)"
proof -
  have ok: "registries_ok (sy_state y)" using rpc_run_ok [OF assms(1)] by (simp add: rpc_ok_def)
  have "registry s = registry (sy_state y)" by (simp add: s registry_def)
  then have "sockets_agree (forget_timer timer s)"
    using ok registries_ok_cong [of "forget_timer timer s" "sy_state y"] by (simp add: forget_timer_registry registries_ok_def)
  moreover have "presence_of c (forget_timer timer s) = Some p"
    using returned(1) registry_parts(8) [OF forget_timer_registry] by simp
  ultimately have "hasTerminalPresence (pp_HerdrSessionName p) (pp_TerminalID p) (forget_timer timer s) = (Inr True, forget_timer timer s)"
    by (rule connected_present) (simp add: presence_key_def)
  then have "release_if_absent so (pp_HerdrSessionName p) reason (pp_TerminalID p) (forget_timer timer s)
      = (Inr (), forget_timer timer s)" for reason
    by (simp add: release_if_absent_def try_rpc_def catch_act_def bind_act_def read_act_def return_act_def)
  with returned(2) show ?thesis
    by (cases "tm_callback timer")
      (auto simp: run_timer_def grace_terminal_def forget_timer_def bind_act_def modify_act_def)
qed

theorem grace_spares_connected_witness:
  "\<exists>y. rpc_run demo_server y \<and> run_timer demo_server
       \<lparr>tm_key = ''x'', tm_callback = DisconnectGrace (demo_presence ''po'' ''o''), tm_delayMs = 5000\<rparr> ((sy_state y)\<lparr>sx_expired := []\<rparr>)
     = (Inr (), ((sy_state y)\<lparr>sx_expired := []\<rparr>)\<lparr>sx_disconnectTimers := map_delete ''x'' (sx_disconnectTimers (sy_state y))\<rparr>)"
proof -
  obtain y where y: "rpc_run demo_server y" "presence_of 0 (sy_state y) = Some (demo_presence ''po'' ''o'')"
    using demo_both by blast
  have "presence_of 0 ((sy_state y)\<lparr>sx_expired := []\<rparr>) = Some (demo_presence ''po'' ''o'')"
    using y(2) by (simp add: presence_of_def)
  from grace_spares_connected [OF y(1) refl this,
      of "\<lparr>tm_key = ''x'', tm_callback = DisconnectGrace (demo_presence ''po'' ''o''), tm_delayMs = 5000\<rparr>"] y(1)
  show ?thesis by (auto simp: grace_terminal_def forget_timer_def)
qed

text \<open>
  When a terminal owns two workspaces, the daemon starts with two grace timers for it under one key, so
  the registry knows the second only. The reconnection of the terminal cancels that one: the first stays
  armed with no entry left, and will release the workspaces if the terminal is away when it fires,
  whatever is left of the grace period of that disconnection.
\<close>

theorem startup_timer_survives_reconnect:
  assumes first: "arm_owner so st1 s = (Inr (), s1)" "os_Owner st1 = Some ow1" "sx_handles s1 = Suc (sx_handles s)"
    and second: "arm_owner so st2 s1 = (Inr (), s2)" "os_Owner st2 = Some ow2" "sx_handles s2 = Suc (sx_handles s1)"
    and same: "s_HerdrSessionName (os_Scope st1) = session" "s_HerdrSessionName (os_Scope st2) = session"
      "o_TerminalID ow1 = terminal" "o_TerminalID ow2 = terminal"
    and start: "sx_disconnectTimers s = []"
    and returned: "cancelGraceForTerminal session terminal s2 = (Inr (), s3)"
  shows "(sx_handles s, \<lparr>tm_key = terminalPresenceKey session terminal, tm_callback = StartupGrace st1,
      tm_delayMs = so_startupReconnectMs so\<rparr>) \<in> set (sx_armed s3)
    \<and> map_of (sx_startupTimers s3) (terminalPresenceKey session terminal) = None"
proof -
  let ?key = "terminalPresenceKey session terminal"
  have arm: "sx_armed u' = sx_armed u @ [(sx_handles u, \<lparr>tm_key = ?key, tm_callback = StartupGrace st, tm_delayMs = so_startupReconnectMs so\<rparr>)]
      \<and> map_of (sx_startupTimers u') ?key = Some (sx_handles u) \<and> sx_disconnectTimers u' = sx_disconnectTimers u"
    if "arm_owner so st u = (Inr (), u')" "os_Owner st = Some ow" "sx_handles u' = Suc (sx_handles u)"
      "s_HerdrSessionName (os_Scope st) = session" "o_TerminalID ow = terminal" for st u u' ow
    using that
    by (auto simp: arm_owner_def Let_def try_store_def on_index_def bind_act_def return_act_def set_timeout_def read_act_def
      modify_act_def set_lease_def split: prod.splits sum.splits option.splits)
  note one = arm [OF first same(1,3)] and two = arm [OF second same(2,4)]
  have "s3 = (clear_timeouts (entries_at ?key (sx_disconnectTimers s2) @ entries_at ?key (sx_startupTimers s2)) s2)
      \<lparr>sx_disconnectTimers := map_delete ?key (sx_disconnectTimers s2), sx_startupTimers := map_delete ?key (sx_startupTimers s2)\<rparr>"
    using returned by (simp add: cancelGraceForTerminal_def Let_def modify_act_def)
  then show ?thesis using one two first(3) start by (simp add: clear_timeouts_def entries_at_def)
qed

definition owned_workspace :: "string \<Rightarrow> AgentOrchestratorState" where
  "owned_workspace ws = \<lparr>os_Scope = \<lparr>s_HerdrSessionName = ''s'', s_WorkspaceID = ws\<rparr>, os_AckedEventID = 0,
     os_Owner = Some \<lparr>o_PaneID = ''po'', o_TerminalID = ''o''\<rparr>, os_UpdatedAt = 1\<rparr>"

lemma demo_arm:
  assumes "sx_index s = demo_index"
  shows "\<exists>s'. arm_owner demo_server (owned_workspace ws) s = (Inr (), s') \<and> sx_index s' = demo_index
    \<and> sx_handles s' = Suc (sx_handles s)"
proof -
  have "\<exists>a. FindByTerminal ''s'' ''o'' (x_world demo_index) = (Inr (Some a), x_world demo_index) \<and> a_Agent a = Some ''pi''"
    by (simp add: FindByTerminal_def one_agent_def agent_record_def query_sql_ok bind_act_def read_act_def
      return_act_def owner_agent_def sample_agent_def mapAgent_def Let_def)
  then obtain a where "FindByTerminal ''s'' ''o'' (x_world demo_index) = (Inr (Some a), x_world demo_index)" "a_Agent a = Some ''pi''"
    by blast
  with calm_try_store [of "FindByTerminal ''s'' ''o''" s] assms show ?thesis
    by (auto simp: arm_owner_def owned_workspace_def Let_def startup_lease_def set_timeout_def bind_act_def return_act_def
      read_act_def modify_act_def)
qed

theorem startup_timer_survives_reconnect_witness:
  "\<exists>s3 :: rpc_state. map_of (sx_startupTimers s3) (terminalPresenceKey ''s'' ''o'') = None
     \<and> (0, \<lparr>tm_key = terminalPresenceKey ''s'' ''o'', tm_callback = StartupGrace (owned_workspace ''wa''), tm_delayMs = 10000\<rparr>)
         \<in> set (sx_armed s3)"
proof -
  have start: "sx_index demo_start = demo_index" "sx_handles demo_start = 0" "sx_disconnectTimers demo_start = []"
    by (simp_all add: demo_start_def NewObservabilityRpcServer_def)
  obtain s1 where s1: "arm_owner demo_server (owned_workspace ''wa'') demo_start = (Inr (), s1)" "sx_index s1 = demo_index"
    "sx_handles s1 = Suc (sx_handles demo_start)" using demo_arm [OF start(1)] by blast
  obtain s2 where s2: "arm_owner demo_server (owned_workspace ''wb'') s1 = (Inr (), s2)" "sx_handles s2 = Suc (sx_handles s1)"
    using demo_arm [OF s1(2)] by blast
  obtain s3 where s3: "cancelGraceForTerminal ''s'' ''o'' s2 = (Inr (), s3)"
    by (simp add: cancelGraceForTerminal_def modify_act_def Let_def)
  have grace: "so_startupReconnectMs demo_server = 10000"
    by (simp add: demo_server_def with_durations_def or_duration_def StartupReconnectGraceMs_def)
  have owner: "os_Owner (owned_workspace ws) = Some \<lparr>o_PaneID = ''po'', o_TerminalID = ''o''\<rparr>"
    "s_HerdrSessionName (os_Scope (owned_workspace ws)) = ''s''" "o_TerminalID \<lparr>o_PaneID = ''po'', o_TerminalID = ''o''\<rparr> = ''o''" for ws
    by (simp_all add: owned_workspace_def)
  from startup_timer_survives_reconnect [OF s1(1) owner(1) s1(3) s2(1) owner(1) s2(2) owner(2) owner(2) owner(3) owner(3) start(3) s3]
  show ?thesis using start(2) grace by (intro exI [of _ s3]) simp
qed

subsection \<open>Connections without a presence\<close>

text \<open>
  A connection that has not registered is refused. To get or set the owner, to acknowledge or to signal a
  turn, it is answered with exactly one error, which is about the parameters or about the missing
  presence, and nothing else in the server or in the store changes.
\<close>

theorem unregistered_connection_refused:
  assumes "presence_of c s = None" "c \<notin> sx_destroyed s"
    and calm: "\<And>n e. so_int64 so n = Inl e \<Longrightarrow> \<not> is_panic e"
    and request: "request = rpcRequestOf message" "qr_method request \<in> {''agent.orchestrator.get'', ''agent.orchestrator.set'',
      ''agent.notifications.ack'', ''agent.turn.completed''}"
  shows "\<exists>e. handleRequest so c message s
      = (Inr None, s\<lparr>sx_frames := sx_frames s @ [(c, rpc_response (qr_id request) (Inl (observabilityRPCError so e)))]\<rparr>)
    \<and> (e = errInvalidRPCParams \<or> e = ErrText ''Pi presence is not registered for this connection''
       \<or> (\<exists>n. so_int64 so n = Inl e))"
proof -
  define expected where "expected e \<longleftrightarrow> e = errInvalidRPCParams
    \<or> e = ErrText ''Pi presence is not registered for this connection'' \<or> (\<exists>n. so_int64 so n = Inl e)" for e
  let ?absent = "ErrText ''Pi presence is not registered for this connection''"
  have require [simp]: "requirePiPresence c s = (Inl ?absent, s)"
    using assms(1) by (simp add: requirePiPresence_def bind_act_def read_act_def fail_act_def)
  have absent: "expected ?absent" by (simp add: expected_def)
  have validated: "\<exists>e. validated schema params m s = (Inl e, s) \<and> expected e"
    if "\<exists>e. m s = (Inl e, s) \<and> expected e" for schema params and m :: "rpc_result rpc"
    using that by (auto simp: validated_def fail_act_def expected_def)
  have number: "number_field (so_int64 so) v = Inl e \<Longrightarrow> expected e" for v e
    by (induction "so_int64 so" v rule: number_field.induct) (auto simp: expected_def split: sum.splits)
  have handlers: "\<exists>e. handleOrchestratorGet so c params s = (Inl e, s) \<and> expected e"
    "\<exists>e. handleOrchestratorSet so c params s = (Inl e, s) \<and> expected e"
    "\<exists>e. handleOrchestratorAck so c params s = (Inl e, s) \<and> expected e"
    "\<exists>e. handleTurnCompleted c params s = (Inl e, s) \<and> expected e" for params
  proof -
    show "\<exists>e. handleOrchestratorGet so c params s = (Inl e, s) \<and> expected e"
      unfolding handleOrchestratorGet_def by (rule validated) (simp add: absent)
    show "\<exists>e. handleOrchestratorSet so c params s = (Inl e, s) \<and> expected e"
      unfolding handleOrchestratorSet_def orchestratorSetLocked_def by (rule validated) (simp add: absent)
    show "\<exists>e. handleTurnCompleted c params s = (Inl e, s) \<and> expected e"
      unfolding handleTurnCompleted_def by (rule validated) (simp add: absent)
    show "\<exists>e. handleOrchestratorAck so c params s = (Inl e, s) \<and> expected e"
      unfolding handleOrchestratorAck_def
      by (rule validated, cases "number_field (so_int64 so) (map_of (asRecord params) ''eventId'')")
        (auto simp: absent fail_act_def dest: number)
  qed
  have "\<exists>e. dispatch so c request s = (Inl e, s) \<and> expected e"
    using request(2) handlers [of "qr_params request"] by (auto simp: dispatch_def Let_def)
  then obtain e where e: "dispatch so c request s = (Inl e, s)" "expected e" by blast
  have "\<not> is_panic e" using e(2) calm by (auto simp: expected_def errInvalidRPCParams_def is_panic_def)
  with e(1) assms(1,2) request(1) have "handleRequest so c message s
      = (Inr None, s\<lparr>sx_frames := sx_frames s @ [(c, rpc_response (qr_id request) (Inl (observabilityRPCError so e)))]\<rparr>)"
    by (simp add: handleRequest_def markTerminalActivity_def Let_def try_rpc_def catch_act_def bind_act_def read_act_def
      return_act_def respond_def enqueueAll_def modify_act_def)
  with e(2) show ?thesis unfolding expected_def by blast
qed

theorem unregistered_connection_refused_witness:
  "\<exists>e. handleRequest demo_server 5 (JObj [(''method'', JStr ''agent.orchestrator.get'')]) demo_start
     = (Inr None, demo_start\<lparr>sx_frames := [(5, rpc_response None (Inl (observabilityRPCError demo_server e)))]\<rparr>)"
proof -
  have start: "presence_of 5 demo_start = None" "5 \<notin> sx_destroyed demo_start" "sx_frames demo_start = []"
    "so_int64 demo_server n \<noteq> Inl e" for n e
    by (simp_all add: demo_start_def NewObservabilityRpcServer_def presence_of_def demo_server_def with_durations_def)
  have request: "qr_method (rpcRequestOf (JObj [(''method'', JStr ''agent.orchestrator.get'')])) = ''agent.orchestrator.get''"
    "qr_id (rpcRequestOf (JObj [(''method'', JStr ''agent.orchestrator.get'')])) = None"
    by (simp_all add: rpcRequestOf_def)
  from unregistered_connection_refused [OF start(1,2) _ refl, of demo_server "JObj [(''method'', JStr ''agent.orchestrator.get'')]"]
  show ?thesis using start(3,4) by (auto simp: request)
qed

end
