(* ===== verification/HistoryText.thy ===== *)
theory HistoryText
  imports Config RpcSchemas
begin

text \<open>
  The text functions of \<open>go/internal/agenthistory/text.go\<close>. A Go string is a byte string; \<open>for range\<close>
  over it yields runes, where a byte that starts no valid sequence is a rune U+FFFD one byte wide. Each
  rune is kept with the bytes it was read from. Lengths are counted in UTF-16 code units.
\<close>

subsection \<open>Runes\<close>

type_synonym rune = "nat \<times> string"

definition rune_error :: nat where "rune_error = 0xFFFD"

text \<open>The code point of a valid sequence.\<close>

fun code_point :: "nat list \<Rightarrow> nat" where
  "code_point [a] = a"
| "code_point [a, b] = (a mod 32) * 64 + b mod 64"
| "code_point [a, b, c] = (a mod 16) * 4096 + (b mod 64) * 64 + c mod 64"
| "code_point [a, b, c, d] = (a mod 8) * 262144 + (b mod 64) * 4096 + (c mod 64) * 64 + d mod 64"
| "code_point _ = rune_error"

function runes :: "string \<Rightarrow> rune list" where
  "runes [] = []"
| "runes (c # s) =
     (let n = rune_length (c # s)
      in if n = 0 then (rune_error, [c]) # runes s
         else (code_point (map of_char (take n (c # s))), take n (c # s)) # runes (drop n (c # s)))"
  by pat_completeness auto
termination by (relation "measure length") auto

declare runes.simps(2) [simp del]

definition rune_bytes :: "rune list \<Rightarrow> string" where
  "rune_bytes rs = concat (map snd rs)"

definition utf16_width :: "nat \<Rightarrow> nat" where
  "utf16_width r = (if 0x10000 \<le> r then 2 else 1)"

definition utf16Len :: "string \<Rightarrow> nat" where
  "utf16Len s = sum_list (map (\<lambda>r. utf16_width (fst r)) (runes s))"

definition CharCount :: "string \<Rightarrow> nat" where
  "CharCount s = length (runes s)"

subsection \<open>Trimming\<close>

definition isUnicodeSpace :: "nat \<Rightarrow> bool" where
  "isUnicodeSpace r \<longleftrightarrow> r = 0x1680 \<or> (0x2000 \<le> r \<and> r \<le> 0x200A) \<or> r = 0x202F \<or> r = 0x205F \<or> r = 0x3000"

definition js_space :: "nat \<Rightarrow> bool" where
  "js_space r \<longleftrightarrow> r \<in> {9, 10, 11, 12, 13, 32, 0xA0, 0xFEFF, 0x2028, 0x2029} \<or> isUnicodeSpace r"

definition trim_runes :: "rune list \<Rightarrow> rune list" where
  "trim_runes rs = (let blank = (\<lambda>r. js_space (fst r)) in rev (dropWhile blank (rev (dropWhile blank rs))))"

definition jsTrim :: "string \<Rightarrow> string" where
  "jsTrim s = rune_bytes (trim_runes (runes s))"

definition isJSBlank :: "string \<Rightarrow> bool" where
  "isJSBlank s \<longleftrightarrow> jsTrim s = []"

subsection \<open>Message contents\<close>

definition lines_joined :: "string list \<Rightarrow> string" where
  "lines_joined parts = join_with [newline] parts"

lemma map_of_size: "map_of kvs k = Some v \<Longrightarrow> size v < Suc (size_list (size_prod (\<lambda>_. 0) size) kvs)"
  by (induction kvs) (auto split: if_splits)

text \<open>The text of a content: the text itself, or the non-blank texts of its blocks; thinking has none.\<close>

function (sequential) TextFromContent :: "jval \<Rightarrow> string option" and textFromBlock :: "jval \<Rightarrow> string" where
  "TextFromContent (JStr s) = Some s"
| "TextFromContent (JArr blocks) =
     (let parts = filter (\<lambda>part. \<not> isJSBlank part) (map textFromBlock blocks)
      in if parts \<noteq> [] then Some (lines_joined parts) else None)"
| "TextFromContent _ = None"
| "textFromBlock (JStr s) = s"
| "textFromBlock (JObj kvs) =
     (let typeName = as_string (map_of kvs ''type'')
      in if typeName = Some ''thinking'' \<or> typeName = Some ''reasoning'' then []
         else case as_string (map_of kvs ''text'') of
             Some text \<Rightarrow> text
           | None \<Rightarrow> (case map_of kvs ''content'' of
               Some (JStr content) \<Rightarrow> content
             | Some (JArr content) \<Rightarrow> (case TextFromContent (JArr content) of None \<Rightarrow> [] | Some text \<Rightarrow> text)
             | _ \<Rightarrow> []))"
| "textFromBlock _ = []"
  by pat_completeness auto
termination
  apply (relation "measure (\<lambda>x. case x of Inl v \<Rightarrow> size v | Inr v \<Rightarrow> size v)")
    apply simp_all
   apply (meson less_Suc_eq_le size_list_estimation' order_refl)
  apply (drule map_of_size)
  apply simp
  done

subsection \<open>Truncation\<close>

text \<open>
  How many bytes are kept: the loop ends before the first rune that exceeds the units. The end of a
  rune is computed from the width the rune is encoded with, which is 3 for a byte that is no rune.
\<close>

definition RuneLen :: "nat \<Rightarrow> nat" where
  "RuneLen r = (if r < 0x80 then 1 else if r < 0x800 then 2 else if r < 0x10000 then 3 else 4)"

fun kept_bytes :: "nat \<Rightarrow> nat \<Rightarrow> nat \<Rightarrow> nat \<Rightarrow> rune list \<Rightarrow> nat" where
  "kept_bytes keep count index next_index [] = next_index"
| "kept_bytes keep count index next_index ((r, bytes) # rs) =
     (if keep < count + utf16_width r then next_index
      else kept_bytes keep (count + utf16_width r) (index + length bytes) (index + RuneLen r) rs)"

definition TruncateChars :: "string \<Rightarrow> nat \<Rightarrow> string" where
  "TruncateChars text maxChars =
     (if utf16Len text \<le> maxChars then text
      else take (kept_bytes (maxChars - 3) 0 0 0 (runes text)) text @ ''...'')"

subsection \<open>References, slugs and time stamps\<close>

definition MessageRef :: "string \<Rightarrow> string option \<Rightarrow> int \<Rightarrow> string" where
  "MessageRef path entry_id line =
     (case entry_id of
        Some i \<Rightarrow> if i \<noteq> [] then path @ ''#entry='' @ i else path @ ''#line='' @ FormatInt line
      | None \<Rightarrow> path @ ''#line='' @ FormatInt line)"

definition PathToPiSessionSlug :: "string \<Rightarrow> string" where
  "PathToPiSessionSlug cwd = map (\<lambda>c. if c = CHR ''/'' then CHR ''-'' else c) cwd"

text \<open>
  A dynamic value (\<open>any\<close>): what JSON decodes to and what a SQLite column holds. A value of any other
  type is known by how \<open>fmt.Sprint\<close> writes it.
\<close>

datatype dynamic =
  DynNil | DynBool bool | DynInt int | DynFloat fnum | DynString string | DynBytes string | DynOther string

definition dynamic_json :: "jval option \<Rightarrow> dynamic" where
  "dynamic_json v =
     (case v of Some (JStr s) \<Rightarrow> DynString s | Some (JNum n) \<Rightarrow> DynFloat (Fin n) | Some (JBool b) \<Rightarrow> DynBool b
      | _ \<Rightarrow> DynNil)"

text \<open>The conversion of a float to \<open>int64\<close> truncates; out of range it gives the least integer.\<close>

definition fl_truncate :: "rat \<Rightarrow> int" where
  "fl_truncate q = (if 0 \<le> q then \<lfloor>q\<rfloor> else - \<lfloor>- q\<rfloor>)"

definition fl_int64 :: "rat \<Rightarrow> int" where
  "fl_int64 q = (let i = fl_truncate q in if - (2 ^ 63) \<le> i \<and> i < 2 ^ 63 then i else - (2 ^ 63))"

text \<open>\<open>time.UnixMilli(ms).UTC().Format("2006-01-02T15:04:05.000Z")\<close>: the Gregorian calendar.\<close>

definition padded :: "nat \<Rightarrow> int \<Rightarrow> string" where
  "padded width n =
     (let digits = nat_digits (nat \<bar>n\<bar>)
      in (if n < 0 then ''-'' else []) @ replicate (width - length digits) (CHR ''0'') @ digits)"

text \<open>Year, month and day of a day number, counted from 1970-01-01, over eras of 400 years.\<close>

definition civil_date :: "int \<Rightarrow> int \<times> int \<times> int" where
  "civil_date days =
     (let z = days + 719468; era = z div 146097; doe = z mod 146097;
          yoe = (doe - doe div 1460 + doe div 36524 - doe div 146096) div 365;
          doy = doe - (365 * yoe + yoe div 4 - yoe div 100);
          mp = (5 * doy + 2) div 153;
          day = doy - (153 * mp + 2) div 5 + 1;
          month = (if mp < 10 then mp + 3 else mp - 9)
      in (yoe + era * 400 + (if month \<le> 2 then 1 else 0), month, day))"

definition format_millis :: "int \<Rightarrow> string" where
  "format_millis ms =
     (let days = ms div 86400000; rest = ms mod 86400000
      in case civil_date days of (year, month, day) \<Rightarrow>
        padded 4 year @ ''-'' @ padded 2 month @ ''-'' @ padded 2 day @ ''T''
        @ padded 2 (rest div 3600000) @ '':'' @ padded 2 (rest div 60000 mod 60) @ '':''
        @ padded 2 (rest div 1000 mod 60) @ ''.'' @ padded 3 (rest mod 1000) @ ''Z'')"

definition TimestampFrom :: "dynamic \<Rightarrow> string option" where
  "TimestampFrom v =
     (case v of
        DynString s \<Rightarrow> if s \<noteq> [] then Some s else None
      | DynFloat (Fin q) \<Rightarrow> Some (format_millis (fl_int64 q))
      | DynInt i \<Rightarrow> Some (format_millis i)
      | _ \<Rightarrow> None)"

end
