(* ===== verification/HistoryRedact.thy ===== *)
theory HistoryRedact
  imports HistoryText
begin

text \<open>
  The redaction of secrets in \<open>go/internal/agenthistory/text.go\<close>, and the part of Go's \<open>regexp\<close> the
  package uses: leftmost matches, of which the first in the order of preference counts. A repetition is
  always of one class of runes. Under \<open>(?i)\<close> a letter also stands for its simple case foldings, which
  for k and s include one rune outside ASCII.
\<close>

subsection \<open>Regular expressions\<close>

datatype rx =
  RxEmpty | RxRune "nat \<Rightarrow> bool" | RxMany nat "nat \<Rightarrow> bool" | RxBoundary | RxBegin | RxThen rx rx | RxOr rx rx

definition word_rune :: "nat \<Rightarrow> bool" where
  "word_rune r \<longleftrightarrow> (48 \<le> r \<and> r \<le> 57) \<or> (65 \<le> r \<and> r \<le> 90) \<or> r = 95 \<or> (97 \<le> r \<and> r \<le> 122)"

definition space_rune :: "nat \<Rightarrow> bool" where "space_rune r \<longleftrightarrow> r \<in> {9, 10, 12, 13, 32}"

definition digit_rune :: "nat \<Rightarrow> bool" where "digit_rune r \<longleftrightarrow> 48 \<le> r \<and> r \<le> 57"

definition word_at :: "nat option \<Rightarrow> bool" where
  "word_at r = (case r of None \<Rightarrow> False | Some c \<Rightarrow> word_rune c)"

definition next_rune :: "nat list \<Rightarrow> nat option" where
  "next_rune s = (case s of [] \<Rightarrow> None | r # _ \<Rightarrow> Some r)"

definition previous_rune :: "nat option \<Rightarrow> nat list \<Rightarrow> nat option" where
  "previous_rune prev taken = (if taken = [] then prev else Some (last taken))"

text \<open>How many runes a match at the front can take, the preferred one first.\<close>

fun rx_matches :: "rx \<Rightarrow> nat option \<Rightarrow> nat list \<Rightarrow> nat list" where
  "rx_matches RxEmpty prev s = [0]"
| "rx_matches (RxRune P) prev s = (case s of r # _ \<Rightarrow> if P r then [1] else [] | [] \<Rightarrow> [])"
| "rx_matches (RxMany n P) prev s = rev [n..<Suc (length (takeWhile P s))]"
| "rx_matches RxBoundary prev s = (if word_at prev \<noteq> word_at (next_rune s) then [0] else [])"
| "rx_matches RxBegin prev s = (if prev = None then [0] else [])"
| "rx_matches (RxThen a b) prev s =
     concat (map (\<lambda>i. map ((+) i) (rx_matches b (previous_rune prev (take i s)) (drop i s))) (rx_matches a prev s))"
| "rx_matches (RxOr a b) prev s = rx_matches a prev s @ rx_matches b prev s"

text \<open>\<open>MatchString\<close>.\<close>

fun rx_found :: "rx \<Rightarrow> nat option \<Rightarrow> nat list \<Rightarrow> bool" where
  "rx_found e prev [] = (rx_matches e prev [] \<noteq> [])"
| "rx_found e prev (r # rs) = (rx_matches e prev (r # rs) \<noteq> [] \<or> rx_found e (Some r) rs)"

definition MatchString :: "rx \<Rightarrow> string \<Rightarrow> bool" where
  "MatchString e s = rx_found e None (map fst (runes s))"

definition folds :: "char \<Rightarrow> nat \<Rightarrow> bool" where
  "folds c r \<longleftrightarrow>
     (let n = of_char c :: nat; lower = (if 65 \<le> n \<and> n \<le> 90 then n + 32 else n)
      in r = lower \<or> (97 \<le> lower \<and> lower \<le> 122 \<and> r + 32 = lower)
         \<or> (lower = 107 \<and> r = 0x212A) \<or> (lower = 115 \<and> r = 0x17F))"

definition rx_folded :: "string \<Rightarrow> rx" where
  "rx_folded s = foldr (\<lambda>c. RxThen (RxRune (folds c))) s RxEmpty"

definition rx_exact :: "string \<Rightarrow> rx" where
  "rx_exact s = foldr (\<lambda>c. RxThen (RxRune (\<lambda>r. r = of_char c))) s RxEmpty"

subsection \<open>Redaction\<close>

text \<open>A pattern: what is kept of a match, what is dropped, and what is written for a match.\<close>

record redaction =
  rd_prefix :: rx
  rd_secret :: rx
  rd_replacement :: "string \<Rightarrow> string"

definition keep_prefix :: "string \<Rightarrow> string" where "keep_prefix kept = kept @ ''[REDACTED]''"

definition token_runes :: "nat \<Rightarrow> bool" where
  "token_runes r \<longleftrightarrow> word_rune r \<or> r \<in> {43, 45, 46, 47, 61, 0x212A, 0x17F}"

definition value_rune :: "nat \<Rightarrow> bool" where
  "value_rune r \<longleftrightarrow> \<not> space_rune r \<and> r \<noteq> 38"

definition assignment :: "string \<Rightarrow> redaction" where
  "assignment name =
     \<lparr>rd_prefix = RxThen RxBoundary (rx_folded name), rd_secret = RxMany 1 value_rune, rd_replacement = keep_prefix\<rparr>"

definition redactionPatterns :: "redaction list" where
  "redactionPatterns =
     [\<lparr>rd_prefix = RxThen (rx_folded ''Authorization:'')
         (RxThen (RxMany 0 space_rune) (RxThen (rx_folded ''Bearer'') (RxMany 1 space_rune))),
       rd_secret = RxMany 1 (\<lambda>r. \<not> space_rune r), rd_replacement = keep_prefix\<rparr>,
      \<lparr>rd_prefix = RxThen RxBoundary (RxThen (rx_folded ''Bearer'') (RxMany 1 space_rune)),
       rd_secret = RxMany 1 token_runes, rd_replacement = keep_prefix\<rparr>,
      assignment ''token='', assignment ''password='', assignment ''secret='', assignment ''api_key='']"

definition sk_rune :: "nat \<Rightarrow> bool" where "sk_rune r \<longleftrightarrow> word_rune r \<or> r = 45"

definition skTokenPattern :: redaction where
  "skTokenPattern =
     \<lparr>rd_prefix = RxThen RxBoundary (rx_exact ''sk-''), rd_secret = RxMany 8 sk_rune,
      rd_replacement = (\<lambda>_. ''sk-[REDACTED]'')\<rparr>"

definition first_match :: "redaction \<Rightarrow> nat option \<Rightarrow> nat list \<Rightarrow> (nat \<times> nat) option" where
  "first_match p prev s =
     (case concat (map (\<lambda>i. map (\<lambda>j. (i, i + j))
             (rx_matches (rd_secret p) (previous_rune prev (take i s)) (drop i s)))
           (rx_matches (rd_prefix p) prev s)) of [] \<Rightarrow> None | m # _ \<Rightarrow> Some m)"

text \<open>
  \<open>replaceAllStringSubmatch\<close> over the runes of a text; the flag says whether anything matched. No
  pattern matches the empty text, so each match makes progress.
\<close>

function replace_matches :: "redaction \<Rightarrow> nat option \<Rightarrow> rune list \<Rightarrow> bool \<times> string" where
  "replace_matches p prev [] = (False, [])"
| "replace_matches p prev (r # rs) =
     (case first_match p prev (map fst (r # rs)) of
        Some (i, n) \<Rightarrow>
          if n = 0 then (case replace_matches p (Some (fst r)) rs of (hit, rest) \<Rightarrow> (True, snd r @ rest))
          else (case replace_matches p (previous_rune prev (map fst (take n (r # rs)))) (drop n (r # rs)) of
              (hit, rest) \<Rightarrow> (True, rd_replacement p (rune_bytes (take i (r # rs))) @ rest))
      | None \<Rightarrow> (case replace_matches p (Some (fst r)) rs of (hit, rest) \<Rightarrow> (hit, snd r @ rest)))"
  by pat_completeness auto
termination by (relation "measure (\<lambda>(p, prev, rs). length rs)") auto

declare replace_matches.simps(2) [simp del]

record SanitizeResult =
  sz_Redacted :: bool
  sz_Text :: string

definition redact_step :: "redaction \<Rightarrow> SanitizeResult \<Rightarrow> SanitizeResult" where
  "redact_step p acc =
     (case replace_matches p None (runes (sz_Text acc)) of
        (hit, text) \<Rightarrow> \<lparr>sz_Redacted = sz_Redacted acc \<or> hit, sz_Text = text\<rparr>)"

definition SanitizeString :: "string \<Rightarrow> SanitizeResult" where
  "SanitizeString text =
     redact_step skTokenPattern (foldl (\<lambda>acc p. redact_step p acc) \<lparr>sz_Redacted = False, sz_Text = text\<rparr> redactionPatterns)"

text \<open>A value that is not a text is redacted in its JSON form; \<open>marshal\<close> and \<open>unmarshal\<close> are \<open>encoding/json\<close>.\<close>

definition SanitizeText :: "(jval \<Rightarrow> string option) \<Rightarrow> (jval \<Rightarrow> string) \<Rightarrow> jval \<Rightarrow> SanitizeResult" where
  "SanitizeText marshal sprint v =
     SanitizeString (case v of JStr text \<Rightarrow> text
       | _ \<Rightarrow> (case marshal v of Some encoded \<Rightarrow> encoded | None \<Rightarrow> sprint v))"

definition SanitizeJSON ::
    "(string \<Rightarrow> jval option) \<Rightarrow> (jval \<Rightarrow> string option) \<Rightarrow> (jval \<Rightarrow> string) \<Rightarrow> string \<Rightarrow> SanitizeResult" where
  "SanitizeJSON unmarshal marshal sprint raw =
     (case unmarshal raw of None \<Rightarrow> SanitizeString raw | Some v \<Rightarrow> SanitizeText marshal sprint v)"

end
