(* ===== verification/HistoryRedactLaws.thy ===== *)
theory HistoryRedactLaws
  imports HistoryRedact
begin

text \<open>
  What the redaction guarantees. The tokens that start with \<open>sk-\<close> are redacted last, and no such token is
  left in the result, wherever it stood and whatever the earlier patterns made of the text around it.
\<close>

subsection \<open>Runes and their bytes\<close>

text \<open>An ASCII rune is its one byte; the bytes of any other rune are outside ASCII.\<close>

definition proper_rune :: "rune \<Rightarrow> bool" where
  "proper_rune r \<longleftrightarrow> (if fst r < 128 then snd r = [char_of (fst r)]
     else snd r \<noteq> [] \<and> list_all (\<lambda>c. 128 \<le> (of_char c :: nat)) (snd r))"

lemma mod_offset: "m * c \<le> x \<Longrightarrow> x < m * c + m \<Longrightarrow> x mod m = x - m * c" for x m c :: nat
  by (metis add.commute le_add_diff_inverse less_diff_conv2 mod_less mod_mult_self2)

lemma low_bits:
  fixes x :: nat
  shows "194 \<le> x \<Longrightarrow> x \<le> 223 \<Longrightarrow> 2 \<le> x mod 32" and "225 \<le> x \<Longrightarrow> x \<le> 239 \<Longrightarrow> 1 \<le> x mod 16"
    and "160 \<le> x \<Longrightarrow> x \<le> 191 \<Longrightarrow> 32 \<le> x mod 64" and "241 \<le> x \<Longrightarrow> x \<le> 244 \<Longrightarrow> 1 \<le> x mod 8"
    and "144 \<le> x \<Longrightarrow> x \<le> 191 \<Longrightarrow> 16 \<le> x mod 64"
  using mod_offset [of 32 6 x] mod_offset [of 16 14 x] mod_offset [of 64 2 x] mod_offset [of 8 30 x] by simp_all

lemma wide_code_points:
  fixes x y z w :: nat
  shows "194 \<le> x \<Longrightarrow> x \<le> 223 \<Longrightarrow> 128 \<le> x mod 32 * 64 + y"
    and "224 \<le> x \<Longrightarrow> x \<le> 239 \<Longrightarrow> (x = 224 \<Longrightarrow> 160 \<le> y \<and> y \<le> 191) \<Longrightarrow> 2048 \<le> x mod 16 * 4096 + y mod 64 * 64 + z"
    and "240 \<le> x \<Longrightarrow> x \<le> 244 \<Longrightarrow> (x = 240 \<Longrightarrow> 144 \<le> y \<and> y \<le> 191)
      \<Longrightarrow> 65536 \<le> x mod 8 * 262144 + y mod 64 * 4096 + z + w"
  subgoal using low_bits(1) [of x] by linarith
  subgoal using low_bits(2) [of x] low_bits(3) [of y] by (cases "x = 224") linarith+
  subgoal using low_bits(4) [of x] low_bits(5) [of y] by (cases "x = 240") linarith+
  done

lemma small_code_points:
  fixes x y z :: nat
  shows "x mod 32 * 64 + y mod 64 < 2048" and "x mod 16 * 4096 + y mod 64 * 64 + z mod 64 < 65536"
proof -
  have "x mod 32 < 32" "y mod 64 < 64" "z mod 64 < 64" "x mod 16 < 16" by simp_all
  then show "x mod 32 * 64 + y mod 64 < 2048" and "x mod 16 * 4096 + y mod 64 * 64 + z mod 64 < 65536" by linarith+
qed

lemma RuneLen_range:
  "128 \<le> r \<Longrightarrow> r < 2048 \<Longrightarrow> RuneLen r = 2" "2048 \<le> r \<Longrightarrow> r < 65536 \<Longrightarrow> RuneLen r = 3" "65536 \<le> r \<Longrightarrow> RuneLen r = 4"
  by (simp_all add: RuneLen_def)

lemma rune_length_cases:
  assumes "rune_length (c # s) = n" "n \<noteq> 0"
  obtains "n = 1" "(of_char c :: nat) < 128"
    | "1 < n" "n \<le> length (c # s)" "128 \<le> code_point (map of_char (take n (c # s)))"
      "list_all (\<lambda>c. 128 \<le> (of_char c :: nat)) (take n (c # s))" "RuneLen (code_point (map of_char (take n (c # s)))) = n"
proof (cases "between 0 0x7F c")
  case True
  then show ?thesis using assms that(1) by (simp add: between_def)
next
  case False
  then obtain b s1 where s: "s = b # s1" using assms by (cases s) auto
  show ?thesis
  proof (cases "between 0xC2 0xDF c")
    case two: True
    then have "continuation b" "n = 2" using assms False s by (auto split: if_splits)
    then show ?thesis using two s that(2) wide_code_points(1) small_code_points(1)
      by (auto simp: RuneLen_range between_def continuation_def)
  next
    case not2: False
    then obtain c' s2 where s1: "s1 = c' # s2" using assms False s by (cases s1) auto
    show ?thesis
    proof (cases "between 0xE0 0xEF c")
      case three: True
      then have "second_ok c b" "continuation c'" "n = 3" using assms False not2 s s1 by (auto split: if_splits)
      then have "(224::nat) \<le> of_char c" "of_char c \<le> (239::nat)"
        "of_char c = (224::nat) \<Longrightarrow> 160 \<le> (of_char b :: nat) \<and> of_char b \<le> (191::nat)"
        and bytes: "128 \<le> (of_char b :: nat)" "128 \<le> (of_char c' :: nat)"
        using three by (auto simp: between_def continuation_def second_ok_def split: if_splits)
      then have "2048 \<le> code_point (map of_char [c, b, c'])" "code_point (map of_char [c, b, c']) < 65536"
        using wide_code_points(2) small_code_points(2) by simp_all
      then show ?thesis using bytes \<open>n = 3\<close> \<open>(224::nat) \<le> of_char c\<close> s s1
        by (intro that(2)) (simp_all add: RuneLen_range(2) del: code_point.simps)
    next
      case not3: False
      then obtain d s3 where s2: "s2 = d # s3" using assms False not2 s s1 by (cases s2) auto
      then have "between 0xF0 0xF4 c" "second_ok c b" "continuation c'" "continuation d" "n = 4"
        using assms False not2 not3 s s1 by (auto split: if_splits)
      then have "(240::nat) \<le> of_char c" "of_char c \<le> (244::nat)"
        "of_char c = (240::nat) \<Longrightarrow> 144 \<le> (of_char b :: nat) \<and> of_char b \<le> (191::nat)"
        and bytes: "128 \<le> (of_char b :: nat)" "128 \<le> (of_char c' :: nat)" "128 \<le> (of_char d :: nat)"
        by (auto simp: between_def continuation_def second_ok_def split: if_splits)
      then have "65536 \<le> code_point (map of_char [c, b, c', d])"
        using wide_code_points(3) by (simp add: add.assoc)
      then show ?thesis using bytes \<open>n = 4\<close> \<open>(240::nat) \<le> of_char c\<close> s s1 s2
        by (intro that(2)) (simp_all add: RuneLen_range(3) del: code_point.simps)
    qed
  qed
qed

lemma runes_proper: "list_all proper_rune (runes s)"
proof (induction s rule: runes.induct)
  case (2 c s)
  define n where "n = rune_length (c # s)"
  show ?case
  proof (cases "n = 0")
    case True
    then have "\<not> (of_char c :: nat) < 128" by (auto simp: n_def between_def)
    then have "proper_rune (rune_error, [c])" by (simp add: proper_rune_def rune_error_def)
    then show ?thesis using True 2(1) [OF n_def] by (subst runes.simps) (simp add: n_def Let_def del: rune_length.simps)
  next
    case False
    have rest: "list_all proper_rune (runes (drop n (c # s)))" using 2(2) [OF n_def False] .
    have "proper_rune (code_point (map of_char (take n (c # s))), take n (c # s))"
      using n_def [symmetric] False by (rule rune_length_cases) (auto simp: proper_rune_def)
    then show ?thesis using False rest by (subst runes.simps) (simp add: n_def Let_def del: rune_length.simps)
  qed
qed simp

subsection \<open>Tokens\<close>

definition sk_char :: "char \<Rightarrow> bool" where "sk_char c \<longleftrightarrow> sk_rune (of_char c)"

definition sk_run :: "rune list \<Rightarrow> nat list" where "sk_run rs = takeWhile sk_rune (map fst rs)"

lemma token_chars: "char_of (115 :: nat) = CHR ''s''" "char_of (107 :: nat) = CHR ''k''" "char_of (45 :: nat) = CHR ''-''"
  using char_of_char [of "CHR ''s''", where ?'a = nat] char_of_char [of "CHR ''k''", where ?'a = nat]
    char_of_char [of "CHR ''-''", where ?'a = nat] by simp_all

text \<open>A match of the token pattern, spelled out: it takes the longest run.\<close>

lemma sk_match:
  "first_match skTokenPattern prev s =
     (if \<not> word_at prev \<and> take 3 s = [115, 107, 45] \<and> 8 \<le> length (takeWhile sk_rune (drop 3 s))
      then Some (3, 3 + length (takeWhile sk_rune (drop 3 s))) else None)"
proof -
  have prefix: "rx_matches (rd_prefix skTokenPattern) prev s = (if \<not> word_at prev \<and> take 3 s = [115, 107, 45] then [3] else [])"
    by (cases s rule: remdups_adj.cases; cases "tl (tl s)")
      (auto simp: skTokenPattern_def rx_exact_def next_rune_def word_at_def word_rune_def)
  have many: "rx_matches (RxMany 8 sk_rune) p r = (if 8 \<le> length (takeWhile sk_rune r)
      then length (takeWhile sk_rune r) # rev [8..<length (takeWhile sk_rune r)] else [])" for p r
    by simp
  show ?thesis unfolding first_match_def prefix by (simp add: many skTokenPattern_def del: rx_matches.simps)
qed

lemma sk_run_Cons: "sk_run (r # rs) = (if sk_rune (fst r) then fst r # sk_run rs else [])"
  by (simp add: sk_run_def)

lemma sk_rune_ascii: "sk_rune n \<Longrightarrow> n < 128"
  by (auto simp: sk_rune_def word_rune_def)

lemma proper_head:
  assumes "proper_rune r"
  shows "sk_rune (fst r) \<Longrightarrow> snd r = [char_of (fst r)]"
    and "\<not> sk_rune (fst r) \<Longrightarrow> \<exists>c cs. snd r = c # cs \<and> \<not> sk_char c"
  using assms sk_rune_ascii [of "fst r"] sk_rune_ascii [of "of_char (hd (snd r))"]
  by (cases "snd r"; auto simp: proper_rune_def sk_char_def split: if_splits)+

definition redacted :: "nat option \<Rightarrow> rune list \<Rightarrow> string" where
  "redacted prev rs = snd (replace_matches skTokenPattern prev rs)"

lemma redacted_Nil [simp]: "redacted prev [] = []"
  by (simp add: redacted_def)

lemma redacted_copy: "first_match skTokenPattern prev (map fst (r # rs)) = None \<Longrightarrow> redacted prev (r # rs) = snd r @ redacted (Some (fst r)) rs"
  by (simp add: redacted_def replace_matches.simps split: prod.split)

lemma redacted_match:
  "first_match skTokenPattern prev (map fst (r # rs)) = Some (i, n) \<Longrightarrow> n \<noteq> 0 \<Longrightarrow>
     redacted prev (r # rs) = ''sk-[REDACTED]'' @ redacted (previous_rune prev (map fst (take n (r # rs)))) (drop n (r # rs))"
  by (simp add: redacted_def replace_matches.simps skTokenPattern_def split: prod.split)

text \<open>The run at the front of the result is a part of the run that was there before.\<close>

lemma redacted_run:
  "list_all proper_rune rs \<Longrightarrow> \<exists>more. map char_of (sk_run rs) = takeWhile sk_char (redacted prev rs) @ more"
proof (induction rs arbitrary: prev)
  case (Cons r rs)
  then have r: "proper_rune r" and rs: "list_all proper_rune rs" by auto
  show ?case
  proof (cases "first_match skTokenPattern prev (map fst (r # rs))")
    case None
    show ?thesis
    proof (cases "sk_rune (fst r)")
      case True
      then show ?thesis using Cons.IH [OF rs, of "Some (fst r)"] proper_head(1) [OF r True]
        by (auto simp: redacted_copy [OF None] sk_run_Cons sk_char_def)
    next
      case False
      then show ?thesis using proper_head(2) [OF r] by (auto simp: redacted_copy [OF None] sk_run_Cons)
    qed
  next
    case (Some m)
    then obtain n where n: "first_match skTokenPattern prev (map fst (r # rs)) = Some (3, n)" "n \<noteq> 0"
      and front: "take 3 (map fst (r # rs)) = [115, 107, 45]"
      by (auto simp: sk_match split: if_splits)
    obtain later where "map fst (r # rs) = [115, 107, 45] @ later"
      using append_take_drop_id [of 3 "map fst (r # rs)"] front by metis
    then have "map char_of (sk_run (r # rs)) = ''sk-'' @ map char_of (takeWhile sk_rune later)"
      by (simp add: sk_run_def sk_rune_def word_rune_def token_chars)
    then show ?thesis by (simp add: redacted_match [OF n] sk_char_def sk_rune_def word_rune_def)
  qed
qed (simp add: sk_run_def)

text \<open>Whether a token starts at the front of a text, and whether one starts anywhere in it.\<close>

definition token_start :: "string \<Rightarrow> bool" where
  "token_start s \<longleftrightarrow> take 3 s = ''sk-'' \<and> 11 \<le> length (takeWhile sk_char s)"

fun token_free :: "bool \<Rightarrow> string \<Rightarrow> bool" where
  "token_free after_word [] = True"
| "token_free after_word (c # s) = (\<not> (\<not> after_word \<and> token_start (c # s)) \<and> token_free (word_rune (of_char c)) s)"

lemma not_token_start: "\<not> sk_char c \<Longrightarrow> \<not> token_start (c # s)"
  by (simp add: token_start_def)

lemma token_free_other_start: "s = [] \<or> \<not> sk_char (hd s) \<Longrightarrow> token_free a s = token_free b s"
  by (cases s) (auto simp: not_token_start)

lemma token_free_wide:
  "list_all (\<lambda>c. 128 \<le> (of_char c :: nat)) w \<Longrightarrow> w \<noteq> [] \<Longrightarrow> token_free a (w @ s) = token_free False s"
proof (induction w arbitrary: a)
  case (Cons c w)
  then have c: "\<not> sk_char c" "\<not> word_rune (of_char c)" by (auto simp: sk_char_def sk_rune_def word_rune_def)
  then show ?case using Cons by (cases w) (auto simp: not_token_start)
qed simp

lemma token_free_placeholder: "token_free a (''sk-[REDACTED]'' @ s) = token_free False s"
  by (simp add: token_start_def sk_char_def sk_rune_def word_rune_def)

lemma token_start_match:
  assumes proper: "list_all proper_rune rs" and start: "token_start (redacted prev rs)" and w: "\<not> word_at prev"
  shows "first_match skTokenPattern prev (map fst rs) \<noteq> None"
proof -
  let ?w = "takeWhile sk_char (redacted prev rs)"
  obtain more where more: "map char_of (sk_run rs) = ?w @ more" using redacted_run [OF proper] by blast
  have long: "11 \<le> length ?w" using start by (simp add: token_start_def)
  have "take 3 (?w @ dropWhile sk_char (redacted prev rs)) = take 3 ?w" using long by (simp del: takeWhile_dropWhile_id)
  then have "take 3 ?w = ''sk-''" using start by (simp add: token_start_def)
  then have chars: "map char_of (take 3 (sk_run rs)) = ''sk-''" using long by (simp add: more flip: take_map)
  have run: "11 \<le> length (sk_run rs)" using arg_cong [OF more, of length] long by simp
  have "\<forall>n \<in> set (sk_run rs). n < 128" by (auto simp: sk_run_def dest!: set_takeWhileD sk_rune_ascii)
  then have "map of_char (map char_of (take 3 (sk_run rs)) :: string) = take 3 (sk_run rs)"
    by (auto intro!: map_idI simp: take_bit_nat_eq_self dest!: in_set_takeD)
  then have three: "take 3 (sk_run rs) = [115, 107, 45]" by (simp add: chars)
  have "take 3 (sk_run rs @ dropWhile sk_rune (map fst rs)) = [115, 107, 45]" using run by (simp add: three)
  then have "take 3 (map fst rs) = [115, 107, 45]" by (simp add: sk_run_def)
  then obtain later where later: "map fst rs = [115, 107, 45] @ later" by (metis append_take_drop_id)
  then have "sk_run rs = [115, 107, 45] @ takeWhile sk_rune later" by (simp add: sk_run_def sk_rune_def word_rune_def)
  then have "8 \<le> length (takeWhile sk_rune later)" using run by simp
  then show ?thesis using w by (simp add: sk_match later)
qed

lemma redacted_after_run:
  assumes "list_all proper_rune rs" "rs = [] \<or> \<not> sk_rune (fst (hd rs))"
  shows "redacted prev rs = [] \<or> \<not> sk_char (hd (redacted prev rs))"
proof (cases rs)
  case (Cons r rest)
  then have "first_match skTokenPattern prev (map fst (r # rest)) = None"
    using assms by (auto simp: sk_match sk_rune_def word_rune_def)
  then show ?thesis using assms Cons proper_head(2) [of r] by (auto simp: redacted_copy)
qed simp

lemma redacted_free: "list_all proper_rune rs \<Longrightarrow> token_free (word_at prev) (redacted prev rs)"
proof (induction rs arbitrary: prev rule: length_induct)
  case (1 rs)
  show ?case
  proof (cases rs)
    case (Cons r rest)
    with 1(2) have r: "proper_rune r" and rest: "list_all proper_rune rest" by auto
    show ?thesis
    proof (cases "first_match skTokenPattern prev (map fst (r # rest))")
      case None
      have later: "token_free (word_at (Some (fst r))) (redacted (Some (fst r)) rest)" using 1(1) rest Cons by simp
      show ?thesis
      proof (cases "fst r < 128")
        case True
        then have byte: "snd r = [char_of (fst r)]" and n: "of_char (char_of (fst r) :: char) = fst r"
          using r by (simp_all add: proper_rune_def take_bit_nat_eq_self)
        have "\<not> (\<not> word_at prev \<and> token_start (char_of (fst r) # redacted (Some (fst r)) rest))"
          using token_start_match [of "r # rest" prev] None r rest by (auto simp: redacted_copy [OF None] byte)
        then show ?thesis using later True by (simp add: Cons redacted_copy [OF None] byte word_at_def)
      next
        case False
        then have "snd r \<noteq> []" "list_all (\<lambda>c. 128 \<le> (of_char c :: nat)) (snd r)" using r by (simp_all add: proper_rune_def)
        moreover have "\<not> word_at (Some (fst r))" using False by (simp add: word_at_def word_rune_def)
        ultimately show ?thesis using later by (simp add: Cons redacted_copy [OF None] token_free_wide)
      qed
    next
      case (Some m)
      let ?n = "3 + length (takeWhile sk_rune (drop 3 (map fst rs)))"
      let ?p = "previous_rune prev (map fst (take ?n rs))" and ?tail = "drop ?n rs"
      from Some have hit: "first_match skTokenPattern prev (map fst (r # rest)) = Some (3, ?n)"
        by (auto simp: sk_match Cons split: if_splits)
      have "map fst ?tail = dropWhile sk_rune (drop 3 (map fst rs))"
        by (simp add: dropWhile_eq_drop drop_map add.commute)
      then have after: "?tail = [] \<or> \<not> sk_rune (fst (hd ?tail))"
        by (metis hd_dropWhile hd_map list.map_disc_iff)
      have proper: "list_all proper_rune ?tail" using 1(2) by (auto simp: list_all_iff dest: in_set_dropD)
      have "token_free (word_at ?p) (redacted ?p ?tail)" using 1(1) proper Cons by simp
      then have "token_free False (redacted ?p ?tail)"
        using token_free_other_start [OF redacted_after_run [OF proper after]] by blast
      then show ?thesis using redacted_match [OF hit] by (simp add: Cons token_free_placeholder del: append.simps)
    qed
  qed simp
qed

lemma token_free_everywhere:
  "token_free a (u @ s) \<Longrightarrow> u \<noteq> [] \<and> \<not> word_rune (of_char (last u)) \<or> u = [] \<and> \<not> a \<Longrightarrow> \<not> token_start s"
proof (induction u arbitrary: a)
  case Nil
  then show ?case by (cases s) (auto simp: token_start_def)
next
  case (Cons c u)
  then show ?case by (cases u) auto
qed

text \<open>
  C32: In a redacted text no token \<open>sk-\<close> followed by eight or more letters, digits, dashes or underscores is
  left, unless a letter, digit or underscore stands right before it, whatever the text was and whatever the
  other patterns replaced around it.
\<close>

theorem sanitized_text_has_no_token:
  "\<not> (\<exists>u w v. sz_Text (SanitizeString text) = u @ ''sk-'' @ w @ v \<and> length w = 8 \<and> list_all sk_char w
        \<and> (u = [] \<or> \<not> word_rune (of_char (last u))))"
proof
  assume "\<exists>u w v. sz_Text (SanitizeString text) = u @ ''sk-'' @ w @ v \<and> length w = 8 \<and> list_all sk_char w
        \<and> (u = [] \<or> \<not> word_rune (of_char (last u)))"
  then obtain u w v where t: "sz_Text (SanitizeString text) = u @ ''sk-'' @ w @ v" and w: "length w = 8" "list_all sk_char w"
    and u: "u = [] \<or> \<not> word_rune (of_char (last u))" by blast
  have last_step: "sz_Text (redact_step skTokenPattern acc) = redacted None (runes (sz_Text acc))" for acc
    by (simp add: redact_step_def redacted_def split: prod.split)
  obtain before where "sz_Text (SanitizeString text) = redacted None (runes before)"
    unfolding SanitizeString_def last_step by blast
  then have "token_free False (u @ ''sk-'' @ w @ v)"
    using redacted_free [OF runes_proper, of None before] t by (simp add: word_at_def)
  then have "\<not> token_start (''sk-'' @ w @ v)" using u by (intro token_free_everywhere) auto
  moreover have "takeWhile sk_char (''sk-'' @ w @ v) = ''sk-'' @ w @ takeWhile sk_char v"
    using w(2) by (simp add: sk_char_def sk_rune_def word_rune_def list_all_iff)
  ultimately show False using w(1) by (simp add: token_start_def)
qed

theorem sanitized_text_has_no_token_witness:
  "sz_Text (SanitizeString ''sk-abcdefgh'') = ''sk-[REDACTED]''
    \<and> \<not> (\<exists>u w v. sz_Text (SanitizeString ''sk-abcdefgh'') = u @ ''sk-'' @ w @ v \<and> length w = 8 \<and> list_all sk_char w
        \<and> (u = [] \<or> \<not> word_rune (of_char (last u))))"
proof
  show "sz_Text (SanitizeString ''sk-abcdefgh'') = ''sk-[REDACTED]''" by code_simp
qed (rule sanitized_text_has_no_token)

end
