(* ===== verification/HistoryCompact.thy ===== *)
theory HistoryCompact
  imports HistoryRedact
begin

text \<open>
  The compaction of tool results (\<open>go/internal/agenthistory/tool_compaction.go\<close>): a result is redacted,
  then reduced to its failing lines, to the sources it lists, to the shape of a JSON value or to its
  distinct lines, and cut at a fixed number of characters. \<open>unmarshal\<close> is \<open>encoding/json\<close>; \<open>in_order\<close> is
  the order in which a range over a Go map visits its entries, which the language leaves open.
\<close>

definition MaxToolResultChars :: nat where "MaxToolResultChars = 1600"
definition passthroughMarker :: string where "passthroughMarker = ''[HERDSMAN:TRUNCATED_TOOL_RESULT]''"

datatype CompactionMode =
  ModeFailureFocus | ModeGroupedMatches | ModeStructuredSummary | ModeTruncatedPassthrough | ModeWebSources | ModeUnknown

record ToolCompaction =
  tc_Mode :: CompactionMode
  tc_OriginalChars :: int
  tc_ReturnedChars :: int

record HistoryToolResult =
  ht_Compaction :: ToolCompaction
  ht_IsError :: bool
  ht_Ref :: string
  ht_Text :: string
  ht_ToolName :: string

record CompactToolResultInput =
  ci_IsError :: bool
  ci_Ref :: string
  ci_ToolText :: string
  ci_ToolName :: string

subsection \<open>Patterns\<close>

definition rx_any :: "rx list \<Rightarrow> rx" where
  "rx_any es = foldr RxOr (butlast es) (last es)"

definition rx_all :: "rx list \<Rightarrow> rx" where
  "rx_all es = foldr RxThen es RxEmpty"

definition failure_words :: "string list" where
  "failure_words = [''FAIL'', ''Failed'', ''AssertionError'', ''Test Files'', ''Tests'', ''ERR_PNPM'', ''expected'',
     ''received'', ''Error:'']"

definition failureSignalPattern :: rx where
  "failureSignalPattern = rx_any (map rx_folded failure_words)"

definition failureLinePattern :: rx where
  "failureLinePattern = rx_any (map rx_folded failure_words @ [rx_all [RxBoundary, rx_folded ''not ok'', RxBoundary]])"

definition leadingWhitespacePattern :: rx where
  "leadingWhitespacePattern = rx_all [RxBegin, RxMany 1 space_rune]"

definition atPattern :: rx where "atPattern = rx_all [rx_exact ''at'', RxMany 1 space_rune]"

definition webToolPattern :: rx where
  "webToolPattern = rx_any [rx_folded ''web_search'', rx_folded ''fetch_content'', rx_folded ''mcp'']"

definition urlPattern :: rx where
  "urlPattern = rx_all [rx_exact ''http'', RxOr (rx_exact ''s'') RxEmpty, rx_exact ''://'']"

definition markerLinePattern :: rx where
  "markerLinePattern = rx_all [RxBegin, RxMany 0 space_rune, RxRune (\<lambda>r. r \<in> {35, 42, 45})]"

definition titleSourceURLPattern :: rx where
  "titleSourceURLPattern = rx_any [rx_folded ''title'', rx_folded ''source'', rx_folded ''url'']"

text \<open>\<open>crlfPattern.Split(text, -1)\<close>: a carriage return right before a newline belongs to the separator.\<close>

definition drop_return :: "string \<Rightarrow> string" where
  "drop_return line = (if line \<noteq> [] \<and> last line = CHR 0x0D then butlast line else line)"

definition crlf_lines :: "string \<Rightarrow> string list" where
  "crlf_lines text = (let parts = split_on newline text in map drop_return (butlast parts) @ [last parts])"

subsection \<open>Failures\<close>

definition failure_line :: "string \<Rightarrow> bool" where "failure_line = MatchString failureLinePattern"

definition failure_neighbor :: "string \<Rightarrow> bool" where
  "failure_neighbor line \<longleftrightarrow>
     MatchString leadingWhitespacePattern line \<or> MatchString atPattern line \<or> isJSBlank line"

text \<open>Each failing line with those of the next three that continue it, until there are forty.\<close>

fun select_failures :: "string list \<Rightarrow> string list \<Rightarrow> string list" where
  "select_failures selected [] = selected"
| "select_failures selected (line # rest) =
     (let selected' = (if failure_line line then selected @ line # filter failure_neighbor (take 3 rest) else selected)
      in if 40 \<le> length selected' then selected' else select_failures selected' rest)"

text \<open>A blank line stays when the selected line before it is not blank.\<close>

fun keep_lines :: "string option \<Rightarrow> string list \<Rightarrow> string list" where
  "keep_lines before [] = []"
| "keep_lines before (line # rest) =
     (if \<not> isJSBlank line \<or> (case before of None \<Rightarrow> False | Some b \<Rightarrow> \<not> isJSBlank b)
      then line # keep_lines (Some line) rest else keep_lines (Some line) rest)"

definition failureFocus :: "string \<Rightarrow> string option" where
  "failureFocus text =
     (if \<not> MatchString failureSignalPattern text then None
      else let result = jsTrim (lines_joined (keep_lines None (select_failures [] (crlf_lines text))))
        in if result = [] then None else Some result)"

subsection \<open>Sources, structure, duplicates\<close>

definition webSources :: "string \<Rightarrow> string \<Rightarrow> string option" where
  "webSources toolName text =
     (if \<not> MatchString webToolPattern toolName \<and> \<not> MatchString urlPattern text then None
      else let result = take 30 (map jsTrim (filter (\<lambda>line. MatchString urlPattern line
               \<or> MatchString markerLinePattern line \<or> MatchString titleSourceURLPattern line) (crlf_lines text)))
        in if result = [] then None else Some (lines_joined result))"

definition itoa :: "nat \<Rightarrow> string" where "itoa n = FormatInt (int n)"

fun describeValue :: "jval \<Rightarrow> string" where
  "describeValue (JArr vs) = ''array('' @ itoa (length vs) @ '')''"
| "describeValue (JObj kvs) = ''object('' @ itoa (length kvs) @ '')''"
| "describeValue JNull = ''object''"
| "describeValue (JStr s) = ''string''"
| "describeValue (JBool b) = ''boolean''"
| "describeValue (JNum n) = ''number''"

type_synonym map_order = "(string \<times> jval) list \<Rightarrow> (string \<times> jval) list"

definition structuredSummary :: "(string \<Rightarrow> jval option) \<Rightarrow> map_order \<Rightarrow> string \<Rightarrow> string option" where
  "structuredSummary unmarshal in_order text =
     (let trimmed = jsTrim text
      in if \<not> prefix ''{'' trimmed \<and> \<not> prefix ''['' trimmed then None
         else (case unmarshal trimmed of
             Some (JArr vs) \<Rightarrow> Some (''array('' @ itoa (length vs) @ '') ['' @ join_with '', '' (map describeValue (take 5 vs)) @ '']'')
           | Some (JObj kvs) \<Rightarrow> Some (lines_joined (map (\<lambda>(key, v). key @ '': '' @ describeValue v) (take 30 (in_order kvs))))
           | _ \<Rightarrow> None))"

text \<open>\<open>digitsPattern.ReplaceAllString(s, "#")\<close>; a run of digits is a run of bytes.\<close>

fun mask_digits :: "bool \<Rightarrow> string \<Rightarrow> string" where
  "mask_digits in_run [] = []"
| "mask_digits in_run (c # s) =
     (if digit_rune (of_char c) then (if in_run then mask_digits True s else CHR ''#'' # mask_digits True s)
      else c # mask_digits False s)"

record line_entry =
  le_key :: string
  le_count :: nat
  le_line :: string

definition count_line :: "line_entry list \<Rightarrow> string \<Rightarrow> line_entry list" where
  "count_line entries line =
     (let key = mask_digits False (jsTrim line)
      in if key \<in> le_key ` set entries
         then map (\<lambda>e. if le_key e = key then e\<lparr>le_count := le_count e + 1\<rparr> else e) entries
         else entries @ [\<lparr>le_key = key, le_count = 1, le_line = line\<rparr>])"

definition dedupeLines :: "string \<Rightarrow> string option" where
  "dedupeLines text =
     (let lines = filter (\<lambda>line. \<not> isJSBlank line) (crlf_lines text); entries = foldl count_line [] lines
      in if length lines < 4 \<or> \<not> list_ex (\<lambda>e. 1 < le_count e) entries then None
         else Some (lines_joined (map (\<lambda>e. if 1 < le_count e then le_line e @ '' (x'' @ itoa (le_count e) @ '')'' else le_line e)
                (take 80 entries))))"

subsection \<open>The compaction\<close>

definition compactText ::
    "(string \<Rightarrow> jval option) \<Rightarrow> map_order \<Rightarrow> string \<Rightarrow> string \<Rightarrow> CompactionMode \<times> string" where
  "compactText unmarshal in_order toolName text =
     (case failureFocus text of Some failure \<Rightarrow> (ModeFailureFocus, failure)
      | None \<Rightarrow> (case webSources toolName text of Some web \<Rightarrow> (ModeWebSources, web)
          | None \<Rightarrow> (case structuredSummary unmarshal in_order text of Some structured \<Rightarrow> (ModeStructuredSummary, structured)
              | None \<Rightarrow> (case dedupeLines text of
                  Some grouped \<Rightarrow> if grouped \<noteq> text then (ModeGroupedMatches, grouped) else (ModeTruncatedPassthrough, text)
                | None \<Rightarrow> (ModeTruncatedPassthrough, text)))))"

definition boundWithMarker :: "string \<Rightarrow> CompactionMode \<Rightarrow> string" where
  "boundWithMarker text mode =
     (if CharCount text \<le> MaxToolResultChars then text
      else TruncateChars text MaxToolResultChars
        @ (if mode = ModeTruncatedPassthrough then newline # passthroughMarker else []))"

definition CompactToolResultValue ::
    "(string \<Rightarrow> jval option) \<Rightarrow> map_order \<Rightarrow> CompactToolResultInput \<Rightarrow> HistoryToolResult" where
  "CompactToolResultValue unmarshal in_order input =
     (let sanitized = sz_Text (SanitizeString (ci_ToolText input))
      in case compactText unmarshal in_order (ci_ToolName input) sanitized of (mode, text) \<Rightarrow>
        let bounded = boundWithMarker text mode
        in \<lparr>ht_Compaction = \<lparr>tc_Mode = mode, tc_OriginalChars = int (CharCount (ci_ToolText input)),
              tc_ReturnedChars = int (CharCount bounded)\<rparr>,
            ht_IsError = ci_IsError input, ht_Ref = ci_Ref input, ht_Text = bounded, ht_ToolName = ci_ToolName input\<rparr>)"

end
