(* ===== verification/HistoryCompactLaws.thy ===== *)
theory HistoryCompactLaws
  imports HistoryCompact HistoryRedactLaws
begin

text \<open>
  Bounds of the compaction: how long a compacted result can be, whatever bytes the result holds, and how
  the lines of a failing test run are chosen.
\<close>

subsection \<open>Runes of a part of a text\<close>

lemma runes_Cons_valid:
  "rune_length (c # s) = n \<Longrightarrow> n \<noteq> 0 \<Longrightarrow>
     runes (c # s) = (code_point (map of_char (take n (c # s))), take n (c # s)) # runes (drop n (c # s))"
  by (subst runes.simps) (simp add: Let_def)

lemma runes_Cons_invalid: "rune_length (c # s) = 0 \<Longrightarrow> runes (c # s) = (rune_error, [c]) # runes s"
  by (subst runes.simps) (simp add: Let_def)

lemma rune_length_take:
  "rune_length (take (Suc m) (c # s)) = (if rune_length (c # s) \<le> Suc m then rune_length (c # s) else 0)"
  by (cases m; cases s; cases "m - 1"; cases "tl s"; cases "m - 2"; cases "tl (tl s)")
    (auto simp: Let_def split: list.splits)

text \<open>What the runes of a text are made of.\<close>

lemma rune_bytes_runes: "rune_bytes (runes s) = s"
proof (induction s rule: runes.induct)
  case (2 c s)
  then show ?case
    by (cases "rune_length (c # s) = 0")
      (simp_all add: runes_Cons_invalid runes_Cons_valid rune_bytes_def del: rune_length.simps)
qed (simp add: rune_bytes_def)

lemma length_runes: "length (runes s) \<le> length s"
proof (induction s rule: runes.induct)
  case (2 c s)
  then show ?case
    by (cases "rune_length (c # s)")
      (fastforce simp: runes_Cons_invalid runes_Cons_valid simp del: rune_length.simps)+
qed simp

text \<open>A cut after some runes leaves those runes, whatever the cut makes of the bytes behind them.\<close>

lemma runes_of_cut:
  "k \<le> length (runes s) \<Longrightarrow> length (rune_bytes (take k (runes s))) \<le> m \<Longrightarrow>
     length (runes (take m s)) \<le> k + (m - length (rune_bytes (take k (runes s))))"
proof (induction k arbitrary: s m)
  case 0
  have "length (runes (take m s)) \<le> length (take m s)" by (rule length_runes)
  then show ?case by (simp add: rune_bytes_def)
next
  case (Suc k)
  then obtain c s' where s: "s = c # s'" by (cases s) auto
  define n where "n = rune_length (c # s')"
  show ?case
  proof (cases "n = 0")
    case True
    then have rs: "runes s = (rune_error, [c]) # runes s'" by (simp add: s n_def runes_Cons_invalid)
    with Suc.prems obtain m' where m: "m = Suc m'" "length (rune_bytes (take k (runes s'))) \<le> m'"
      by (cases m) (auto simp: rune_bytes_def)
    have "runes (take m s) = (rune_error, [c]) # runes (take m' s')"
      using rune_length_take [of m' c s'] True by (simp add: s m n_def runes_Cons_invalid del: rune_length.simps)
    then show ?thesis using Suc.IH [of s' m'] Suc.prems m rs by (simp add: rune_bytes_def)
  next
    case False
    then have rs: "runes s = (code_point (map of_char (take n s)), take n s) # runes (drop n s)"
      by (simp add: s n_def runes_Cons_valid del: rune_length.simps)
    have n: "n \<le> length s" using rune_length_cases [OF n_def [symmetric] False] s by fastforce
    with Suc.prems rs have m: "n \<le> m" "length (rune_bytes (take k (runes (drop n s)))) \<le> m - n"
      by (auto simp: rune_bytes_def)
    obtain m' where m': "m = Suc m'" using m(1) False by (cases m) auto
    have "rune_length (take m s) = n" using rune_length_take [of m' c s'] m(1) by (simp add: s m' n_def del: rune_length.simps)
    then have "runes (take m s) = (code_point (map of_char (take n (take m s))), take n (take m s)) # runes (drop n (take m s))"
      using False runes_Cons_valid [of c "take m' s'" n] by (simp add: s m' del: rune_length.simps)
    then have "length (runes (take m s)) = Suc (length (runes (take (m - n) (drop n s))))" by (simp add: drop_take)
    also have "\<dots> \<le> Suc (k + ((m - n) - length (rune_bytes (take k (runes (drop n s))))))"
      using Suc.IH [of "drop n s" "m - n"] Suc.prems(1) m(2) rs by simp
    finally show ?thesis using rs n by (simp add: rune_bytes_def)
  qed
qed

text \<open>ASCII text behind a text adds its runes.\<close>

lemma ascii_alone: "between 0 0x7F d \<Longrightarrow> \<not> continuation d \<and> \<not> second_ok a d"
  by (auto simp: second_ok_def continuation_def between_def)

lemma rune_length_ascii:
  assumes "between 0 0x7F d"
  shows "rune_length (c # s @ d # t) = rune_length (c # s)"
proof -
  consider "s = []" | b where "s = [b]" | b b' where "s = [b, b']" | b b' b'' r where "s = b # b' # b'' # r"
    by (metis list.exhaust)
  then show ?thesis
    by cases (simp_all add: ascii_alone [OF assms] split: list.split)
qed

lemma runes_append_ascii:
  "between 0 0x7F d \<Longrightarrow> runes (s @ d # t) = runes s @ (of_char d, [d]) # runes t"
proof (induction s rule: length_induct)
  case (1 s)
  show ?case
  proof (cases s)
    case Nil
    then show ?thesis using 1(2) by (simp add: runes_Cons_valid [of d t 1] between_def)
  next
    case (Cons c s')
    let ?n = "rune_length (c # s')"
    show ?thesis
    proof (cases "?n = 0")
      case True
      then show ?thesis using 1 Cons rune_length_ascii [OF 1(2), of c s' t]
        by (simp add: runes_Cons_invalid del: rune_length.simps)
    next
      case False
      have n: "?n \<le> length (c # s')" using rune_length_cases [OF refl False] by fastforce
      have "length (drop ?n s) < length s" using False Cons by simp
      with 1 have "runes (drop ?n s @ d # t) = runes (drop ?n s) @ (of_char d, [d]) # runes t" by blast
      moreover have "runes (s @ d # t) = (code_point (map of_char (take ?n (c # s' @ d # t))), take ?n (c # s' @ d # t))
          # runes (drop ?n (c # s' @ d # t))"
        using runes_Cons_valid [OF rune_length_ascii [OF 1(2), of c s' t] False] Cons by simp
      moreover have "take ?n (c # s' @ d # t) = take ?n s" "drop ?n (c # s' @ d # t) = drop ?n s @ d # t"
        using n Cons take_append [of ?n "c # s'" "d # t"] drop_append [of ?n "c # s'" "d # t"] by simp_all
      ultimately show ?thesis by (simp add: Cons runes_Cons_valid [OF refl False] del: rune_length.simps)
    qed
  qed
qed

lemma CharCount_append_ascii: "list_all (between 0 0x7F) t \<Longrightarrow> CharCount (s @ t) = CharCount s + length t"
proof (induction t arbitrary: s)
  case (Cons d t)
  have "CharCount ((s @ [d]) @ t) = CharCount (s @ [d]) + length t" using Cons by (intro Cons.IH) simp
  moreover have "CharCount (s @ [d]) = Suc (CharCount s)"
    using Cons.prems runes_append_ascii [of d s "[]"] by (simp add: CharCount_def)
  ultimately show ?case by simp
qed simp

subsection \<open>Truncation\<close>

text \<open>The width a rune is written with is that of its bytes, but 3 for a byte that is no rune.\<close>

definition width_within :: "nat \<Rightarrow> rune \<Rightarrow> bool" where
  "width_within d r \<longleftrightarrow> length (snd r) \<le> RuneLen (fst r) \<and> RuneLen (fst r) \<le> length (snd r) + d"

lemma valid_rune_width: "rune_length (c # s) = n \<Longrightarrow> n \<noteq> 0 \<Longrightarrow> RuneLen (code_point (map of_char (take n (c # s)))) = length (take n (c # s))"
  by (erule rune_length_cases) (simp_all add: RuneLen_def)

lemma runes_width: "list_all (width_within 2) (runes s)"
proof (induction s rule: runes.induct)
  case (2 c s)
  define n where "n = rune_length (c # s)"
  show ?case
  proof (cases "n = 0")
    case True
    then have "runes (c # s) = (rune_error, [c]) # runes s" by (simp add: n_def runes_Cons_invalid del: rune_length.simps)
    then show ?thesis using 2(1) [OF n_def True] by (simp add: width_within_def RuneLen_def rune_error_def)
  next
    case False
    then show ?thesis using 2(2) [OF n_def False] valid_rune_width [OF n_def [symmetric] False]
      by (simp add: runes_Cons_valid [OF n_def [symmetric] False] width_within_def)
  qed
qed simp

text \<open>The cut lies right behind some rune that fits, or up to \<open>d\<close> bytes later.\<close>

lemma kept_bytes_cut:
  assumes "list_all (width_within d) rs" "count \<le> keep"
  shows "\<exists>k \<le> length rs. count + k \<le> keep \<and>
    (k = 0 \<and> kept_bytes keep count index start rs = start
     \<or> k \<noteq> 0 \<and> index + length (rune_bytes (take k rs)) \<le> kept_bytes keep count index start rs
        \<and> kept_bytes keep count index start rs \<le> index + length (rune_bytes (take k rs)) + d)"
  using assms
proof (induction rs arbitrary: count index start)
  case Nil
  then show ?case by simp
next
  case (Cons r rs)
  obtain x bytes where r: "r = (x, bytes)" by (cases r)
  show ?case
  proof (cases "keep < count + utf16_width x")
    case True
    then show ?thesis using Cons.prems by (intro exI [of _ 0]) (simp add: r)
  next
    case False
    then obtain k where k: "k \<le> length rs" "count + utf16_width x + k \<le> keep"
      and cut: "k = 0 \<and> kept_bytes keep (count + utf16_width x) (index + length bytes) (index + RuneLen x) rs = index + RuneLen x
       \<or> k \<noteq> 0 \<and> index + length bytes + length (rune_bytes (take k rs)) \<le> kept_bytes keep (count + utf16_width x) (index + length bytes) (index + RuneLen x) rs
        \<and> kept_bytes keep (count + utf16_width x) (index + length bytes) (index + RuneLen x) rs
            \<le> index + length bytes + length (rune_bytes (take k rs)) + d"
      using Cons.IH [of "count + utf16_width x" "index + length bytes" "index + RuneLen x"] Cons.prems by auto
    moreover have "1 \<le> utf16_width x" by (simp add: utf16_width_def)
    ultimately show ?thesis using False Cons.prems(1)
      by (intro exI [of _ "Suc k"]) (auto simp: r rune_bytes_def width_within_def)
  qed
qed

lemma CharCount_le_utf16Len: "CharCount s \<le> utf16Len s"
proof -
  have "length rs \<le> sum_list (map (\<lambda>r. utf16_width (fst r)) rs)" for rs :: "rune list"
    by (induction rs) (auto simp: utf16_width_def)
  then show ?thesis by (simp add: CharCount_def utf16Len_def)
qed

lemma CharCount_cut:
  assumes "list_all (width_within d) (runes s)"
  shows "CharCount (take (kept_bytes keep 0 0 0 (runes s)) s) \<le> keep + d"
proof -
  let ?m = "kept_bytes keep 0 0 0 (runes s)"
  from kept_bytes_cut [OF assms, of 0 keep 0 0] obtain k where k: "k \<le> length (runes s)" "k \<le> keep"
    and cut: "k = 0 \<and> ?m = 0 \<or> length (rune_bytes (take k (runes s))) \<le> ?m \<and> ?m \<le> length (rune_bytes (take k (runes s))) + d"
    by auto
  from cut show ?thesis
  proof
    assume "k = 0 \<and> ?m = 0"
    then show ?thesis by (simp add: CharCount_def)
  next
    assume m: "length (rune_bytes (take k (runes s))) \<le> ?m \<and> ?m \<le> length (rune_bytes (take k (runes s))) + d"
    then have "length (runes (take ?m s)) \<le> k + (?m - length (rune_bytes (take k (runes s))))"
      using runes_of_cut [OF k(1)] by blast
    then show ?thesis using m k(2) unfolding CharCount_def by linarith
  qed
qed

text \<open>The limit, and two characters more where bytes are no runes.\<close>

lemma TruncateChars_bound:
  assumes "3 \<le> n"
  shows "CharCount (TruncateChars s n) \<le> n + 2"
proof (cases "utf16Len s \<le> n")
  case True
  then show ?thesis using CharCount_le_utf16Len [of s] by (simp add: TruncateChars_def)
next
  case False
  have "CharCount (take (kept_bytes (n - 3) 0 0 0 (runes s)) s) \<le> (n - 3) + 2" by (rule CharCount_cut [OF runes_width])
  then show ?thesis using False assms CharCount_append_ascii [of "''...''"]
    by (simp add: TruncateChars_def between_def)
qed

text \<open>
  The limit itself is not kept: the loop counts a byte that is no rune as one character, but cuts three
  bytes behind its start.
\<close>

lemma runes_no_rune: "runes (replicate n CHR 0xFF) = replicate n (rune_error, [CHR 0xFF])"
proof (induction n)
  case (Suc n)
  have "rune_length (CHR 0xFF # s) = 0" for s by (simp add: between_def split: list.split)
  with Suc show ?case by (simp add: runes_Cons_invalid del: rune_length.simps)
qed simp

lemma truncation_overshoots: "CharCount (TruncateChars (replicate 5 CHR 0xFF) 4) = 6"
proof -
  have "utf16Len (replicate 5 CHR 0xFF) = 5"
    by (simp only: utf16Len_def runes_no_rune) (simp add: utf16_width_def rune_error_def sum_list_replicate)
  moreover have "kept_bytes 1 0 0 0 (runes (replicate 5 CHR 0xFF)) = 3"
  proof -
    have "replicate 5 r = r # r # replicate 3 r" for r :: rune by (simp add: numeral_eq_Suc)
    then show ?thesis by (simp add: runes_no_rune utf16_width_def rune_error_def RuneLen_def)
  qed
  moreover have "CharCount (replicate 3 CHR 0xFF @ ''...'') = 6"
    by (subst CharCount_append_ascii) (simp_all only: CharCount_def runes_no_rune, simp_all add: between_def)
  ultimately show ?thesis by (simp add: TruncateChars_def take_replicate)
qed

text \<open>
  C36: A compacted tool result has at most 1602 characters, and 33 more for the marker of a result that was
  passed through, whatever bytes the tool wrote, and the number of characters the compaction reports is
  that of its text.
\<close>

theorem compacted_result_bounded:
  "CharCount (ht_Text (CompactToolResultValue unmarshal in_order input))
      \<le> MaxToolResultChars + 2
        + (if tc_Mode (ht_Compaction (CompactToolResultValue unmarshal in_order input)) = ModeTruncatedPassthrough then 33 else 0)
    \<and> tc_ReturnedChars (ht_Compaction (CompactToolResultValue unmarshal in_order input))
        = int (CharCount (ht_Text (CompactToolResultValue unmarshal in_order input)))"
proof -
  have marker: "CharCount (s @ newline # passthroughMarker) = CharCount s + 33" for s
    by (subst CharCount_append_ascii) (simp_all add: passthroughMarker_def newline_def between_def)
  have cut: "CharCount (TruncateChars s MaxToolResultChars) \<le> MaxToolResultChars + 2" for s
    by (rule TruncateChars_bound) (simp add: MaxToolResultChars_def)
  have "CharCount (boundWithMarker s mode) \<le> MaxToolResultChars + 2 + (if mode = ModeTruncatedPassthrough then 33 else 0)" for s mode
    using cut [of s] by (simp add: boundWithMarker_def marker)
  then show ?thesis by (simp add: CompactToolResultValue_def Let_def case_prod_beta del: if_split)
qed

end
