(* ===== verification/HistoryProto.thy ===== *)
theory HistoryProto
  imports HistoryText "HOL-Library.Word"
begin

unbundle bit_operations_syntax

text \<open>
  The walk over the protobuf step blobs of a conversation database
  (\<open>go/internal/agenthistory/antigravity_proto.go\<close>): varints, fields, the texts at known paths, and the
  time stamp of a step. A blob that does not parse has no fields. Bytes are characters, a varint is a
  64-bit word, read as \<open>int64\<close> where the code does.
\<close>

datatype MessageRole = RoleAssistant | RoleToolResult | RoleUser

record DecodedAntigravityMessage =
  da_Role :: MessageRole
  da_Text :: string

subsection \<open>Varints\<close>

function varint_loop :: "string \<Rightarrow> nat \<Rightarrow> nat \<Rightarrow> 64 word \<Rightarrow> (64 word \<times> nat) option" where
  "varint_loop bytes offset shift v =
     (if offset < length bytes \<and> shift \<le> 63 then
        let next = of_char (bytes ! offset) :: nat
        in if shift = 63 \<and> 1 < next mod 128 then None
           else let v' = v OR push_bit shift (of_nat (next mod 128))
             in if next < 128 then Some (v', Suc offset) else varint_loop bytes (Suc offset) (shift + 7) v'
      else None)"
  by pat_completeness auto
termination by (relation "measure (\<lambda>(bytes, offset, shift, v). length bytes - offset)") auto

declare varint_loop.simps [simp del]

definition readVarint :: "string \<Rightarrow> nat \<Rightarrow> (64 word \<times> nat) option" where
  "readVarint bytes offset = varint_loop bytes offset 0 0"

lemma varint_loop_advances:
  "varint_loop bytes offset shift v = Some (v', n) \<Longrightarrow> offset < n \<and> n \<le> length bytes"
proof (induction bytes offset shift v arbitrary: v' n rule: varint_loop.induct)
  case (1 bytes offset shift v)
  have later: "offset < length bytes \<Longrightarrow> shift \<le> 63 \<Longrightarrow> \<not> (shift = 63 \<and> 1 < (of_char (bytes ! offset) :: nat) mod 128)
    \<Longrightarrow> \<not> (of_char (bytes ! offset) :: nat) < 128
    \<Longrightarrow> varint_loop bytes (Suc offset) (shift + 7) (v OR push_bit shift (of_nat (of_char (bytes ! offset) mod 128))) = Some (v', n)
    \<Longrightarrow> Suc offset < n \<and> n \<le> length bytes"
    by (rule 1(1)) auto
  from 1(2) show ?case
    by (subst (asm) varint_loop.simps) (auto simp: Let_def split: if_splits dest: later)
qed

lemma readVarint_advances: "readVarint bytes offset = Some (v, n) \<Longrightarrow> offset < n \<and> n \<le> length bytes"
  unfolding readVarint_def by (rule varint_loop_advances)

subsection \<open>Fields\<close>

text \<open>The value of a fixed-width field is not kept; the code stores the number 0.\<close>

datatype wire_value = WireInt "64 word" | WireBytes string

record wireField =
  wf_number :: nat
  wf_wireType :: nat
  wf_value :: wire_value

definition varintValue :: "wireField \<Rightarrow> int" where
  "varintValue f = (case wf_value f of WireInt v \<Rightarrow> sint v | WireBytes _ \<Rightarrow> 0)"

definition bytesValue :: "wireField \<Rightarrow> string" where
  "bytesValue f = (case wf_value f of WireBytes b \<Rightarrow> b | WireInt _ \<Rightarrow> [])"

text \<open>One field: its value and the offset behind it.\<close>

definition parse_value :: "string \<Rightarrow> nat \<Rightarrow> nat \<Rightarrow> (wire_value \<times> nat) option" where
  "parse_value bytes wireType offset =
     (if wireType = 0 then map_option (\<lambda>(v, n). (WireInt v, n)) (readVarint bytes offset)
      else if wireType = 1 then Some (WireInt 0, offset + 8)
      else if wireType = 2 then
        (case readVarint bytes offset of None \<Rightarrow> None
         | Some (len, n) \<Rightarrow>
           if length bytes - n < unat len then None
           else Some (WireBytes (take (unat len) (drop n bytes)), n + unat len))
      else if wireType = 5 then Some (WireInt 0, offset + 4)
      else None)"

lemma parse_value_advances: "parse_value bytes wireType offset = Some (v, n) \<Longrightarrow> offset \<le> n"
  by (auto simp: parse_value_def split: if_splits option.splits prod.splits dest!: readVarint_advances)

function parse_from :: "string \<Rightarrow> nat \<Rightarrow> wireField list option" where
  "parse_from bytes offset =
     (if offset < length bytes then
        (case readVarint bytes offset of None \<Rightarrow> None
         | Some (tag, after_tag) \<Rightarrow>
           let number = unat (drop_bit 3 tag); wireType = unat (tag AND 7)
           in if number < 1 \<or> 536870911 < number then None
              else (case parse_value bytes wireType after_tag of None \<Rightarrow> None
                | Some (v, n) \<Rightarrow>
                  if length bytes < n then None
                  else map_option (\<lambda>rest. \<lparr>wf_number = number, wf_wireType = wireType, wf_value = v\<rparr> # rest)
                         (parse_from bytes n)))
      else Some [])"
  by pat_completeness auto
termination
  by (relation "measure (\<lambda>(bytes, offset). length bytes - offset)")
    (auto dest!: readVarint_advances parse_value_advances)

declare parse_from.simps [simp del]

definition parseFields :: "string \<Rightarrow> wireField list" where
  "parseFields bytes = (case parse_from bytes 0 of None \<Rightarrow> [] | Some fs \<Rightarrow> fs)"

definition fieldsFor :: "wireField list \<Rightarrow> nat \<Rightarrow> string list" where
  "fieldsFor fs number = map bytesValue (filter (\<lambda>f. wf_number f = number \<and> wf_wireType f = 2) fs)"

subsection \<open>Texts\<close>

text \<open>\<open>utf8.Valid\<close>: a rune U+FFFD comes from an invalid byte unless it is the three bytes of U+FFFD.\<close>

definition valid_rune :: "rune \<Rightarrow> bool" where
  "valid_rune r \<longleftrightarrow> fst r \<noteq> rune_error \<or> length (snd r) = 3"

definition valid_utf8 :: "string \<Rightarrow> bool" where
  "valid_utf8 s \<longleftrightarrow> list_all valid_rune (runes s)"

definition decodeUTF8Strict :: "string \<Rightarrow> string option" where
  "decodeUTF8Strict bytes =
     (if bytes = [] then None
      else if \<not> valid_utf8 bytes then None
      else if list_ex (\<lambda>r. fst r = rune_error) (runes bytes) then None
      else Some bytes)"

definition printable_rune :: "nat \<Rightarrow> bool" where
  "printable_rune r \<longleftrightarrow> r \<in> {9, 10, 13} \<or> (0x20 \<le> r \<and> r \<noteq> rune_error)"

definition printableUTF8 :: "string \<Rightarrow> bool" where
  "printableUTF8 text \<longleftrightarrow> text \<noteq> [] \<and> valid_utf8 text \<and> list_all (\<lambda>r. printable_rune (fst r)) (runes text)"

fun textAtPath :: "wireField list \<Rightarrow> nat list \<Rightarrow> string option" where
  "textAtPath fs [] = None"
| "textAtPath fs (number # path) =
     (case fieldsFor fs number of
        [] \<Rightarrow> None
      | bytes # _ \<Rightarrow> if path = [] then decodeUTF8Strict bytes else textAtPath (parseFields bytes) path)"

fun firstTextAtPaths :: "wireField list \<Rightarrow> nat list list \<Rightarrow> string option" where
  "firstTextAtPaths fs [] = None"
| "firstTextAtPaths fs (path # paths) =
     (case textAtPath fs path of Some text \<Rightarrow> Some text | None \<Rightarrow> firstTextAtPaths fs paths)"

lemma parse_value_shorter:
  "parse_value bytes wireType offset = Some (WireBytes b, n) \<Longrightarrow> length b + offset < n"
  by (auto simp: parse_value_def split: if_splits option.splits prod.splits dest!: readVarint_advances)

lemma parse_from_shorter:
  "parse_from bytes offset = Some fs \<Longrightarrow> f \<in> set fs \<Longrightarrow> bytesValue f \<noteq> [] \<Longrightarrow>
     length (bytesValue f) + offset < length bytes"
proof (induction bytes offset arbitrary: fs rule: parse_from.induct)
  case (1 bytes offset)
  note fs = 1(2) and f = 1(3,4)
  show ?case
  proof (cases "fs = []")
    case False
    with fs obtain tag m v n rest where tag: "readVarint bytes offset = Some (tag, m)"
      and v: "parse_value bytes (unat (tag AND 7)) m = Some (v, n)" "n \<le> length bytes"
      and rest: "parse_from bytes n = Some rest"
        "fs = \<lparr>wf_number = unat (drop_bit 3 tag), wf_wireType = unat (tag AND 7), wf_value = v\<rparr> # rest"
      and guard: "offset < length bytes" "\<not> (unat (drop_bit 3 tag) < 1 \<or> 536870911 < unat (drop_bit 3 tag))"
      by (subst (asm) parse_from.simps) (auto simp: Let_def split: if_splits option.splits)
    have step: "offset < n" using readVarint_advances [OF tag] parse_value_advances [OF v(1)] by simp
    have later: "f \<in> set rest \<Longrightarrow> ?thesis"
      using 1(1) [OF guard(1) tag _ refl refl guard(2) v(1) _ _ rest(1)] v(2) f(2) step by fastforce
    moreover have "f \<notin> set rest \<Longrightarrow> ?thesis"
      using f rest(2) v readVarint_advances [OF tag] parse_value_shorter [of bytes _ m _ n]
      by (cases v) (fastforce simp: bytesValue_def)+
    ultimately show ?thesis by blast
  qed (use f in auto)
qed

lemma parseFields_shorter:
  "f \<in> set (parseFields bytes) \<Longrightarrow> length (bytesValue f) < length bytes"
proof -
  assume f: "f \<in> set (parseFields bytes)"
  then obtain fs where fs: "parse_from bytes 0 = Some fs" "f \<in> set fs"
    by (cases "parse_from bytes 0") (auto simp: parseFields_def)
  then have "bytes \<noteq> []" by (auto simp: parse_from.simps)
  then show ?thesis using parse_from_shorter [OF fs] by (cases "bytesValue f = []") auto
qed

text \<open>Every printable text of the values and of their nested fields, the non-blank ones, longest first.\<close>

definition own_text :: "string \<Rightarrow> string list" where
  "own_text v = (case decodeUTF8Strict v of Some text \<Rightarrow> if printableUTF8 text then [text] else [] | None \<Rightarrow> [])"

function stringsIn :: "string list \<Rightarrow> string list" where
  "stringsIn values =
     sort_key (\<lambda>text. - int (utf16Len text))
       (filter (\<lambda>text. \<not> isJSBlank text)
         (concat (map (\<lambda>v. own_text v
             @ concat (map (\<lambda>f. stringsIn [bytesValue f]) (filter (\<lambda>f. wf_wireType f = 2) (parseFields v)))) values)))"
  by pat_completeness auto
termination
proof (relation "measure (\<lambda>vs. sum_list (map length vs))")
  fix vs :: "string list" and v f
  assume "v \<in> set vs" "f \<in> set (filter (\<lambda>f. wf_wireType f = 2) (parseFields v))"
  then show "([bytesValue f], vs) \<in> measure (\<lambda>vs. sum_list (map length vs))"
    using parseFields_shorter [of f v] member_le_sum_list [of "length v" "map length vs"] by auto
qed simp

declare stringsIn.simps [simp del]

subsection \<open>Steps\<close>

definition DecodeAntigravityMessage :: "dynamic \<Rightarrow> DecodedAntigravityMessage option" where
  "DecodeAntigravityMessage v =
     (case v of
        DynBytes bytes \<Rightarrow>
          let fs = parseFields bytes
          in (case firstTextAtPaths fs [[19, 3, 1], [19, 3, 2], [19, 2]] of
                Some text \<Rightarrow> Some \<lparr>da_Role = RoleUser, da_Text = text\<rparr>
              | None \<Rightarrow> (case firstTextAtPaths fs [[20, 8], [20, 1]] of
                  Some text \<Rightarrow> Some \<lparr>da_Role = RoleAssistant, da_Text = text\<rparr>
                | None \<Rightarrow> (case stringsIn (fieldsFor fs 30) of
                    text # _ \<Rightarrow> Some \<lparr>da_Role = RoleToolResult, da_Text = text\<rparr>
                  | [] \<Rightarrow> None)))
      | _ \<Rightarrow> None)"

text \<open>
  A candidate time stamp: one varint of seconds and any varints of nanoseconds. Anything else, a second
  value of seconds included, makes it unusable.
\<close>

fun scan_timestamp :: "wireField list \<Rightarrow> int option \<Rightarrow> int \<Rightarrow> (int option \<times> int) option" where
  "scan_timestamp [] seconds nanos = Some (seconds, nanos)"
| "scan_timestamp (f # fs) seconds nanos =
     (if wf_number f = 1 \<and> wf_wireType f = 0 \<and> seconds = None then scan_timestamp fs (Some (varintValue f)) nanos
      else if wf_number f = 2 \<and> wf_wireType f = 0 then scan_timestamp fs seconds (varintValue f)
      else None)"

definition candidate_millis :: "wireField \<Rightarrow> int option" where
  "candidate_millis f =
     (if wf_wireType f \<noteq> 2 then None
      else let subBytes = bytesValue f
        in if length subBytes < 6 \<or> 16 < length subBytes then None
           else let subFields = parseFields subBytes
             in if subFields = [] then None
                else (case scan_timestamp subFields None 0 of
                    Some (Some seconds, nanos) \<Rightarrow>
                      if seconds < 1000000000 \<or> 10000000000 < seconds \<or> nanos < 0 \<or> 1000000000 \<le> nanos then None
                      else Some (seconds * 1000 + nanos div 1000000)
                  | _ \<Rightarrow> None))"

definition newest_millis :: "wireField list \<Rightarrow> int option" where
  "newest_millis fs =
     foldl (\<lambda>best f. case candidate_millis f of None \<Rightarrow> best
       | Some ms \<Rightarrow> (case best of None \<Rightarrow> Some ms | Some b \<Rightarrow> if b < ms then Some ms else Some b)) None fs"

definition DecodeAntigravityMetadataTimestamp :: "dynamic \<Rightarrow> string option" where
  "DecodeAntigravityMetadataTimestamp v =
     (case v of DynBytes bytes \<Rightarrow> map_option format_millis (newest_millis (parseFields bytes)) | _ \<Rightarrow> None)"

text \<open>
  \<open>String(number)\<close> for an identifier that is a float. The shortest decimal form of a fraction is
  \<open>strconv\<close>'s, the parameter \<open>shortest\<close>.
\<close>

definition jsNumberToString :: "(rat \<Rightarrow> string) \<Rightarrow> fnum \<Rightarrow> string" where
  "jsNumberToString shortest v =
     (case v of
        NaN \<Rightarrow> ''NaN'' | PInf \<Rightarrow> ''Infinity'' | MInf \<Rightarrow> ''-Infinity''
      | Fin q \<Rightarrow>
        if of_int \<lfloor>q\<rfloor> = q \<and> - (2 ^ 63) \<le> q \<and> q \<le> 2 ^ 63 then FormatInt (fl_int64 q) else shortest q)"

end
