(* ===== verification/HistoryProtoLaws.thy ===== *)
theory HistoryProtoLaws
  imports HistoryProto
begin

unbundle bit_operations_syntax

text \<open>
  The walk over protobuf blobs against the encoding it reads: a varint, a field and a message are written
  by the definitions below, which follow the wire format, and the walk gives back exactly what was
  written. From this follows what a step blob decodes to.
\<close>

subsection \<open>Varints\<close>

fun put_varint :: "nat \<Rightarrow> string" where
  "put_varint n = (if n < 128 then [char_of n] else char_of (128 + n mod 128) # put_varint (n div 128))"

declare put_varint.simps [simp del]

lemma bit_below:
  fixes v :: "64 word"
  assumes "unat v < 2 ^ s" "bit v n"
  shows "n < s"
proof -
  have "bit (unat v) n" using assms(2) by (simp add: bit_unsigned_iff bit_imp_le_length)
  then show ?thesis using assms(1) by (metis bit_take_bit_iff take_bit_nat_eq_self)
qed

lemma or_push_bit_plus:
  fixes v :: "64 word"
  assumes "unat v < 2 ^ s"
  shows "v OR push_bit s (of_nat m) = v + of_nat (2 ^ s * m)"
proof -
  have "v + push_bit s (of_nat m) = v OR push_bit s (of_nat m)"
    by (rule disjunctive_add) (auto simp: bit_push_bit_iff dest: bit_below [OF assms])
  then show ?thesis by (simp add: push_bit_eq_mult ac_simps)
qed

text \<open>The loop read \<open>7 * k\<close> bits; what is left is the encoding of the rest of the number.\<close>

lemma varint_loop_put:
  assumes "n < 2 ^ (64 - 7 * k)" "k \<le> 9" "unat v < 2 ^ (7 * k)"
  shows "varint_loop (pre @ put_varint n @ post) (length pre) (7 * k) v
    = Some (v + of_nat (2 ^ (7 * k) * n), length pre + length (put_varint n))"
  using assms
proof (induction n arbitrary: k v pre rule: put_varint.induct)
  case (1 n)
  show ?case
  proof (cases "n < 128")
    case True
    then have put: "put_varint n = [char_of n]" by (simp add: put_varint.simps)
    have "k = 9 \<Longrightarrow> n \<le> 1" using 1(2) by simp
    then show ?thesis using 1(3,4) True
      by (subst varint_loop.simps) (auto simp: put Let_def or_push_bit_plus nth_append)
  next
    case False
    let ?b = "n mod 128" and ?v = "v + of_nat (2 ^ (7 * k) * (n mod 128))"
    have k: "Suc k \<le> 9"
    proof (rule ccontr)
      assume "\<not> Suc k \<le> 9"
      then have "k = 9" using 1(3) by simp
      then show False using 1(2) False by simp
    qed
    have put: "put_varint n = char_of (128 + n mod 128) # put_varint (n div 128)"
      using False by (subst put_varint.simps) simp
    have pow: "(2::nat) ^ (64 - 7 * k) = 128 * 2 ^ (64 - 7 * Suc k)"
    proof -
      have "64 - 7 * k = 7 + (64 - 7 * Suc k)" using k by simp
      then show ?thesis by (simp only: power_add) simp
    qed
    have small: "n div 128 < 2 ^ (64 - 7 * Suc k)" 
      by (rule less_mult_imp_div_less) (use 1(2) pow in \<open>simp only: mult.commute\<close>)
    have sum: "unat v + 2 ^ (7 * k) * ?b < 2 ^ (7 * Suc k)"
    proof -
      have "2 ^ (7 * k) * ?b \<le> 2 ^ (7 * k) * (127::nat)" by (intro mult_le_mono) auto
      moreover have "(2::nat) ^ (7 * Suc k) = 2 ^ (7 * k) + 2 ^ (7 * k) * 127" by (simp add: power_add)
      ultimately show ?thesis using 1(4) by linarith
    qed
    also have "(2::nat) ^ (7 * Suc k) \<le> 2 ^ 63" using k by (intro power_increasing) auto
    finally have bound: "unat v + 2 ^ (7 * k) * ?b < 2 ^ LENGTH(64)" by simp
    have v': "unat ?v = unat v + 2 ^ (7 * k) * ?b"
    proof -
      have "?v = of_nat (unat v + 2 ^ (7 * k) * ?b)" by simp
      then show ?thesis using bound by (simp only: unat_of_nat) simp
    qed
    have whole: "?v + of_nat (2 ^ (7 * Suc k) * (n div 128)) = v + of_nat (2 ^ (7 * k) * n)"
    proof -
      have "2 ^ (7 * k) * ?b + 2 ^ (7 * Suc k) * (n div 128) = 2 ^ (7 * k) * (?b + 128 * (n div 128))"
        by (simp only: distrib_left power_add mult_Suc_right) (simp add: ac_simps)
      also have "?b + 128 * (n div 128) = n" by simp
      finally have "2 ^ (7 * k) * ?b + 2 ^ (7 * Suc k) * (n div 128) = 2 ^ (7 * k) * n" .
      then show ?thesis by (simp only: add.assoc flip: of_nat_add)
    qed
    have later: "varint_loop ((pre @ [char_of (128 + ?b)]) @ put_varint (n div 128) @ post) (length (pre @ [char_of (128 + ?b :: nat)]))
        (7 * Suc k) ?v = Some (?v + of_nat (2 ^ (7 * Suc k) * (n div 128)),
          length (pre @ [char_of (128 + ?b :: nat)]) + length (put_varint (n div 128)))"
      by (rule 1(1) [OF False small k]) (use v' sum in simp)
    have "varint_loop (pre @ put_varint n @ post) (length pre) (7 * k) v
        = varint_loop (pre @ put_varint n @ post) (Suc (length pre)) (7 * k + 7) ?v"
      using k by (subst varint_loop.simps) (simp add: put nth_append or_push_bit_plus [OF 1(4)] Let_def)
    also have "\<dots> = Some (v + of_nat (2 ^ (7 * k) * n), length pre + length (put_varint n))"
      using later [unfolded whole] by (simp only: put append.simps append_assoc length_append list.size)
        (simp only: mult_Suc_right add.commute [of 7] add_Suc_right add_Suc add_0_right plus_nat.add_0)
    finally show ?thesis .
  qed
qed

lemma readVarint_put:
  assumes "n < 2 ^ 64"
  shows "readVarint (pre @ put_varint n @ post) (length pre) = Some (of_nat n, length pre + length (put_varint n))"
  using varint_loop_put [of n 0 0 pre post] assms by (simp add: readVarint_def)

subsection \<open>Messages\<close>

text \<open>A field as the wire format has it, with its number. A fixed-width field has 8 or 4 arbitrary bytes.\<close>

datatype wire = VarintField nat "64 word" | Fixed64Field nat string | BytesField nat string | Fixed32Field nat string

fun put_field :: "wire \<Rightarrow> string" where
  "put_field (VarintField number v) = put_varint (number * 8) @ put_varint (unat v)"
| "put_field (Fixed64Field number b) = put_varint (number * 8 + 1) @ b"
| "put_field (BytesField number b) = put_varint (number * 8 + 2) @ put_varint (length b) @ b"
| "put_field (Fixed32Field number b) = put_varint (number * 8 + 5) @ b"

fun wire_number :: "wire \<Rightarrow> nat" where
  "wire_number (VarintField number v) = number"
| "wire_number (Fixed64Field number b) = number"
| "wire_number (BytesField number b) = number"
| "wire_number (Fixed32Field number b) = number"

fun wire_ok :: "wire \<Rightarrow> bool" where
  "wire_ok (VarintField number v) = (1 \<le> number \<and> number \<le> 536870911)"
| "wire_ok (Fixed64Field number b) = (1 \<le> number \<and> number \<le> 536870911 \<and> length b = 8)"
| "wire_ok (BytesField number b) = (1 \<le> number \<and> number \<le> 536870911 \<and> length b < 2 ^ 63)"
| "wire_ok (Fixed32Field number b) = (1 \<le> number \<and> number \<le> 536870911 \<and> length b = 4)"

fun read_as :: "wire \<Rightarrow> wireField" where
  "read_as (VarintField number v) = \<lparr>wf_number = number, wf_wireType = 0, wf_value = WireInt v\<rparr>"
| "read_as (Fixed64Field number b) = \<lparr>wf_number = number, wf_wireType = 1, wf_value = WireInt 0\<rparr>"
| "read_as (BytesField number b) = \<lparr>wf_number = number, wf_wireType = 2, wf_value = WireBytes b\<rparr>"
| "read_as (Fixed32Field number b) = \<lparr>wf_number = number, wf_wireType = 5, wf_value = WireInt 0\<rparr>"

definition put_message :: "wire list \<Rightarrow> string" where
  "put_message ws = concat (map put_field ws)"

lemma put_varint_nonempty [simp]: "put_varint n \<noteq> []"
  by (subst put_varint.simps) simp

lemma tag_parts:
  assumes "number \<le> 536870911" "wireType < 8"
  shows "unat (drop_bit 3 (of_nat (number * 8 + wireType) :: 64 word)) = number"
    and "unat ((of_nat (number * 8 + wireType) :: 64 word) AND 7) = wireType"
proof -
  have small: "unat (of_nat (number * 8 + wireType) :: 64 word) = number * 8 + wireType"
    using assms by (simp only: unat_of_nat) simp
  show "unat (drop_bit 3 (of_nat (number * 8 + wireType) :: 64 word)) = number"
    using assms by (simp only: unat_drop_bit_eq small) (simp add: drop_bit_eq_div)
  have "(of_nat (number * 8 + wireType) :: 64 word) AND 7 = take_bit 3 (of_nat (number * 8 + wireType))"
    by (simp add: take_bit_eq_mask mask_eq_exp_minus_1)
  then show "unat ((of_nat (number * 8 + wireType) :: 64 word) AND 7) = wireType"
    using assms by (simp only: unsigned_take_bit_eq small) (simp add: take_bit_eq_mod)
qed

text \<open>A field: its tag, its value and the offset behind it.\<close>

lemma parse_value_put:
  assumes "wire_ok w"
  obtains wireType body where "put_field w = put_varint (wire_number w * 8 + wireType) @ body" "wireType < 8"
    and "\<And>pre post. parse_value (pre @ body @ post) wireType (length pre) = Some (wf_value (read_as w), length pre + length body)"
    and "read_as w = \<lparr>wf_number = wire_number w, wf_wireType = wireType, wf_value = wf_value (read_as w)\<rparr>"
proof (cases w)
  case (VarintField number v)
  have "parse_value (pre @ put_varint (unat v) @ post) 0 (length pre) = Some (WireInt v, length pre + length (put_varint (unat v)))"
    for pre post using readVarint_put [of "unat v" pre post] unsigned_less [of v] by (simp add: parse_value_def)
  then show ?thesis using VarintField by (intro that [of 0 "put_varint (unat v)"]) auto
next
  case (Fixed64Field number b)
  then show ?thesis using assms by (intro that [of 1 b]) (auto simp: parse_value_def)
next
  case (BytesField number b)
  have len: "length b < 2 ^ 64" using assms BytesField by simp
  then have "unat (of_nat (length b) :: 64 word) = length b" by (simp only: unat_of_nat) simp
  then have "parse_value (pre @ (put_varint (length b) @ b) @ post) 2 (length pre)
      = Some (WireBytes b, length pre + length (put_varint (length b) @ b))" for pre post
    using readVarint_put [OF len, of pre "b @ post"] by (simp add: parse_value_def)
  then show ?thesis using BytesField by (intro that [of 2 "put_varint (length b) @ b"]) auto
next
  case (Fixed32Field number b)
  then show ?thesis using assms by (intro that [of 5 b]) (auto simp: parse_value_def)
qed

lemma parse_from_put:
  "list_all wire_ok ws \<Longrightarrow> parse_from (pre @ put_message ws) (length pre) = Some (map read_as ws)"
proof (induction ws arbitrary: pre)
  case Nil
  then show ?case by (simp add: put_message_def parse_from.simps)
next
  case (Cons w ws)
  from Cons.prems have w: "wire_ok w" and ws: "list_all wire_ok ws" by auto
  obtain wireType body where put: "put_field w = put_varint (wire_number w * 8 + wireType) @ body"
    and t: "wireType < 8"
    and v: "\<And>pre post. parse_value (pre @ body @ post) wireType (length pre) = Some (wf_value (read_as w), length pre + length body)"
    and r: "read_as w = \<lparr>wf_number = wire_number w, wf_wireType = wireType, wf_value = wf_value (read_as w)\<rparr>"
    by (rule parse_value_put [OF w]) blast
  let ?tag = "wire_number w * 8 + wireType"
  have number: "1 \<le> wire_number w" "wire_number w \<le> 536870911" using w by (cases w; simp)+
  have "?tag < 2 ^ 64" using number t by simp
  then have tag: "readVarint (pre @ put_varint ?tag @ body @ put_message ws) (length pre)
      = Some (of_nat ?tag, length (pre @ put_varint ?tag))"
    using readVarint_put [of ?tag pre "body @ put_message ws"] by simp
  have message: "pre @ put_message (w # ws) = pre @ put_varint ?tag @ body @ put_message ws"
    by (simp add: put_message_def put)
  have "parse_from (pre @ put_message (w # ws)) (length pre)
      = map_option ((#) (read_as w)) (parse_from ((pre @ put_varint ?tag @ body) @ put_message ws) (length (pre @ put_varint ?tag @ body)))"
    using v [of "pre @ put_varint ?tag" "put_message ws"] number
    by (subst parse_from.simps) (simp add: message tag Let_def tag_parts [OF number(2) t] r [symmetric] add.assoc del: of_nat_add of_nat_mult)
  also have "\<dots> = Some (map read_as (w # ws))" by (simp only: Cons.IH [OF ws]) simp
  finally show ?case .
qed

lemma parse_message: "list_all wire_ok ws \<Longrightarrow> parseFields (put_message ws) = map read_as ws"
  using parse_from_put [of ws "[]"] by (simp add: parseFields_def)

text \<open>
  C34: A number below \<open>2 ^ 64\<close> is read back from its varint wherever that stands in a blob, with the offset
  behind it, and a blob of fields in any order, with numbers from 1 to \<open>2 ^ 29 - 1\<close> and bytes shorter than
  \<open>2 ^ 63\<close>, is read back as one field per encoded field, in order, with its number and wire type. The value
  of a varint or bytes field is read back too; that of a fixed-width one (wire types 1 and 5) is skipped
  and reads as 0.
\<close>

theorem protobuf_roundtrip:
  assumes "n < 2 ^ 64" and "list_all wire_ok ws"
  shows "readVarint (pre @ put_varint n @ post) (length pre) = Some (of_nat n, length pre + length (put_varint n))
    \<and> parseFields (put_message ws) = map read_as ws"
  using readVarint_put [OF assms(1)] parse_message [OF assms(2)] by blast

theorem protobuf_roundtrip_witness:
  "readVarint (''ab'' @ put_varint 300 @ ''c'') (length ''ab'') = Some (300, length ''ab'' + length (put_varint 300))
    \<and> parseFields (put_message [VarintField 1 300, BytesField 20 ''hi'', Fixed32Field 3 ''abcd'']) =
     [\<lparr>wf_number = 1, wf_wireType = 0, wf_value = WireInt 300\<rparr>,
      \<lparr>wf_number = 20, wf_wireType = 2, wf_value = WireBytes ''hi''\<rparr>,
      \<lparr>wf_number = 3, wf_wireType = 5, wf_value = WireInt 0\<rparr>]"
  using protobuf_roundtrip [of 300 "[VarintField 1 300, BytesField 20 ''hi'', Fixed32Field 3 ''abcd'']" "''ab''" "''c''"]
  by simp

subsection \<open>Steps\<close>

text \<open>The texts a value holds: its own, and those of the length-delimited fields in it, at any depth.\<close>

inductive text_within :: "string \<Rightarrow> string \<Rightarrow> bool" where
  own: "decodeUTF8Strict v = Some t \<Longrightarrow> printableUTF8 t \<Longrightarrow> text_within v t"
| nested: "f \<in> set (parseFields v) \<Longrightarrow> wf_wireType f = 2 \<Longrightarrow> text_within (bytesValue f) t \<Longrightarrow> text_within v t"

lemma own_text_iff: "t \<in> set (own_text v) \<longleftrightarrow> decodeUTF8Strict v = Some t \<and> printableUTF8 t"
  by (auto simp: own_text_def split: option.splits)

lemma stringsIn_within: "t \<in> set (stringsIn vs) \<Longrightarrow> \<exists>v \<in> set vs. text_within v t \<and> \<not> isJSBlank t"
proof (induction vs arbitrary: t rule: stringsIn.induct)
  case (1 vs)
  from 1(2) obtain v where v: "v \<in> set vs" and blank: "\<not> isJSBlank t"
    and t: "t \<in> set (own_text v) \<or> (\<exists>f \<in> set (parseFields v). wf_wireType f = 2 \<and> t \<in> set (stringsIn [bytesValue f]))"
    by (subst (asm) stringsIn.simps) auto
  from t have "text_within v t"
  proof
    assume "t \<in> set (own_text v)"
    then show ?thesis by (auto simp: own_text_iff intro: own)
  next
    assume "\<exists>f \<in> set (parseFields v). wf_wireType f = 2 \<and> t \<in> set (stringsIn [bytesValue f])"
    then obtain f where f: "f \<in> set (parseFields v)" "wf_wireType f = 2" and s: "t \<in> set (stringsIn [bytesValue f])" by blast
    from f have "f \<in> set (filter (\<lambda>f. wf_wireType f = 2) (parseFields v))" by simp
    from 1(1) [OF v this s] have "text_within (bytesValue f) t" by simp
    with f show ?thesis by (rule nested)
  qed
  with v blank show ?case by blast
qed

lemma within_stringsIn: "text_within v t \<Longrightarrow> \<not> isJSBlank t \<Longrightarrow> v \<in> set vs \<Longrightarrow> t \<in> set (stringsIn vs)"
proof (induction arbitrary: vs rule: text_within.induct)
  case (own v t)
  then show ?case by (subst stringsIn.simps) (auto simp: own_text_iff)
next
  case (nested f v t)
  have "t \<in> set (stringsIn [bytesValue f])" using nested(4) nested(5) by simp
  with nested(1,2,5,6) show ?case by (subst stringsIn.simps) (auto intro!: bexI [of _ v] exI [of _ f])
qed

lemma stringsIn_exact: "set (stringsIn vs) = {t. \<exists>v \<in> set vs. text_within v t \<and> \<not> isJSBlank t}"
  using stringsIn_within within_stringsIn by blast

lemma stringsIn_head_longest: "stringsIn vs = t # ts \<Longrightarrow> s \<in> set (t # ts) \<Longrightarrow> utf16Len s \<le> utf16Len t"
proof -
  assume l: "stringsIn vs = t # ts" and s: "s \<in> set (t # ts)"
  have "sorted (map (\<lambda>text. - int (utf16Len text)) (stringsIn vs))" by (subst stringsIn.simps) (rule sorted_sort_key)
  then show ?thesis using s by (auto simp: l)
qed

text \<open>The message of a step, envelope by envelope.\<close>

lemma step_message_cases:
  assumes "DecodeAntigravityMessage (DynBytes b) = Some m"
  shows "firstTextAtPaths (parseFields b) [[19, 3, 1], [19, 3, 2], [19, 2]] = Some (da_Text m) \<and> da_Role m = RoleUser
    \<or> firstTextAtPaths (parseFields b) [[20, 8], [20, 1]] = Some (da_Text m) \<and> da_Role m = RoleAssistant
    \<or> (\<exists>ts. stringsIn (fieldsFor (parseFields b) 30) = da_Text m # ts) \<and> da_Role m = RoleToolResult"
  using assms unfolding DecodeAntigravityMessage_def dynamic.case Let_def
  by (auto simp del: firstTextAtPaths.simps split: option.splits list.splits)

lemma strict_text_unchanged: "decodeUTF8Strict b = Some t \<Longrightarrow> t = b"
  by (auto simp: decodeUTF8Strict_def split: if_splits)

lemma model_text:
  assumes "firstTextAtPaths fs [[20, 8], [20, 1]] = Some t"
  shows "\<exists>envelope rest answers. fieldsFor fs 20 = envelope # rest
    \<and> (fieldsFor (parseFields envelope) 8 = t # answers \<or> fieldsFor (parseFields envelope) 1 = t # answers)"
  using assms by (auto split: option.splits list.splits dest!: strict_text_unchanged)

definition tool_texts :: "string \<Rightarrow> string set" where
  "tool_texts b = {t. \<exists>v \<in> set (fieldsFor (parseFields b) 30). text_within v t \<and> \<not> isJSBlank t}"

text \<open>
  A step decodes to the message of the first of its envelopes that has a text: the user turn, the model
  turn or the tool execution. The text of a model turn is field 8 or field 1 of the envelope, never its
  thinking in field 3. The text of a tool execution is the longest of the non-blank printable texts at any
  depth of the envelope.
\<close>

theorem step_message_exact:
  assumes "DecodeAntigravityMessage (DynBytes b) = Some m"
  shows "(da_Role m = RoleUser \<longrightarrow> firstTextAtPaths (parseFields b) [[19, 3, 1], [19, 3, 2], [19, 2]] = Some (da_Text m))
    \<and> (da_Role m = RoleAssistant \<longrightarrow>
        (\<exists>envelope rest answers. fieldsFor (parseFields b) 20 = envelope # rest
          \<and> (fieldsFor (parseFields envelope) 8 = da_Text m # answers
            \<or> fieldsFor (parseFields envelope) 1 = da_Text m # answers)))
    \<and> (da_Role m = RoleToolResult \<longrightarrow>
        da_Text m \<in> tool_texts b \<and> (\<forall>t \<in> tool_texts b. utf16Len t \<le> utf16Len (da_Text m)))"
proof (intro conjI impI)
  note step = step_message_cases [OF assms]
  show "firstTextAtPaths (parseFields b) [[19, 3, 1], [19, 3, 2], [19, 2]] = Some (da_Text m)" if "da_Role m = RoleUser"
    using step that by auto
  show "\<exists>envelope rest answers. fieldsFor (parseFields b) 20 = envelope # rest
      \<and> (fieldsFor (parseFields envelope) 8 = da_Text m # answers \<or> fieldsFor (parseFields envelope) 1 = da_Text m # answers)"
    if "da_Role m = RoleAssistant"
    by (rule model_text) (use step that in auto)
  assume "da_Role m = RoleToolResult"
  with step obtain ts where ts: "stringsIn (fieldsFor (parseFields b) 30) = da_Text m # ts" by auto
  have all: "tool_texts b = set (da_Text m # ts)" unfolding tool_texts_def ts [symmetric] stringsIn_exact ..
  show "da_Text m \<in> tool_texts b" by (simp add: all)
  show "\<forall>t \<in> tool_texts b. utf16Len t \<le> utf16Len (da_Text m)"
    using stringsIn_head_longest [OF ts] by (simp only: all) blast
qed

lemma ascii_runes: "list_all (between 0 0x7F) s \<Longrightarrow> runes s = map (\<lambda>c. (of_char c, [c])) s"
  by (induction s) (auto simp: runes.simps between_def Let_def)

lemma ascii_text: "list_all (between 0 0x7F) s \<Longrightarrow> s \<noteq> [] \<Longrightarrow> decodeUTF8Strict s = Some s"
  by (auto simp: decodeUTF8Strict_def valid_utf8_def valid_rune_def rune_error_def ascii_runes list_all_iff list_ex_iff between_def)

definition demo_step :: string where
  "demo_step = put_message [VarintField 4 2, BytesField 20 (put_message [BytesField 3 ''thought'', BytesField 8 ''answer''])]"

lemma demo_step_decodes:
  "parseFields demo_step = [\<lparr>wf_number = 4, wf_wireType = 0, wf_value = WireInt 2\<rparr>,
     \<lparr>wf_number = 20, wf_wireType = 2, wf_value = WireBytes (put_message [BytesField 3 ''thought'', BytesField 8 ''answer''])\<rparr>]"
proof -
  have "length (put_message [BytesField 3 ''thought'', BytesField 8 ''answer'']) = 17"
    by (simp add: put_message_def put_varint.simps)
  then show ?thesis unfolding demo_step_def by (subst parse_message) simp_all
qed

theorem step_message_exact_witness:
  "DecodeAntigravityMessage (DynBytes demo_step) = Some \<lparr>da_Role = RoleAssistant, da_Text = ''answer''\<rparr>
    \<and> (\<exists>envelope rest answers. fieldsFor (parseFields demo_step) 20 = envelope # rest
          \<and> (fieldsFor (parseFields envelope) 8 = ''answer'' # answers
            \<or> fieldsFor (parseFields envelope) 1 = ''answer'' # answers))"
proof -
  have strict: "decodeUTF8Strict ''answer'' = Some ''answer''" by (rule ascii_text) (simp_all add: between_def)
  have inner: "parseFields (put_message [BytesField 3 ''thought'', BytesField 8 ''answer'']) =
     [\<lparr>wf_number = 3, wf_wireType = 2, wf_value = WireBytes ''thought''\<rparr>, \<lparr>wf_number = 8, wf_wireType = 2, wf_value = WireBytes ''answer''\<rparr>]"
    by (subst parse_message) simp_all
  have "DecodeAntigravityMessage (DynBytes demo_step) = Some \<lparr>da_Role = RoleAssistant, da_Text = ''answer''\<rparr>"
    by (simp add: DecodeAntigravityMessage_def demo_step_decodes fieldsFor_def bytesValue_def inner strict)
  then show ?thesis using step_message_exact [of demo_step] by fastforce
qed

end
