(* ===== verification/HistoryReaders.thy ===== *)
theory HistoryReaders
  imports HistoryCompact HistoryProto
begin

text \<open>
  The readers of histories: JSON lines with their tail window (\<open>agenthistory/readers.go\<close>), the session
  files of pi (\<open>pi_reader.go\<close>), the conversation databases of agy (\<open>antigravity_reader.go\<close>), and the
  fingerprint of a source (\<open>source_fingerprint.go\<close>). The file system and the SQLite driver are parameters:
  what a path stats to, the bytes of a file from an offset on, and the rows a query yields. The clock gives the
  time of its n-th reading.
\<close>

subsection \<open>Contracts\<close>

definition SourceAntigravitySQLite :: string where "SourceAntigravitySQLite = ''antigravity-sqlite''"
definition SourcePiJSONL :: string where "SourcePiJSONL = ''pi-jsonl''"
definition SourceUnknown :: string where "SourceUnknown = ''unknown''"
definition KindAgentSession :: string where "KindAgentSession = ''agent_session''"

record HistoryRef =
  hx_Kind :: string
  hx_Path :: "string option"
  hx_Source :: string
  hx_Value :: string

definition ResolvedPath :: "HistoryRef \<Rightarrow> string" where
  "ResolvedPath r = (case hx_Path r of Some p \<Rightarrow> p | None \<Rightarrow> hx_Value r)"

record HistoryExcerpt =
  ex_Ref :: string
  ex_StopReason :: "string option"
  ex_Text :: string
  ex_Timestamp :: "string option"

datatype UnreadyReason =
  UnreadyEmptyHistory | UnreadyNoUserMessage | UnreadyAssistantOnlyBeforeLastUser | UnreadyNoAssistantMessage

record CompactHistory =
  cx_HistoryRef :: "HistoryRef option"
  cx_LastAssistantMessage :: "HistoryExcerpt option"
  cx_LastToolResult :: "HistoryToolResult option"
  cx_LastUserMessage :: "HistoryExcerpt option"
  cx_MessageCount :: int
  cx_Source :: "string option"
  cx_UnreadyReason :: "UnreadyReason option"
  cx_UpdatedAt :: "string option"

record SourceFingerprint =
  sf_MtimeMs :: int
  sf_Path :: string
  sf_Size :: int

record HistoryMessage =
  hy_Compact :: "HistoryToolResult option"
  hy_Ref :: string
  hy_Role :: MessageRole
  hy_StopReason :: "string option"
  hy_Text :: string
  hy_Timestamp :: "string option"
  hy_ToolName :: "string option"

subsection \<open>The platform\<close>

record file_info =
  fi_size :: int
  fi_mtimeMs :: int
  fi_symlink :: bool
  fi_regular :: bool
  fi_perm :: nat
  fi_uid :: "int option"

text \<open>A query yields rows, and may fail behind them; a query that cannot run yields none and fails.\<close>

type_synonym sql_row = "(string \<times> dynamic) list"

record history_platform =
  hp_stat :: "string \<Rightarrow> file_info option"
  hp_lstat :: "string \<Rightarrow> file_info option"
  hp_evalSymlinks :: "string \<Rightarrow> string option"
  hp_readFrom :: "string \<Rightarrow> int \<Rightarrow> string option"
  hp_query :: "string \<Rightarrow> string \<Rightarrow> sql_row list \<times> bool"
  hp_unmarshal :: "string \<Rightarrow> jval option"
  hp_mapOrder :: map_order
  hp_shortest :: "rat \<Rightarrow> string"
  hp_euid :: int
  hp_getenv :: "string \<Rightarrow> string option"
  hp_clock :: "nat \<Rightarrow> int"

subsection \<open>JSON lines\<close>

definition JSONLMaxBytes :: int where "JSONLMaxBytes = 32 * 1024 * 1024"

record JSONLEntry =
  je_Line :: int
  je_Value :: "(string \<times> jval) list"

datatype read_error = ErrReadFile | UnstableJSONLError nat int int | JSONLTooLargeError int int

text \<open>What \<open>ReadString\<close> yields: each line without its newline and one carriage return, then what follows the last newline.\<close>

definition read_lines :: "string \<Rightarrow> (string \<times> bool) list" where
  "read_lines data =
     (let parts = split_on newline data
      in map (\<lambda>line. (drop_return line, False)) (butlast parts) @ [(last parts, True)])"

record jsonl_state =
  jl_entries :: "JSONLEntry list"
  jl_malformed :: nat
  jl_lineNumber :: int
  jl_tailMalformed :: bool

definition jsonl_record :: "(string \<Rightarrow> jval option) \<Rightarrow> string \<Rightarrow> jsonl_state \<Rightarrow> jsonl_state" where
  "jsonl_record unmarshal line s =
     (let n = jl_lineNumber s + 1; s = s\<lparr>jl_lineNumber := n\<rparr>
      in if line = [] \<or> isJSBlank line then s
         else case unmarshal line of
             None \<Rightarrow> s\<lparr>jl_malformed := jl_malformed s + 1, jl_tailMalformed := True\<rparr>
           | Some (JObj obj) \<Rightarrow>
               s\<lparr>jl_entries := jl_entries s @ [\<lparr>je_Line = n, je_Value = obj\<rparr>], jl_tailMalformed := False\<rparr>
           | Some _ \<Rightarrow> s\<lparr>jl_tailMalformed := False\<rparr>)"

text \<open>The loop over the lines; the first line of a tail window is skipped, an empty rest ends it.\<close>

fun jsonl_loop :: "(string \<Rightarrow> jval option) \<Rightarrow> bool \<Rightarrow> (string \<times> bool) list \<Rightarrow> jsonl_state \<Rightarrow> jsonl_state" where
  "jsonl_loop unmarshal skip [] s = s"
| "jsonl_loop unmarshal skip ((line, atEOF) # rest) s =
     (if atEOF \<and> line = [] then s
      else if skip then (if atEOF then s else jsonl_loop unmarshal False rest s)
      else let s' = jsonl_record unmarshal line s
        in if atEOF then s' else jsonl_loop unmarshal False rest s')"

definition ReadJSONL :: "history_platform \<Rightarrow> string \<Rightarrow> int \<Rightarrow> read_error + JSONLEntry list" where
  "ReadJSONL pf path maxBytesOption =
     (let maxBytes = (if maxBytesOption = 0 then JSONLMaxBytes else maxBytesOption)
      in case hp_stat pf path of None \<Rightarrow> Inl ErrReadFile
         | Some info \<Rightarrow>
           let start = (if maxBytes < fi_size info then fi_size info - maxBytes else 0)
           in case hp_readFrom pf path start of None \<Rightarrow> Inl ErrReadFile
              | Some data \<Rightarrow>
                let s = jsonl_loop (hp_unmarshal pf) (0 < start) (read_lines data)
                      \<lparr>jl_entries = [], jl_malformed = 0, jl_lineNumber = 0, jl_tailMalformed = False\<rparr>
                in if 0 < jl_malformed s \<and> jl_tailMalformed s
                   then Inl (UnstableJSONLError (jl_malformed s) (fi_size info) (fi_mtimeMs info))
                   else if 0 < start \<and> jl_entries s = [] then Inl (JSONLTooLargeError maxBytes (fi_size info))
                   else Inr (jl_entries s))"

subsection \<open>Compaction of messages\<close>

text \<open>The last element with a property.\<close>

definition find_last :: "('a \<Rightarrow> bool) \<Rightarrow> 'a list \<Rightarrow> 'a option" where
  "find_last P xs = List.find P (rev xs)"

definition lastByRole :: "HistoryMessage list \<Rightarrow> MessageRole \<Rightarrow> HistoryMessage option" where
  "lastByRole messages role = find_last (\<lambda>m. hy_Role m = role) messages"

definition lastTimestamp :: "HistoryMessage list \<Rightarrow> string option" where
  "lastTimestamp messages =
     (case find_last (\<lambda>m. hy_Timestamp m \<noteq> None) messages of None \<Rightarrow> None | Some m \<Rightarrow> hy_Timestamp m)"

definition lastToolCompact :: "HistoryMessage option \<Rightarrow> HistoryToolResult option" where
  "lastToolCompact m = (case m of None \<Rightarrow> None | Some m \<Rightarrow> hy_Compact m)"

definition excerptOf :: "HistoryMessage \<Rightarrow> HistoryExcerpt" where
  "excerptOf m = \<lparr>ex_Ref = hy_Ref m, ex_StopReason = hy_StopReason m, ex_Text = sz_Text (SanitizeString (hy_Text m)),
     ex_Timestamp = hy_Timestamp m\<rparr>"

definition has_role :: "MessageRole \<Rightarrow> HistoryMessage list \<Rightarrow> bool" where
  "has_role role messages \<longleftrightarrow> list_ex (\<lambda>m. hy_Role m = role) messages"

definition unready_reason :: "HistoryMessage list \<Rightarrow> UnreadyReason" where
  "unready_reason messages =
     (if messages = [] then UnreadyEmptyHistory
      else if lastByRole messages RoleUser = None then UnreadyNoUserMessage
      else if has_role RoleAssistant messages \<and> has_role RoleUser messages then UnreadyAssistantOnlyBeforeLastUser
      else UnreadyNoAssistantMessage)"

definition CompactFromMessages :: "HistoryRef \<Rightarrow> HistoryMessage list \<Rightarrow> CompactHistory" where
  "CompactFromMessages ref messages =
     (let lastUser = lastByRole messages RoleUser; lastAssistant = lastByRole messages RoleAssistant
      in \<lparr>cx_HistoryRef = Some ref,
          cx_LastAssistantMessage = map_option excerptOf lastAssistant,
          cx_LastToolResult = lastToolCompact (find_last (\<lambda>m. hy_Role m = RoleToolResult) messages),
          cx_LastUserMessage = map_option excerptOf lastUser,
          cx_MessageCount = int (length messages),
          cx_Source = Some (hx_Source ref),
          cx_UnreadyReason = (if lastAssistant = None then Some (unready_reason messages) else None),
          cx_UpdatedAt = lastTimestamp messages\<rparr>)"

definition sanitizeHistoryMessage :: "HistoryMessage \<Rightarrow> HistoryMessage" where
  "sanitizeHistoryMessage m =
     (let text = sz_Text (SanitizeString (hy_Text m)) in if text = hy_Text m then m else m\<lparr>hy_Text := text\<rparr>)"

definition LimitMessages :: "HistoryMessage list \<Rightarrow> int option \<Rightarrow> HistoryMessage list" where
  "LimitMessages messages limit =
     (let selected = (case limit of
            Some n \<Rightarrow> if 0 < n \<and> n < int (length messages) then drop (length messages - nat n) messages else messages
          | None \<Rightarrow> messages)
      in map sanitizeHistoryMessage selected)"

subsection \<open>pi\<close>

definition pi_CanRead :: "HistoryRef \<Rightarrow> bool" where
  "pi_CanRead ref \<longleftrightarrow> hx_Source ref = SourcePiJSONL
     \<and> ((case hx_Path ref of Some p \<Rightarrow> p \<noteq> [] | None \<Rightarrow> False) \<or> hx_Value ref \<noteq> [])"

definition recordOf :: "jval option \<Rightarrow> (string \<times> jval) list" where
  "recordOf v = (case v of Some (JObj kvs) \<Rightarrow> kvs | _ \<Rightarrow> [])"

definition textValue :: "jval option \<Rightarrow> string option" where
  "textValue v = (case v of Some (JStr s) \<Rightarrow> if s = [] then None else Some s | _ \<Rightarrow> None)"

definition isTrue :: "jval option \<Rightarrow> bool" where "isTrue v \<longleftrightarrow> v = Some (JBool True)"

definition pi_text :: "jval option \<Rightarrow> string option" where
  "pi_text v = (case v of None \<Rightarrow> None | Some content \<Rightarrow> TextFromContent content)"

definition pi_message :: "history_platform \<Rightarrow> string \<Rightarrow> JSONLEntry \<Rightarrow> HistoryMessage option" where
  "pi_message pf path entry =
     (let obj = map_of (je_Value entry); message = map_of (recordOf (obj ''message''))
      in case textValue (message ''role'') of None \<Rightarrow> None
         | Some role \<Rightarrow>
           if obj ''type'' \<noteq> Some (JStr ''message'') then None
           else
             let timestamp = (case TimestampFrom (dynamic_json (obj ''timestamp'')) of
                   Some t \<Rightarrow> Some t | None \<Rightarrow> TimestampFrom (dynamic_json (message ''timestamp'')));
                 refValue = MessageRef path (textValue (obj ''id'')) (je_Line entry)
             in if role = ''user'' \<or> role = ''assistant'' then
                  (case pi_text (message ''content'') of None \<Rightarrow> None
                   | Some text \<Rightarrow> Some \<lparr>hy_Compact = None, hy_Ref = refValue,
                       hy_Role = (if role = ''user'' then RoleUser else RoleAssistant),
                       hy_StopReason = textValue (message ''stopReason''), hy_Text = text,
                       hy_Timestamp = timestamp, hy_ToolName = None\<rparr>)
                else if role = ''toolResult'' then
                  (let text = (case pi_text (message ''content'') of None \<Rightarrow> [] | Some text \<Rightarrow> text);
                       toolName = (case textValue (message ''toolName'') of None \<Rightarrow> ''unknown'' | Some name \<Rightarrow> name);
                       result = CompactToolResultValue (hp_unmarshal pf) (hp_mapOrder pf)
                         \<lparr>ci_IsError = isTrue (message ''isError''), ci_Ref = refValue, ci_ToolText = text,
                          ci_ToolName = toolName\<rparr>
                   in Some \<lparr>hy_Compact = Some result, hy_Ref = refValue, hy_Role = RoleToolResult,
                        hy_StopReason = None, hy_Text = ht_Text result, hy_Timestamp = timestamp,
                        hy_ToolName = Some toolName\<rparr>)
                else None)"

definition pi_Read :: "history_platform \<Rightarrow> HistoryRef \<Rightarrow> int option \<Rightarrow> read_error + HistoryMessage list" where
  "pi_Read pf ref limit =
     (let path = ResolvedPath ref
      in case ReadJSONL pf path 0 of Inl e \<Rightarrow> Inl e
         | Inr entries \<Rightarrow> Inr (LimitMessages (List.map_filter (pi_message pf path) entries) limit))"

definition pi_ReadCompact :: "history_platform \<Rightarrow> HistoryRef \<Rightarrow> read_error + CompactHistory" where
  "pi_ReadCompact pf ref =
     (case pi_Read pf ref None of Inl e \<Rightarrow> Inl e | Inr messages \<Rightarrow> Inr (CompactFromMessages ref messages))"

end
