(* ===== verification/HistoryAgy.thy ===== *)
theory HistoryAgy
  imports HistoryReaders
begin

text \<open>
  The reader of the conversation databases of agy (\<open>agenthistory/antigravity_reader.go\<close>) and the
  fingerprint of a source (\<open>source_fingerprint.go\<close>). The SQL text is built as the code builds it and handed
  to the query parameter of the platform.
\<close>

definition antigravityTables :: "string list" where
  "antigravityTables = [''steps'', ''conversation_steps'', ''step'']"
definition antigravityRoles :: "string list" where
  "antigravityRoles = [''role'', ''envelope_role'', ''message_role'']"
definition antigravityPayload :: "string list" where
  "antigravityPayload = [''step_payload'', ''payload'', ''content'', ''message'']"

definition agy_CanRead :: "HistoryRef \<Rightarrow> bool" where
  "agy_CanRead ref \<longleftrightarrow> hx_Source ref = SourceAntigravitySQLite \<and> ResolvedPath ref \<noteq> [] \<and> hx_Value ref \<noteq> []
     \<and> (case hx_Path ref of None \<Rightarrow> False | Some p \<Rightarrow> p \<noteq> [])"

subsection \<open>The query\<close>

definition quoteIdentifier :: "string \<Rightarrow> string" where
  "quoteIdentifier v =
     [CHR 0x22] @ concat (map (\<lambda>c. if c = CHR 0x22 then [CHR 0x22, CHR 0x22] else [c]) v) @ [CHR 0x22]"

definition roleSelect :: "string \<Rightarrow> string" where
  "roleSelect role = (if role = [] then [] else quoteIdentifier role @ '' as role,'')"

definition timeSelect :: "string \<Rightarrow> string" where
  "timeSelect timeColumn = (if timeColumn = [] then [] else '', '' @ quoteIdentifier timeColumn @ '' as time'')"

definition metadataSelect :: "string \<Rightarrow> string" where
  "metadataSelect metadataColumn =
     (if metadataColumn = [] then [] else '', '' @ quoteIdentifier metadataColumn @ '' as metadata'')"

definition firstPresent :: "string set \<Rightarrow> string list \<Rightarrow> string" where
  "firstPresent names candidates = (case List.find (\<lambda>c. c \<in> names) candidates of None \<Rightarrow> [] | Some c \<Rightarrow> c)"

definition column :: "sql_row \<Rightarrow> string \<Rightarrow> dynamic" where
  "column row name = (case map_of row name of None \<Rightarrow> DynNil | Some v \<Rightarrow> v)"

text \<open>\<open>Scan\<close> into a string fails for NULL.\<close>

definition scan_text :: "dynamic \<Rightarrow> string option" where
  "scan_text v = (case v of DynString s \<Rightarrow> Some s | DynBytes b \<Rightarrow> Some b | _ \<Rightarrow> None)"

text \<open>The first table of a known name; the empty name when there is none, \<open>None\<close> for an error.\<close>

fun find_table :: "sql_row list \<Rightarrow> bool \<Rightarrow> string option" where
  "find_table [] failed = (if failed then None else Some [])"
| "find_table (row # rows) failed =
     (case scan_text (column row ''name'') of None \<Rightarrow> None
      | Some name \<Rightarrow> if name \<in> set antigravityTables then Some name else find_table rows failed)"

definition findAntigravityTable :: "history_platform \<Rightarrow> string \<Rightarrow> string option" where
  "findAntigravityTable pf path =
     (case hp_query pf path (''select name from sqlite_master where type = '' @ [CHR 0x27] @ ''table'' @ [CHR 0x27]) of
        (rows, failed) \<Rightarrow> find_table rows failed)"

definition tableColumnNames :: "history_platform \<Rightarrow> string \<Rightarrow> string \<Rightarrow> string set option" where
  "tableColumnNames pf path table =
     (case hp_query pf path (''pragma table_info('' @ quoteIdentifier table @ '')'') of
        (rows, failed) \<Rightarrow> if failed then None
          else Some (set (List.map_filter (\<lambda>row. case column row ''name'' of DynString s \<Rightarrow> Some s | _ \<Rightarrow> None) rows)))"

subsection \<open>Steps\<close>

definition payloadText :: "dynamic \<Rightarrow> string" where
  "payloadText v = (case v of DynString s \<Rightarrow> s | _ \<Rightarrow> [])"

text \<open>An explicit role of a user or an assistant wins, and its payload must be text.\<close>

definition stepMessage :: "sql_row \<Rightarrow> (MessageRole \<times> string) option" where
  "stepMessage row =
     (if column row ''role'' = DynString ''user'' \<or> column row ''role'' = DynString ''assistant''
      then let text = payloadText (column row ''payload'')
        in if text = [] then None
           else Some (if column row ''role'' = DynString ''user'' then RoleUser else RoleAssistant, text)
      else (case DecodeAntigravityMessage (column row ''payload'') of None \<Rightarrow> None
        | Some decoded \<Rightarrow> if da_Text decoded = [] then None else Some (da_Role decoded, da_Text decoded)))"

definition jsValueString :: "history_platform \<Rightarrow> dynamic \<Rightarrow> string" where
  "jsValueString pf v =
     (case v of DynNil \<Rightarrow> ''null'' | DynString s \<Rightarrow> s | DynBytes b \<Rightarrow> b
      | DynBool b \<Rightarrow> if b then ''true'' else ''false'' | DynInt i \<Rightarrow> FormatInt i
      | DynFloat f \<Rightarrow> jsNumberToString (hp_shortest pf) f | DynOther s \<Rightarrow> s)"

definition agy_message :: "history_platform \<Rightarrow> string \<Rightarrow> sql_row \<Rightarrow> HistoryMessage option" where
  "agy_message pf path row =
     (case stepMessage row of None \<Rightarrow> None
      | Some (role, text) \<Rightarrow>
        Some \<lparr>hy_Compact = None, hy_Ref = MessageRef path (Some (jsValueString pf (column row ''id''))) 0,
          hy_Role = role, hy_StopReason = None, hy_Text = text,
          hy_Timestamp = (case TimestampFrom (column row ''time'') of Some t \<Rightarrow> Some t
             | None \<Rightarrow> DecodeAntigravityMetadataTimestamp (column row ''metadata'')),
          hy_ToolName = None\<rparr>)"

definition agy_query :: "string set \<Rightarrow> string \<Rightarrow> string \<Rightarrow> string" where
  "agy_query names table payloadColumn =
     (let idColumn = (if ''id'' \<in> names then ''id'' else if ''step_id'' \<in> names then ''step_id'' else ''idx'');
          timeColumn = (if ''created_at'' \<in> names then ''created_at'' else if ''timestamp'' \<in> names then ''timestamp'' else []);
          metadataColumn = (if ''metadata'' \<in> names then ''metadata'' else [])
      in ''select '' @ quoteIdentifier idColumn @ '' as id, '' @ roleSelect (firstPresent names antigravityRoles) @ '' ''
         @ quoteIdentifier payloadColumn @ '' as payload'' @ timeSelect timeColumn @ metadataSelect metadataColumn
         @ '' from '' @ quoteIdentifier table @ '' order by rowid'')"

definition readAntigravityMessages :: "history_platform \<Rightarrow> string \<Rightarrow> HistoryMessage list option" where
  "readAntigravityMessages pf path =
     (case findAntigravityTable pf path of None \<Rightarrow> None
      | Some table \<Rightarrow>
        if table = [] then Some []
        else (case tableColumnNames pf path table of None \<Rightarrow> None
          | Some names \<Rightarrow>
            let payloadColumn = firstPresent names antigravityPayload
            in if payloadColumn = [] then Some []
               else (case hp_query pf path (agy_query names table payloadColumn) of
                   (rows, failed) \<Rightarrow> if failed then None else Some (List.map_filter (agy_message pf path) rows))))"

text \<open>An unreadable conversation is an empty one.\<close>

definition agy_Read :: "history_platform \<Rightarrow> HistoryRef \<Rightarrow> int option \<Rightarrow> HistoryMessage list" where
  "agy_Read pf ref limit =
     (case hx_Path ref of None \<Rightarrow> []
      | Some path \<Rightarrow>
        if path = [] \<or> hx_Value ref = [] \<or> str_contains ''..'' path then []
        else (case readAntigravityMessages pf path of None \<Rightarrow> [] | Some messages \<Rightarrow> LimitMessages messages limit))"

subsection \<open>The turn\<close>

definition last_user_index :: "HistoryMessage list \<Rightarrow> nat option" where
  "last_user_index messages = find_last (\<lambda>i. hy_Role (messages ! i) = RoleUser) [0..<length messages]"

definition agy_compact :: "HistoryRef \<Rightarrow> HistoryMessage list \<Rightarrow> CompactHistory" where
  "agy_compact ref messages =
     (let result = CompactFromMessages ref messages
      in if messages = [] then
           result\<lparr>cx_LastAssistantMessage := None, cx_UnreadyReason := Some UnreadyEmptyHistory\<rparr>
         else (case last_user_index messages of
             None \<Rightarrow> result\<lparr>cx_LastAssistantMessage := None, cx_UnreadyReason := Some UnreadyNoUserMessage\<rparr>
           | Some i \<Rightarrow>
             (case lastByRole (drop (Suc i) messages) RoleAssistant of
                Some m \<Rightarrow> result\<lparr>cx_LastAssistantMessage := Some \<lparr>ex_Ref = hy_Ref m, ex_StopReason = None,
                    ex_Text = hy_Text m, ex_Timestamp = hy_Timestamp m\<rparr>, cx_UnreadyReason := None\<rparr>
              | None \<Rightarrow> result\<lparr>cx_LastAssistantMessage := None,
                  cx_UnreadyReason := Some (if has_role RoleAssistant messages
                    then UnreadyAssistantOnlyBeforeLastUser else UnreadyNoAssistantMessage)\<rparr>)))"

definition agy_ReadCompact :: "history_platform \<Rightarrow> HistoryRef \<Rightarrow> CompactHistory" where
  "agy_ReadCompact pf ref = agy_compact ref (agy_Read pf ref None)"

subsection \<open>Fingerprints\<close>

definition sidecar_mtime :: "file_info option \<Rightarrow> int" where
  "sidecar_mtime info = (case info of None \<Rightarrow> 0 | Some i \<Rightarrow> fi_mtimeMs i)"

definition sidecar_size :: "file_info option \<Rightarrow> int" where
  "sidecar_size info = (case info of None \<Rightarrow> 0 | Some i \<Rightarrow> fi_size i)"

definition StatSourceFingerprint :: "history_platform \<Rightarrow> string \<Rightarrow> SourceFingerprint option" where
  "StatSourceFingerprint pf path =
     (case hp_stat pf path of None \<Rightarrow> None
      | Some main \<Rightarrow>
        let wal = hp_stat pf (path @ ''-wal''); shm = hp_stat pf (path @ ''-shm'')
        in Some \<lparr>sf_MtimeMs = fi_mtimeMs main + sidecar_mtime wal * 3 + sidecar_mtime shm * 7, sf_Path = path,
             sf_Size = fi_size main + sidecar_size wal + sidecar_size shm\<rparr>)"

end
