(* ===== verification/HistoryDiscovery.thy ===== *)
theory HistoryDiscovery
  imports HistoryAgy ConfigRuntime
begin

text \<open>
  The discovery of session files (\<open>agenthistory/discovery.go\<close>): the file-safety gate, the containment of a
  candidate in the conversation directory of a home, the reader a session reference names, and the memory
  of failed lookups. The file system does not change while one lookup runs.
\<close>

definition AllowedSessionRoots :: "string list" where "AllowedSessionRoots = [''/tmp/herdr-role-sessions'']"
definition DefaultAgyExtraHomes :: "string list" where "DefaultAgyExtraHomes = [''/root/.agy-pro-home'']"
definition AgyExtraHomesEnv :: string where "AgyExtraHomesEnv = ''AGY_EXTRA_HOMES''"
definition DiscoveryRetryAfterFailureMs :: int where "DiscoveryRetryAfterFailureMs = 60000"
definition DiscoveryFailureCacheLimit :: nat where "DiscoveryFailureCacheLimit = 512"

record HistoryLookupInput =
  lu_Agent :: "string option"
  lu_AgentSession :: "AgentSessionRef option"
  lu_ExtraHomeDirs :: "string list option"
  lu_HerdrSessionName :: "string option"
  lu_HomeDir :: "string option"
  lu_PaneID :: "string option"

subsection \<open>Homes\<close>

definition ResolveAgyExtraHomes :: "string list option \<Rightarrow> string option \<Rightarrow> string list" where
  "ResolveAgyExtraHomes extraHomeDirs env =
     (let raw = (case extraHomeDirs of Some dirs \<Rightarrow> dirs
         | None \<Rightarrow> (case env of Some v \<Rightarrow> split_on (CHR '':'') v | None \<Rightarrow> DefaultAgyExtraHomes))
      in filter (\<lambda>home. home \<noteq> []) (map TrimSpace raw))"

definition resolveAgyExtraHomesFromEnv :: "history_platform \<Rightarrow> string list option \<Rightarrow> string list" where
  "resolveAgyExtraHomesFromEnv pf extraHomeDirs = ResolveAgyExtraHomes extraHomeDirs (hp_getenv pf AgyExtraHomesEnv)"

definition homeDirOrEnv :: "history_platform \<Rightarrow> string option \<Rightarrow> string" where
  "homeDirOrEnv pf homeDir =
     (case homeDir of Some d \<Rightarrow> d | None \<Rightarrow> (case hp_getenv pf ''HOME'' of Some v \<Rightarrow> v | None \<Rightarrow> []))"

fun distinct_homes :: "string set \<Rightarrow> string list \<Rightarrow> string list" where
  "distinct_homes seen [] = []"
| "distinct_homes seen (candidate # rest) =
     (if candidate = [] \<or> path_clean candidate \<in> seen then distinct_homes seen rest
      else candidate # distinct_homes (insert (path_clean candidate) seen) rest)"

definition ResolveAgyHomeDirs :: "history_platform \<Rightarrow> string list option \<Rightarrow> string option \<Rightarrow> string list" where
  "ResolveAgyHomeDirs pf extraHomeDirs homeDir =
     (let homes = distinct_homes {} (TrimSpace (homeDirOrEnv pf homeDir) # resolveAgyExtraHomesFromEnv pf extraHomeDirs)
      in if homes = [] then [[]] else homes)"

definition DiscoveryLookupKey :: "history_platform \<Rightarrow> HistoryLookupInput \<Rightarrow> string" where
  "DiscoveryLookupKey pf input =
     (let session = lu_AgentSession input
      in join_with [nul]
        [case lu_Agent input of None \<Rightarrow> [] | Some a \<Rightarrow> a,
         case session of None \<Rightarrow> [] | Some s \<Rightarrow> (case sr_Kind s of SessionRefID \<Rightarrow> ''id'' | SessionRefPath \<Rightarrow> ''path''),
         case session of None \<Rightarrow> [] | Some s \<Rightarrow> sr_Source s,
         case session of None \<Rightarrow> [] | Some s \<Rightarrow> sr_Value s,
         homeDirOrEnv pf (lu_HomeDir input),
         join_with '':'' (resolveAgyExtraHomesFromEnv pf (lu_ExtraHomeDirs input))])"

subsection \<open>The file-safety gate\<close>

definition regular_file :: "file_info \<Rightarrow> bool" where
  "regular_file info \<longleftrightarrow> \<not> fi_symlink info \<and> fi_regular info"

text \<open>Writable by the group or by others: one of the bits of \<open>0o022\<close>.\<close>

definition writable_by_others :: "nat \<Rightarrow> bool" where
  "writable_by_others perm \<longleftrightarrow> odd (perm div 2) \<or> odd (perm div 16)"

definition safeRegularFile :: "history_platform \<Rightarrow> string \<Rightarrow> string" where
  "safeRegularFile pf v =
     (if \<not> is_abs v \<or> str_contains ''..'' v then []
      else let reported = path_clean v
        in case hp_lstat pf reported of None \<Rightarrow> []
           | Some raw \<Rightarrow>
             if \<not> regular_file raw then []
             else case hp_evalSymlinks pf reported of None \<Rightarrow> []
                | Some realpath \<Rightarrow>
                  (case hp_lstat pf realpath of None \<Rightarrow> []
                   | Some target \<Rightarrow>
                     if \<not> regular_file target \<or> writable_by_others (fi_perm target) then []
                     else if fi_uid target \<noteq> Some (hp_euid pf) then []
                     else realpath))"

definition SafeOfficialSessionPath :: "history_platform \<Rightarrow> string \<Rightarrow> string" where
  "SafeOfficialSessionPath = safeRegularFile"

subsection \<open>Relative paths\<close>

text \<open>The elements of a cleaned path.\<close>

definition path_elements :: "string \<Rightarrow> string list" where
  "path_elements path = filter (\<lambda>e. e \<noteq> []) (split_on (CHR ''/'') path)"

fun drop_common :: "string list \<Rightarrow> string list \<Rightarrow> string list \<times> string list" where
  "drop_common (b # bs) (t # ts) = (if b = t then drop_common bs ts else (b # bs, t # ts))"
| "drop_common bs ts = (bs, ts)"

text \<open>\<open>filepath.Rel\<close>; \<open>None\<close> is its error.\<close>

definition path_rel :: "string \<Rightarrow> string \<Rightarrow> string option" where
  "path_rel basepath targpath =
     (let base = path_clean basepath; targ = path_clean targpath
      in if targ = base then Some ''.''
         else let base = (if base = ''.'' then [] else base)
           in if is_abs base \<noteq> is_abs targ then None
              else case drop_common (path_elements base) (path_elements targ) of
                (bs, ts) \<Rightarrow>
                  if bs \<noteq> [] \<and> ts \<noteq> [] \<and> hd bs = ''..'' then None
                  else Some (join_with ''/'' (replicate (length bs) ''..'' @ ts)))"

definition relativePath :: "string \<Rightarrow> string \<Rightarrow> string" where
  "relativePath from_path to_path = (case path_rel from_path to_path of Some rest \<Rightarrow> rest | None \<Rightarrow> to_path)"

definition realpathOrNormalize :: "history_platform \<Rightarrow> string \<Rightarrow> string" where
  "realpathOrNormalize pf v = (case hp_evalSymlinks pf v of Some realpath \<Rightarrow> realpath | None \<Rightarrow> path_clean v)"

definition strictly_below :: "string \<Rightarrow> bool" where
  "strictly_below rest \<longleftrightarrow> rest \<noteq> [] \<and> rest \<noteq> ''.'' \<and> \<not> prefix ''..'' rest \<and> \<not> is_abs rest"

definition isInside :: "history_platform \<Rightarrow> string \<Rightarrow> string \<Rightarrow> bool" where
  "isInside pf rootdir path = strictly_below (relativePath (realpathOrNormalize pf rootdir) path)"

subsection \<open>The whitelist of registrations\<close>

definition path_join_all :: "string list \<Rightarrow> string" where
  "path_join_all es =
     (let es = filter (\<lambda>e. e \<noteq> []) es in if es = [] then [] else path_clean (join_with ''/'' es))"

definition homeSessionRoots :: "string \<Rightarrow> string list" where
  "homeSessionRoots home = [path_join_all [home, ''.pi/agent/sessions''], path_join_all [home, ''.pig/agent/sessions'']]"

definition session_roots :: "history_platform \<Rightarrow> string option \<Rightarrow> string list" where
  "session_roots pf homeDir =
     (let home = (case homeDir of Some d \<Rightarrow> d | None \<Rightarrow> (case hp_getenv pf ''HOME'' of Some v \<Rightarrow> v | None \<Rightarrow> ''/root''))
      in homeSessionRoots home @ AllowedSessionRoots)"

definition SafeAllowedSessionPath :: "history_platform \<Rightarrow> string \<Rightarrow> string option \<Rightarrow> string" where
  "SafeAllowedSessionPath pf v homeDir =
     (let realpath = safeRegularFile pf v
      in if realpath = [] then []
         else if list_ex (\<lambda>rootdir. let rest = relativePath rootdir realpath
                in rest = [] \<or> rest = ''.'' \<or> (\<not> prefix ''..'' rest \<and> \<not> is_abs rest)) (session_roots pf homeDir)
         then realpath else [])"

definition SessionPathAllowedByShape :: "history_platform \<Rightarrow> string \<Rightarrow> string option \<Rightarrow> bool" where
  "SessionPathAllowedByShape pf v homeDir \<longleftrightarrow>
     is_abs v \<and> \<not> str_contains ''..'' v
     \<and> list_ex (\<lambda>rootdir. strictly_below (relativePath rootdir (path_clean v))) (session_roots pf homeDir)"

subsection \<open>The reader of a session reference\<close>

text \<open>
  \<open>strings.ToLower\<close>: two runes outside ASCII have a lower case inside it; the others stay outside and
  are compared with no name.
\<close>

definition lower_rune :: "rune \<Rightarrow> string" where
  "lower_rune r =
     (if fst r < 128 then map to_lower (snd r) else if fst r = 0x130 then ''i'' else if fst r = 0x212A then ''k'' else snd r)"

definition ToLower :: "string \<Rightarrow> string" where
  "ToLower s = concat (map lower_rune (runes s))"

definition segment_char :: "char \<Rightarrow> bool" where
  "segment_char c \<longleftrightarrow> (let n = of_char c :: nat in (97 \<le> n \<and> n \<le> 122) \<or> (48 \<le> n \<and> n \<le> 57) \<or> n = 95)"

function segments :: "string \<Rightarrow> string list" where
  "segments s =
     (case dropWhile (\<lambda>c. \<not> segment_char c) s of [] \<Rightarrow> []
      | c # rest \<Rightarrow> takeWhile segment_char (c # rest) # segments (dropWhile segment_char rest))"
  by pat_completeness auto
termination
proof (relation "measure length")
  fix s c rest assume "dropWhile (\<lambda>c. \<not> segment_char c) s = c # rest"
  then have "Suc (length rest) \<le> length s" by (metis length_Cons length_dropWhile_le)
  then show "(dropWhile segment_char rest, s) \<in> measure length"
    using length_dropWhile_le [of segment_char rest] by simp
qed simp

declare segments.simps [simp del]

definition HistorySourceFromSessionRef :: "AgentSessionRef \<Rightarrow> string" where
  "HistorySourceFromSessionRef ref =
     (let agent = ToLower (sr_Agent ref);
          names = set ((if agent \<noteq> [] then [agent] else []) @ segments (ToLower (sr_Source ref)))
      in if names \<inter> {''agy'', ''antigravity'', ''antigravity_cli'', ''antigravity-cli''} \<noteq> {} then SourceAntigravitySQLite
         else if names \<inter> {''pi'', ''pig''} \<noteq> {} then SourcePiJSONL
         else SourceUnknown)"

definition isUuidLike :: "string \<Rightarrow> bool" where
  "isUuidLike v =
     (let groups = split_on (CHR ''-'') (map to_lower v)
      in map length groups = [8, 4, 4, 4, 12] \<and> (\<forall>g \<in> set groups. list_all lower_hex g))"

subsection \<open>Candidates\<close>

record sessionFileResolution =
  fr_detail :: string
  fr_ref :: "HistoryRef option"

definition containedFileRef ::
    "history_platform \<Rightarrow> string \<Rightarrow> string \<Rightarrow> string \<Rightarrow> string \<Rightarrow> string \<Rightarrow> sessionFileResolution" where
  "containedFileRef pf candidate entry_id label rootdir source =
     (let realpath = SafeOfficialSessionPath pf candidate
      in if realpath = [] then \<lparr>fr_detail = label @ '': '' @ candidate @ '' is not a readable session file'', fr_ref = None\<rparr>
         else if \<not> isInside pf rootdir realpath then \<lparr>fr_detail = label @ '': '' @ realpath @ '' escapes '' @ rootdir, fr_ref = None\<rparr>
         else \<lparr>fr_detail = label @ '': resolved '' @ realpath,
           fr_ref = Some \<lparr>hx_Kind = KindAgentSession, hx_Path = Some realpath, hx_Source = source, hx_Value = entry_id\<rparr>\<rparr>)"

definition conversations_dir :: "string \<Rightarrow> string" where
  "conversations_dir homeDir = path_join_all [homeDir, ''.gemini'', ''antigravity-cli'', ''conversations'']"

definition agy_candidate :: "history_platform \<Rightarrow> string \<Rightarrow> string \<Rightarrow> sessionFileResolution" where
  "agy_candidate pf entry_id homeDir =
     (let dir = conversations_dir homeDir
      in containedFileRef pf (path_join_all [dir, entry_id @ ''.db'']) entry_id ''agy'' dir SourceAntigravitySQLite)"

text \<open>The hits in the order of the homes, one per real path, and what to say about them.\<close>

fun collect_hits ::
    "string set \<Rightarrow> sessionFileResolution list \<Rightarrow> HistoryRef list \<times> string list \<times> string list" where
  "collect_hits seen [] = ([], [], [])"
| "collect_hits seen (r # rest) =
     (case fr_ref r of
        None \<Rightarrow> (case collect_hits seen rest of (refs, hits, misses) \<Rightarrow> (refs, hits, fr_detail r # misses))
      | Some ref \<Rightarrow>
        if ResolvedPath ref \<in> seen then collect_hits seen rest
        else (case collect_hits (insert (ResolvedPath ref) seen) rest of
            (refs, hits, misses) \<Rightarrow> (ref # refs, fr_detail r # hits, misses)))"

definition ResolveAgySessionCandidates ::
    "history_platform \<Rightarrow> string list option \<Rightarrow> string option \<Rightarrow> string \<Rightarrow> string \<times> HistoryRef list" where
  "ResolveAgySessionCandidates pf extraHomeDirs homeDir entry_id =
     (if \<not> isUuidLike entry_id then (''agy conversation id is not a uuid: '' @ entry_id, [])
      else case collect_hits {} (map (agy_candidate pf entry_id) (ResolveAgyHomeDirs pf extraHomeDirs homeDir)) of
        (refs, hits, misses) \<Rightarrow> (if hits \<noteq> [] then hd hits else join_with ''; '' misses, refs))"

definition resolveSessionFileById ::
    "history_platform \<Rightarrow> HistoryLookupInput \<Rightarrow> AgentSessionRef \<Rightarrow> sessionFileResolution" where
  "resolveSessionFileById pf input session =
     (let source = HistorySourceFromSessionRef session
      in if source = SourceAntigravitySQLite
         then (case ResolveAgySessionCandidates pf (lu_ExtraHomeDirs input) (lu_HomeDir input) (sr_Value session) of
             (detail, refs) \<Rightarrow> \<lparr>fr_detail = detail, fr_ref = (case refs of [] \<Rightarrow> None | ref # _ \<Rightarrow> Some ref)\<rparr>)
         else if source \<noteq> SourceUnknown
         then \<lparr>fr_detail = sr_Agent session
             @ '' reported an id; herdsman has no id-based session-file derivation for it (only agy does)'', fr_ref = None\<rparr>
         else \<lparr>fr_detail = sr_Agent session
             @ '' is not a supported herdsman history agent (only pi and agy are)'', fr_ref = None\<rparr>)"

subsection \<open>The memory of failures\<close>

record history_memory =
  ym_failedAt :: "(string \<times> int) list"
  ym_failedOrder :: "string list"
  ym_warnedKeys :: "string list"
  ym_warnedOrder :: "string list"
  ym_warnings :: "(HistoryLookupInput \<times> string) list"
  ym_ticks :: nat
  ym_piEmpty :: nat
  ym_diagnostics :: "(string \<times> string) list"

definition read_clock :: "history_platform \<Rightarrow> history_memory \<Rightarrow> int \<times> history_memory" where
  "read_clock pf s = (hp_clock pf (ym_ticks s), s\<lparr>ym_ticks := Suc (ym_ticks s)\<rparr>)"

fun evict_failures :: "string list \<Rightarrow> (string \<times> int) list \<Rightarrow> string list \<times> (string \<times> int) list" where
  "evict_failures [] failed = ([], failed)"
| "evict_failures (oldest # order) failed =
     (if DiscoveryFailureCacheLimit < length failed then evict_failures order (filter (\<lambda>(k, _). k \<noteq> oldest) failed)
      else (oldest # order, failed))"

definition rememberFailureLocked :: "string \<Rightarrow> int \<Rightarrow> history_memory \<Rightarrow> history_memory" where
  "rememberFailureLocked key now_ms s =
     (let order = (if key \<in> fst ` set (ym_failedAt s) then ym_failedOrder s else ym_failedOrder s @ [key])
      in case evict_failures order (put_key key now_ms (ym_failedAt s)) of
        (order', failed) \<Rightarrow> s\<lparr>ym_failedAt := failed, ym_failedOrder := order'\<rparr>)"

fun evict_warned :: "string list \<Rightarrow> string list \<Rightarrow> string list \<times> string list" where
  "evict_warned [] warned = ([], warned)"
| "evict_warned (oldest # order) warned =
     (if DiscoveryFailureCacheLimit < length warned then evict_warned order (filter (\<lambda>k. k \<noteq> oldest) warned)
      else (oldest # order, warned))"

definition rememberWarnedLocked :: "string \<Rightarrow> history_memory \<Rightarrow> history_memory" where
  "rememberWarnedLocked key s =
     (if key \<in> set (ym_warnedKeys s) then s
      else case evict_warned (ym_warnedOrder s @ [key]) (ym_warnedKeys s @ [key]) of
        (order, warned) \<Rightarrow> s\<lparr>ym_warnedKeys := warned, ym_warnedOrder := order\<rparr>)"

definition rememberDiscoveryFailure ::
    "history_platform \<Rightarrow> string \<Rightarrow> HistoryLookupInput \<Rightarrow> string \<Rightarrow> history_memory \<Rightarrow> history_memory" where
  "rememberDiscoveryFailure pf key input detail s =
     (case read_clock pf s of (now_ms, s) \<Rightarrow>
        let s = rememberFailureLocked key now_ms s
        in if key \<in> set (ym_warnedKeys s) then s
           else (rememberWarnedLocked key s)\<lparr>ym_warnings := ym_warnings s @ [(input, detail)]\<rparr>)"

definition failure_fresh :: "string \<Rightarrow> int \<Rightarrow> history_memory \<Rightarrow> bool" where
  "failure_fresh key now_ms s =
     (case map_of (ym_failedAt s) key of None \<Rightarrow> False | Some failed_at \<Rightarrow> now_ms - failed_at < DiscoveryRetryAfterFailureMs)"

definition DiscoveryFailureFresh :: "history_platform \<Rightarrow> HistoryLookupInput \<Rightarrow> int \<Rightarrow> history_memory \<Rightarrow> bool" where
  "DiscoveryFailureFresh pf input now_ms s = failure_fresh (DiscoveryLookupKey pf input) now_ms s"

definition resolve_session :: "history_platform \<Rightarrow> HistoryLookupInput \<Rightarrow> sessionFileResolution" where
  "resolve_session pf input =
     (case lu_AgentSession input of
        None \<Rightarrow> \<lparr>fr_detail = ''Herdr reported no agent_session for this pane; herdsman does not guess one'', fr_ref = None\<rparr>
      | Some session \<Rightarrow>
        if sr_Kind session = SessionRefPath
        then let realpath = SafeOfficialSessionPath pf (sr_Value session)
          in if realpath = []
             then \<lparr>fr_detail = ''Herdr agent_session path is not a readable session file owned by herdsman: '' @ sr_Value session,
               fr_ref = None\<rparr>
             else \<lparr>fr_detail = [], fr_ref = Some \<lparr>hx_Kind = KindAgentSession, hx_Path = Some realpath,
               hx_Source = HistorySourceFromSessionRef session, hx_Value = realpath\<rparr>\<rparr>
        else resolveSessionFileById pf input session)"

definition DiscoverAgentHistory ::
    "history_platform \<Rightarrow> HistoryLookupInput \<Rightarrow> bool \<Rightarrow> history_memory \<Rightarrow> HistoryRef option \<times> history_memory" where
  "DiscoverAgentHistory pf input force s =
     (let key = DiscoveryLookupKey pf input;
          (skip, s) = (if force then (False, s)
            else if key \<notin> fst ` set (ym_failedAt s) then (False, s)
            else case read_clock pf s of (now_ms, s) \<Rightarrow> (failure_fresh key now_ms s, s))
      in if skip then (None, s)
         else let found = resolve_session pf input
           in case fr_ref found of Some ref \<Rightarrow> (Some ref, s)
              | None \<Rightarrow> (None, rememberDiscoveryFailure pf key input (fr_detail found) s))"

end
