(* ===== verification/HistoryDiscoveryLaws.thy ===== *)
theory HistoryDiscoveryLaws
  imports HistoryDiscovery
begin

text \<open>
  What the discovery of session files guarantees: which files it hands out, and how failed lookups are
  remembered.
\<close>

subsection \<open>Containment\<close>

lemma is_abs_clean: "is_abs p \<Longrightarrow> is_abs (path_clean p)"
  by (simp add: path_clean_def is_abs_def Let_def)

lemma drop_common_split: "drop_common bs ts = (bs', ts') \<Longrightarrow> \<exists>c. bs = c @ bs' \<and> ts = c @ ts'"
  by (induction bs ts rule: drop_common.induct) (auto split: if_splits)

lemma join_with_head: "prefix w (join_with sep (w # ws))"
  by (cases ws) auto

text \<open>A relative path that does not go up leads to a path below the base.\<close>

lemma strictly_below_elements:
  assumes below: "strictly_below (relativePath rootdir path)" and "is_abs path"
  shows "\<exists>rest. rest \<noteq> [] \<and> path_elements (path_clean path) = path_elements (path_clean rootdir) @ rest"
proof -
  let ?base = "path_clean rootdir" and ?targ = "path_clean path"
  have targ: "is_abs ?targ" using assms(2) by (rule is_abs_clean)
  obtain r where r: "path_rel rootdir path = Some r" and s: "strictly_below r"
    using below assms(2) by (cases "path_rel rootdir path") (auto simp: relativePath_def strictly_below_def)
  have "?targ \<noteq> ?base" using r s by (auto simp: path_rel_def strictly_below_def)
  moreover have "?base \<noteq> ''.''" using r targ \<open>?targ \<noteq> ?base\<close> by (auto simp: path_rel_def Let_def is_abs_def)
  ultimately obtain bs ts where d: "drop_common (path_elements ?base) (path_elements ?targ) = (bs, ts)"
    and join: "r = join_with ''/'' (replicate (length bs) ''..'' @ ts)"
    using r by (auto simp: path_rel_def Let_def split: if_splits prod.splits)
  have "bs = []"
  proof (rule ccontr)
    assume "bs \<noteq> []"
    then have "prefix ''..'' r" using join join_with_head [of "''..''"] by (cases bs) auto
    then show False using s by (simp add: strictly_below_def)
  qed
  moreover from this have "ts \<noteq> []" using s join by (auto simp: strictly_below_def)
  ultimately show ?thesis using drop_common_split [OF d] by auto
qed

subsection \<open>The file-safety gate\<close>

definition owned_session_file :: "history_platform \<Rightarrow> string \<Rightarrow> bool" where
  "owned_session_file pf path \<longleftrightarrow>
     (\<exists>info. hp_lstat pf path = Some info \<and> regular_file info \<and> \<not> writable_by_others (fi_perm info)
        \<and> fi_uid info = Some (hp_euid pf))"

lemma safeRegularFileD:
  assumes "safeRegularFile pf v = p" "p \<noteq> []"
  shows "is_abs v" "\<not> str_contains ''..'' v" "hp_evalSymlinks pf (path_clean v) = Some p" "owned_session_file pf p"
    and "\<exists>info. hp_lstat pf (path_clean v) = Some info \<and> regular_file info"
  using assms by (auto simp: safeRegularFile_def owned_session_file_def Let_def split: if_splits option.splits)

lemma containedFileRefD:
  assumes "fr_ref (containedFileRef pf candidate i label rootdir source) = Some ref"
    and eval: "\<forall>p r. hp_evalSymlinks pf p = Some r \<longrightarrow> is_abs p \<longrightarrow> is_abs r"
  shows "\<exists>path rest. ref = \<lparr>hx_Kind = KindAgentSession, hx_Path = Some path, hx_Source = source, hx_Value = i\<rparr>
    \<and> owned_session_file pf path \<and> rest \<noteq> []
    \<and> path_elements (path_clean path) = path_elements (path_clean (realpathOrNormalize pf rootdir)) @ rest"
proof -
  let ?p = "safeRegularFile pf candidate"
  from assms(1) have p: "?p \<noteq> []" and inside: "strictly_below (relativePath (realpathOrNormalize pf rootdir) ?p)"
    and ref: "ref = \<lparr>hx_Kind = KindAgentSession, hx_Path = Some ?p, hx_Source = source, hx_Value = i\<rparr>"
    by (auto simp: containedFileRef_def SafeOfficialSessionPath_def isInside_def Let_def split: if_splits)
  note safe = safeRegularFileD [OF refl p]
  have "is_abs ?p" using eval safe(3) is_abs_clean [OF safe(1)] by blast
  with strictly_below_elements [OF inside] ref safe(4) show ?thesis by blast
qed

lemma collect_hits_refs: "collect_hits seen rs = (refs, hits, misses) \<Longrightarrow> ref \<in> set refs \<Longrightarrow> \<exists>r \<in> set rs. fr_ref r = Some ref"
  by (induction seen rs arbitrary: refs hits misses rule: collect_hits.induct)
    (fastforce split: option.splits if_splits prod.splits)+

lemma DiscoverAgentHistory_found:
  "DiscoverAgentHistory pf input force s = (Some ref, s') \<Longrightarrow> fr_ref (resolve_session pf input) = Some ref"
  by (auto simp: DiscoverAgentHistory_def Let_def split: if_splits prod.splits option.splits)

lemma ResolveAgySessionCandidatesD:
  "ResolveAgySessionCandidates pf extra home i = (detail, refs) \<Longrightarrow> ref \<in> set refs \<Longrightarrow>
     isUuidLike i \<and> (\<exists>h \<in> set (ResolveAgyHomeDirs pf extra home). fr_ref (agy_candidate pf i h) = Some ref)"
  by (auto simp: ResolveAgySessionCandidates_def split: if_splits prod.splits dest!: collect_hits_refs)

lemma discovered_file:
  assumes eval: "\<forall>p r. hp_evalSymlinks pf p = Some r \<longrightarrow> is_abs p \<longrightarrow> is_abs r"
    and found: "DiscoverAgentHistory pf input force s = (Some ref, s')"
  shows "\<exists>session path. lu_AgentSession input = Some session \<and> hx_Path ref = Some path \<and> owned_session_file pf path
    \<and> hx_Source ref = HistorySourceFromSessionRef session
    \<and> (if sr_Kind session = SessionRefPath then hp_evalSymlinks pf (path_clean (sr_Value session)) = Some path
       else hx_Source ref = SourceAntigravitySQLite \<and> hx_Value ref = sr_Value session \<and> isUuidLike (sr_Value session)
         \<and> (\<exists>homeDir \<in> set (ResolveAgyHomeDirs pf (lu_ExtraHomeDirs input) (lu_HomeDir input)). \<exists>rest. rest \<noteq> []
              \<and> path_elements (path_clean path)
                = path_elements (path_clean (realpathOrNormalize pf (conversations_dir homeDir))) @ rest))"
proof -
  have r: "fr_ref (resolve_session pf input) = Some ref" using found by (rule DiscoverAgentHistory_found)
  then obtain session where session: "lu_AgentSession input = Some session"
    by (auto simp: resolve_session_def split: option.splits)
  show ?thesis
  proof (cases "sr_Kind session = SessionRefPath")
    case True
    let ?p = "safeRegularFile pf (sr_Value session)"
    have "?p \<noteq> []" and "ref = \<lparr>hx_Kind = KindAgentSession, hx_Path = Some ?p,
        hx_Source = HistorySourceFromSessionRef session, hx_Value = ?p\<rparr>"
      using r True by (auto simp: resolve_session_def session SafeOfficialSessionPath_def Let_def split: if_splits)
    then show ?thesis using True session safeRegularFileD(3,4) [OF refl, of pf "sr_Value session"] by simp
  next
    case False
    then have "fr_ref (resolveSessionFileById pf input session) = Some ref" using r by (simp add: resolve_session_def session)
    then obtain detail refs where source: "HistorySourceFromSessionRef session = SourceAntigravitySQLite"
      and c: "ResolveAgySessionCandidates pf (lu_ExtraHomeDirs input) (lu_HomeDir input) (sr_Value session) = (detail, refs)"
      and "ref \<in> set refs"
      by (auto simp: resolveSessionFileById_def Let_def split: if_splits prod.splits list.splits)
    from ResolveAgySessionCandidatesD [OF c this(3)] obtain h where uuid: "isUuidLike (sr_Value session)"
      and h: "h \<in> set (ResolveAgyHomeDirs pf (lu_ExtraHomeDirs input) (lu_HomeDir input))"
      and candidate: "fr_ref (agy_candidate pf (sr_Value session) h) = Some ref" by blast
    from candidate obtain path rest where ref: "ref = \<lparr>hx_Kind = KindAgentSession, hx_Path = Some path,
        hx_Source = SourceAntigravitySQLite, hx_Value = sr_Value session\<rparr>" and "owned_session_file pf path" "rest \<noteq> []"
      and "path_elements (path_clean path) = path_elements (path_clean (realpathOrNormalize pf (conversations_dir h))) @ rest"
      unfolding agy_candidate_def Let_def using containedFileRefD [OF _ eval] by blast
    then show ?thesis using session False source uuid h by auto
  qed
qed

lemma discovered_file_safe_at:
  "\<forall>p r. hp_evalSymlinks pf p = Some r \<longrightarrow> is_abs p \<longrightarrow> is_abs r \<Longrightarrow> DiscoverAgentHistory pf input force s = (Some ref, s') \<Longrightarrow>
     \<exists>path. hx_Path ref = Some path \<and> owned_session_file pf path"
  using discovered_file by blast

text \<open>
  C30: A file the discovery hands out is a regular file, no symbolic link, that the daemon owns and nobody
  else can write. For a session that reports a path it is that path, with its symbolic links resolved. For
  one that reports an identifier, the reader is that of agy, the identifier has the shape of a UUID, and the
  file lies strictly below the conversation directory of one of the configured homes.
\<close>

theorem discovered_file_safe:
  assumes eval: "\<forall>p r. hp_evalSymlinks pf p = Some r \<longrightarrow> is_abs p \<longrightarrow> is_abs r"
    and found: "DiscoverAgentHistory pf input force s = (Some ref, s')"
  shows "\<exists>session path. lu_AgentSession input = Some session \<and> hx_Path ref = Some path \<and> owned_session_file pf path
    \<and> hx_Source ref = HistorySourceFromSessionRef session
    \<and> (if sr_Kind session = SessionRefPath then hp_evalSymlinks pf (path_clean (sr_Value session)) = Some path
       else hx_Source ref = SourceAntigravitySQLite \<and> hx_Value ref = sr_Value session \<and> isUuidLike (sr_Value session)
         \<and> (\<exists>homeDir \<in> set (ResolveAgyHomeDirs pf (lu_ExtraHomeDirs input) (lu_HomeDir input)). \<exists>rest. rest \<noteq> []
              \<and> path_elements (path_clean path)
                = path_elements (path_clean (realpathOrNormalize pf (conversations_dir homeDir))) @ rest))"
  using discovered_file [OF eval found] .

definition demo_history_platform :: history_platform where
  "demo_history_platform =
     \<lparr>hp_stat = (\<lambda>_. None),
      hp_lstat = (\<lambda>p. if p = ''/h/s.jsonl'' then Some \<lparr>fi_size = 9, fi_mtimeMs = 1, fi_symlink = False, fi_regular = True,
          fi_perm = 420, fi_uid = Some 0\<rparr> else None),
      hp_evalSymlinks = Some, hp_readFrom = (\<lambda>_ _. None), hp_query = (\<lambda>_ _. ([], True)), hp_unmarshal = (\<lambda>_. None),
      hp_mapOrder = (\<lambda>kvs. kvs), hp_shortest = (\<lambda>_. []), hp_euid = 0, hp_getenv = (\<lambda>_. None), hp_clock = int\<rparr>"

definition demo_history_lookup :: "string \<Rightarrow> HistoryLookupInput" where
  "demo_history_lookup path =
     \<lparr>lu_Agent = Some ''pi'',
      lu_AgentSession = Some \<lparr>sr_Agent = ''pi'', sr_Kind = SessionRefPath, sr_Source = ''herdr:pi'', sr_Value = path\<rparr>,
      lu_ExtraHomeDirs = None, lu_HerdrSessionName = None, lu_HomeDir = None, lu_PaneID = None\<rparr>"

definition empty_memory :: history_memory where
  "empty_memory = \<lparr>ym_failedAt = [], ym_failedOrder = [], ym_warnedKeys = [], ym_warnedOrder = [], ym_warnings = [],
     ym_ticks = 0, ym_piEmpty = 0, ym_diagnostics = []\<rparr>"

lemma demo_clean: "path_clean ''/h/s.jsonl'' = ''/h/s.jsonl''"
  by (simp add: path_clean_def clean_step_def)

theorem discovered_file_safe_witness:
  "\<exists>ref path. DiscoverAgentHistory demo_history_platform (demo_history_lookup ''/h/s.jsonl'') False empty_memory = (Some ref, empty_memory)
    \<and> hx_Path ref = Some path \<and> owned_session_file demo_history_platform path"
proof -
  have safe: "SafeOfficialSessionPath demo_history_platform ''/h/s.jsonl'' = ''/h/s.jsonl''"
    by (simp add: SafeOfficialSessionPath_def safeRegularFile_def demo_clean demo_history_platform_def is_abs_def
        regular_file_def writable_by_others_def)
  obtain ref where found: "DiscoverAgentHistory demo_history_platform (demo_history_lookup ''/h/s.jsonl'') False empty_memory = (Some ref, empty_memory)"
    by (simp add: DiscoverAgentHistory_def resolve_session_def demo_history_lookup_def empty_memory_def safe Let_def)
  have "\<forall>p r. hp_evalSymlinks demo_history_platform p = Some r \<longrightarrow> is_abs p \<longrightarrow> is_abs r"
    by (simp add: demo_history_platform_def)
  from discovered_file_safe [OF this found] found show ?thesis by auto
qed

subsection \<open>The memory of failures\<close>

text \<open>Keys and order agree, and both memories stay within their limit.\<close>

definition memory_ok :: "history_memory \<Rightarrow> bool" where
  "memory_ok s \<longleftrightarrow> distinct (map fst (ym_failedAt s)) \<and> distinct (ym_failedOrder s)
     \<and> set (ym_failedOrder s) = fst ` set (ym_failedAt s) \<and> length (ym_failedAt s) \<le> DiscoveryFailureCacheLimit
     \<and> distinct (ym_warnedKeys s) \<and> distinct (ym_warnedOrder s) \<and> set (ym_warnedOrder s) = set (ym_warnedKeys s)
     \<and> length (ym_warnedKeys s) \<le> DiscoveryFailureCacheLimit"

lemma map_fst_filter: "map fst (filter (\<lambda>(k, _). k \<noteq> x) kvs) = filter (\<lambda>k. k \<noteq> x) (map fst kvs)"
  by (induction kvs) auto

lemma keys_filter: "fst ` set (filter (\<lambda>(k, _). k \<noteq> x) kvs) = fst ` set kvs - {x}"
  by (simp only: set_map [symmetric] map_fst_filter) auto

lemma distinct_keys_filter: "distinct (map fst kvs) \<Longrightarrow> distinct (map fst (filter (\<lambda>(k, _). k \<noteq> x) kvs))"
  by (simp only: map_fst_filter) simp

lemma length_remove_one: "distinct ks \<Longrightarrow> x \<in> set ks \<Longrightarrow> Suc (length (filter (\<lambda>k. k \<noteq> x) ks)) = length ks"
proof (induction ks)
  case (Cons k ks)
  have "x \<notin> set ks \<Longrightarrow> filter (\<lambda>k. k \<noteq> x) ks = ks" by (auto simp: filter_id_conv)
  then show ?case using Cons by auto
qed simp

lemma length_filter_key:
  "distinct (map fst kvs) \<Longrightarrow> x \<in> fst ` set kvs \<Longrightarrow> Suc (length (filter (\<lambda>(k, _). k \<noteq> x) kvs)) = length kvs"
  using length_remove_one [of "map fst kvs" x] map_fst_filter [of x kvs] by (metis length_map set_map)

lemma evict_none:
  "length failed \<le> DiscoveryFailureCacheLimit \<Longrightarrow> evict_failures order failed = (order, failed)"
  "length warned \<le> DiscoveryFailureCacheLimit \<Longrightarrow> evict_warned order warned = (order, warned)"
  by (cases order; simp)+

text \<open>One key too many evicts the oldest key, and only that.\<close>

lemma evict_failures_ok:
  assumes "distinct order" "set order = fst ` set failed" "distinct (map fst failed)"
    and "length failed \<le> Suc DiscoveryFailureCacheLimit" and e: "evict_failures order failed = (order', failed')"
  shows "distinct order' \<and> set order' = fst ` set failed' \<and> distinct (map fst failed') \<and> length failed' \<le> DiscoveryFailureCacheLimit
    \<and> (\<forall>k. k \<in> set (tl order) \<or> length failed \<le> DiscoveryFailureCacheLimit \<longrightarrow> map_of failed' k = map_of failed k)"
proof (cases order)
  case Nil
  then show ?thesis using assms by auto
next
  case (Cons oldest rest)
  show ?thesis
  proof (cases "DiscoveryFailureCacheLimit < length failed")
    case True
    let ?f = "filter (\<lambda>(k, _). k \<noteq> oldest) failed"
    have "oldest \<in> fst ` set failed" using assms(2) Cons by (metis list.set_intros(1))
    then have len: "length ?f = DiscoveryFailureCacheLimit"
      using length_filter_key [OF assms(3), of oldest] assms(4) True by linarith
    then have e': "order' = rest" "failed' = ?f" using e True Cons evict_none(1) [of ?f rest] by auto
    have "set rest = fst ` set failed - {oldest}" using assms(1,2) Cons by auto
    then show ?thesis using assms(1,3) len Cons True
      by (auto simp: e' keys_filter distinct_keys_filter map_of_filter_key simp del: set_filter)
  next
    case False
    then have "order' = order" "failed' = failed" using e evict_none(1) [of failed order] by simp_all
    then show ?thesis using assms(1-3) False by simp
  qed
qed

lemma put_key_keys: "fst ` set (put_key k v kvs) = insert k (fst ` set kvs)"
  by (auto simp: put_key_def keys_filter)

lemma distinct_put_key: "distinct (map fst kvs) \<Longrightarrow> distinct (map fst (put_key k v kvs))"
  by (auto simp: put_key_def distinct_keys_filter)

lemma length_put_key: "distinct (map fst kvs) \<Longrightarrow> length (put_key k v kvs) = (if k \<in> fst ` set kvs then length kvs else Suc (length kvs))"
  using length_filter_key [of kvs k] by (force simp: put_key_def filter_id_conv intro!: arg_cong [of _ _ length])

lemma rememberFailure_ok:
  assumes ok: "memory_ok s"
  shows "memory_ok (rememberFailureLocked key t s) \<and> map_of (ym_failedAt (rememberFailureLocked key t s)) key = Some t"
proof -
  let ?order = "if key \<in> fst ` set (ym_failedAt s) then ym_failedOrder s else ym_failedOrder s @ [key]"
  let ?failed = "put_key key t (ym_failedAt s)"
  obtain order' failed' where e: "evict_failures ?order ?failed = (order', failed')" by fastforce
  have d: "distinct ?order" "set ?order = fst ` set ?failed" "distinct (map fst ?failed)"
    "length ?failed \<le> Suc DiscoveryFailureCacheLimit"
    using ok by (auto simp: memory_ok_def put_key_keys distinct_put_key length_put_key)
  note inv = evict_failures_ok [OF d e]
  have kept: "key \<in> set (tl ?order) \<or> length ?failed \<le> DiscoveryFailureCacheLimit"
  proof (cases "key \<in> fst ` set (ym_failedAt s)")
    case True
    then show ?thesis using ok by (simp add: memory_ok_def length_put_key)
  next
    case False
    then show ?thesis using ok by (cases "ym_failedOrder s") (auto simp: memory_ok_def length_put_key DiscoveryFailureCacheLimit_def)
  qed
  then have "map_of failed' key = map_of ?failed key" using inv by blast
  then have "map_of failed' key = Some t" by (simp del: map_of_eq_Some_iff)
  then show ?thesis using inv ok e by (simp add: rememberFailureLocked_def memory_ok_def Let_def)
qed

text \<open>A key that fails again keeps its place in the order, so it is the next to go when it is the oldest.\<close>

lemma repeated_failure_keeps_its_place:
  "memory_ok s \<Longrightarrow> key \<in> fst ` set (ym_failedAt s) \<Longrightarrow> ym_failedOrder (rememberFailureLocked key t s) = ym_failedOrder s"
  by (simp add: rememberFailureLocked_def memory_ok_def length_put_key evict_none)

lemma evict_warned_ok:
  assumes "distinct order" "set order = set warned" "distinct warned"
    and "length warned \<le> Suc DiscoveryFailureCacheLimit" and e: "evict_warned order warned = (order', warned')"
  shows "distinct order' \<and> set order' = set warned' \<and> distinct warned' \<and> length warned' \<le> DiscoveryFailureCacheLimit"
proof (cases order)
  case Nil
  then show ?thesis using assms by auto
next
  case (Cons oldest rest)
  show ?thesis
  proof (cases "DiscoveryFailureCacheLimit < length warned")
    case True
    let ?w = "filter (\<lambda>k. k \<noteq> oldest) warned"
    have "oldest \<in> set warned" using assms(2) Cons by (metis list.set_intros(1))
    then have len: "length ?w = DiscoveryFailureCacheLimit"
      using length_remove_one [OF assms(3), of oldest] assms(4) True by linarith
    then have "order' = rest" "warned' = ?w" using e True Cons evict_none(2) [of ?w rest] by auto
    then show ?thesis using assms(1-3) len Cons by auto
  next
    case False
    then have "order' = order" "warned' = warned" using e evict_none(2) [of warned order] by simp_all
    then show ?thesis using assms(1-3) False by simp
  qed
qed

lemma rememberWarned_ok:
  assumes ok: "memory_ok s"
  shows "memory_ok (rememberWarnedLocked key s)"
proof (cases "key \<in> set (ym_warnedKeys s)")
  case True
  then show ?thesis using ok by (simp add: rememberWarnedLocked_def)
next
  case False
  obtain order' warned' where e: "evict_warned (ym_warnedOrder s @ [key]) (ym_warnedKeys s @ [key]) = (order', warned')" by fastforce
  have "distinct order' \<and> set order' = set warned' \<and> distinct warned' \<and> length warned' \<le> DiscoveryFailureCacheLimit"
    by (rule evict_warned_ok [OF _ _ _ _ e]) (use ok False in \<open>auto simp: memory_ok_def\<close>)
  then show ?thesis using ok e False by (simp add: rememberWarnedLocked_def memory_ok_def)
qed

lemma memory_ok_fields:
  "memory_ok (s\<lparr>ym_ticks := n\<rparr>) = memory_ok s" "memory_ok (s\<lparr>ym_warnings := w\<rparr>) = memory_ok s"
  by (simp_all add: memory_ok_def)

lemma rememberWarned_failed [simp]: "ym_failedAt (rememberWarnedLocked key s) = ym_failedAt s"
  by (simp add: rememberWarnedLocked_def split: prod.split)

lemma remember_ok:
  assumes "memory_ok s"
  shows "memory_ok (rememberDiscoveryFailure pf key input detail s)
    \<and> map_of (ym_failedAt (rememberDiscoveryFailure pf key input detail s)) key = Some (hp_clock pf (ym_ticks s))"
proof -
  let ?s = "s\<lparr>ym_ticks := Suc (ym_ticks s)\<rparr>"
  have "memory_ok ?s" using assms by (simp add: memory_ok_fields)
  note r = rememberFailure_ok [OF this, of key "hp_clock pf (ym_ticks s)"]
  then show ?thesis
    using rememberWarned_ok by (auto simp: rememberDiscoveryFailure_def read_clock_def Let_def memory_ok_fields simp del: map_of_eq_Some_iff)
qed

lemma remember_ticks: "ym_ticks (rememberDiscoveryFailure pf key input detail s) = Suc (ym_ticks s)"
  by (simp add: rememberDiscoveryFailure_def rememberFailureLocked_def rememberWarnedLocked_def read_clock_def Let_def
      split: prod.split)

definition lookup_now :: "history_platform \<Rightarrow> HistoryLookupInput \<Rightarrow> history_memory \<Rightarrow> HistoryRef option \<times> history_memory" where
  "lookup_now pf input s =
     (case fr_ref (resolve_session pf input) of Some ref \<Rightarrow> (Some ref, s)
      | None \<Rightarrow> (None, rememberDiscoveryFailure pf (DiscoveryLookupKey pf input) input (fr_detail (resolve_session pf input)) s))"

lemma DiscoverAgentHistory_cases:
  "DiscoverAgentHistory pf input force s =
     (let s1 = s\<lparr>ym_ticks := Suc (ym_ticks s)\<rparr>
      in if force \<or> DiscoveryLookupKey pf input \<notin> fst ` set (ym_failedAt s) then lookup_now pf input s
         else if failure_fresh (DiscoveryLookupKey pf input) (hp_clock pf (ym_ticks s)) s1 then (None, s1)
         else lookup_now pf input s1)"
  by (cases force) (simp_all add: DiscoverAgentHistory_def lookup_now_def read_clock_def Let_def)

lemma lookup_now_ok:
  "memory_ok s \<Longrightarrow> lookup_now pf input s = (found, s') \<Longrightarrow>
     memory_ok s' \<and> (found = None \<longrightarrow>
       map_of (ym_failedAt s') (DiscoveryLookupKey pf input) = Some (hp_clock pf (ym_ticks s' - 1)))"
  using remember_ok remember_ticks by (fastforce simp: lookup_now_def simp del: map_of_eq_Some_iff split: option.splits)

lemma lookup_now_found: "fst (lookup_now pf input s) = fr_ref (resolve_session pf input)"
  by (simp add: lookup_now_def split: option.split)

text \<open>
  C37: The memory of failed lookups stays consistent and never holds more than 512 keys, and a lookup that
  found nothing is remembered with the time of its failure, the clock as it was read right then; a lookup
  that was itself skipped, less than a minute after a failure, leaves the time as it is. Until a minute has
  passed since the remembered time the same lookup finds nothing without touching the file system, whatever
  became of it, unless it is forced; from then on it looks at the file system again.
\<close>

theorem failed_lookup_remembered:
  assumes ok: "memory_ok s" and d: "DiscoverAgentHistory pf input force s = (found, s')"
  shows "memory_ok s'
    \<and> (found = None \<longrightarrow> (\<exists>t. map_of (ym_failedAt s') (DiscoveryLookupKey pf input) = Some t
        \<and> (t = hp_clock pf (ym_ticks s' - 1)
           \<or> s' = s\<lparr>ym_ticks := Suc (ym_ticks s)\<rparr> \<and> \<not> force \<and> hp_clock pf (ym_ticks s) - t < 60000)
        \<and> (\<forall>pf'. DiscoveryLookupKey pf' input = DiscoveryLookupKey pf input
            \<longrightarrow> (if hp_clock pf' (ym_ticks s') - t < 60000
                then DiscoverAgentHistory pf' input False s' = (None, s'\<lparr>ym_ticks := Suc (ym_ticks s')\<rparr>)
                else fst (DiscoverAgentHistory pf' input False s') = fr_ref (resolve_session pf' input)))))"
proof -
  let ?key = "DiscoveryLookupKey pf input" and ?s = "s\<lparr>ym_ticks := Suc (ym_ticks s)\<rparr>"
  have again: "if hp_clock pf' (ym_ticks s') - t < 60000
      then DiscoverAgentHistory pf' input False s' = (None, s'\<lparr>ym_ticks := Suc (ym_ticks s')\<rparr>)
      else fst (DiscoverAgentHistory pf' input False s') = fr_ref (resolve_session pf' input)"
    if "map_of (ym_failedAt s') ?key = Some t" "DiscoveryLookupKey pf' input = ?key" for pf' t
  proof -
    have "?key \<in> fst ` set (ym_failedAt s')" using that(1) by (force dest: map_of_SomeD)
    then show ?thesis using that
      by (simp add: DiscoverAgentHistory_cases Let_def failure_fresh_def DiscoveryRetryAfterFailureMs_def
          lookup_now_found del: map_of_eq_Some_iff)
  qed
  have ok1: "memory_ok ?s" using ok by (simp add: memory_ok_fields)
  consider "lookup_now pf input s = (found, s')" | "lookup_now pf input ?s = (found, s')"
    | "\<not> force" "?key \<in> fst ` set (ym_failedAt s)" "failure_fresh ?key (hp_clock pf (ym_ticks s)) ?s" "s' = ?s"
    using d by (auto simp: DiscoverAgentHistory_cases Let_def split: if_splits)
  then show ?thesis
  proof cases
    case 1
    from lookup_now_ok [OF ok 1] again show ?thesis by blast
  next
    case 2
    from lookup_now_ok [OF ok1 2] again show ?thesis by blast
  next
    case 3
    then obtain t where t: "map_of (ym_failedAt s') ?key = Some t" "hp_clock pf (ym_ticks s) - t < 60000"
      by (auto simp: failure_fresh_def DiscoveryRetryAfterFailureMs_def simp del: map_of_eq_Some_iff split: option.splits)
    from 3 ok1 have "memory_ok s'" by simp
    with t again [OF t(1)] 3(1,4) show ?thesis by blast
  qed
qed

theorem failed_lookup_remembered_witness:
  "\<exists>s. DiscoverAgentHistory demo_history_platform (demo_history_lookup ''rel'') True empty_memory = (None, s)
    \<and> map_of (ym_failedAt s) (DiscoveryLookupKey demo_history_platform (demo_history_lookup ''rel''))
        = Some (int (ym_ticks s - 1))
    \<and> DiscoverAgentHistory demo_history_platform (demo_history_lookup ''rel'') False s
        = (None, s\<lparr>ym_ticks := Suc (ym_ticks s)\<rparr>)"
proof -
  have ok: "memory_ok empty_memory" by (simp add: memory_ok_def empty_memory_def)
  have "safeRegularFile demo_history_platform ''rel'' = []" by (simp add: safeRegularFile_def is_abs_def)
  then have "fst (DiscoverAgentHistory demo_history_platform (demo_history_lookup ''rel'') True empty_memory) = None"
    by (simp add: DiscoverAgentHistory_def resolve_session_def demo_history_lookup_def empty_memory_def SafeOfficialSessionPath_def Let_def)
  then obtain s where s: "DiscoverAgentHistory demo_history_platform (demo_history_lookup ''rel'') True empty_memory = (None, s)"
    by (metis prod.collapse)
  have clock: "hp_clock demo_history_platform n = int n" for n by (simp add: demo_history_platform_def)
  obtain t where t: "map_of (ym_failedAt s) (DiscoveryLookupKey demo_history_platform (demo_history_lookup ''rel'')) = Some t"
    "t = int (ym_ticks s - 1)"
    "int (ym_ticks s) - t < 60000 \<Longrightarrow> DiscoverAgentHistory demo_history_platform (demo_history_lookup ''rel'') False s
        = (None, s\<lparr>ym_ticks := Suc (ym_ticks s)\<rparr>)"
    using failed_lookup_remembered [OF ok s] by (auto simp: clock simp del: map_of_eq_Some_iff)
  show ?thesis using s t by simp
qed

end
