(* ===== verification/HistoryService.thy ===== *)
theory HistoryService
  imports HistoryDiscovery RpcServer
begin

text \<open>
  The agent history service (\<open>agenthistory/service.go\<close>): discovery, the cache, the reader, and what is said
  when there is no answer; and the adapter through which the daemon hands it to the index service and the
  RPC server (\<open>daemon/agent_history_adapter.go\<close>). The cache is a parameter with a state of its own.
\<close>

definition AgentHistoryFormatterVersion :: string where "AgentHistoryFormatterVersion = ''agent-history-v3''"

record HistoryCacheFreshInput =
  cf_FormatterVersion :: string
  cf_SourceMtimeMs :: int
  cf_SourcePath :: string
  cf_SourceSize :: int

record HistoryCachePutInput =
  cp_CompactHistory :: CompactHistory
  cp_FormatterVersion :: string
  cp_HistoryRef :: HistoryRef
  cp_SourceMtimeMs :: int
  cp_SourcePath :: string
  cp_SourceSize :: int

text \<open>\<open>GetFresh\<close> yields the compact history of a fresh record; an error of \<open>Put\<close> is dropped by the service.\<close>

record 'c HistoryCacheStore =
  hk_GetFresh :: "HistoryCacheFreshInput \<Rightarrow> 'c \<Rightarrow> CompactHistory option"
  hk_Put :: "HistoryCachePutInput \<Rightarrow> 'c \<Rightarrow> 'c"

record HistoryReader =
  ry_CanRead :: "HistoryRef \<Rightarrow> bool"
  ry_Read :: "HistoryRef \<Rightarrow> int option \<Rightarrow> read_error + HistoryMessage list"
  ry_ReadCompact :: "HistoryRef \<Rightarrow> read_error + CompactHistory"

record 'c AgentHistoryService =
  sy_platform :: history_platform
  sy_cache :: "'c HistoryCacheStore option"
  sy_discover :: "(HistoryLookupInput \<Rightarrow> bool \<Rightarrow> HistoryRef option) option"
  sy_homeDir :: "string option"
  sy_readers :: "HistoryReader list"

record 'c history_state =
  sm_memory :: history_memory
  sm_cache :: 'c

definition default_readers :: "history_platform \<Rightarrow> HistoryReader list" where
  "default_readers pf =
     [\<lparr>ry_CanRead = pi_CanRead, ry_Read = pi_Read pf, ry_ReadCompact = pi_ReadCompact pf\<rparr>,
      \<lparr>ry_CanRead = agy_CanRead, ry_Read = (\<lambda>ref limit. Inr (agy_Read pf ref limit)),
       ry_ReadCompact = (\<lambda>ref. Inr (agy_ReadCompact pf ref))\<rparr>]"

definition CreateAgentHistoryService ::
    "history_platform \<Rightarrow> 'c HistoryCacheStore option \<Rightarrow> (HistoryLookupInput \<Rightarrow> bool \<Rightarrow> HistoryRef option) option
      \<Rightarrow> string option \<Rightarrow> HistoryReader list option \<Rightarrow> 'c AgentHistoryService" where
  "CreateAgentHistoryService pf cache discover homeDir readers =
     \<lparr>sy_platform = pf, sy_cache = cache, sy_discover = discover, sy_homeDir = homeDir,
      sy_readers = (case readers of None \<Rightarrow> default_readers pf | Some rs \<Rightarrow> rs)\<rparr>"

record ResolvedCompactAgentHistory =
  rc_CompactHistory :: CompactHistory
  rc_HistoryRef :: "HistoryRef option"
  rc_SourceFingerprint :: "SourceFingerprint option"

record HistoryReadResult =
  rs_HistoryRef :: "HistoryRef option"
  rs_Messages :: "HistoryMessage list"

record ResolveCompactOptions =
  ro_ForceDiscovery :: bool
  ro_ForceRefresh :: bool
  ro_PreferredRef :: "HistoryRef option"

record HistoryReadOptions =
  rd_ForceDiscovery :: bool
  rd_Limit :: int
  rd_PreferredRef :: "HistoryRef option"

subsection \<open>Discovery\<close>

definition withHomeDir :: "HistoryLookupInput \<Rightarrow> string option \<Rightarrow> HistoryLookupInput" where
  "withHomeDir input homeDir =
     (case homeDir of None \<Rightarrow> input | Some d \<Rightarrow> if d = [] then input else input\<lparr>lu_HomeDir := Some d\<rparr>)"

type_synonym ('c, 'a) history_op = "'c history_state \<Rightarrow> 'a \<times> 'c history_state"

definition service_discover :: "'c AgentHistoryService \<Rightarrow> HistoryLookupInput \<Rightarrow> bool \<Rightarrow> ('c, HistoryRef option) history_op" where
  "service_discover sv input force s =
     (case sy_discover sv of
        Some f \<Rightarrow> (f input force, s)
      | None \<Rightarrow> (case DiscoverAgentHistory (sy_platform sv) (withHomeDir input (sy_homeDir sv)) force (sm_memory s) of
          (ref, m) \<Rightarrow> (ref, s\<lparr>sm_memory := m\<rparr>)))"

definition discoverySuppressed :: "'c AgentHistoryService \<Rightarrow> HistoryLookupInput \<Rightarrow> ('c, bool) history_op" where
  "discoverySuppressed sv input s =
     (if sy_discover sv \<noteq> None then (False, s)
      else case read_clock (sy_platform sv) (sm_memory s) of (now_ms, m) \<Rightarrow>
        (DiscoveryFailureFresh (sy_platform sv) (withHomeDir input (sy_homeDir sv)) now_ms m, s\<lparr>sm_memory := m\<rparr>))"

subsection \<open>Reading\<close>

definition EmptyCompactHistory :: "string option \<Rightarrow> CompactHistory" where
  "EmptyCompactHistory source =
     \<lparr>cx_HistoryRef = None, cx_LastAssistantMessage = None, cx_LastToolResult = None, cx_LastUserMessage = None,
      cx_MessageCount = 0, cx_Source = source, cx_UnreadyReason = None, cx_UpdatedAt = None\<rparr>"

definition unresolvedCompactHistory :: "string option \<Rightarrow> ResolvedCompactAgentHistory" where
  "unresolvedCompactHistory source =
     \<lparr>rc_CompactHistory = EmptyCompactHistory source, rc_HistoryRef = None, rc_SourceFingerprint = None\<rparr>"

definition emitHistoryDiagnostic :: "string \<Rightarrow> string \<Rightarrow> 'c history_state \<Rightarrow> 'c history_state" where
  "emitHistoryDiagnostic level message s =
     s\<lparr>sm_memory := (sm_memory s)\<lparr>ym_diagnostics := ym_diagnostics (sm_memory s) @ [(level, message)]\<rparr>\<rparr>"

definition count_pi_empty :: "'c history_state \<Rightarrow> 'c history_state" where
  "count_pi_empty s = s\<lparr>sm_memory := (sm_memory s)\<lparr>ym_piEmpty := ym_piEmpty (sm_memory s) + 1\<rparr>\<rparr>"

definition GetPiEmptyAssistantCount :: "'c history_state \<Rightarrow> nat" where
  "GetPiEmptyAssistantCount s = ym_piEmpty (sm_memory s)"

definition ResetPiEmptyAssistantCount :: "'c history_state \<Rightarrow> 'c history_state" where
  "ResetPiEmptyAssistantCount s = s\<lparr>sm_memory := (sm_memory s)\<lparr>ym_piEmpty := 0\<rparr>\<rparr>"

definition cached_history ::
    "'c AgentHistoryService \<Rightarrow> bool \<Rightarrow> string \<Rightarrow> SourceFingerprint \<Rightarrow> 'c history_state \<Rightarrow> CompactHistory option" where
  "cached_history sv forceRefresh path fingerprint s =
     (if forceRefresh then None
      else case sy_cache sv of None \<Rightarrow> None
        | Some cache \<Rightarrow>
          (case hk_GetFresh cache \<lparr>cf_FormatterVersion = AgentHistoryFormatterVersion,
                cf_SourceMtimeMs = sf_MtimeMs fingerprint, cf_SourcePath = path, cf_SourceSize = sf_Size fingerprint\<rparr>
              (sm_cache s) of
             None \<Rightarrow> None
           | Some h \<Rightarrow> if cx_LastAssistantMessage h = None then None else Some h))"

definition put_cached ::
    "'c AgentHistoryService \<Rightarrow> HistoryRef \<Rightarrow> string \<Rightarrow> SourceFingerprint \<Rightarrow> CompactHistory \<Rightarrow> 'c history_state \<Rightarrow> 'c history_state" where
  "put_cached sv ref path fingerprint h s =
     (case sy_cache sv of None \<Rightarrow> s
      | Some cache \<Rightarrow> s\<lparr>sm_cache := hk_Put cache
          \<lparr>cp_CompactHistory = h, cp_FormatterVersion = AgentHistoryFormatterVersion, cp_HistoryRef = ref,
           cp_SourceMtimeMs = sf_MtimeMs fingerprint, cp_SourcePath = path, cp_SourceSize = sf_Size fingerprint\<rparr>
          (sm_cache s)\<rparr>)"

definition readCompactWith ::
    "'c AgentHistoryService \<Rightarrow> HistoryReader \<Rightarrow> HistoryRef \<Rightarrow> bool \<Rightarrow> ('c, ResolvedCompactAgentHistory) history_op" where
  "readCompactWith sv reader ref forceRefresh s =
     (let path = ResolvedPath ref
      in case StatSourceFingerprint (sy_platform sv) path of
           None \<Rightarrow> (unresolvedCompactHistory (Some (hx_Source ref)), s)
         | Some fingerprint \<Rightarrow>
           let answer = (\<lambda>h. \<lparr>rc_CompactHistory = h, rc_HistoryRef = Some ref, rc_SourceFingerprint = Some fingerprint\<rparr>)
           in case cached_history sv forceRefresh path fingerprint s of
                Some h \<Rightarrow> (answer h, s)
              | None \<Rightarrow>
                (case ry_ReadCompact reader ref of
                   Inl e \<Rightarrow> (unresolvedCompactHistory (Some (hx_Source ref)),
                     emitHistoryDiagnostic ''warn'' ''Herdsman could not read agent history'' s)
                 | Inr h \<Rightarrow>
                   if cx_LastAssistantMessage h = None then
                     (answer h,
                      if hx_Source ref = SourcePiJSONL
                      then emitHistoryDiagnostic ''debug'' ''Herdsman history read produced no assistant message'' (count_pi_empty s)
                      else emitHistoryDiagnostic ''warn'' ''Herdsman history read produced no assistant message'' s)
                   else (answer h, put_cached sv ref path fingerprint h s)))"

definition reader_for :: "'c AgentHistoryService \<Rightarrow> HistoryRef \<Rightarrow> HistoryReader option" where
  "reader_for sv ref = List.find (\<lambda>r. ry_CanRead r ref) (sy_readers sv)"

definition ReadCompactRef ::
    "'c AgentHistoryService \<Rightarrow> HistoryRef \<Rightarrow> bool \<Rightarrow> ('c, ResolvedCompactAgentHistory) history_op" where
  "ReadCompactRef sv ref forceRefresh s =
     (case reader_for sv ref of
        Some reader \<Rightarrow> readCompactWith sv reader ref forceRefresh s
      | None \<Rightarrow> (unresolvedCompactHistory (Some (hx_Source ref)), s))"

text \<open>The part of a resolution behind the preferred reference.\<close>

definition resolve_by_discovery ::
    "'c AgentHistoryService \<Rightarrow> HistoryLookupInput \<Rightarrow> ResolveCompactOptions \<Rightarrow> ('c, ResolvedCompactAgentHistory) history_op" where
  "resolve_by_discovery sv input options s =
     (let force = ro_ForceDiscovery options;
          (suppressed, s) = (if force then (False, s) else discoverySuppressed sv input s)
      in if suppressed then (unresolvedCompactHistory None, s)
         else case service_discover sv input force s of
             (None, s) \<Rightarrow> (unresolvedCompactHistory None,
               if sy_discover sv \<noteq> None
               then emitHistoryDiagnostic ''warn'' ''Herdsman agent history discovery returned no reference'' s else s)
           | (Some ref, s) \<Rightarrow> ReadCompactRef sv ref (ro_ForceRefresh options) s)"

definition ResolveCompactHistory ::
    "'c AgentHistoryService \<Rightarrow> HistoryLookupInput \<Rightarrow> ResolveCompactOptions \<Rightarrow> ('c, ResolvedCompactAgentHistory) history_op" where
  "ResolveCompactHistory sv input options s =
     (case (if ro_ForceDiscovery options then None else ro_PreferredRef options) of
        None \<Rightarrow> resolve_by_discovery sv input options s
      | Some preferred \<Rightarrow>
        (case ReadCompactRef sv preferred (ro_ForceRefresh options) s of
           (result, s) \<Rightarrow> if rc_HistoryRef result \<noteq> None then (result, s) else resolve_by_discovery sv input options s))"

definition GetCompactHistory :: "'c AgentHistoryService \<Rightarrow> HistoryLookupInput \<Rightarrow> ('c, CompactHistory) history_op" where
  "GetCompactHistory sv input s =
     (case ResolveCompactHistory sv input \<lparr>ro_ForceDiscovery = False, ro_ForceRefresh = False, ro_PreferredRef = None\<rparr> s of
        (result, s) \<Rightarrow> (rc_CompactHistory result, s))"

definition no_history :: HistoryReadResult where
  "no_history = \<lparr>rs_HistoryRef = None, rs_Messages = []\<rparr>"

definition readRef :: "'c AgentHistoryService \<Rightarrow> HistoryRef \<Rightarrow> int \<Rightarrow> ('c, HistoryReadResult) history_op" where
  "readRef sv ref limit s =
     (case (reader_for sv ref, hp_stat (sy_platform sv) (ResolvedPath ref)) of
        (Some reader, Some _) \<Rightarrow>
          (case ry_Read reader ref (Some limit) of
             Inl e \<Rightarrow> (no_history, emitHistoryDiagnostic ''warn'' ''Herdsman could not read agent history messages'' s)
           | Inr messages \<Rightarrow> (\<lparr>rs_HistoryRef = Some ref, rs_Messages = messages\<rparr>, s))
      | _ \<Rightarrow> (no_history, emitHistoryDiagnostic ''warn'' ''Herdsman history reference could not be resolved'' s))"

definition read_by_discovery ::
    "'c AgentHistoryService \<Rightarrow> HistoryLookupInput \<Rightarrow> HistoryReadOptions \<Rightarrow> ('c, HistoryReadResult) history_op" where
  "read_by_discovery sv input options s =
     (let force = rd_ForceDiscovery options;
          (suppressed, s) = (if force then (False, s) else discoverySuppressed sv input s)
      in if suppressed then (no_history, s)
         else case service_discover sv input force s of
             (None, s) \<Rightarrow> (no_history, s)
           | (Some ref, s) \<Rightarrow> readRef sv ref (rd_Limit options) s)"

definition service_Read ::
    "'c AgentHistoryService \<Rightarrow> HistoryLookupInput \<Rightarrow> HistoryReadOptions \<Rightarrow> ('c, HistoryReadResult) history_op" where
  "service_Read sv input options s =
     (case (if rd_ForceDiscovery options then None else rd_PreferredRef options) of
        None \<Rightarrow> read_by_discovery sv input options s
      | Some preferred \<Rightarrow>
        (case readRef sv preferred (rd_Limit options) s of
           (result, s) \<Rightarrow> if rs_HistoryRef result \<noteq> None then (result, s) else read_by_discovery sv input options s))"

subsection \<open>Progress\<close>

definition sameOptionalString :: "string \<Rightarrow> string option \<Rightarrow> bool" where
  "sameOptionalString current baseline = (case baseline of None \<Rightarrow> False | Some b \<Rightarrow> current = b)"

definition HistoryAdvanced :: "CompactHistory \<Rightarrow> CompactHistory option \<Rightarrow> bool \<Rightarrow> bool" where
  "HistoryAdvanced current baseline requireAssistantChange =
     (let assistant = (case baseline of None \<Rightarrow> None | Some b \<Rightarrow> cx_LastAssistantMessage b);
          baselineRef = map_option ex_Ref assistant; baselineText = map_option ex_Text assistant;
          baselineCount = (case baseline of None \<Rightarrow> 0 | Some b \<Rightarrow> cx_MessageCount b);
          changed = (case cx_LastAssistantMessage current of None \<Rightarrow> False
            | Some m \<Rightarrow> (ex_Ref m \<noteq> [] \<and> \<not> sameOptionalString (ex_Ref m) baselineRef)
                \<or> (ex_Text m \<noteq> [] \<and> \<not> sameOptionalString (ex_Text m) baselineText))
      in if changed then True else if requireAssistantChange then False else baselineCount < cx_MessageCount current)"

subsection \<open>The adapter\<close>

definition optionalString :: "string \<Rightarrow> string option" where
  "optionalString v = (if v = [] then None else Some v)"

definition adapter_lookup :: "AgentHistoryLookupInput \<Rightarrow> HistoryLookupInput" where
  "adapter_lookup input =
     \<lparr>lu_Agent = hl_Agent input, lu_AgentSession = hl_AgentSession input, lu_ExtraHomeDirs = None,
      lu_HerdrSessionName = optionalString (hl_HerdrSessionName input), lu_HomeDir = None,
      lu_PaneID = optionalString (hl_PaneID input)\<rparr>"

definition adapter_ref :: "HistoryRef \<Rightarrow> AgentHistoryRef" where
  "adapter_ref r = \<lparr>hr_Kind = hx_Kind r, hr_Path = hx_Path r, hr_Source = hx_Source r, hr_Value = hx_Value r\<rparr>"

definition agenthistoryRef :: "AgentHistoryRef \<Rightarrow> HistoryRef" where
  "agenthistoryRef r = \<lparr>hx_Kind = hr_Kind r, hx_Path = hr_Path r, hx_Source = hr_Source r, hx_Value = hr_Value r\<rparr>"

definition adapter_excerpt :: "HistoryExcerpt \<Rightarrow> AgentHistoryExcerpt" where
  "adapter_excerpt e =
     \<lparr>x_Ref = ex_Ref e, x_StopReason = ex_StopReason e, x_Text = ex_Text e, x_Timestamp = ex_Timestamp e\<rparr>"

fun compaction_mode_text :: "CompactionMode \<Rightarrow> string" where
  "compaction_mode_text ModeFailureFocus = ''failure_focus''"
| "compaction_mode_text ModeGroupedMatches = ''grouped_matches''"
| "compaction_mode_text ModeStructuredSummary = ''structured_summary''"
| "compaction_mode_text ModeTruncatedPassthrough = ''truncated_passthrough''"
| "compaction_mode_text ModeWebSources = ''web_sources''"
| "compaction_mode_text ModeUnknown = ''unknown''"

definition adapter_toolResult :: "HistoryToolResult \<Rightarrow> CompactToolResult" where
  "adapter_toolResult r =
     \<lparr>tr_Mode = compaction_mode_text (tc_Mode (ht_Compaction r)), tr_OriginalChars = tc_OriginalChars (ht_Compaction r),
      tr_ReturnedChars = tc_ReturnedChars (ht_Compaction r), tr_IsError = ht_IsError r, tr_Ref = ht_Ref r,
      tr_Text = ht_Text r, tr_ToolName = ht_ToolName r\<rparr>"

fun unready_text :: "UnreadyReason \<Rightarrow> string" where
  "unready_text UnreadyEmptyHistory = ''empty_history''"
| "unready_text UnreadyNoUserMessage = ''no_user_message''"
| "unready_text UnreadyAssistantOnlyBeforeLastUser = ''assistant_only_before_last_user''"
| "unready_text UnreadyNoAssistantMessage = ''no_assistant_message''"

definition adapter_compact :: "CompactHistory \<Rightarrow> CompactAgentHistory" where
  "adapter_compact h =
     \<lparr>ch_HistoryRef = map_option adapter_ref (cx_HistoryRef h),
      ch_LastAssistantMessage = map_option adapter_excerpt (cx_LastAssistantMessage h),
      ch_LastToolResult = map_option adapter_toolResult (cx_LastToolResult h),
      ch_LastUserMessage = map_option adapter_excerpt (cx_LastUserMessage h),
      ch_MessageCount = cx_MessageCount h, ch_Source = cx_Source h,
      ch_UnreadyReason = map_option unready_text (cx_UnreadyReason h), ch_UpdatedAt = cx_UpdatedAt h\<rparr>"

definition adapter_fingerprint :: "SourceFingerprint \<Rightarrow> AgentHistorySourceFingerprint" where
  "adapter_fingerprint f = \<lparr>fp_MtimeMs = sf_MtimeMs f, fp_Path = sf_Path f, fp_Size = sf_Size f\<rparr>"

fun role_text :: "MessageRole \<Rightarrow> string" where
  "role_text RoleAssistant = ''assistant''"
| "role_text RoleToolResult = ''tool_result''"
| "role_text RoleUser = ''user''"

definition adapter_message :: "HistoryMessage \<Rightarrow> AgentHistoryMessage" where
  "adapter_message m =
     \<lparr>hm_Compact = map_option adapter_toolResult (hy_Compact m), hm_Ref = hy_Ref m, hm_Role = role_text (hy_Role m),
      hm_StopReason = hy_StopReason m, hm_Text = hy_Text m, hm_Timestamp = hy_Timestamp m, hm_ToolName = hy_ToolName m\<rparr>"

definition adapter_ResolveCompactHistory ::
    "'c AgentHistoryService \<Rightarrow> AgentHistoryLookupInput \<Rightarrow> AgentHistoryResolveOptions \<Rightarrow> ('c, AgentHistoryResolved) history_op" where
  "adapter_ResolveCompactHistory sv input options s =
     (case ResolveCompactHistory sv (adapter_lookup input)
        \<lparr>ro_ForceDiscovery = ho_ForceDiscovery options, ro_ForceRefresh = (ho_ForceRefresh options = Some True),
         ro_PreferredRef = map_option agenthistoryRef (ho_PreferredRef options)\<rparr> s of
        (result, s) \<Rightarrow>
          (\<lparr>hd_CompactHistory = adapter_compact (rc_CompactHistory result),
            hd_HistoryRef = map_option adapter_ref (rc_HistoryRef result),
            hd_SourceFingerprint = map_option adapter_fingerprint (rc_SourceFingerprint result)\<rparr>, s))"

definition adapter_Read ::
    "'c AgentHistoryService \<Rightarrow> AgentHistoryLookupInput \<Rightarrow> bool \<Rightarrow> int
      \<Rightarrow> ('c, AgentHistoryRef option \<times> AgentHistoryMessage list) history_op" where
  "adapter_Read sv input forceDiscovery limit s =
     (case service_Read sv (adapter_lookup input)
        \<lparr>rd_ForceDiscovery = forceDiscovery, rd_Limit = limit, rd_PreferredRef = None\<rparr> s of
        (result, s) \<Rightarrow> ((map_option adapter_ref (rs_HistoryRef result), map adapter_message (rs_Messages result)), s))"

end
