(* ===== verification/HistoryServiceLaws.thy ===== *)
theory HistoryServiceLaws
  imports HistoryService HistoryDiscoveryLaws HistoryProtoLaws
begin

text \<open>
  What the readers and the history service promise: which records of a file are read, which turn of a
  conversation is reported, where a served history comes from, and that the progress check agrees with the
  one of the index service.
\<close>

subsection \<open>JSON lines\<close>

text \<open>A declarative reading: the objects among the lines that are not blank, with their line numbers.\<close>

fun line_objects :: "(string \<Rightarrow> jval option) \<Rightarrow> int \<Rightarrow> string list \<Rightarrow> JSONLEntry list" where
  "line_objects unmarshal n [] = []"
| "line_objects unmarshal n (line # rest) =
     (if isJSBlank line then []
      else case unmarshal line of Some (JObj obj) \<Rightarrow> [\<lparr>je_Line = n, je_Value = obj\<rparr>] | _ \<Rightarrow> [])
     @ line_objects unmarshal (n + 1) rest"

definition records_of :: "string list \<Rightarrow> string list" where
  "records_of lines = filter (\<lambda>line. \<not> isJSBlank line) lines"

definition malformed_lines :: "(string \<Rightarrow> jval option) \<Rightarrow> string list \<Rightarrow> nat" where
  "malformed_lines unmarshal lines = length (filter (\<lambda>line. unmarshal line = None) (records_of lines))"

definition tail_malformed :: "(string \<Rightarrow> jval option) \<Rightarrow> string list \<Rightarrow> bool" where
  "tail_malformed unmarshal lines \<longleftrightarrow> records_of lines \<noteq> [] \<and> unmarshal (last (records_of lines)) = None"

lemma blank_Nil [simp]: "isJSBlank []"
  by (simp add: isJSBlank_def jsTrim_def trim_runes_def rune_bytes_def Let_def)

lemma records_of_Cons: "records_of (line # rest) = (if isJSBlank line then records_of rest else line # records_of rest)"
  by (simp add: records_of_def)

lemma jsonl_record_fields:
  "jl_entries (jsonl_record unmarshal line s) = jl_entries s @ line_objects unmarshal (jl_lineNumber s + 1) [line]"
  "jl_malformed (jsonl_record unmarshal line s) = jl_malformed s + malformed_lines unmarshal [line]"
  "jl_lineNumber (jsonl_record unmarshal line s) = jl_lineNumber s + 1"
  "jl_tailMalformed (jsonl_record unmarshal line s)
     = (if isJSBlank line then jl_tailMalformed s else unmarshal line = None)"
  by (auto simp: jsonl_record_def malformed_lines_def records_of_def Let_def split: option.split jval.split)

text \<open>The loop without a line to skip; the empty rest behind the last newline adds nothing.\<close>

definition read_pairs :: "string list \<Rightarrow> string \<Rightarrow> (string \<times> bool) list" where
  "read_pairs front rest = map (\<lambda>line. (line, False)) front @ [(rest, True)]"

lemma jsonl_loop_fields:
  "jl_entries (jsonl_loop unmarshal False (read_pairs front rest) s)
     = jl_entries s @ line_objects unmarshal (jl_lineNumber s + 1) (front @ [rest])"
  "jl_malformed (jsonl_loop unmarshal False (read_pairs front rest) s)
     = jl_malformed s + malformed_lines unmarshal (front @ [rest])"
  "jl_tailMalformed (jsonl_loop unmarshal False (read_pairs front rest) s)
     = (if records_of (front @ [rest]) = [] then jl_tailMalformed s else tail_malformed unmarshal (front @ [rest]))"
proof (induction front arbitrary: s)
  case Nil
  {
    case 1
    show ?case by (cases "rest = []") (simp_all add: read_pairs_def jsonl_record_fields Let_def)
  next
    case 2
    show ?case by (cases "rest = []") (simp_all add: read_pairs_def jsonl_record_fields Let_def malformed_lines_def records_of_Cons, simp_all add: records_of_def)
  next
    case 3
    show ?case by (cases "rest = []")
        (simp_all add: read_pairs_def jsonl_record_fields Let_def tail_malformed_def records_of_Cons, simp_all add: records_of_def)
  }
next
  case (Cons line front)
  have loop: "jsonl_loop unmarshal False (read_pairs (line # front) rest) s
      = jsonl_loop unmarshal False (read_pairs front rest) (jsonl_record unmarshal line s)" for s
    by (simp add: read_pairs_def Let_def)
  {
    case 1
    show ?case unfolding loop Cons.IH(1) by (simp add: jsonl_record_fields add.assoc)
  next
    case 2
    show ?case unfolding loop Cons.IH(2) by (simp add: jsonl_record_fields malformed_lines_def records_of_def)
  next
    case 3
    show ?case unfolding loop Cons.IH(3) by (simp add: jsonl_record_fields tail_malformed_def records_of_def)
  }
qed

text \<open>The lines of a window: without the first one when the file is longer than the window.\<close>

definition window_lines :: "bool \<Rightarrow> string \<Rightarrow> string list" where
  "window_lines longer data = (let lines = map fst (read_lines data) in if longer then tl lines else lines)"

lemma read_lines_pairs: "read_lines data = read_pairs (map drop_return (butlast (split_on newline data))) (last (split_on newline data))"
  by (simp add: read_lines_def read_pairs_def Let_def)

lemma pairs_lines: "map fst (read_pairs front rest) = front @ [rest]"
  by (simp add: read_pairs_def comp_def)

lemma jsonl_loop_window:
  fixes unmarshal :: "string \<Rightarrow> jval option" and data longer
  defines "s \<equiv> jsonl_loop unmarshal longer (read_lines data)
      \<lparr>jl_entries = [], jl_malformed = 0, jl_lineNumber = 0, jl_tailMalformed = False\<rparr>"
  shows "jl_entries s = line_objects unmarshal 1 (window_lines longer data)"
    and "jl_malformed s = malformed_lines unmarshal (window_lines longer data)"
    and "jl_tailMalformed s = tail_malformed unmarshal (window_lines longer data)"
proof -
  obtain front rest where pairs: "read_lines data = read_pairs front rest" using read_lines_pairs by blast
  then have lines: "map fst (read_lines data) = front @ [rest]" by (simp add: pairs_lines)
  let ?s0 = "\<lparr>jl_entries = [], jl_malformed = 0, jl_lineNumber = 0, jl_tailMalformed = False\<rparr> :: jsonl_state"
  have "jl_entries s = line_objects unmarshal 1 (window_lines longer data)
    \<and> jl_malformed s = malformed_lines unmarshal (window_lines longer data)
    \<and> jl_tailMalformed s = tail_malformed unmarshal (window_lines longer data)"
  proof (cases longer)
    case False
    then show ?thesis using jsonl_loop_fields [of unmarshal front rest ?s0]
      by (simp add: s_def pairs window_lines_def pairs_lines tail_malformed_def)
  next
    case True
    show ?thesis
    proof (cases front)
      case Nil
      then have "s = ?s0" using True by (simp add: s_def pairs read_pairs_def)
      then show ?thesis using True Nil
        by (simp add: window_lines_def lines malformed_lines_def tail_malformed_def records_of_def)
    next
      case (Cons line front')
      then have "s = jsonl_loop unmarshal False (read_pairs front' rest) ?s0" using True by (simp add: s_def pairs read_pairs_def)
      then show ?thesis using True Cons jsonl_loop_fields [of unmarshal front' rest ?s0]
        by (simp add: window_lines_def lines tail_malformed_def)
    qed
  qed
  then show "jl_entries s = line_objects unmarshal 1 (window_lines longer data)"
    and "jl_malformed s = malformed_lines unmarshal (window_lines longer data)"
    and "jl_tailMalformed s = tail_malformed unmarshal (window_lines longer data)" by blast+
qed

text \<open>
  C35: Reading a file of JSON lines gives the objects among the lines of its window that are not blank, in
  order and with their line numbers in the window; malformed lines are passed over, unless the last line that
  is not blank is one: then the tail is reported unstable. The window is the end of a file longer than 32
  MiB, without its first line, and one that yields no record at all is an error instead of an empty history.
\<close>

theorem jsonl_window_exact:
  assumes "hp_stat pf path = Some info"
    and "hp_readFrom pf path (if JSONLMaxBytes < fi_size info then fi_size info - JSONLMaxBytes else 0) = Some data"
  shows "ReadJSONL pf path 0 =
    (let longer = JSONLMaxBytes < fi_size info; lines = window_lines longer data
     in if tail_malformed (hp_unmarshal pf) lines
        then Inl (UnstableJSONLError (malformed_lines (hp_unmarshal pf) lines) (fi_size info) (fi_mtimeMs info))
        else if longer \<and> line_objects (hp_unmarshal pf) 1 lines = []
        then Inl (JSONLTooLargeError JSONLMaxBytes (fi_size info))
        else Inr (line_objects (hp_unmarshal pf) 1 lines))"
proof -
  let ?longer = "JSONLMaxBytes < fi_size info"
  have start: "(0 < (if ?longer then fi_size info - JSONLMaxBytes else 0)) = ?longer" by simp
  have some: "tail_malformed u lines \<Longrightarrow> 0 < malformed_lines u lines" for u lines
    by (auto simp: tail_malformed_def malformed_lines_def filter_empty_conv)
  show ?thesis
    using assms some [of "hp_unmarshal pf" "window_lines ?longer data"]
    by (auto simp: ReadJSONL_def Let_def start jsonl_loop_window cong: if_cong)
qed

definition torn_platform :: history_platform where
  "torn_platform = demo_history_platform\<lparr>
     hp_stat := (\<lambda>_. Some \<lparr>fi_size = 4, fi_mtimeMs = 7, fi_symlink = False, fi_regular = True, fi_perm = 420, fi_uid = Some 0\<rparr>),
     hp_readFrom := (\<lambda>_ _. Some (''{}'' @ newline # ''{'')),
     hp_unmarshal := (\<lambda>line. if line = ''{}'' then Some (JObj []) else None)\<rparr>"

theorem jsonl_window_exact_witness: "ReadJSONL torn_platform ''/h'' 0 = Inl (UnstableJSONLError 1 4 7)"
proof -
  let ?info = "\<lparr>fi_size = 4, fi_mtimeMs = 7, fi_symlink = False, fi_regular = True, fi_perm = 420, fi_uid = Some 0\<rparr> :: file_info"
  have "read_lines (''{}'' @ newline # ''{'') = [(''{}'', False), (''{'', True)]"
    by (simp add: read_lines_def newline_def drop_return_def)
  moreover have "\<not> isJSBlank ''{}''" "\<not> isJSBlank ''{''"
    by (simp_all add: isJSBlank_def jsTrim_def trim_runes_def rune_bytes_def Let_def ascii_runes between_def js_space_def
        isUnicodeSpace_def)
  ultimately have "records_of (window_lines False (''{}'' @ newline # ''{'')) = [''{}'', ''{'']"
    by (simp add: window_lines_def records_of_def)
  then show ?thesis
    using jsonl_window_exact [of torn_platform "''/h''" ?info "''{}'' @ newline # ''{''"]
    by (simp add: torn_platform_def JSONLMaxBytes_def tail_malformed_def malformed_lines_def)
qed

subsection \<open>The turn of a conversation\<close>

lemma find_last_Some:
  "find_last P xs = Some x \<longleftrightarrow> (\<exists>before after. xs = before @ x # after \<and> P x \<and> \<not> list_ex P after)"
proof (induction xs rule: rev_induct)
  case (snoc y xs)
  show ?case
  proof (cases "P y")
    case True
    then have "find_last P (xs @ [y]) = Some y" by (simp add: find_last_def)
    moreover have "x = y" if "xs @ [y] = before @ x # after" "\<not> list_ex P after" for before after
    proof (rule ccontr)
      assume "x \<noteq> y"
      with that(1) have "after \<noteq> []" by auto
      then have "last after = y" using that(1) by (metis last_appendR last_ConsR last_snoc list.distinct(1))
      then show False using that(2) True \<open>after \<noteq> []\<close> by (auto simp: list_ex_iff)
    qed
    ultimately show ?thesis using True by (auto intro: exI [of _ xs] exI [of _ "[]"])
  next
    case False
    then have "find_last P (xs @ [y]) = find_last P xs" by (simp add: find_last_def)
    also have "\<dots> = Some x \<longleftrightarrow> (\<exists>before after. xs @ [y] = before @ x # after \<and> P x \<and> \<not> list_ex P after)"
    proof
      assume "find_last P xs = Some x"
      then obtain before after where "xs = before @ x # after" "P x" "\<not> list_ex P after" using snoc.IH by blast
      then show "\<exists>before after. xs @ [y] = before @ x # after \<and> P x \<and> \<not> list_ex P after"
        using False by (intro exI [of _ before] exI [of _ "after @ [y]"]) simp
    next
      assume "\<exists>before after. xs @ [y] = before @ x # after \<and> P x \<and> \<not> list_ex P after"
      then obtain before after where split: "xs @ [y] = before @ x # after" "P x" "\<not> list_ex P after" by blast
      with False have "after \<noteq> []" by auto
      with split(1) have "xs = before @ x # butlast after" by (metis append_butlast_last_id butlast_append butlast_snoc list.distinct(1) butlast.simps(2))
      moreover have "\<not> list_ex P (butlast after)" using split(3) by (auto simp: list_ex_iff dest: in_set_butlastD)
      ultimately show "find_last P xs = Some x" using split(2) snoc.IH by blast
    qed
    finally show ?thesis .
  qed
qed (simp add: find_last_def)

lemma find_last_None: "find_last P xs = None \<longleftrightarrow> \<not> list_ex P xs"
  by (auto simp: find_last_def find_None_iff list_ex_iff)

definition agy_excerpt :: "HistoryMessage \<Rightarrow> HistoryExcerpt" where
  "agy_excerpt m = \<lparr>ex_Ref = hy_Ref m, ex_StopReason = None, ex_Text = hy_Text m, ex_Timestamp = hy_Timestamp m\<rparr>"

lemma find_last_upt: "find_last P [0..<n] = Some i \<Longrightarrow> i < n \<and> P i \<and> (\<forall>j. i < j \<and> j < n \<longrightarrow> \<not> P j)"
proof (induction n)
  case (Suc n)
  then show ?case by (cases "P n") (auto simp: find_last_def less_Suc_eq)
qed (simp add: find_last_def)

lemma last_user_split:
  assumes "last_user_index messages = Some i"
  shows "i < length messages \<and> hy_Role (messages ! i) = RoleUser \<and> \<not> has_role RoleUser (drop (Suc i) messages)"
  using find_last_upt [OF assms [unfolded last_user_index_def]]
  by (auto simp: has_role_def list_ex_iff in_set_conv_nth)

lemma last_user_none: "last_user_index messages = None \<Longrightarrow> \<not> has_role RoleUser messages"
  by (auto simp: last_user_index_def find_last_None has_role_def list_ex_iff in_set_conv_nth)

text \<open>The answer of the last turn: the last message of the assistant behind the last message of the user.\<close>

definition turn_answer :: "HistoryMessage list \<Rightarrow> HistoryMessage \<Rightarrow> bool" where
  "turn_answer messages m \<longleftrightarrow>
     (\<exists>before after. messages = before @ m # after \<and> hy_Role m = RoleAssistant \<and> has_role RoleUser before
        \<and> \<not> has_role RoleUser after \<and> \<not> has_role RoleAssistant after)"

lemma turn_answer_iff:
  assumes i: "last_user_index messages = Some i"
  shows "turn_answer messages m \<longleftrightarrow> lastByRole (drop (Suc i) messages) RoleAssistant = Some m"
proof
  note u = last_user_split [OF i]
  have whole: "messages = take (Suc i) messages @ drop (Suc i) messages" by simp
  have user: "has_role RoleUser (take (Suc i) messages)"
    using u by (auto simp: has_role_def list_ex_iff take_Suc_conv_app_nth)
  {
    assume "lastByRole (drop (Suc i) messages) RoleAssistant = Some m"
    then obtain before after where d: "drop (Suc i) messages = before @ m # after" "hy_Role m = RoleAssistant"
      "\<not> has_role RoleAssistant after" by (auto simp: lastByRole_def find_last_Some has_role_def)
    then have "messages = (take (Suc i) messages @ before) @ m # after" using whole by simp
    moreover have "\<not> has_role RoleUser after" using u d(1) by (simp add: has_role_def)
    ultimately show "turn_answer messages m" unfolding turn_answer_def using d user
      by (intro exI [of _ "take (Suc i) messages @ before"] exI [of _ after]) (simp add: has_role_def)
  }
  assume "turn_answer messages m"
  then obtain before after where m: "messages = before @ m # after" "hy_Role m = RoleAssistant" "has_role RoleUser before"
    "\<not> has_role RoleUser after" "\<not> has_role RoleAssistant after" by (auto simp: turn_answer_def)
  have "i < length before"
  proof (rule ccontr)
    assume "\<not> i < length before"
    then have "messages ! i = (m # after) ! (i - length before)" "i - length before < length (m # after)"
      using u m(1) by (auto simp: nth_append)
    then have "messages ! i \<in> set (m # after)" by (metis nth_mem)
    then show False using u m(2,4) by (auto simp: has_role_def list_ex_iff)
  qed
  then have "drop (Suc i) messages = drop (Suc i) before @ m # after" using m(1) by simp
  then show "lastByRole (drop (Suc i) messages) RoleAssistant = Some m"
    using m(2,5) by (auto simp: lastByRole_def find_last_Some has_role_def)
qed

lemma turn_answer_user: "turn_answer messages m \<Longrightarrow> has_role RoleUser messages \<and> messages \<noteq> []"
  by (auto simp: turn_answer_def has_role_def)

lemma agy_compact_cases:
  "cx_LastAssistantMessage (agy_compact ref messages) =
     (case last_user_index messages of None \<Rightarrow> None
      | Some i \<Rightarrow> map_option agy_excerpt (lastByRole (drop (Suc i) messages) RoleAssistant))"
  by (cases "messages = []")
    (auto simp: agy_compact_def agy_excerpt_def Let_def last_user_index_def find_last_def split: option.split)

text \<open>
  C33: The history of an agy conversation reports an answer exactly when a message of the assistant stands
  behind the last message of the user, namely the last such message, and otherwise says why there is none:
  no message, no message of the user, answers to earlier messages only, or no answer at all.
\<close>

theorem agy_turn_exact:
  "(cx_LastAssistantMessage (agy_ReadCompact pf ref) = Some e
      \<longleftrightarrow> (\<exists>m. turn_answer (agy_Read pf ref None) m \<and> e = agy_excerpt m))
   \<and> cx_UnreadyReason (agy_ReadCompact pf ref) =
      (let messages = agy_Read pf ref None
       in if messages = [] then Some UnreadyEmptyHistory
          else if \<not> has_role RoleUser messages then Some UnreadyNoUserMessage
          else if \<exists>m. turn_answer messages m then None
          else if has_role RoleAssistant messages then Some UnreadyAssistantOnlyBeforeLastUser
          else Some UnreadyNoAssistantMessage)"
proof -
  let ?ms = "agy_Read pf ref None"
  have "cx_LastAssistantMessage (agy_compact ref ?ms) = Some e \<longleftrightarrow> (\<exists>m. turn_answer ?ms m \<and> e = agy_excerpt m)"
    using turn_answer_user [of ?ms] last_user_none [of ?ms] turn_answer_iff [of ?ms]
    by (cases "last_user_index ?ms") (auto simp: agy_compact_cases)
  moreover have "cx_UnreadyReason (agy_compact ref ?ms) =
      (if ?ms = [] then Some UnreadyEmptyHistory
       else if \<not> has_role RoleUser ?ms then Some UnreadyNoUserMessage
       else if \<exists>m. turn_answer ?ms m then None
       else if has_role RoleAssistant ?ms then Some UnreadyAssistantOnlyBeforeLastUser
       else Some UnreadyNoAssistantMessage)"
  proof (cases "last_user_index ?ms")
    case None
    then show ?thesis using last_user_none [OF None] by (simp add: agy_compact_def Let_def)
  next
    case (Some i)
    have "has_role RoleUser ?ms" "?ms \<noteq> []" using last_user_split [OF Some] by (auto simp: has_role_def list_ex_iff)
    moreover have "(\<exists>m. turn_answer ?ms m) \<longleftrightarrow> lastByRole (drop (Suc i) ?ms) RoleAssistant \<noteq> None"
      using turn_answer_iff [OF Some] by auto
    ultimately show ?thesis by (simp add: agy_compact_def Let_def Some split: option.split)
  qed
  ultimately show ?thesis unfolding agy_ReadCompact_def Let_def by blast
qed

text \<open>The other compaction never gives the reason that answers are older than the last message of the user.\<close>

lemma unready_reason_unreachable:
  "cx_UnreadyReason (CompactFromMessages ref messages) \<noteq> Some UnreadyAssistantOnlyBeforeLastUser"
proof -
  have "lastByRole messages RoleAssistant = None \<Longrightarrow> \<not> has_role RoleAssistant messages"
    by (simp add: lastByRole_def find_last_None has_role_def)
  then show ?thesis by (simp add: CompactFromMessages_def unready_reason_def Let_def)
qed

subsection \<open>Progress\<close>

text \<open>
  The progress check of the history service and the one of the index service agree on every history and
  every baseline once the adapter has translated them.
\<close>

theorem advanced_ports_agree:
  "HistoryAdvanced current baseline require
     = HistoryHasAdvanced (adapter_compact current) (map_option adapter_compact baseline) (Some require)"
proof -
  have assistant: "assistant_ref (map_option adapter_compact baseline)
      = (case baseline of None \<Rightarrow> [] | Some b \<Rightarrow> (case cx_LastAssistantMessage b of None \<Rightarrow> [] | Some m \<Rightarrow> ex_Ref m))"
    "assistant_text (map_option adapter_compact baseline)
      = (case baseline of None \<Rightarrow> [] | Some b \<Rightarrow> (case cx_LastAssistantMessage b of None \<Rightarrow> [] | Some m \<Rightarrow> ex_Text m))"
    by (auto simp: assistant_ref_def assistant_text_def adapter_compact_def adapter_excerpt_def split: option.split)
  show ?thesis unfolding HistoryAdvanced_def HistoryHasAdvanced_def assistant
    by (cases baseline; cases "cx_LastAssistantMessage (the baseline)"; cases "cx_LastAssistantMessage current")
      (simp_all add: adapter_compact_def adapter_excerpt_def sameOptionalString_def Let_def)
qed

subsection \<open>Served histories\<close>

lemma cached_history_cong: "sm_cache s = sm_cache s1 \<Longrightarrow> cached_history sv f path fp s = cached_history sv f path fp s1"
  by (auto simp: cached_history_def split: option.split)

text \<open>Where a history comes from: the reader, just now, or the cache for the present fingerprint.\<close>

definition served_from :: "'c AgentHistoryService \<Rightarrow> bool \<Rightarrow> 'c history_state \<Rightarrow> HistoryRef \<Rightarrow> ResolvedCompactAgentHistory \<Rightarrow> bool" where
  "served_from sv forceRefresh s ref result \<longleftrightarrow>
     (\<exists>reader fingerprint. reader \<in> set (sy_readers sv) \<and> ry_CanRead reader ref
       \<and> StatSourceFingerprint (sy_platform sv) (ResolvedPath ref) = Some fingerprint
       \<and> rc_SourceFingerprint result = Some fingerprint
       \<and> (ry_ReadCompact reader ref = Inr (rc_CompactHistory result)
          \<or> \<not> forceRefresh \<and> cx_LastAssistantMessage (rc_CompactHistory result) \<noteq> None
             \<and> cached_history sv False (ResolvedPath ref) fingerprint s = Some (rc_CompactHistory result)))"

definition empty_answer :: "ResolvedCompactAgentHistory \<Rightarrow> bool" where
  "empty_answer result \<longleftrightarrow> (\<exists>source. result = unresolvedCompactHistory source)"

lemma ReadCompactRef_served:
  assumes "ReadCompactRef sv ref forceRefresh s = (result, s')"
  shows "(case rc_HistoryRef result of None \<Rightarrow> empty_answer result \<and> sm_cache s' = sm_cache s
    | Some ref' \<Rightarrow> ref' = ref \<and> served_from sv forceRefresh s ref result)"
proof (cases "reader_for sv ref")
  case None
  then show ?thesis using assms by (auto simp: ReadCompactRef_def empty_answer_def unresolvedCompactHistory_def)
next
  case (Some reader)
  then have reader: "reader \<in> set (sy_readers sv)" "ry_CanRead reader ref"
    by (auto simp: reader_for_def find_Some_iff)
  have "readCompactWith sv reader ref forceRefresh s = (result, s')" using assms Some by (simp add: ReadCompactRef_def)
  note read = this
  show ?thesis
  proof (cases "StatSourceFingerprint (sy_platform sv) (ResolvedPath ref)")
    case None
    then show ?thesis using read by (auto simp: readCompactWith_def empty_answer_def unresolvedCompactHistory_def)
  next
    case (Some fingerprint)
    note fp = this
    have from_reader: "served_from sv forceRefresh s ref result"
      if "rc_SourceFingerprint result = Some fingerprint" "ry_ReadCompact reader ref = Inr (rc_CompactHistory result)"
      unfolding served_from_def using reader fp that by blast
    show ?thesis
    proof (cases "cached_history sv forceRefresh (ResolvedPath ref) fingerprint s")
      case (Some h)
      then have "\<not> forceRefresh" "cx_LastAssistantMessage h \<noteq> None"
        by (auto simp: cached_history_def split: if_splits option.splits)
      moreover have "rc_CompactHistory result = h \<and> rc_SourceFingerprint result = Some fingerprint \<and> rc_HistoryRef result = Some ref"
        using read Some fp by (auto simp: readCompactWith_def Let_def)
      ultimately show ?thesis using reader fp Some by (auto simp: served_from_def)
    next
      case None
      then show ?thesis using read fp from_reader
        by (cases "ry_ReadCompact reader ref")
          (auto simp: readCompactWith_def Let_def empty_answer_def unresolvedCompactHistory_def emitHistoryDiagnostic_def
            split: if_splits)
    qed
  qed
qed

lemma service_discover_real:
  assumes "sy_discover sv = None" "\<forall>p r. hp_evalSymlinks (sy_platform sv) p = Some r \<longrightarrow> is_abs p \<longrightarrow> is_abs r"
    and "service_discover sv input force s = (found, s')"
  shows "sm_cache s' = sm_cache s
    \<and> (\<forall>ref. found = Some ref \<longrightarrow> (\<exists>path. hx_Path ref = Some path \<and> owned_session_file (sy_platform sv) path))"
  using assms discovered_file_safe_at [OF assms(2)] by (fastforce simp: service_discover_def split: prod.splits)

lemma resolve_by_discovery_served:
  assumes real: "sy_discover sv = None" "\<forall>p r. hp_evalSymlinks (sy_platform sv) p = Some r \<longrightarrow> is_abs p \<longrightarrow> is_abs r"
    and r: "resolve_by_discovery sv input options s = (result, s')"
  shows "(case rc_HistoryRef result of None \<Rightarrow> empty_answer result
    | Some ref \<Rightarrow> served_from sv (ro_ForceRefresh options) s ref result
        \<and> (\<exists>path. hx_Path ref = Some path \<and> owned_session_file (sy_platform sv) path))"
proof -
  let ?force = "ro_ForceDiscovery options"
  obtain suppressed s1 where s1: "(if ?force then (False, s) else discoverySuppressed sv input s) = (suppressed, s1)" by fastforce
  then have cache1: "sm_cache s1 = sm_cache s" by (auto simp: discoverySuppressed_def split: if_splits prod.splits)
  obtain found s2 where s2: "service_discover sv input ?force s1 = (found, s2)" by fastforce
  note d = service_discover_real [OF real s2]
  show ?thesis
  proof (cases "suppressed \<or> found = None")
    case True
    then show ?thesis using r s1 s2
      by (auto simp: resolve_by_discovery_def empty_answer_def unresolvedCompactHistory_def Let_def split: if_splits)
  next
    case False
    then obtain ref where ref: "found = Some ref" by blast
    then have "ReadCompactRef sv ref (ro_ForceRefresh options) s2 = (result, s')"
      using r s1 s2 False by (simp add: resolve_by_discovery_def Let_def split: if_splits)
    from ReadCompactRef_served [OF this] show ?thesis
      using d ref cache1 cached_history_cong [of s2 s sv] by (auto simp: served_from_def split: option.splits)
  qed
qed

text \<open>
  C31: A resolved history names the reference it was read from: the preferred one, if discovery was not
  forced, or else a file that discovery found safe. It is what a reader for that reference reads now, or,
  unless a refresh was forced, the cached history with an answer for the present fingerprint of the source.
  Without a reference the history is empty.
\<close>

theorem served_history_exact:
  assumes real: "sy_discover sv = None" "\<forall>p r. hp_evalSymlinks (sy_platform sv) p = Some r \<longrightarrow> is_abs p \<longrightarrow> is_abs r"
    and r: "ResolveCompactHistory sv input options s = (result, s')"
  shows "(case rc_HistoryRef result of None \<Rightarrow> \<exists>source. result = unresolvedCompactHistory source
    | Some ref \<Rightarrow> served_from sv (ro_ForceRefresh options) s ref result
        \<and> (\<not> ro_ForceDiscovery options \<and> ro_PreferredRef options = Some ref
           \<or> (\<exists>path. hx_Path ref = Some path \<and> owned_session_file (sy_platform sv) path)))"
proof (cases "if ro_ForceDiscovery options then None else ro_PreferredRef options")
  case None
  then have "resolve_by_discovery sv input options s = (result, s')" using r by (simp add: ResolveCompactHistory_def)
  from resolve_by_discovery_served [OF real this] show ?thesis by (auto simp: empty_answer_def split: option.splits)
next
  case (Some preferred)
  then have p: "\<not> ro_ForceDiscovery options" "ro_PreferredRef options = Some preferred" by (auto split: if_splits)
  obtain first s1 where first: "ReadCompactRef sv preferred (ro_ForceRefresh options) s = (first, s1)" by fastforce
  note f = ReadCompactRef_served [OF first]
  show ?thesis
  proof (cases "rc_HistoryRef first")
    case None
    then have "resolve_by_discovery sv input options s1 = (result, s')" and "sm_cache s1 = sm_cache s"
      using r Some first f by (simp_all add: ResolveCompactHistory_def)
    with resolve_by_discovery_served [OF real this(1)] cached_history_cong [of s1 s sv] show ?thesis
      by (auto simp: empty_answer_def served_from_def split: option.splits)
  next
    case (Some ref)
    then have "result = first" using r p first by (simp add: ResolveCompactHistory_def)
    then show ?thesis using f p Some by simp
  qed
qed

definition empty_file_platform :: history_platform where
  "empty_file_platform = demo_history_platform\<lparr>
     hp_stat := (\<lambda>_. Some \<lparr>fi_size = 0, fi_mtimeMs = 7, fi_symlink = False, fi_regular = True, fi_perm = 420, fi_uid = Some 0\<rparr>),
     hp_readFrom := (\<lambda>_ _. Some [])\<rparr>"

definition demo_ref :: HistoryRef where
  "demo_ref = \<lparr>hx_Kind = KindAgentSession, hx_Path = Some ''/h/s.jsonl'', hx_Source = SourcePiJSONL, hx_Value = ''/h/s.jsonl''\<rparr>"

definition demo_history_service :: "unit AgentHistoryService" where
  "demo_history_service = CreateAgentHistoryService empty_file_platform None None None None"

lemma demo_pi_history: "pi_ReadCompact empty_file_platform demo_ref = Inr (CompactFromMessages demo_ref [])"
  by (simp add: pi_ReadCompact_def pi_Read_def ReadJSONL_def empty_file_platform_def JSONLMaxBytes_def read_lines_def
      LimitMessages_def Let_def map_filter_simps)

lemma demo_served:
  "ResolveCompactHistory demo_history_service (demo_history_lookup ''rel'')
      \<lparr>ro_ForceDiscovery = False, ro_ForceRefresh = True, ro_PreferredRef = Some demo_ref\<rparr> s
    = (\<lparr>rc_CompactHistory = CompactFromMessages demo_ref [], rc_HistoryRef = Some demo_ref,
         rc_SourceFingerprint = StatSourceFingerprint empty_file_platform ''/h/s.jsonl''\<rparr>,
       emitHistoryDiagnostic ''debug'' ''Herdsman history read produced no assistant message'' (count_pi_empty s))"
proof -
  have "reader_for demo_history_service demo_ref = Some \<lparr>ry_CanRead = pi_CanRead, ry_Read = pi_Read empty_file_platform,
      ry_ReadCompact = pi_ReadCompact empty_file_platform\<rparr>"
    by (simp add: reader_for_def demo_history_service_def CreateAgentHistoryService_def default_readers_def pi_CanRead_def demo_ref_def)
  moreover have "ResolvedPath demo_ref = ''/h/s.jsonl''" "hx_Source demo_ref = SourcePiJSONL"
    by (simp_all add: ResolvedPath_def demo_ref_def)
  moreover have "sy_platform demo_history_service = empty_file_platform"
    by (simp add: demo_history_service_def CreateAgentHistoryService_def)
  moreover have "\<exists>fp. StatSourceFingerprint empty_file_platform ''/h/s.jsonl'' = Some fp"
    by (simp add: StatSourceFingerprint_def empty_file_platform_def Let_def)
  moreover have "cx_LastAssistantMessage (CompactFromMessages demo_ref []) = None"
    by (simp add: CompactFromMessages_def lastByRole_def find_last_def Let_def)
  ultimately show ?thesis
    by (auto simp: ResolveCompactHistory_def ReadCompactRef_def readCompactWith_def demo_pi_history cached_history_def Let_def)
qed

theorem served_history_exact_witness:
  "\<exists>result :: ResolvedCompactAgentHistory. \<exists>s' :: unit history_state.
     ResolveCompactHistory demo_history_service (demo_history_lookup ''rel'')
       \<lparr>ro_ForceDiscovery = False, ro_ForceRefresh = True, ro_PreferredRef = Some demo_ref\<rparr>
       \<lparr>sm_memory = empty_memory, sm_cache = ()\<rparr> = (result, s')
     \<and> rc_HistoryRef result = Some demo_ref
     \<and> served_from demo_history_service True \<lparr>sm_memory = empty_memory, sm_cache = ()\<rparr> demo_ref result"
proof -
  have real: "sy_discover demo_history_service = None"
    "\<forall>p r. hp_evalSymlinks (sy_platform demo_history_service) p = Some r \<longrightarrow> is_abs p \<longrightarrow> is_abs r"
    by (simp_all add: demo_history_service_def CreateAgentHistoryService_def empty_file_platform_def demo_history_platform_def)
  show ?thesis
    using served_history_exact [OF real demo_served [of "\<lparr>sm_memory = empty_memory, sm_cache = ()\<rparr>"]]
    by (auto simp: demo_served)
qed

end
