(* ===== verification/WatchLoop.thy ===== *)
theory WatchLoop
  imports HerdrSession IndexService HistoryText "HOL-Library.Word"
begin

text \<open>
  One subscription of the watch manager (\<open>go/internal/daemon/herdr_session_watch_manager.go\<close>): what
  the manager does with the events of a Herdr session, over the index service of the development, and
  the delay before it connects again. The events a subscription yields are a parameter, as is what
  others do between two of them. An index service without the fast methods occurs only in tests.
\<close>

subsection \<open>Constants and helpers\<close>

definition ActiveRevisionPollMs :: int where "ActiveRevisionPollMs = 10000"
definition FullRescanMs :: int where "FullRescanMs = 60000"
definition maxReconnectDelayMs :: int where "maxReconnectDelayMs = 30000"

definition HerdrTopologyEventTypes :: "string list" where
  "HerdrTopologyEventTypes =
     [''pane.created'', ''pane.closed'', ''pane.moved'', ''pane.agent_detected'', ''workspace.closed'']"

definition isTopologyEvent :: "string \<Rightarrow> bool" where
  "isTopologyEvent eventType \<longleftrightarrow> list_ex (\<lambda>candidate. candidate = eventType) HerdrTopologyEventTypes"

definition closedHitsLivePane :: "(string \<times> jval) list \<Rightarrow> AgentIndexRecord list \<Rightarrow> bool" where
  "closedHitsLivePane event live =
     (case stringValue (map_of event ''pane_id'') of None \<Rightarrow> False
      | Some paneID \<Rightarrow>
        let generation = stringValue (map_of event ''pane_generation'')
        in list_ex (\<lambda>agent. a_PaneID agent = paneID
             \<and> (generation = None \<or> a_PaneGeneration agent = generation)) live)"

definition containsNewPaneID :: "AgentIndexRecord list \<Rightarrow> string list \<Rightarrow> bool" where
  "containsNewPaneID live subscribed \<longleftrightarrow> list_ex (\<lambda>agent. a_PaneID agent \<notin> set subscribed) live"

definition paneIDsOf :: "AgentIndexRecord list \<Rightarrow> string list" where
  "paneIDsOf live = map a_PaneID live"

text \<open>
  The backoff. \<open>math.Pow\<close> is exact on powers of two, its conversion to \<open>int\<close> is that of a float, and
  the product is a product of 64-bit integers.
\<close>

definition reconnect_delay :: "int \<Rightarrow> nat \<Rightarrow> int" where
  "reconnect_delay reconnectDelayMs reconnectCount =
     min (sint (word_of_int reconnectDelayMs * word_of_int (fl_int64 (2 ^ (reconnectCount - 1))) :: 64 word))
       maxReconnectDelayMs"

subsection \<open>Publishing\<close>

datatype watch_notice =
  IndexRefreshed "AgentIndexRecord list" string | ContextChanged AgentScope | AgentEventNotice AgentEventRecord

text \<open>
  \<open>wq_published\<close> is what the callbacks were called with, \<open>wq_plans\<close> the plans that were submitted and
  not yet run, \<open>wq_subscribed\<close> the panes of the present subscription.
\<close>

record watch_state =
  wq_index :: index_state
  wq_published :: "watch_notice list"
  wq_plans :: "StatusEventPlan list"
  wq_subscribed :: "string list"
  wq_reconnectCount :: nat

type_synonym 'a watching = "(watch_state, go_error, 'a) act"

definition with_index :: "'a ix \<Rightarrow> 'a watching" where
  "with_index m s = (case m (wq_index s) of (r, x) \<Rightarrow> (r, s\<lparr>wq_index := x\<rparr>))"

definition publishResult ::
    "AgentIndexRecord list \<Rightarrow> AgentScope list \<Rightarrow> AgentEventRecord list \<Rightarrow> string \<Rightarrow> unit watching" where
  "publishResult live contextChangedScopes events herdrSessionName =
     modify_act (\<lambda>s. s\<lparr>wq_published := wq_published s @ IndexRefreshed live herdrSessionName
       # map ContextChanged contextChangedScopes @ map AgentEventNotice events\<rparr>)"

definition submitPlan :: "StatusEventPlan \<Rightarrow> unit watching" where
  "submitPlan plan = modify_act (\<lambda>s. s\<lparr>wq_plans := wq_plans s @ [plan]\<rparr>)"

text \<open>The goroutine of a submitted plan, when it runs. A failure is logged.\<close>

definition run_submitted :: "AgentIndexService \<Rightarrow> StatusEventPlan \<Rightarrow> unit watching" where
  "run_submitted sv plan =
     bind_act (modify_act (\<lambda>s. s\<lparr>wq_plans := remove1 plan (wq_plans s)\<rparr>)) (\<lambda>_.
     bind_act (with_index (try_err (ExecuteStatusEventPlan sv plan))) (\<lambda>r.
     case r of
       Inr (Some event) \<Rightarrow>
         if e_Type event \<in> set ValidAgentEventTypes
         then modify_act (\<lambda>s. s\<lparr>wq_published := wq_published s @ [AgentEventNotice event]\<rparr>)
         else return_act ()
     | _ \<Rightarrow> return_act ()))"

definition watch_refresh :: "AgentIndexService \<Rightarrow> HerdrSessionListEntry \<Rightarrow> AgentIndexRecord list watching" where
  "watch_refresh sv entry =
     bind_act (with_index (RefreshHerdrSessionFast sv (hse_Name entry) (hse_SessionDir entry) (hse_SocketPath entry))) (\<lambda>result.
     bind_act (publishResult (rr_Agents result) (rr_ContextChangedScopes result) (rr_Events result) (hse_Name entry)) (\<lambda>_.
     bind_act (for_each (rr_StatusEventPlans result) submitPlan) (\<lambda>_.
     return_act (rr_Agents result))))"

definition handleWatchEvent :: "AgentIndexService \<Rightarrow> HerdrSessionListEntry \<Rightarrow> jval \<Rightarrow> unit watching" where
  "handleWatchEvent sv entry event =
     bind_act (with_index (HandleHerdrEventFast sv \<lparr>he_Event = event, he_HerdrSessionName = hse_Name entry,
       he_SessionDir = hse_SessionDir entry, he_SocketPath = hse_SocketPath entry\<rparr>)) (\<lambda>result.
     bind_act (with_index (db (ListForHerdrSession (hse_Name entry)))) (\<lambda>live.
     bind_act (publishResult live (fr_ContextChangedScopes result) (fr_Events result) (hse_Name entry)) (\<lambda>_.
     for_each (fr_StatusEventPlans result) submitPlan)))"

subsection \<open>One subscription\<close>

text \<open>
  What \<open>Next\<close> reports: an event, with whether the subscription is cancelled by then, or a failure. The
  list ends when the stream reports that it is done.
\<close>

datatype stream_item = StreamEvent jval bool | StreamFailure go_error

record watch_environment =
  we_index :: AgentIndexService
  we_subscribe :: "string list \<Rightarrow> go_error + stream_item list"
  we_between :: "stream_item list \<Rightarrow> watch_state \<Rightarrow> watch_state"

text \<open>How it ends: over, or to be restarted at once for the agents of the last refresh.\<close>

datatype watch_end = WatchOver | WatchRestart "AgentIndexRecord list"

definition reset_count :: "unit watching" where
  "reset_count = modify_act (\<lambda>s. s\<lparr>wq_reconnectCount := 0\<rparr>)"

definition event_type :: "jval \<Rightarrow> string" where
  "event_type event = (case as_string (map_of (asRecord event) ''type'') of Some t \<Rightarrow> t | None \<Rightarrow> [])"

definition topology_event ::
    "watch_environment \<Rightarrow> HerdrSessionListEntry \<Rightarrow> jval \<Rightarrow> AgentIndexRecord list option watching" where
  "topology_event env entry event =
     bind_act (watch_refresh (we_index env) entry) (\<lambda>refreshed.
     bind_act (if event_type event = ''pane.closed'' \<and> \<not> closedHitsLivePane (asRecord event) refreshed
       then handleWatchEvent (we_index env) entry event else return_act ()) (\<lambda>_.
     bind_act (read_act wq_subscribed) (\<lambda>subscribed.
     return_act (if containsNewPaneID refreshed subscribed then Some refreshed else None))))"

definition watch_event ::
    "watch_environment \<Rightarrow> HerdrSessionListEntry \<Rightarrow> jval \<Rightarrow> AgentIndexRecord list option watching" where
  "watch_event env entry event =
     bind_act reset_count (\<lambda>_.
     if event_type event = ''pane.agent_status_changed''
     then bind_act (handleWatchEvent (we_index env) entry event) (\<lambda>_. return_act None)
     else if \<not> isTopologyEvent (event_type event) then return_act None
     else topology_event env entry event)"

fun watch_events :: "watch_environment \<Rightarrow> HerdrSessionListEntry \<Rightarrow> stream_item list \<Rightarrow> watch_end watching" where
  "watch_events env entry [] = return_act WatchOver"
| "watch_events env entry (StreamFailure e # items) = fail_act e"
| "watch_events env entry (StreamEvent event cancelled # items) =
     (if cancelled then return_act WatchOver
      else bind_act (watch_event env entry event) (\<lambda>restart.
        case restart of
          Some refreshed \<Rightarrow> return_act (WatchRestart refreshed)
        | None \<Rightarrow> bind_act (modify_act (we_between env items)) (\<lambda>_. watch_events env entry items)))"

definition watchOnce ::
    "watch_environment \<Rightarrow> HerdrSessionListEntry \<Rightarrow> AgentIndexRecord list option \<Rightarrow> bool \<Rightarrow> watch_end watching" where
  "watchOnce env entry restartAgents cancelled =
     bind_act (case restartAgents of Some live \<Rightarrow> return_act live | None \<Rightarrow> watch_refresh (we_index env) entry) (\<lambda>live.
     bind_act reset_count (\<lambda>_.
     if cancelled then return_act WatchOver
     else bind_act (modify_act (\<lambda>s. s\<lparr>wq_subscribed := paneIDsOf live\<rparr>)) (\<lambda>_.
       case we_subscribe env (paneIDsOf live) of
         Inl e \<Rightarrow> fail_act e
       | Inr items \<Rightarrow> watch_events env entry items)))"

text \<open>
  What the loop does after a subscription: nothing more when the watcher is aborted (\<open>None\<close>), else it
  replaces the client and rests for that many milliseconds; the count is that of the failures in a row.
\<close>

definition after_round :: "int \<Rightarrow> bool \<Rightarrow> bool \<Rightarrow> bool \<Rightarrow> nat \<Rightarrow> (nat \<times> int) option" where
  "after_round reconnectDelayMs failed aborted restart reconnectCount =
     (if failed \<and> \<not> aborted \<and> \<not> restart
      then Some (reconnectCount + 1, reconnect_delay reconnectDelayMs (reconnectCount + 1))
      else if aborted then None
      else if restart then Some (0, 0)
      else Some (0, reconnectDelayMs))"

end
