(* ===== verification/WatchManager.thy ===== *)
theory WatchManager
  imports WatchLoop ScanStores
begin

text \<open>
  The life of the watchers of \<open>go/internal/daemon/herdr_session_watch_manager.go\<close>: one watch loop per
  running Herdr session, replaced by every rescan and retired at shutdown. What happens under the mutex
  at once is a function on the state; the loops, the one rescan in progress, the scheduler and the
  shutdown interleave as a step relation. Watchers and socket clients are numbers; \<open>wm_open\<close> are the
  clients that are connected, and \<open>wm_late\<close> only records which were installed in a watcher that was already
  aborted. A rescan runs in \<open>Start\<close> or in a tick, of which there is one at a time.
\<close>

subsection \<open>The state\<close>

text \<open>
  A loop is at its condition, inside a subscription (has it been asked to restart?), about to dial a new
  client and rest for a while, has dialled one, rests, or has ended.
\<close>

datatype loop_pc = LoopTop | Subscribed bool | Dialling int | Dialled nat int | Resting | LoopDone

record watchSession =
  wt_entry :: HerdrSessionListEntry
  wt_generation :: nat
  wt_aborted :: bool
  wt_client :: nat
  wt_reconnectCount :: nat
  wt_pc :: loop_pc

text \<open>
  A rescan waits for the session list, has it, waits for the loops it has retired; it is at the next
  session, has checked that it may go on, waits for the loop of the watcher it replaces; starts a
  watcher, is about to dial its client, has dialled it, has just started it, or waits for the loop of
  one it had to give up. It ends well or with an error.
\<close>

type_synonym entries = "HerdrSessionListEntry list"

datatype scan_pc =
  NoScan | ScanEnded bool | Listing nat | Listed nat entries | AwaitRetired nat entries "nat list"
| NextEntry nat entries | Checked nat HerdrSessionListEntry entries
| AwaitReplaced nat HerdrSessionListEntry entries nat | StartEntry nat HerdrSessionListEntry entries
| StartDial nat HerdrSessionListEntry entries | StartDialled nat HerdrSessionListEntry entries nat
| Started nat entries nat | AwaitGivenUp nat entries nat

text \<open>Who has the rescan done: \<open>Start\<close> with its generation, or a tick.\<close>

datatype scan_caller = Nobody | Starting nat | Ticking

record HerdrSessionWatchManager =
  wm_generation :: nat
  wm_stopping :: bool
  wm_watchers :: "(string \<times> nat) list"
  wm_retiring :: "nat set"
  wm_sessions :: "nat \<rightharpoonup> watchSession"
  wm_open :: "nat set"
  wm_dialled :: nat
  wm_scheduler :: bool
  wm_caller :: scan_caller
  wm_lastFullRescan :: int
  wm_scan :: scan_pc
  wm_aborting :: bool
  wm_late :: "nat set"
  wm_world :: world

definition NewHerdrSessionWatchManager :: "world \<Rightarrow> HerdrSessionWatchManager" where
  "NewHerdrSessionWatchManager w =
     \<lparr>wm_generation = 0, wm_stopping = False, wm_watchers = [], wm_retiring = {}, wm_sessions = Map.empty,
      wm_open = {}, wm_dialled = 0, wm_scheduler = False, wm_caller = Nobody, wm_lastFullRescan = 0,
      wm_scan = NoScan, wm_aborting = False, wm_late = {}, wm_world = w\<rparr>"

subsection \<open>What happens under the mutex\<close>

definition isStopping :: "nat \<Rightarrow> HerdrSessionWatchManager \<Rightarrow> bool" where
  "isStopping generation m \<longleftrightarrow> wm_stopping m \<or> generation \<noteq> wm_generation m"

definition without :: "string \<Rightarrow> (string \<times> nat) list \<Rightarrow> (string \<times> nat) list" where
  "without name watchers = filter (\<lambda>(n, w). n \<noteq> name) watchers"

definition abort_watcher :: "nat \<Rightarrow> HerdrSessionWatchManager \<Rightarrow> HerdrSessionWatchManager" where
  "abort_watcher w m =
     (case wm_sessions m w of None \<Rightarrow> m
      | Some s \<Rightarrow> m\<lparr>wm_sessions := (wm_sessions m)(w \<mapsto> s\<lparr>wt_aborted := True\<rparr>), wm_open := wm_open m - {wt_client s}\<rparr>)"

definition drop_watcher :: "string \<Rightarrow> nat \<Rightarrow> HerdrSessionWatchManager \<Rightarrow> HerdrSessionWatchManager" where
  "drop_watcher name w m =
     (if map_of (wm_watchers m) name = Some w then m\<lparr>wm_watchers := without name (wm_watchers m)\<rparr> else m)"

definition retireWatcherLocked :: "string \<Rightarrow> nat \<Rightarrow> HerdrSessionWatchManager \<Rightarrow> HerdrSessionWatchManager" where
  "retireWatcherLocked name w m =
     (let m = abort_watcher w (drop_watcher name w m) in m\<lparr>wm_retiring := insert w (wm_retiring m)\<rparr>)"

definition retire_all :: "(string \<times> nat) list \<Rightarrow> HerdrSessionWatchManager \<Rightarrow> HerdrSessionWatchManager" where
  "retire_all watchers m = foldl (\<lambda>m (name, w). retireWatcherLocked name w m) m watchers"

definition abortWatchers :: "HerdrSessionWatchManager \<Rightarrow> HerdrSessionWatchManager" where
  "abortWatchers m = retire_all (wm_watchers m) m"

text \<open>\<open>beginShutdown\<close>: the first section, and the retirement of all watchers behind it.\<close>

definition mark_stopping :: "HerdrSessionWatchManager \<Rightarrow> HerdrSessionWatchManager" where
  "mark_stopping m =
     m\<lparr>wm_stopping := True, wm_generation := wm_generation m + 1, wm_scheduler := False, wm_aborting := True\<rparr>"

definition finish_shutdown :: "HerdrSessionWatchManager \<Rightarrow> HerdrSessionWatchManager" where
  "finish_shutdown m = abortWatchers (m\<lparr>wm_aborting := False\<rparr>)"

text \<open>\<open>replaceClient\<close> behind its dialling: the new client takes the place of the old one.\<close>

definition replaceClient :: "nat \<Rightarrow> nat \<Rightarrow> HerdrSessionWatchManager \<Rightarrow> HerdrSessionWatchManager" where
  "replaceClient w client m =
     (case wm_sessions m w of None \<Rightarrow> m
      | Some s \<Rightarrow> m\<lparr>wm_open := wm_open m - {wt_client s},
          wm_sessions := (wm_sessions m)(w \<mapsto> s\<lparr>wt_client := client\<rparr>),
          wm_late := (if wt_aborted s then insert client (wm_late m) else wm_late m)\<rparr>)"

definition dial :: "HerdrSessionWatchManager \<Rightarrow> nat \<times> HerdrSessionWatchManager" where
  "dial m = (wm_dialled m, m\<lparr>wm_dialled := wm_dialled m + 1, wm_open := insert (wm_dialled m) (wm_open m)\<rparr>)"

definition set_loop :: "nat \<Rightarrow> loop_pc \<Rightarrow> HerdrSessionWatchManager \<Rightarrow> HerdrSessionWatchManager" where
  "set_loop w pc m =
     (case wm_sessions m w of None \<Rightarrow> m
      | Some s \<Rightarrow> m\<lparr>wm_sessions := (wm_sessions m)(w \<mapsto> s\<lparr>wt_pc := pc\<rparr>)\<rparr>)"

definition set_count :: "nat \<Rightarrow> nat \<Rightarrow> HerdrSessionWatchManager \<Rightarrow> HerdrSessionWatchManager" where
  "set_count w n m =
     (case wm_sessions m w of None \<Rightarrow> m
      | Some s \<Rightarrow> m\<lparr>wm_sessions := (wm_sessions m)(w \<mapsto> s\<lparr>wt_reconnectCount := n\<rparr>)\<rparr>)"

definition loop_ended :: "HerdrSessionWatchManager \<Rightarrow> nat \<Rightarrow> bool" where
  "loop_ended m w \<longleftrightarrow> (case wm_sessions m w of None \<Rightarrow> True | Some s \<Rightarrow> wt_pc s = LoopDone)"

subsection \<open>The sections of a rescan\<close>

definition running_entries :: "entries \<Rightarrow> entries" where
  "running_entries sessions = filter hse_Running sessions"

definition retire_missing :: "entries \<Rightarrow> HerdrSessionWatchManager \<Rightarrow> nat list \<times> HerdrSessionWatchManager" where
  "retire_missing running m =
     (let gone = filter (\<lambda>(name, w). name \<notin> hse_Name ` set running) (wm_watchers m)
      in (map snd gone, retire_all gone m))"

definition start_section :: "HerdrSessionWatchManager \<Rightarrow> HerdrSessionWatchManager" where
  "start_section m =
     (let generation = wm_generation m + 1
      in m\<lparr>wm_stopping := False, wm_generation := generation, wm_caller := Starting generation, wm_scan := Listing generation\<rparr>)"

definition start_watcher :: "nat \<Rightarrow> HerdrSessionListEntry \<Rightarrow> entries \<Rightarrow> nat \<Rightarrow> nat \<Rightarrow> HerdrSessionWatchManager \<Rightarrow> HerdrSessionWatchManager" where
  "start_watcher generation entry rest client w m =
     m\<lparr>wm_sessions := (wm_sessions m)(w \<mapsto> \<lparr>wt_entry = entry, wt_generation = generation, wt_aborted = False,
         wt_client = client, wt_reconnectCount = 0, wt_pc = LoopTop\<rparr>),
       wm_watchers := (hse_Name entry, w) # without (hse_Name entry) (wm_watchers m),
       wm_scan := Started generation rest w\<rparr>"

definition give_up :: "nat \<Rightarrow> entries \<Rightarrow> nat \<Rightarrow> HerdrSessionWatchManager \<Rightarrow> HerdrSessionWatchManager" where
  "give_up generation rest w m =
     (case wm_sessions m w of None \<Rightarrow> m
      | Some s \<Rightarrow> (abort_watcher w (drop_watcher (hse_Name (wt_entry s)) w m))\<lparr>wm_scan := AwaitGivenUp generation rest w\<rparr>)"

definition finish_rescan :: "nat \<Rightarrow> int \<Rightarrow> HerdrSessionWatchManager \<Rightarrow> HerdrSessionWatchManager" where
  "finish_rescan generation now m =
     (if \<not> isStopping generation m then m\<lparr>wm_lastFullRescan := now, wm_scan := ScanEnded True\<rparr>
      else m\<lparr>wm_scan := ScanEnded True\<rparr>)"

definition finish_start :: "nat \<Rightarrow> bool \<Rightarrow> HerdrSessionWatchManager \<Rightarrow> HerdrSessionWatchManager" where
  "finish_start generation ok m =
     m\<lparr>wm_caller := Nobody, wm_scan := NoScan,
       wm_scheduler := wm_scheduler m \<or> (ok \<and> \<not> isStopping generation m)\<rparr>"

definition scheduleTick :: "HerdrSessionWatchManager \<Rightarrow> HerdrSessionWatchManager" where
  "scheduleTick m = (if wm_caller m = Ticking then m else m\<lparr>wm_caller := Ticking\<rparr>)"

definition rescan_due :: "int \<Rightarrow> HerdrSessionWatchManager \<Rightarrow> bool" where
  "rescan_due now m \<longleftrightarrow> FullRescanMs \<le> now - wm_lastFullRescan m"

definition has_working :: "AgentIndexRecord list \<Rightarrow> bool" where
  "has_working indexed \<longleftrightarrow> list_ex (\<lambda>agent. a_AgentStatus agent = AgentStatusWorking) indexed"

subsection \<open>The goroutines\<close>

text \<open>
  The steps of one loop. Only \<open>after_round\<close> tells a failed subscription from one that is over; a dialling
  that fails ends the loop.
\<close>

inductive loop_step :: "int \<Rightarrow> nat \<Rightarrow> HerdrSessionWatchManager \<Rightarrow> HerdrSessionWatchManager \<Rightarrow> bool" for reconnectDelayMs w where
  leave: "wm_sessions m w = Some s \<Longrightarrow> wt_pc s = LoopTop \<Longrightarrow> wt_aborted s \<or> isStopping (wt_generation s) m \<Longrightarrow>
    loop_step reconnectDelayMs w m (set_loop w LoopDone m)"
| enter: "wm_sessions m w = Some s \<Longrightarrow> wt_pc s = LoopTop \<Longrightarrow> \<not> wt_aborted s \<Longrightarrow> \<not> isStopping (wt_generation s) m \<Longrightarrow>
    loop_step reconnectDelayMs w m (set_loop w (Subscribed False) m)"
| round_ended: "wm_sessions m w = Some s \<Longrightarrow> wt_pc s = Subscribed restart \<Longrightarrow>
    after_round reconnectDelayMs failed (wt_aborted s) restart count = None \<Longrightarrow>
    loop_step reconnectDelayMs w m (set_loop w LoopDone m)"
| again: "wm_sessions m w = Some s \<Longrightarrow> wt_pc s = Subscribed restart \<Longrightarrow> count = 0 \<or> count = wt_reconnectCount s \<Longrightarrow>
    after_round reconnectDelayMs failed (wt_aborted s) restart count = Some (count', delay) \<Longrightarrow>
    loop_step reconnectDelayMs w m (set_loop w (Dialling delay) (set_count w count' m))"
| dialled: "wm_sessions m w = Some s \<Longrightarrow> wt_pc s = Dialling delay \<Longrightarrow> dial m = (client, m') \<Longrightarrow>
    loop_step reconnectDelayMs w m (set_loop w (Dialled client delay) m')"
| dial_failed: "wm_sessions m w = Some s \<Longrightarrow> wt_pc s = Dialling delay \<Longrightarrow>
    loop_step reconnectDelayMs w m (set_loop w LoopDone m)"
| replaced: "wm_sessions m w = Some s \<Longrightarrow> wt_pc s = Dialled client delay \<Longrightarrow>
    loop_step reconnectDelayMs w m (set_loop w (if 0 < delay then Resting else LoopTop) (replaceClient w client m))"
| rested: "wm_sessions m w = Some s \<Longrightarrow> wt_pc s = Resting \<Longrightarrow>
    loop_step reconnectDelayMs w m (set_loop w LoopTop m)"

text \<open>The steps of the rescan; an error of the list, of the store or of the dialling ends it.\<close>

inductive scan_step :: "HerdrSessionWatchManager \<Rightarrow> HerdrSessionWatchManager \<Rightarrow> bool" where
  list_failed: "wm_scan m = Listing g \<Longrightarrow> scan_step m (m\<lparr>wm_scan := ScanEnded False\<rparr>)"
| listed: "wm_scan m = Listing g \<Longrightarrow>
    scan_step m (m\<lparr>wm_scan := if isStopping g m then ScanEnded True else Listed g (running_entries sessions)\<rparr>)"
| retired: "wm_scan m = Listed g running \<Longrightarrow> retire_missing running m = (loops, m') \<Longrightarrow>
    scan_step m (m'\<lparr>wm_scan := AwaitRetired g running loops\<rparr>)"
| awaited_stop: "wm_scan m = AwaitRetired g running loops \<Longrightarrow> list_all (loop_ended m) loops \<Longrightarrow> isStopping g m \<Longrightarrow>
    scan_step m (m\<lparr>wm_scan := ScanEnded True\<rparr>)"
| marked: "wm_scan m = AwaitRetired g running loops \<Longrightarrow> list_all (loop_ended m) loops \<Longrightarrow> \<not> isStopping g m \<Longrightarrow>
    MarkStoppedMissingFrom (remdups (map hse_Name running)) (wm_world m) = (r, world') \<Longrightarrow>
    scan_step m (m\<lparr>wm_world := world', wm_scan := case r of Inl e \<Rightarrow> ScanEnded False | Inr _ \<Rightarrow> NextEntry g running\<rparr>)"
| finished: "wm_scan m = NextEntry g [] \<Longrightarrow> scan_step m (finish_rescan g now m)"
| next_stop: "wm_scan m = NextEntry g (entry # rest) \<Longrightarrow> isStopping g m \<Longrightarrow> scan_step m (m\<lparr>wm_scan := ScanEnded True\<rparr>)"
| next_entry: "wm_scan m = NextEntry g (entry # rest) \<Longrightarrow> \<not> isStopping g m \<Longrightarrow> scan_step m (m\<lparr>wm_scan := Checked g entry rest\<rparr>)"
| retire_existing: "wm_scan m = Checked g entry rest \<Longrightarrow> map_of (wm_watchers m) (hse_Name entry) = Some w \<Longrightarrow>
    scan_step m ((retireWatcherLocked (hse_Name entry) w m)\<lparr>wm_scan := AwaitReplaced g entry rest w\<rparr>)"
| no_existing: "wm_scan m = Checked g entry rest \<Longrightarrow> map_of (wm_watchers m) (hse_Name entry) = None \<Longrightarrow>
    scan_step m (m\<lparr>wm_scan := StartEntry g entry rest\<rparr>)"
| awaited_existing: "wm_scan m = AwaitReplaced g entry rest w \<Longrightarrow> loop_ended m w \<Longrightarrow>
    scan_step m (m\<lparr>wm_scan := StartEntry g entry rest\<rparr>)"
| start_refused: "wm_scan m = StartEntry g entry rest \<Longrightarrow> isStopping g m \<Longrightarrow> scan_step m (m\<lparr>wm_scan := NextEntry g rest\<rparr>)"
| upserted: "wm_scan m = StartEntry g entry rest \<Longrightarrow> \<not> isStopping g m \<Longrightarrow>
    UpsertRunning (hse_Name entry) (hse_SessionDir entry) (hse_SocketPath entry) (wm_world m) = (r, world') \<Longrightarrow>
    scan_step m (m\<lparr>wm_world := world', wm_scan := case r of Inl e \<Rightarrow> ScanEnded False | Inr _ \<Rightarrow> StartDial g entry rest\<rparr>)"
| start_dial_failed: "wm_scan m = StartDial g entry rest \<Longrightarrow> scan_step m (m\<lparr>wm_scan := ScanEnded False\<rparr>)"
| start_dialled: "wm_scan m = StartDial g entry rest \<Longrightarrow> dial m = (client, m') \<Longrightarrow>
    scan_step m (m'\<lparr>wm_scan := StartDialled g entry rest client\<rparr>)"
| started: "wm_scan m = StartDialled g entry rest client \<Longrightarrow> wm_sessions m w = None \<Longrightarrow>
    scan_step m (start_watcher g entry rest client w m)"
| kept: "wm_scan m = Started g rest w \<Longrightarrow> \<not> isStopping g m \<Longrightarrow> scan_step m (m\<lparr>wm_scan := NextEntry g rest\<rparr>)"
| given_up: "wm_scan m = Started g rest w \<Longrightarrow> isStopping g m \<Longrightarrow> scan_step m (give_up g rest w m)"
| given_up_ended: "wm_scan m = AwaitGivenUp g rest w \<Longrightarrow> loop_ended m w \<Longrightarrow> scan_step m (m\<lparr>wm_scan := NextEntry g rest\<rparr>)"

text \<open>
  Everything else: \<open>Start\<close> and what follows its rescan, the ticks of the scheduler, a restart a tick asks
  for, the shutdown in its two sections, the last retirement of \<open>Stop\<close>, the removal of a loop that has
  ended, and what others do to the store.
\<close>

inductive watch_step :: "int \<Rightarrow> HerdrSessionWatchManager \<Rightarrow> HerdrSessionWatchManager \<Rightarrow> bool" for reconnectDelayMs where
  loop: "loop_step reconnectDelayMs w m m' \<Longrightarrow> watch_step reconnectDelayMs m m'"
| scan: "scan_step m m' \<Longrightarrow> watch_step reconnectDelayMs m m'"
| start: "wm_caller m = Nobody \<Longrightarrow> wm_scan m = NoScan \<Longrightarrow> watch_step reconnectDelayMs m (start_section m)"
| start_returns: "wm_caller m = Starting g \<Longrightarrow> wm_scan m = ScanEnded ok \<Longrightarrow> watch_step reconnectDelayMs m (finish_start g ok m)"
| tick: "wm_caller m = Nobody \<Longrightarrow> wm_scheduler m \<Longrightarrow> watch_step reconnectDelayMs m (scheduleTick m)"
| tick_rescan: "wm_caller m = Ticking \<Longrightarrow> wm_scan m = NoScan \<Longrightarrow> rescan_due now m \<Longrightarrow>
    watch_step reconnectDelayMs m (m\<lparr>wm_scan := Listing (wm_generation m)\<rparr>)"
| tick_ends: "wm_caller m = Ticking \<Longrightarrow> wm_scan m = NoScan \<or> wm_scan m = ScanEnded ok \<Longrightarrow>
    watch_step reconnectDelayMs m (m\<lparr>wm_caller := Nobody, wm_scan := NoScan\<rparr>)"
| restart: "wm_sessions m w = Some s \<Longrightarrow> wt_pc s = Subscribed r \<Longrightarrow> watch_step reconnectDelayMs m (set_loop w (Subscribed True) m)"
| shutdown: "watch_step reconnectDelayMs m (mark_stopping m)"
| shutdown_aborts: "wm_aborting m \<Longrightarrow> watch_step reconnectDelayMs m (finish_shutdown m)"
| stop_aborts: "wm_stopping m \<Longrightarrow> watch_step reconnectDelayMs m (abortWatchers m)"
| reaped: "w \<in> wm_retiring m \<Longrightarrow> loop_ended m w \<Longrightarrow> watch_step reconnectDelayMs m (m\<lparr>wm_retiring := wm_retiring m - {w}\<rparr>)"
| others: "watch_step reconnectDelayMs m (m\<lparr>wm_world := world'\<rparr>)"

inductive watch_run :: "int \<Rightarrow> HerdrSessionWatchManager \<Rightarrow> bool" for reconnectDelayMs where
  fresh: "watch_run reconnectDelayMs (NewHerdrSessionWatchManager world)"
| stepped: "watch_run reconnectDelayMs m \<Longrightarrow> watch_step reconnectDelayMs m m' \<Longrightarrow> watch_run reconnectDelayMs m'"

end
