(* ===== verification/WatchLaws.thy ===== *)
theory WatchLaws
  imports WatchManager Samples
begin

text \<open>
  The properties of the watch manager: a session has one watcher, a retired loop ends, a shutdown leaves
  no watcher behind and only the clients that were dialled too late, and what the backoff amounts to.
\<close>

subsection \<open>The sections, seen from outside\<close>

lemma abort_watcher_simps [simp]:
  "wm_watchers (abort_watcher w m) = wm_watchers m" "wm_scan (abort_watcher w m) = wm_scan m"
  "wm_stopping (abort_watcher w m) = wm_stopping m" "wm_aborting (abort_watcher w m) = wm_aborting m"
  "wm_late (abort_watcher w m) = wm_late m" "wm_generation (abort_watcher w m) = wm_generation m"
  by (simp_all add: abort_watcher_def split: option.split)

lemma drop_watcher_simps [simp]:
  "wm_sessions (drop_watcher name w m) = wm_sessions m" "wm_scan (drop_watcher name w m) = wm_scan m"
  "wm_stopping (drop_watcher name w m) = wm_stopping m" "wm_aborting (drop_watcher name w m) = wm_aborting m"
  "wm_late (drop_watcher name w m) = wm_late m" "wm_open (drop_watcher name w m) = wm_open m"
  "wm_generation (drop_watcher name w m) = wm_generation m"
  by (simp_all add: drop_watcher_def)

lemma retire_simps [simp]:
  "wm_scan (retireWatcherLocked name w m) = wm_scan m" "wm_stopping (retireWatcherLocked name w m) = wm_stopping m"
  "wm_aborting (retireWatcherLocked name w m) = wm_aborting m" "wm_generation (retireWatcherLocked name w m) = wm_generation m"
  by (simp_all add: retireWatcherLocked_def Let_def)

lemma retire_all_simps [simp]:
  "wm_scan (retire_all ws m) = wm_scan m" "wm_stopping (retire_all ws m) = wm_stopping m"
  "wm_aborting (retire_all ws m) = wm_aborting m" "wm_generation (retire_all ws m) = wm_generation m"
  unfolding retire_all_def by (induction ws arbitrary: m) (auto split: prod.split)

lemma set_loop_simps [simp]:
  "wm_watchers (set_loop w pc m) = wm_watchers m" "wm_scan (set_loop w pc m) = wm_scan m"
  "wm_stopping (set_loop w pc m) = wm_stopping m" "wm_aborting (set_loop w pc m) = wm_aborting m"
  "wm_late (set_loop w pc m) = wm_late m" "wm_open (set_loop w pc m) = wm_open m"
  by (simp_all add: set_loop_def split: option.split)

lemma set_count_simps [simp]:
  "wm_watchers (set_count w n m) = wm_watchers m" "wm_scan (set_count w n m) = wm_scan m"
  "wm_stopping (set_count w n m) = wm_stopping m" "wm_aborting (set_count w n m) = wm_aborting m"
  "wm_late (set_count w n m) = wm_late m" "wm_open (set_count w n m) = wm_open m"
  by (simp_all add: set_count_def split: option.split)

lemma replaceClient_simps [simp]:
  "wm_watchers (replaceClient w c m) = wm_watchers m" "wm_scan (replaceClient w c m) = wm_scan m"
  "wm_stopping (replaceClient w c m) = wm_stopping m" "wm_aborting (replaceClient w c m) = wm_aborting m"
  by (simp_all add: replaceClient_def split: option.split)

subsection \<open>The invariant\<close>

text \<open>The watchers in the map are exactly those that are not aborted, each under the name of its session.\<close>

definition live_session :: "HerdrSessionWatchManager \<Rightarrow> nat \<Rightarrow> watchSession \<Rightarrow> bool" where
  "live_session m w s \<longleftrightarrow> wm_sessions m w = Some s \<and> \<not> wt_aborted s"

definition watchers_ok :: "HerdrSessionWatchManager \<Rightarrow> bool" where
  "watchers_ok m \<longleftrightarrow> distinct (map fst (wm_watchers m))
     \<and> (\<forall>name w. (name, w) \<in> set (wm_watchers m)
          \<longleftrightarrow> (\<exists>s. live_session m w s \<and> hse_Name (wt_entry s) = name))"

text \<open>Who answers for an open client: its watcher, a loop or the rescan that has just dialled it, or nobody.\<close>

fun scan_client :: "scan_pc \<Rightarrow> nat option" where
  "scan_client (StartDialled g entry rest client) = Some client"
| "scan_client pc = None"

definition answered :: "HerdrSessionWatchManager \<Rightarrow> nat \<Rightarrow> bool" where
  "answered m c \<longleftrightarrow> c \<in> wm_late m \<or> (\<exists>w s. live_session m w s \<and> wt_client s = c)
     \<or> (\<exists>w s delay. wm_sessions m w = Some s \<and> wt_pc s = Dialled c delay) \<or> scan_client (wm_scan m) = Some c"

definition clients_ok :: "HerdrSessionWatchManager \<Rightarrow> bool" where
  "clients_ok m \<longleftrightarrow> (\<forall>c \<in> wm_open m. answered m c)"

fun scan_entry :: "scan_pc \<Rightarrow> string option" where
  "scan_entry (StartEntry g entry rest) = Some (hse_Name entry)"
| "scan_entry (StartDial g entry rest) = Some (hse_Name entry)"
| "scan_entry (StartDialled g entry rest client) = Some (hse_Name entry)"
| "scan_entry (AwaitReplaced g entry rest w) = Some (hse_Name entry)"
| "scan_entry pc = None"

fun scan_watcher :: "scan_pc \<Rightarrow> nat option" where
  "scan_watcher (Started g rest w) = Some w"
| "scan_watcher pc = None"

definition scan_ok :: "HerdrSessionWatchManager \<Rightarrow> bool" where
  "scan_ok m \<longleftrightarrow> (\<forall>name. scan_entry (wm_scan m) = Some name \<longrightarrow> name \<notin> fst ` set (wm_watchers m))
     \<and> (wm_stopping m \<and> \<not> wm_aborting m \<longrightarrow>
          (\<forall>(name, w) \<in> set (wm_watchers m). scan_watcher (wm_scan m) = Some w))"

definition watch_ok :: "HerdrSessionWatchManager \<Rightarrow> bool" where
  "watch_ok m \<longleftrightarrow> watchers_ok m \<and> clients_ok m \<and> scan_ok m"

lemma map_of_watcher:
  assumes "watchers_ok m"
  shows "map_of (wm_watchers m) name = Some w \<longleftrightarrow> (name, w) \<in> set (wm_watchers m)"
  using assms by (simp add: watchers_ok_def)

lemma one_name:
  assumes "watchers_ok m" "live_session m w s" "live_session m v r" "hse_Name (wt_entry s) = hse_Name (wt_entry r)"
  shows "w = v"
proof -
  have "(hse_Name (wt_entry s), w) \<in> set (wm_watchers m)" "(hse_Name (wt_entry s), v) \<in> set (wm_watchers m)"
    using assms by (auto simp: watchers_ok_def)
  then show ?thesis using assms(1) by (auto simp: watchers_ok_def dest: eq_key_imp_eq_value)
qed

text \<open>Steps that leave the aborted flags and the names alone.\<close>

lemma registry_cong:
  assumes "watchers_ok m" "wm_watchers m' = wm_watchers m"
    and "\<And>w. map_option (\<lambda>s. (wt_aborted s, hse_Name (wt_entry s))) (wm_sessions m' w)
            = map_option (\<lambda>s. (wt_aborted s, hse_Name (wt_entry s))) (wm_sessions m w)"
  shows "watchers_ok m'"
proof -
  have "(\<exists>s. live_session m' w s \<and> hse_Name (wt_entry s) = name) \<longleftrightarrow> (\<exists>s. live_session m w s \<and> hse_Name (wt_entry s) = name)"
    for w name using assms(3) [of w] by (cases "wm_sessions m w"; cases "wm_sessions m' w") (auto simp: live_session_def)
  then show ?thesis using assms(1,2) by (simp add: watchers_ok_def)
qed

text \<open>Taking one watcher out of the map and aborting it, by whatever section.\<close>

definition taken_out :: "nat \<Rightarrow> HerdrSessionWatchManager \<Rightarrow> HerdrSessionWatchManager \<Rightarrow> bool" where
  "taken_out w m m' \<longleftrightarrow> wm_watchers m' = filter (\<lambda>(n, v). v \<noteq> w) (wm_watchers m)
     \<and> (\<forall>v. v \<noteq> w \<longrightarrow> wm_sessions m' v = wm_sessions m v)
     \<and> wm_sessions m' w = map_option (\<lambda>s. s\<lparr>wt_aborted := True\<rparr>) (wm_sessions m w)
     \<and> wm_open m' = wm_open m - {c. \<exists>s. wm_sessions m w = Some s \<and> wt_client s = c} \<and> wm_late m' = wm_late m"

lemma taken_out_registry:
  assumes "watchers_ok m" "taken_out w m m'"
  shows "watchers_ok m'"
proof -
  have "live_session m' v s \<longleftrightarrow> v \<noteq> w \<and> live_session m v s" for v s
    using assms(2) by (cases "v = w") (auto simp: taken_out_def live_session_def)
  then show ?thesis using assms by (auto simp: watchers_ok_def taken_out_def distinct_map_filter)
qed

lemma taken_out_clients:
  assumes ok: "clients_ok m" and t: "taken_out w m m'" and scan: "scan_client (wm_scan m') = scan_client (wm_scan m)"
  shows "clients_ok m'"
  unfolding clients_ok_def
proof
  fix c assume c: "c \<in> wm_open m'"
  then have not: "wm_sessions m w = Some s \<Longrightarrow> wt_client s \<noteq> c" for s using t by (auto simp: taken_out_def)
  from c t ok have "answered m c" by (auto simp: taken_out_def clients_ok_def)
  then show "answered m' c"
    unfolding answered_def
  proof (elim disjE exE conjE)
    fix v s assume "live_session m v s" "wt_client s = c"
    moreover from this not have "v \<noteq> w" by (auto simp: live_session_def)
    ultimately have "live_session m' v s" using t by (auto simp: taken_out_def live_session_def)
    with \<open>wt_client s = c\<close> show "c \<in> wm_late m' \<or> (\<exists>w s. live_session m' w s \<and> wt_client s = c)
      \<or> (\<exists>w s delay. wm_sessions m' w = Some s \<and> wt_pc s = Dialled c delay) \<or> scan_client (wm_scan m') = Some c" by blast
  next
    fix v s delay assume "wm_sessions m v = Some s" "wt_pc s = Dialled c delay"
    then have "\<exists>s. wm_sessions m' v = Some s \<and> wt_pc s = Dialled c delay"
      using t by (cases "v = w") (auto simp: taken_out_def)
    then show "c \<in> wm_late m' \<or> (\<exists>w s. live_session m' w s \<and> wt_client s = c)
      \<or> (\<exists>w s delay. wm_sessions m' w = Some s \<and> wt_pc s = Dialled c delay) \<or> scan_client (wm_scan m') = Some c" by blast
  qed (use t scan in \<open>auto simp: taken_out_def\<close>)
qed

lemma without_watcher:
  assumes "watchers_ok m" "(name, w) \<in> set (wm_watchers m)"
  shows "without name (wm_watchers m) = filter (\<lambda>(n, v). v \<noteq> w) (wm_watchers m)"
  unfolding without_def
proof (rule filter_cong [OF refl])
  fix x assume x: "x \<in> set (wm_watchers m)"
  obtain n v where [simp]: "x = (n, v)" by force
  from x assms obtain s r where s: "live_session m v s" "hse_Name (wt_entry s) = n"
    and r: "live_session m w r" "hse_Name (wt_entry r) = name" by (auto simp: watchers_ok_def)
  then have "n = name \<longleftrightarrow> v = w" using one_name [OF assms(1)] by (auto simp: live_session_def)
  then show "(case x of (n, w) \<Rightarrow> n \<noteq> name) = (case x of (n, v) \<Rightarrow> v \<noteq> w)" by simp
qed

lemma retire_taken_out:
  assumes "watchers_ok m" "(name, w) \<in> set (wm_watchers m)"
  shows "taken_out w m (retireWatcherLocked name w m)" "taken_out w m (abort_watcher w (drop_watcher name w m))"
proof -
  have "map_of (wm_watchers m) name = Some w" using assms by (simp add: map_of_watcher)
  then have "taken_out w m (abort_watcher w (drop_watcher name w m))"
    using without_watcher [OF assms] by (auto simp: taken_out_def abort_watcher_def drop_watcher_def split: option.split)
  then show "taken_out w m (retireWatcherLocked name w m)" "taken_out w m (abort_watcher w (drop_watcher name w m))"
    by (simp_all add: retireWatcherLocked_def Let_def taken_out_def)
qed

text \<open>Retiring a part of the watchers keeps what holds of the state, and leaves the others.\<close>

lemma retire_all_ok:
  assumes "watchers_ok m" "clients_ok m" "set ws \<subseteq> set (wm_watchers m)" "distinct ws"
  shows "watchers_ok (retire_all ws m)" "clients_ok (retire_all ws m)"
    "wm_watchers (retire_all ws m) = filter (\<lambda>x. x \<notin> set ws) (wm_watchers m)" "wm_late (retire_all ws m) = wm_late m"
  using assms
proof (induction ws arbitrary: m)
  case Nil
  {
    case 1 then show ?case by (simp add: retire_all_def)
  next
    case 2 then show ?case by (simp add: retire_all_def)
  next
    case 3 then show ?case by (simp add: retire_all_def)
  next
    case 4 then show ?case by (simp add: retire_all_def)
  }
next
  case (Cons x ws)
  obtain name w where x: "x = (name, w)" by force
  let ?m = "retireWatcherLocked name w m"
  have all: "retire_all (x # ws) m = retire_all ws ?m" by (simp add: retire_all_def x)
  {
    fix m assume ok: "watchers_ok m" "clients_ok m" and sub: "set (x # ws) \<subseteq> set (wm_watchers m)" and d: "distinct (x # ws)"
    let ?m = "retireWatcherLocked name w m"
    have t: "taken_out w m ?m" using retire_taken_out(1) [OF ok(1)] sub x by simp
    have r: "watchers_ok ?m" by (rule taken_out_registry [OF ok(1) t])
    have c: "clients_ok ?m" by (rule taken_out_clients [OF ok(2) t]) simp
    have only: "(n, w) \<in> set (wm_watchers m) \<Longrightarrow> n = name" for n
      using ok(1) sub x by (auto simp: watchers_ok_def live_session_def)
    have ws: "wm_watchers ?m = filter (\<lambda>y. y \<noteq> x) (wm_watchers m)"
      using t only by (auto simp: taken_out_def x intro!: filter_cong)
    have "set ws \<subseteq> set (wm_watchers ?m)" using sub d ws by auto
    note Cons.IH [OF r c this] d
    moreover have "wm_late ?m = wm_late m" using t by (simp add: taken_out_def)
    ultimately have "watchers_ok (retire_all ws ?m) \<and> clients_ok (retire_all ws ?m)
      \<and> wm_watchers (retire_all ws ?m) = filter (\<lambda>y. y \<notin> set (x # ws)) (wm_watchers m) \<and> wm_late (retire_all ws ?m) = wm_late m"
      using ws by (auto simp: conj_commute intro!: filter_cong)
  }
  note step = this
  {
    case 1 then show ?case using step all by (simp add: retire_all_def x)
  next
    case 2 then show ?case using step all by (simp add: retire_all_def x)
  next
    case 3 then show ?case using step by (simp add: retire_all_def x)
  next
    case 4 then show ?case using step by (simp add: retire_all_def x)
  }
qed

subsection \<open>The loops keep the invariant\<close>

lemma answered_mono:
  assumes "answered m c" "wm_late m \<subseteq> wm_late m'" "scan_client (wm_scan m') = scan_client (wm_scan m)"
    and "\<And>w s. live_session m w s \<Longrightarrow> wt_client s = c \<Longrightarrow> \<exists>s. live_session m' w s \<and> wt_client s = c"
    and "\<And>w s delay. wm_sessions m w = Some s \<Longrightarrow> wt_pc s = Dialled c delay \<Longrightarrow>
      \<exists>s delay. wm_sessions m' w = Some s \<and> wt_pc s = Dialled c delay"
  shows "answered m' c"
  using assms(1) unfolding answered_def
proof (elim disjE exE conjE)
  assume "c \<in> wm_late m"
  then show "c \<in> wm_late m' \<or> (\<exists>w s. live_session m' w s \<and> wt_client s = c)
      \<or> (\<exists>w s delay. wm_sessions m' w = Some s \<and> wt_pc s = Dialled c delay) \<or> scan_client (wm_scan m') = Some c"
    using assms(2) by blast
next
  fix w s assume "live_session m w s" "wt_client s = c"
  with assms(4) [of w s] show "c \<in> wm_late m' \<or> (\<exists>w s. live_session m' w s \<and> wt_client s = c)
      \<or> (\<exists>w s delay. wm_sessions m' w = Some s \<and> wt_pc s = Dialled c delay) \<or> scan_client (wm_scan m') = Some c" by blast
next
  fix w s delay assume "wm_sessions m w = Some s" "wt_pc s = Dialled c delay"
  with assms(5) [of w s delay] show "c \<in> wm_late m' \<or> (\<exists>w s. live_session m' w s \<and> wt_client s = c)
      \<or> (\<exists>w s delay. wm_sessions m' w = Some s \<and> wt_pc s = Dialled c delay) \<or> scan_client (wm_scan m') = Some c" by blast
next
  assume "scan_client (wm_scan m) = Some c"
  then show "c \<in> wm_late m' \<or> (\<exists>w s. live_session m' w s \<and> wt_client s = c)
      \<or> (\<exists>w s delay. wm_sessions m' w = Some s \<and> wt_pc s = Dialled c delay) \<or> scan_client (wm_scan m') = Some c"
    using assms(3) by simp
qed

lemma scan_ok_cong:
  assumes "scan_ok m" "wm_watchers m' = wm_watchers m" "wm_scan m' = wm_scan m"
    "wm_stopping m' = wm_stopping m" "wm_aborting m' = wm_aborting m"
  shows "scan_ok m'"
  using assms by (simp add: scan_ok_def)

lemma set_loop_registry [simp]: "watchers_ok m \<Longrightarrow> watchers_ok (set_loop w pc m)"
  by (erule registry_cong) (auto simp: set_loop_def split: option.split)

lemma set_count_registry [simp]: "watchers_ok m \<Longrightarrow> watchers_ok (set_count w n m)"
  by (erule registry_cong) (auto simp: set_count_def split: option.split)

lemma replaceClient_registry [simp]: "watchers_ok m \<Longrightarrow> watchers_ok (replaceClient w c m)"
  by (erule registry_cong) (auto simp: replaceClient_def split: option.split)

lemma set_loop_clients:
  assumes "clients_ok m" "wm_sessions m w = Some s" "\<forall>c delay. wt_pc s \<noteq> Dialled c delay"
  shows "clients_ok (set_loop w pc m)"
  unfolding clients_ok_def
proof
  fix c assume "c \<in> wm_open (set_loop w pc m)"
  then have "answered m c" using assms(1) by (simp add: clients_ok_def)
  then show "answered (set_loop w pc m) c"
    by (rule answered_mono) (use assms(2,3) in \<open>auto simp: set_loop_def live_session_def split: if_splits\<close>)
qed

lemma set_count_clients:
  assumes "clients_ok m"
  shows "clients_ok (set_count w n m)"
  unfolding clients_ok_def
proof
  fix c assume "c \<in> wm_open (set_count w n m)"
  then have "answered m c" using assms(1) by (simp add: clients_ok_def)
  then show "answered (set_count w n m) c"
    by (rule answered_mono) (auto simp: set_count_def live_session_def split: option.split)
qed

lemma dialled_clients:
  assumes "clients_ok m" "wm_sessions m w = Some s" "wt_pc s = Dialling delay" "dial m = (client, m')"
  shows "clients_ok (set_loop w (Dialled client delay) m')"
  unfolding clients_ok_def
proof
  have m': "m' = m\<lparr>wm_dialled := wm_dialled m + 1, wm_open := insert client (wm_open m)\<rparr>"
    using assms(4) by (auto simp: dial_def)
  fix c assume c: "c \<in> wm_open (set_loop w (Dialled client delay) m')"
  show "answered (set_loop w (Dialled client delay) m') c"
  proof (cases "c = client")
    case True
    then show ?thesis using assms(2) by (auto simp: answered_def set_loop_def m')
  next
    case False
    with c have "answered m c" using assms(1) by (simp add: clients_ok_def m')
    then show ?thesis
      by (rule answered_mono) (use assms(2,3) in \<open>auto simp: set_loop_def live_session_def m' split: if_splits\<close>)
  qed
qed

lemma replaced_clients:
  assumes "clients_ok m" "wm_sessions m w = Some s" "wt_pc s = Dialled client delay"
  shows "clients_ok (set_loop w pc (replaceClient w client m))"
  unfolding clients_ok_def
proof
  let ?m = "set_loop w pc (replaceClient w client m)"
  have m': "wm_sessions ?m = (wm_sessions m)(w \<mapsto> s\<lparr>wt_client := client, wt_pc := pc\<rparr>)"
    "wm_late (replaceClient w client m) = (if wt_aborted s then insert client (wm_late m) else wm_late m)"
    using assms(2) by (simp_all add: set_loop_def replaceClient_def)
  fix c assume c: "c \<in> wm_open ?m"
  then have old: "c \<in> wm_open m" "c \<noteq> wt_client s" using assms(2) by (auto simp: replaceClient_def)
  show "answered ?m c"
  proof (cases "c = client")
    case True
    then show ?thesis by (cases "wt_aborted s") (auto simp: answered_def live_session_def m')
  next
    case False
    from old have "answered m c" using assms(1) by (simp add: clients_ok_def)
    then show ?thesis
    proof (rule answered_mono)
      fix v r assume "live_session m v r" "wt_client r = c"
      moreover from this old have "v \<noteq> w" using assms(2) by (auto simp: live_session_def)
      ultimately show "\<exists>s. live_session ?m v s \<and> wt_client s = c" by (auto simp: live_session_def m')
    next
      fix v r d assume "wm_sessions m v = Some r" "wt_pc r = Dialled c d"
      moreover from this False have "v \<noteq> w" using assms(2,3) by auto
      ultimately show "\<exists>s d. wm_sessions ?m v = Some s \<and> wt_pc s = Dialled c d" by (auto simp: m')
    qed (auto simp: m')
  qed
qed

lemma loop_step_ok:
  assumes step: "loop_step delay0 w m m'" and ok: "watch_ok m"
  shows "watch_ok m'"
proof -
  have r: "watchers_ok m" and c: "clients_ok m" and sc: "scan_ok m" using ok by (simp_all add: watch_ok_def)
  have dial: "watchers_ok m'" "scan_ok m'" if "dial m = (client, m')" for client m'
    using that r sc by (auto simp: dial_def intro: registry_cong scan_ok_cong)
  show ?thesis using step
  proof cases
    case (again s restart count failed count' d)
    have "wm_sessions (set_count w count' m) w = Some (s\<lparr>wt_reconnectCount := count'\<rparr>)" using again by (simp add: set_count_def)
    with again show ?thesis unfolding watch_ok_def
      using r sc set_loop_clients [OF set_count_clients [OF c]] by (auto intro: scan_ok_cong)
  next
    case (dialled s d client n)
    then show ?thesis unfolding watch_ok_def
      using dialled_clients [OF c dialled(2,3)] dial [OF dialled(4)] by (auto intro: scan_ok_cong)
  next
    case (replaced s client d)
    then show ?thesis unfolding watch_ok_def
      using r sc replaced_clients [OF c replaced(2,3), of "if 0 < d then Resting else LoopTop"] by (auto intro: scan_ok_cong)
  qed (use r sc set_loop_clients [OF c] in \<open>auto simp: watch_ok_def intro: scan_ok_cong\<close>)
qed

subsection \<open>The rescan and the rest keep the invariant\<close>

text \<open>A step that only moves the rescan on, or changes what the invariant does not speak of.\<close>

lemma moved_on:
  assumes ok: "watch_ok m" and same: "wm_watchers m' = wm_watchers m" "wm_sessions m' = wm_sessions m"
    "wm_open m' = wm_open m" "wm_late m' = wm_late m"
    and client: "scan_client (wm_scan m') = scan_client (wm_scan m)"
    and scan: "scan_ok m'"
  shows "watch_ok m'"
proof -
  have "watchers_ok m'" using ok same by (auto simp: watch_ok_def intro: registry_cong)
  moreover have "clients_ok m'" using ok same client by (auto simp: watch_ok_def clients_ok_def answered_def live_session_def)
  ultimately show ?thesis using scan by (simp add: watch_ok_def)
qed

text \<open>Taking watchers out keeps what the rescan relies on.\<close>

lemma scan_ok_fewer:
  assumes ok: "scan_ok m" and sub: "set (wm_watchers m') \<subseteq> set (wm_watchers m)"
    and entry: "scan_entry (wm_scan m') = None \<or> scan_entry (wm_scan m') = scan_entry (wm_scan m)"
    and same: "wm_stopping m' = wm_stopping m" "wm_aborting m' = wm_aborting m" "scan_watcher (wm_scan m') = scan_watcher (wm_scan m)"
  shows "scan_ok m'"
proof -
  have "scan_entry (wm_scan m) = Some name \<Longrightarrow> name \<notin> fst ` set (wm_watchers m)" for name
    using ok by (simp add: scan_ok_def)
  moreover have "fst ` set (wm_watchers m') \<subseteq> fst ` set (wm_watchers m)" using sub by (rule image_mono)
  ultimately have "scan_entry (wm_scan m') = Some name \<Longrightarrow> name \<notin> fst ` set (wm_watchers m')" for name
    using entry by (metis option.distinct(1) subsetD)
  then show ?thesis using ok sub same by (auto simp: scan_ok_def)
qed

lemma retire_all_watch_ok:
  assumes "watch_ok m" "set ws \<subseteq> set (wm_watchers m)" "distinct ws"
  shows "watch_ok (retire_all ws m)"
proof -
  have "watchers_ok m" "clients_ok m" using assms(1) by (simp_all add: watch_ok_def)
  note retire = retire_all_ok [OF this assms(2,3)]
  then have "set (wm_watchers (retire_all ws m)) \<subseteq> set (wm_watchers m)" by auto
  then have "scan_ok (retire_all ws m)"
    using assms(1) scan_ok_fewer [of m "retire_all ws m"] by (auto simp: watch_ok_def)
  with retire show ?thesis by (simp add: watch_ok_def)
qed

lemma distinct_watchers: "watch_ok m \<Longrightarrow> distinct (wm_watchers m)"
  by (auto simp: watch_ok_def watchers_ok_def distinct_map)

lemma abortWatchers_ok:
  assumes "watch_ok m"
  shows "watch_ok (abortWatchers m)" "wm_watchers (abortWatchers m) = []"
proof -
  show "watch_ok (abortWatchers m)"
    using retire_all_watch_ok [OF assms, of "wm_watchers m"] distinct_watchers [OF assms] by (simp add: abortWatchers_def)
  have "watchers_ok m" "clients_ok m" using assms by (simp_all add: watch_ok_def)
  then show "wm_watchers (abortWatchers m) = []"
    using retire_all_ok(3) [of m "wm_watchers m"] distinct_watchers [OF assms] by (simp add: abortWatchers_def)
qed

lemma retire_existing_ok:
  assumes ok: "watch_ok m" and w: "map_of (wm_watchers m) name = Some w"
    and scan: "scan_entry pc = Some name" "scan_client pc = None" "scan_watcher pc = None"
      "scan_client (wm_scan m) = None" "scan_watcher (wm_scan m) = None"
  shows "watch_ok ((retireWatcherLocked name w m)\<lparr>wm_scan := pc\<rparr>)"
proof -
  have r: "watchers_ok m" using ok by (simp add: watch_ok_def)
  with w have w': "(name, w) \<in> set (wm_watchers m)" by (simp add: map_of_watcher)
  have "watch_ok (retire_all [(name, w)] m)" by (rule retire_all_watch_ok [OF ok]) (use w' in auto)
  then have one: "watch_ok (retireWatcherLocked name w m)" by (simp add: retire_all_def)
  have "wm_watchers (retireWatcherLocked name w m) = without name (wm_watchers m)"
    using retire_taken_out(1) [OF r w'] without_watcher [OF r w'] by (simp add: taken_out_def)
  then have "name \<notin> fst ` set (wm_watchers (retireWatcherLocked name w m))" by (auto simp: without_def)
  then show ?thesis using moved_on [OF one] one scan by (simp add: watch_ok_def scan_ok_def)
qed

lemma started_ok:
  assumes ok: "watch_ok m" and scan: "wm_scan m = StartDialled g entry rest client" and new: "wm_sessions m w = None"
  shows "watch_ok (start_watcher g entry rest client w m)" (is "watch_ok ?m")
proof -
  have r: "watchers_ok m" and c: "clients_ok m" and sc: "scan_ok m" using ok by (simp_all add: watch_ok_def)
  have free: "hse_Name entry \<notin> fst ` set (wm_watchers m)" using sc scan by (simp add: scan_ok_def)
  then have keep: "without (hse_Name entry) (wm_watchers m) = wm_watchers m"
    unfolding without_def by (force simp: filter_id_conv)
  have live: "live_session ?m v s \<longleftrightarrow> (if v = w then s = \<lparr>wt_entry = entry, wt_generation = g, wt_aborted = False,
         wt_client = client, wt_reconnectCount = 0, wt_pc = LoopTop\<rparr> else live_session m v s)" for v s
    by (auto simp: live_session_def start_watcher_def)
  have unknown: "\<not> live_session m w s" for s using new by (simp add: live_session_def)
  have "watchers_ok ?m" unfolding watchers_ok_def
  proof (intro conjI allI)
    show "distinct (map fst (wm_watchers ?m))" using r free by (simp add: start_watcher_def keep watchers_ok_def)
    fix n v
    have "(n, v) \<in> set (wm_watchers ?m) \<longleftrightarrow> n = hse_Name entry \<and> v = w \<or> (\<exists>s. live_session m v s \<and> hse_Name (wt_entry s) = n)"
      using r by (simp add: start_watcher_def keep watchers_ok_def)
    also have "\<dots> \<longleftrightarrow> (\<exists>s. live_session ?m v s \<and> hse_Name (wt_entry s) = n)"
      using unknown by (cases "v = w") (auto simp: live)
    finally show "(n, v) \<in> set (wm_watchers ?m) \<longleftrightarrow> (\<exists>s. live_session ?m v s \<and> hse_Name (wt_entry s) = n)" .
  qed
  moreover have "clients_ok ?m" unfolding clients_ok_def
  proof
    fix x assume "x \<in> wm_open ?m"
    then have "answered m x" using c by (simp add: clients_ok_def start_watcher_def)
    then show "answered ?m x" unfolding answered_def
    proof (elim disjE exE conjE)
      fix v s assume "live_session m v s" "wt_client s = x"
      then have "live_session ?m v s" using unknown by (auto simp: live)
      with \<open>wt_client s = x\<close> show "x \<in> wm_late ?m \<or> (\<exists>w s. live_session ?m w s \<and> wt_client s = x)
        \<or> (\<exists>w s delay. wm_sessions ?m w = Some s \<and> wt_pc s = Dialled x delay) \<or> scan_client (wm_scan ?m) = Some x" by blast
    next
      fix v s delay assume "wm_sessions m v = Some s" "wt_pc s = Dialled x delay"
      then have "wm_sessions ?m v = Some s" using new by (auto simp: start_watcher_def)
      with \<open>wt_pc s = Dialled x delay\<close> show "x \<in> wm_late ?m \<or> (\<exists>w s. live_session ?m w s \<and> wt_client s = x)
        \<or> (\<exists>w s delay. wm_sessions ?m w = Some s \<and> wt_pc s = Dialled x delay) \<or> scan_client (wm_scan ?m) = Some x" by blast
    next
      assume "scan_client (wm_scan m) = Some x"
      then have "live_session ?m w \<lparr>wt_entry = entry, wt_generation = g, wt_aborted = False,
         wt_client = x, wt_reconnectCount = 0, wt_pc = LoopTop\<rparr>" using scan by (simp add: live_session_def start_watcher_def)
      then have "\<exists>w s. live_session ?m w s \<and> wt_client s = x" by fastforce
      then show "x \<in> wm_late ?m \<or> (\<exists>w s. live_session ?m w s \<and> wt_client s = x)
        \<or> (\<exists>w s delay. wm_sessions ?m w = Some s \<and> wt_pc s = Dialled x delay) \<or> scan_client (wm_scan ?m) = Some x" by blast
    qed (simp add: start_watcher_def)
  qed
  moreover have "scan_ok ?m" using sc scan by (auto simp: scan_ok_def start_watcher_def keep)
  ultimately show ?thesis by (simp add: watch_ok_def)
qed

lemma given_up_ok:
  assumes ok: "watch_ok m" and scan: "wm_scan m = Started g rest w"
  shows "watch_ok (give_up g rest w m)"
proof (cases "wm_sessions m w")
  case None
  with ok show ?thesis by (simp add: give_up_def)
next
  case (Some s)
  have r: "watchers_ok m" and c: "clients_ok m" and sc: "scan_ok m" using ok by (simp_all add: watch_ok_def)
  let ?m = "abort_watcher w (drop_watcher (hse_Name (wt_entry s)) w m)"
  have t: "taken_out w m ?m"
  proof (cases "wt_aborted s")
    case False
    then have "(hse_Name (wt_entry s), w) \<in> set (wm_watchers m)" using r Some by (auto simp: watchers_ok_def live_session_def)
    then show ?thesis by (rule retire_taken_out(2) [OF r])
  next
    case True
    then have none: "(n, w) \<notin> set (wm_watchers m)" for n using r Some by (auto simp: watchers_ok_def live_session_def)
    then have "map_of (wm_watchers m) (hse_Name (wt_entry s)) \<noteq> Some w" using map_of_SomeD by fastforce
    moreover have "filter (\<lambda>(n, v). v \<noteq> w) (wm_watchers m) = wm_watchers m" using none by (auto simp: filter_id_conv)
    ultimately show ?thesis using Some True by (auto simp: taken_out_def abort_watcher_def drop_watcher_def)
  qed
  have "watchers_ok ?m" "clients_ok ?m" using taken_out_registry [OF r t] taken_out_clients [OF c t] by simp_all
  moreover have "scan_ok (?m\<lparr>wm_scan := AwaitGivenUp g rest w\<rparr>)"
  proof -
    have "v = w" if "wm_stopping m" "\<not> wm_aborting m" "(n, v) \<in> set (wm_watchers m)" for n v
      using that sc scan by (auto simp: scan_ok_def)
    moreover have "wm_watchers ?m = filter (\<lambda>(n, v). v \<noteq> w) (wm_watchers m)" using t by (simp add: taken_out_def)
    ultimately show ?thesis by (auto simp: scan_ok_def)
  qed
  moreover have "watchers_ok (?m\<lparr>wm_scan := pc\<rparr>) = watchers_ok ?m" for pc
    by (simp add: watchers_ok_def live_session_def)
  moreover have "clients_ok (?m\<lparr>wm_scan := AwaitGivenUp g rest w\<rparr>) = clients_ok ?m"
    using scan by (simp add: clients_ok_def answered_def live_session_def)
  ultimately show ?thesis using Some by (simp add: give_up_def watch_ok_def)
qed

lemma scan_step_ok:
  assumes step: "scan_step m m'" and ok: "watch_ok m"
  shows "watch_ok m'"
proof -
  have r: "watchers_ok m" and sc: "scan_ok m" using ok by (simp_all add: watch_ok_def)
  have fewer: "scan_ok m'" if "wm_watchers m' = wm_watchers m" "wm_stopping m' = wm_stopping m" "wm_aborting m' = wm_aborting m"
    "scan_entry (wm_scan m') = None \<or> scan_entry (wm_scan m') = scan_entry (wm_scan m)"
    "scan_watcher (wm_scan m') = scan_watcher (wm_scan m)" for m'
    using scan_ok_fewer [OF sc] that by simp
  note moved = moved_on [OF ok _ _ _ _ _ fewer]
  show ?thesis using step
  proof cases
    case (retired g running loops m1)
    let ?gone = "filter (\<lambda>(name, w). name \<notin> hse_Name ` set running) (wm_watchers m)"
    have one: "watch_ok (retire_all ?gone m)"
      by (rule retire_all_watch_ok [OF ok]) (use distinct_watchers [OF ok] in auto)
    have "m' = (retire_all ?gone m)\<lparr>wm_scan := AwaitRetired g running loops\<rparr>"
      using retired by (simp add: retire_missing_def Let_def split_def)
    then show ?thesis using moved_on [OF one] one retired(2)
      scan_ok_fewer [of "retire_all ?gone m" m'] by (simp add: watch_ok_def)
  next
    case (retire_existing g entry rest w)
    then show ?thesis using retire_existing_ok [OF ok retire_existing(3)] by simp
  next
    case (no_existing g entry rest)
    then have "hse_Name entry \<notin> fst ` set (wm_watchers m)" by (simp add: map_of_eq_None_iff)
    then have "scan_ok m'" using no_existing sc by (auto simp: scan_ok_def)
    then show ?thesis using moved_on [OF ok] no_existing by simp
  next
    case (start_dialled g entry rest client m1)
    then have m': "m' = m\<lparr>wm_dialled := wm_dialled m + 1, wm_open := insert client (wm_open m), wm_scan := StartDialled g entry rest client\<rparr>"
      by (auto simp: dial_def)
    have "watchers_ok m'" using r m' by (auto intro: registry_cong)
    moreover have "clients_ok m'"
      using ok start_dialled(2) by (auto simp: watch_ok_def clients_ok_def answered_def live_session_def m')
    ultimately show ?thesis using fewer [of m'] start_dialled(2) by (simp add: watch_ok_def m')
  next
    case (started g entry rest client w)
    then show ?thesis using started_ok [OF ok started(2,3)] by simp
  next
    case (kept g rest w)
    then have "scan_ok m'" using sc by (auto simp: scan_ok_def isStopping_def)
    then show ?thesis using moved_on [OF ok] kept by simp
  next
    case (given_up g rest w)
    then show ?thesis using given_up_ok [OF ok given_up(2)] by simp
  qed (use moved in \<open>auto simp: finish_rescan_def split: sum.split\<close>)
qed

lemma watch_step_ok:
  assumes step: "watch_step delay0 m m'" and ok: "watch_ok m"
  shows "watch_ok m'"
proof -
  have sc: "scan_ok m" using ok by (simp add: watch_ok_def)
  show ?thesis using step
  proof cases
    case (loop w)
    then show ?thesis by (rule loop_step_ok [OF _ ok])
  next
    case scan
    then show ?thesis by (rule scan_step_ok [OF _ ok])
  next
    case start
    then have "scan_ok m'" by (simp add: scan_ok_def start_section_def Let_def)
    then show ?thesis using moved_on [OF ok] start by (simp add: start_section_def Let_def)
  next
    case (start_returns g r)
    then have "scan_ok m'" using sc by (auto simp: scan_ok_def finish_start_def)
    then show ?thesis using moved_on [OF ok] start_returns by (simp add: finish_start_def)
  next
    case tick
    then have "scan_ok m'" using sc by (auto simp: scan_ok_def scheduleTick_def)
    then show ?thesis using moved_on [OF ok] tick by (simp add: scheduleTick_def)
  next
    case (tick_rescan now)
    then have "scan_ok m'" using sc by (auto simp: scan_ok_def)
    then show ?thesis using moved_on [OF ok] tick_rescan by simp
  next
    case (tick_ends r)
    then have "scan_ok m'" using sc by (auto simp: scan_ok_def)
    then show ?thesis using moved_on [OF ok] tick_ends by auto
  next
    case (restart w s r)
    then have "watchers_ok m'" "clients_ok m'" "scan_ok m'"
      using ok set_loop_clients [of m w s] by (auto simp: watch_ok_def intro: scan_ok_cong)
    then show ?thesis by (simp add: watch_ok_def)
  next
    case shutdown
    then have "scan_ok m'" using sc by (auto simp: scan_ok_def mark_stopping_def)
    then show ?thesis using moved_on [OF ok] shutdown by (simp add: mark_stopping_def)
  next
    case shutdown_aborts
    let ?m = "m\<lparr>wm_aborting := False\<rparr>"
    have same: "retire_all ws (m\<lparr>wm_aborting := False\<rparr>) = (retire_all ws m)\<lparr>wm_aborting := False\<rparr>" for ws m
      unfolding retire_all_def
    proof (induction ws arbitrary: m)
      case (Cons x ws)
      have "retireWatcherLocked n w (m\<lparr>wm_aborting := False\<rparr>) = (retireWatcherLocked n w m)\<lparr>wm_aborting := False\<rparr>" for n w
        by (simp add: retireWatcherLocked_def drop_watcher_def abort_watcher_def Let_def split: option.split)
      with Cons show ?case by (cases x) simp
    qed simp
    have "m' = (abortWatchers m)\<lparr>wm_aborting := False\<rparr>"
      using shutdown_aborts same by (simp add: finish_shutdown_def abortWatchers_def)
    moreover have "scan_ok ((abortWatchers m)\<lparr>wm_aborting := False\<rparr>)"
      using abortWatchers_ok [OF ok] by (simp add: watch_ok_def scan_ok_def)
    ultimately show ?thesis using moved_on [OF abortWatchers_ok(1) [OF ok]] by simp
  next
    case stop_aborts
    then show ?thesis using abortWatchers_ok [OF ok] by simp
  next
    case (reaped w)
    then show ?thesis using moved_on [OF ok] scan_ok_cong [OF sc] by simp
  next
    case (others world')
    then show ?thesis using moved_on [OF ok] scan_ok_cong [OF sc] by simp
  qed
qed

lemma watch_run_ok: "watch_run delay0 m \<Longrightarrow> watch_ok m"
proof (induction rule: watch_run.induct)
  case (fresh world)
  show ?case by (simp add: watch_ok_def watchers_ok_def clients_ok_def scan_ok_def live_session_def NewHerdrSessionWatchManager_def)
next
  case (stepped m m')
  then show ?case by (blast intro: watch_step_ok)
qed

subsection \<open>One watcher, no watcher left\<close>

text \<open>
  C38: However rescans, restarts, failing connections and shutdowns interleave, a session has at most one
  watcher that is not retired, and that one is the watcher the manager knows under its name.
\<close>

theorem one_watcher_per_session:
  assumes run: "watch_run reconnectDelayMs m"
    and s: "wm_sessions m w = Some s" "\<not> wt_aborted s" and r: "wm_sessions m v = Some r" "\<not> wt_aborted r"
    and name: "hse_Name (wt_entry s) = hse_Name (wt_entry r)"
  shows "w = v \<and> map_of (wm_watchers m) (hse_Name (wt_entry s)) = Some w"
proof -
  have ok: "watchers_ok m" using watch_run_ok [OF run] by (simp add: watch_ok_def)
  have live: "live_session m w s" "live_session m v r" using s r by (simp_all add: live_session_def)
  then have "w = v" using one_name [OF ok _ _ name] by blast
  moreover have "(hse_Name (wt_entry s), w) \<in> set (wm_watchers m)" using ok live by (auto simp: watchers_ok_def)
  ultimately show ?thesis using map_of_watcher [OF ok] by simp
qed

definition wound_down :: "HerdrSessionWatchManager \<Rightarrow> bool" where
  "wound_down m \<longleftrightarrow> wm_scan m = NoScan \<and> (\<forall>w s. wm_sessions m w = Some s \<longrightarrow> wt_pc s = LoopDone)"

text \<open>
  C39: When the manager has shut down, its rescan is over and its loops have ended, then no watcher is left
  that is not retired, and the only clients still connected are those a loop had dialled when its watcher
  was retired and installed afterwards.
\<close>

theorem shutdown_leaves_late_clients:
  assumes run: "watch_run reconnectDelayMs m" and stopped: "wm_stopping m" "\<not> wm_aborting m" "wound_down m"
  shows "wm_watchers m = [] \<and> (\<forall>w s. wm_sessions m w = Some s \<longrightarrow> wt_aborted s) \<and> wm_open m \<subseteq> wm_late m"
proof -
  have ok: "watchers_ok m" "clients_ok m" "scan_ok m" using watch_run_ok [OF run] by (simp_all add: watch_ok_def)
  have none: "wm_watchers m = []" using ok(3) stopped by (cases "wm_watchers m") (auto simp: scan_ok_def wound_down_def)
  then have "\<not> live_session m w s" for w s using ok(1) by (auto simp: watchers_ok_def)
  then show ?thesis using ok(2) none stopped(3)
    by (auto simp: clients_ok_def answered_def wound_down_def live_session_def)
qed

subsection \<open>A retired loop ends\<close>

fun loop_rank :: "loop_pc \<Rightarrow> nat" where
  "loop_rank LoopDone = 0"
| "loop_rank LoopTop = 1" | "loop_rank (Subscribed restart) = 1"
| "loop_rank Resting = 2" | "loop_rank (Dialled client delay) = 3" | "loop_rank (Dialling delay) = 4"

text \<open>What the sections of the others do to a loop: at most, they abort it.\<close>

definition loop_left :: "nat \<Rightarrow> HerdrSessionWatchManager \<Rightarrow> HerdrSessionWatchManager \<Rightarrow> bool" where
  "loop_left w m m' \<longleftrightarrow> (\<forall>s. wm_sessions m w = Some s \<longrightarrow>
     (\<exists>s'. wm_sessions m' w = Some s' \<and> wt_pc s' = wt_pc s \<and> (wt_aborted s \<longrightarrow> wt_aborted s')))"

lemma loop_left_refl: "wm_sessions m' = wm_sessions m \<Longrightarrow> loop_left w m m'"
  by (simp add: loop_left_def)

lemma loop_left_trans: "loop_left w m m' \<Longrightarrow> loop_left w m' m'' \<Longrightarrow> loop_left w m m''"
  unfolding loop_left_def by metis

lemma loop_left_retire: "loop_left w m (retireWatcherLocked name v m)"
  by (cases "v = w") (auto simp: loop_left_def retireWatcherLocked_def abort_watcher_def Let_def split: option.split)

lemma loop_left_retire_all: "loop_left w m (retire_all ws m)"
  unfolding retire_all_def
proof (induction ws arbitrary: m)
  case (Cons x ws)
  show ?case using loop_left_trans [OF loop_left_retire Cons.IH] by (cases x) simp
qed (simp add: loop_left_refl)

lemma loop_left_other:
  assumes "loop_step delay0 v m m'" "v \<noteq> w"
  shows "loop_left w m m'"
  using assms(1)
proof cases
  case (dialled s d client m1)
  then show ?thesis using assms(2) by (auto simp: loop_left_def dial_def set_loop_def split: option.split)
qed (use assms(2) in \<open>auto simp: loop_left_def set_loop_def set_count_def replaceClient_def split: option.split\<close>)

lemma loop_left_scan:
  assumes "scan_step m m'"
  shows "loop_left w m m'"
  using assms
proof cases
  case (retired g running loops m1)
  have "m' = (retire_all (filter (\<lambda>(name, w). name \<notin> hse_Name ` set running) (wm_watchers m)) m)\<lparr>wm_scan := AwaitRetired g running loops\<rparr>"
    using retired by (simp add: retire_missing_def Let_def split_def)
  then show ?thesis using loop_left_trans [OF loop_left_retire_all loop_left_refl] by simp
next
  case (retire_existing g entry rest v)
  then show ?thesis using loop_left_trans [OF loop_left_retire loop_left_refl] by simp
next
  case (start_dialled g entry rest client m1)
  then show ?thesis by (auto simp: dial_def intro: loop_left_refl)
next
  case (started g entry rest client v)
  then show ?thesis by (auto simp: loop_left_def start_watcher_def)
next
  case (given_up g rest v)
  then show ?thesis by (auto simp: loop_left_def give_up_def abort_watcher_def split: option.split)
qed (auto simp: finish_rescan_def intro: loop_left_refl)

lemma own_step_rank:
  assumes "loop_step delay0 w m m'" "wm_sessions m w = Some s" "wt_aborted s"
  shows "\<exists>s'. wm_sessions m' w = Some s' \<and> wt_aborted s' \<and> loop_rank (wt_pc s') < loop_rank (wt_pc s)"
  using assms(1)
proof cases
  case (dialled r d client m1)
  then show ?thesis using assms(2,3) by (auto simp: dial_def set_loop_def)
qed (use assms(2,3) in \<open>auto simp: set_loop_def replaceClient_def after_round_def\<close>)

lemma others_rank:
  assumes step: "watch_step delay0 m m'" and s: "wm_sessions m w = Some s" "wt_aborted s"
  shows "loop_step delay0 w m m' \<or> (\<exists>s'. wm_sessions m' w = Some s' \<and> wt_aborted s' \<and> loop_rank (wt_pc s') = loop_rank (wt_pc s))"
  using step
proof cases
  case (loop v)
  then show ?thesis using loop_left_other [OF loop] s by (cases "v = w") (fastforce simp: loop_left_def)+
next
  case scan
  then show ?thesis using loop_left_scan [OF scan, of w] s by (auto simp: loop_left_def)
next
  case (restart v r b)
  then show ?thesis using s by (auto simp: set_loop_def)
next
  case shutdown_aborts
  then show ?thesis using loop_left_retire_all [of w "m\<lparr>wm_aborting := False\<rparr>" "wm_watchers m"] s
    by (auto simp: finish_shutdown_def abortWatchers_def loop_left_def)
next
  case stop_aborts
  then show ?thesis using loop_left_retire_all [of w m "wm_watchers m"] s by (auto simp: abortWatchers_def loop_left_def)
qed (use s in \<open>auto simp: start_section_def finish_start_def scheduleTick_def mark_stopping_def Let_def\<close>)

lemma own_step_enabled:
  assumes s: "wm_sessions m w = Some s" "wt_aborted s" "wt_pc s \<noteq> LoopDone"
  shows "\<exists>m'. loop_step delay0 w m m'"
proof (cases "wt_pc s")
  case LoopTop
  then show ?thesis using loop_step.leave [OF s(1)] s(2) by blast
next
  case (Subscribed b)
  then show ?thesis using loop_step.round_ended [OF s(1) Subscribed, of delay0 True 0] s(2) by (auto simp: after_round_def)
next
  case (Dialling d)
  then show ?thesis using loop_step.dial_failed [OF s(1)] by blast
next
  case (Dialled client d)
  then show ?thesis using loop_step.replaced [OF s(1)] by blast
next
  case Resting
  then show ?thesis using loop_step.rested [OF s(1)] by blast
qed (use s in simp)

text \<open>
  C40: The loop of a retired watcher ends, so that waiting for it returns: it can always take a step until
  it has ended, each of its own steps takes it closer to its end, of which there are at most four, no step
  of anything else takes it further away, and it stays retired.
\<close>

theorem retired_loop_ends:
  assumes s: "wm_sessions m w = Some s" "wt_aborted s"
  shows "loop_rank (wt_pc s) \<le> 4
    \<and> (wt_pc s \<noteq> LoopDone \<longrightarrow> (\<exists>m'. loop_step reconnectDelayMs w m m'))
    \<and> (\<forall>m'. watch_step reconnectDelayMs m m' \<longrightarrow> (\<exists>s'. wm_sessions m' w = Some s' \<and> wt_aborted s'
        \<and> (if loop_step reconnectDelayMs w m m' then loop_rank (wt_pc s') < loop_rank (wt_pc s)
           else loop_rank (wt_pc s') = loop_rank (wt_pc s))))"
proof (intro conjI allI impI)
  show "loop_rank (wt_pc s) \<le> 4" by (cases "wt_pc s") auto
  show "wt_pc s \<noteq> LoopDone \<Longrightarrow> \<exists>m'. loop_step reconnectDelayMs w m m'" by (rule own_step_enabled [OF s])
  fix m' assume step: "watch_step reconnectDelayMs m m'"
  show "\<exists>s'. wm_sessions m' w = Some s' \<and> wt_aborted s'
      \<and> (if loop_step reconnectDelayMs w m m' then loop_rank (wt_pc s') < loop_rank (wt_pc s)
         else loop_rank (wt_pc s') = loop_rank (wt_pc s))"
    using own_step_rank [of reconnectDelayMs, OF _ s] others_rank [OF step s] by auto
qed

subsection \<open>A run that leaves a client behind\<close>

definition demo_entry :: HerdrSessionListEntry where
  "demo_entry = \<lparr>hse_Default = None, hse_Name = ''main'', hse_Running = True, hse_SessionDir = ''/d'', hse_SocketPath = ''/s''\<rparr>"

definition demo_world1 :: world where
  "demo_world1 = snd (MarkStoppedMissingFrom [''main''] (sample_world []))"

definition demo_world2 :: world where
  "demo_world2 = snd (UpsertRunning ''main'' ''/d'' ''/s'' demo_world1)"

lemma demo_worlds:
  "MarkStoppedMissingFrom [''main''] (sample_world []) = (Inr (), demo_world1)"
  "\<exists>r. UpsertRunning ''main'' ''/d'' ''/s'' demo_world1 = (Inr r, demo_world2)"
proof -
  have "fst (MarkStoppedMissingFrom [''main''] (sample_world [])) = Inr ()" by code_simp
  then show "MarkStoppedMissingFrom [''main''] (sample_world []) = (Inr (), demo_world1)"
    unfolding demo_world1_def by (metis prod.collapse)
  have "\<not> isl (fst (UpsertRunning ''main'' ''/d'' ''/s'' demo_world1))" unfolding demo_world1_def by code_simp
  then obtain r where "fst (UpsertRunning ''main'' ''/d'' ''/s'' demo_world1) = Inr r" by (auto simp: isl_def split: sum.splits) (meson sum.exhaust)
  then show "\<exists>r. UpsertRunning ''main'' ''/d'' ''/s'' demo_world1 = (Inr r, demo_world2)"
    unfolding demo_world2_def by (metis prod.collapse)
qed

definition demo_loop :: "bool \<Rightarrow> nat \<Rightarrow> loop_pc \<Rightarrow> watchSession" where
  "demo_loop aborted client pc = \<lparr>wt_entry = demo_entry, wt_generation = 1, wt_aborted = aborted, wt_client = client,
     wt_reconnectCount = 0, wt_pc = pc\<rparr>"

text \<open>The manager once \<open>Start\<close> has started one watcher, whose loop is where \<open>pc\<close> says.\<close>

definition demo_manager :: "nat set \<Rightarrow> nat \<Rightarrow> loop_pc \<Rightarrow> HerdrSessionWatchManager" where
  "demo_manager clients dialled pc =
     \<lparr>wm_generation = 1, wm_stopping = False, wm_watchers = [(''main'', 0)], wm_retiring = {},
      wm_sessions = [0 \<mapsto> demo_loop False 0 pc], wm_open = clients, wm_dialled = dialled, wm_scheduler = True,
      wm_caller = Nobody, wm_lastFullRescan = 0, wm_scan = NoScan, wm_aborting = False, wm_late = {},
      wm_world = demo_world2\<rparr>"

lemma demo_watching: "watch_run 1000 (demo_manager {0} 1 LoopTop)"
proof -
  let ?m = "\<lparr>wm_generation = 1, wm_stopping = False, wm_watchers = [], wm_retiring = {}, wm_sessions = Map.empty,
      wm_open = {}, wm_dialled = 0, wm_scheduler = False, wm_caller = Starting 1, wm_lastFullRescan = 0,
      wm_scan = Listing 1, wm_aborting = False, wm_late = {}, wm_world = sample_world []\<rparr>"
  note step = watch_run.stepped [of 1000]
  have "watch_run 1000 ?m"
    using step [OF watch_run.fresh watch_step.start, of "sample_world []"]
    by (simp add: NewHerdrSessionWatchManager_def start_section_def)
  then have "watch_run 1000 (?m\<lparr>wm_scan := Listed 1 [demo_entry]\<rparr>)"
    using step [OF _ watch_step.scan [OF scan_step.listed [where sessions = "[demo_entry]"]], of ?m 1]
    by (simp add: isStopping_def running_entries_def demo_entry_def)
  then have "watch_run 1000 (?m\<lparr>wm_scan := AwaitRetired 1 [demo_entry] []\<rparr>)"
    using step [OF _ watch_step.scan [OF scan_step.retired], of "?m\<lparr>wm_scan := Listed 1 [demo_entry]\<rparr>" 1 "[demo_entry]"]
    by (simp add: retire_missing_def retire_all_def)
  then have "watch_run 1000 (?m\<lparr>wm_world := demo_world1, wm_scan := NextEntry 1 [demo_entry]\<rparr>)"
    using step [OF _ watch_step.scan [OF scan_step.marked], of "?m\<lparr>wm_scan := AwaitRetired 1 [demo_entry] []\<rparr>" 1 "[demo_entry]" "[]"]
      demo_worlds(1) by (simp add: isStopping_def demo_entry_def)
  then have "watch_run 1000 (?m\<lparr>wm_world := demo_world1, wm_scan := Checked 1 demo_entry []\<rparr>)"
    using step [OF _ watch_step.scan [OF scan_step.next_entry], of "?m\<lparr>wm_world := demo_world1, wm_scan := NextEntry 1 [demo_entry]\<rparr>" 1 demo_entry "[]"]
    by (simp add: isStopping_def)
  then have "watch_run 1000 (?m\<lparr>wm_world := demo_world1, wm_scan := StartEntry 1 demo_entry []\<rparr>)"
    using step [OF _ watch_step.scan [OF scan_step.no_existing], of "?m\<lparr>wm_world := demo_world1, wm_scan := Checked 1 demo_entry []\<rparr>" 1 demo_entry "[]"]
    by simp
  moreover obtain r where r: "UpsertRunning ''main'' ''/d'' ''/s'' demo_world1 = (Inr r, demo_world2)"
    using demo_worlds(2) by blast
  ultimately have "watch_run 1000 (?m\<lparr>wm_world := demo_world2, wm_scan := StartDial 1 demo_entry []\<rparr>)"
    using step [OF _ watch_step.scan [OF scan_step.upserted], of "?m\<lparr>wm_world := demo_world1, wm_scan := StartEntry 1 demo_entry []\<rparr>" 1 demo_entry "[]"]
    by (simp add: isStopping_def demo_entry_def)
  then have "watch_run 1000 (?m\<lparr>wm_world := demo_world2, wm_dialled := 1, wm_open := {0}, wm_scan := StartDialled 1 demo_entry [] 0\<rparr>)"
    using step [OF _ watch_step.scan [OF scan_step.start_dialled], of "?m\<lparr>wm_world := demo_world2, wm_scan := StartDial 1 demo_entry []\<rparr>" 1 demo_entry "[]"]
    by (simp add: dial_def)
  then have "watch_run 1000 ((demo_manager {0} 1 LoopTop)\<lparr>wm_scheduler := False, wm_caller := Starting 1, wm_scan := Started 1 [] 0\<rparr>)"
    using step [OF _ watch_step.scan [OF scan_step.started], of
      "?m\<lparr>wm_world := demo_world2, wm_dialled := 1, wm_open := {0}, wm_scan := StartDialled 1 demo_entry [] 0\<rparr>" 1 demo_entry "[]" 0 0]
    by (simp add: start_watcher_def without_def demo_manager_def demo_loop_def demo_entry_def)
  then have "watch_run 1000 ((demo_manager {0} 1 LoopTop)\<lparr>wm_scheduler := False, wm_caller := Starting 1, wm_scan := NextEntry 1 []\<rparr>)"
    using step [OF _ watch_step.scan [OF scan_step.kept], of
      "(demo_manager {0} 1 LoopTop)\<lparr>wm_scheduler := False, wm_caller := Starting 1, wm_scan := Started 1 [] 0\<rparr>" 1 "[]" 0]
    by (simp add: isStopping_def demo_manager_def)
  then have "watch_run 1000 ((demo_manager {0} 1 LoopTop)\<lparr>wm_scheduler := False, wm_caller := Starting 1, wm_scan := ScanEnded True\<rparr>)"
    using step [OF _ watch_step.scan [OF scan_step.finished [where now = 0]], of
      "(demo_manager {0} 1 LoopTop)\<lparr>wm_scheduler := False, wm_caller := Starting 1, wm_scan := NextEntry 1 []\<rparr>" 1]
    by (simp add: isStopping_def finish_rescan_def demo_manager_def)
  then show ?thesis
    using step [OF _ watch_step.start_returns, of
      "(demo_manager {0} 1 LoopTop)\<lparr>wm_scheduler := False, wm_caller := Starting 1, wm_scan := ScanEnded True\<rparr>" 1 True]
    by (simp add: isStopping_def finish_start_def demo_manager_def)
qed

text \<open>The same manager behind a shutdown, with its only watcher retired.\<close>

definition demo_stopped :: "nat set \<Rightarrow> nat \<Rightarrow> nat set \<Rightarrow> nat \<Rightarrow> loop_pc \<Rightarrow> HerdrSessionWatchManager" where
  "demo_stopped clients dialled late client pc =
     \<lparr>wm_generation = 2, wm_stopping = True, wm_watchers = [], wm_retiring = {0},
      wm_sessions = [0 \<mapsto> demo_loop True client pc], wm_open = clients, wm_dialled = dialled, wm_scheduler = False,
      wm_caller = Nobody, wm_lastFullRescan = 0, wm_scan = NoScan, wm_aborting = False, wm_late = late,
      wm_world = demo_world2\<rparr>"

lemma demo_shutdown:
  assumes "watch_run 1000 (demo_manager clients dialled pc)"
  shows "watch_run 1000 (demo_stopped (clients - {0}) dialled {} 0 pc)"
proof -
  have "watch_run 1000 (mark_stopping (demo_manager clients dialled pc))"
    using assms watch_step.shutdown by (rule watch_run.stepped)
  then have "watch_run 1000 (finish_shutdown (mark_stopping (demo_manager clients dialled pc)))"
    by (rule watch_run.stepped) (rule watch_step.shutdown_aborts, simp add: mark_stopping_def)
  then show ?thesis
    by (simp add: finish_shutdown_def mark_stopping_def abortWatchers_def retire_all_def retireWatcherLocked_def
      drop_watcher_def abort_watcher_def without_def demo_manager_def demo_stopped_def demo_loop_def numeral_2_eq_2)
qed

lemma demo_left: "watch_run 1000 (demo_stopped {} 1 {} 0 LoopDone)"
proof -
  have "watch_run 1000 (demo_stopped {} 1 {} 0 LoopTop)" using demo_shutdown [OF demo_watching] by simp
  then have "watch_run 1000 (set_loop 0 LoopDone (demo_stopped {} 1 {} 0 LoopTop))"
    by (rule watch_run.stepped) (rule watch_step.loop, rule loop_step.leave [where s = "demo_loop True 0 LoopTop"],
      simp_all add: demo_stopped_def demo_loop_def)
  then show ?thesis by (simp add: set_loop_def demo_stopped_def demo_loop_def)
qed

text \<open>
  A client that is dialled when its watcher is retired is installed in the retired watcher and stays
  connected when everything has ended: \<open>replaceClient\<close> does not look whether the watcher was aborted.
\<close>

lemma late_client_leaks:
  "\<exists>m. watch_run 1000 m \<and> wm_stopping m \<and> \<not> wm_aborting m \<and> wound_down m \<and> wm_open m \<noteq> {}"
proof -
  note step = watch_run.stepped [OF _ watch_step.loop, of 1000]
  have "watch_run 1000 (demo_manager {0} 1 (Subscribed False))"
    using step [OF demo_watching loop_step.enter, of 0] by (simp add: demo_manager_def demo_loop_def set_loop_def isStopping_def)
  then have "watch_run 1000 (demo_manager {0} 1 (Dialling 1000))"
    using step [OF _ loop_step.again, of "demo_manager {0} 1 (Subscribed False)" 0 _ False 0 False 0 1000]
    by (simp add: demo_manager_def demo_loop_def set_loop_def set_count_def after_round_def)
  then have "watch_run 1000 (demo_manager {0, 1} 2 (Dialled 1 1000))"
    using step [OF _ loop_step.dialled, of "demo_manager {0} 1 (Dialling 1000)" 0 "demo_loop False 0 (Dialling 1000)" 1000 1 "demo_manager {0, 1} 2 (Dialling 1000)"]
    by (simp add: demo_manager_def demo_loop_def set_loop_def dial_def insert_commute numeral_2_eq_2)
  from demo_shutdown [OF this] have "watch_run 1000 (demo_stopped {1} 2 {} 0 (Dialled 1 1000))"
    by (simp add: insert_Diff_if)
  then have "watch_run 1000 (demo_stopped {1} 2 {1} 1 Resting)"
    using step [OF _ loop_step.replaced, of "demo_stopped {1} 2 {} 0 (Dialled 1 1000)" 0 _ 1 1000]
    by (simp add: demo_stopped_def demo_loop_def set_loop_def replaceClient_def)
  then have "watch_run 1000 (demo_stopped {1} 2 {1} 1 LoopTop)"
    using step [OF _ loop_step.rested, of "demo_stopped {1} 2 {1} 1 Resting" 0]
    by (simp add: demo_stopped_def demo_loop_def set_loop_def)
  then have "watch_run 1000 (demo_stopped {1} 2 {1} 1 LoopDone)"
    using step [OF _ loop_step.leave, of "demo_stopped {1} 2 {1} 1 LoopTop" 0]
    by (simp add: demo_stopped_def demo_loop_def set_loop_def)
  then show ?thesis by (intro exI [of _ "demo_stopped {1} 2 {1} 1 LoopDone"]) (simp add: demo_stopped_def demo_loop_def wound_down_def)
qed

theorem one_watcher_per_session_witness:
  "map_of (wm_watchers (demo_manager {0} 1 LoopTop)) ''main'' = Some 0"
  using one_watcher_per_session [OF demo_watching, of 0 "demo_loop False 0 LoopTop" 0 "demo_loop False 0 LoopTop"]
  by (simp add: demo_manager_def demo_loop_def demo_entry_def)

theorem shutdown_leaves_late_clients_witness:
  "watch_run 1000 (demo_stopped {} 1 {} 0 LoopDone) \<and> wm_watchers (demo_stopped {} 1 {} 0 LoopDone) = []
    \<and> wm_open (demo_stopped {} 1 {} 0 LoopDone) \<subseteq> wm_late (demo_stopped {} 1 {} 0 LoopDone)"
  using shutdown_leaves_late_clients [OF demo_left] demo_left by (simp add: demo_stopped_def demo_loop_def wound_down_def)

theorem retired_loop_ends_witness:
  "\<exists>m'. loop_step 1000 0 (demo_stopped {} 1 {} 0 Resting) m'"
  using retired_loop_ends [of "demo_stopped {} 1 {} 0 Resting" 0 "demo_loop True 0 Resting" 1000]
  by (simp add: demo_stopped_def demo_loop_def)

subsection \<open>The backoff\<close>

lemma fl_int64_pow:
  "fl_int64 (2 ^ k) = (if k < 63 then 2 ^ k else - (2 ^ 63))"
proof -
  have "fl_truncate (2 ^ k) = 2 ^ k" unfolding fl_truncate_def by (simp add: floor_of_int [symmetric] del: floor_of_int)
  moreover have "(2::int) ^ k < 2 ^ 63 \<longleftrightarrow> k < 63" by (rule power_strict_increasing_iff) simp
  moreover have "- (2 ^ 63) \<le> (2::int) ^ k" by (rule order_trans [of _ 0]) simp_all
  ultimately show ?thesis by (simp add: fl_int64_def Let_def)
qed

lemma sint_wrap: "sint (word_of_int x :: 64 word) = signed_take_bit 63 x"
  by (simp add: sint_sbintrunc')

text \<open>
  The delay before a connection is tried again doubles with every failure in a row up to half a
  minute, as long as the number of failures stays below fifty.
\<close>

theorem reconnect_delay_exact:
  assumes d: "0 \<le> d" "d < 2 ^ 15" and n: "0 < n" "n < 50"
  shows "reconnect_delay d n = min (d * 2 ^ (n - 1)) maxReconnectDelayMs \<and> 0 \<le> reconnect_delay d n"
proof -
  have "(2::int) ^ (n - 1) \<le> 2 ^ 48" using n by (intro power_increasing) auto
  then have "d * 2 ^ (n - 1) \<le> d * 2 ^ 48" using d by (intro mult_left_mono) auto
  also have "\<dots> < 2 ^ 15 * 2 ^ 48" using d by (intro mult_strict_right_mono) auto
  finally have less: "d * 2 ^ (n - 1) < 2 ^ 63" by simp
  have nonneg: "0 \<le> d * 2 ^ (n - 1)" using d by simp
  have "sint (word_of_int d * word_of_int (fl_int64 (2 ^ (n - 1))) :: 64 word) = d * 2 ^ (n - 1)"
  proof -
    have "fl_int64 (2 ^ (n - 1)) = 2 ^ (n - 1)" using n by (simp add: fl_int64_pow)
    then have "(word_of_int d * word_of_int (fl_int64 (2 ^ (n - 1))) :: 64 word) = word_of_int (d * 2 ^ (n - 1))"
      by (simp add: wi_hom_mult)
    moreover have "sint (word_of_int (d * 2 ^ (n - 1)) :: 64 word) = signed_take_bit 63 (d * 2 ^ (n - 1))"
      by (rule sint_wrap)
    moreover have "signed_take_bit 63 (d * 2 ^ (n - 1)) = d * 2 ^ (n - 1)"
      using less nonneg by (simp add: signed_take_bit_int_eq_self_iff)
    ultimately show ?thesis by simp
  qed
  then show ?thesis using nonneg by (simp add: reconnect_delay_def maxReconnectDelayMs_def)
qed

theorem reconnect_delay_exact_witness:
  "reconnect_delay 1000 3 = 4000 \<and> reconnect_delay 1000 49 = 30000"
  using reconnect_delay_exact [of 1000 3] reconnect_delay_exact [of 1000 49] by (simp add: maxReconnectDelayMs_def)

text \<open>Later the product of the default second wraps around, and from the 62nd failure there is no delay at all.\<close>

lemma backoff_lost:
  assumes "62 \<le> n"
  shows "reconnect_delay 1000 n = 0" "reconnect_delay 1000 55 < 0"
proof -
  have "(word_of_int 1000 * word_of_int (fl_int64 (2 ^ (n - 1))) :: 64 word) = 0"
  proof (cases "n - 1 < 63")
    case True
    then have "n - 1 = 61 \<or> n - 1 = 62" using assms by auto
    then show ?thesis by (auto simp: fl_int64_pow)
  next
    case False
    then show ?thesis by (simp add: fl_int64_pow)
  qed
  then show "reconnect_delay 1000 n = 0" by (simp add: reconnect_delay_def maxReconnectDelayMs_def)
  have "fl_int64 (2 ^ (55 - 1)) = 2 ^ 54" by (subst fl_int64_pow) simp
  then have "(word_of_int 1000 * word_of_int (fl_int64 (2 ^ (55 - 1))) :: 64 word) = word_of_int (1000 * 2 ^ 54)" by simp
  then show "reconnect_delay 1000 55 < 0" unfolding reconnect_delay_def sint_wrap by (simp add: sint_wrap)
qed

end
