(* ===== verification/Spec2Isabelle.thy ===== *)
theory Spec2Isabelle
  imports EventLifecycle EventDelivery EventQueue ScopeContract AgentContract OrchestratorContract PlanContract
    Gate TurnCompletion IndexLaws ReconcilerLaws JsonLines ConfigLaws RpcConnection RpcLaws
    HistoryRedactLaws HistoryCompactLaws HistoryProtoLaws HistoryDiscoveryLaws HistoryServiceLaws
    WatchLaws
begin

text \<open>
  Herdsman is a daemon that watches the coding agents running in the panes of a terminal
  multiplexer (Herdr), records what happens to them as events in one SQLite database, and hands
  the events to the pane that orchestrates a workspace. This development models the part of it
  (Go, \<open>go/internal\<close>) that decides which event exists, who may receive it, and when it is settled.

  \<^bold>\<open>The program and its parts.\<close> The event store (\<open>db/agent_events.go\<close>) holds a queue of events with a
  delivery status. The agent index (\<open>db/agents.go\<close>) holds the agents seen in the panes; scans of the
  multiplexer reconcile it and close panes, which settles their events. The scope store
  (\<open>db/agent_orchestrator_scopes.go\<close>) records which terminal owns the orchestration of a workspace
  and up to which event it has acknowledged. The plan store (\<open>db/status_event_plans.go\<close>) queues what
  still has to be found out about a status change, with a budget of attempts. The orchestrator
  service (\<open>observability/agent_orchestrator_service.go\<close>) claims, releases and moves ownership, hands
  out pending events and accepts acknowledgements. The index service
  (\<open>observability/agent_index_*.go\<close>) turns scans and status events into index rows, plans and events,
  reading the turns of an agent from its history; the context service
  (\<open>observability/agent_context_service.go\<close>) takes the workspace snapshots. Below them lie the
  transactions (\<open>shared/sqlite_transaction.go\<close>), the gate that admits one database user at a time
  (\<open>shared/sqlite_gate.go\<close>) and the framing of requests (\<open>shared/json_lines.go\<close>); around them the
  reconciler of the daemon (\<open>daemon/agent_event_reconciler.go\<close>), which repairs what the event stream
  missed, and the configuration (\<open>config\<close>). In front of them all is the observability server
  (\<open>daemon/observability_server.go\<close> and \<open>observability_server_handlers.go\<close>): terminals connect to its
  socket, register who they are, claim workspaces, receive events and acknowledge them. What an agent
  has answered is read from the files the agents themselves write (\<open>agenthistory\<close>): the JSON lines of
  pi and the SQLite conversations of agy, found from what Herdr reports about a pane, redacted, and
  shortened; the daemon uses them through \<open>daemon/agent_history_adapter.go\<close>. What Herdr reports
  arrives through the watch manager (\<open>daemon/herdr_session_watch_manager.go\<close>), which keeps one subscription
  per running session and calls the index service for what it receives.

  \<^bold>\<open>How code is rendered.\<close> A Go method that reads or writes shared state is an action on \<open>world\<close>
  (tables, open transaction, clocks, titles, uuids) with an error or a value as its result; a panic
  is an error too. Every SQL statement is one \<open>exec_sql\<close>, which consults the fault schedule
  \<open>w_faults\<close>: a theorem about all worlds is a theorem about every pattern of driver failures. SQL
  conditions are predicates on row records, in the order of the clauses; constraints and cascades
  of \<open>db/schema.go\<close> are part of the statements that can trip them. Rows keep the scan order of a
  table by insertion; queries sort where the SQL does. Integers are mathematical, as no modelled
  value comes near 64 bits (milliseconds, row ids, attempt counts). The file system is a parameter
  (\<open>w_evalSymlinks\<close>), as are the wall clock, the random uuids, the history service and the Herdr
  client the index service calls, what other goroutines do between two of its calls, the JSON
  codec, the YAML parser and \<open>ParseFloat\<close>; for the server the answers of Herdr about a pane, the pid
  behind a connection, \<open>/proc\<close> and the reader of histories; for the history readers the record
  \<open>history_platform\<close> (files and links, SQLite queries, environment, clock, the JSON codec, the order in
  which Go ranges over a map) and the cache. A critical section of the server lock is
  one action on \<open>rpc_state\<close>, which holds the store as \<open>sx_index\<close>; a Go map the code ranges over is an
  association list, its order standing for the iteration order.

  \<^bold>\<open>Theories.\<close>
  \<^item> \<open>Effects\<close>: actions, the loops of the code, the preorder rules (\<open>moves\<close>) every invariant proof
    uses, statements over lists of rows.
  \<^item> \<open>Contracts\<close>: the enums, records and JSON values of \<open>observability/contracts.go\<close>, \<open>errors.go\<close>,
    \<open>interactive_pi.go\<close> and the history predicates of \<open>agent_index_types.go\<close>.
  \<^item> \<open>Database\<close>: the tables, one statement, \<open>RunSqliteTransaction\<close>, and the locales that lift a
    relation between tables from statements to transactions under faults.
  \<^item> \<open>Strconv\<close>: decimal formatting and parsing, with the round trip the persisted clock needs.
  \<^item> \<open>EventStore\<close>, \<open>ScopeStore\<close>, \<open>AgentStore\<close>, \<open>PlanStore\<close>, \<open>ScanStores\<close>: one definition per method of
    the stores; the last holds the session, workspace, snapshot and history-cache tables.
  \<^item> \<open>Orchestrator\<close>: the service over records of store operations, as the Go interfaces have it.
  \<^item> \<open>ContextService\<close>; \<open>IndexTypes\<close>, \<open>IndexState\<close>, \<open>IndexPlans\<close>, \<open>IndexSalvage\<close>, \<open>IndexEvents\<close>,
    \<open>IndexAppend\<close>, \<open>IndexRuns\<close>, \<open>IndexService\<close>: the context and index services, bottom up (value
    types, memory of the service, plan outcomes, salvage of late answers, status events, appends,
    plan runs, sessions and scans).
  \<^item> \<open>TurnCompletion\<close>: the registry of finished turns. \<open>Gate\<close>: the gate as a step relation over its
    waiting callers. \<open>JsonLines\<close>: reading and writing frames.
  \<^item> \<open>HerdrSession\<close>: the answers of the multiplexer (\<open>herdr/session_list.go\<close>,
    \<open>pane_identity_resolver.go\<close>, \<open>session_snapshot.go\<close>). \<open>Reconciler\<close>: the reconciler over them.
  \<^item> \<open>Config\<close>, \<open>ConfigRuntime\<close>: the schema, the loader and the values the daemon runs with.
  \<^item> \<open>RpcSchemas\<close> (\<open>observability/schemas.go\<close>): what a request may look like. \<open>PeerCredentials\<close>
    (\<open>shared/unix_peercred.go\<close>): which pane a client process belongs to. \<open>RpcConnection\<close>: the send
    queue of a connection as a step relation over its goroutines. \<open>RpcServer\<close>, \<open>RpcRouting\<close>,
    \<open>RpcHandlers\<close>: registries and leases, routing and timers, the methods.
  \<^item> \<open>HistoryText\<close>, \<open>HistoryRedact\<close>: strings as the runes Go ranges over, and the redaction with the
    regular expressions of the package. \<open>HistoryProto\<close>: the protobuf blobs of agy. \<open>HistoryCompact\<close>: the
    shortening of tool results. \<open>HistoryReaders\<close>, \<open>HistoryAgy\<close>: the two readers and the compact history.
    \<open>HistoryDiscovery\<close>: which file belongs to a pane. \<open>HistoryService\<close>: the service with its cache, and
    the adapter.
  \<^item> \<open>WatchLoop\<close>: what one subscription of the watch manager does. \<open>WatchManager\<close>: its watchers, rescans,
    ticks and shutdown as a step relation over the sections of its mutex.
  \<^item> \<open>Samples\<close>, \<open>RpcSamples\<close>: concrete states and runs for the witnesses.
  \<^item> \<open>EventLifecycle\<close>, \<open>EventDelivery\<close>, \<open>EventQueue\<close>, \<open>ScopeContract\<close>, \<open>AgentContract\<close>,
    \<open>PlanContract\<close>, \<open>ScanContract\<close>, \<open>OrchestratorLaws\<close>, \<open>OrchestratorContract\<close>, \<open>IndexContract\<close>,
    \<open>IndexLaws\<close>, \<open>ReconcilerLaws\<close>, \<open>ConfigLaws\<close>, \<open>RpcContract\<close>, \<open>RpcOwnership\<close>, \<open>RpcLaws\<close>,
    \<open>HistoryRedactLaws\<close>, \<open>HistoryCompactLaws\<close>, \<open>HistoryProtoLaws\<close>, \<open>HistoryDiscoveryLaws\<close>,
    \<open>HistoryServiceLaws\<close>, \<open>WatchLaws\<close>: the properties, below.

  \<^bold>\<open>What is shown.\<close>
  \<^item> Life cycle: the event table stays well formed along every run of the store with faults and
    restarts; settled outcomes are final; what an event says never changes; a failing transaction
    changes nothing durable.
  \<^item> Delivery: reservation, reclaim and pane closing are equal to one-pass descriptions of what each
    row becomes; the delivery predicate admits only events that are safe to hand out; while no
    write fails, the logical clock never runs backwards in a process and resumes from its persisted
    value after a crash, less than a minute behind.
  \<^item> Queue: an idempotency key is appended once; the paged scan equals one pass over the table.
  \<^item> Scopes: the table is a map from scopes to cursor and owner, and claim, release, move and ack are
    point updates of it for the owner only.
  \<^item> Index: identities stay unique and references resolve along every run of index and event store
    together; a retired pane is closed. A scan that reports a moved agent and a terminal-less
    newcomer in its old pane loses one of them (\<open>ReplaceForSession_collapses_agents\<close>).
  \<^item> Plans: every row has a legal phase, attempt count and key along every run; a retry is a point
    update; a plan that is retried over and over fails after its budget; a key is planned once.
    Snapshots read back as they were put.
  \<^item> Service: under the laws of the store interfaces (locale \<open>orchestrator_stores\<close>, interpreted on the
    modelled stores), events go to the owner only, an accepted acknowledgement settles exactly the
    rows it names, a rejected one nothing, and claiming keeps the cursor. An acknowledgement can
    settle an event that was never handed out (\<open>Ack_swallows_pending\<close>).
  \<^item> Index service: all the invariants of the stores survive every call of the service, whatever the
    history service and the other goroutines do; the body of a finished turn is a finished answer or an
    emptied one that says why, unless the run was aborted; polling a running turn ends; an event that was discarded is never
    reported missing.
  \<^item> Reconciler: a sweep ends, is equal to a one-pass description of the rows it visits, and does
    nothing when a session could not be read. The rule that keeps completions of the last five minutes
    never applies, as the age is subtracted twice (\<open>reconcile_never_fresh\<close>).
  \<^item> Gate: at most one caller holds it, and when it is free a waiting caller can enter with one or two
    steps of its own, without a timer. Turn completion: a signal is
    consumed once. Frames: whatever the chunks of the socket, the frames read are those written.
  \<^item> Observability server: the server is a step relation whose steps are the sections of its lock
    (\<open>rpc_step\<close>: requests, registrations in progress, timers, scans, failing writes, shutdown, and
    whatever the stores do meanwhile). Along every run its registries agree; a connected owner keeps
    its workspace whatever other terminals ask for; an event goes to one connection only, the newest
    of the terminal that owns the workspace, and reaches it when the store works; a grace timer spares
    a terminal that is back; a connection that has not registered is refused; frames leave in the order
    they were appended. A terminal that owns two workspaces can lose one of its startup timers
    (\<open>startup_timer_survives_reconnect\<close>).
  \<^item> Histories: a discovered file is one the daemon owns and nobody else can write, and an identifier
    never leads out of the conversation directories; a failed lookup is remembered with its time and not
    repeated for a minute, within a bounded memory. The history served is what the reader reads from the file it names, or was cached for the
    same state of that file. JSON lines give exactly the records of their window; varints and the
    fields of a protobuf blob are read back as encoded (fixed-width values as 0), and a step decodes to the text of its envelope; an answer of agy
    counts only behind the last turn of the user. A redacted text holds no \<open>sk-\<close> token; a compacted tool
    result is bounded, by two more than the limit (\<open>truncation_overshoots\<close>). The two copies of the
    progress check agree.
  \<^item> Watch manager: along every run a session has one watcher; the loop of a retired one ends; a shutdown
    leaves no watcher and no client but those that a loop had dialled too late (\<open>late_client_leaks\<close>). The
    backoff is exact below fifty failures (\<open>reconnect_delay_exact\<close>) and lost from the 62nd on
    (\<open>backoff_lost\<close>).
  \<^item> Configuration: the loader accepts exactly what the schema describes, integers rounded to
    \<open>float64\<close> first, and every accepted value is in the range the daemon needs, but for a backoff factor
    that is infinite or not a number.

  \<^bold>\<open>Bounds and fuel.\<close> \<open>scan_pages\<close> takes the 50 pages of 1000 rows of the code as its argument.
  \<open>pending_loop\<close> runs with fuel 1001: at most 1000 events are scanned and every round scans one or
  more, so more fuel changes nothing (\<open>Pending_scan_terminates\<close>). Polling a running turn has 10
  rounds, reading a history 8, both constants of the code; the sweep of the reconciler has one round
  per row and one more, shown enough by \<open>reconcile_sweep_terminates\<close>. The history functions recurse over
  what they read and need no fuel; the varint loop ends with its shift.

  \<^bold>\<open>What is not modelled.\<close> The hook processes and the wake waiter (\<open>agy\<close>), the daemon's process
  manager and wiring, the socket client of \<open>herdr\<close>, the command line (\<open>cli\<close>) and the
  database client with its migrations are not part of the model. Of the index service, the sharing of
  a refresh already in flight and the tails of a running history are left out; of the server, the
  listener and its socket file; of the watch manager, a second \<open>Start\<close> while a rescan runs, the wait of
  \<open>Stop\<close> for running plans, and an index service without the fast methods. The files a history is read from are taken not to change during one
  lookup or read. In the daemon the statements of different callers can interleave between
  transactions; here an operation is one uninterrupted action, except where it takes what others do
  meanwhile as a parameter, and a run is a sequence of operations. Log lines are left out.
\<close>

end
